(* ===== verification/GoStrings.thy ===== *)
theory GoStrings
  imports Prelude
begin

section \<open>The Go string library, as the program uses it\<close>

text \<open>
  A Go string is a sequence of bytes: a \<open>char list\<close>, whose order (from
  \<open>List_Lexorder\<close> and \<open>Char_ord\<close>) is Go's byte-wise order. The functions below
  model \<open>strings\<close>, \<open>strconv\<close> and \<open>path\<close> at the arguments the program gives them.
  A loop over runes that only compares with ASCII characters is a test on bytes: every
  byte of a multi-byte or invalid sequence is at least 128.
\<close>

subsection \<open>Characters\<close>

definition code :: "char \<Rightarrow> nat" where
  "code c = of_char c"

definition is_digit :: "char \<Rightarrow> bool" where
  "is_digit c \<longleftrightarrow> 48 \<le> code c \<and> code c \<le> 57"

definition is_lower :: "char \<Rightarrow> bool" where
  "is_lower c \<longleftrightarrow> 97 \<le> code c \<and> code c \<le> 122"

definition is_upper :: "char \<Rightarrow> bool" where
  "is_upper c \<longleftrightarrow> 65 \<le> code c \<and> code c \<le> 90"

definition is_alnum :: "char \<Rightarrow> bool" where
  "is_alnum c \<longleftrightarrow> is_digit c \<or> is_lower c \<or> is_upper c"

lemma code_less_256: "code c < 256"
  by (simp add: code_def)

lemma code_inject [simp]: "code c = code d \<longleftrightarrow> c = d"
  by (simp add: code_def)

text \<open>\<open>strings.ToLower\<close> on the ASCII range, the only one the callers accept afterwards.\<close>

definition to_lower_char :: "char \<Rightarrow> char" where
  "to_lower_char c = (if is_upper c then char_of (code c + 32) else c)"

definition to_lower :: "string \<Rightarrow> string" where
  "to_lower s = map to_lower_char s"

subsection \<open>White space\<close>

text \<open>
  The UTF-8 encodings of the runes with \<open>unicode.IsSpace\<close>. Scanning bytes for them is
  scanning runes for white space: an encoding starts with an ASCII byte or a lead byte,
  and no other rune contains a lead byte after its first byte.
\<close>

definition space_encodings :: "string list" where
  "space_encodings =
     map (map char_of)
      ([[9], [10], [11], [12], [13], [32], [194, 133], [194, 160], [225, 154, 128]]
       @ map (\<lambda>n. [226, 128, n]) [128, 129, 130, 131, 132, 133, 134, 135, 136, 137, 138, 168, 169, 175]
       @ [[226, 129, 159], [227, 128, 128 :: nat]])"

definition strip1 :: "string list \<Rightarrow> string \<Rightarrow> string option" where
  "strip1 encs s =
     (case find (\<lambda>p. p \<noteq> [] \<and> take (length p) s = p) encs of
        None \<Rightarrow> None | Some p \<Rightarrow> Some (drop (length p) s))"

lemma strip1_length: "strip1 encs s = Some t \<Longrightarrow> length t < length s"
proof -
  assume "strip1 encs s = Some t"
  then obtain p where p: "p \<noteq> []" "take (length p) s = p" and t: "t = drop (length p) s"
    by (auto simp: strip1_def find_Some_iff split: option.splits)
  have "length p \<le> length s"
    using p(2) by (metis length_take min.cobounded1 nat_le_linear)
  with p(1) t show ?thesis by (cases p) auto
qed

function strip_all :: "string list \<Rightarrow> string \<Rightarrow> string" where
  "strip_all encs s = (case strip1 encs s of None \<Rightarrow> s | Some t \<Rightarrow> strip_all encs t)"
  by pat_completeness auto
termination
  by (relation "measure (\<lambda>(encs, s). length s)") (auto dest: strip1_length)

declare strip_all.simps [simp del]

definition trim_left :: "string \<Rightarrow> string" where
  "trim_left s = strip_all space_encodings s"

definition trim_right :: "string \<Rightarrow> string" where
  "trim_right s = rev (strip_all (map rev space_encodings) (rev s))"

definition trim_space :: "string \<Rightarrow> string" where
  "trim_space s = trim_right (trim_left s)"

text \<open>A byte that begins or ends no white-space rune.\<close>

definition solid :: "char \<Rightarrow> bool" where
  "solid c \<longleftrightarrow> 32 < code c \<and> code c < 128"

lemma strip1_None:
  assumes "\<And>p. p \<in> set encs \<Longrightarrow> p \<noteq> [] \<Longrightarrow> s \<noteq> [] \<Longrightarrow> hd p \<noteq> hd s"
  shows "strip1 encs s = None"
proof -
  have "\<not> (\<exists>p \<in> set encs. p \<noteq> [] \<and> take (length p) s = p)"
  proof
    assume "\<exists>p \<in> set encs. p \<noteq> [] \<and> take (length p) s = p"
    then obtain p where p: "p \<in> set encs" "p \<noteq> []" "take (length p) s = p" by blast
    then have "s \<noteq> []" by auto
    moreover have "hd p = hd s"
      using p(2,3) by (metis hd_take length_greater_0_conv)
    ultimately show False using assms p by blast
  qed
  then have "find (\<lambda>p. p \<noteq> [] \<and> take (length p) s = p) encs = None"
    by (simp only: find_None_iff) blast
  then show ?thesis by (simp add: strip1_def)
qed

lemma hd_space_encoding:
  assumes "p \<in> set space_encodings"
  shows "p \<noteq> [] \<and> \<not> solid (hd p) \<and> \<not> solid (last p)"
proof -
  have "list_all (\<lambda>p. p \<noteq> [] \<and> \<not> solid (hd p) \<and> \<not> solid (last p)) space_encodings"
    by (simp add: space_encodings_def solid_def code_def)
  with assms show ?thesis by (simp add: list_all_iff)
qed

lemma trim_left_solid:
  assumes "s = [] \<or> solid (hd s)"
  shows "trim_left s = s"
proof -
  have "strip1 space_encodings s = None"
    using assms hd_space_encoding by (intro strip1_None) metis
  then show ?thesis
    by (simp add: trim_left_def strip_all.simps[of _ s])
qed

lemma trim_right_solid:
  assumes "s = [] \<or> solid (last s)"
  shows "trim_right s = s"
proof -
  have "strip1 (map rev space_encodings) (rev s) = None"
    using assms hd_space_encoding
    by (intro strip1_None) (auto simp: hd_rev, metis)
  then show ?thesis
    by (simp add: trim_right_def strip_all.simps[of _ "rev s"])
qed

lemma trim_space_solid:
  "s = [] \<or> (solid (hd s) \<and> solid (last s)) \<Longrightarrow> trim_space s = s"
  by (auto simp: trim_space_def trim_left_solid trim_right_solid)

lemma trim_space_Nil [simp]: "trim_space [] = []"
  by (simp add: trim_space_solid)

lemma strip_all_None: "strip1 encs (strip_all encs s) = None"
proof (induction encs s rule: strip_all.induct)
  case (1 encs s)
  then show ?case by (simp add: strip_all.simps[of encs s] split: option.splits)
qed

lemma strip1_None_iff: "strip1 encs s = None \<longleftrightarrow> (\<forall>p\<in>set encs. p \<noteq> [] \<longrightarrow> take (length p) s \<noteq> p)"
proof -
  have "strip1 encs s = None \<longleftrightarrow> find (\<lambda>p. p \<noteq> [] \<and> take (length p) s = p) encs = None"
    by (auto simp: strip1_def split: option.splits)
  then show ?thesis unfolding find_None_iff by blast
qed

lemma strip1_None_prefix: "strip1 encs (u @ w) = None \<Longrightarrow> strip1 encs u = None"
proof -
  assume none: "strip1 encs (u @ w) = None"
  have "take (length p) u \<noteq> p" if "p \<in> set encs" "p \<noteq> []" for p
  proof
    assume p: "take (length p) u = p"
    then have "length p \<le> length u" by (metis length_take min.cobounded1 nat_le_linear)
    then have "take (length p) (u @ w) = p" using p by simp
    then show False using none that unfolding strip1_None_iff by blast
  qed
  then show ?thesis by (simp add: strip1_None_iff)
qed

lemma strip_all_suffix: "\<exists>w. s = w @ strip_all encs s"
proof (induction encs s rule: strip_all.induct)
  case (1 encs s)
  show ?case
  proof (cases "strip1 encs s")
    case None
    then show ?thesis by (simp add: strip_all.simps[of encs s])
  next
    case (Some t)
    then obtain p where "s = p @ t"
      by (auto simp: strip1_def find_Some_iff split: option.splits) (metis append_take_drop_id)
    moreover obtain w where "t = w @ strip_all encs t" using 1 Some by blast
    ultimately show ?thesis using Some
      by (metis append.assoc option.simps(5) strip_all.simps)
  qed
qed

lemma trim_space_idem [simp]: "trim_space (trim_space s) = trim_space s"
proof -
  define t where "t = trim_left s"
  define u where "u = trim_right t"
  have t: "strip1 space_encodings t = None" by (simp add: t_def trim_left_def strip_all_None)
  obtain w where "rev t = w @ rev u"
    using strip_all_suffix[of "rev t" "map rev space_encodings"] by (auto simp: u_def trim_right_def)
  then have "t = u @ rev w" by (metis rev_append rev_rev_ident)
  then have "strip1 space_encodings u = None" using strip1_None_prefix t by metis
  then have left: "trim_left u = u" by (simp add: trim_left_def strip_all.simps[of _ u])
  have "strip1 (map rev space_encodings) (rev u) = None"
    by (simp add: u_def trim_right_def strip_all_None)
  then have "trim_right u = u" by (simp add: trim_right_def strip_all.simps[of _ "rev u"])
  then show ?thesis using left by (simp add: trim_space_def t_def[symmetric] u_def[symmetric])
qed

subsection \<open>Cut, split, join, prefixes\<close>

definition value_or :: "string \<Rightarrow> string \<Rightarrow> string" where
  "value_or v fallback = (if v = [] then fallback else v)"

fun cut :: "char \<Rightarrow> string \<Rightarrow> string \<times> string \<times> bool" where
  "cut c [] = ([], [], False)"
| "cut c (x # xs) =
     (if x = c then ([], xs, True)
      else (case cut c xs of (a, b, found) \<Rightarrow> (x # a, b, found)))"

fun split_on :: "char \<Rightarrow> string \<Rightarrow> string list" where
  "split_on c [] = [[]]"
| "split_on c (x # xs) =
     (if x = c then [] # split_on c xs
      else (case split_on c xs of [] \<Rightarrow> [[x]] | p # ps \<Rightarrow> (x # p) # ps))"

fun join :: "string \<Rightarrow> string list \<Rightarrow> string" where
  "join sep [] = []"
| "join sep [x] = x"
| "join sep (x # y # ys) = x @ sep @ join sep (y # ys)"

definition has_prefix :: "string \<Rightarrow> string \<Rightarrow> bool" where
  "has_prefix s p \<longleftrightarrow> take (length p) s = p"

definition has_suffix :: "string \<Rightarrow> string \<Rightarrow> bool" where
  "has_suffix s p \<longleftrightarrow> has_prefix (rev s) (rev p)"

definition trim_prefix :: "string \<Rightarrow> string \<Rightarrow> string" where
  "trim_prefix s p = (if has_prefix s p then drop (length p) s else s)"

definition trim_suffix :: "string \<Rightarrow> string \<Rightarrow> string" where
  "trim_suffix s p = (if has_suffix s p then take (length s - length p) s else s)"

fun contains :: "string \<Rightarrow> string \<Rightarrow> bool" where
  "contains [] p = (p = [])"
| "contains (x # xs) p = (has_prefix (x # xs) p \<or> contains xs p)"

text \<open>\<open>strings.Index\<close>: the parts before and after the first occurrence.\<close>

fun split_at :: "string \<Rightarrow> string \<Rightarrow> (string \<times> string) option" where
  "split_at sep [] = (if sep = [] then Some ([], []) else None)"
| "split_at sep (c # cs) =
     (if has_prefix (c # cs) sep then Some ([], drop (length sep) (c # cs))
      else map_option (\<lambda>(a, b). (c # a, b)) (split_at sep cs))"

text \<open>\<open>strings.LastIndex\<close>, by searching the reversed string.\<close>

definition split_at_last :: "string \<Rightarrow> string \<Rightarrow> (string \<times> string) option" where
  "split_at_last sep s = map_option (\<lambda>(a, b). (rev b, rev a)) (split_at (rev sep) (rev s))"

lemma has_prefix_iff: "has_prefix s p \<longleftrightarrow> (\<exists>t. s = p @ t)"
  by (metis append_eq_conv_conj append_take_drop_id has_prefix_def)

lemma has_suffix_iff: "has_suffix s p \<longleftrightarrow> (\<exists>t. s = t @ p)"
  by (metis has_prefix_iff has_suffix_def rev_append rev_rev_ident)

lemma contains_iff: "contains s p \<longleftrightarrow> (\<exists>a b. s = a @ p @ b)"
proof (induction s)
  case Nil
  then show ?case by auto
next
  case (Cons x xs)
  show ?case
  proof
    assume "contains (x # xs) p"
    then show "\<exists>a b. x # xs = a @ p @ b"
      by (metis Cons.IH append_Cons append_Nil contains.simps(2) has_prefix_iff)
  next
    assume "\<exists>a b. x # xs = a @ p @ b"
    then obtain a b where ab: "x # xs = a @ p @ b" by blast
    show "contains (x # xs) p"
    proof (cases a)
      case Nil
      with ab show ?thesis by (metis append_Nil contains.simps(2) has_prefix_iff)
    next
      case (Cons y ys)
      with ab Cons.IH show ?thesis by auto
    qed
  qed
qed

lemma cut_notin: "c \<notin> set s \<Longrightarrow> cut c s = (s, [], False)"
  by (induction s) auto

lemma cut_append: "c \<notin> set a \<Longrightarrow> cut c (a @ c # b) = (a, b, True)"
  by (induction a) auto

lemma cut_cases:
  obtains (found) a b where "s = a @ c # b" and "c \<notin> set a" and "cut c s = (a, b, True)"
  | (missing) "c \<notin> set s" and "cut c s = (s, [], False)"
  by (metis cut_append cut_notin split_list_first)

lemma cut_found: "cut c s = (a, b, True) \<longleftrightarrow> s = a @ c # b \<and> c \<notin> set a"
  by (rule cut_cases[of s c]) (metis Pair_inject cut_append, auto)

lemma cut_missing: "cut c s = (a, b, False) \<longleftrightarrow> a = s \<and> b = [] \<and> c \<notin> set s"
  by (rule cut_cases[of s c]) auto

lemma split_on_neq_Nil [simp]: "split_on c s \<noteq> []"
  by (induction s) (auto split: list.splits)

lemma split_on_notin: "c \<notin> set s \<Longrightarrow> split_on c s = [s]"
  by (induction s) auto

lemma split_on_append: "c \<notin> set a \<Longrightarrow> split_on c (a @ c # b) = a # split_on c b"
  by (induction a) auto

lemma split_on_parts: "p \<in> set (split_on c s) \<Longrightarrow> c \<notin> set p"
proof (induction s arbitrary: p)
  case Nil
  then show ?case by simp
next
  case (Cons x xs)
  then show ?case by (cases "split_on c xs") (auto split: if_splits)
qed

lemma join_split_on [simp]: "join [c] (split_on c s) = s"
proof (induction s)
  case Nil
  then show ?case by simp
next
  case (Cons x xs)
  then show ?case
    by (cases "split_on c xs"; cases "tl (split_on c xs)") auto
qed

lemma split_on_join:
  "ps \<noteq> [] \<Longrightarrow> (\<And>p. p \<in> set ps \<Longrightarrow> c \<notin> set p) \<Longrightarrow> split_on c (join [c] ps) = ps"
  by (induction "[c]" ps rule: join.induct) (auto simp: split_on_append split_on_notin)

lemma split_on_inject [simp]: "split_on c s = split_on c t \<longleftrightarrow> s = t"
  by (metis join_split_on)

lemma join_snoc: "ps \<noteq> [] \<Longrightarrow> join sep (ps @ [p]) = join sep ps @ sep @ p"
  by (induction sep ps rule: join.induct) auto

lemma join_in_set: "x \<in> set (join sep ps) \<Longrightarrow> x \<in> set sep \<or> (\<exists>p\<in>set ps. x \<in> set p)"
  by (induction sep ps rule: join.induct) auto

lemma in_set_join: "p \<in> set ps \<Longrightarrow> set p \<subseteq> set (join sep ps)"
  by (induction sep ps rule: join.induct) auto

lemma set_split_on: "p \<in> set (split_on c s) \<Longrightarrow> set p \<subseteq> set s"
  by (metis in_set_join join_split_on)

end
