(* ===== verification/GoNumbers.thy ===== *)
theory GoNumbers
  imports GoStrings
begin

section \<open>Decimal integers: \<open>strconv\<close> and \<open>%d\<close>\<close>

text \<open>
  \<open>ParseUint\<close>, \<open>ParseInt\<close> and \<open>Atoi\<close> in base 10 on 64 bits, and the decimal printing of
  integers. The round trip between the two, and the fact that the canonical numerals (no
  sign, no leading zero) are exactly the printed ones, are shared by every parser below.
\<close>

definition digit_val :: "char \<Rightarrow> nat" where
  "digit_val c = code c - 48"

definition digit_char :: "nat \<Rightarrow> char" where
  "digit_char n = char_of (48 + n)"

definition nat_of_digits :: "string \<Rightarrow> nat" where
  "nat_of_digits s = foldl (\<lambda>a c. 10 * a + digit_val c) 0 s"

fun show_nat :: "nat \<Rightarrow> string" where
  "show_nat n = (if n < 10 then [digit_char n] else show_nat (n div 10) @ [digit_char (n mod 10)])"

declare show_nat.simps [simp del]

definition show_int :: "int \<Rightarrow> string" where
  "show_int i = (if i < 0 then CHR ''-'' # show_nat (nat (- i)) else show_nat (nat i))"

definition all_digits :: "string \<Rightarrow> bool" where
  "all_digits s \<longleftrightarrow> s \<noteq> [] \<and> list_all is_digit s"

text \<open>A numeral without sign and without a leading zero.\<close>

definition canonical_nat :: "string \<Rightarrow> bool" where
  "canonical_nat s \<longleftrightarrow> all_digits s \<and> (length s > 1 \<longrightarrow> hd s \<noteq> CHR ''0'')"

definition parse_uint64 :: "string \<Rightarrow> 64 word option" where
  "parse_uint64 s =
     (if all_digits s \<and> nat_of_digits s < 2 ^ 64 then Some (word_of_nat (nat_of_digits s)) else None)"

definition parse_int64 :: "string \<Rightarrow> int option" where
  "parse_int64 s =
     (let neg = has_prefix s ''-'';
          digits = (if neg \<or> has_prefix s ''+'' then drop 1 s else s);
          n = int (nat_of_digits digits);
          v = (if neg then - n else n)
      in if all_digits digits \<and> int64 v then Some v else None)"

text \<open>The numbers that \<open>Atoi\<close> and \<open>ParseUint\<close> return even when they report an error: zero for a malformed
  text, the nearest representable number for one out of range.\<close>

definition atoi_value :: "string \<Rightarrow> int" where
  "atoi_value s =
     (let neg = has_prefix s ''-'';
          digits = (if neg \<or> has_prefix s ''+'' then drop 1 s else s);
          n = int (nat_of_digits digits)
      in if \<not> all_digits digits then 0 else max min_int64 (min max_int64 (if neg then - n else n)))"

definition uint_value :: "string \<Rightarrow> 64 word" where
  "uint_value s =
     (if \<not> all_digits s then 0 else if nat_of_digits s < 2 ^ 64 then word_of_nat (nat_of_digits s) else - 1)"

lemma atoi_value_parsed: "parse_int64 s = Some v \<Longrightarrow> atoi_value s = v"
  by (auto simp: atoi_value_def parse_int64_def int64_def Let_def split: if_splits)

lemma uint_value_parsed: "parse_uint64 s = Some w \<Longrightarrow> uint_value s = w"
  by (auto simp: uint_value_def parse_uint64_def split: if_splits)

lemma is_digit_digit_char [simp]: "n < 10 \<Longrightarrow> is_digit (digit_char n)"
  by (simp add: is_digit_def digit_char_def code_def)

lemma digit_val_char [simp]: "n < 10 \<Longrightarrow> digit_val (digit_char n) = n"
  by (simp add: digit_val_def digit_char_def code_def)

lemma digit_char_val: "is_digit c \<Longrightarrow> digit_char (digit_val c) = c"
  by (simp add: digit_val_def digit_char_def is_digit_def code_def)

lemma digit_val_less: "is_digit c \<Longrightarrow> digit_val c < 10"
  unfolding digit_val_def is_digit_def by arith

lemma digit_val_0: "is_digit c \<Longrightarrow> digit_val c = 0 \<longleftrightarrow> c = CHR ''0''"
proof -
  assume d: "is_digit c"
  have "digit_val c = 0 \<longleftrightarrow> code c = code (CHR ''0'')"
    using d by (auto simp: digit_val_def is_digit_def code_def)
  then show ?thesis by simp
qed

lemma nat_of_digits_Nil [simp]: "nat_of_digits [] = 0"
  by (simp add: nat_of_digits_def)

lemma nat_of_digits_snoc [simp]: "nat_of_digits (s @ [c]) = 10 * nat_of_digits s + digit_val c"
  by (simp add: nat_of_digits_def)

lemma nat_of_digits_single [simp]: "nat_of_digits [c] = digit_val c"
  by (simp add: nat_of_digits_def)

lemma nat_of_digits_show_nat [simp]: "nat_of_digits (show_nat n) = n"
  by (induction n rule: show_nat.induct) (subst show_nat.simps, auto)

lemma show_nat_neq_Nil [simp]: "show_nat n \<noteq> []"
  by (subst show_nat.simps) simp

lemma all_digits_show_nat [simp]: "all_digits (show_nat n)"
proof (induction n rule: show_nat.induct)
  case (1 n)
  then show ?case by (subst show_nat.simps) (auto simp: all_digits_def)
qed

lemma hd_show_nat: "0 < n \<Longrightarrow> hd (show_nat n) \<noteq> CHR ''0''"
proof (induction n rule: show_nat.induct)
  case (1 n)
  show ?case
  proof (cases "n < 10")
    case True
    with "1.prems" have "digit_char n \<noteq> CHR ''0''"
      by (metis digit_val_0 digit_val_char is_digit_digit_char less_numeral_extra(3))
    with True show ?thesis by (subst show_nat.simps) simp
  next
    case False
    with 1 show ?thesis by (subst show_nat.simps) auto
  qed
qed

lemma digit_char_table [go_simps]:
  "digit_char 0 = CHR ''0''" "digit_char 1 = CHR ''1''" "digit_char (Suc 0) = CHR ''1''"
  "digit_char 2 = CHR ''2''" "digit_char 3 = CHR ''3''" "digit_char 4 = CHR ''4''"
  "digit_char 5 = CHR ''5''" "digit_char 6 = CHR ''6''" "digit_char 7 = CHR ''7''"
  "digit_char 8 = CHR ''8''" "digit_char 9 = CHR ''9''"
  unfolding digit_char_def by (subst code_inject [symmetric], simp add: code_def)+

lemma show_nat_0 [simp]: "show_nat 0 = ''0''"
  by (subst show_nat.simps) (simp add: digit_char_table)

lemma canonical_show_nat [simp]: "canonical_nat (show_nat n)"
  using all_digits_show_nat[of n] hd_show_nat[of n]
  by (cases "n = 0") (auto simp: canonical_nat_def)

lemma nat_of_digits_pos:
  assumes "all_digits s" and "hd s \<noteq> CHR ''0''"
  shows "0 < nat_of_digits s"
  using assms
proof (induction s rule: rev_induct)
  case Nil
  then show ?case by (simp add: all_digits_def)
next
  case (snoc c s)
  then show ?case
    by (cases "s = []") (auto simp: all_digits_def digit_val_0 neq0_conv [symmetric] simp del: neq0_conv)
qed

lemma show_nat_of_digits:
  assumes "canonical_nat s"
  shows "show_nat (nat_of_digits s) = s"
  using assms
proof (induction s rule: rev_induct)
  case Nil
  then show ?case by (simp add: canonical_nat_def all_digits_def)
next
  case (snoc c s)
  then have c: "is_digit c" by (simp add: canonical_nat_def all_digits_def)
  show ?case
  proof (cases "s = []")
    case True
    with c show ?thesis
      by (subst show_nat.simps) (simp add: digit_char_val digit_val_less)
  next
    case False
    with snoc.prems have s: "canonical_nat s" and "hd s \<noteq> CHR ''0''"
      by (auto simp: canonical_nat_def all_digits_def)
    then have "0 < nat_of_digits s"
      using nat_of_digits_pos canonical_nat_def by blast
    with c s snoc.IH show ?thesis
      by (subst show_nat.simps) (simp add: digit_char_val digit_val_less)
  qed
qed

lemma canonical_nat_iff: "canonical_nat s \<longleftrightarrow> (\<exists>n. s = show_nat n)"
  by (metis canonical_show_nat show_nat_of_digits)

lemma show_nat_inject [simp]: "show_nat m = show_nat n \<longleftrightarrow> m = n"
  by (metis nat_of_digits_show_nat)

lemma digits_no_char: "all_digits s \<Longrightarrow> \<not> is_digit c \<Longrightarrow> c \<notin> set s"
  by (auto simp: all_digits_def list_all_iff)

lemma show_nat_table [go_simps]:
  "show_nat 0 = ''0''" "show_nat 1 = ''1''" "show_nat (Suc 0) = ''1''" "show_nat 2 = ''2''"
  "show_nat 3 = ''3''" "show_nat 4 = ''4''" "show_nat 5 = ''5''" "show_nat 6 = ''6''"
  "show_nat 7 = ''7''" "show_nat 8 = ''8''" "show_nat 9 = ''9''"
  by (subst show_nat.simps, simp add: digit_char_table)+

lemma nat_of_digits_bound: "list_all is_digit s \<Longrightarrow> nat_of_digits s < 10 ^ length s"
proof (induction s rule: rev_induct)
  case (snoc c s)
  then show ?case using digit_val_less[of c] by auto
qed simp

lemma nat_of_digits_append:
  "nat_of_digits (s @ t) = nat_of_digits s * 10 ^ length t + nat_of_digits t"
proof (induction t rule: rev_induct)
  case (snoc c t)
  show ?case
    using snoc.IH nat_of_digits_snoc[of "s @ t" c] by (simp add: algebra_simps)
qed simp

lemma nat_of_digits_Cons:
  "nat_of_digits (c # s) = digit_val c * 10 ^ length s + nat_of_digits s"
  using nat_of_digits_append[of "[c]" s] by simp

lemma nat_of_digits_lower:
  assumes "list_all is_digit (c # s)" and "c \<noteq> CHR ''0''"
  shows "10 ^ length s \<le> nat_of_digits (c # s)"
proof -
  have "digit_val c \<noteq> 0" using assms digit_val_0[of c] by simp
  then show ?thesis by (cases "digit_val c") (simp_all add: nat_of_digits_Cons)
qed

lemma length_show_nat: "n < 10 ^ k \<Longrightarrow> 0 < k \<Longrightarrow> length (show_nat n) \<le> k"
proof (cases "n = 0")
  case False
  assume n: "n < 10 ^ k"
  obtain c s where s: "show_nat n = c # s" by (cases "show_nat n") auto
  have "list_all is_digit (c # s)" "c \<noteq> CHR ''0''"
    using all_digits_show_nat[of n] hd_show_nat[of n] False by (simp_all add: s all_digits_def)
  then have "10 ^ length s \<le> n" using nat_of_digits_lower[of c s] nat_of_digits_show_nat[of n] by (simp add: s)
  then have "(10::nat) ^ length s < 10 ^ k" using n by (rule le_less_trans)
  then have "length s < k" using power_less_imp_less_exp[of "10::nat" "length s" k] by simp
  then show ?thesis by (simp add: s)
qed simp

lemma parse_uint64_show [simp]: "n < 2 ^ 64 \<Longrightarrow> parse_uint64 (show_nat n) = Some (word_of_nat n)"
  by (simp add: parse_uint64_def)

lemma unat64_bound [simp]: "unat (w :: 64 word) < 18446744073709551616"
  using unsigned_less[of w] by simp

lemma parse_uint64_unat: "parse_uint64 (show_nat (unat w)) = Some w"
  by (simp add: parse_uint64_def)

lemma parse_uint64_Some:
  "parse_uint64 s = Some w \<longleftrightarrow> all_digits s \<and> nat_of_digits s < 2 ^ 64 \<and> unat w = nat_of_digits s"
  by (auto simp: parse_uint64_def unat_of_nat word_unat_eq_iff)

lemma no_sign_digits: "all_digits s \<Longrightarrow> \<not> has_prefix s ''-'' \<and> \<not> has_prefix s ''+''"
  by (cases s) (auto simp: has_prefix_def all_digits_def is_digit_def code_def)

lemma parse_int64_digits:
  "all_digits s \<Longrightarrow>
     parse_int64 s = (if int (nat_of_digits s) \<le> max_int64 then Some (int (nat_of_digits s)) else None)"
  using no_sign_digits[of s]
  by (auto simp: parse_int64_def int64_def min_int64_def Let_def)

lemma parse_int64_int64: "parse_int64 s = Some v \<Longrightarrow> int64 v"
  by (auto simp: parse_int64_def Let_def split: if_splits)

lemma parse_int64_show_int [simp]: "int64 v \<Longrightarrow> parse_int64 (show_int v) = Some v"
  using no_sign_digits[of "show_nat (nat v)"]
  by (auto simp: parse_int64_def show_int_def Let_def has_prefix_def)

end
