(* ===== verification/Float64.thy ===== *)
theory Float64
  imports Complex_Main Prelude
begin

section \<open>IEEE 754 binary64, as Go's \<open>float64\<close>\<close>

text \<open>
  A value is NaN, an infinity or a rational number; arithmetic is exact arithmetic followed
  by rounding to 53 significant bits (ties to even), with gradual underflow to multiples of
  \<open>2^-1074\<close> and overflow to infinity from \<open>2^1024\<close> on. The two zeros are one value: no
  code modelled here divides by a zero it has not excluded, and comparison does not tell
  them apart. The instance of \<open>linorder\<close> is the order \<open>sort.Float64s\<close> uses (NaN first);
  Go's comparison operators are \<open>f_less\<close> and its companions, which are false on NaN.
\<close>

datatype f64 = NaN | Inf bool | Fin rat  \<comment> \<open>\<open>Inf True\<close> is the negative infinity\<close>

subsection \<open>Rounding\<close>

fun nat_log2 :: "nat \<Rightarrow> nat" where
  "nat_log2 n = (if n < 2 then 0 else Suc (nat_log2 (n div 2)))"

declare nat_log2.simps [simp del]

text \<open>The exponent of a positive rational: \<open>2^k \<le> x < 2^(k+1)\<close>.\<close>

definition floor_log2 :: "rat \<Rightarrow> int" where
  "floor_log2 x =
     (case quotient_of x of (n, d) \<Rightarrow>
        let k = int (nat_log2 (nat n)) - int (nat_log2 (nat d))
        in if 2 powi k \<le> x then k else k - 1)"

definition round_half_even :: "rat \<Rightarrow> int" where
  "round_half_even x =
     (let f = \<lfloor>x\<rfloor>; d = x - of_int f
      in if d < 1 / 2 then f else if d > 1 / 2 then f + 1 else if even f then f else f + 1)"

definition ulp_exponent :: "rat \<Rightarrow> int" where
  "ulp_exponent x = max (floor_log2 x - 52) (-1074)"

definition round_magnitude :: "rat \<Rightarrow> rat" where
  "round_magnitude x =
     (let u = 2 powi ulp_exponent x in of_int (round_half_even (x / u)) * u)"

definition rnd :: "rat \<Rightarrow> f64" where
  "rnd x =
     (if x = 0 then Fin 0
      else let m = round_magnitude \<bar>x\<bar>
           in if m \<ge> 2 ^ 1024 then Inf (x < 0) else Fin (sgn x * m))"

subsection \<open>Arithmetic and comparison\<close>

fun f_add :: "f64 \<Rightarrow> f64 \<Rightarrow> f64" where
  "f_add (Fin x) (Fin y) = rnd (x + y)"
| "f_add (Fin x) (Inf s) = Inf s"
| "f_add (Inf s) (Fin y) = Inf s"
| "f_add (Inf s) (Inf t) = (if s = t then Inf s else NaN)"
| "f_add NaN y = NaN"
| "f_add x NaN = NaN"

fun f_neg :: "f64 \<Rightarrow> f64" where
  "f_neg (Fin x) = Fin (- x)"
| "f_neg (Inf s) = Inf (\<not> s)"
| "f_neg NaN = NaN"

definition f_sub :: "f64 \<Rightarrow> f64 \<Rightarrow> f64" where
  "f_sub x y = f_add x (f_neg y)"

fun f_mul :: "f64 \<Rightarrow> f64 \<Rightarrow> f64" where
  "f_mul (Fin x) (Fin y) = rnd (x * y)"
| "f_mul (Fin x) (Inf s) = (if x = 0 then NaN else Inf (s \<noteq> (x < 0)))"
| "f_mul (Inf s) (Fin y) = (if y = 0 then NaN else Inf (s \<noteq> (y < 0)))"
| "f_mul (Inf s) (Inf t) = Inf (s \<noteq> t)"
| "f_mul NaN y = NaN"
| "f_mul x NaN = NaN"

fun f_div :: "f64 \<Rightarrow> f64 \<Rightarrow> f64" where
  "f_div (Fin x) (Fin y) =
     (if y \<noteq> 0 then rnd (x / y) else if x = 0 then NaN else Inf (x < 0))"
| "f_div (Fin x) (Inf s) = Fin 0"
| "f_div (Inf s) (Fin y) = Inf (s \<noteq> (y < 0))"
| "f_div (Inf s) (Inf t) = NaN"
| "f_div NaN y = NaN"
| "f_div x NaN = NaN"

fun f_abs :: "f64 \<Rightarrow> f64" where
  "f_abs (Fin x) = Fin \<bar>x\<bar>"
| "f_abs (Inf s) = Inf False"
| "f_abs NaN = NaN"

fun f_less :: "f64 \<Rightarrow> f64 \<Rightarrow> bool" where
  "f_less (Fin x) (Fin y) = (x < y)"
| "f_less (Fin x) (Inf s) = (\<not> s)"
| "f_less (Inf s) (Fin y) = s"
| "f_less (Inf s) (Inf t) = (s \<and> \<not> t)"
| "f_less NaN y = False"
| "f_less x NaN = False"

fun f_eq :: "f64 \<Rightarrow> f64 \<Rightarrow> bool" where
  "f_eq (Fin x) (Fin y) = (x = y)"
| "f_eq (Inf s) (Inf t) = (s = t)"
| "f_eq x y = False"

definition f_le :: "f64 \<Rightarrow> f64 \<Rightarrow> bool" where
  "f_le x y \<longleftrightarrow> f_less x y \<or> f_eq x y"

fun f_finite :: "f64 \<Rightarrow> bool" where
  "f_finite (Fin x) = True"
| "f_finite _ = False"

definition f_of_int :: "int \<Rightarrow> f64" where
  "f_of_int i = rnd (of_int i)"

text \<open>\<open>int(math.Floor(x))\<close> and \<open>int(math.Ceil(x))\<close>, for finite values in the range of \<open>int\<close>.\<close>

fun f_floor :: "f64 \<Rightarrow> int" where
  "f_floor (Fin x) = \<lfloor>x\<rfloor>"
| "f_floor _ = min_int64"

fun f_ceil :: "f64 \<Rightarrow> int" where
  "f_ceil (Fin x) = \<lceil>x\<rceil>"
| "f_ceil _ = min_int64"

lemma f_finite_iff: "f_finite x \<longleftrightarrow> (\<exists>r. x = Fin r)"
  by (cases x) auto

lemma f_le_Fin [simp]: "f_le (Fin x) (Fin y) \<longleftrightarrow> x \<le> y"
  by (auto simp: f_le_def)

lemma f_le_less_trans: "f_le x y \<Longrightarrow> f_less y z \<Longrightarrow> f_less x z"
  by (cases x; cases y; cases z) (auto simp: f_le_def)

lemma f_less_le_trans: "f_less x y \<Longrightarrow> f_le y z \<Longrightarrow> f_less x z"
  by (cases x; cases y; cases z) (auto simp: f_le_def)

lemma f_less_not_le: "f_less x y \<Longrightarrow> \<not> f_le y x"
  by (cases x; cases y) (auto simp: f_le_def)

subsection \<open>The order of \<open>sort.Float64s\<close>\<close>

instantiation f64 :: linorder
begin

definition less_f64 :: "f64 \<Rightarrow> f64 \<Rightarrow> bool" where
  "less_f64 x y \<longleftrightarrow> f_less x y \<or> (x = NaN \<and> y \<noteq> NaN)"

definition less_eq_f64 :: "f64 \<Rightarrow> f64 \<Rightarrow> bool" where
  "less_eq_f64 x y \<longleftrightarrow> x < y \<or> x = y"

instance
proof
  fix x y z :: f64
  show "(x < y) = (x \<le> y \<and> \<not> y \<le> x)"
    by (cases x; cases y) (auto simp: less_f64_def less_eq_f64_def)
  show "x \<le> x" by (simp add: less_eq_f64_def)
  show "x \<le> y \<Longrightarrow> y \<le> z \<Longrightarrow> x \<le> z"
    by (cases x; cases y; cases z) (auto simp: less_f64_def less_eq_f64_def)
  show "x \<le> y \<Longrightarrow> y \<le> x \<Longrightarrow> x = y"
    by (cases x; cases y) (auto simp: less_f64_def less_eq_f64_def)
  show "x \<le> y \<or> y \<le> x"
    by (cases x; cases y) (auto simp: less_f64_def less_eq_f64_def)
qed

end

lemma Fin_le [simp]: "Fin x \<le> Fin y \<longleftrightarrow> x \<le> y"
  by (auto simp: less_eq_f64_def less_f64_def)

lemma Fin_less [simp]: "Fin x < Fin y \<longleftrightarrow> x < y"
  by (simp add: less_f64_def)

subsection \<open>Rounding is monotone and exact on representable numbers\<close>

lemma nat_log2_bounds: "0 < n \<Longrightarrow> 2 ^ nat_log2 n \<le> n \<and> n < 2 * 2 ^ nat_log2 n"
proof (induction n rule: nat_log2.induct)
  case (1 n)
  show ?case
  proof (cases "n < 2")
    case True
    with "1.prems" show ?thesis by (subst (1 2) nat_log2.simps) simp
  next
    case False
    then have "2 ^ nat_log2 (n div 2) \<le> n div 2 \<and> n div 2 < 2 * 2 ^ nat_log2 (n div 2)"
      using "1.IH" by simp
    with False show ?thesis by (subst (1 2) nat_log2.simps) auto
  qed
qed

lemma floor_log2_bounds:
  assumes "0 < x"
  shows "2 powi floor_log2 x \<le> x \<and> x < 2 powi (floor_log2 x + 1)"
proof -
  obtain n d where nd: "quotient_of x = (n, d)" by (cases "quotient_of x")
  have x: "x = of_int n / of_int d" and d: "0 < d"
    using nd quotient_of_div quotient_of_denom_pos by auto
  with assms have n: "0 < n" by (simp add: zero_less_divide_iff)
  define a b where "a = nat_log2 (nat n)" and "b = nat_log2 (nat d)"
  have na: "2 ^ a \<le> n" "n < 2 * 2 ^ a"
    using nat_log2_bounds[of "nat n"] n by (auto simp: a_def le_nat_iff nat_less_iff)
  have db: "2 ^ b \<le> d" "d < 2 * 2 ^ b"
    using nat_log2_bounds[of "nat d"] d by (auto simp: b_def le_nat_iff nat_less_iff)
  have na': "(2::rat) ^ a \<le> of_int n" "(of_int n :: rat) < 2 * 2 ^ a"
    using na(1)[folded of_int_le_iff[where 'a = rat]] na(2)[folded of_int_less_iff[where 'a = rat]]
    by simp_all
  have db': "(2::rat) ^ b \<le> of_int d" "(of_int d :: rat) < 2 * 2 ^ b"
    using db(1)[folded of_int_le_iff[where 'a = rat]] db(2)[folded of_int_less_iff[where 'a = rat]]
    by simp_all
  have pow: "2 powi (int a - int b) = (2::rat) ^ a / 2 ^ b"
    by (simp add: power_int_diff)
  have "x < 2 * 2 ^ a / 2 ^ b"
    unfolding x using na' db' d n by (intro frac_less) auto
  then have up: "x < 2 powi (int a - int b + 1)"
    by (simp add: power_int_add pow mult.commute)
  have "2 ^ a / (2 * 2 ^ b) \<le> x"
    unfolding x using na' db' d n by (intro frac_le) auto
  then have low: "2 powi (int a - int b - 1) \<le> x"
    by (simp add: power_int_diff)
  show ?thesis
    using up low by (simp add: floor_log2_def nd Let_def a_def b_def)
qed

lemma floor_log2_mono:
  assumes "0 < x" and "x \<le> y"
  shows "floor_log2 x \<le> floor_log2 y"
proof (rule ccontr)
  assume "\<not> ?thesis"
  then have "(2::rat) powi (floor_log2 y + 1) \<le> 2 powi floor_log2 x"
    by (intro power_int_increasing) auto
  with floor_log2_bounds[of x] floor_log2_bounds[of y] assms show False by auto
qed

lemma pow2_le_iff: "(2::rat) powi m \<le> 2 powi n \<longleftrightarrow> m \<le> n"
  by (metis linorder_not_le numeral_One one_le_numeral one_less_numeral_iff power_int_increasing
      power_int_strict_increasing semiring_norm(76))

lemma pow2_less_iff: "(2::rat) powi m < 2 powi n \<longleftrightarrow> m < n"
  by (meson linorder_not_le pow2_le_iff)

lemma floor_log2_le:
  assumes "0 < x" and "x < 2 powi k"
  shows "floor_log2 x < k"
proof -
  have "2 powi floor_log2 x < (2::rat) powi k"
    using floor_log2_bounds[OF assms(1)] assms(2) by linarith
  then show ?thesis by (simp only: pow2_less_iff)
qed

lemma round_half_even_of_int [simp]: "round_half_even (of_int i) = i"
  by (simp add: round_half_even_def)

lemma round_half_even_cases: "round_half_even x = \<lfloor>x\<rfloor> \<or> round_half_even x = \<lfloor>x\<rfloor> + 1"
  by (auto simp: round_half_even_def Let_def)

lemma round_half_even_mono: "x \<le> y \<Longrightarrow> round_half_even x \<le> round_half_even y"
proof -
  assume le: "x \<le> y"
  show ?thesis
  proof (cases "\<lfloor>x\<rfloor> = \<lfloor>y\<rfloor>")
    case True
    with le show ?thesis by (auto simp: round_half_even_def Let_def)
  next
    case False
    with le have "\<lfloor>x\<rfloor> + 1 \<le> \<lfloor>y\<rfloor>" using floor_mono[OF le] by simp
    with round_half_even_cases[of x] round_half_even_cases[of y] show ?thesis by auto
  qed
qed


lemma round_half_even_double: "0 \<le> x \<Longrightarrow> of_int (round_half_even x) \<le> 2 * x"
proof -
  assume "0 \<le> x"
  then have "0 \<le> \<lfloor>x\<rfloor>" by simp
  have f: "of_int \<lfloor>x\<rfloor> \<le> x" "0 \<le> (of_int \<lfloor>x\<rfloor> :: rat)" using \<open>0 \<le> \<lfloor>x\<rfloor>\<close> by simp_all
  show ?thesis
  proof (cases "x - of_int \<lfloor>x\<rfloor> < 1 / 2")
    case True
    then have "round_half_even x = \<lfloor>x\<rfloor>" by (simp add: round_half_even_def Let_def)
    with f show ?thesis by linarith
  next
    case False
    have "of_int (round_half_even x) \<le> (of_int (\<lfloor>x\<rfloor> + 1) :: rat)"
      using round_half_even_cases[of x] by (simp only: of_int_le_iff) auto
    then have "of_int (round_half_even x) \<le> (of_int \<lfloor>x\<rfloor> + 1 :: rat)" by simp
    with False f show ?thesis by linarith
  qed
qed

text \<open>A magnitude with at most 53 significant bits and no bit below \<open>2^-1074\<close>.\<close>

definition representable :: "rat \<Rightarrow> bool" where
  "representable m \<longleftrightarrow> (\<exists>k e. m = of_int k * 2 powi e \<and> 0 \<le> k \<and> k < 2 ^ 53 \<and> -1074 \<le> e)"

lemma representableI:
  "m = of_int k * 2 powi e \<Longrightarrow> 0 \<le> k \<Longrightarrow> k < 2 ^ 53 \<Longrightarrow> -1074 \<le> e \<Longrightarrow> representable m"
  unfolding representable_def by blast

lemma representable_0 [simp]: "representable 0"
  unfolding representable_def by (intro exI[of _ 0] exI[of _ "0::int"]) simp

lemma ulp_scaled:
  assumes "0 < x"
  shows "x / 2 powi ulp_exponent x < 2 ^ 53"
proof -
  have "x < 2 powi (floor_log2 x + 1)" using floor_log2_bounds[OF assms] by simp
  also have "\<dots> \<le> 2 powi (53 + ulp_exponent x)"
    by (simp only: pow2_le_iff) (simp add: ulp_exponent_def)
  also have "\<dots> = 2 ^ 53 * 2 powi ulp_exponent x"
    by (subst power_int_add) simp_all
  finally show ?thesis by (simp add: pos_divide_less_eq)
qed

lemma representable_round_magnitude:
  assumes "0 < x"
  shows "representable (round_magnitude x)"
proof -
  define u where "u = ulp_exponent x"
  define k where "k = round_half_even (x / 2 powi u)"
  have u: "-1074 \<le> u" by (simp add: u_def ulp_exponent_def)
  have "k \<le> round_half_even (of_int (2 ^ 53))"
    using ulp_scaled[OF assms] unfolding k_def u_def by (intro round_half_even_mono) simp
  then have k53: "k \<le> 2 ^ 53" by (simp only: round_half_even_of_int)
  have "round_half_even (of_int 0) \<le> k"
    using assms unfolding k_def by (intro round_half_even_mono) simp
  then have k0: "0 \<le> k" by (simp only: round_half_even_of_int)
  have m: "round_magnitude x = of_int k * 2 powi u"
    by (simp add: round_magnitude_def k_def u_def Let_def)
  show ?thesis
  proof (cases "k = 2 ^ 53")
    case True
    have "(2::rat) powi (u + 1) = 2 * 2 powi u" by (subst power_int_add) simp_all
    then have "round_magnitude x = of_int (2 ^ 52) * 2 powi (u + 1)"
      unfolding m True by simp
    then show ?thesis by (rule representableI) (use u in simp_all)
  next
    case False
    with k53 have "k < 2 ^ 53" by simp
    with m k0 show ?thesis by (rule representableI) (rule u)
  qed
qed

lemma round_magnitude_exact:
  assumes "0 < x" and "representable x"
  shows "round_magnitude x = x"
proof -
  obtain k e where x: "x = of_int k * 2 powi e" and k: "0 \<le> k" "k < 2 ^ 53" and e: "-1074 \<le> e"
    using assms(2) by (auto simp: representable_def)
  have "(of_int k :: rat) < of_int (2 ^ 53)" using k(2) by (simp only: of_int_less_iff)
  then have "x < 2 ^ 53 * 2 powi e" using x by simp
  also have "\<dots> = 2 powi (53 + e)" by (subst power_int_add) simp_all
  finally have "floor_log2 x < 53 + e" by (rule floor_log2_le[OF assms(1)])
  with e have u: "ulp_exponent x \<le> e" by (simp add: ulp_exponent_def)
  define n where "n = nat (e - ulp_exponent x)"
  have "2 powi e = (2::rat) powi (int n + ulp_exponent x)" using u by (simp add: n_def)
  also have "\<dots> = 2 ^ n * 2 powi ulp_exponent x" by (subst power_int_add) simp_all
  finally have "x = of_int (k * 2 ^ n) * 2 powi ulp_exponent x"
    using x by simp
  then have "x / 2 powi ulp_exponent x = of_int (k * 2 ^ n)"
    by (metis nonzero_mult_div_cancel_right power_int_eq_0_iff zero_neq_numeral)
  then have "round_half_even (x / 2 powi ulp_exponent x) = k * 2 ^ n"
    by (simp only: round_half_even_of_int)
  with \<open>x / 2 powi ulp_exponent x = of_int (k * 2 ^ n)\<close> show ?thesis
    by (simp add: round_magnitude_def Let_def field_simps)
qed

lemma ulp_exponent_mono: "0 < x \<Longrightarrow> x \<le> y \<Longrightarrow> ulp_exponent x \<le> ulp_exponent y"
  using floor_log2_mono[of x y] by (auto simp: ulp_exponent_def)

lemma round_magnitude_mono:
  assumes "0 < x" and "x \<le> y"
  shows "round_magnitude x \<le> round_magnitude y"
proof (cases "ulp_exponent x = ulp_exponent y")
  case True
  have "round_half_even (x / 2 powi ulp_exponent y) \<le> round_half_even (y / 2 powi ulp_exponent y)"
    using assms by (intro round_half_even_mono divide_right_mono) auto
  with True show ?thesis
    by (simp add: round_magnitude_def Let_def)
next
  case False
  with ulp_exponent_mono[OF assms] have less: "ulp_exponent x < ulp_exponent y" by simp
  then have uy: "ulp_exponent y = floor_log2 y - 52" by (auto simp: ulp_exponent_def)
  from less have fl: "floor_log2 x < floor_log2 y" by (auto simp: ulp_exponent_def)
  define p where "p = (2::rat) powi floor_log2 y"
  have y: "p \<le> y" using floor_log2_bounds[of y] assms p_def by auto
  have "round_half_even (of_int (2 ^ 52)) \<le> round_half_even (y / 2 powi ulp_exponent y)"
    using y unfolding uy p_def by (intro round_half_even_mono) (simp add: power_int_diff field_simps)
  then have "of_int (2 ^ 52) \<le> (of_int (round_half_even (y / 2 powi ulp_exponent y)) :: rat)"
    by (simp only: round_half_even_of_int of_int_le_iff)
  then have "2 ^ 52 * 2 powi ulp_exponent y \<le> round_magnitude y"
    by (simp add: round_magnitude_def Let_def)
  moreover have "2 ^ 52 * 2 powi ulp_exponent y = p"
    unfolding uy p_def by (simp add: power_int_diff)
  moreover have "round_magnitude x \<le> p"
  proof -
    have "x < 2 powi (floor_log2 x + 1)" using floor_log2_bounds[OF assms(1)] by simp
    also have "\<dots> \<le> p" unfolding p_def using fl by (simp only: pow2_le_iff)
    finally have xp: "x < p" .
    define n where "n = nat (floor_log2 y - ulp_exponent x)"
    have "floor_log2 y \<ge> ulp_exponent x" using less uy by simp
    then have "p = 2 powi (int n + ulp_exponent x)" by (simp add: p_def n_def)
    also have "\<dots> = 2 ^ n * 2 powi ulp_exponent x" by (subst power_int_add) simp_all
    finally have pn: "p = of_int (2 ^ n) * 2 powi ulp_exponent x" by simp
    have "round_half_even (x / 2 powi ulp_exponent x) \<le> round_half_even (of_int (2 ^ n))"
      using xp pn by (intro round_half_even_mono) (simp add: pos_divide_le_eq)
    then have "(of_int (round_half_even (x / 2 powi ulp_exponent x)) :: rat) \<le> of_int (2 ^ n)"
      by (simp only: round_half_even_of_int of_int_le_iff)
    then show ?thesis
      unfolding pn by (simp add: round_magnitude_def Let_def)
  qed
  ultimately show ?thesis by simp
qed


lemma round_magnitude_pos: "0 < x \<Longrightarrow> 0 \<le> round_magnitude x"
  using representable_round_magnitude[of x]
  by (auto simp: representable_def)

lemma round_magnitude_double: "0 < x \<Longrightarrow> round_magnitude x \<le> 2 * x"
  using mult_right_mono[OF round_half_even_double[of "x / 2 powi ulp_exponent x"],
      of "2 powi ulp_exponent x"]
  by (simp add: round_magnitude_def Let_def)

lemma rnd_0 [simp]: "rnd 0 = Fin 0"
  by (simp add: rnd_def)

lemma rnd_neg: "rnd (- x) = f_neg (rnd x)"
  by (auto simp: rnd_def Let_def)

lemma rnd_nonneg_le:
  assumes "0 \<le> x" and "x \<le> y"
  shows "rnd x \<le> rnd y"
proof (cases "x = 0")
  case True
  with assms round_magnitude_pos[of y] show ?thesis
    by (auto simp: rnd_def Let_def less_eq_f64_def less_f64_def)
next
  case False
  with assms round_magnitude_mono[of x y] show ?thesis
    by (auto simp: rnd_def Let_def less_eq_f64_def less_f64_def)
qed

lemma f_neg_le: "x \<noteq> NaN \<Longrightarrow> y \<noteq> NaN \<Longrightarrow> f_neg y \<le> f_neg x \<longleftrightarrow> x \<le> y"
  by (cases x; cases y) (auto simp: less_eq_f64_def less_f64_def)

lemma rnd_not_NaN [simp]: "rnd x \<noteq> NaN"
  by (simp add: rnd_def Let_def)

lemma rnd_mono: "x \<le> y \<Longrightarrow> rnd x \<le> rnd y"
proof -
  assume le: "x \<le> y"
  consider "0 \<le> x" | "y \<le> 0" | "x < 0" "0 < y" by linarith
  then show ?thesis
  proof cases
    case 1
    with le show ?thesis by (rule rnd_nonneg_le[rotated])
  next
    case 2
    then have "rnd (- y) \<le> rnd (- x)" using le by (intro rnd_nonneg_le) auto
    then show ?thesis by (simp add: rnd_neg f_neg_le)
  next
    case 3
    have "rnd 0 \<le> rnd y" using 3 by (intro rnd_nonneg_le) auto
    moreover have "rnd 0 \<le> rnd (- x)" using 3 by (intro rnd_nonneg_le) auto
    then have "rnd x \<le> rnd 0" using f_neg_le[of "rnd x" "rnd 0"] by (simp add: rnd_neg)
    ultimately show ?thesis by simp
  qed
qed

text \<open>The values a variable of type \<open>float64\<close> can hold.\<close>

fun f_valid :: "f64 \<Rightarrow> bool" where
  "f_valid (Fin x) = (representable \<bar>x\<bar> \<and> \<bar>x\<bar> < 2 ^ 1024)"
| "f_valid _ = True"

lemma f_valid_rnd [simp]: "f_valid (rnd x)"
  using representable_round_magnitude[of "\<bar>x\<bar>"] round_magnitude_pos[of "\<bar>x\<bar>"]
  by (auto simp: rnd_def Let_def abs_mult not_le)

lemma rnd_exact: "f_valid (Fin x) \<Longrightarrow> rnd x = Fin x"
  by (cases "x = 0") (auto simp: rnd_def Let_def round_magnitude_exact sgn_mult_abs)

lemma rnd_le_valid: "x \<le> y \<Longrightarrow> f_valid (Fin y) \<Longrightarrow> rnd x = Fin r \<Longrightarrow> r \<le> y"
  using rnd_mono[of x y] by (simp add: rnd_exact)

lemma rnd_ge_valid: "y \<le> x \<Longrightarrow> f_valid (Fin y) \<Longrightarrow> rnd x = Fin r \<Longrightarrow> y \<le> r"
  using rnd_mono[of y x] by (simp add: rnd_exact)

lemma rnd_double: "0 \<le> x \<Longrightarrow> rnd x = Fin r \<Longrightarrow> 0 \<le> r \<and> r \<le> 2 * x"
  using round_magnitude_double[of x] round_magnitude_pos[of x]
  by (auto simp: rnd_def Let_def split: if_splits)

lemma f_valid_small_int: "\<bar>i\<bar> < 2 ^ 53 \<Longrightarrow> f_valid (Fin (of_int i))"
proof -
  assume i: "\<bar>i\<bar> < 2 ^ 53"
  have "representable \<bar>of_int i\<bar>"
    by (rule representableI[of _ "\<bar>i\<bar>" 0]) (use i in simp_all)
  moreover have "\<bar>of_int i :: rat\<bar> < 2 ^ 1024"
  proof -
    have "(of_int \<bar>i\<bar> :: rat) < of_int (2 ^ 53)" using i by (simp only: of_int_less_iff)
    also have "\<dots> \<le> 2 ^ 1024" by simp
    finally show ?thesis by simp
  qed
  ultimately show ?thesis by simp
qed

lemma f_of_int_small: "\<bar>i\<bar> < 2 ^ 53 \<Longrightarrow> f_of_int i = Fin (of_int i)"
  unfolding f_of_int_def by (rule rnd_exact[OF f_valid_small_int])

end
