(* ===== verification/Stats.thy ===== *)
theory Stats
  imports GoNumbers Float64 "HOL-Library.Multiset"
begin

section \<open>Robust statistics\<close>

text \<open>
  \<^verbatim>\<open>internal/pgbenchresult/stats.go\<close>: the type-7 percentile, the summary of independent
  trials and the robust-z flags. Every decision of the benchmark comparison goes through
  \<open>percentile_type7\<close>. The arithmetic is that of a processor without fused multiply-add.
\<close>

datatype stats_error =
    No_values
  | Too_few_trials
  | Bad_probability
  | Bad_threshold
  | Not_finite nat
  | Interpolation_overflow
  | Statistics_overflow
  | Cv_overflow
  | Robust_cv_overflow
  | Robust_z_overflow nat

fun stats_message :: "stats_error \<Rightarrow> string" where
  "stats_message No_values = ''at least one value is required''"
| "stats_message Too_few_trials = ''at least two independent trial values are required''"
| "stats_message Bad_probability = ''percentile probability must be finite and between 0 and 1''"
| "stats_message Bad_threshold = ''robust-z threshold must be finite and positive''"
| "stats_message (Not_finite i) = ''trial value at index '' @ show_nat i @ '' is not finite''"
| "stats_message Interpolation_overflow = ''percentile interpolation overflowed finite float64 range''"
| "stats_message Statistics_overflow = ''trial statistics overflowed finite float64 range''"
| "stats_message Cv_overflow = ''coefficient of variation overflowed finite float64 range''"
| "stats_message Robust_cv_overflow = ''robust coefficient of variation overflowed finite float64 range''"
| "stats_message (Robust_z_overflow i) =
     ''robust-z calculation overflowed finite float64 range at index '' @ show_nat i"

fun validate_from :: "nat \<Rightarrow> f64 list \<Rightarrow> (stats_error, unit) result" where
  "validate_from i [] = Inr ()"
| "validate_from i (v # vs) = (if \<not> f_finite v then Inl (Not_finite i) else validate_from (Suc i) vs)"

definition validate_finite_values :: "f64 list \<Rightarrow> (stats_error, unit) result" where
  "validate_finite_values values = validate_from 0 values"

definition percentile_type7 :: "f64 list \<Rightarrow> f64 \<Rightarrow> (stats_error, f64) result" where
  "percentile_type7 values probability =
     (if values = [] then Inl No_values
      else if \<not> f_finite probability \<or> f_less probability (Fin 0) \<or> f_less (Fin 1) probability
      then Inl Bad_probability
      else case validate_finite_values values of
          Inl e \<Rightarrow> Inl e
        | Inr _ \<Rightarrow>
          let sorted_values = sort values
          in if length sorted_values = 1 then Inr (sorted_values ! 0)
             else
               let position = f_mul probability (f_of_int (int (length sorted_values) - 1));
                   lower = f_floor position;
                   upper = f_ceil position
               in if lower = upper then Inr (sorted_values ! nat lower)
                  else
                    let fraction = f_sub position (f_of_int lower);
                        value = f_add (sorted_values ! nat lower)
                          (f_mul fraction (f_sub (sorted_values ! nat upper) (sorted_values ! nat lower)))
                    in if f_finite value then Inr value else Inl Interpolation_overflow)"

abbreviation half :: f64 where
  "half \<equiv> Fin (1 / 2)"

subsection \<open>Summary of independent trials\<close>

text \<open>
  \<open>math.Sqrt\<close> is correctly rounded: the square root is computed to more than 60 bits,
  with a half unit added when it is inexact, and then rounded once.
\<close>

fun isqrt :: "nat \<Rightarrow> nat" where
  "isqrt n = (if n = 0 then 0
     else let s = 2 * isqrt (n div 4) in if (s + 1) * (s + 1) \<le> n then s + 1 else s)"

declare isqrt.simps [simp del]

fun f_sqrt :: "f64 \<Rightarrow> f64" where
  "f_sqrt (Fin x) =
     (if x < 0 then NaN
      else if x = 0 then Fin 0
      else let p = 60 - floor_log2 x div 2;
               scaled = x * 4 powi p;
               q = isqrt (nat \<lfloor>scaled\<rfloor>)
           in if of_nat (q * q) = scaled then rnd (of_nat q / 2 powi p)
              else rnd ((2 * of_nat q + 1) / 2 powi (p + 1)))"
| "f_sqrt (Inf s) = (if s then NaN else Inf False)"
| "f_sqrt NaN = NaN"

record trial_stats =
  ts_n :: nat
  ts_mean :: f64
  ts_median :: f64
  ts_sample_stddev :: f64
  ts_cv_pct :: "f64 option"
  ts_mad :: f64
  ts_robust_cv_pct :: "f64 option"
  ts_min :: f64
  ts_max :: f64

text \<open>Welford's loop over the trials: count, mean, sum of squared deviations.\<close>

fun welford :: "nat \<times> f64 \<times> f64 \<Rightarrow> f64 list \<Rightarrow> nat \<times> f64 \<times> f64" where
  "welford s [] = s"
| "welford (n, mean, ssd) (v # vs) =
     (let n' = Suc n;
          delta = f_sub v mean;
          mean' = f_add mean (f_div delta (f_of_int (int n')));
          delta_after = f_sub v mean'
      in welford (n', mean', f_add ssd (f_mul delta delta_after)) vs)"

definition mean_and_sample_stddev :: "f64 list \<Rightarrow> f64 \<times> f64" where
  "mean_and_sample_stddev values =
     (case welford (0, Fin 0, Fin 0) values of
        (n, mean, ssd) \<Rightarrow> (mean, f_sqrt (f_div ssd (f_of_int (int n - 1)))))"

definition minimum :: "f64 list \<Rightarrow> f64" where
  "minimum values = foldl (\<lambda>m v. if f_less v m then v else m) (hd values) (tl values)"

definition maximum :: "f64 list \<Rightarrow> f64" where
  "maximum values = foldl (\<lambda>m v. if f_less m v then v else m) (hd values) (tl values)"

definition summarize :: "f64 list \<Rightarrow> (stats_error, trial_stats) result" where
  "summarize values =
     (if length values < 2 then Inl Too_few_trials
      else
        bind_r (validate_finite_values values) (\<lambda>_.
        case mean_and_sample_stddev values of (mean, stddev) \<Rightarrow>
        if \<not> f_finite mean \<or> \<not> f_finite stddev then Inl Statistics_overflow
        else
        bind_r (percentile_type7 values half) (\<lambda>median.
        bind_r (percentile_type7 (map (\<lambda>v. f_abs (f_sub v median)) values) half) (\<lambda>mad.
        let cv = f_mul (f_div stddev (f_abs mean)) (Fin 100);
            robust_cv = f_mul (f_div (f_mul (rnd (14826 / 10000)) mad) (f_abs median)) (Fin 100)
        in if \<not> f_eq mean (Fin 0) \<and> \<not> f_finite cv then Inl Cv_overflow
           else if \<not> f_eq median (Fin 0) \<and> \<not> f_finite robust_cv then Inl Robust_cv_overflow
           else Inr \<lparr>ts_n = length values, ts_mean = mean, ts_median = median,
                  ts_sample_stddev = stddev,
                  ts_cv_pct = (if f_eq mean (Fin 0) then None else Some cv),
                  ts_mad = mad,
                  ts_robust_cv_pct = (if f_eq median (Fin 0) then None else Some robust_cv),
                  ts_min = minimum values, ts_max = maximum values\<rparr>))))"

subsection \<open>Robust-z flags\<close>

record robust_z_flag =
  rz_index :: nat
  rz_value :: f64
  rz_robust_z :: "f64 option"
  rz_reason :: string

fun nonmedian_flags :: "f64 \<Rightarrow> nat \<Rightarrow> f64 list \<Rightarrow> robust_z_flag list" where
  "nonmedian_flags median i [] = []"
| "nonmedian_flags median i (v # vs) =
     (if \<not> f_eq v median
      then [\<lparr>rz_index = i, rz_value = v, rz_robust_z = None, rz_reason = ''mad_zero_nonmedian''\<rparr>]
      else []) @ nonmedian_flags median (Suc i) vs"

fun threshold_flags ::
  "f64 \<Rightarrow> f64 \<Rightarrow> f64 \<Rightarrow> nat \<Rightarrow> f64 list \<Rightarrow> (stats_error, robust_z_flag list) result" where
  "threshold_flags threshold median mad i [] = Inr []"
| "threshold_flags threshold median mad i (v # vs) =
     (let robust_z = f_div (f_mul (rnd (6744897501960817 / 10 ^ 16)) (f_sub v median)) mad
      in if \<not> f_finite robust_z then Inl (Robust_z_overflow i)
         else bind_r (threshold_flags threshold median mad (Suc i) vs) (\<lambda>rest.
           Inr ((if f_less threshold (f_abs robust_z)
                 then [\<lparr>rz_index = i, rz_value = v, rz_robust_z = Some robust_z,
                        rz_reason = ''robust_z_exceeds_threshold''\<rparr>]
                 else []) @ rest)))"

definition flag_robust_z :: "f64 list \<Rightarrow> f64 \<Rightarrow> (stats_error, robust_z_flag list) result" where
  "flag_robust_z values threshold =
     (if values = [] then Inl No_values
      else if \<not> f_finite threshold \<or> f_le threshold (Fin 0) then Inl Bad_threshold
      else
        bind_r (validate_finite_values values) (\<lambda>_.
        bind_r (percentile_type7 values half) (\<lambda>median.
        bind_r (percentile_type7 (map (\<lambda>v. f_abs (f_sub v median)) values) half) (\<lambda>mad.
        if f_eq mad (Fin 0) then Inr (nonmedian_flags median 0 values)
        else threshold_flags threshold median mad 0 values))))"

subsection \<open>Finite inputs\<close>

lemma validate_from_Inr: "validate_from i vs = Inr u \<longleftrightarrow> list_all f_finite vs"
  by (induction vs arbitrary: i) auto

lemma validate_from_Inl:
  "validate_from i vs = Inl e \<longleftrightarrow>
     (\<exists>k < length vs. e = Not_finite (i + k) \<and> \<not> f_finite (vs ! k) \<and> (\<forall>j<k. f_finite (vs ! j)))"
proof (induction vs arbitrary: i)
  case Nil
  then show ?case by simp
next
  case (Cons v vs)
  show ?case
  proof (cases "f_finite v")
    case True
    then show ?thesis
      by (auto simp: Cons.IH Ex_less_Suc2 All_less_Suc2)
  next
    case False
    then show ?thesis by (auto simp: Ex_less_Suc2 All_less_Suc2)
  qed
qed

lemma validate_finite_Inr [result_simps]:
  "validate_finite_values vs = Inr u \<longleftrightarrow> list_all f_finite vs"
  by (simp add: validate_finite_values_def validate_from_Inr)

lemma validate_finite_perm:
  "mset vs = mset ws \<Longrightarrow> ok (validate_finite_values vs) \<longleftrightarrow> ok (validate_finite_values ws)"
  by (auto simp: ok_iff validate_finite_Inr list_all_iff dest: mset_eq_setD)

text \<open>A probability the code accepts.\<close>

definition probability :: "f64 \<Rightarrow> bool" where
  "probability p \<longleftrightarrow> f_finite p \<and> \<not> f_less p (Fin 0) \<and> \<not> f_less (Fin 1) p"

lemma probability_iff: "probability p \<longleftrightarrow> (\<exists>r. p = Fin r \<and> 0 \<le> r \<and> r \<le> 1)"
  by (cases p) (auto simp: probability_def)

lemma half_probability [simp]: "probability half"
  by (simp add: probability_def)

text \<open>
  The interpolation position never leaves the slice: the indices the code reads are in
  range for every slice shorter than \<open>2^53\<close>.
\<close>

lemma position_bounds:
  assumes "0 \<le> r" and "r \<le> 1" and "0 < n" and "n < 2 ^ 53"
  shows "\<exists>q. f_mul (Fin r) (f_of_int (int n)) = Fin q \<and> 0 \<le> q \<and> q \<le> of_nat n"
proof -
  have n: "f_of_int (int n) = Fin (of_nat n)"
    using assms(4) f_of_int_small[of "int n"] by simp
  have valid: "f_valid (Fin (of_nat n))"
    using assms(4) f_valid_small_int[of "int n"] by simp
  have le: "r * of_nat n \<le> of_nat n"
    using assms by (simp add: mult_left_le_one_le)
  have "rnd (r * of_nat n) \<le> Fin (of_nat n)"
    using rnd_mono[OF le] rnd_exact[OF valid] by simp
  moreover have "Fin 0 \<le> rnd (r * of_nat n)"
    using rnd_mono[of 0 "r * of_nat n"] assms by simp
  ultimately show ?thesis
    by (cases "rnd (r * of_nat n)") (auto simp: n less_eq_f64_def less_f64_def split: if_splits)
qed


subsection \<open>The median lies between the extremes\<close>

text \<open>Every finite value is a multiple of the least positive one.\<close>

definition grid :: "rat \<Rightarrow> bool" where
  "grid x \<longleftrightarrow> (\<exists>k::int. x = of_int k * 2 powi (-1074))"

lemma grid_representable: "representable m \<Longrightarrow> grid m"
proof -
  assume "representable m"
  then obtain k e where m: "m = of_int k * 2 powi e" and e: "-1074 \<le> e"
    by (auto simp: representable_def)
  define n where "n = nat (e + 1074)"
  have "e = int n + (-1074)" using e by (simp add: n_def)
  then have "2 powi e = (2::rat) ^ n * 2 powi (-1074)"
    by (metis power_int_add power_int_of_nat zero_neq_numeral)
  then have "m = of_int (k * 2 ^ n) * 2 powi (-1074)" by (simp add: m)
  then show ?thesis unfolding grid_def by blast
qed

lemma grid_uminus: "grid x \<Longrightarrow> grid (- x)"
  unfolding grid_def by (metis mult_minus_left of_int_minus)

lemma grid_valid: "f_valid (Fin x) \<Longrightarrow> grid x"
  using grid_representable[of "\<bar>x\<bar>"] grid_uminus[of "\<bar>x\<bar>"] by (cases "0 \<le> x") auto

lemma grid_diff: "grid x \<Longrightarrow> grid y \<Longrightarrow> grid (x - y)"
  unfolding grid_def by (metis left_diff_distrib of_int_diff)

lemma half_of_rounded:
  assumes w: "0 < w" "grid w" and d: "rnd w = Fin d" and h: "rnd (d / 2) = Fin h"
  shows "0 \<le> h \<and> h \<le> w"
proof -
  have d0: "0 \<le> d" "d \<le> 2 * w" using rnd_double[OF _ d] w by auto
  have h0: "0 \<le> h" using rnd_double[OF _ h] d0 by auto
  have d_valid: "f_valid (Fin d)" by (metis d f_valid_rnd)
  show ?thesis
  proof (cases "ulp_exponent w = -1074")
    case True
    obtain k where k: "w = of_int k * 2 powi (-1074)" using w(2) by (auto simp: grid_def)
    have "w / 2 powi (-1074) = of_int k" by (subst k) simp
    then have "round_magnitude w = w"
      using k by (simp add: round_magnitude_def True Let_def)
    then have "d = w" using d w(1) by (auto simp: rnd_def Let_def split: if_splits)
    moreover have "h \<le> d" by (rule rnd_le_valid[OF _ d_valid h]) (use d0 in simp)
    ultimately show ?thesis using h0 by simp
  next
    case False
    then have e: "-1074 \<le> ulp_exponent w - 1" by (simp add: ulp_exponent_def)
    have "d = round_magnitude w" using d w(1) by (auto simp: rnd_def Let_def split: if_splits)
    then have dk: "d = of_int (round_half_even (w / 2 powi ulp_exponent w)) * 2 powi ulp_exponent w"
      by (simp add: round_magnitude_def Let_def)
    define k where "k = round_half_even (w / 2 powi ulp_exponent w)"
    have "round_half_even (of_int 0) \<le> k"
      using w unfolding k_def by (intro round_half_even_mono) simp
    then have k0: "0 \<le> k" by (simp only: round_half_even_of_int)
    have "k \<le> round_half_even (of_int (2 ^ 53))"
      using ulp_scaled[OF w(1)] unfolding k_def by (intro round_half_even_mono) simp
    then have k53: "k \<le> 2 ^ 53" by (simp only: round_half_even_of_int)
    have half_d: "d / 2 = of_int k * 2 powi (ulp_exponent w - 1)"
      by (simp add: dk k_def power_int_diff)
    have "representable (d / 2)"
    proof (cases "k = 2 ^ 53")
      case True
      then have "d / 2 = of_int (2 ^ 52) * 2 powi ulp_exponent w"
        using dk k_def by simp
      then show ?thesis by (rule representableI) (use e in simp_all)
    next
      case False
      with k53 have "k < 2 ^ 53" by simp
      with half_d k0 show ?thesis by (rule representableI) (rule e)
    qed
    then have "f_valid (Fin (d / 2))" using d_valid d0 by simp
    then have "h = d / 2" using h by (simp add: rnd_exact)
    with d0 h0 show ?thesis by simp
  qed
qed

lemma median_position:
  assumes "0 < n" and "n < 2 ^ 53"
  shows "f_mul half (f_of_int (int n)) = Fin (of_nat n / 2)"
proof -
  have "representable (of_nat n / 2)"
    by (rule representableI[of _ "int n" "-1"]) (use assms in \<open>simp_all add: power_int_minus\<close>)
  moreover have "(of_nat n / 2 :: rat) < 2 ^ 1024"
    using f_valid_small_int[of "int n"] assms by simp
  ultimately have "f_valid (Fin (of_nat n / 2))" by simp
  then show ?thesis
    using assms f_of_int_small[of "int n"] rnd_exact by simp
qed

lemma interpolation_between:
  assumes l: "f_valid (Fin l)" and u: "f_valid (Fin u)" and lu: "l \<le> u"
    and v: "f_add (Fin l) (f_mul half (f_sub (Fin u) (Fin l))) = Fin v"
  shows "l \<le> v \<and> v \<le> u"
proof (cases "l = u")
  case True
  with v l show ?thesis by (simp add: f_sub_def rnd_exact)
next
  case False
  then have w: "0 < u - l" "grid (u - l)"
    using lu False grid_diff[OF grid_valid[OF u] grid_valid[OF l]] by simp_all
  obtain d where d: "rnd (u - l) = Fin d"
    using v w by (cases "rnd (u - l)") (auto simp: f_sub_def)
  then obtain h where h: "rnd (d / 2) = Fin h"
    using v by (cases "rnd (d / 2)") (auto simp: f_sub_def)
  have lh: "rnd (l + h) = Fin v" using v d h by (simp add: f_sub_def)
  have "0 \<le> h" "h \<le> u - l" using half_of_rounded[OF w d h] by auto
  then show ?thesis
    using rnd_le_valid[OF _ u lh] rnd_ge_valid[OF _ l lh] by simp
qed


lemma valid_half: "f_valid half"
proof -
  have "representable (1 / 2)"
    by (rule representableI[of _ 1 "-1"]) (simp_all add: power_int_minus)
  then show ?thesis by simp
qed

text \<open>The last stage of the percentile, on a sorted slice of at least two values.\<close>

definition interpolate :: "f64 list \<Rightarrow> f64 \<Rightarrow> (stats_error, f64) result" where
  "interpolate sorted_values p =
     (let position = f_mul p (f_of_int (int (length sorted_values) - 1));
          lower = f_floor position;
          upper = f_ceil position
      in if lower = upper then Inr (sorted_values ! nat lower)
         else
           let fraction = f_sub position (f_of_int lower);
               value = f_add (sorted_values ! nat lower)
                 (f_mul fraction (f_sub (sorted_values ! nat upper) (sorted_values ! nat lower)))
           in if f_finite value then Inr value else Inl Interpolation_overflow)"

lemma percentile_eq:
  "percentile_type7 values p =
     (if values = [] then Inl No_values
      else if \<not> probability p then Inl Bad_probability
      else bind_r (validate_finite_values values) (\<lambda>_.
        if length values = 1 then Inr (values ! 0) else interpolate (sort values) p))"
proof -
  have one: "length values = 1 \<Longrightarrow> sort values = values"
    by (cases "values") (auto simp: length_Suc_conv)
  show ?thesis
    by (cases "validate_finite_values values")
       (auto simp: percentile_type7_def interpolate_def probability_def Let_def one)
qed

lemma interpolate_median:
  assumes s: "sorted s" "\<And>x. x \<in> set s \<Longrightarrow> f_finite x \<and> f_valid x"
    and len: "1 < length s" "length s < 2 ^ 53"
    and m: "interpolate s half = Inr m"
  shows "hd s \<le> m \<and> m \<le> last s"
proof -
  define n where "n = length s - 1"
  have n: "0 < n" "n < 2 ^ 53" "length s = Suc n" using len by (auto simp: n_def)
  have pos: "f_mul half (f_of_int (int (length s) - 1)) = Fin (of_nat n / 2)"
    using median_position[OF n(1,2)] n(3) by simp
  have fl: "\<lfloor>of_nat n / 2 :: rat\<rfloor> = int (n div 2)"
    by (metis floor_divide_of_nat_eq of_nat_numeral)
  have between: "hd s \<le> s ! i \<and> s ! i \<le> last s" if "i \<le> n" for i
    using that n(3) s(1) by (metis hd_conv_nth last_conv_nth le0 le_imp_less_Suc length_0_conv
        n_def lessI nat.simps(3) sorted_nth_mono)
  show ?thesis
  proof (cases "even n")
    case True
    then have "of_nat n / 2 = (of_nat (n div 2) :: rat)" by (auto elim: evenE)
    then have "m = s ! (n div 2)"
      using m pos fl by (simp add: interpolate_def Let_def)
    then show ?thesis using between[of "n div 2"] by simp
  next
    case False
    then obtain k where k: "n = 2 * k + 1" by (auto elim: oddE)
    have ce: "\<lceil>of_nat n / 2 :: rat\<rceil> = int k + 1"
      by (rule ceiling_unique) (auto simp: k field_simps)
    have fk: "\<lfloor>of_nat n / 2 :: rat\<rfloor> = int k" using fl k by simp
    have frac: "f_sub (Fin (of_nat n / 2)) (f_of_int (int k)) = half"
    proof -
      have "f_of_int (int k) = Fin (of_nat k)"
        using f_of_int_small[of "int k"] n(2) k by simp
      moreover have "of_nat n / 2 + - of_nat k = (1 / 2 :: rat)" by (simp add: k field_simps)
      ultimately show ?thesis
        by (simp only: f_sub_def f_add.simps f_neg.simps rnd_exact[OF valid_half])
    qed
    have kn: "k < n" "k + 1 \<le> n" using k by auto
    obtain l u where lu: "s ! k = Fin l" "s ! (k + 1) = Fin u"
      using s(2) n(3) kn by (metis f_finite_iff le_imp_less_Suc less_Suc_eq nth_mem)
    have valid: "f_valid (Fin l)" "f_valid (Fin u)"
      using s(2) n(3) kn lu by (metis le_imp_less_Suc less_Suc_eq nth_mem)+
    have le: "l \<le> u"
      using sorted_nth_mono[OF s(1), of k "k + 1"] kn n(3) lu by simp
    have "m = f_add (Fin l) (f_mul half (f_sub (Fin u) (Fin l)))" and "f_finite m"
      using m by (auto simp: interpolate_def Let_def pos fk frac ce lu lu(2) [simplified] nat_add_distrib split: if_splits)
    then obtain v where "m = Fin v" "l \<le> v" "v \<le> u"
      using interpolation_between[OF valid le] by (metis f_finite_iff)
    then have "s ! k \<le> m" "m \<le> s ! (k + 1)" using lu by simp_all
    then show ?thesis using between[of k] between[of "k + 1"] kn by fastforce
  qed
qed


lemma interpolate_length: "sorted s \<Longrightarrow> s \<noteq> [] \<Longrightarrow> hd s \<in> set s \<and> last s \<in> set s"
  by simp

lemma median_between:
  assumes "percentile_type7 vs half = Inr m" and "list_all f_valid vs" and "length vs < 2 ^ 53"
  shows "(\<exists>v\<in>set vs. v \<le> m) \<and> (\<exists>v\<in>set vs. m \<le> v)"
proof (cases "length vs = 1")
  case True
  then obtain v where "vs = [v]" by (auto simp: length_Suc_conv)
  with assms(1) show ?thesis by (auto simp: percentile_eq result_simps split: if_splits)
next
  case False
  with assms(1) have fin: "list_all f_finite vs" and ne: "vs \<noteq> []"
    and m: "interpolate (sort vs) half = Inr m"
    by (auto simp: percentile_eq result_simps split: if_splits)
  from ne False have "1 < length (sort vs)" by (cases vs) auto
  then have "hd (sort vs) \<le> m \<and> m \<le> last (sort vs)"
    using assms(2,3) fin m by (intro interpolate_median) (auto simp: list_all_iff)
  moreover have "sort vs \<noteq> []" using ne by (metis length_0_conv length_sort)
  then have "hd (sort vs) \<in> set vs" "last (sort vs) \<in> set vs"
    by (metis hd_in_set set_sort, metis last_in_set set_sort)
  ultimately show ?thesis by blast
qed

lemma validate_perm_eq:
  "mset vs = mset ws \<Longrightarrow> list_all f_finite vs \<longleftrightarrow> list_all f_finite ws"
  by (metis list_all_iff set_mset_mset)

lemma percentile_perm:
  assumes "mset vs = mset ws"
  shows "percentile_type7 vs p = Inr m \<longleftrightarrow> percentile_type7 ws p = Inr m"
proof -
  have "sort vs = sort ws" using assms by (metis properties_for_sort mset_sort sorted_sort)
  moreover have "length vs = length ws" using assms by (metis size_mset)
  moreover have "length vs = 1 \<Longrightarrow> vs = ws"
    using assms by (auto simp: length_Suc_conv)
  ultimately show ?thesis
    using validate_perm_eq[OF assms] by (auto simp: percentile_eq result_simps split: if_splits)
qed

text \<open>Every percentile of a constant population is the constant.\<close>

lemma interpolate_const:
  assumes s: "set s = {Fin c}" "f_valid (Fin c)" "1 < length s" "length s < 2 ^ 53"
    and p: "probability p"
  shows "interpolate s p = Inr (Fin c)"
proof -
  obtain r where r: "p = Fin r" "0 \<le> r" "r \<le> 1" using p unfolding probability_iff by blast
  define n where "n = length s - 1"
  have n: "0 < n" "n < 2 ^ 53" "int (length s) - 1 = int n" "length s = Suc n"
    using s(3,4) by (auto simp: n_def)
  obtain q where q: "f_mul p (f_of_int (int n)) = Fin q" "0 \<le> q" "q \<le> of_nat n"
    using position_bounds[OF r(2,3) n(1,2)] r(1) by auto
  have "rnd 0 = Fin 0" using rnd_exact[of 0] f_valid_small_int[of 0] by simp
  then have const: "f_add (Fin c) (f_mul (Fin t) (f_sub (Fin c) (Fin c))) = Fin c" for t
    using rnd_exact[OF s(2)] by (simp add: f_sub_def)
  have at: "s ! i = Fin c" if "i \<le> n" for i
    using that s(1) n(4) nth_mem[of i s] by simp
  have "nat \<lfloor>q\<rfloor> \<le> n" "nat \<lceil>q\<rceil> \<le> n"
    using q(2,3) by (simp_all add: nat_le_iff ceiling_le_iff floor_le_iff)
  then have at': "s ! nat \<lfloor>q\<rfloor> = Fin c" "s ! nat \<lceil>q\<rceil> = Fin c" by (simp_all add: at)
  have "\<exists>t. f_sub (Fin q) (f_of_int \<lfloor>q\<rfloor>) = t \<and> f_finite t"
  proof -
    have "\<bar>\<lfloor>q\<rfloor>\<bar> < 2 ^ 53"
      using floor_mono[OF q(2)] floor_mono[OF q(3)] n(2) by (simp del: floor_less_numeral)
    then have "f_of_int \<lfloor>q\<rfloor> = Fin (of_int \<lfloor>q\<rfloor>)" by (rule f_of_int_small)
    moreover have "Fin 0 \<le> rnd (q - of_int \<lfloor>q\<rfloor>)" "rnd (q - of_int \<lfloor>q\<rfloor>) \<le> Fin 1"
      using rnd_mono[of 0 "q - of_int \<lfloor>q\<rfloor>"] rnd_mono[of "q - of_int \<lfloor>q\<rfloor>" 1] rnd_exact[of 1]
        f_valid_small_int[of 1] by simp_all linarith
    ultimately show ?thesis
      by (cases "rnd (q - of_int \<lfloor>q\<rfloor>)") (auto simp: f_sub_def less_eq_f64_def less_f64_def split: if_splits)
  qed
  then obtain t where "f_sub (Fin q) (f_of_int \<lfloor>q\<rfloor>) = Fin t" by (auto simp: f_finite_iff)
  then show ?thesis
    unfolding interpolate_def Let_def n(3) q(1) f_floor.simps f_ceil.simps at' by (simp add: const)
qed

lemma percentile_const:
  assumes "set vs = {Fin c}" "f_valid (Fin c)" "length vs < 2 ^ 53" "probability p"
  shows "percentile_type7 vs p = Inr (Fin c)"
proof -
  have fin: "list_all f_finite vs" using assms(1) by (simp add: list_all_iff)
  have ne: "vs \<noteq> []" using assms(1) by (metis insert_not_empty set_empty)
  show ?thesis
  proof (cases "length vs = 1")
    case True
    then have "vs ! 0 = Fin c" using assms(1) nth_mem[of 0 vs] by simp
    with True ne fin assms(4) show ?thesis by (simp add: percentile_eq result_simps)
  next
    case False
    with ne have "1 < length (sort vs)" by (cases vs) auto
    then have "interpolate (sort vs) p = Inr (Fin c)"
      using assms by (intro interpolate_const) simp_all
    with False ne fin assms(4) show ?thesis by (simp add: percentile_eq result_simps)
  qed
qed

subsection \<open>Properties of the percentile\<close>

text \<open>The median of finite float64 values, as the code computes it with its rounding, lies between two of
  the values: no median falls outside the measured range.\<close>

theorem median_within_range:
  assumes "percentile_type7 vs half = Inr m" and "list_all f_valid vs" and "length vs < 2 ^ 53"
  shows "(\<exists>v\<in>set vs. v \<le> m) \<and> (\<exists>v\<in>set vs. m \<le> v)"
  using assms by (rule median_between)

lemma median_of_three:
  "percentile_type7 [Fin 3, Fin 1, Fin 2] half = Inr (Fin 2)"
proof -
  have "f_mul half (f_of_int (int 2)) = Fin (of_nat 2 / 2)" by (rule median_position) simp_all
  then have "f_mul half (f_of_int 2) = Fin 1" by simp
  then show ?thesis
    by (simp add: percentile_type7_def validate_finite_values_def f_le_def Let_def)
qed

theorem median_within_range_witness:
  "\<exists>v\<in>{Fin 3, Fin 1, Fin 2}. v \<le> Fin 2"
proof -
  have "f_valid (Fin 1)" "f_valid (Fin 2)" "f_valid (Fin 3)"
    using f_valid_small_int[of 1] f_valid_small_int[of 2] f_valid_small_int[of 3] by simp_all
  then show ?thesis
    using median_within_range[OF median_of_three] by (simp del: f_valid.simps)
qed

text \<open>A percentile depends only on the population, not on the order in which the trials ran.\<close>

theorem percentile_order_independent:
  assumes "mset vs = mset ws"
  shows "percentile_type7 vs p = Inr m \<longleftrightarrow> percentile_type7 ws p = Inr m"
  by (rule percentile_perm[OF assms])

theorem percentile_order_independent_witness:
  "percentile_type7 [Fin 1, Fin 2, Fin 3] half = Inr (Fin 2)"
  using percentile_order_independent[of "[Fin 3, Fin 1, Fin 2]" "[Fin 1, Fin 2, Fin 3]" half "Fin 2"]
    median_of_three by (simp add: add_mset_commute)

subsection \<open>Summaries and flags\<close>

lemma f_less_finite: "f_finite x \<Longrightarrow> f_finite y \<Longrightarrow> f_less x y \<longleftrightarrow> x < y"
  by (cases x; cases y) (auto simp: less_f64_def)

lemma foldl_minimum:
  "list_all f_finite (m # vs) \<Longrightarrow>
     foldl (\<lambda>m v. if f_less v m then v else m) m vs = Min (insert m (set vs))"
proof (induction vs arbitrary: m)
  case (Cons v vs)
  have "foldl (\<lambda>m v. if f_less v m then v else m) m (v # vs) = Min (insert (min v m) (set vs))"
  proof -
    have "(if f_less v m then v else m) = min v m"
      using Cons.prems by (auto simp: f_less_finite min_def)
    then show ?thesis using Cons by (simp add: min_def)
  qed
  also have "\<dots> = Min (insert m (set (v # vs)))"
    by (cases "vs = []") (simp_all add: ac_simps)
  finally show ?case .
qed simp

lemma foldl_maximum:
  "list_all f_finite (m # vs) \<Longrightarrow>
     foldl (\<lambda>m v. if f_less m v then v else m) m vs = Max (insert m (set vs))"
proof (induction vs arbitrary: m)
  case (Cons v vs)
  have "foldl (\<lambda>m v. if f_less m v then v else m) m (v # vs) = Max (insert (max v m) (set vs))"
  proof -
    have "(if f_less m v then v else m) = max v m"
      using Cons.prems by (auto simp: f_less_finite max_def)
    then show ?thesis using Cons by (simp add: max_def)
  qed
  also have "\<dots> = Max (insert m (set (v # vs)))"
    by (cases "vs = []") (simp_all add: ac_simps)
  finally show ?case .
qed simp

lemma minimum_Min: "vs \<noteq> [] \<Longrightarrow> list_all f_finite vs \<Longrightarrow> minimum vs = Min (set vs)"
  using foldl_minimum[of "hd vs" "tl vs"] by (cases vs) (simp_all add: minimum_def)

lemma maximum_Max: "vs \<noteq> [] \<Longrightarrow> list_all f_finite vs \<Longrightarrow> maximum vs = Max (set vs)"
  using foldl_maximum[of "hd vs" "tl vs"] by (cases vs) (simp_all add: maximum_def)

lemma summarize_Inr:
  assumes "summarize vs = Inr s"
  shows "2 \<le> length vs \<and> list_all f_finite vs \<and> ts_n s = length vs \<and>
    ts_min s = minimum vs \<and> ts_max s = maximum vs \<and>
    percentile_type7 vs half = Inr (ts_median s) \<and> f_finite (ts_mean s) \<and> f_finite (ts_sample_stddev s) \<and>
    (ts_cv_pct s = None \<longleftrightarrow> f_eq (ts_mean s) (Fin 0)) \<and>
    (\<forall>cv. ts_cv_pct s = Some cv \<longrightarrow> f_finite cv)"
  using assms
  by (auto simp: summarize_def result_simps Let_def split: if_splits prod.splits)

text \<open>A summary describes its population: it exists only for at least two finite values, counts them, its
  extremes are the least and the greatest of them, its median lies between the extremes, and a coefficient
  of variation is given exactly when the mean is not zero, and is finite.\<close>

theorem summarize_describes_population:
  assumes "summarize vs = Inr s" and "list_all f_valid vs" and "length vs < 2 ^ 53"
  shows "2 \<le> length vs \<and> ts_n s = length vs \<and> list_all f_finite vs \<and>
    ts_min s = Min (set vs) \<and> ts_max s = Max (set vs) \<and>
    ts_min s \<le> ts_median s \<and> ts_median s \<le> ts_max s \<and>
    (ts_cv_pct s = None \<longleftrightarrow> f_eq (ts_mean s) (Fin 0)) \<and>
    (\<forall>cv. ts_cv_pct s = Some cv \<longrightarrow> f_finite cv)"
proof -
  note h = summarize_Inr[OF assms(1)]
  then have ne: "vs \<noteq> []" by auto
  have "ts_min s = Min (set vs)" "ts_max s = Max (set vs)"
    using h minimum_Min[OF ne] maximum_Max[OF ne] by simp_all
  moreover have "(\<exists>v\<in>set vs. v \<le> ts_median s) \<and> (\<exists>v\<in>set vs. ts_median s \<le> v)"
    using median_between assms(2,3) h by blast
  ultimately show ?thesis
    using h by (metis List.finite_set Max_ge Min_le order_trans)
qed

lemma summarize_constant_pair:
  "\<exists>s. summarize [Fin 1, Fin 1] = Inr s"
proof -
  have r: "rnd 0 = Fin 0" "rnd 1 = Fin 1" "rnd 2 = Fin 2"
    using rnd_exact[OF f_valid_small_int[of 0]] rnd_exact[OF f_valid_small_int[of 1]]
      rnd_exact[OF f_valid_small_int[of 2]] by simp_all
  have "rnd 1 \<le> rnd (14826 / 10000)" "rnd (14826 / 10000) \<le> rnd 2" by (rule rnd_mono; simp)+
  then obtain c where c: "rnd (7413 / 5000) = Fin c"
    unfolding r by (cases "rnd (7413 / 5000)") (auto simp: less_eq_f64_def less_f64_def split: if_splits)
  have one: "percentile_type7 [Fin 1, Fin 1] half = Inr (Fin 1)"
    "percentile_type7 [Fin 0, Fin 0] half = Inr (Fin 0)"
    by (rule percentile_const; use f_valid_small_int[of 0] f_valid_small_int[of 1] in \<open>simp del: f_valid.simps\<close>)+
  have "mean_and_sample_stddev [Fin 1, Fin 1] = (Fin 1, Fin 0)"
    by (simp add: mean_and_sample_stddev_def Let_def f_of_int_def f_sub_def r)
  then show ?thesis
    by (simp add: summarize_def validate_finite_values_def one f_sub_def r c Let_def)
qed

theorem summarize_describes_population_witness:
  "\<exists>s :: trial_stats. ts_n s = 2 \<and> ts_min s \<le> ts_median s"
proof -
  obtain s where s: "summarize [Fin 1, Fin 1] = Inr s" using summarize_constant_pair by blast
  have "f_valid (Fin 1)" using f_valid_small_int[of 1] by simp
  then have "list_all f_valid [Fin 1, Fin 1]" by (simp del: f_valid.simps)
  from summarize_describes_population[OF s this]
  have "ts_n s = length [Fin 1, Fin 1]" "ts_min s \<le> ts_median s" by auto
  then show ?thesis by (intro exI[of _ s]) simp
qed

lemma threshold_flags_spec:
  "threshold_flags t m d i vs = Inr fs \<Longrightarrow>
     map rz_index fs = map fst (filter (\<lambda>(j, v).
         f_less t (f_abs (f_div (f_mul (rnd (6744897501960817 / 10 ^ 16)) (f_sub v m)) d)))
       (zip [i..<i + length vs] vs)) \<and>
     (\<forall>f\<in>set fs. i \<le> rz_index f \<and> rz_index f < i + length vs \<and> rz_value f = vs ! (rz_index f - i))"
proof (induction vs arbitrary: i fs)
  case (Cons v vs)
  have z: "zip [i..<i + length (v # vs)] (v # vs) = (i, v) # zip [Suc i..<Suc i + length vs] vs"
    by (simp add: upt_conv_Cons del: upt_Suc)
  from Cons show ?case unfolding z
    by (fastforce simp: Let_def result_simps nth_Cons' split: if_splits)
qed simp

lemma nonmedian_flags_spec:
  "map rz_index (nonmedian_flags m i vs) =
     map fst (filter (\<lambda>(j, v). \<not> f_eq v m) (zip [i..<i + length vs] vs)) \<and>
   (\<forall>f\<in>set (nonmedian_flags m i vs).
      i \<le> rz_index f \<and> rz_index f < i + length vs \<and> rz_value f = vs ! (rz_index f - i))"
proof (induction vs arbitrary: i)
  case (Cons v vs)
  have z: "zip [i..<i + length (v # vs)] (v # vs) = (i, v) # zip [Suc i..<Suc i + length vs] vs"
    by (simp add: upt_conv_Cons del: upt_Suc)
  from Cons[of "Suc i"] show ?case unfolding z
    by (fastforce simp: nth_Cons')
qed simp

text \<open>Outlier flags point at the trials they accuse: every flag carries an index of the population and the
  value at that index, the indices are strictly increasing, so no trial is flagged twice.\<close>

theorem flags_point_into_population:
  assumes "flag_robust_z vs t = Inr flags"
  shows "sorted_wrt (<) (map rz_index flags) \<and>
    list_all (\<lambda>f. rz_index f < length vs \<and> rz_value f = vs ! rz_index f) flags"
proof -
  have sorted: "sorted_wrt (<) (map fst (filter P (zip [0..<length vs] vs)))" for P
  proof -
    have "sorted_wrt (\<lambda>x y. fst x < fst y) (zip [0..<length vs] vs)"
      by (simp add: sorted_wrt_iff_nth_less)
    then show ?thesis by (simp add: sorted_wrt_map sorted_wrt_filter)
  qed
  from assms consider m where "flags = nonmedian_flags m 0 vs"
    | m d where "threshold_flags t m d 0 vs = Inr flags"
    by (auto simp: flag_robust_z_def result_simps split: if_splits)
  then show ?thesis
  proof cases
    case 1
    then show ?thesis using nonmedian_flags_spec[of m 0 vs] sorted by (auto simp: list_all_iff)
  next
    case 2
    then show ?thesis using threshold_flags_spec[OF 2] sorted by (auto simp: list_all_iff)
  qed
qed

lemma flag_one_outlier:
  "flag_robust_z [Fin 1, Fin 1, Fin 4] (Fin 3) =
     Inr [\<lparr>rz_index = 2, rz_value = Fin 4, rz_robust_z = None, rz_reason = ''mad_zero_nonmedian''\<rparr>]"
proof -
  have "f_mul half (f_of_int (int 2)) = Fin (of_nat 2 / 2)" by (rule median_position) simp_all
  then have h: "f_mul half (f_of_int 2) = Fin 1" by simp
  have r: "rnd 0 = Fin 0" "rnd 3 = Fin 3"
    using rnd_exact[OF f_valid_small_int[of 0]] rnd_exact[OF f_valid_small_int[of 3]] by simp_all
  have "percentile_type7 [Fin 1, Fin 1, Fin 4] half = Inr (Fin 1)"
    "percentile_type7 [Fin 0, Fin 0, Fin 3] half = Inr (Fin 0)"
    using h by (simp_all add: percentile_type7_def validate_finite_values_def f_le_def Let_def)
  then show ?thesis
    by (simp add: flag_robust_z_def validate_finite_values_def f_le_def f_sub_def r)
qed

theorem flags_point_into_population_witness:
  "(2::nat) < length [Fin 1, Fin 1, Fin 4]"
  using flags_point_into_population[OF flag_one_outlier] by simp

end
