(* ===== verification/BenchTypes.thy ===== *)
theory BenchTypes
  imports GoNumbers Stats
begin

section \<open>Benchmark series, trials and environments\<close>

text \<open>
  The records of \<^verbatim>\<open>internal/benchmarkrun/run.go\<close> that the runner writes and the
  comparison reads. The evidence payloads a trial carries beside its status and value
  (raw logs, parsed results, metrics, controls, phase timeline) are not interpreted by the
  operations modelled here and are left out; every other field is kept.
\<close>

record environment =
  env_schema_version :: string
  env_artifact_type :: string
  env_runtime :: string
  env_runtime_os :: string
  env_runtime_arch :: string
  env_driver :: string
  env_target :: string
  env_target_endpoint_contract :: string
  env_target_endpoint_host :: string
  env_target_endpoint_port :: int
  env_docker_driver_image_id :: string
  env_docker_target_image_id :: string
  env_target_topology :: string
  env_driver_version :: string
  env_parser_version :: string
  env_postgres_server_version_num :: string
  env_postgres_server_major :: string
  env_pg_config :: string
  env_pg_config_digest :: string
  env_subject_dimension :: string
  env_native_toolchain_digest :: string
  env_native_toolchain_manifest_ref :: string
  env_native_toolchain_provenance :: string
  env_engine_version :: string
  env_engine_commit :: string
  env_engine_binary_digest :: string
  env_pack_id :: string
  env_pack_version :: string
  env_pack_digest :: string
  env_qualification :: string
  env_digest :: string

record trial =
  tr_schema_version :: string
  tr_artifact_type :: string
  tr_trial :: int
  tr_run_id :: string
  tr_run_ref :: string
  tr_started_at :: string
  tr_finished_at :: string
  tr_duration_ms :: int
  tr_status :: string
  tr_reasons :: "string list"
  tr_experiment_verified :: bool
  tr_environment_digest :: string
  tr_primary_metric :: string
  tr_primary_value :: "f64 option"

record series =
  se_benchmark :: string
  se_name :: string
  se_class :: string
  se_driver :: string
  se_target :: string
  se_target_endpoint_contract :: string
  se_target_topology :: string
  se_subject :: string
  se_run_id :: string
  se_run_dir :: string
  se_spec_ref :: string
  se_spec_digest :: string
  se_protocol_digest :: string
  se_comparison_key_digest :: string
  se_engine_binary_ref :: string
  se_engine_binary_digest :: string
  se_allowed_differences :: "string list"
  se_runtime :: string
  se_pgbouncer_port :: "int option"
  se_evidence_class :: string
  se_primary_metric :: string
  se_direction :: string
  se_regression_threshold_pct :: "f64 option"
  se_max_cv_pct :: f64
  se_reset_policy :: string
  se_started_at :: string
  se_finished_at :: string
  se_status :: string
  se_reasons :: "string list"
  se_trials_planned :: int
  se_trials_valid :: int
  se_trials_failed :: int
  se_trials_invalid :: int
  se_environment :: "environment option"
  se_stats :: "trial_stats option"
  se_trials :: "trial list"

subsection \<open>Blank records\<close>

text \<open>The zero values of the two structs, on which concrete runs are built.\<close>

definition blank_environment :: environment where
  "blank_environment =
    \<lparr>env_schema_version = [], env_artifact_type = [], env_runtime = [], env_runtime_os = [],
    env_runtime_arch = [], env_driver = [], env_target = [], env_target_endpoint_contract = [],
    env_target_endpoint_host = [], env_target_endpoint_port = 0, env_docker_driver_image_id = [],
    env_docker_target_image_id = [], env_target_topology = [], env_driver_version = [],
    env_parser_version = [], env_postgres_server_version_num = [], env_postgres_server_major = [],
    env_pg_config = [], env_pg_config_digest = [], env_subject_dimension = [],
    env_native_toolchain_digest = [], env_native_toolchain_manifest_ref = [],
    env_native_toolchain_provenance = [], env_engine_version = [], env_engine_commit = [],
    env_engine_binary_digest = [], env_pack_id = [], env_pack_version = [], env_pack_digest = [],
    env_qualification = [], env_digest = []\<rparr>"

definition blank_series :: series where
  "blank_series =
    \<lparr>se_benchmark = [], se_name = [], se_class = [], se_driver = [], se_target = [],
    se_target_endpoint_contract = [], se_target_topology = [], se_subject = [], se_run_id = [],
    se_run_dir = [], se_spec_ref = [], se_spec_digest = [], se_protocol_digest = [],
    se_comparison_key_digest = [], se_engine_binary_ref = [], se_engine_binary_digest = [],
    se_allowed_differences = [], se_runtime = [], se_pgbouncer_port = None, se_evidence_class = [],
    se_primary_metric = [], se_direction = [], se_regression_threshold_pct = None, se_max_cv_pct =
    Fin 0, se_reset_policy = [], se_started_at = [], se_finished_at = [], se_status = [], se_reasons
    = [], se_trials_planned = 0, se_trials_valid = 0, se_trials_failed = 0, se_trials_invalid = 0,
    se_environment = None, se_stats = None, se_trials = []\<rparr>"

subsection \<open>Sorted sets of reasons\<close>

definition unique_sorted :: "string list \<Rightarrow> string list" where
  "unique_sorted values = sort (remdups (filter (\<lambda>v. v \<noteq> []) (map trim_space values)))"

lemma set_unique_sorted: "set (unique_sorted vs) = trim_space ` set vs - {[]}"
  by (auto simp: unique_sorted_def)

lemma sorted_unique_sorted [simp]: "sorted (unique_sorted vs) \<and> distinct (unique_sorted vs)"
  by (simp add: unique_sorted_def)

lemma unique_sorted_eq_Nil: "unique_sorted vs = [] \<longleftrightarrow> (\<forall>v\<in>set vs. trim_space v = [])"
proof -
  have "unique_sorted vs = [] \<longleftrightarrow> set (unique_sorted vs) = {}" by simp
  then show ?thesis by (auto simp: set_unique_sorted)
qed

lemma unique_sorted_Nil [simp]: "unique_sorted [] = []"
  by (simp add: unique_sorted_def)

lemma unique_sorted_cong: "set vs = set ws \<Longrightarrow> unique_sorted vs = unique_sorted ws"
proof -
  assume "set vs = set ws"
  then have "set (unique_sorted vs) = set (unique_sorted ws)" by (simp add: set_unique_sorted)
  then show ?thesis
    using sorted_unique_sorted by (metis sorted_distinct_set_unique)
qed

end
