(* ===== verification/SeriesRun.thy ===== *)
theory SeriesRun
  imports BenchTypes
begin

section \<open>Executing a benchmark series\<close>

text \<open>
  \<^verbatim>\<open>internal/benchmarkrun/run.go\<close>: the \<open>Execution\<close> that \<open>Start\<close> creates, the loop of
  \<open>Run\<close>, \<open>ExecuteTrial\<close>, \<open>Finish\<close>, the invalidation after a change of the protocol identity, and
  \<open>EvaluateSeries\<close>. What one call learns from the outside (the engine binary and the scenario pack
  revalidated, the trial that \<open>runTrial\<close> returned, the environment read from the linked run, whether
  a file could be written) is an argument, an observation; the trial files are part of the state.
\<close>

subsection \<open>State\<close>

record series_plan =
  sp_trials :: int
  sp_min_valid_trials :: int
  sp_class :: string
  sp_max_cv_pct :: f64

record execution =
  ex_plan :: series_plan
  ex_series :: series
  ex_expected_environment :: "environment option"
  ex_halted :: bool
  ex_finished :: bool
  ex_files :: "nat \<Rightarrow> trial option"

record observation =
  ob_engine_before :: bool
  ob_pack_before :: bool
  ob_trial :: trial
  ob_engine_during :: bool
  ob_pack_during :: bool
  ob_environment :: "environment option"
  ob_rewrite :: "nat \<Rightarrow> bool"
  ob_write :: bool

record final_observation =
  fo_engine :: bool
  fo_native :: bool
  fo_pack :: bool
  fo_rewrite :: "nat \<Rightarrow> bool"
  fo_now :: string
  fo_finalize :: bool

datatype trial_outcome = Refused string | Attempted trial | Persist_failed trial

datatype finish_outcome = Already_finalized | Finalize_failed | Ended string

definition start_execution :: "series_plan \<Rightarrow> series \<Rightarrow> execution" where
  "start_execution plan base =
     \<lparr>ex_plan = plan,
      ex_series = base\<lparr>se_class := sp_class plan, se_max_cv_pct := sp_max_cv_pct plan,
        se_status := ''passed'', se_reasons := [], se_trials_planned := sp_trials plan,
        se_trials_valid := 0, se_trials_failed := 0, se_trials_invalid := 0,
        se_environment := None, se_stats := None, se_trials := []\<rparr>,
      ex_expected_environment = None, ex_halted = False, ex_finished = False, ex_files = (\<lambda>_. None)\<rparr>"

subsection \<open>Invalidation\<close>

definition invalidate_trial :: "string \<Rightarrow> trial \<Rightarrow> trial" where
  "invalidate_trial reason t =
     t\<lparr>tr_status := ''invalid'', tr_reasons := unique_sorted (tr_reasons t @ [reason])\<rparr>"

definition rewrite_files ::
  "(nat \<Rightarrow> bool) \<Rightarrow> trial list \<Rightarrow> (nat \<Rightarrow> trial option) \<Rightarrow> nat \<Rightarrow> trial option" where
  "rewrite_files writable trials files n =
     (if 1 \<le> n \<and> n \<le> length trials \<and> writable n then Some (trials ! (n - 1)) else files n)"

definition invalidate_for_protocol_identity_drift ::
  "string \<Rightarrow> (nat \<Rightarrow> bool) \<Rightarrow> execution \<Rightarrow> execution" where
  "invalidate_for_protocol_identity_drift reason writable ex =
     (let trials = map (invalidate_trial reason) (se_trials (ex_series ex))
      in ex\<lparr>ex_halted := True, ex_expected_environment := None,
            ex_series := (ex_series ex)\<lparr>se_environment := None, se_trials_valid := 0,
              se_trials_failed := 0, se_trials_invalid := int (length trials),
              se_reasons := se_reasons (ex_series ex) @ [reason], se_trials := trials\<rparr>,
            ex_files := rewrite_files writable trials (ex_files ex)\<rparr>)"

subsection \<open>One trial\<close>

definition append_trial :: "trial \<Rightarrow> execution \<Rightarrow> execution" where
  "append_trial t ex = ex\<lparr>ex_series := (ex_series ex)\<lparr>se_trials := se_trials (ex_series ex) @ [t]\<rparr>\<rparr>"

definition count_trial :: "trial \<Rightarrow> execution \<Rightarrow> execution" where
  "count_trial t ex =
     (let s = ex_series ex
      in ex\<lparr>ex_series :=
           (if tr_status t = ''passed'' \<and> tr_primary_value t \<noteq> None
            then s\<lparr>se_trials_valid := se_trials_valid s + 1\<rparr>
            else if tr_status t = ''failed'' then s\<lparr>se_trials_failed := se_trials_failed s + 1\<rparr>
            else s\<lparr>se_trials_invalid := se_trials_invalid s + 1\<rparr>)\<rparr>)"

definition reject_last :: "string \<Rightarrow> execution \<Rightarrow> execution" where
  "reject_last reason ex =
     (let s = ex_series ex; t = last (se_trials s)
      in ex\<lparr>ex_series := s\<lparr>
           se_trials := butlast (se_trials s) @
             [t\<lparr>tr_status := ''invalid'', tr_reasons := tr_reasons t @ [reason]\<rparr>],
           se_trials_invalid := se_trials_invalid s + 1,
           se_trials_valid := se_trials_valid s - 1\<rparr>\<rparr>)"

definition check_environment :: "trial \<Rightarrow> environment option \<Rightarrow> execution \<Rightarrow> execution" where
  "check_environment t observed ex =
     (if tr_status t = ''passed'' \<and> tr_environment_digest t \<noteq> [] then
        (case observed of
           None \<Rightarrow> reject_last ''environment evidence invalid'' ex
         | Some e \<Rightarrow>
           (case ex_expected_environment ex of
              None \<Rightarrow> ex\<lparr>ex_expected_environment := Some e\<rparr>
            | Some expected \<Rightarrow>
              if env_digest expected \<noteq> env_digest e then reject_last ''environment drift'' ex else ex))
      else ex)"

definition persist_last :: "nat \<Rightarrow> bool \<Rightarrow> execution \<Rightarrow> trial_outcome \<times> execution" where
  "persist_last number writable ex =
     (let actual = last (se_trials (ex_series ex))
      in if \<not> writable then (Persist_failed actual, ex)
         else
           let ex1 = ex\<lparr>ex_files := (ex_files ex)(number := Some actual)\<rparr>
           in if tr_status actual = ''failed''
              then (Attempted actual,
                    ex1\<lparr>ex_halted := True,
                      ex_series := (ex_series ex1)\<lparr>se_reasons := se_reasons (ex_series ex1) @
                        [''trial '' @ show_nat number @ '' execution failed'']\<rparr>\<rparr>)
              else (Attempted actual, ex1))"

definition rejected_attempt :: "nat \<Rightarrow> string \<Rightarrow> trial" where
  "rejected_attempt number reason =
     \<lparr>tr_schema_version = [], tr_artifact_type = [], tr_trial = int number, tr_run_id = [], tr_run_ref = [],
      tr_started_at = [], tr_finished_at = [], tr_duration_ms = 0, tr_status = ''invalid'',
      tr_reasons = [reason], tr_experiment_verified = False, tr_environment_digest = [],
      tr_primary_metric = [], tr_primary_value = None\<rparr>"

definition execute_trial :: "observation \<Rightarrow> execution \<Rightarrow> trial_outcome \<times> execution" where
  "execute_trial ob ex =
     (let number = length (se_trials (ex_series ex)) + 1;
          before = (\<lambda>what. what @ '' changed before trial '' @ show_nat number);
          during = (\<lambda>what. what @ '' changed during trial '' @ show_nat number);
          drift = (\<lambda>reason. invalidate_for_protocol_identity_drift reason (ob_rewrite ob))
      in if ex_finished ex then (Refused ''benchmark execution is already finalized'', ex)
         else if ex_halted ex then (Refused ''benchmark execution is halted after a failed trial'', ex)
         else if int (length (se_trials (ex_series ex))) \<ge> sp_trials (ex_plan ex)
         then (Refused (''all '' @ show_int (sp_trials (ex_plan ex)) @ '' benchmark trials have already executed''), ex)
         else if \<not> ob_engine_before ob
         then (Attempted (rejected_attempt number (before ''benchmark engine'')), drift (before ''benchmark engine'') ex)
         else if \<not> ob_pack_before ob
         then (Attempted (rejected_attempt number (before ''scenario pack'')), drift (before ''scenario pack'') ex)
         else
           let trial = ob_trial ob;
               ex1 = append_trial trial ex;
               ex2 = (if \<not> ob_engine_during ob then drift (during ''benchmark engine'') ex1
                      else if \<not> ob_pack_during ob then drift (during ''scenario pack'') ex1
                      else check_environment trial (ob_environment ob) (count_trial trial ex1))
           in persist_last number (ob_write ob) ex2)"

subsection \<open>The terminal status\<close>

datatype evaluate_error =
    Missing_primary_value int
  | Unsupported_status int string
  | Summary_failed stats_error

text \<open>\<open>%q\<close> on a status, which is ASCII text without quotes, backslashes or control characters.\<close>

fun evaluate_message :: "evaluate_error \<Rightarrow> string" where
  "evaluate_message (Missing_primary_value n) = ''passed trial '' @ show_int n @ '' has no primary value''"
| "evaluate_message (Unsupported_status n s) =
     ''trial '' @ show_int n @ '' has unsupported status '' @ [CHR 0x22] @ s @ [CHR 0x22]"
| "evaluate_message (Summary_failed e) = stats_message e"

fun collect_values :: "trial list \<Rightarrow> (evaluate_error, f64 list) result" where
  "collect_values [] = Inr []"
| "collect_values (t # ts) =
     (if tr_status t = ''passed'' then
        (case tr_primary_value t of
           None \<Rightarrow> Inl (Missing_primary_value (tr_trial t))
         | Some v \<Rightarrow> bind_r (collect_values ts) (\<lambda>vs. Inr (v # vs)))
      else if tr_status t = ''failed'' \<or> tr_status t = ''invalid'' then collect_values ts
      else Inl (Unsupported_status (tr_trial t) (tr_status t)))"

definition count_status :: "string \<Rightarrow> trial list \<Rightarrow> nat" where
  "count_status status trials = length (filter (\<lambda>t. tr_status t = status) trials)"

text \<open>\<open>%.4f\<close>: the exact value rounded half to even to the given number of decimals.\<close>

definition format_fixed :: "nat \<Rightarrow> f64 \<Rightarrow> string" where
  "format_fixed decimals x =
     (case x of
        NaN \<Rightarrow> ''NaN''
      | Inf negative \<Rightarrow> if negative then ''-Inf'' else ''+Inf''
      | Fin r \<Rightarrow>
        let n = nat (round_half_even (\<bar>r\<bar> * 10 ^ decimals));
            fraction = show_nat (n mod 10 ^ decimals)
        in (if r < 0 then ''-'' else []) @ show_nat (n div 10 ^ decimals) @ ''.'' @
           replicate (decimals - length fraction) (CHR ''0'') @ fraction)"

definition cv_exceeds :: "trial_stats option \<Rightarrow> f64 \<Rightarrow> bool" where
  "cv_exceeds stats limit =
     (case stats of None \<Rightarrow> False
      | Some s \<Rightarrow> (case ts_cv_pct s of None \<Rightarrow> False | Some cv \<Rightarrow> f_less limit cv))"

definition cv_reason :: "trial_stats option \<Rightarrow> f64 \<Rightarrow> string" where
  "cv_reason stats limit =
     (case stats of None \<Rightarrow> []
      | Some s \<Rightarrow> (case ts_cv_pct s of None \<Rightarrow> []
         | Some cv \<Rightarrow> ''coefficient of variation '' @ format_fixed 4 cv @ ''% exceeds '' @ format_fixed 4 limit @ ''%''))"

definition derive_status ::
  "series_plan \<Rightarrow> trial list \<Rightarrow> trial_stats option \<Rightarrow> string \<times> string list" where
  "derive_status plan trials stats =
     (let valid = int (count_status ''passed'' trials);
          failed = count_status ''failed'' trials;
          invalid = count_status ''invalid'' trials
      in if failed > 0 then (''failed'', [])
         else if int (length trials) \<noteq> sp_trials plan
         then (''invalid'', [''recorded trials '' @ show_nat (length trials) @ '' differ from planned ''
                @ show_int (sp_trials plan) @ ''; partial series cannot be performance evidence''])
         else if valid < sp_min_valid_trials plan
         then (''invalid'', [''valid trials '' @ show_int valid @ '' below required '' @ show_int (sp_min_valid_trials plan)])
         else if sp_class plan = ''measurement'' \<and> valid < 5
         then (''invalid'', [''measurement evidence requires at least 5 valid independent trials''])
         else if cv_exceeds stats (sp_max_cv_pct plan)
         then (''inconclusive'', [cv_reason stats (sp_max_cv_pct plan)])
         else (''passed'',
               (if invalid > 0
                then [show_nat invalid @ '' protocol-invalid attempts retained and excluded from statistics'']
                else [])))"

definition evaluate_series ::
  "series_plan \<Rightarrow> series \<Rightarrow> (evaluate_error, string \<times> trial_stats option \<times> string list) result" where
  "evaluate_series plan s =
     bind_r (collect_values (se_trials s)) (\<lambda>values.
     bind_r (if 2 \<le> length values
             then (case summarize values of Inl e \<Rightarrow> Inl (Summary_failed e) | Inr st \<Rightarrow> Inr (Some st))
             else Inr None) (\<lambda>stats.
     case derive_status plan (se_trials s) stats of (status, reasons) \<Rightarrow> Inr (status, stats, reasons)))"

subsection \<open>Closing the series\<close>

text \<open>The identity checks of \<open>Finish\<close>, in its order; each failure invalidates every trial.\<close>

definition final_checks :: "final_observation \<Rightarrow> execution \<Rightarrow> execution" where
  "final_checks fo ex =
     (let drift = (\<lambda>ok reason ex. if ok then ex
            else invalidate_for_protocol_identity_drift reason (fo_rewrite fo) ex)
      in drift (fo_pack fo) ''scenario pack changed before series finalization''
           (drift (fo_native fo) ''native toolchain changed before series finalization''
             (drift (fo_engine fo) ''benchmark engine changed before series finalization'' ex)))"

definition close_series :: "final_observation \<Rightarrow> execution \<Rightarrow> series" where
  "close_series fo ex =
     (let s = (ex_series ex)\<lparr>se_environment := ex_expected_environment ex\<rparr>;
          s1 = (case evaluate_series (ex_plan ex) s of
                  Inl e \<Rightarrow> s\<lparr>se_status := ''invalid'',
                    se_reasons := se_reasons s @ [''aggregate statistics failed: '' @ evaluate_message e]\<rparr>
                | Inr (status, stats, reasons) \<Rightarrow>
                  s\<lparr>se_status := status, se_stats := stats, se_reasons := se_reasons s @ reasons\<rparr>)
      in s1\<lparr>se_finished_at := fo_now fo, se_reasons := unique_sorted (se_reasons s1)\<rparr>)"

definition finish_execution :: "final_observation \<Rightarrow> execution \<Rightarrow> finish_outcome \<times> execution" where
  "finish_execution fo ex =
     (if ex_finished ex then (Already_finalized, ex)
      else
        let checked = final_checks fo ex;
            s = close_series fo checked;
            closed = checked\<lparr>ex_series := s\<rparr>
        in if \<not> fo_finalize fo then (Finalize_failed, closed)
           else (Ended (se_status s), closed\<lparr>ex_finished := True\<rparr>))"

subsection \<open>Each step moves the execution forward\<close>

lemma invalidate_simps [simp]:
  "ex_halted (invalidate_for_protocol_identity_drift r w ex)"
  "ex_plan (invalidate_for_protocol_identity_drift r w ex) = ex_plan ex"
  "ex_finished (invalidate_for_protocol_identity_drift r w ex) = ex_finished ex"
  "ex_expected_environment (invalidate_for_protocol_identity_drift r w ex) = None"
  "se_trials (ex_series (invalidate_for_protocol_identity_drift r w ex)) =
     map (invalidate_trial r) (se_trials (ex_series ex))"
  by (simp_all add: invalidate_for_protocol_identity_drift_def Let_def)

lemma append_trial_simps [simp]:
  "ex_halted (append_trial t ex) = ex_halted ex" "ex_plan (append_trial t ex) = ex_plan ex"
  "ex_finished (append_trial t ex) = ex_finished ex"
  "se_trials (ex_series (append_trial t ex)) = se_trials (ex_series ex) @ [t]"
  by (simp_all add: append_trial_def)

lemma count_trial_simps [simp]:
  "ex_halted (count_trial t ex) = ex_halted ex" "ex_plan (count_trial t ex) = ex_plan ex"
  "ex_finished (count_trial t ex) = ex_finished ex"
  "se_trials (ex_series (count_trial t ex)) = se_trials (ex_series ex)"
  by (simp_all add: count_trial_def Let_def)

lemma check_environment_simps [simp]:
  "ex_halted (check_environment t e ex) = ex_halted ex" "ex_plan (check_environment t e ex) = ex_plan ex"
  "ex_finished (check_environment t e ex) = ex_finished ex"
  by (simp_all add: check_environment_def reject_last_def Let_def split: option.splits)

lemma check_environment_length [simp]:
  "se_trials (ex_series ex) \<noteq> [] \<Longrightarrow>
     length (se_trials (ex_series (check_environment t e ex))) = length (se_trials (ex_series ex))"
  by (simp add: check_environment_def reject_last_def Let_def split: option.splits)

lemma persist_last_simps [simp]:
  "ex_plan (snd (persist_last n w ex)) = ex_plan ex"
  "ex_finished (snd (persist_last n w ex)) = ex_finished ex"
  "se_trials (ex_series (snd (persist_last n w ex))) = se_trials (ex_series ex)"
  "ex_halted ex \<Longrightarrow> ex_halted (snd (persist_last n w ex))"
  by (simp_all add: persist_last_def Let_def)

definition can_execute :: "execution \<Rightarrow> bool" where
  "can_execute ex = (int (length (se_trials (ex_series ex))) < sp_trials (ex_plan ex) \<and> \<not> ex_halted ex)"

lemma execute_trial_plan [simp]: "ex_plan (snd (execute_trial ob ex)) = ex_plan ex"
  by (simp add: execute_trial_def Let_def)

lemma execute_trial_progress:
  assumes "fst (execute_trial ob ex) = Attempted t"
  shows "ex_halted (snd (execute_trial ob ex)) \<or>
    length (se_trials (ex_series (snd (execute_trial ob ex)))) = Suc (length (se_trials (ex_series ex)))"
  using assms by (auto simp: execute_trial_def Let_def split: if_splits)

lemma execute_trial_at_most_one:
  "length (se_trials (ex_series (snd (execute_trial ob ex)))) \<le> Suc (length (se_trials (ex_series ex)))"
  by (simp add: execute_trial_def Let_def)

text \<open>The loop of \<open>Run\<close>: it ends because each attempt halts the execution or adds a trial.\<close>

function run_trials :: "(nat \<Rightarrow> observation) \<Rightarrow> execution \<Rightarrow> trial option \<times> execution" where
  "run_trials observe ex =
     (if can_execute ex then
        (case execute_trial (observe (length (se_trials (ex_series ex)))) ex of
           (Attempted t, ex') \<Rightarrow> run_trials observe ex'
         | (Persist_failed t, ex') \<Rightarrow> (Some t, ex')
         | (Refused e, ex') \<Rightarrow> (Some (rejected_attempt 0 e), ex'))
      else (None, ex))"
  by pat_completeness auto

termination
proof (relation "measure (\<lambda>(observe, ex).
    if ex_halted ex then 0
    else Suc (nat (sp_trials (ex_plan ex)) - length (se_trials (ex_series ex))))", goal_cases)
  case (2 observe ex out ex' t)
  then have "execute_trial (observe (length (se_trials (ex_series ex)))) ex = (Attempted t, ex')" by simp
  with execute_trial_progress[of "observe (length (se_trials (ex_series ex)))" ex t]
    execute_trial_plan[of "observe (length (se_trials (ex_series ex)))" ex]
  show ?case using 2(1) by (auto simp: can_execute_def)
qed simp

declare run_trials.simps [simp del]

definition run_series ::
  "(nat \<Rightarrow> observation) \<Rightarrow> final_observation \<Rightarrow> series_plan \<Rightarrow> series \<Rightarrow> finish_outcome option \<times> execution" where
  "run_series observe fo plan base =
     (case run_trials observe (start_execution plan base) of
        (Some t, ex) \<Rightarrow> (None, ex)
      | (None, ex) \<Rightarrow> (case finish_execution fo ex of (outcome, ex') \<Rightarrow> (Some outcome, ex')))"

subsection \<open>Reachable executions\<close>

text \<open>
  The trials that \<open>runTrial\<close> returns as passed carry a primary value: it sets the status to
  \<open>passed\<close> only after the value.
\<close>

definition sound_observation :: "observation \<Rightarrow> bool" where
  "sound_observation ob =
     (tr_status (ob_trial ob) = ''passed'' \<longrightarrow> tr_primary_value (ob_trial ob) \<noteq> None)"

inductive reachable :: "series_plan \<Rightarrow> series \<Rightarrow> execution \<Rightarrow> bool" for plan base where
  started: "reachable plan base (start_execution plan base)"
| attempted: "reachable plan base ex \<Longrightarrow> sound_observation ob \<Longrightarrow>
     reachable plan base (snd (execute_trial ob ex))"
| closed: "reachable plan base ex \<Longrightarrow> reachable plan base (snd (finish_execution fo ex))"

inductive_cases reachable_E: "reachable plan base ex"

definition passed_trial :: "trial \<Rightarrow> bool" where
  "passed_trial t = (tr_status t = ''passed'')"

text \<open>The counters are the numbers of trials with each status, whatever happened on the way.\<close>

definition counters_agree :: "series \<Rightarrow> bool" where
  "counters_agree s =
     (list_all (\<lambda>t. passed_trial t \<longrightarrow> tr_primary_value t \<noteq> None) (se_trials s) \<and>
      se_trials_valid s = int (length (filter passed_trial (se_trials s))) \<and>
      se_trials_failed s = int (length (filter (\<lambda>t. tr_status t = ''failed'') (se_trials s))) \<and>
      se_trials_valid s + se_trials_failed s + se_trials_invalid s = int (length (se_trials s)))"

lemma counters_start: "counters_agree (ex_series (start_execution plan base))"
  by (simp add: start_execution_def counters_agree_def)

lemma passed_invalidated [simp]: "\<not> passed_trial (invalidate_trial r t)"
  "tr_status (invalidate_trial r t) = ''invalid''"
  by (simp_all add: passed_trial_def invalidate_trial_def)

lemma counters_invalidate: "counters_agree (ex_series (invalidate_for_protocol_identity_drift r w ex))"
  by (simp add: counters_agree_def invalidate_for_protocol_identity_drift_def Let_def filter_map o_def
      list_all_iff)

lemma counters_count:
  assumes "counters_agree (ex_series ex)" and "passed_trial t \<longrightarrow> tr_primary_value t \<noteq> None"
  shows "counters_agree (ex_series (count_trial t (append_trial t ex)))"
  using assms by (auto simp: counters_agree_def count_trial_def append_trial_def Let_def passed_trial_def)

lemma counters_reject_last:
  assumes "counters_agree (ex_series ex)" and "se_trials (ex_series ex) = ts @ [t]" and "passed_trial t"
  shows "counters_agree (ex_series (reject_last r ex))"
  using assms by (auto simp: counters_agree_def reject_last_def Let_def passed_trial_def)

lemma counters_check_environment:
  assumes "counters_agree (ex_series ex)" and "se_trials (ex_series ex) = ts @ [t]"
  shows "counters_agree (ex_series (check_environment t e ex))"
  using assms counters_reject_last[OF assms]
  by (auto simp: check_environment_def passed_trial_def split: option.splits)

lemma counters_persist:
  "counters_agree (ex_series ex) \<Longrightarrow> counters_agree (ex_series (snd (persist_last n w ex)))"
  by (simp add: persist_last_def Let_def counters_agree_def)

lemma counters_execute:
  assumes "counters_agree (ex_series ex)" and "sound_observation ob"
  shows "counters_agree (ex_series (snd (execute_trial ob ex)))"
proof -
  let ?ex = "count_trial (ob_trial ob) (append_trial (ob_trial ob) ex)"
  have "counters_agree (ex_series ?ex)"
    using assms by (intro counters_count) (auto simp: sound_observation_def passed_trial_def)
  then have "counters_agree (ex_series (check_environment (ob_trial ob) (ob_environment ob) ?ex))"
    by (rule counters_check_environment) simp
  then show ?thesis
    using assms(1) counters_invalidate by (simp add: execute_trial_def Let_def counters_persist)
qed

lemma close_series_simps [simp]:
  "se_trials (close_series fo ex) = se_trials (ex_series ex)"
  "se_trials_valid (close_series fo ex) = se_trials_valid (ex_series ex)"
  "se_trials_failed (close_series fo ex) = se_trials_failed (ex_series ex)"
  "se_trials_invalid (close_series fo ex) = se_trials_invalid (ex_series ex)"
  "se_environment (close_series fo ex) = ex_expected_environment ex"
  by (simp_all add: close_series_def Let_def split: sum.splits prod.splits)

lemma final_checks_cases:
  "final_checks fo ex = ex \<or>
   (\<exists>r ex'. final_checks fo ex = invalidate_for_protocol_identity_drift r (fo_rewrite fo) ex')"
  unfolding final_checks_def Let_def by (simp split: if_split) blast

lemma final_checks_simps [simp]:
  "ex_plan (final_checks fo ex) = ex_plan ex" "ex_finished (final_checks fo ex) = ex_finished ex"
  "length (se_trials (ex_series (final_checks fo ex))) = length (se_trials (ex_series ex))"
  by (simp_all add: final_checks_def Let_def)

lemma counters_finish:
  assumes "counters_agree (ex_series ex)"
  shows "counters_agree (ex_series (snd (finish_execution fo ex)))"
proof -
  have "counters_agree (ex_series (final_checks fo ex))"
    using final_checks_cases[of fo ex] assms counters_invalidate by metis
  then have "counters_agree (close_series fo (final_checks fo ex))"
    by (simp add: counters_agree_def)
  then show ?thesis using assms by (simp add: finish_execution_def Let_def)
qed

lemma reachable_counters: "reachable plan base ex \<Longrightarrow> counters_agree (ex_series ex)"
  by (induction rule: reachable.induct) (simp_all add: counters_start counters_execute counters_finish)

lemma reachable_plan: "reachable plan base ex \<Longrightarrow> ex_plan ex = plan"
  by (induction rule: reachable.induct)
     (simp_all add: start_execution_def finish_execution_def Let_def)

lemma reachable_bounded: "reachable plan base ex \<Longrightarrow> length (se_trials (ex_series ex)) \<le> nat (sp_trials plan)"
proof (induction rule: reachable.induct)
  case (attempted ex ob)
  show ?case
  proof (cases "length (se_trials (ex_series ex)) < nat (sp_trials plan)")
    case True
    then show ?thesis using execute_trial_at_most_one[of ob ex] by linarith
  next
    case False
    then have "sp_trials (ex_plan ex) \<le> int (length (se_trials (ex_series ex)))"
      using reachable_plan[OF attempted.hyps(1)] by simp
    then show ?thesis using attempted.IH by (simp add: execute_trial_def Let_def)
  qed
qed (simp_all add: start_execution_def finish_execution_def Let_def)

subsection \<open>The terminal status\<close>

lemma collect_values_Inr:
  "collect_values ts = Inr vs \<Longrightarrow>
     vs = map (\<lambda>t. the (tr_primary_value t)) (filter passed_trial ts) \<and>
     list_all (\<lambda>t. tr_status t \<in> {''passed'', ''failed'', ''invalid''} \<and>
       (passed_trial t \<longrightarrow> tr_primary_value t \<noteq> None)) ts"
  by (induction ts arbitrary: vs) (auto simp: passed_trial_def result_simps split: if_splits option.splits)

lemma derive_status_passed:
  "fst (derive_status plan ts st) = ''passed'' \<longleftrightarrow>
     count_status ''failed'' ts = 0 \<and> int (length ts) = sp_trials plan \<and>
     sp_min_valid_trials plan \<le> int (count_status ''passed'' ts) \<and>
     (sp_class plan = ''measurement'' \<longrightarrow> 5 \<le> count_status ''passed'' ts) \<and>
     \<not> cv_exceeds st (sp_max_cv_pct plan)"
  by (auto simp: derive_status_def Let_def not_less)

lemma count_status_passed: "count_status ''passed'' ts = length (filter passed_trial ts)"
  unfolding count_status_def passed_trial_def ..

text \<open>A series evaluates to \<open>passed\<close> only on complete evidence: exactly the planned number of trials is
  recorded, none failed, every status is known, at least the required number (five for a measurement) passed
  with a value, and when the values have a summary its coefficient of variation is within the limit; the
  statistics returned are those of the passed values.\<close>

theorem evaluate_series_passed:
  assumes "evaluate_series plan s = Inr (''passed'', st, reasons)"
  shows "int (length (se_trials s)) = sp_trials plan \<and>
    list_all (\<lambda>t. tr_status t = ''passed'' \<or> tr_status t = ''invalid'') (se_trials s) \<and>
    sp_min_valid_trials plan \<le> int (count_status ''passed'' (se_trials s)) \<and>
    (sp_class plan = ''measurement'' \<longrightarrow> 5 \<le> count_status ''passed'' (se_trials s)) \<and>
    list_all (\<lambda>t. passed_trial t \<longrightarrow> tr_primary_value t \<noteq> None) (se_trials s) \<and>
    \<not> cv_exceeds st (sp_max_cv_pct plan) \<and>
    (2 \<le> count_status ''passed'' (se_trials s) \<longrightarrow>
       (\<exists>summary. st = Some summary \<and>
          summarize (map (\<lambda>t. the (tr_primary_value t)) (filter passed_trial (se_trials s))) = Inr summary))"
proof -
  obtain vs where vs: "collect_values (se_trials s) = Inr vs"
    and st: "(if 2 \<le> length vs
       then (case summarize vs of Inl e \<Rightarrow> Inl (Summary_failed e) | Inr st \<Rightarrow> Inr (Some st))
       else Inr None) = Inr st"
    and d: "fst (derive_status plan (se_trials s) st) = ''passed''"
    using assms by (auto simp: evaluate_series_def result_simps case_prod_beta)
  note v = collect_values_Inr[OF vs]
  have "list_all (\<lambda>t. tr_status t = ''passed'' \<or> tr_status t = ''invalid'') (se_trials s)"
    using v d unfolding derive_status_passed count_status_def by (auto simp: list_all_iff filter_empty_conv)
  moreover have "list_all (\<lambda>t. passed_trial t \<longrightarrow> tr_primary_value t \<noteq> None) (se_trials s)"
    using v by (auto simp: list_all_iff)
  moreover have "2 \<le> count_status ''passed'' (se_trials s) \<longrightarrow>
      (\<exists>summary. st = Some summary \<and> summarize vs = Inr summary)"
    using st v by (auto simp: count_status_passed split: sum.splits if_splits)
  ultimately show ?thesis using d v unfolding derive_status_passed by blast
qed

definition smoke_trial :: "int \<Rightarrow> string \<Rightarrow> trial" where
  "smoke_trial n status = \<lparr>tr_schema_version = [], tr_artifact_type = [], tr_trial = n, tr_run_id = [],
     tr_run_ref = [], tr_started_at = [], tr_finished_at = [], tr_duration_ms = 0, tr_status = status,
     tr_reasons = [], tr_experiment_verified = True, tr_environment_digest = ''d'',
     tr_primary_metric = [], tr_primary_value = Some (Fin 1)\<rparr>"

definition smoke_plan :: series_plan where
  "smoke_plan = \<lparr>sp_trials = 1, sp_min_valid_trials = 1, sp_class = ''smoke'', sp_max_cv_pct = Fin 5\<rparr>"

lemma smoke_series_passes:
  "se_trials s = [smoke_trial 1 ''passed''] \<Longrightarrow> evaluate_series smoke_plan s = Inr (''passed'', None, [])"
  by (simp add: evaluate_series_def smoke_plan_def smoke_trial_def derive_status_def count_status_def
      cv_exceeds_def)

theorem evaluate_series_passed_witness:
  "sp_min_valid_trials smoke_plan \<le> int (count_status ''passed'' [smoke_trial 1 ''passed''])"
proof -
  have s: "se_trials (blank_series\<lparr>se_trials := [smoke_trial 1 ''passed'']\<rparr>) = [smoke_trial 1 ''passed'']" by simp
  from evaluate_series_passed[OF smoke_series_passes[OF s]] show ?thesis unfolding s by blast
qed

subsection \<open>Drift of the protocol identity\<close>

text \<open>Any further sequence of calls on an execution.\<close>

inductive later :: "execution \<Rightarrow> execution \<Rightarrow> bool" where
  same: "later ex ex"
| attempt: "later ex ex' \<Longrightarrow> later ex (snd (execute_trial ob ex'))"
| finish: "later ex ex' \<Longrightarrow> later ex (snd (finish_execution fo ex'))"

definition spoiled :: "execution \<Rightarrow> bool" where
  "spoiled ex = (ex_halted ex \<and> list_all (\<lambda>t. \<not> passed_trial t) (se_trials (ex_series ex)))"

lemma spoiled_invalidate: "spoiled (invalidate_for_protocol_identity_drift r w ex)"
  by (simp add: spoiled_def list_all_iff)

lemma spoiled_final_checks: "spoiled ex \<Longrightarrow> spoiled (final_checks fo ex)"
  using final_checks_cases[of fo ex] spoiled_invalidate by metis

lemma spoiled_finish: "spoiled ex \<Longrightarrow> spoiled (snd (finish_execution fo ex))"
  using spoiled_final_checks[of ex fo] by (simp add: finish_execution_def Let_def spoiled_def)

lemma later_plan: "later ex ex' \<Longrightarrow> ex_plan ex' = ex_plan ex"
  by (induction rule: later.induct) (simp_all add: finish_execution_def Let_def)

lemma later_spoiled: "later ex ex' \<Longrightarrow> spoiled ex \<Longrightarrow> spoiled ex'"
proof (induction rule: later.induct)
  case (attempt ex ex' ob)
  then have "snd (execute_trial ob ex') = ex'" by (simp add: spoiled_def execute_trial_def Let_def)
  with attempt show ?case by simp
qed (simp_all add: spoiled_finish)

lemma finish_passed:
  assumes "fst (finish_execution fo ex) = Ended ''passed''"
  shows "\<not> ex_finished ex \<and> fo_finalize fo \<and>
    (\<exists>s st reasons. se_trials s = se_trials (ex_series (final_checks fo ex)) \<and>
       evaluate_series (ex_plan ex) s = Inr (''passed'', st, reasons))"
proof -
  define c where "c = final_checks fo ex"
  define s where "s = (ex_series c)\<lparr>se_environment := ex_expected_environment c\<rparr>"
  have st: "se_status (close_series fo c) = ''passed''" and f: "\<not> ex_finished ex" "fo_finalize fo"
    using assms by (auto simp: finish_execution_def Let_def c_def split: if_splits)
  from st have "\<exists>stats reasons. evaluate_series (ex_plan c) s = Inr (''passed'', stats, reasons)"
    unfolding close_series_def Let_def s_def[symmetric] by (auto split: sum.splits)
  then show ?thesis using f by (intro conjI exI[of _ s]) (simp_all add: s_def c_def)
qed

text \<open>C20: A change of the protocol identity is final: once an execution has been invalidated because the
  engine, the scenario pack or the native toolchain changed, no sequence of further calls ends the series
  as \<open>passed\<close>, provided the plan requires at least one valid trial.\<close>

theorem identity_drift_never_passes:
  assumes "later (invalidate_for_protocol_identity_drift reason writable ex) ex'"
    and "1 \<le> sp_min_valid_trials (ex_plan ex)"
  shows "fst (finish_execution fo ex') \<noteq> Ended ''passed''"
proof
  assume "fst (finish_execution fo ex') = Ended ''passed''"
  from finish_passed[OF this] obtain s st reasons
    where s: "se_trials s = se_trials (ex_series (final_checks fo ex'))"
      and e: "evaluate_series (ex_plan ex') s = Inr (''passed'', st, reasons)" by blast
  have "spoiled (final_checks fo ex')"
    using later_spoiled[OF assms(1) spoiled_invalidate] by (rule spoiled_final_checks)
  then have "count_status ''passed'' (se_trials s) = 0"
    by (simp add: s count_status_passed spoiled_def list_all_iff filter_empty_conv)
  moreover have "sp_min_valid_trials (ex_plan ex') \<le> int (count_status ''passed'' (se_trials s))"
    using e by (auto simp: evaluate_series_def result_simps case_prod_beta)
       (metis derive_status_passed fst_conv)
  ultimately show False using assms(2) later_plan[OF assms(1)] by simp
qed


definition quiet_final :: final_observation where
  "quiet_final = \<lparr>fo_engine = True, fo_native = True, fo_pack = True, fo_rewrite = (\<lambda>_. True),
     fo_now = [], fo_finalize = True\<rparr>"

theorem identity_drift_never_passes_witness:
  "fst (finish_execution quiet_final (invalidate_for_protocol_identity_drift ''x'' (\<lambda>_. True)
     (start_execution smoke_plan blank_series))) \<noteq> Ended ''passed''"
  by (rule identity_drift_never_passes[OF later.same]) (simp add: start_execution_def smoke_plan_def)

text \<open>C17: The counters never lie: in every execution that a sequence of attempts and closings can reach, the
  numbers of valid and failed trials are the numbers of recorded trials with that status, valid, failed and
  invalid trials add up to the recorded ones, and no more trials than planned are recorded.\<close>

theorem counters_always_agree:
  assumes "reachable plan base ex"
  shows "counters_agree (ex_series ex) \<and> length (se_trials (ex_series ex)) \<le> nat (sp_trials plan)"
  using reachable_counters[OF assms] reachable_bounded[OF assms] by blast

theorem counters_always_agree_witness:
  "counters_agree (ex_series (snd (finish_execution quiet_final (start_execution smoke_plan blank_series))))"
  using counters_always_agree[OF reachable.closed[OF reachable.started]] by blast

lemma last_append_trial: "last (se_trials (ex_series (append_trial t ex))) = t"
  by simp

text \<open>The first environment binds the series: once it is known, a later trial whose run shows another
  environment is recorded as invalid with the reason \<open>environment drift\<close>, although it had passed.\<close>

theorem environment_drift_rejects_trial:
  assumes "can_execute ex" "\<not> ex_finished ex" "ob_engine_before ob" "ob_pack_before ob"
    and "ob_engine_during ob" "ob_pack_during ob" "ob_write ob"
    and "ex_expected_environment ex = Some expected" "ob_environment ob = Some observed"
    and "env_digest observed \<noteq> env_digest expected"
    and "tr_status (ob_trial ob) = ''passed''" "tr_environment_digest (ob_trial ob) \<noteq> []"
  shows "fst (execute_trial ob ex) = Attempted ((ob_trial ob)
      \<lparr>tr_status := ''invalid'', tr_reasons := tr_reasons (ob_trial ob) @ [''environment drift'']\<rparr>)"
proof -
  have e: "ex_expected_environment (count_trial t (append_trial t ex)) = Some expected" for t
    using assms(8) by (simp add: count_trial_def append_trial_def Let_def)
  show ?thesis
    using assms by (simp add: execute_trial_def Let_def can_execute_def check_environment_def e
        reject_last_def persist_last_def)
qed

theorem environment_drift_rejects_trial_witness:
  "fst (execute_trial
      \<lparr>ob_engine_before = True, ob_pack_before = True, ob_trial = smoke_trial 1 ''passed'',
       ob_engine_during = True, ob_pack_during = True,
       ob_environment = Some (blank_environment\<lparr>env_digest := ''b''\<rparr>), ob_rewrite = (\<lambda>_. True), ob_write = True\<rparr>
      ((start_execution smoke_plan blank_series)\<lparr>ex_expected_environment := Some (blank_environment\<lparr>env_digest := ''a''\<rparr>)\<rparr>)) =
   Attempted ((smoke_trial 1 ''passed'')\<lparr>tr_status := ''invalid'', tr_reasons := [''environment drift'']\<rparr>)"
proof -
  let ?ob = "\<lparr>ob_engine_before = True, ob_pack_before = True, ob_trial = smoke_trial 1 ''passed'',
       ob_engine_during = True, ob_pack_during = True,
       ob_environment = Some (blank_environment\<lparr>env_digest := ''b''\<rparr>), ob_rewrite = (\<lambda>_. True), ob_write = True\<rparr>"
  let ?ex = "(start_execution smoke_plan blank_series)\<lparr>ex_expected_environment := Some (blank_environment\<lparr>env_digest := ''a''\<rparr>)\<rparr>"
  have "fst (execute_trial ?ob ?ex) = Attempted ((ob_trial ?ob)
      \<lparr>tr_status := ''invalid'', tr_reasons := tr_reasons (ob_trial ?ob) @ [''environment drift'']\<rparr>)"
    by (rule environment_drift_rejects_trial[where expected = "blank_environment\<lparr>env_digest := ''a''\<rparr>"
          and observed = "blank_environment\<lparr>env_digest := ''b''\<rparr>"])
       (simp_all add: can_execute_def start_execution_def smoke_plan_def smoke_trial_def)
  then show ?thesis by (simp add: smoke_trial_def)
qed

text \<open>The trial files hold the recorded trials.\<close>

definition files_agree :: "execution \<Rightarrow> bool" where
  "files_agree ex = (\<forall>n. ex_files ex n =
     (if 1 \<le> n \<and> n \<le> length (se_trials (ex_series ex)) then Some (se_trials (ex_series ex) ! (n - 1)) else None))"

definition files_behind :: "execution \<Rightarrow> bool" where
  "files_behind ex = (se_trials (ex_series ex) \<noteq> [] \<and> (\<forall>n. n \<noteq> length (se_trials (ex_series ex)) \<longrightarrow>
     ex_files ex n = (if 1 \<le> n \<and> n \<le> length (se_trials (ex_series ex))
                      then Some (se_trials (ex_series ex) ! (n - 1)) else None)))"

lemma files_invalidate:
  assumes "\<forall>n. w n" and "files_agree ex \<or> files_behind ex"
  shows "files_agree (invalidate_for_protocol_identity_drift r w ex)"
proof -
  have "ex_files ex n = None" if "\<not> (1 \<le> n \<and> n \<le> length (se_trials (ex_series ex)))" for n
  proof -
    have "se_trials (ex_series ex) \<noteq> [] \<Longrightarrow> n \<noteq> length (se_trials (ex_series ex))"
      using that by (auto simp: Suc_le_eq)
    then show ?thesis using assms(2) that by (auto simp: files_agree_def files_behind_def)
  qed
  then show ?thesis
    using assms(1) by (auto simp: files_agree_def invalidate_for_protocol_identity_drift_def
        rewrite_files_def Let_def)
qed

lemma files_behind_append:
  "files_agree ex \<Longrightarrow> files_behind (count_trial t (append_trial t ex)) \<and> files_behind (append_trial t ex)"
  by (auto simp: files_agree_def files_behind_def append_trial_def count_trial_def Let_def nth_append)

lemma files_behind_reject: "files_behind ex \<Longrightarrow> files_behind (reject_last r ex)"
  by (auto simp: files_behind_def reject_last_def Let_def nth_append nth_butlast)

lemma files_behind_check: "files_behind ex \<Longrightarrow> files_behind (check_environment t e ex)"
  using files_behind_reject[of ex]
  by (auto simp: check_environment_def files_behind_def split: option.splits)

lemma files_persist:
  assumes "files_behind ex \<or> files_agree ex \<and> se_trials (ex_series ex) \<noteq> []"
  shows "files_agree (snd (persist_last (length (se_trials (ex_series ex))) True ex))"
  using assms
  by (auto simp: persist_last_def Let_def files_agree_def files_behind_def last_conv_nth Suc_le_eq)

lemma files_follow_attempt:
  assumes "files_agree ex" and "ob_write ob" and "\<forall>n. ob_rewrite ob n"
  shows "files_agree (snd (execute_trial ob ex))"
proof -
  let ?t = "ob_trial ob"
  have d: "files_agree (invalidate_for_protocol_identity_drift r (ob_rewrite ob) ex)" for r
    using assms files_invalidate by blast
  have persist: "files_agree (snd (persist_last (length (se_trials (ex_series ex)) + 1) True ex2))"
    if "files_behind ex2 \<or> files_agree ex2 \<and> se_trials (ex_series ex2) \<noteq> []"
      "length (se_trials (ex_series ex2)) = length (se_trials (ex_series ex)) + 1" for ex2
    using files_persist[OF that(1)] that(2) by simp
  have "files_agree (invalidate_for_protocol_identity_drift r (ob_rewrite ob) (append_trial ?t ex))" for r
    using files_invalidate[OF assms(3)] files_behind_append[OF assms(1)] by blast
  then have "files_agree (snd (persist_last (length (se_trials (ex_series ex)) + 1) True
      (invalidate_for_protocol_identity_drift r (ob_rewrite ob) (append_trial ?t ex))))" for r
    by (intro persist) simp_all
  moreover have "files_agree (snd (persist_last (length (se_trials (ex_series ex)) + 1) True
      (check_environment ?t (ob_environment ob) (count_trial ?t (append_trial ?t ex)))))"
    using files_behind_check files_behind_append[OF assms(1)] by (intro persist) simp_all
  ultimately show ?thesis using assms(1,2) d by (simp add: execute_trial_def Let_def)
qed

lemma run_trials_reachable:
  "reachable plan base ex \<Longrightarrow> (\<And>n. sound_observation (observe n)) \<Longrightarrow>
     reachable plan base (snd (run_trials observe ex))"
proof (induction observe ex rule: run_trials.induct)
  case (1 observe ex)
  show ?case
  proof (cases "can_execute ex")
    case False
    then show ?thesis using 1 by (simp add: run_trials.simps[of observe ex])
  next
    case True
    let ?ob = "observe (length (se_trials (ex_series ex)))"
    obtain out ex' where e: "execute_trial ?ob ex = (out, ex')" by fastforce
    have "reachable plan base ex'"
      using reachable.attempted[OF "1.prems"(1,2)] e by (metis snd_conv)
    then show ?thesis
      using 1 True e by (cases out) (simp_all add: run_trials.simps[of observe ex])
  qed
qed


lemma run_trials_no_error:
  "run_trials observe ex = (None, ex') \<Longrightarrow> \<not> can_execute ex'"
proof (induction observe ex rule: run_trials.induct)
  case (1 observe ex)
  then show ?case
    by (auto simp: run_trials.simps[of observe ex] split: if_splits prod.splits trial_outcome.splits)
qed

text \<open>The files of a whole run.\<close>

lemma files_follow_trials:
  "files_agree ex \<Longrightarrow> (\<And>n. ob_write (observe n)) \<Longrightarrow> (\<And>n k. ob_rewrite (observe n) k) \<Longrightarrow>
     files_agree (snd (run_trials observe ex))"
proof (induction observe ex rule: run_trials.induct)
  case (1 observe ex)
  let ?ob = "observe (length (se_trials (ex_series ex)))"
  obtain out ex' where e: "execute_trial ?ob ex = (out, ex')" by fastforce
  have "files_agree ex'" using files_follow_attempt[OF 1(2), of ?ob] 1(3,4) e by simp
  then show ?case using 1 e by (cases out) (simp_all add: run_trials.simps[of observe ex])
qed

lemma files_follow_finish:
  assumes "files_agree ex" and "\<And>k. fo_rewrite fo k"
  shows "files_agree (snd (finish_execution fo ex))"
proof -
  have drift: "files_agree (invalidate_for_protocol_identity_drift r (fo_rewrite fo) x)" if "files_agree x" for r x
    using files_invalidate that assms(2) by blast
  have "files_agree (final_checks fo ex)" using assms(1) drift by (simp add: final_checks_def Let_def)
  moreover have "se_trials (close_series fo x) = se_trials (ex_series x)" for x
    by (auto simp: close_series_def Let_def split: sum.splits prod.splits)
  ultimately show ?thesis using assms(1) by (simp add: finish_execution_def Let_def files_agree_def)
qed

lemma files_start: "files_agree (start_execution plan base)"
  by (simp add: files_agree_def start_execution_def)

text \<open>C37: When every file can be written, the trial files hold exactly the recorded trials at every stage of a run: after
  any number of attempts from the start on, and at its end, after the checks that \<open>Finish\<close> makes. A trial is persisted as it
  is recorded, an invalidation of the earlier trials rewrites all their files, and no other file appears.\<close>

theorem trial_files_follow_series:
  assumes "\<And>n. ob_write (observe n)" and "\<And>n k. ob_rewrite (observe n) k" and "\<And>k. fo_rewrite fo k"
    and "ex = ((\<lambda>x. snd (execute_trial (observe (length (se_trials (ex_series x)))) x)) ^^ attempts) (start_execution plan base) \<or>
      ex = snd (run_series observe fo plan base)"
  shows "ex_files ex n =
    (if 1 \<le> n \<and> n \<le> length (se_trials (ex_series ex)) then Some (se_trials (ex_series ex) ! (n - 1)) else None)"
proof -
  have "files_agree (((\<lambda>x. snd (execute_trial (observe (length (se_trials (ex_series x)))) x)) ^^ k) (start_execution plan base))" for k
    by (induction k) (simp_all add: files_start files_follow_attempt assms)
  moreover have "files_agree (snd (run_series observe fo plan base))"
  proof -
    obtain m ex1 where m: "run_trials observe (start_execution plan base) = (m, ex1)" by fastforce
    obtain out ex2 where f: "finish_execution fo ex1 = (out, ex2)" by fastforce
    have "files_agree ex1" using files_follow_trials[where observe = observe, OF files_start assms(1,2)] m by (metis snd_conv)
    moreover from this have "files_agree ex2" using files_follow_finish[OF _ assms(3), of ex1] f by simp
    ultimately show ?thesis by (cases m) (simp_all add: run_series_def m f)
  qed
  ultimately have "files_agree ex" using assms(4) by blast
  then show ?thesis unfolding files_agree_def by blast
qed

text \<open>C1: The loop of a series run always ends (the recursion is total), and a run that ends as passed rests on
  complete evidence: exactly the planned trials are recorded, none has failed, the counters agree with them,
  and at least the required number passed with a value.\<close>

theorem passed_run_is_complete:
  assumes "run_series observe fo plan base = (Some (Ended ''passed''), ex)"
    and "\<And>n. sound_observation (observe n)"
  shows "int (length (se_trials (ex_series ex))) = sp_trials plan \<and> counters_agree (ex_series ex) \<and>
    se_trials_failed (ex_series ex) = 0 \<and> sp_min_valid_trials plan \<le> se_trials_valid (ex_series ex) \<and>
    (sp_class plan = ''measurement'' \<longrightarrow> 5 \<le> se_trials_valid (ex_series ex))"
proof -
  obtain m ex1 where m: "run_trials observe (start_execution plan base) = (m, ex1)" by fastforce
  obtain out ex2 where o: "finish_execution fo ex1 = (out, ex2)" by fastforce
  have mo: "m = None \<and> out = Ended ''passed'' \<and> ex2 = ex"
    using assms(1) unfolding run_series_def m split_conv by (cases m) (simp_all add: o)
  have r: "run_trials observe (start_execution plan base) = (None, ex1)" using m mo by simp
  have f: "finish_execution fo ex1 = (Ended ''passed'', ex)" using o mo by simp
  have re: "reachable plan base ex1"
    using run_trials_reachable[where observe = observe, OF reachable.started assms(2)]
    by (metis r snd_conv)
  have c: "counters_agree (ex_series ex)"
    using reachable_counters[OF reachable.closed[OF re, of fo]] f by simp
  obtain s st reasons where s: "se_trials s = se_trials (ex_series (final_checks fo ex1))"
    and e: "evaluate_series plan s = Inr (''passed'', st, reasons)"
    using finish_passed[of fo ex1] f reachable_plan[OF re] by auto
  have t: "se_trials s = se_trials (ex_series ex)"
    using f s by (auto simp: finish_execution_def Let_def split: if_splits)
  have "fst (derive_status plan (se_trials s) st) = ''passed''"
    using e by (auto simp: evaluate_series_def result_simps case_prod_beta)
  then show ?thesis
    using c unfolding derive_status_passed count_status_passed t
    by (simp add: counters_agree_def count_status_def)
qed


definition smoke_observation :: observation where
  "smoke_observation = \<lparr>ob_engine_before = True, ob_pack_before = True, ob_trial = smoke_trial 1 ''passed'',
     ob_engine_during = True, ob_pack_during = True, ob_environment = Some blank_environment,
     ob_rewrite = (\<lambda>_. True), ob_write = True\<rparr>"

lemma smoke_run_passes:
  "fst (run_series (\<lambda>_. smoke_observation) quiet_final smoke_plan blank_series) = Some (Ended ''passed'')"
  by (simp add: run_series_def run_trials.simps can_execute_def start_execution_def smoke_plan_def
      execute_trial_def smoke_observation_def smoke_trial_def append_trial_def count_trial_def
      check_environment_def persist_last_def Let_def finish_execution_def final_checks_def quiet_final_def
      close_series_def evaluate_series_def derive_status_def count_status_def cv_exceeds_def)

theorem trial_files_follow_series_witness:
  "ex_files (snd (run_series (\<lambda>_. smoke_observation) quiet_final smoke_plan blank_series)) 2 = None"
proof -
  have "se_trials (ex_series (snd (run_series (\<lambda>_. smoke_observation) quiet_final smoke_plan blank_series))) = [smoke_trial 1 ''passed'']"
    by (simp add: run_series_def run_trials.simps can_execute_def start_execution_def smoke_plan_def
        execute_trial_def smoke_observation_def smoke_trial_def append_trial_def count_trial_def
        check_environment_def persist_last_def Let_def finish_execution_def final_checks_def quiet_final_def
        close_series_def evaluate_series_def derive_status_def count_status_def cv_exceeds_def)
  moreover have "fo_rewrite quiet_final k" for k by (simp add: quiet_final_def)
  ultimately show ?thesis
    using trial_files_follow_series[where observe = "\<lambda>_. smoke_observation" and fo = quiet_final and plan = smoke_plan and
        base = blank_series and n = 2 and attempts = 0, OF _ _ _ disjI2[OF refl]]
    by (simp add: smoke_observation_def)
qed

theorem passed_run_is_complete_witness:
  "se_trials_failed (ex_series (snd (run_series (\<lambda>_. smoke_observation) quiet_final smoke_plan blank_series))) = 0"
proof -
  have "run_series (\<lambda>_. smoke_observation) quiet_final smoke_plan blank_series =
      (Some (Ended ''passed''), snd (run_series (\<lambda>_. smoke_observation) quiet_final smoke_plan blank_series))"
    using smoke_run_passes by (metis prod.collapse)
  from passed_run_is_complete[OF this] show ?thesis
    by (simp add: sound_observation_def smoke_observation_def smoke_trial_def)
qed

end
