(* ===== verification/GoScan.thy ===== *)
theory GoScan
  imports GoNumbers
begin

section \<open>Scanning text: lines and fields\<close>

text \<open>
  The parts of \<open>strings\<close> and \<open>bufio\<close> that the log and journal parsers use: \<open>strings.Fields\<close>
  and the line scanner with its token limit. A scan ends with the flag that tells whether a line was
  longer than the buffer.
\<close>

definition emit :: "string \<Rightarrow> string list" where
  "emit current = (if current = [] then [] else [current])"

function fields_from :: "string \<Rightarrow> string \<Rightarrow> string list" where
  "fields_from current s =
     (case strip1 space_encodings s of
        Some t \<Rightarrow> emit current @ fields_from [] t
      | None \<Rightarrow> (case s of [] \<Rightarrow> emit current | c # cs \<Rightarrow> fields_from (current @ [c]) cs))"
  by pat_completeness auto
termination
  by (relation "measure (\<lambda>(current, s). length s)") (auto dest: strip1_length)

declare fields_from.simps [simp del]

definition str_fields :: "string \<Rightarrow> string list" where
  "str_fields s = fields_from [] s"

definition newline :: char where
  "newline = CHR 0x0A"

definition drop_cr :: "string \<Rightarrow> string" where
  "drop_cr s = (if s \<noteq> [] \<and> last s = CHR 0x0D then butlast s else s)"

definition raw_lines :: "string \<Rightarrow> string list" where
  "raw_lines content =
     (let parts = split_on newline content in if last parts = [] then butlast parts else parts)"

text \<open>\<open>limit\<close> is the largest buffer: a line that does not fit with its end is an error.\<close>

definition scan_lines :: "nat \<Rightarrow> string \<Rightarrow> string list \<times> bool" where
  "scan_lines limit content =
     (let ls = raw_lines content;
          short = takeWhile (\<lambda>l. length l < limit) ls
      in (map drop_cr short, length short < length ls))"

subsection \<open>Fields of solid words\<close>

lemma strip1_solid: "s = [] \<or> solid (hd s) \<Longrightarrow> strip1 space_encodings s = None"
  using hd_space_encoding by (intro strip1_None) metis

lemma strip1_blank: "strip1 space_encodings (CHR '' '' # s) = Some s"
  by (simp add: strip1_def space_encodings_def char_of_def bit_0)

lemma fields_from_solid:
  "list_all solid w \<Longrightarrow> fields_from current (w @ s) = fields_from (current @ w) s"
proof (induction w arbitrary: current)
  case (Cons c w)
  then have "strip1 space_encodings (c # w @ s) = None" by (intro strip1_solid) simp
  then show ?case using Cons by (simp add: fields_from.simps[of current "c # w @ s"])
qed simp

lemma fields_from_blank:
  "fields_from current (CHR '' '' # s) = emit current @ fields_from [] s"
  by (simp add: fields_from.simps[of current "CHR '' '' # s"] strip1_blank)

lemma fields_from_Nil: "fields_from current [] = emit current"
  by (simp add: fields_from.simps[of current "[]"] strip1_solid)

text \<open>Words without white space, joined by single blanks, are their own fields.\<close>

lemma fields_join:
  "list_all (\<lambda>w. w \<noteq> [] \<and> list_all solid w) ws \<Longrightarrow> str_fields (join '' '' ws) = ws"
proof (induction ws rule: induct_list012)
  case (2 w)
  then show ?case using fields_from_solid[of w "[]" "[]"] by (simp add: str_fields_def fields_from_Nil emit_def)
next
  case (3 w v ws)
  then show ?case
    using fields_from_solid[of w "[]"] by (simp add: str_fields_def fields_from_blank emit_def)
qed (simp add: str_fields_def fields_from_Nil emit_def)

lemma solid_show_nat: "list_all solid (show_nat n)"
proof -
  have "is_digit c \<Longrightarrow> solid c" for c by (simp add: is_digit_def solid_def code_def)
  then show ?thesis using all_digits_show_nat[of n] by (auto simp: all_digits_def list_all_iff)
qed

end
