(* ===== verification/PgbenchLog.thy ===== *)
theory PgbenchLog
  imports GoScan Stats
begin

section \<open>Per-transaction pgbench logs\<close>

text \<open>
  \<^verbatim>\<open>internal/pgbenchlog/parser.go\<close>: the strict grammar of a log row, the state machine that
  \<open>addRecord\<close> keeps per client, the aggregation over the worker logs of one trial and the check that
  every row completed inside the measured phase. A source is a name and the content of its reader; instants
  are nanoseconds since the epoch.
\<close>

subsection \<open>Rows\<close>

record log_options =
  lo_sample_rate :: f64
  lo_schedule_lag :: bool
  lo_retries :: bool

datatype outcome = Completed | Failed | Skipped

record log_record =
  lr_client_id :: int
  lr_transaction_no :: int
  lr_latency_us :: int
  lr_outcome :: outcome
  lr_script_no :: int
  lr_epoch_seconds :: int
  lr_epoch_microsecs :: int
  lr_schedule_lag_us :: int
  lr_retries :: int

datatype log_problem =
    Not_canonical string
  | Outside_int64
  | Skipped_without_lag
  | Detailed_failure_token
  | Micros_out_of_range
  | Skipped_with_retries
  | Blank_line
  | Field_count nat nat
  | Line_too_long
  | Empty_log
  | Client_in_other_log int string
  | Timestamp_backwards int
  | Sequence_backwards int
  | Already_consumed int int
  | Advanced_after_skip int int
  | Sequence_gap int int int
  | Logged_overflow
  | Retries_overflow

record parse_error =
  pe_source :: string
  pe_line :: nat
  pe_field :: string
  pe_problem :: log_problem

definition log_error :: "string \<Rightarrow> nat \<Rightarrow> string \<Rightarrow> log_problem \<Rightarrow> parse_error" where
  "log_error source line field problem =
     \<lparr>pe_source = source, pe_line = line, pe_field = field, pe_problem = problem\<rparr>"

text \<open>\<open>canonicalUnsigned\<close> is \<open>canonical_nat\<close> of the library model.\<close>

definition parse_nonnegative :: "string \<Rightarrow> nat \<Rightarrow> string \<Rightarrow> string \<Rightarrow> (parse_error, int) result" where
  "parse_nonnegative source line field v =
     (if \<not> canonical_nat v then Inl (log_error source line field (Not_canonical v))
      else of_option (log_error source line field Outside_int64) (parse_int64 v))"

definition parse_outcome ::
  "string \<Rightarrow> nat \<Rightarrow> string \<Rightarrow> log_options \<Rightarrow> (parse_error, outcome \<times> int) result" where
  "parse_outcome source line v options =
     (if v = ''skipped'' then
        (if \<not> lo_schedule_lag options then Inl (log_error source line ''latency_us'' Skipped_without_lag)
         else Inr (Skipped, 0))
      else if v = ''failed'' then Inr (Failed, 0)
      else if v = ''serialization'' \<or> v = ''deadlock'' \<or> v = ''other''
      then Inl (log_error source line ''latency_us'' Detailed_failure_token)
      else bind_r (parse_nonnegative source line ''latency_us'' v) (\<lambda>n. Inr (Completed, n)))"

definition parse_record ::
  "string \<Rightarrow> nat \<Rightarrow> string list \<Rightarrow> log_options \<Rightarrow> (parse_error, log_record) result" where
  "parse_record source line fs options =
     (let number = (\<lambda>field i. parse_nonnegative source line field (fs ! i));
          bad = (\<lambda>field problem. log_error source line field problem);
          retries_index = (if lo_schedule_lag options then 7 else 6)
      in
      bind_r (number ''client_id'' 0) (\<lambda>client.
      bind_r (number ''transaction_no'' 1) (\<lambda>transaction.
      bind_r (parse_outcome source line (fs ! 2) options) (\<lambda>(outcome, latency).
      bind_r (number ''script_no'' 3) (\<lambda>script.
      bind_r (number ''epoch_seconds'' 4) (\<lambda>seconds.
      bind_r (number ''epoch_microseconds'' 5) (\<lambda>micros.
      bind_r (require (micros < 1000000) (bad ''epoch_microseconds'' Micros_out_of_range)) (\<lambda>_.
      bind_r (if lo_schedule_lag options then number ''schedule_lag_us'' 6 else Inr 0) (\<lambda>lag.
      bind_r (if lo_retries options then number ''retries'' retries_index else Inr 0) (\<lambda>retries.
      bind_r (require (\<not> (lo_retries options \<and> outcome = Skipped \<and> retries \<noteq> 0))
                (bad ''retries'' Skipped_with_retries)) (\<lambda>_.
      Inr \<lparr>lr_client_id = client, lr_transaction_no = transaction, lr_latency_us = latency,
           lr_outcome = outcome, lr_script_no = script, lr_epoch_seconds = seconds,
           lr_epoch_microsecs = micros, lr_schedule_lag_us = lag, lr_retries = retries\<rparr>)))))))))))"

subsection \<open>The accumulator\<close>

record client_sequence =
  cs_source :: string
  cs_transaction_no :: int
  cs_consumed :: bool
  cs_epoch_seconds :: int
  cs_epoch_microsecs :: int

record accumulator =
  ac_options :: log_options
  ac_files :: nat
  ac_logged :: int
  ac_completed :: int
  ac_failed :: int
  ac_skipped :: int
  ac_retried :: int
  ac_total_retries :: int
  ac_first :: "int \<times> int"
  ac_last :: "int \<times> int"
  ac_has_timestamp :: bool
  ac_latencies :: "int list"
  ac_lags :: "int list"
  ac_clients :: "int \<Rightarrow> client_sequence option"

datatype log_failure =
    Row_error parse_error
  | Bad_sample_rate
  | No_sources
  | Duplicate_source string
  | Log_mean_overflow
  | Log_percentile stats_error

definition new_accumulator :: "log_options \<Rightarrow> (log_failure, accumulator) result" where
  "new_accumulator options0 =
     (let options = (if f_eq (lo_sample_rate options0) (Fin 0)
                     then options0\<lparr>lo_sample_rate := Fin 1\<rparr> else options0)
      in if \<not> f_finite (lo_sample_rate options) \<or> f_le (lo_sample_rate options) (Fin 0) \<or>
            f_less (Fin 1) (lo_sample_rate options)
         then Inl Bad_sample_rate
         else Inr \<lparr>ac_options = options, ac_files = 0, ac_logged = 0, ac_completed = 0, ac_failed = 0,
                ac_skipped = 0, ac_retried = 0, ac_total_retries = 0, ac_first = (0, 0), ac_last = (0, 0),
                ac_has_timestamp = False, ac_latencies = [], ac_lags = [], ac_clients = (\<lambda>_. None)\<rparr>)"

text \<open>\<open>timestampLess\<close> on pairs of seconds and microseconds.\<close>

fun timestamp_less :: "int \<times> int \<Rightarrow> int \<times> int \<Rightarrow> bool" where
  "timestamp_less (s, us) (ps, pus) = (s < ps \<or> (s = ps \<and> us < pus))"

definition record_time :: "log_record \<Rightarrow> int \<times> int" where
  "record_time r = (lr_epoch_seconds r, lr_epoch_microsecs r)"

text \<open>The sequence of one client: the first half of \<open>addRecord\<close>.\<close>

definition advance_client ::
  "log_options \<Rightarrow> string \<Rightarrow> nat \<Rightarrow> log_record \<Rightarrow> client_sequence option \<Rightarrow> (parse_error, client_sequence) result" where
  "advance_client options source line r previous =
     (let client = lr_client_id r; no = lr_transaction_no r; consumes = (lr_outcome r \<noteq> Skipped);
          stamp = (\<lambda>s. s\<lparr>cs_epoch_seconds := lr_epoch_seconds r, cs_epoch_microsecs := lr_epoch_microsecs r\<rparr>)
      in case previous of
           None \<Rightarrow> Inr \<lparr>cs_source = source, cs_transaction_no = no, cs_consumed = consumes,
                        cs_epoch_seconds = lr_epoch_seconds r, cs_epoch_microsecs = lr_epoch_microsecs r\<rparr>
         | Some s \<Rightarrow>
           if cs_source s \<noteq> source
           then Inl (log_error source line ''client_id'' (Client_in_other_log client (cs_source s)))
           else if timestamp_less (record_time r) (cs_epoch_seconds s, cs_epoch_microsecs s)
           then Inl (log_error source line ''epoch_seconds'' (Timestamp_backwards client))
           else if no < cs_transaction_no s
           then Inl (log_error source line ''transaction_no'' (Sequence_backwards client))
           else if no = cs_transaction_no s then
             (if cs_consumed s then Inl (log_error source line ''transaction_no'' (Already_consumed no client))
              else Inr (stamp (if consumes then s\<lparr>cs_consumed := True\<rparr> else s)))
           else if f_eq (lo_sample_rate options) (Fin 1) \<and> \<not> cs_consumed s
           then Inl (log_error source line ''transaction_no'' (Advanced_after_skip client (cs_transaction_no s)))
           else if f_eq (lo_sample_rate options) (Fin 1) \<and>
             (cs_transaction_no s = max_int64 \<or> no \<noteq> cs_transaction_no s + 1)
           then Inl (log_error source line ''transaction_no'' (Sequence_gap client no (cs_transaction_no s)))
           else Inr (stamp (s\<lparr>cs_transaction_no := no, cs_consumed := consumes\<rparr>)))"

text \<open>
  The counters and extents: the second half. Every counter wraps as Go's \<open>int64\<close>; only the number of
  logged rows and the total of the retries are guarded.
\<close>

definition extend_window :: "int \<times> int \<Rightarrow> accumulator \<Rightarrow> accumulator" where
  "extend_window t acc =
     acc\<lparr>ac_first := (if \<not> ac_has_timestamp acc \<or> timestamp_less t (ac_first acc) then t else ac_first acc),
         ac_last := (if \<not> ac_has_timestamp acc \<or> timestamp_less (ac_last acc) t then t else ac_last acc),
         ac_has_timestamp := True\<rparr>"

definition count_outcome :: "log_record \<Rightarrow> accumulator \<Rightarrow> accumulator" where
  "count_outcome r acc =
     (case lr_outcome r of
        Completed \<Rightarrow> acc\<lparr>ac_completed := add64 (ac_completed acc) 1,
                         ac_latencies := ac_latencies acc @ [lr_latency_us r]\<rparr>
      | Failed \<Rightarrow> acc\<lparr>ac_failed := add64 (ac_failed acc) 1\<rparr>
      | Skipped \<Rightarrow> acc\<lparr>ac_skipped := add64 (ac_skipped acc) 1\<rparr>)"

definition count_record ::
  "string \<Rightarrow> nat \<Rightarrow> log_record \<Rightarrow> accumulator \<Rightarrow> (parse_error, accumulator) result" where
  "count_record source line r acc =
     (if ac_logged acc = max_int64 then Inl (log_error source line [] Logged_overflow)
      else
        let acc1 = count_outcome r (extend_window (record_time r) (acc\<lparr>ac_logged := add64 (ac_logged acc) 1\<rparr>));
            acc2 = (if lo_schedule_lag (ac_options acc)
                    then acc1\<lparr>ac_lags := ac_lags acc1 @ [lr_schedule_lag_us r]\<rparr> else acc1)
        in if lo_retries (ac_options acc) \<and> lr_retries r > 0
           then (if lr_retries r > max_int64 - ac_total_retries acc2
                 then Inl (log_error source line ''retries'' Retries_overflow)
                 else Inr (acc2\<lparr>ac_retried := add64 (ac_retried acc2) 1,
                               ac_total_retries := add64 (ac_total_retries acc2) (lr_retries r)\<rparr>))
           else Inr acc2)"

definition add_record ::
  "string \<Rightarrow> nat \<Rightarrow> accumulator \<Rightarrow> log_record \<Rightarrow> (parse_error, accumulator) result" where
  "add_record source line acc r =
     bind_r (advance_client (ac_options acc) source line r (ac_clients acc (lr_client_id r))) (\<lambda>state.
       count_record source line r (acc\<lparr>ac_clients := (ac_clients acc)(lr_client_id r := Some state)\<rparr>))"

subsection \<open>Sources\<close>

definition scanner_limit :: nat where
  "scanner_limit = 1048576"

definition expected_fields :: "log_options \<Rightarrow> nat" where
  "expected_fields options =
     6 + (if lo_schedule_lag options then 1 else 0) + (if lo_retries options then 1 else 0)"

definition parse_line ::
  "string \<Rightarrow> nat \<Rightarrow> accumulator \<Rightarrow> string \<Rightarrow> (parse_error, accumulator) result" where
  "parse_line source line acc text =
     (if trim_space text = [] then Inl (log_error source line [] Blank_line)
      else let fs = str_fields text
           in if length fs \<noteq> expected_fields (ac_options acc)
              then Inl (log_error source line [] (Field_count (expected_fields (ac_options acc)) (length fs)))
              else bind_r (parse_record source line fs (ac_options acc)) (add_record source line acc))"

fun parse_lines ::
  "string \<Rightarrow> nat \<Rightarrow> accumulator \<Rightarrow> string list \<Rightarrow> (parse_error, accumulator) result" where
  "parse_lines source line acc [] = Inr acc"
| "parse_lines source line acc (text # rest) =
     bind_r (parse_line source line acc text) (\<lambda>acc'. parse_lines source (Suc line) acc' rest)"

definition parse_source :: "accumulator \<Rightarrow> string \<times> string \<Rightarrow> (parse_error, accumulator) result" where
  "parse_source acc source =
     (case source of (name, content) \<Rightarrow>
      case scan_lines scanner_limit content of (lines, too_long) \<Rightarrow>
        bind_r (parse_lines name 1 acc lines) (\<lambda>acc'.
          if too_long then Inl (log_error name (length lines + 1) [] Line_too_long)
          else if lines = [] then Inl (log_error name 0 [] Empty_log)
          else Inr (acc'\<lparr>ac_files := ac_files acc' + 1\<rparr>)))"

subsection \<open>The result\<close>

record distribution =
  di_n :: int
  di_min :: int
  di_mean :: f64
  di_p50 :: f64
  di_p95 :: f64
  di_p99 :: f64
  di_max :: int

record log_result =
  re_schema_version :: string
  re_parser_version :: string
  re_files :: nat
  re_sample_rate :: f64
  re_sampled :: bool
  re_schedule_lag_present :: bool
  re_retries_present :: bool
  re_logged :: int
  re_completed :: int
  re_failed :: int
  re_skipped :: int
  re_retried :: int
  re_total_retries :: int
  re_first :: "int \<times> int"
  re_last :: "int \<times> int"
  re_latency_us :: "distribution option"
  re_schedule_lag_us :: "distribution option"

definition result_schema_version :: string where
  "result_schema_version = ''pgworkbench.pgbench-log-result/v2''"

definition log_parser_version :: string where
  "log_parser_version = ''1.1.0''"

fun running_mean :: "nat \<Rightarrow> f64 \<Rightarrow> int list \<Rightarrow> f64" where
  "running_mean i mean [] = mean"
| "running_mean i mean (v # vs) =
     running_mean (Suc i) (f_add mean (f_div (f_sub (f_of_int v) mean) (f_of_int (int i + 1)))) vs"

definition summarize_log :: "int list \<Rightarrow> (log_failure, distribution option) result" where
  "summarize_log vs =
     (if vs = [] then Inr None
      else
        let mean = running_mean 0 (Fin 0) vs;
            percentile = (\<lambda>p. case percentile_type7 (map f_of_int vs) p of
                                Inl e \<Rightarrow> Inl (Log_percentile e) | Inr x \<Rightarrow> Inr x)
        in if \<not> f_finite mean then Inl Log_mean_overflow
           else
             bind_r (percentile half) (\<lambda>p50.
             bind_r (percentile (rnd (95 / 100))) (\<lambda>p95.
             bind_r (percentile (rnd (99 / 100))) (\<lambda>p99.
             Inr (Some \<lparr>di_n = int (length vs), di_min = fold min vs (hd vs), di_mean = mean,
                        di_p50 = p50, di_p95 = p95, di_p99 = p99, di_max = fold max vs (hd vs)\<rparr>)))))"

definition accumulator_result :: "accumulator \<Rightarrow> (log_failure, log_result) result" where
  "accumulator_result acc =
     bind_r (summarize_log (ac_latencies acc)) (\<lambda>latency.
     bind_r (if lo_schedule_lag (ac_options acc) then summarize_log (ac_lags acc) else Inr None) (\<lambda>lag.
     Inr \<lparr>re_schema_version = result_schema_version, re_parser_version = log_parser_version,
          re_files = ac_files acc, re_sample_rate = lo_sample_rate (ac_options acc),
          re_sampled = f_less (lo_sample_rate (ac_options acc)) (Fin 1),
          re_schedule_lag_present = lo_schedule_lag (ac_options acc),
          re_retries_present = lo_retries (ac_options acc), re_logged = ac_logged acc,
          re_completed = ac_completed acc, re_failed = ac_failed acc, re_skipped = ac_skipped acc,
          re_retried = ac_retried acc, re_total_retries = ac_total_retries acc,
          re_first = ac_first acc, re_last = ac_last acc,
          re_latency_us = latency, re_schedule_lag_us = lag\<rparr>))"

text \<open>Names of sources: \<open>input-%03d\<close> when blank, sorted, without duplicates.\<close>

definition pad3 :: "nat \<Rightarrow> string" where
  "pad3 n = replicate (3 - length (show_nat n)) (CHR ''0'') @ show_nat n"

definition normalize_names :: "(string \<times> string) list \<Rightarrow> (string \<times> string) list" where
  "normalize_names sources =
     map (\<lambda>(i, name, content). (if trim_space name = [] then ''input-'' @ pad3 i else name, content))
       (zip [1..<length sources + 1] sources)"

fun first_duplicate :: "string list \<Rightarrow> string option" where
  "first_duplicate (a # b # rest) = (if a = b then Some b else first_duplicate (b # rest))"
| "first_duplicate _ = None"

definition row_errors :: "(parse_error, 'a) result \<Rightarrow> (log_failure, 'a) result" where
  "row_errors r = (case r of Inl e \<Rightarrow> Inl (Row_error e) | Inr x \<Rightarrow> Inr x)"

definition parse_log :: "(string \<times> string) list \<Rightarrow> log_options \<Rightarrow> (log_failure, log_result) result" where
  "parse_log sources options =
     bind_r (new_accumulator options) (\<lambda>acc.
       if sources = [] then Inl No_sources
       else let normalized = sort_key fst (normalize_names sources)
            in case first_duplicate (map fst normalized) of
                 Some name \<Rightarrow> Inl (Duplicate_source name)
               | None \<Rightarrow> bind_r (row_errors (fold_r parse_source acc normalized)) accumulator_result)"

subsection \<open>The completion window\<close>

datatype window_error = Log_identity | Measure_reversed | Window_invalid | Outside_measure

text \<open>
  \<open>time.Unix\<close> of a pair, in nanoseconds since the epoch. The seconds are kept since the year one, in 64 bits, and the
  sum wraps for seconds near the end of the range.
\<close>

definition unix_to_internal :: int where
  "unix_to_internal = 62135596800"

fun unix_nanos :: "int \<times> int \<Rightarrow> int" where
  "unix_nanos (seconds, micros) =
     (wrap64 (seconds + unix_to_internal) - unix_to_internal) * 1000000000 + micros * 1000"

definition validate_completion_window :: "log_result \<Rightarrow> int \<Rightarrow> int \<Rightarrow> (window_error, unit) result" where
  "validate_completion_window r started finished =
     (if re_schema_version r \<noteq> result_schema_version \<or> re_parser_version r \<noteq> log_parser_version \<or>
         re_logged r \<le> 0 then Inl Log_identity
      else if finished < started then Inl Measure_reversed
      else if fst (re_first r) < 0 \<or> fst (re_last r) < 0 \<or>
         snd (re_first r) < 0 \<or> snd (re_first r) \<ge> 1000000 \<or>
         snd (re_last r) < 0 \<or> snd (re_last r) \<ge> 1000000 \<or>
         timestamp_less (re_last r) (re_first r) then Inl Window_invalid
      else if unix_nanos (re_first r) < started \<or> finished < unix_nanos (re_last r) then Inl Outside_measure
      else Inr ())"

subsection \<open>Accepted rows\<close>

lemma parse_nonnegative_Inr [result_simps]:
  "parse_nonnegative source line field v = Inr n \<longleftrightarrow> canonical_nat v \<and> parse_int64 v = Some n"
  by (simp add: parse_nonnegative_def result_simps)

lemma parse_int64_canonical:
  "canonical_nat v \<Longrightarrow> parse_int64 v = Some n \<Longrightarrow> 0 \<le> n \<and> int64 n \<and> v = show_int n"
proof -
  assume c: "canonical_nat v" and p: "parse_int64 v = Some n"
  from c obtain k where k: "v = show_nat k" by (auto simp: canonical_nat_iff)
  with p have "n = int k" "int64 n"
    using parse_int64_digits[of v] parse_int64_int64[OF p] by (auto split: if_splits)
  then show ?thesis by (simp add: k show_int_def)
qed

definition valid_record :: "log_options \<Rightarrow> log_record \<Rightarrow> bool" where
  "valid_record options r =
     (list_all (\<lambda>n. 0 \<le> n \<and> int64 n)
        [lr_client_id r, lr_transaction_no r, lr_latency_us r, lr_script_no r, lr_epoch_seconds r,
         lr_epoch_microsecs r, lr_schedule_lag_us r, lr_retries r] \<and>
      lr_epoch_microsecs r < 1000000 \<and>
      (lr_outcome r \<noteq> Completed \<longrightarrow> lr_latency_us r = 0) \<and>
      (lr_outcome r = Skipped \<longrightarrow> lo_schedule_lag options \<and> lr_retries r = 0) \<and>
      (\<not> lo_schedule_lag options \<longrightarrow> lr_schedule_lag_us r = 0) \<and>
      (\<not> lo_retries options \<longrightarrow> lr_retries r = 0))"

definition outcome_field :: "outcome \<Rightarrow> int \<Rightarrow> string" where
  "outcome_field oc latency =
     (case oc of Completed \<Rightarrow> show_int latency | Failed \<Rightarrow> ''failed'' | Skipped \<Rightarrow> ''skipped'')"

text \<open>The fields of a row: the layout the options declare.\<close>

definition record_fields :: "log_options \<Rightarrow> log_record \<Rightarrow> string list" where
  "record_fields options r =
     [show_int (lr_client_id r), show_int (lr_transaction_no r),
      outcome_field (lr_outcome r) (lr_latency_us r),
      show_int (lr_script_no r), show_int (lr_epoch_seconds r), show_int (lr_epoch_microsecs r)] @
     (if lo_schedule_lag options then [show_int (lr_schedule_lag_us r)] else []) @
     (if lo_retries options then [show_int (lr_retries r)] else [])"

lemma show_int_nonneg: "0 \<le> n \<Longrightarrow> canonical_nat (show_int n)"
  by (simp add: show_int_def)

lemma show_int_not_word:
  "0 \<le> n \<Longrightarrow> w \<noteq> [] \<Longrightarrow> \<not> is_digit (hd w) \<Longrightarrow> show_int n \<noteq> w"
  using all_digits_show_nat[of "nat n"] by (auto simp: show_int_def all_digits_def list_all_iff)

lemma parse_number_Inr:
  "parse_nonnegative source line field v = Inr n \<longleftrightarrow> v = show_int n \<and> 0 \<le> n \<and> int64 n"
  using parse_int64_canonical by (auto simp: result_simps show_int_nonneg)

definition plausible_outcome :: "log_options \<Rightarrow> outcome \<Rightarrow> int \<Rightarrow> bool" where
  "plausible_outcome options oc latency =
     ((oc = Completed \<longrightarrow> 0 \<le> latency \<and> int64 latency) \<and> (oc \<noteq> Completed \<longrightarrow> latency = 0) \<and>
      (oc = Skipped \<longrightarrow> lo_schedule_lag options))"

lemma parse_outcome_sound:
  assumes "parse_outcome source line v options = Inr (oc, latency)"
  shows "v = outcome_field oc latency \<and> plausible_outcome options oc latency"
  using assms unfolding parse_outcome_def
  by (simp add: bind_r_Inr parse_number_Inr plausible_outcome_def outcome_field_def split: if_splits)

lemma parse_outcome_complete:
  assumes "plausible_outcome options oc latency"
  shows "parse_outcome source line (outcome_field oc latency) options = Inr (oc, latency)"
proof (cases oc)
  case Completed
  then have n: "0 \<le> latency" "int64 latency" using assms by (auto simp: plausible_outcome_def)
  have "show_int latency \<noteq> ''skipped'' \<and> show_int latency \<noteq> ''failed'' \<and>
      show_int latency \<noteq> ''serialization'' \<and> show_int latency \<noteq> ''deadlock'' \<and> show_int latency \<noteq> ''other''"
    using n(1) by (intro conjI show_int_not_word) (simp_all add: is_digit_def code_def)
  then show ?thesis
    using n Completed by (simp add: parse_outcome_def outcome_field_def bind_r_Inr parse_number_Inr)
qed (use assms in \<open>simp_all add: parse_outcome_def outcome_field_def plausible_outcome_def\<close>)

lemma parse_outcome_iff:
  "parse_outcome source line v options = Inr (oc, latency) \<longleftrightarrow>
     v = outcome_field oc latency \<and> plausible_outcome options oc latency"
  using parse_outcome_sound parse_outcome_complete by metis

text \<open>The grammar of a row: the parser accepts exactly the printed valid records.\<close>

lemma list6: "length fs = 6 \<longleftrightarrow> (\<exists>a b c d e f. fs = [a, b, c, d, e, f])"
  by (auto simp: length_Suc_conv eval_nat_numeral)

lemma list7: "length fs = 7 \<longleftrightarrow> (\<exists>a b c d e f g. fs = [a, b, c, d, e, f, g])"
  by (auto simp: length_Suc_conv eval_nat_numeral)

lemma list8: "length fs = 8 \<longleftrightarrow> (\<exists>a b c d e f g h. fs = [a, b, c, d, e, f, g, h])"
  by (auto simp: length_Suc_conv eval_nat_numeral)

lemmas parse_record_unfold =
  parse_record_def Let_def bind_r_Inr require_Inr parse_number_Inr

lemma parse_record_iff:
  assumes "length fs = expected_fields options"
  shows "parse_record source line fs options = Inr r \<longleftrightarrow>
    valid_record options r \<and> fs = record_fields options r"
proof -
  consider "\<not> lo_schedule_lag options" "\<not> lo_retries options" "length fs = 6"
    | "lo_schedule_lag options" "\<not> lo_retries options" "length fs = 7"
    | "\<not> lo_schedule_lag options" "lo_retries options" "length fs = 7"
    | "lo_schedule_lag options" "lo_retries options" "length fs = 8"
    using assms by (auto simp: expected_fields_def split: if_splits)
  then show ?thesis
  proof cases
    case 1
    then show ?thesis unfolding list6
      by (cases r; cases "lr_outcome r")
         (auto simp: parse_record_unfold parse_outcome_iff record_fields_def valid_record_def plausible_outcome_def)
  next
    case 2
    then show ?thesis unfolding list7
      by (cases r; cases "lr_outcome r")
         (auto simp: parse_record_unfold parse_outcome_iff record_fields_def valid_record_def plausible_outcome_def)
  next
    case 3
    then show ?thesis unfolding list7
      by (cases r; cases "lr_outcome r")
         (auto simp: parse_record_unfold parse_outcome_iff record_fields_def valid_record_def plausible_outcome_def)
  next
    case 4
    then show ?thesis unfolding list8
      by (cases r; cases "lr_outcome r")
         (auto simp: parse_record_unfold parse_outcome_iff record_fields_def valid_record_def plausible_outcome_def)
  qed
qed


lemma parse_record_valid:
  "length fs = expected_fields options \<Longrightarrow> parse_record source line fs options = Inr r \<Longrightarrow> valid_record options r"
  by (simp add: parse_record_iff)

subsection \<open>What the accumulator knows\<close>

abbreviation consumes :: "log_record \<Rightarrow> bool" where
  "consumes r \<equiv> lr_outcome r \<noteq> Skipped"

definition of_client :: "int \<Rightarrow> log_record list \<Rightarrow> log_record list" where
  "of_client c rs = filter (\<lambda>r. lr_client_id r = c) rs"

definition consumed_numbers :: "log_record list \<Rightarrow> int list" where
  "consumed_numbers rs = map lr_transaction_no (filter consumes rs)"

definition not_before :: "log_record \<Rightarrow> log_record \<Rightarrow> bool" where
  "not_before a b = (\<not> timestamp_less (record_time b) (record_time a))"

text \<open>The state of a client against the rows of the client accepted so far.\<close>

definition client_ok :: "log_options \<Rightarrow> log_record list \<Rightarrow> client_sequence option \<Rightarrow> bool" where
  "client_ok options rs state =
     (case state of
        None \<Rightarrow> rs = []
      | Some s \<Rightarrow> rs \<noteq> [] \<and> (cs_epoch_seconds s, cs_epoch_microsecs s) = record_time (last rs) \<and>
          cs_transaction_no s = lr_transaction_no (last rs) \<and> sorted_wrt not_before rs \<and>
          lr_transaction_no (hd rs) \<le> cs_transaction_no s \<and>
          (f_eq (lo_sample_rate options) (Fin 1) \<longrightarrow>
             consumed_numbers rs =
               [lr_transaction_no (hd rs)..(if cs_consumed s then cs_transaction_no s else cs_transaction_no s - 1)]))"

definition totals_ok :: "log_record list \<Rightarrow> accumulator \<Rightarrow> bool" where
  "totals_ok rs acc =
     (ac_logged acc = int (length rs) \<and>
      ac_completed acc = int (length (filter (\<lambda>r. lr_outcome r = Completed) rs)) \<and>
      ac_failed acc = int (length (filter (\<lambda>r. lr_outcome r = Failed) rs)) \<and>
      ac_skipped acc = int (length (filter (\<lambda>r. lr_outcome r = Skipped) rs)) \<and>
      int (length rs) \<le> max_int64 \<and>
      ac_latencies acc = map lr_latency_us (filter (\<lambda>r. lr_outcome r = Completed) rs) \<and>
      ac_lags acc = (if lo_schedule_lag (ac_options acc) then map lr_schedule_lag_us rs else []) \<and>
      ac_retried acc = int (length (filter (\<lambda>r. 0 < lr_retries r) rs)) \<and>
      ac_total_retries acc = sum_list (map lr_retries rs) \<and>
      0 \<le> ac_total_retries acc \<and> ac_total_retries acc \<le> max_int64)"

definition window_ok :: "log_record list \<Rightarrow> accumulator \<Rightarrow> bool" where
  "window_ok rs acc =
     (ac_has_timestamp acc = (rs \<noteq> []) \<and>
      (rs \<noteq> [] \<longrightarrow> ac_first acc \<in> record_time ` set rs \<and> ac_last acc \<in> record_time ` set rs) \<and>
      (\<forall>r\<in>set rs. \<not> timestamp_less (record_time r) (ac_first acc) \<and>
                 \<not> timestamp_less (ac_last acc) (record_time r)))"

definition accumulated :: "log_options \<Rightarrow> log_record list \<Rightarrow> accumulator \<Rightarrow> bool" where
  "accumulated options rs acc =
     (ac_options acc = options \<and> list_all (valid_record options) rs \<and> totals_ok rs acc \<and> window_ok rs acc \<and>
      (\<forall>c. client_ok options (of_client c rs) (ac_clients acc c)))"

lemma timestamp_not_less_trans:
  "\<not> timestamp_less b a \<Longrightarrow> \<not> timestamp_less c b \<Longrightarrow> \<not> timestamp_less c a"
  by (cases a; cases b; cases c) auto

lemma timestamp_total: "timestamp_less a b \<Longrightarrow> \<not> timestamp_less b a"
  by (cases a; cases b) auto

lemma timestamp_irrefl [simp]: "\<not> timestamp_less a a"
  by (cases a) auto

lemma of_client_snoc:
  "of_client c (rs @ [r]) = (if lr_client_id r = c then of_client c rs @ [r] else of_client c rs)"
  by (simp add: of_client_def)

lemma consumed_snoc:
  "consumed_numbers (rs @ [r]) = consumed_numbers rs @ (if consumes r then [lr_transaction_no r] else [])"
  by (simp add: consumed_numbers_def)

lemma sorted_not_before_snoc:
  assumes "sorted_wrt not_before rs" "rs \<noteq> []" "\<not> timestamp_less (record_time r) (record_time (last rs))"
  shows "sorted_wrt not_before (rs @ [r])"
proof -
  have "\<forall>x\<in>set rs. x = last rs \<or> not_before x (last rs)"
    using assms(1,2) by (induction rs) auto
  then have "\<forall>x\<in>set rs. not_before x r"
    using assms(3) timestamp_not_less_trans unfolding not_before_def by metis
  then show ?thesis using assms(1) by (simp add: sorted_wrt_append)
qed

lemma advance_client_ok:
  assumes a: "advance_client options source line r previous = Inr state" and ok: "client_ok options rs previous"
  shows "client_ok options (rs @ [r]) (Some state)"
proof (cases previous)
  case None
  then show ?thesis
    using assms by (auto simp: advance_client_def client_ok_def Let_def record_time_def consumed_numbers_def)
next
  case (Some s)
  define one where "one = f_eq (lo_sample_rate options) (Fin 1)"
  from ok Some have rs: "rs \<noteq> []" "(cs_epoch_seconds s, cs_epoch_microsecs s) = record_time (last rs)"
    "sorted_wrt not_before rs" "lr_transaction_no (hd rs) \<le> cs_transaction_no s"
    and nos: "one \<Longrightarrow> consumed_numbers rs =
      [lr_transaction_no (hd rs)..(if cs_consumed s then cs_transaction_no s else cs_transaction_no s - 1)]"
    by (auto simp: client_ok_def one_def)
  have t: "\<not> timestamp_less (record_time r) (record_time (last rs))"
    using a Some rs(2) by (auto simp: advance_client_def Let_def split: if_splits)
  have le: "cs_transaction_no s \<le> lr_transaction_no r"
    using a Some by (auto simp: advance_client_def Let_def split: if_splits)
  have same: "lr_transaction_no r = cs_transaction_no s \<Longrightarrow> \<not> cs_consumed s"
    using a Some by (auto simp: advance_client_def Let_def split: if_splits)
  have gap: "one \<Longrightarrow> lr_transaction_no r \<noteq> cs_transaction_no s \<Longrightarrow>
      cs_consumed s \<and> lr_transaction_no r = cs_transaction_no s + 1"
    using a Some by (auto simp: advance_client_def Let_def one_def split: if_splits)
  have st: "cs_transaction_no state = lr_transaction_no r \<and> cs_consumed state = consumes r \<and>
      (cs_epoch_seconds state, cs_epoch_microsecs state) = record_time r"
    using a Some same by (auto simp: advance_client_def Let_def record_time_def split: if_splits)
  have "one \<Longrightarrow> consumed_numbers (rs @ [r]) = [lr_transaction_no (hd rs)..
      (if cs_consumed state then cs_transaction_no state else cs_transaction_no state - 1)]"
    using nos same gap st rs(4) le upto_rec2[of "lr_transaction_no (hd rs)" "lr_transaction_no r"]
    by (cases "lr_transaction_no r = cs_transaction_no s") (auto simp: consumed_snoc)
  then show ?thesis
    using st rs le sorted_not_before_snoc[OF rs(3,1) t] by (simp add: client_ok_def one_def)
qed

lemma add64_count: "int n < max_int64 \<Longrightarrow> add64 (int n) 1 = int n + 1"
  by (rule add64_exact) (simp add: int64_def min_int64_def)

lemma extend_window_simps [simp]:
  "ac_options (extend_window p acc) = ac_options acc" "ac_clients (extend_window p acc) = ac_clients acc"
  "ac_logged (extend_window p acc) = ac_logged acc" "ac_completed (extend_window p acc) = ac_completed acc"
  "ac_failed (extend_window p acc) = ac_failed acc" "ac_skipped (extend_window p acc) = ac_skipped acc"
  "ac_retried (extend_window p acc) = ac_retried acc"
  "ac_total_retries (extend_window p acc) = ac_total_retries acc"
  "ac_latencies (extend_window p acc) = ac_latencies acc" "ac_lags (extend_window p acc) = ac_lags acc"
  "ac_has_timestamp (extend_window p acc)"
  by (simp_all add: extend_window_def)

lemma count_outcome_simps [simp]:
  "ac_options (count_outcome r acc) = ac_options acc" "ac_clients (count_outcome r acc) = ac_clients acc"
  "ac_logged (count_outcome r acc) = ac_logged acc" "ac_first (count_outcome r acc) = ac_first acc"
  "ac_last (count_outcome r acc) = ac_last acc" "ac_has_timestamp (count_outcome r acc) = ac_has_timestamp acc"
  "ac_retried (count_outcome r acc) = ac_retried acc"
  "ac_total_retries (count_outcome r acc) = ac_total_retries acc" "ac_lags (count_outcome r acc) = ac_lags acc"
  "ac_completed (count_outcome r acc) =
     (if lr_outcome r = Completed then add64 (ac_completed acc) 1 else ac_completed acc)"
  "ac_failed (count_outcome r acc) =
     (if lr_outcome r = Failed then add64 (ac_failed acc) 1 else ac_failed acc)"
  "ac_skipped (count_outcome r acc) =
     (if lr_outcome r = Skipped then add64 (ac_skipped acc) 1 else ac_skipped acc)"
  "ac_latencies (count_outcome r acc) =
     (if lr_outcome r = Completed then ac_latencies acc @ [lr_latency_us r] else ac_latencies acc)"
  by (simp_all add: count_outcome_def split: outcome.split)

definition retrying :: "accumulator \<Rightarrow> log_record \<Rightarrow> bool" where
  "retrying acc r = (lo_retries (ac_options acc) \<and> 0 < lr_retries r)"

lemma count_record_Inr:
  assumes "count_record source line r acc = Inr acc'"
  shows "ac_logged acc \<noteq> max_int64 \<and> ac_logged acc' = add64 (ac_logged acc) 1 \<and>
    ac_options acc' = ac_options acc \<and> ac_clients acc' = ac_clients acc \<and> ac_has_timestamp acc' \<and>
    (retrying acc r \<longrightarrow> lr_retries r \<le> max_int64 - ac_total_retries acc)"
    and "ac_first acc' = (if \<not> ac_has_timestamp acc \<or> timestamp_less (record_time r) (ac_first acc)
                          then record_time r else ac_first acc)"
    and "ac_last acc' = (if \<not> ac_has_timestamp acc \<or> timestamp_less (ac_last acc) (record_time r)
                          then record_time r else ac_last acc)"
    and "ac_completed acc' = (if lr_outcome r = Completed then add64 (ac_completed acc) 1 else ac_completed acc)"
    and "ac_failed acc' = (if lr_outcome r = Failed then add64 (ac_failed acc) 1 else ac_failed acc)"
    and "ac_skipped acc' = (if lr_outcome r = Skipped then add64 (ac_skipped acc) 1 else ac_skipped acc)"
    and "ac_latencies acc' =
      (if lr_outcome r = Completed then ac_latencies acc @ [lr_latency_us r] else ac_latencies acc)"
    and "ac_lags acc' = (if lo_schedule_lag (ac_options acc) then ac_lags acc @ [lr_schedule_lag_us r] else ac_lags acc)"
    and "ac_retried acc' = (if retrying acc r then add64 (ac_retried acc) 1 else ac_retried acc)"
    and "ac_total_retries acc' =
      (if retrying acc r then add64 (ac_total_retries acc) (lr_retries r) else ac_total_retries acc)"
  using assms unfolding count_record_def Let_def retrying_def[symmetric]
  by (auto simp: extend_window_def[of _ acc] split: if_splits)
     (simp_all add: extend_window_def)

lemma count_record_totals:
  assumes c: "count_record source line r acc = Inr acc'" and t: "totals_ok rs acc"
    and v: "valid_record (ac_options acc) r"
  shows "totals_ok (rs @ [r]) acc'"
proof -
  have len: "int (length rs) < max_int64"
    using c t by (auto simp: count_record_def totals_ok_def split: if_splits)
  have le: "int (length (filter P rs)) < max_int64" for P
    using len length_filter_le[of P rs] by linarith
  have r0: "0 \<le> lr_retries r" "\<not> lo_retries (ac_options acc) \<Longrightarrow> lr_retries r = 0"
    using v by (auto simp: valid_record_def)
  have add: "add64 (sum_list (map lr_retries rs)) (lr_retries r) = sum_list (map lr_retries rs) + lr_retries r"
    if "lr_retries r \<le> max_int64 - sum_list (map lr_retries rs)"
    using that r0 t by (intro add64_exact) (auto simp: totals_ok_def int64_def min_int64_def)
  have re: "retrying acc r \<longleftrightarrow> 0 < lr_retries r" using r0 unfolding retrying_def by (metis less_irrefl)
  note f = count_record_Inr[OF c]
  show ?thesis
    unfolding totals_ok_def f(4-) re
    using f(1) t r0(1) add add64_count[OF len] add64_count[OF le] len
    by (cases "lr_outcome r") (auto simp: totals_ok_def re)
qed

lemma count_record_window:
  assumes c: "count_record source line r acc = Inr acc'" and w: "window_ok rs acc"
  shows "window_ok (rs @ [r]) acc'"
proof -
  let ?t = "record_time r"
  note f = count_record_Inr(2)[OF c] and l = count_record_Inr(3)[OF c]
  have h: "ac_has_timestamp acc'" using count_record_Inr(1)[OF c] by blast
  show ?thesis
  proof (cases "rs = []")
    case True
    then show ?thesis using w f l h by (simp add: window_ok_def)
  next
    case False
    then have ts: "ac_has_timestamp acc" using w by (simp add: window_ok_def)
    have m: "ac_first acc \<in> record_time ` set rs" "ac_last acc \<in> record_time ` set rs"
      and b: "\<And>x. x \<in> set rs \<Longrightarrow> \<not> timestamp_less (record_time x) (ac_first acc)"
        "\<And>x. x \<in> set rs \<Longrightarrow> \<not> timestamp_less (ac_last acc) (record_time x)"
      using w False by (auto simp: window_ok_def)
    have "\<not> timestamp_less (record_time x) (ac_first acc')" if "x \<in> set (rs @ [r])" for x
      using that b(1)[of x] timestamp_total[of ?t "ac_first acc"] timestamp_not_less_trans[of "ac_first acc" ?t "record_time x"]
      by (auto simp: f ts)
    moreover have "\<not> timestamp_less (ac_last acc') (record_time x)" if "x \<in> set (rs @ [r])" for x
      using that b(2)[of x] timestamp_total[of "ac_last acc" ?t] timestamp_not_less_trans[of "ac_last acc" "record_time x" ?t]
      by (auto simp: l ts)
    moreover have "ac_first acc' \<in> record_time ` set (rs @ [r])" "ac_last acc' \<in> record_time ` set (rs @ [r])"
      using m by (auto simp: f l)
    ultimately show ?thesis using h by (simp add: window_ok_def)
  qed
qed

lemma add_record_accumulated:
  assumes "add_record source line acc r = Inr acc'" and "accumulated options rs acc"
    and "valid_record options r"
  shows "accumulated options (rs @ [r]) acc'"
proof -
  obtain state where s: "advance_client options source line r (ac_clients acc (lr_client_id r)) = Inr state"
    and c: "count_record source line r (acc\<lparr>ac_clients := (ac_clients acc)(lr_client_id r := Some state)\<rparr>) = Inr acc'"
    using assms(1,2) by (auto simp: add_record_def result_simps accumulated_def)
  have opts: "ac_options acc' = ac_options acc"
    and clients: "ac_clients acc' = (ac_clients acc)(lr_client_id r := Some state)"
    using count_record_Inr(1)[OF c] by auto
  have "totals_ok rs (acc\<lparr>ac_clients := (ac_clients acc)(lr_client_id r := Some state)\<rparr>)"
    "window_ok rs (acc\<lparr>ac_clients := (ac_clients acc)(lr_client_id r := Some state)\<rparr>)"
    using assms(2) by (simp_all add: accumulated_def totals_ok_def window_ok_def)
  then have "totals_ok (rs @ [r]) acc'" "window_ok (rs @ [r]) acc'"
    using count_record_totals[OF c] count_record_window[OF c] assms(2,3) by (simp_all add: accumulated_def)
  moreover have "client_ok options (of_client k (rs @ [r])) (ac_clients acc' k)" for k
    using advance_client_ok[OF s, of "of_client (lr_client_id r) rs"] assms(2)
    by (simp add: clients of_client_snoc accumulated_def)
  ultimately show ?thesis using assms(2,3) opts by (simp add: accumulated_def)
qed


lemma totals_start: "new_accumulator options0 = Inr acc \<Longrightarrow> accumulated (ac_options acc) [] acc"
  by (auto simp: new_accumulator_def Let_def accumulated_def totals_ok_def window_ok_def client_ok_def
      of_client_def max_int64_def split: if_splits)

text \<open>A line and the record it holds; the lines of all the logs of a trial, in the order they are read.\<close>

definition row_of :: "log_options \<Rightarrow> string \<Rightarrow> log_record \<Rightarrow> bool" where
  "row_of options text r = (valid_record options r \<and> str_fields text = record_fields options r)"

definition source_lines :: "string \<times> string \<Rightarrow> string list" where
  "source_lines source = fst (scan_lines scanner_limit (snd source))"

definition log_lines :: "(string \<times> string) list \<Rightarrow> string list" where
  "log_lines sources = concat (map source_lines (sort_key fst (normalize_names sources)))"

definition log_rows :: "log_options \<Rightarrow> (string \<times> string) list \<Rightarrow> log_record list \<Rightarrow> bool" where
  "log_rows options sources rs = list_all2 (row_of options) (log_lines sources) rs"

lemma parse_line_accumulated:
  assumes "parse_line source line acc text = Inr acc'" and "accumulated options rs acc"
  shows "\<exists>r. accumulated options (rs @ [r]) acc' \<and> row_of options text r"
proof -
  have o: "ac_options acc = options" using assms(2) by (simp add: accumulated_def)
  from assms(1) o have len: "length (str_fields text) = expected_fields options"
    by (auto simp: parse_line_def Let_def split: if_splits)
  from assms(1) o obtain r where r: "parse_record source line (str_fields text) options = Inr r"
    and a: "add_record source line acc r = Inr acc'"
    by (auto simp: parse_line_def Let_def result_simps split: if_splits)
  from r len have v: "valid_record options r" "str_fields text = record_fields options r"
    by (simp_all add: parse_record_iff)
  show ?thesis using add_record_accumulated[OF a assms(2) v(1)] v by (auto simp: row_of_def)
qed

lemma parse_lines_accumulated:
  "parse_lines source line acc ls = Inr acc' \<Longrightarrow> accumulated options rs acc \<Longrightarrow>
     \<exists>rs'. accumulated options (rs @ rs') acc' \<and> list_all2 (row_of options) ls rs'"
proof (induction ls arbitrary: line acc rs)
  case Nil
  then show ?case by (intro exI[of _ "[]"]) simp
next
  case (Cons l ls)
  then obtain acc1 where p: "parse_line source line acc l = Inr acc1"
    and q: "parse_lines source (Suc line) acc1 ls = Inr acc'" by (auto simp: result_simps)
  obtain r where r: "accumulated options (rs @ [r]) acc1" "row_of options l r"
    using parse_line_accumulated[OF p Cons.prems(2)] by blast
  obtain rs' where "accumulated options ((rs @ [r]) @ rs') acc'" "list_all2 (row_of options) ls rs'"
    using Cons.IH[OF q r(1)] by blast
  with r(2) show ?case by (intro exI[of _ "r # rs'"]) simp
qed

lemma parse_source_accumulated:
  assumes "parse_source acc source = Inr acc'" and "accumulated options rs acc"
  shows "\<exists>rs'. accumulated options (rs @ rs') acc' \<and> list_all2 (row_of options) (source_lines source) rs' \<and> rs' \<noteq> []"
proof -
  obtain name content where s: "source = (name, content)" by fastforce
  obtain ls long where sc: "scan_lines scanner_limit content = (ls, long)" by fastforce
  from assms(1) obtain acc1 where p: "parse_lines name 1 acc ls = Inr acc1" and ne: "ls \<noteq> []"
    and e: "acc' = acc1\<lparr>ac_files := ac_files acc1 + 1\<rparr>"
    by (auto simp: parse_source_def s sc result_simps split: if_splits)
  obtain rs' where r: "accumulated options (rs @ rs') acc1" "list_all2 (row_of options) ls rs'"
    using parse_lines_accumulated[OF p assms(2)] by blast
  have "accumulated options (rs @ rs') acc'"
    using r(1) by (simp add: e accumulated_def totals_ok_def window_ok_def)
  then show ?thesis using r(2) ne by (intro exI[of _ rs']) (auto simp: source_lines_def s sc)
qed

lemma parse_sources_accumulated:
  "fold_r parse_source acc srcs = Inr acc' \<Longrightarrow> accumulated options rs acc \<Longrightarrow>
     \<exists>rs'. accumulated options (rs @ rs') acc' \<and> (srcs \<noteq> [] \<longrightarrow> rs' \<noteq> []) \<and>
       list_all2 (row_of options) (concat (map source_lines srcs)) rs'"
proof (induction srcs arbitrary: acc rs)
  case Nil
  then show ?case by (intro exI[of _ "[]"]) simp
next
  case (Cons s srcs)
  then obtain acc1 where p: "parse_source acc s = Inr acc1" and q: "fold_r parse_source acc1 srcs = Inr acc'"
    by (auto simp: result_simps)
  obtain r1 where r1: "accumulated options (rs @ r1) acc1" "list_all2 (row_of options) (source_lines s) r1" "r1 \<noteq> []"
    using parse_source_accumulated[OF p Cons.prems(2)] by blast
  obtain r2 where r2: "accumulated options ((rs @ r1) @ r2) acc'"
    "list_all2 (row_of options) (concat (map source_lines srcs)) r2"
    using Cons.IH[OF q r1(1)] by blast
  show ?case
    using r1 r2 by (intro exI[of _ "r1 @ r2"]) (simp add: list_all2_appendI)
qed

text \<open>The options in force: the default sample rate filled in.\<close>

definition effective_options :: "log_options \<Rightarrow> log_options" where
  "effective_options options =
     (if f_eq (lo_sample_rate options) (Fin 0) then options\<lparr>lo_sample_rate := Fin 1\<rparr> else options)"

lemma new_accumulator_options: "new_accumulator options = Inr acc \<Longrightarrow> ac_options acc = effective_options options"
  by (auto simp: new_accumulator_def Let_def effective_options_def split: if_splits)

lemma length_normalize_names [simp]: "length (normalize_names sources) = length sources"
  by (simp add: normalize_names_def del: upt_Suc)

lemma parse_log_accumulated:
  assumes "parse_log sources options = Inr res"
  shows "\<exists>rs acc. log_rows (effective_options options) sources rs \<and> rs \<noteq> [] \<and>
    accumulated (effective_options options) rs acc \<and> accumulator_result acc = Inr res"
proof -
  obtain acc0 acc where n: "new_accumulator options = Inr acc0" and ne: "sources \<noteq> []"
    and f: "fold_r parse_source acc0 (sort_key fst (normalize_names sources)) = Inr acc"
    and r: "accumulator_result acc = Inr res"
    using assms by (auto simp: parse_log_def result_simps Let_def row_errors_def
        split: if_splits option.splits sum.splits)
  have "sort_key fst (normalize_names sources) \<noteq> []"
    using ne by (metis length_normalize_names length_sort length_0_conv)
  then show ?thesis
    using parse_sources_accumulated[OF f totals_start[OF n]] r new_accumulator_options[OF n]
    unfolding log_rows_def log_lines_def by auto
qed

lemma accumulator_result_fields:
  assumes "accumulator_result acc = Inr res"
  shows "re_logged res = ac_logged acc \<and> re_completed res = ac_completed acc \<and> re_failed res = ac_failed acc \<and>
    re_skipped res = ac_skipped acc \<and> re_retried res = ac_retried acc \<and>
    re_total_retries res = ac_total_retries acc \<and> re_first res = ac_first acc \<and> re_last res = ac_last acc \<and>
    re_sample_rate res = lo_sample_rate (ac_options acc)"
  using assms by (auto simp: accumulator_result_def result_simps)

lemma length_outcomes:
  "length (filter (\<lambda>r. lr_outcome r = Completed) rs) + length (filter (\<lambda>r. lr_outcome r = Failed) rs) +
   length (filter (\<lambda>r. lr_outcome r = Skipped) rs) = length rs"
  by (induction rs) (auto, metis outcome.exhaust)

subsection \<open>Properties of the log parser\<close>

text \<open>C32: The row grammar is exact: a row with the declared number of fields is accepted if and only if its
  fields are the canonical decimal rendering of a valid record (all numbers non-negative and in \<open>int64\<close>,
  microseconds below one million, \<open>skipped\<close> only with a schedule-lag column and without retries), and
  the record is then that one. In particular rendering and parsing are inverse.\<close>

theorem log_row_grammar:
  assumes "length fs = expected_fields options"
  shows "parse_record source line fs options = Inr r \<longleftrightarrow>
    valid_record options r \<and> fs = record_fields options r"
  by (rule parse_record_iff[OF assms])

definition sample_log_options :: log_options where
  "sample_log_options = \<lparr>lo_sample_rate = Fin 1, lo_schedule_lag = False, lo_retries = True\<rparr>"

definition sample_log_record :: "int \<Rightarrow> int \<Rightarrow> log_record" where
  "sample_log_record no seconds = \<lparr>lr_client_id = 3, lr_transaction_no = no, lr_latency_us = 250,
     lr_outcome = Completed, lr_script_no = 0, lr_epoch_seconds = seconds, lr_epoch_microsecs = 5,
     lr_schedule_lag_us = 0, lr_retries = 2\<rparr>"

theorem log_row_grammar_witness:
  "parse_record ''w'' 1 (record_fields sample_log_options (sample_log_record 7 9)) sample_log_options =
     Inr (sample_log_record 7 9)"
proof -
  have "valid_record sample_log_options (sample_log_record 7 9)"
    by (simp add: valid_record_def sample_log_options_def sample_log_record_def int64_def min_int64_def max_int64_def)
  then show ?thesis
    using log_row_grammar[of "record_fields sample_log_options (sample_log_record 7 9)" sample_log_options]
    by (simp add: expected_fields_def record_fields_def sample_log_options_def)
qed

definition sample_log_line :: string where
  "sample_log_line = join '' '' (record_fields sample_log_options (sample_log_record 7 9))"

lemma sample_log_solid:
  "list_all (\<lambda>w. w \<noteq> [] \<and> list_all solid w) (record_fields sample_log_options (sample_log_record 7 9))"
  by (simp add: record_fields_def sample_log_options_def sample_log_record_def outcome_field_def show_int_def
      solid_show_nat solid_def code_def)

lemma sample_log_text: "sample_log_line = ''3 7 250 0 9 5 2''"
  by (simp add: sample_log_line_def record_fields_def sample_log_options_def sample_log_record_def
      outcome_field_def show_int_def show_nat.simps go_simps)

lemma sample_log_accumulates:
  "parse_line ''a'' 1 acc sample_log_line =
     add_record ''a'' 1 acc (sample_log_record 7 9)" if "ac_options acc = sample_log_options"
proof -
  have "trim_space sample_log_line \<noteq> []"
    by (simp add: sample_log_text trim_space_solid solid_def code_def)
  moreover have "str_fields sample_log_line = record_fields sample_log_options (sample_log_record 7 9)"
    unfolding sample_log_line_def by (rule fields_join[OF sample_log_solid])
  moreover have "length (record_fields sample_log_options (sample_log_record 7 9)) = expected_fields sample_log_options"
    by (simp add: expected_fields_def record_fields_def sample_log_options_def)
  moreover have "valid_record sample_log_options (sample_log_record 7 9)"
    by (simp add: valid_record_def sample_log_options_def sample_log_record_def int64_def min_int64_def max_int64_def)
  ultimately show ?thesis
    using that by (simp add: parse_line_def Let_def parse_record_iff[THEN iffD2])
qed

lemma sample_log_parses:
  "\<exists>res. parse_log [(''a'', sample_log_line)] sample_log_options = Inr res \<and> re_sample_rate res = Fin 1 \<and>
     re_first res = (9, 5) \<and> re_last res = (9, 5) \<and> 0 < re_logged res \<and>
     re_schema_version res = result_schema_version \<and> re_parser_version res = log_parser_version"
proof -
  have lines: "scan_lines scanner_limit sample_log_line = ([sample_log_line], False)"
    by (simp add: sample_log_text scan_lines_def raw_lines_def newline_def scanner_limit_def drop_cr_def)
  have name: "trim_space ''a'' = ''a''" by (simp add: trim_space_solid solid_def code_def)
  have v: "rnd 250 = Fin 250" "rnd 1 = Fin 1" "rnd 0 = Fin 0"
    using rnd_exact[OF f_valid_small_int[of 250]] rnd_exact[OF f_valid_small_int[of 1]]
      rnd_exact[OF f_valid_small_int[of 0]] by simp_all
  have p: "probability (rnd (95 / 100))" "probability (rnd (99 / 100))"
  proof -
    have "probability (rnd x)" if "0 \<le> x" "x \<le> 1" for x
      using rnd_mono[OF that(1)] rnd_mono[OF that(2)] v
      by (cases "rnd x") (auto simp: probability_def less_eq_f64_def less_f64_def split: if_splits)
    then show "probability (rnd (95 / 100))" "probability (rnd (99 / 100))" by simp_all
  qed
  have sum: "\<exists>d. summarize_log [250] = Inr d"
    using p by (simp add: summarize_log_def f_of_int_def f_sub_def v percentile_eq validate_finite_values_def Let_def)
  have n: "\<exists>acc. new_accumulator sample_log_options = Inr acc \<and> ac_options acc = sample_log_options \<and>
      ac_logged acc = 0 \<and> ac_total_retries acc = 0 \<and> \<not> ac_has_timestamp acc \<and> ac_latencies acc = [] \<and>
      ac_clients acc 3 = None"
    by (simp add: new_accumulator_def sample_log_options_def f_le_def)
  then obtain acc where n: "new_accumulator sample_log_options = Inr acc" "ac_options acc = sample_log_options"
    "ac_logged acc = 0" "ac_total_retries acc = 0" "\<not> ac_has_timestamp acc" "ac_latencies acc = []"
    "ac_clients acc 3 = None" by blast
  have "\<exists>acc'. add_record ''a'' 1 acc (sample_log_record 7 9) = Inr acc' \<and> ac_options acc' = sample_log_options \<and>
      ac_latencies acc' = [250] \<and> ac_first acc' = (9, 5) \<and> ac_last acc' = (9, 5) \<and> 0 < ac_logged acc'"
    using n by (simp add: add_record_def advance_client_def sample_log_record_def count_record_def max_int64_def
        record_time_def extend_window_def count_outcome_def add64_def wrap64_def sample_log_options_def)
  then obtain acc' where a: "add_record ''a'' 1 acc (sample_log_record 7 9) = Inr acc'"
    "ac_options acc' = sample_log_options" "ac_latencies acc' = [250]" "ac_first acc' = (9, 5)"
    "ac_last acc' = (9, 5)" "0 < ac_logged acc'" by blast
  have "normalize_names [(''a'', sample_log_line)] = [(''a'', sample_log_line)]"
    by (simp add: normalize_names_def name)
  then have "parse_log [(''a'', sample_log_line)] sample_log_options =
      accumulator_result (acc'\<lparr>ac_files := ac_files acc' + 1\<rparr>)"
    using n(1,2) a(1) sample_log_accumulates[OF n(2)]
    by (simp add: parse_log_def parse_source_def lines row_errors_def)
  then show ?thesis
    using sum a by (auto simp: accumulator_result_def sample_log_options_def)
qed

text \<open>C3: The aggregate of the logs of a trial is exact, with no lost, duplicated or overflowed row: there are
  records, one for every line of the logs, such that the logged rows are their number, completed, failed and
  skipped rows partition them, the retries add up, and the completion window is spanned by their timestamps.\<close>

theorem parsed_log_accounts_for_every_row:
  assumes "parse_log sources options = Inr res"
  shows "\<exists>rs. log_rows (effective_options options) sources rs \<and> rs \<noteq> [] \<and>
    re_logged res = int (length rs) \<and>
    re_completed res = int (length (filter (\<lambda>r. lr_outcome r = Completed) rs)) \<and>
    re_failed res = int (length (filter (\<lambda>r. lr_outcome r = Failed) rs)) \<and>
    re_skipped res = int (length (filter (\<lambda>r. lr_outcome r = Skipped) rs)) \<and>
    re_completed res + re_failed res + re_skipped res = re_logged res \<and>
    re_retried res = int (length (filter (\<lambda>r. 0 < lr_retries r) rs)) \<and>
    re_total_retries res = sum_list (map lr_retries rs) \<and>
    re_first res \<in> record_time ` set rs \<and> re_last res \<in> record_time ` set rs \<and>
    list_all (\<lambda>r. \<not> timestamp_less (record_time r) (re_first res) \<and>
                  \<not> timestamp_less (re_last res) (record_time r)) rs"
proof -
  obtain rs acc where h: "log_rows (effective_options options) sources rs" "rs \<noteq> []"
    "accumulated (effective_options options) rs acc" "accumulator_result acc = Inr res"
    using parse_log_accumulated[OF assms] by blast
  note f = accumulator_result_fields[OF h(4)]
  have t: "totals_ok rs acc" and w: "window_ok rs acc" using h(3) by (simp_all add: accumulated_def)
  have "re_completed res + re_failed res + re_skipped res = re_logged res"
    using f t length_outcomes[of rs] by (simp add: totals_ok_def)
  then show ?thesis
    using f t w h(1,2) by (intro exI[of _ rs]) (simp add: totals_ok_def window_ok_def list_all_iff)
qed

theorem parsed_log_accounts_for_every_row_witness:
  "\<exists>rs (res :: log_result). log_rows (effective_options sample_log_options) [(''a'', sample_log_line)] rs \<and>
     re_logged res = int (length rs) \<and> rs \<noteq> []"
proof -
  obtain res where "parse_log [(''a'', sample_log_line)] sample_log_options = Inr res"
    using sample_log_parses by blast
  from parsed_log_accounts_for_every_row[OF this] show ?thesis by blast
qed

text \<open>The time of a pair, which \<open>time.Unix\<close> gives where it does not wrap.\<close>

definition epoch_nanos :: "int \<times> int \<Rightarrow> int" where
  "epoch_nanos t = fst t * 1000000000 + snd t * 1000"

lemma unix_nanos_exact:
  "0 \<le> fst t \<Longrightarrow> fst t \<le> max_int64 - unix_to_internal \<Longrightarrow> unix_nanos t = epoch_nanos t"
  by (cases t) (simp add: epoch_nanos_def int64_def min_int64_def max_int64_def unix_to_internal_def)

lemma epoch_nanos_mono:
  "\<not> timestamp_less b a \<Longrightarrow> 0 \<le> snd a \<Longrightarrow> snd a < 1000000 \<Longrightarrow> 0 \<le> snd b \<Longrightarrow> snd b < 1000000 \<Longrightarrow>
     fst a \<le> fst b \<and> epoch_nanos a \<le> epoch_nanos b"
  by (cases a; cases b) (auto simp: epoch_nanos_def)

text \<open>C31: A validated completion window proves containment: when the parsed logs pass the check against a
  measured phase, every single row of the logs completed inside that phase, as long as the seconds of the last row can
  be moved to the year one without a wrap in 64 bits. Beyond that bound \<open>time.Unix\<close> wraps to the distant past, which is
  before every finish, so that the check says nothing.\<close>

theorem window_contains_every_row:
  assumes "parse_log sources options = Inr res" and "validate_completion_window res started finished = Inr ()"
    and "fst (re_last res) \<le> max_int64 - unix_to_internal"
  shows "\<exists>rs. log_rows (effective_options options) sources rs \<and> rs \<noteq> [] \<and>
    list_all (\<lambda>r. started \<le> epoch_nanos (record_time r) \<and> epoch_nanos (record_time r) \<le> finished) rs"
proof -
  obtain rs acc where h: "log_rows (effective_options options) sources rs" "rs \<noteq> []"
    "accumulated (effective_options options) rs acc" "accumulator_result acc = Inr res"
    using parse_log_accumulated[OF assms(1)] by blast
  have w: "window_ok rs acc" and v: "list_all (valid_record (effective_options options)) rs"
    using h(3) by (simp_all add: accumulated_def)
  have parts: "0 \<le> fst (record_time r) \<and> 0 \<le> snd (record_time r) \<and> snd (record_time r) < 1000000" if "r \<in> set rs" for r
    using v that by (auto simp: list_all_iff valid_record_def record_time_def)
  obtain a b where ab: "a \<in> set rs" "re_first res = record_time a" "b \<in> set rs" "re_last res = record_time b"
    using w h(2) accumulator_result_fields[OF h(4)] by (auto simp: window_ok_def)
  have order: "\<not> timestamp_less (record_time r) (record_time a)" "\<not> timestamp_less (record_time b) (record_time r)"
    if "r \<in> set rs" for r
    using w that ab accumulator_result_fields[OF h(4)] by (auto simp: window_ok_def)
  have exact: "unix_nanos (record_time r) = epoch_nanos (record_time r)" if "r \<in> set rs" for r
  proof (rule unix_nanos_exact)
    show "0 \<le> fst (record_time r)" using parts[OF that] by blast
    have "fst (record_time r) \<le> fst (record_time b)" using epoch_nanos_mono[OF order(2)[OF that]] parts that ab(3) by blast
    then show "fst (record_time r) \<le> max_int64 - unix_to_internal" using assms(3) ab(4) by simp
  qed
  have "started \<le> unix_nanos (re_first res)" "unix_nanos (re_last res) \<le> finished"
    using assms(2) by (auto simp: validate_completion_window_def split: if_splits)
  then have le: "started \<le> epoch_nanos (record_time a)" "epoch_nanos (record_time b) \<le> finished"
    using exact ab by simp_all
  have "started \<le> epoch_nanos (record_time r) \<and> epoch_nanos (record_time r) \<le> finished" if "r \<in> set rs" for r
    using epoch_nanos_mono[OF order(1)[OF that]] epoch_nanos_mono[OF order(2)[OF that]] parts that ab(1,3) le by fastforce
  then show ?thesis using h(1,2) by (auto simp: list_all_iff)
qed

theorem window_contains_every_row_witness:
  "\<exists>rs. log_rows (effective_options sample_log_options) [(''a'', sample_log_line)] rs \<and> rs \<noteq> []"
proof -
  obtain res where r: "parse_log [(''a'', sample_log_line)] sample_log_options = Inr res"
    and f: "re_first res = (9, 5)" "re_last res = (9, 5)" "0 < re_logged res"
      "re_schema_version res = result_schema_version" "re_parser_version res = log_parser_version"
    using sample_log_parses by blast
  have bound: "fst (re_last res) \<le> max_int64 - unix_to_internal"
    using f by (simp add: max_int64_def unix_to_internal_def)
  then have "validate_completion_window res 9000000000 9100000000 = Inr ()"
    using f unix_nanos_exact[of "(9, 5)"] by (simp add: validate_completion_window_def epoch_nanos_def del: unix_nanos.simps)
  from window_contains_every_row[OF r this bound] show ?thesis by blast
qed

text \<open>Beyond the bound the check passes a last row that is far outside: here one at the last second of the range.\<close>

lemma wrapped_window_passes:
  assumes "re_schema_version r = result_schema_version" and "re_parser_version r = log_parser_version" and "0 < re_logged r"
    and "re_first r = (9, 5)" and "re_last r = (max_int64, 5)"
  shows "validate_completion_window r 9000000000 9100000000 = Inr () \<and> 9100000000 < epoch_nanos (re_last r)"
  using assms
  by (simp add: validate_completion_window_def epoch_nanos_def unix_to_internal_def max_int64_def wrap64_def)

lemma client_ok_gapless:
  assumes "client_ok options rs state" and one: "f_eq (lo_sample_rate options) (Fin 1)" and "rs \<noteq> []"
  shows "sorted_wrt not_before rs \<and> (\<exists>last. consumed_numbers rs = [lr_transaction_no (hd rs)..last])"
proof (cases state)
  case None
  then show ?thesis using assms by (simp add: client_ok_def)
next
  case (Some s)
  then show ?thesis using assms(1) one unfolding client_ok_def Some option.case by blast
qed

text \<open>C22: Without sampling no transaction of a client is lost or repeated: the numbers of the completed and
  failed transactions of each client are consecutive from its first row on, and its timestamps never go back.\<close>

theorem unsampled_sequences_are_gapless:
  assumes "parse_log sources options = Inr res" and "re_sample_rate res = Fin 1"
  shows "\<exists>rs. log_rows (effective_options options) sources rs \<and>
    (\<forall>c. of_client c rs \<noteq> [] \<longrightarrow>
       sorted_wrt not_before (of_client c rs) \<and>
       (\<exists>last. consumed_numbers (of_client c rs) = [lr_transaction_no (hd (of_client c rs))..last]))"
proof -
  obtain rs acc where h: "log_rows (effective_options options) sources rs"
    "accumulated (effective_options options) rs acc" "accumulator_result acc = Inr res"
    using parse_log_accumulated[OF assms(1)] by blast
  have one: "f_eq (lo_sample_rate (effective_options options)) (Fin 1)"
  proof -
    have "lo_sample_rate (effective_options options) = Fin 1"
      using accumulator_result_fields[OF h(3)] h(2) assms(2) by (auto simp: accumulated_def)
    then show ?thesis by simp
  qed
  have "client_ok (effective_options options) (of_client c rs) (ac_clients acc c)" for c
    using h(2) by (simp add: accumulated_def)
  then show ?thesis using client_ok_gapless[OF _ one] h(1) by blast
qed


theorem unsampled_sequences_are_gapless_witness:
  "\<exists>rs. log_rows (effective_options sample_log_options) [(''a'', sample_log_line)] rs"
proof -
  obtain res where "parse_log [(''a'', sample_log_line)] sample_log_options = Inr res" "re_sample_rate res = Fin 1"
    using sample_log_parses by blast
  from unsampled_sequences_are_gapless[OF this] show ?thesis by blast
qed

lemma normalize_named:
  "list_all (\<lambda>s. trim_space (fst s) \<noteq> []) sources \<Longrightarrow> normalize_names sources = sources"
proof -
  assume n: "list_all (\<lambda>s. trim_space (fst s) \<noteq> []) sources"
  have "normalize_names sources = map snd (zip [1..<length sources + 1] sources)"
    unfolding normalize_names_def
    by (rule map_cong[OF refl]) (use n in \<open>auto simp: list_all_iff dest!: set_zip_rightD\<close>)
  also have "\<dots> = sources" by (rule map_snd_zip) (simp del: upt_Suc)
  finally show ?thesis .
qed

text \<open>The result does not depend on the order in which the worker logs are given: sources with names of
  their own, in any order, yield the same aggregate or the same error.\<close>

theorem parse_order_independent:
  assumes "mset sources = mset sources'" and "list_all (\<lambda>s. trim_space (fst s) \<noteq> []) sources"
    and "distinct (map fst sources)"
  shows "parse_log sources options = parse_log sources' options"
proof -
  have named: "list_all (\<lambda>s. trim_space (fst s) \<noteq> []) sources'"
    using assms(1,2) by (metis list_all_iff mset_eq_setD)
  have "sort_key fst sources = sort_key fst sources'"
    using assms(1,3) by (intro sort_key_inj_key_eq) (auto simp: distinct_map)
  moreover have "sources = [] \<longleftrightarrow> sources' = []" using assms(1) by auto
  ultimately show ?thesis
    unfolding parse_log_def normalize_named[OF assms(2)] normalize_named[OF named] by presburger
qed

theorem parse_order_independent_witness:
  "parse_log [(''a'', sample_log_line), (''b'', [])] sample_log_options =
   parse_log [(''b'', []), (''a'', sample_log_line)] sample_log_options"
  by (rule parse_order_independent) (simp_all add: trim_space_solid solid_def code_def)

end
