(* ===== verification/PgbenchSummary.thy ===== *)
theory PgbenchSummary
  imports GoScan Float64
begin

section \<open>The pgbench summary\<close>

text \<open>
  \<^verbatim>\<open>internal/pgbenchresult/parser.go\<close>: the strict parser of the last measured summary that
  \<open>pgbench\<close> prints. The regular expressions of the code are written out as recognisers on the
  string; a decimal is converted by rounding its exact value once, as \<open>strconv.ParseFloat\<close> does.
\<close>

subsection \<open>Substrings and numbers\<close>

datatype summary_problem =
    Duplicate_field
  | Empty_value
  | Not_integer string
  | Integer_out_of_range
  | Not_positive
  | Unsupported_query_mode string
  | No_seconds_suffix
  | Not_decimal string
  | Not_finite_decimal string
  | Bad_processed string
  | Bad_count string
  | Malformed
  | Missing_qualifier
  | Unsupported_qualifier string
  | Unknown_line string
  | Nested_summary
  | No_summary
  | Missing_banner
  | No_major string
  | Unsupported_major string
  | Missing_field
  | Not_exactly_one_mode
  | Expected_overflow
  | Expected_mismatch int int
  | Processed_not_positive
  | Processed_exceeds_expected
  | Counts_exceed_expected
  | Breakdown_exceeds_failed
  | Late_exceeds_total
  | Total_not_processed
  | Average_exceeds_maximum
  | Half_retry_fields
  | Retries_with_one_try
  | Retries_missing
  | Total_below_retried

record summary_error =
  su_line :: nat
  su_field :: string
  su_problem :: summary_problem

definition summary_error :: "nat \<Rightarrow> string \<Rightarrow> summary_problem \<Rightarrow> summary_error" where
  "summary_error line field problem = \<lparr>su_line = line, su_field = field, su_problem = problem\<rparr>"

definition parse_nonnegative_int :: "string \<Rightarrow> (summary_problem, int) result" where
  "parse_nonnegative_int v =
     (if \<not> canonical_nat v then Inl (Not_integer v) else of_option Integer_out_of_range (parse_int64 v))"

definition parse_positive_int :: "string \<Rightarrow> (summary_problem, int) result" where
  "parse_positive_int v =
     bind_r (parse_nonnegative_int v) (\<lambda>n. if n \<le> 0 then Inl Not_positive else Inr n)"

definition decimal_number :: "string \<Rightarrow> bool" where
  "decimal_number v =
     (case cut (CHR ''.'') v of (whole, fraction, found) \<Rightarrow>
        canonical_nat whole \<and> (found \<longrightarrow> fraction \<noteq> [] \<and> all_digits fraction))"

definition decimal_value :: "string \<Rightarrow> rat" where
  "decimal_value v =
     (case cut (CHR ''.'') v of (whole, fraction, found) \<Rightarrow>
        of_nat (nat_of_digits (whole @ fraction)) / 10 ^ length fraction)"

definition parse_nonnegative_float :: "string \<Rightarrow> (summary_problem, f64) result" where
  "parse_nonnegative_float v =
     (if \<not> decimal_number v then Inl (Not_decimal v)
      else let x = rnd (decimal_value v) in if f_finite x then Inr x else Inl (Not_finite_decimal v))"

definition parse_positive_float :: "string \<Rightarrow> (summary_problem, f64) result" where
  "parse_positive_float v =
     bind_r (parse_nonnegative_float v) (\<lambda>x. if f_le x (Fin 0) then Inl Not_positive else Inr x)"

definition parse_processed :: "string \<Rightarrow> (summary_problem, int \<times> int option) result" where
  "parse_processed v =
     (case cut (CHR ''/'') v of (a, b, found) \<Rightarrow>
        if \<not> canonical_nat a \<or> (found \<and> \<not> canonical_nat b) then Inl (Bad_processed v)
        else bind_r (of_option Integer_out_of_range (parse_int64 a)) (\<lambda>processed.
          if \<not> found then Inr (processed, None)
          else bind_r (of_option Integer_out_of_range (parse_int64 b)) (\<lambda>expected.
            Inr (processed, Some expected))))"

text \<open>\<open>N\<close> or \<open>N (P%)\<close>.\<close>

definition percent_text :: "string \<Rightarrow> bool" where
  "percent_text v =
     (has_prefix v ''('' \<and> has_suffix v ''%)'' \<and> 3 \<le> length v \<and>
      decimal_number (take (length v - 3) (drop 1 v)))"

definition parse_count :: "string \<Rightarrow> (summary_problem, int) result" where
  "parse_count v =
     (case cut (CHR '' '') v of (n, rest, found) \<Rightarrow>
        if \<not> canonical_nat n \<or> (found \<and> \<not> percent_text rest) then Inl (Bad_count v)
        else of_option Integer_out_of_range (parse_int64 n))"

definition metric_value :: "string \<Rightarrow> string \<Rightarrow> string \<Rightarrow> string option" where
  "metric_value line0 name unit =
     (let line = trim_suffix line0 '' (including failures)'';
          try = (\<lambda>sep. if has_prefix line (name @ sep) \<and> has_suffix line ('' '' @ unit)
                       then Some (trim_suffix (trim_prefix line (name @ sep)) ('' '' @ unit)) else None)
      in case try '' = '' of Some v \<Rightarrow> Some v | None \<Rightarrow> try '': '')"

definition multiply_positive :: "int \<Rightarrow> int \<Rightarrow> int option" where
  "multiply_positive left right =
     (if left \<le> 0 \<or> right \<le> 0 \<or> left > max_int64 div right then None else Some (left * right))"

definition decimal_places :: "string \<Rightarrow> nat" where
  "decimal_places v = (case cut (CHR ''.'') v of (a, b, found) \<Rightarrow> if found then length b else 0)"

subsection \<open>The parsed summary\<close>

record tps_observation =
  to_decimal_places :: nat
  to_qualifier :: string

record pgbench_result =
  pr_pgbench_version :: string
  pr_server_version :: string
  pr_transaction_type :: string
  pr_scale_factor :: int
  pr_query_mode :: string
  pr_mode :: string
  pr_clients :: int
  pr_threads :: int
  pr_maximum_tries :: int
  pr_duration_seconds :: "f64 option"
  pr_transactions_per_client :: "int option"
  pr_transactions_expected :: "int option"
  pr_transactions_processed :: int
  pr_transactions_failed :: int
  pr_serialization_failures :: "int option"
  pr_deadlock_failures :: "int option"
  pr_other_failures :: "int option"
  pr_transactions_skipped :: "int option"
  pr_transactions_retried :: "int option"
  pr_total_retries :: "int option"
  pr_latency_limit_ms :: "f64 option"
  pr_transactions_above_limit :: "int option"
  pr_latency_limit_total :: "int option"
  pr_latency_mean_ms :: f64
  pr_latency_stddev_ms :: "f64 option"
  pr_schedule_lag_average_ms :: "f64 option"
  pr_schedule_lag_max_ms :: "f64 option"
  pr_initial_connection_time_ms :: "f64 option"
  pr_average_connection_time_ms :: "f64 option"
  pr_tps_including_connections :: "f64 option"
  pr_tps_excluding_connections :: "f64 option"
  pr_latency_observation :: "nat option"
  pr_tps_including_observation :: "tps_observation option"
  pr_tps_excluding_observation :: "tps_observation option"

text \<open>The result and the fields seen: \<open>parsedSummary\<close>.\<close>

type_synonym parsed_summary = "pgbench_result \<times> string list"

definition empty_result :: pgbench_result where
  "empty_result =
     \<lparr>pr_pgbench_version = [], pr_server_version = [], pr_transaction_type = [], pr_scale_factor = 0,
      pr_query_mode = [], pr_mode = [], pr_clients = 0, pr_threads = 0, pr_maximum_tries = 0,
      pr_duration_seconds = None, pr_transactions_per_client = None, pr_transactions_expected = None,
      pr_transactions_processed = 0, pr_transactions_failed = 0, pr_serialization_failures = None,
      pr_deadlock_failures = None, pr_other_failures = None, pr_transactions_skipped = None,
      pr_transactions_retried = None, pr_total_retries = None, pr_latency_limit_ms = None,
      pr_transactions_above_limit = None, pr_latency_limit_total = None, pr_latency_mean_ms = Fin 0,
      pr_latency_stddev_ms = None, pr_schedule_lag_average_ms = None, pr_schedule_lag_max_ms = None,
      pr_initial_connection_time_ms = None, pr_average_connection_time_ms = None,
      pr_tps_including_connections = None, pr_tps_excluding_connections = None,
      pr_latency_observation = None, pr_tps_including_observation = None,
      pr_tps_excluding_observation = None\<rparr>"

definition mark :: "string \<Rightarrow> nat \<Rightarrow> parsed_summary \<Rightarrow> (summary_error, parsed_summary) result" where
  "mark field line p =
     (if field \<in> set (snd p) then Inl (summary_error line field Duplicate_field)
      else Inr (fst p, field # snd p))"

definition with_line :: "nat \<Rightarrow> string \<Rightarrow> (summary_problem, 'a) result \<Rightarrow> (summary_error, 'a) result" where
  "with_line line field r =
     (case r of Inl problem \<Rightarrow> Inl (summary_error line field problem) | Inr x \<Rightarrow> Inr x)"

subsection \<open>Lines\<close>

type_synonym field_parser = "string \<Rightarrow> pgbench_result \<Rightarrow> (summary_problem, pgbench_result) result"

definition parsed_as ::
  "(string \<Rightarrow> (summary_problem, 'a) result) \<Rightarrow> ('a \<Rightarrow> pgbench_result \<Rightarrow> pgbench_result) \<Rightarrow> field_parser" where
  "parsed_as parser store v r = bind_r (parser v) (\<lambda>x. Inr (store x r))"

definition parse_seconds :: "string \<Rightarrow> (summary_problem, f64) result" where
  "parse_seconds v =
     (if \<not> has_suffix v '' s'' then Inl No_seconds_suffix
      else bind_r (parse_positive_int (trim_suffix v '' s'')) (\<lambda>n. Inr (f_of_int n)))"

definition parse_query_mode :: "string \<Rightarrow> (summary_problem, string) result" where
  "parse_query_mode v =
     (if v = ''simple'' \<or> v = ''extended'' \<or> v = ''prepared'' then Inr v else Inl (Unsupported_query_mode v))"

definition colon_fields :: "(string \<times> string \<times> field_parser) list" where
  "colon_fields =
     [(''transaction type: '', ''transaction_type'',
       parsed_as (\<lambda>v. if v = [] then Inl Empty_value else Inr v) (\<lambda>x r. r\<lparr>pr_transaction_type := x\<rparr>)),
      (''scaling factor: '', ''scale_factor'', parsed_as parse_positive_int (\<lambda>x r. r\<lparr>pr_scale_factor := x\<rparr>)),
      (''query mode: '', ''query_mode'', parsed_as parse_query_mode (\<lambda>x r. r\<lparr>pr_query_mode := x\<rparr>)),
      (''number of clients: '', ''clients'', parsed_as parse_positive_int (\<lambda>x r. r\<lparr>pr_clients := x\<rparr>)),
      (''number of threads: '', ''threads'', parsed_as parse_positive_int (\<lambda>x r. r\<lparr>pr_threads := x\<rparr>)),
      (''maximum number of tries: '', ''maximum_tries'',
       parsed_as parse_nonnegative_int (\<lambda>x r. r\<lparr>pr_maximum_tries := x\<rparr>)),
      (''duration: '', ''duration_seconds'', parsed_as parse_seconds (\<lambda>x r. r\<lparr>pr_duration_seconds := Some x\<rparr>)),
      (''number of transactions per client: '', ''transactions_per_client'',
       parsed_as parse_positive_int (\<lambda>x r. r\<lparr>pr_transactions_per_client := Some x\<rparr>)),
      (''number of transactions actually processed: '', ''transactions_processed'',
       parsed_as parse_processed (\<lambda>(n, e) r. r\<lparr>pr_transactions_processed := n, pr_transactions_expected := e\<rparr>)),
      (''number of failed transactions: '', ''transactions_failed'',
       parsed_as parse_count (\<lambda>x r. r\<lparr>pr_transactions_failed := x\<rparr>)),
      (''number of serialization failures: '', ''serialization_failures'',
       parsed_as parse_count (\<lambda>x r. r\<lparr>pr_serialization_failures := Some x\<rparr>)),
      (''number of deadlock failures: '', ''deadlock_failures'',
       parsed_as parse_count (\<lambda>x r. r\<lparr>pr_deadlock_failures := Some x\<rparr>)),
      (''number of other failures: '', ''other_failures'',
       parsed_as parse_count (\<lambda>x r. r\<lparr>pr_other_failures := Some x\<rparr>)),
      (''number of transactions skipped: '', ''transactions_skipped'',
       parsed_as parse_count (\<lambda>x r. r\<lparr>pr_transactions_skipped := Some x\<rparr>)),
      (''number of transactions retried: '', ''transactions_retried'',
       parsed_as parse_count (\<lambda>x r. r\<lparr>pr_transactions_retried := Some x\<rparr>)),
      (''total number of retries: '', ''total_retries'',
       parsed_as parse_nonnegative_int (\<lambda>x r. r\<lparr>pr_total_retries := Some x\<rparr>))]"

definition parse_colon_field ::
  "nat \<Rightarrow> string \<Rightarrow> parsed_summary \<Rightarrow> (summary_error, parsed_summary) result option" where
  "parse_colon_field number line p =
     (case find (\<lambda>(prefix, field, parser). has_prefix line prefix) colon_fields of
        None \<Rightarrow> None
      | Some (prefix, field, parser) \<Rightarrow>
        Some (bind_r (mark field number p) (\<lambda>(r, seen).
          bind_r (with_line number field (parser (trim_space (trim_prefix line prefix)) r)) (\<lambda>r'.
            Inr (r', seen)))))"

text \<open>The millisecond metrics; each store also receives the text, for its printed precision.\<close>

definition metric_fields :: "(string \<times> string \<times> (f64 \<Rightarrow> string \<Rightarrow> pgbench_result \<Rightarrow> pgbench_result)) list" where
  "metric_fields =
     [(''latency average'', ''latency_mean_ms'',
       (\<lambda>x text r. r\<lparr>pr_latency_mean_ms := x, pr_latency_observation := Some (decimal_places text)\<rparr>)),
      (''latency stddev'', ''latency_stddev_ms'', (\<lambda>x text r. r\<lparr>pr_latency_stddev_ms := Some x\<rparr>)),
      (''initial connection time'', ''initial_connection_time_ms'',
       (\<lambda>x text r. r\<lparr>pr_initial_connection_time_ms := Some x\<rparr>)),
      (''average connection time'', ''average_connection_time_ms'',
       (\<lambda>x text r. r\<lparr>pr_average_connection_time_ms := Some x\<rparr>))]"

definition parse_metric_field ::
  "nat \<Rightarrow> string \<Rightarrow> parsed_summary \<Rightarrow> (summary_error, parsed_summary) result option" where
  "parse_metric_field number line p =
     (case find (\<lambda>(name, field, store). metric_value line name ''ms'' \<noteq> None) metric_fields of
        None \<Rightarrow> None
      | Some (name, field, store) \<Rightarrow>
        let v = the (metric_value line name ''ms'')
        in Some (bind_r (mark field number p) (\<lambda>(r, seen).
             bind_r (with_line number field (parse_nonnegative_float v)) (\<lambda>x. Inr (store x v r, seen)))))"

definition parse_tps :: "nat \<Rightarrow> string \<Rightarrow> parsed_summary \<Rightarrow> (summary_error, parsed_summary) result" where
  "parse_tps number v p =
     (let bad = (\<lambda>problem. Inl (summary_error number ''tps'' problem))
      in case split_at_last '' ('' v of
           None \<Rightarrow> bad Missing_qualifier
         | Some (number_part, rest) \<Rightarrow>
           if \<not> has_suffix v '')'' then bad Missing_qualifier
           else
             let number_text = trim_space number_part;
                 qualifier = butlast rest;
                 observation = \<lparr>to_decimal_places = decimal_places number_text, to_qualifier = qualifier\<rparr>
             in bind_r (with_line number ''tps'' (parse_positive_float number_text)) (\<lambda>x.
                  if qualifier = ''including connections establishing'' \<or>
                     qualifier = ''including reconnection times'' then
                    bind_r (mark ''tps_including_connections'' number p) (\<lambda>(r, seen).
                      Inr (r\<lparr>pr_tps_including_connections := Some x,
                             pr_tps_including_observation := Some observation\<rparr>, seen))
                  else if qualifier = ''excluding connections establishing'' \<or>
                     qualifier = ''without initial connection time'' then
                    bind_r (mark ''tps_excluding_connections'' number p) (\<lambda>(r, seen).
                      Inr (r\<lparr>pr_tps_excluding_connections := Some x,
                             pr_tps_excluding_observation := Some observation\<rparr>, seen))
                  else bad (Unsupported_qualifier qualifier)))"

text \<open>\<open>LIMIT ms latency limit: A/B (P%)\<close>, with an optional blank before the percent sign.\<close>

definition latency_limit_parts :: "string \<Rightarrow> (string \<times> string \<times> string) option" where
  "latency_limit_parts v =
     (case split_on (CHR '' '') v of
        limit # w1 # w2 # w3 # counts # percent \<Rightarrow>
          (case cut (CHR ''/'') counts of (late, bound, found) \<Rightarrow>
             if w1 = ''ms'' \<and> w2 = ''latency'' \<and> w3 = ''limit:'' \<and>
                decimal_number limit \<and> found \<and> canonical_nat late \<and> canonical_nat bound \<and>
                (case percent of
                   [p] \<Rightarrow> percent_text p
                 | [p, q] \<Rightarrow> q = ''%)'' \<and> has_prefix p ''('' \<and> decimal_number (drop 1 p)
                 | _ \<Rightarrow> False)
             then Some (limit, late, bound) else None)
      | _ \<Rightarrow> None)"

definition parse_latency_limit :: "nat \<Rightarrow> string \<Rightarrow> parsed_summary \<Rightarrow> (summary_error, parsed_summary) result" where
  "parse_latency_limit number v p =
     (case latency_limit_parts v of
        None \<Rightarrow> Inl (summary_error number ''transactions_above_latency_limit'' Malformed)
      | Some (limit_text, late_text, total_text) \<Rightarrow>
        bind_r (mark ''latency_limit'' number p) (\<lambda>(r, seen).
        bind_r (with_line number ''latency_limit_ms'' (parse_nonnegative_float limit_text)) (\<lambda>limit.
        bind_r (with_line number ''transactions_above_latency_limit'' (parse_nonnegative_int late_text)) (\<lambda>late.
        bind_r (with_line number ''latency_limit_total'' (parse_positive_int total_text)) (\<lambda>n.
        Inr (r\<lparr>pr_latency_limit_ms := Some limit, pr_transactions_above_limit := Some late,
               pr_latency_limit_total := Some n\<rparr>, seen))))))"

text \<open>\<open>avg X (max Y) ms\<close>.\<close>

definition schedule_lag_parts :: "string \<Rightarrow> (string \<times> string) option" where
  "schedule_lag_parts v =
     (case split_on (CHR '' '') v of
        [w1, average, w2, bounded, w3] \<Rightarrow>
          if w1 = ''avg'' \<and> w2 = ''(max'' \<and> w3 = ''ms'' \<and> decimal_number average \<and>
             has_suffix bounded '')'' \<and> decimal_number (butlast bounded)
          then Some (average, butlast bounded) else None
      | _ \<Rightarrow> None)"

definition parse_schedule_lag :: "nat \<Rightarrow> string \<Rightarrow> parsed_summary \<Rightarrow> (summary_error, parsed_summary) result" where
  "parse_schedule_lag number v p =
     (case schedule_lag_parts v of
        None \<Rightarrow> Inl (summary_error number ''schedule_lag'' Malformed)
      | Some (average_text, maximum_text) \<Rightarrow>
        bind_r (mark ''schedule_lag'' number p) (\<lambda>(r, seen).
        bind_r (with_line number ''schedule_lag_average_ms'' (parse_nonnegative_float average_text)) (\<lambda>average.
        bind_r (with_line number ''schedule_lag_max_ms'' (parse_nonnegative_float maximum_text)) (\<lambda>most.
        Inr (r\<lparr>pr_schedule_lag_average_ms := Some average, pr_schedule_lag_max_ms := Some most\<rparr>, seen)))))"

definition parse_summary_line ::
  "nat \<Rightarrow> string \<Rightarrow> parsed_summary \<Rightarrow> (summary_error, parsed_summary) result option" where
  "parse_summary_line number line p =
     (case parse_colon_field number line p of
        Some r \<Rightarrow> Some r
      | None \<Rightarrow>
        (case parse_metric_field number line p of
           Some r \<Rightarrow> Some r
         | None \<Rightarrow>
           if has_prefix line ''tps = '' then Some (parse_tps number (trim_prefix line ''tps = '') p)
           else if has_prefix line ''number of transactions above the ''
           then Some (parse_latency_limit number (trim_prefix line ''number of transactions above the '') p)
           else if has_prefix line ''rate limit schedule lag: ''
           then Some (parse_schedule_lag number (trim_prefix line ''rate limit schedule lag: '') p)
           else None))"

subsection \<open>Versions\<close>

definition version_digits :: "string \<Rightarrow> string" where
  "version_digits v = takeWhile is_digit v"

definition supported_major :: "string \<Rightarrow> (summary_problem, int) result" where
  "supported_major v =
     (let digits = version_digits v
      in if digits = [] \<or> hd digits = CHR ''0'' then Inl (No_major v)
         else case parse_int64 digits of
                None \<Rightarrow> Inl (Unsupported_major v)
              | Some n \<Rightarrow> if n < 15 \<or> n > 19 then Inl (Unsupported_major v) else Inr n)"

definition effective_server_major :: "pgbench_result \<Rightarrow> (summary_problem, string) result" where
  "effective_server_major r =
     bind_r (supported_major (if pr_server_version r = [] then pr_pgbench_version r else pr_server_version r))
       (\<lambda>n. Inr (show_int n))"

definition validate_server_major :: "pgbench_result \<Rightarrow> string \<Rightarrow> bool" where
  "validate_server_major r expected = (effective_server_major r = Inr expected)"

text \<open>\<open>pgbench (VERSION)\<close> or \<open>pgbench (VERSION, server VERSION)\<close>.\<close>

definition banner_text :: "string \<Rightarrow> string option" where
  "banner_text line =
     (if has_prefix line ''pgbench ('' \<and> has_suffix line '')'' \<and> 11 \<le> length line
      then Some (butlast (trim_prefix line ''pgbench ('')) else None)"

definition apply_banner :: "string \<Rightarrow> pgbench_result \<Rightarrow> pgbench_result" where
  "apply_banner inside r =
     (case split_at '', server '' inside of
        Some (a, b) \<Rightarrow> r\<lparr>pr_pgbench_version := trim_space a, pr_server_version := trim_space b\<rparr>
      | None \<Rightarrow> r\<lparr>pr_pgbench_version := trim_space inside\<rparr>)"

text \<open>The lines before the summary, from the nearest one backwards.\<close>

fun parse_nearest_banner :: "string list \<Rightarrow> pgbench_result \<Rightarrow> pgbench_result" where
  "parse_nearest_banner [] r = r"
| "parse_nearest_banner (l # ls) r =
     (let line = trim_space l
      in if has_prefix line ''transaction type:'' then r
         else case banner_text line of
                None \<Rightarrow> parse_nearest_banner ls r
              | Some inside \<Rightarrow> apply_banner inside r)"

subsection \<open>Completeness and consistency\<close>

definition optional_int :: "int option \<Rightarrow> int" where
  "optional_int v = (case v of None \<Rightarrow> 0 | Some n \<Rightarrow> n)"

definition required_fields :: "string list" where
  "required_fields =
     [''transaction_type'', ''scale_factor'', ''query_mode'', ''clients'', ''threads'',
      ''transactions_processed'', ''transactions_failed'', ''latency_mean_ms'']"

definition detailed_failures :: "pgbench_result \<Rightarrow> int" where
  "detailed_failures r =
     fold (\<lambda>c acc. case c of None \<Rightarrow> acc | Some n \<Rightarrow> add64 acc n)
       [pr_serialization_failures r, pr_deadlock_failures r, pr_other_failures r] 0"

definition problem :: "string \<Rightarrow> summary_problem \<Rightarrow> summary_error" where
  "problem field p = summary_error 0 field p"

definition validate_versions :: "pgbench_result \<Rightarrow> (summary_error, unit) result" where
  "validate_versions r =
     (if pr_pgbench_version r = [] then Inl (problem ''pgbench_version'' Missing_banner)
      else bind_r (with_line 0 ''pgbench_version'' (supported_major (pr_pgbench_version r))) (\<lambda>_.
        if pr_server_version r = [] then Inr ()
        else bind_r (with_line 0 ''server_version'' (effective_server_major r)) (\<lambda>_. Inr ())))"

definition validate_presence :: "string list \<Rightarrow> (summary_error, unit) result" where
  "validate_presence seen =
     (case find (\<lambda>f. f \<notin> set seen) required_fields of
        Some field \<Rightarrow> Inl (problem field Missing_field)
      | None \<Rightarrow>
        require (''tps_including_connections'' \<in> set seen \<or> ''tps_excluding_connections'' \<in> set seen)
          (problem ''tps'' Missing_field))"

definition derive_mode :: "string list \<Rightarrow> pgbench_result \<Rightarrow> (summary_error, pgbench_result) result" where
  "derive_mode seen r =
     (let has_duration = ''duration_seconds'' \<in> set seen;
          has_transactions = ''transactions_per_client'' \<in> set seen
      in if has_duration = has_transactions then Inl (problem ''mode'' Not_exactly_one_mode)
         else if has_duration then Inr (r\<lparr>pr_mode := ''time''\<rparr>)
         else case multiply_positive (pr_clients r) (the (pr_transactions_per_client r)) of
                None \<Rightarrow> Inl (problem ''transactions_expected'' Expected_overflow)
              | Some derived \<Rightarrow>
                (case pr_transactions_expected r of
                   None \<Rightarrow> Inr (r\<lparr>pr_mode := ''transactions'', pr_transactions_expected := Some derived\<rparr>)
                 | Some expected \<Rightarrow>
                   if expected \<noteq> derived then Inl (problem ''transactions_expected'' (Expected_mismatch expected derived))
                   else Inr (r\<lparr>pr_mode := ''transactions''\<rparr>)))"

definition validate_counts :: "pgbench_result \<Rightarrow> (summary_error, unit) result" where
  "validate_counts r =
     bind_r (require (0 < pr_transactions_processed r) (problem ''transactions_processed'' Processed_not_positive)) (\<lambda>_.
     bind_r (case pr_transactions_expected r of
               None \<Rightarrow> Inr ()
             | Some expected \<Rightarrow>
               if pr_transactions_processed r > expected
               then Inl (problem ''transactions_processed'' Processed_exceeds_expected)
               else if pr_transactions_failed r > sub64 expected (pr_transactions_processed r) \<or>
                 optional_int (pr_transactions_skipped r) >
                   sub64 (sub64 expected (pr_transactions_processed r)) (pr_transactions_failed r)
               then Inl (problem ''transaction_counts'' Counts_exceed_expected)
               else Inr ()) (\<lambda>_.
     bind_r (require (\<not> detailed_failures r > pr_transactions_failed r)
               (problem ''failure_breakdown'' Breakdown_exceeds_failed)) (\<lambda>_.
     bind_r (case pr_latency_limit_total r of
               None \<Rightarrow> Inr ()
             | Some bound \<Rightarrow>
               if the (pr_transactions_above_limit r) > bound
               then Inl (problem ''transactions_above_latency_limit'' Late_exceeds_total)
               else require (bound = pr_transactions_processed r) (problem ''latency_limit_total'' Total_not_processed)) (\<lambda>_.
     case pr_schedule_lag_average_ms r of
       None \<Rightarrow> Inr ()
     | Some average \<Rightarrow>
       require (\<not> f_less (the (pr_schedule_lag_max_ms r)) average) (problem ''schedule_lag'' Average_exceeds_maximum)))))"

definition validate_retries :: "string list \<Rightarrow> pgbench_result \<Rightarrow> (summary_error, pgbench_result) result" where
  "validate_retries seen r =
     (let has_retried = pr_transactions_retried r \<noteq> None;
          has_total = pr_total_retries r \<noteq> None
      in bind_r (require (has_retried = has_total) (problem ''retries'' Half_retry_fields)) (\<lambda>_.
         bind_r (if ''maximum_tries'' \<in> set seen then Inr r
                 else if \<not> has_retried then Inl (problem ''maximum_tries'' Missing_field)
                 else Inr (r\<lparr>pr_maximum_tries := 0\<rparr>)) (\<lambda>r'.
         bind_r (require (\<not> (pr_maximum_tries r' = 1 \<and> has_retried)) (problem ''retries'' Retries_with_one_try)) (\<lambda>_.
         bind_r (require (\<not> (pr_maximum_tries r' \<noteq> 1 \<and> \<not> has_retried)) (problem ''retries'' Retries_missing)) (\<lambda>_.
         bind_r (require (\<not> (has_retried \<and> has_total \<and>
                    the (pr_total_retries r') < the (pr_transactions_retried r')))
                  (problem ''total_retries'' Total_below_retried)) (\<lambda>_. Inr r'))))))"

definition validate_summary :: "parsed_summary \<Rightarrow> (summary_error, pgbench_result) result" where
  "validate_summary p =
     (case p of (r, seen) \<Rightarrow>
        bind_r (validate_versions r) (\<lambda>_.
        bind_r (validate_presence seen) (\<lambda>_.
        bind_r (derive_mode seen r) (\<lambda>r1.
        bind_r (validate_counts r1) (\<lambda>_. validate_retries seen r1)))))"

subsection \<open>The parser\<close>

definition is_report_terminator :: "string \<Rightarrow> bool" where
  "is_report_terminator line =
     (has_prefix line ''statement latencies in milliseconds'' \<or> has_prefix line ''SQL script '' \<or>
      line = ''script statistics:'')"

definition is_known_non_summary_line :: "string \<Rightarrow> bool" where
  "is_known_non_summary_line line =
     (has_prefix line ''progress: '' \<or> line = ''starting vacuum...end.'' \<or> has_prefix line ''pgbench ('')"

definition starts_summary :: "string \<Rightarrow> bool" where
  "starts_summary line = has_prefix (trim_space line) ''transaction type:''"

fun parse_summary_lines ::
  "bool \<Rightarrow> nat \<Rightarrow> string list \<Rightarrow> parsed_summary \<Rightarrow> (summary_error, parsed_summary) result" where
  "parse_summary_lines first number [] p = Inr p"
| "parse_summary_lines first number (l # ls) p =
     (let line = trim_space l
      in if line = [] then parse_summary_lines False (Suc number) ls p
         else if \<not> first \<and> has_prefix line ''transaction type:'' then Inl (summary_error number [] Nested_summary)
         else if is_report_terminator line then Inr p
         else if is_known_non_summary_line line then parse_summary_lines False (Suc number) ls p
         else case parse_summary_line number line p of
                None \<Rightarrow> Inl (summary_error number [] (Unknown_line line))
              | Some r \<Rightarrow> bind_r r (parse_summary_lines False (Suc number) ls))"

text \<open>The lines before the last start of a summary, and the lines from it on.\<close>

fun last_summary :: "string list \<Rightarrow> (string list \<times> string list) option" where
  "last_summary [] = None"
| "last_summary (l # ls) =
     (case last_summary ls of
        Some (before, rest) \<Rightarrow> Some (l # before, rest)
      | None \<Rightarrow> if starts_summary l then Some ([], l # ls) else None)"

datatype summary_failure = Unreadable | Rejected summary_error

definition parse_summary_text :: "string list \<Rightarrow> (summary_error, pgbench_result) result" where
  "parse_summary_text ls =
     (case last_summary ls of
        None \<Rightarrow> Inl (summary_error 0 [] No_summary)
      | Some (before, rest) \<Rightarrow>
        bind_r (parse_summary_lines True (length before + 1) rest
                  (parse_nearest_banner (rev before) empty_result, [])) validate_summary)"

definition parse_summary :: "string \<Rightarrow> (summary_failure, pgbench_result) result" where
  "parse_summary content =
     (case scan_lines 1048576 content of
        (ls, too_long) \<Rightarrow>
          if too_long then Inl Unreadable
          else case parse_summary_text (map (\<lambda>l. trim_suffix l [CHR 0x0D]) ls) of
                 Inl e \<Rightarrow> Inl (Rejected e) | Inr r \<Rightarrow> Inr r)"

subsection \<open>The numbers of a parsed summary\<close>

definition natural :: "int \<Rightarrow> bool" where
  "natural n = (0 \<le> n \<and> int64 n)"

definition natural_option :: "int option \<Rightarrow> bool" where
  "natural_option v = (case v of None \<Rightarrow> True | Some n \<Rightarrow> natural n)"

definition counts_natural :: "pgbench_result \<Rightarrow> bool" where
  "counts_natural r =
     (list_all natural [pr_scale_factor r, pr_clients r, pr_threads r, pr_maximum_tries r,
        pr_transactions_processed r, pr_transactions_failed r] \<and>
      list_all natural_option [pr_transactions_per_client r, pr_transactions_expected r,
        pr_serialization_failures r, pr_deadlock_failures r, pr_other_failures r,
        pr_transactions_skipped r, pr_transactions_retried r, pr_total_retries r,
        pr_transactions_above_limit r, pr_latency_limit_total r])"

lemma natural_option_simps [simp]:
  "natural_option None" "natural_option (Some n) = natural n"
  by (simp_all add: natural_option_def)

lemma parse_int64_natural: "canonical_nat v \<Longrightarrow> parse_int64 v = Some n \<Longrightarrow> natural n"
proof -
  assume c: "canonical_nat v" and p: "parse_int64 v = Some n"
  from c obtain k where "v = show_nat k" by (auto simp: canonical_nat_iff)
  with p have "n = int k" using parse_int64_digits[of v] by (auto split: if_splits)
  with parse_int64_int64[OF p] show "natural n" by (simp add: natural_def)
qed

lemma parse_int_natural:
  "parse_nonnegative_int v = Inr n \<Longrightarrow> natural n"
  "parse_positive_int v = Inr n \<Longrightarrow> natural n"
  "parse_count v = Inr n \<Longrightarrow> natural n"
  "parse_processed v = Inr (n, e) \<Longrightarrow> natural n \<and> natural_option e"
  using parse_int64_natural
  by (auto simp: parse_nonnegative_int_def parse_positive_int_def parse_count_def parse_processed_def result_simps
      split: if_splits prod.splits)

lemma with_line_Inr: "with_line n f r = Inr x \<longleftrightarrow> r = Inr x"
  by (simp add: with_line_def split: sum.splits)

lemma mark_Inr: "mark f n p = Inr q \<longleftrightarrow> f \<notin> set (snd p) \<and> q = (fst p, f # snd p)"
  by (auto simp: mark_def)

lemmas summary_simps = with_line_Inr mark_Inr bind_r_Inr case_prod_beta

definition keeps_counts :: "field_parser \<Rightarrow> bool" where
  "keeps_counts parser =
     (\<forall>v r r'. parser v r = Inr r' \<longrightarrow> counts_natural r \<longrightarrow> counts_natural r')"

lemma keeps_parsed_as:
  assumes "\<And>v x. parser v = Inr x \<Longrightarrow> good x" and "\<And>x r. good x \<Longrightarrow> counts_natural r \<Longrightarrow> counts_natural (store x r)"
  shows "keeps_counts (parsed_as parser store)"
  using assms by (auto simp: keeps_counts_def parsed_as_def bind_r_Inr)

lemma keeps_colon_fields: "list_all (\<lambda>(prefix, field, parser). keeps_counts parser) colon_fields"
proof -
  have int: "keeps_counts (parsed_as parse_nonnegative_int store)" "keeps_counts (parsed_as parse_positive_int store)"
    "keeps_counts (parsed_as parse_count store)"
    if "\<And>x r. natural x \<Longrightarrow> counts_natural r \<Longrightarrow> counts_natural (store x r)" for store
    using that parse_int_natural by (auto intro!: keeps_parsed_as[where good = natural])
  have processed: "keeps_counts (parsed_as parse_processed store)"
    if "\<And>n e r. natural n \<Longrightarrow> natural_option e \<Longrightarrow> counts_natural r \<Longrightarrow> counts_natural (store (n, e) r)" for store
    using that parse_int_natural(4) by (auto intro!: keeps_parsed_as[where good = "\<lambda>(n, e). natural n \<and> natural_option e"])
  have any: "keeps_counts (parsed_as parser store)"
    if "\<And>x r. counts_natural r \<Longrightarrow> counts_natural (store x r)" for parser :: "string \<Rightarrow> (summary_problem, 'b) result" and store
    using that by (auto intro!: keeps_parsed_as[where good = "\<lambda>_. True"])
  show ?thesis
    unfolding colon_fields_def list.pred_inject prod.case
    by (intro conjI int processed any TrueI) (simp_all add: counts_natural_def)
qed

lemma counts_natural_parse_colon:
  assumes "parse_colon_field n line p = Some (Inr p')" and "counts_natural (fst p)"
  shows "counts_natural (fst p')"
proof -
  obtain prefix field parser r where f: "find (\<lambda>(prefix, field, parser). has_prefix line prefix) colon_fields =
      Some (prefix, field, parser)" and r: "parser (trim_space (trim_prefix line prefix)) (fst p) = Inr (fst p')"
    using assms(1) by (auto simp: parse_colon_field_def summary_simps split: option.splits)
  from f have "(prefix, field, parser) \<in> set colon_fields"
    by (auto simp: find_Some_iff in_set_conv_nth)
  then have "keeps_counts parser" using keeps_colon_fields by (auto simp: list_all_iff)
  then show ?thesis using r assms(2) by (simp add: keeps_counts_def)
qed

lemma counts_natural_parse_metric:
  assumes "parse_metric_field n line p = Some (Inr p')" and "counts_natural (fst p)"
  shows "counts_natural (fst p')"
proof -
  have all: "list_all (\<lambda>(name, field, store). \<forall>x v r. counts_natural r \<longrightarrow> counts_natural (store x v r)) metric_fields"
    by (simp add: metric_fields_def counts_natural_def)
  obtain name field store x v where f: "find (\<lambda>(name, field, store). metric_value line name ''ms'' \<noteq> None) metric_fields =
      Some (name, field, store)" and r: "fst p' = store x v (fst p)"
    using assms(1) by (auto simp: parse_metric_field_def summary_simps Let_def split: option.splits)
  from f have "(name, field, store) \<in> set metric_fields"
    by (auto simp: find_Some_iff in_set_conv_nth)
  then show ?thesis using all r assms(2) by (auto simp: list_all_iff)
qed

lemma counts_natural_parse_tps:
  "parse_tps n v p = Inr p' \<Longrightarrow> counts_natural (fst p) \<Longrightarrow> counts_natural (fst p')"
  by (auto simp: parse_tps_def summary_simps counts_natural_def Let_def split: option.splits if_splits)

lemma counts_natural_parse_limit:
  assumes "parse_latency_limit n v p = Inr p'" and "counts_natural (fst p)"
  shows "counts_natural (fst p')"
proof -
  obtain late_text bound_text limit late bound where n: "parse_nonnegative_int late_text = Inr late"
    "parse_positive_int bound_text = Inr bound"
    and p: "p' = ((fst p)\<lparr>pr_latency_limit_ms := Some limit, pr_transactions_above_limit := Some late,
       pr_latency_limit_total := Some bound\<rparr>, ''latency_limit'' # snd p)"
    using assms(1) by (auto simp: parse_latency_limit_def summary_simps split: option.splits)
  have "natural late" "natural bound" using n parse_int_natural(1,2) by blast+
  with p have "natural late \<and> natural bound \<and> fst p' = (fst p)\<lparr>pr_latency_limit_ms := Some limit,
       pr_transactions_above_limit := Some late, pr_latency_limit_total := Some bound\<rparr>" by simp
  then show ?thesis using assms(2) by (simp add: counts_natural_def)
qed

lemma counts_natural_parse_lag:
  "parse_schedule_lag n v p = Inr p' \<Longrightarrow> counts_natural (fst p) \<Longrightarrow> counts_natural (fst p')"
  by (auto simp: parse_schedule_lag_def summary_simps counts_natural_def split: option.splits)

lemma counts_natural_line:
  "parse_summary_line n line p = Some (Inr p') \<Longrightarrow> counts_natural (fst p) \<Longrightarrow> counts_natural (fst p')"
  using counts_natural_parse_colon counts_natural_parse_metric counts_natural_parse_tps
    counts_natural_parse_limit counts_natural_parse_lag
  unfolding parse_summary_line_def by (auto split: option.splits if_splits)

lemma counts_natural_lines:
  "parse_summary_lines first n ls p = Inr p' \<Longrightarrow> counts_natural (fst p) \<Longrightarrow> counts_natural (fst p')"
proof (induction first n ls p rule: parse_summary_lines.induct)
  case (2 first number l ls p)
  then show ?case
    by (auto simp: Let_def result_simps split: if_splits option.splits dest: counts_natural_line)
qed simp

lemma counts_natural_banner:
  "counts_natural r \<Longrightarrow> counts_natural (parse_nearest_banner ls r)"
  by (induction ls r rule: parse_nearest_banner.induct)
     (auto simp: Let_def apply_banner_def counts_natural_def split: option.splits)

lemma counts_natural_empty: "counts_natural empty_result"
  by (simp add: counts_natural_def empty_result_def natural_def)

text \<open>A field that was marked was stored, and the fields of one line are stored together.\<close>

definition fields_marked :: "pgbench_result \<Rightarrow> string list \<Rightarrow> bool" where
  "fields_marked r seen =
     ((pr_duration_seconds r = None \<longleftrightarrow> ''duration_seconds'' \<notin> set seen) \<and>
      (pr_transactions_per_client r = None \<longleftrightarrow> ''transactions_per_client'' \<notin> set seen) \<and>
      (pr_tps_including_connections r = None \<longleftrightarrow> ''tps_including_connections'' \<notin> set seen) \<and>
      (pr_tps_excluding_connections r = None \<longleftrightarrow> ''tps_excluding_connections'' \<notin> set seen) \<and>
      (pr_transactions_above_limit r = None \<longleftrightarrow> pr_latency_limit_total r = None) \<and>
      (pr_schedule_lag_average_ms r = None \<longleftrightarrow> pr_schedule_lag_max_ms r = None))"

definition keeps_marks :: "string \<Rightarrow> field_parser \<Rightarrow> bool" where
  "keeps_marks field parser =
     (\<forall>v r r' seen. parser v r = Inr r' \<longrightarrow> fields_marked r seen \<longrightarrow> fields_marked r' (field # seen))"

lemma keeps_marks_parsed_as:
  assumes "\<And>x r seen. fields_marked r seen \<Longrightarrow> fields_marked (store x r) (field # seen)"
  shows "keeps_marks field (parsed_as parser store)"
  using assms by (auto simp: keeps_marks_def parsed_as_def bind_r_Inr)

lemma keeps_marks_fields: "list_all (\<lambda>(prefix, field, parser). keeps_marks field parser) colon_fields"
  unfolding colon_fields_def list.pred_inject prod.case
  by (intro conjI keeps_marks_parsed_as TrueI) (simp_all add: fields_marked_def split: prod.splits)

lemma marked_colon:
  assumes "parse_colon_field n line p = Some (Inr p')" and "fields_marked (fst p) (snd p)"
  shows "fields_marked (fst p') (snd p')"
proof -
  obtain prefix field parser where f: "find (\<lambda>(prefix, field, parser). has_prefix line prefix) colon_fields =
      Some (prefix, field, parser)" and r: "parser (trim_space (trim_prefix line prefix)) (fst p) = Inr (fst p')"
    and s: "snd p' = field # snd p"
    using assms(1) by (auto simp: parse_colon_field_def summary_simps split: option.splits)
  from f have "(prefix, field, parser) \<in> set colon_fields" by (auto simp: find_Some_iff in_set_conv_nth)
  then have "keeps_marks field parser" using keeps_marks_fields by (auto simp: list_all_iff)
  then show ?thesis using r assms(2) unfolding keeps_marks_def s by blast
qed

lemma marked_metric:
  assumes "parse_metric_field n line p = Some (Inr p')" and "fields_marked (fst p) (snd p)"
  shows "fields_marked (fst p') (snd p')"
proof -
  have all: "list_all (\<lambda>(name, field, store). \<forall>x v r seen. fields_marked r seen \<longrightarrow> fields_marked (store x v r) (field # seen)) metric_fields"
    by (simp add: metric_fields_def fields_marked_def)
  obtain name field store x v where f: "find (\<lambda>(name, field, store). metric_value line name ''ms'' \<noteq> None) metric_fields =
      Some (name, field, store)" and r: "fst p' = store x v (fst p)" "snd p' = field # snd p"
    using assms(1) by (auto simp: parse_metric_field_def summary_simps Let_def split: option.splits)
  from f have "(name, field, store) \<in> set metric_fields" by (auto simp: find_Some_iff in_set_conv_nth)
  then show ?thesis using all assms(2) unfolding r by (auto simp: list_all_iff)
qed

lemma marked_tps:
  assumes "parse_tps n v p = Inr p'" and m: "fields_marked (fst p) (snd p)"
  shows "fields_marked (fst p') (snd p')"
proof -
  consider x y where "p' = ((fst p)\<lparr>pr_tps_including_connections := Some x, pr_tps_including_observation := Some y\<rparr>,
      ''tps_including_connections'' # snd p)"
    | x y where "p' = ((fst p)\<lparr>pr_tps_excluding_connections := Some x, pr_tps_excluding_observation := Some y\<rparr>,
      ''tps_excluding_connections'' # snd p)"
    using assms(1) by (auto simp: parse_tps_def summary_simps Let_def split: option.splits if_splits)
  then show ?thesis using m by cases (simp_all add: fields_marked_def)
qed

lemma marked_limit:
  assumes "parse_latency_limit n v p = Inr p'" and m: "fields_marked (fst p) (snd p)"
  shows "fields_marked (fst p') (snd p')"
proof -
  obtain x y z where "p' = ((fst p)\<lparr>pr_latency_limit_ms := Some x, pr_transactions_above_limit := Some y,
      pr_latency_limit_total := Some z\<rparr>, ''latency_limit'' # snd p)"
    using assms(1) by (auto simp: parse_latency_limit_def summary_simps split: option.splits)
  then show ?thesis using m by (simp add: fields_marked_def)
qed

lemma marked_lag:
  assumes "parse_schedule_lag n v p = Inr p'" and m: "fields_marked (fst p) (snd p)"
  shows "fields_marked (fst p') (snd p')"
proof -
  obtain x y where "p' = ((fst p)\<lparr>pr_schedule_lag_average_ms := Some x, pr_schedule_lag_max_ms := Some y\<rparr>,
      ''schedule_lag'' # snd p)"
    using assms(1) by (auto simp: parse_schedule_lag_def summary_simps split: option.splits)
  then show ?thesis using m by (simp add: fields_marked_def)
qed

lemma marked_line:
  "parse_summary_line n line p = Some (Inr p') \<Longrightarrow> fields_marked (fst p) (snd p) \<Longrightarrow> fields_marked (fst p') (snd p')"
  using marked_colon marked_metric marked_tps marked_limit marked_lag
  unfolding parse_summary_line_def by (auto split: option.splits if_splits)

lemma marked_lines:
  "parse_summary_lines first n ls p = Inr p' \<Longrightarrow> fields_marked (fst p) (snd p) \<Longrightarrow> fields_marked (fst p') (snd p')"
proof (induction first n ls p rule: parse_summary_lines.induct)
  case (2 first number l ls p)
  then show ?case
    by (auto simp: Let_def result_simps split: if_splits option.splits dest: marked_line)
qed simp

lemma marked_banner: "fields_marked r seen \<Longrightarrow> fields_marked (parse_nearest_banner ls r) seen"
  by (induction ls r rule: parse_nearest_banner.induct)
     (simp_all add: Let_def apply_banner_def fields_marked_def split: option.splits)

lemma marked_empty: "fields_marked empty_result []"
  by (simp add: fields_marked_def empty_result_def)

lemma parse_summary_text_parts:
  assumes "parse_summary_text ls = Inr r"
  shows "\<exists>r0 seen. counts_natural r0 \<and> fields_marked r0 seen \<and> validate_summary (r0, seen) = Inr r"
proof -
  obtain before rest p where "last_summary ls = Some (before, rest)"
    and l: "parse_summary_lines True (length before + 1) rest (parse_nearest_banner (rev before) empty_result, []) = Inr p"
    and v: "validate_summary p = Inr r"
    using assms by (auto simp: parse_summary_text_def bind_r_Inr split: option.splits)
  have "counts_natural (fst p)"
    using counts_natural_lines[OF l] counts_natural_banner[OF counts_natural_empty] by simp
  moreover have "fields_marked (fst p) (snd p)"
    using marked_lines[OF l] marked_banner[OF marked_empty] by simp
  ultimately show ?thesis using v by (metis prod.collapse)
qed

lemma multiply_positive_Some:
  assumes "multiply_positive a b = Some c"
  shows "c = a * b \<and> natural c"
proof -
  have p: "0 < a" "0 < b" "a \<le> max_int64 div b" "c = a * b"
    using assms by (auto simp: multiply_positive_def split: if_splits)
  have "max_int64 div b * b \<le> max_int64"
    using div_mult_mod_eq[of max_int64 b] pos_mod_sign[OF p(2), of max_int64] by linarith
  then have "a * b \<le> max_int64"
    using mult_right_mono[of a "max_int64 div b" b] p by linarith
  moreover have "0 \<le> a * b" using p by simp
  ultimately show ?thesis using p(4) unfolding natural_def int64_def min_int64_def by linarith
qed

lemma derive_mode_cases:
  assumes "derive_mode seen r0 = Inr r1"
  obtains "''duration_seconds'' \<in> set seen" "''transactions_per_client'' \<notin> set seen" "r1 = r0\<lparr>pr_mode := ''time''\<rparr>"
    | derived where "''duration_seconds'' \<notin> set seen" "''transactions_per_client'' \<in> set seen"
        "multiply_positive (pr_clients r0) (the (pr_transactions_per_client r0)) = Some derived"
        "r1 = r0\<lparr>pr_mode := ''transactions'', pr_transactions_expected := Some derived\<rparr>"
proof -
  consider "''duration_seconds'' \<in> set seen" "''transactions_per_client'' \<notin> set seen" "r1 = r0\<lparr>pr_mode := ''time''\<rparr>"
    | derived where "''duration_seconds'' \<notin> set seen" "''transactions_per_client'' \<in> set seen"
        "multiply_positive (pr_clients r0) (the (pr_transactions_per_client r0)) = Some derived"
        "r1 = r0\<lparr>pr_mode := ''transactions'', pr_transactions_expected := Some derived\<rparr>"
    | derived where "''duration_seconds'' \<notin> set seen" "''transactions_per_client'' \<in> set seen"
        "multiply_positive (pr_clients r0) (the (pr_transactions_per_client r0)) = Some derived"
        "pr_transactions_expected r0 = Some derived" "r1 = r0\<lparr>pr_mode := ''transactions''\<rparr>"
    using assms unfolding derive_mode_def Let_def by (auto split: if_splits option.splits)
  then show ?thesis
  proof cases
    case (3 derived)
    then have "r1 = r0\<lparr>pr_mode := ''transactions'', pr_transactions_expected := Some derived\<rparr>" by simp
    then show ?thesis using that(2) 3(1-3) by blast
  qed (use that in blast)+
qed

lemma derive_mode_Inr:
  assumes "derive_mode seen r0 = Inr r1" and "counts_natural r0" and "fields_marked r0 seen"
  shows "(pr_mode r1 = ''time'' \<and> pr_duration_seconds r1 \<noteq> None \<and> pr_transactions_per_client r1 = None \<or>
      pr_mode r1 = ''transactions'' \<and> pr_duration_seconds r1 = None \<and>
      (\<exists>n. pr_transactions_per_client r1 = Some n \<and> pr_transactions_expected r1 = Some (pr_clients r1 * n))) \<and>
    counts_natural r1 \<and> fields_marked r1 seen"
  using assms(1)
proof (cases rule: derive_mode_cases)
  case 1
  then show ?thesis using assms(2,3) by (simp add: counts_natural_def fields_marked_def)
next
  case (2 derived)
  note m = multiply_positive_Some[OF 2(3)]
  obtain n where "pr_transactions_per_client r0 = Some n" using assms(3) 2(2) by (auto simp: fields_marked_def)
  moreover have "natural derived" "derived = pr_clients r0 * the (pr_transactions_per_client r0)" using m by blast+
  ultimately show ?thesis using 2(1,2,4) assms(2,3) by (simp add: counts_natural_def fields_marked_def)
qed

text \<open>The sum of the failures by kind, where it does not wrap.\<close>

lemma detailed_failures_exact:
  assumes "counts_natural r"
    and "optional_int (pr_serialization_failures r) + optional_int (pr_deadlock_failures r) + optional_int (pr_other_failures r) \<le> max_int64"
  shows "detailed_failures r =
    optional_int (pr_serialization_failures r) + optional_int (pr_deadlock_failures r) + optional_int (pr_other_failures r)"
proof -
  have "natural_option (pr_serialization_failures r)" "natural_option (pr_deadlock_failures r)" "natural_option (pr_other_failures r)"
    using assms(1) by (simp_all add: counts_natural_def)
  then show ?thesis using assms(2)
    by (auto simp: detailed_failures_def optional_int_def natural_option_def natural_def add64_exact int64_def min_int64_def
        split: option.splits)
qed

lemma validate_retries_Inr:
  assumes "validate_retries seen r1 = Inr r"
  shows "(pr_transactions_retried r = None \<longleftrightarrow> pr_total_retries r = None) \<and>
    (pr_maximum_tries r = 1 \<longleftrightarrow> pr_transactions_retried r = None) \<and>
    (\<forall>n t. pr_transactions_retried r = Some n \<longrightarrow> pr_total_retries r = Some t \<longrightarrow> n \<le> t) \<and>
    (r = r1 \<or> r = r1\<lparr>pr_maximum_tries := 0\<rparr>)"
  using assms by (auto simp: validate_retries_def Let_def bind_r_Inr require_Inr split: if_splits)

lemma validate_counts_Inr:
  assumes "validate_counts r = Inr u" and "counts_natural r"
  shows "0 < pr_transactions_processed r \<and>
    (\<forall>e. pr_transactions_expected r = Some e \<longrightarrow>
       pr_transactions_processed r + pr_transactions_failed r + optional_int (pr_transactions_skipped r) \<le> e) \<and>
    (\<forall>t. pr_latency_limit_total r = Some t \<longrightarrow> t = pr_transactions_processed r \<and>
       the (pr_transactions_above_limit r) \<le> t)"
proof -
  have n: "natural (pr_transactions_processed r)" "natural (pr_transactions_failed r)"
    "natural_option (pr_transactions_expected r)"
    using assms(2) by (auto simp: counts_natural_def)
  have s: "sub64 a b = a - b" if "natural a" "natural b" for a b
    using that by (intro sub64_exact) (auto simp: natural_def int64_def min_int64_def max_int64_def)
  have s2: "natural (a - b)" if "natural a" "natural b" "b \<le> a" for a b
    using that by (auto simp: natural_def int64_def min_int64_def max_int64_def)
  show ?thesis
    using assms(1) n s s2
    by (auto simp: validate_counts_def bind_r_Inr require_Inr not_less split: option.splits if_splits)
qed

lemma validate_counts_breakdown:
  assumes "validate_counts r = Inr u"
  shows "detailed_failures r \<le> pr_transactions_failed r \<and>
    (\<forall>x. pr_schedule_lag_average_ms r = Some x \<longrightarrow> \<not> f_less (the (pr_schedule_lag_max_ms r)) x)"
  using assms by (simp add: validate_counts_def bind_r_Inr require_Inr not_less split: option.splits)

subsection \<open>Properties of the summary parser\<close>

text \<open>C21: An accepted summary is consistent. A positive number of transactions was processed. The mode is one of two: by
  time, with a duration and no transactions per client, or by transactions, with no duration and a target of clients
  times transactions per client. When a target is known, processed, failed and skipped transactions do not exceed it
  (without wrap-around), and the failures by kind do not exceed the failed transactions, as long as their own sum fits
  in 64 bits. Retried transactions and total retries are present together, exactly when more than one try is allowed,
  and the total is not smaller. The late transactions come with the denominator of the latency limit, which is the number
  of processed transactions, and do not exceed it, and the schedule lag comes with its maximum, which its average does
  not exceed. Some throughput was reported.\<close>

theorem accepted_summary_is_consistent:
  assumes "parse_summary_text ls = Inr r"
  shows "0 < pr_transactions_processed r \<and>
    (pr_mode r = ''time'' \<and> pr_duration_seconds r \<noteq> None \<and> pr_transactions_per_client r = None \<or>
     pr_mode r = ''transactions'' \<and> pr_duration_seconds r = None \<and>
     (\<exists>n. pr_transactions_per_client r = Some n \<and> pr_transactions_expected r = Some (pr_clients r * n))) \<and>
    (\<forall>e. pr_transactions_expected r = Some e \<longrightarrow>
       pr_transactions_processed r + pr_transactions_failed r + optional_int (pr_transactions_skipped r) \<le> e) \<and>
    (optional_int (pr_serialization_failures r) + optional_int (pr_deadlock_failures r) + optional_int (pr_other_failures r)
         \<le> max_int64 \<longrightarrow>
       optional_int (pr_serialization_failures r) + optional_int (pr_deadlock_failures r) + optional_int (pr_other_failures r)
         \<le> pr_transactions_failed r) \<and>
    (pr_transactions_retried r = None \<longleftrightarrow> pr_total_retries r = None) \<and>
    (pr_maximum_tries r = 1 \<longleftrightarrow> pr_transactions_retried r = None) \<and>
    (\<forall>n t. pr_transactions_retried r = Some n \<longrightarrow> pr_total_retries r = Some t \<longrightarrow> n \<le> t) \<and>
    (pr_latency_limit_total r = None \<longleftrightarrow> pr_transactions_above_limit r = None) \<and>
    (\<forall>t. pr_latency_limit_total r = Some t \<longrightarrow> t = pr_transactions_processed r) \<and>
    (\<forall>n. pr_transactions_above_limit r = Some n \<longrightarrow> n \<le> pr_transactions_processed r) \<and>
    (pr_schedule_lag_average_ms r = None \<longleftrightarrow> pr_schedule_lag_max_ms r = None) \<and>
    (\<forall>x y. pr_schedule_lag_average_ms r = Some x \<longrightarrow> pr_schedule_lag_max_ms r = Some y \<longrightarrow> \<not> f_less y x) \<and>
    (pr_tps_including_connections r \<noteq> None \<or> pr_tps_excluding_connections r \<noteq> None)"
proof -
  obtain r0 seen where c: "counts_natural r0" "fields_marked r0 seen" and v: "validate_summary (r0, seen) = Inr r"
    using parse_summary_text_parts[OF assms] by blast
  obtain r1 where d: "derive_mode seen r0 = Inr r1" and n: "validate_counts r1 = Inr ()"
    and t: "validate_retries seen r1 = Inr r" and p: "validate_presence seen = Inr ()"
    using v by (auto simp: validate_summary_def bind_r_Inr)
  note m = derive_mode_Inr[OF d c]
  have same: "pr_transactions_processed r = pr_transactions_processed r1" "pr_mode r = pr_mode r1"
    "pr_transactions_expected r = pr_transactions_expected r1" "pr_clients r = pr_clients r1"
    "pr_transactions_per_client r = pr_transactions_per_client r1" "pr_duration_seconds r = pr_duration_seconds r1"
    "pr_transactions_failed r = pr_transactions_failed r1" "pr_transactions_skipped r = pr_transactions_skipped r1"
    "pr_latency_limit_total r = pr_latency_limit_total r1" "pr_transactions_above_limit r = pr_transactions_above_limit r1"
    "pr_schedule_lag_average_ms r = pr_schedule_lag_average_ms r1" "pr_schedule_lag_max_ms r = pr_schedule_lag_max_ms r1"
    "pr_tps_including_connections r = pr_tps_including_connections r1" "pr_tps_excluding_connections r = pr_tps_excluding_connections r1"
    "pr_serialization_failures r = pr_serialization_failures r1" "pr_deadlock_failures r = pr_deadlock_failures r1"
    "pr_other_failures r = pr_other_failures r1"
    using validate_retries_Inr[OF t] by auto
  have natural: "counts_natural r1" and marks: "fields_marked r1 seen" using m by blast+
  note counts = validate_counts_Inr[OF n natural]
  have late: "n \<le> pr_transactions_processed r1" if "pr_transactions_above_limit r1 = Some n" for n
    using that marks counts by (auto simp: fields_marked_def)
  have lag: "\<not> f_less y x" if "pr_schedule_lag_average_ms r1 = Some x" "pr_schedule_lag_max_ms r1 = Some y" for x y
    using that validate_counts_breakdown[OF n] by simp
  have tps: "pr_tps_including_connections r1 \<noteq> None \<or> pr_tps_excluding_connections r1 \<noteq> None"
    using p marks by (auto simp: validate_presence_def require_Inr fields_marked_def split: option.splits)
  have twins: "pr_latency_limit_total r1 = None \<longleftrightarrow> pr_transactions_above_limit r1 = None"
    "pr_schedule_lag_average_ms r1 = None \<longleftrightarrow> pr_schedule_lag_max_ms r1 = None"
    using marks unfolding fields_marked_def by blast+
  have kinds: "optional_int (pr_serialization_failures r1) + optional_int (pr_deadlock_failures r1) + optional_int (pr_other_failures r1)
       \<le> pr_transactions_failed r1"
    if "optional_int (pr_serialization_failures r1) + optional_int (pr_deadlock_failures r1) + optional_int (pr_other_failures r1) \<le> max_int64"
    using detailed_failures_exact[OF natural that] validate_counts_breakdown[OF n] by linarith
  show ?thesis
    using m counts validate_retries_Inr[OF t] late lag tps twins kinds unfolding same by blast
qed

subsection \<open>The last summary wins\<close>

definition success :: "('e, 'a) result \<Rightarrow> 'a option" where
  "success r = (case r of Inl e \<Rightarrow> None | Inr x \<Rightarrow> Some x)"

lemma success_simps [simp]: "success (Inl e) = None" "success (Inr x) = Some x"
  by (simp_all add: success_def)

lemma success_iff: "success r = Some x \<longleftrightarrow> r = Inr x"
  by (cases r) auto

lemma success_bind: "success (bind_r r f) = Option.bind (success r) (\<lambda>x. success (f x))"
  by (cases r) auto

lemma success_mark: "success (mark f n p) = success (mark f m p)"
  by (simp add: mark_def)

lemma success_with_line: "success (with_line n f r) = success r"
  by (cases r) (simp_all add: with_line_def)

lemma success_summary_line:
  "map_option success (parse_summary_line n line p) = map_option success (parse_summary_line m line p)"
proof -
  note s = success_bind success_mark[of _ n p m] success_with_line case_prod_beta
  have "map_option success (parse_colon_field n line p) = map_option success (parse_colon_field m line p)"
    by (simp add: parse_colon_field_def s split: option.splits)
  moreover have "map_option success (parse_metric_field n line p) = map_option success (parse_metric_field m line p)"
    by (simp add: parse_metric_field_def s Let_def split: option.splits)
  moreover have "success (parse_tps n v p) = success (parse_tps m v p)" for v
    by (auto simp: parse_tps_def s Let_def intro!: Option.bind_cong split: option.splits)
  moreover have "success (parse_latency_limit n v p) = success (parse_latency_limit m v p)" for v
    by (simp add: parse_latency_limit_def s split: option.splits)
  moreover have "success (parse_schedule_lag n v p) = success (parse_schedule_lag m v p)" for v
    by (simp add: parse_schedule_lag_def s split: option.splits)
  ultimately show ?thesis
    unfolding parse_summary_line_def by (auto split: option.splits)
qed

lemma success_summary_lines:
  "success (parse_summary_lines first n ls p) = success (parse_summary_lines first m ls p)"
proof (induction ls arbitrary: first n m p)
  case (Cons l ls)
  have r: "map_option success (parse_summary_line n (trim_space l) p) =
      map_option success (parse_summary_line m (trim_space l) p)"
    by (rule success_summary_line)
  show ?case
    using r Cons[where n = "Suc n" and m = "Suc m"]
    by (cases "parse_summary_line n (trim_space l) p"; cases "parse_summary_line m (trim_space l) p")
       (simp_all add: Let_def success_bind)
qed simp

lemma last_summary_append:
  "last_summary new = Some (before, rest) \<Longrightarrow> last_summary (old @ new) = Some (old @ before, rest)"
  by (induction old) auto

definition stops_banner_search :: "string \<Rightarrow> bool" where
  "stops_banner_search l = (starts_summary l \<or> banner_text (trim_space l) \<noteq> None)"

lemma parse_nearest_banner_append:
  "list_ex stops_banner_search ls \<Longrightarrow> parse_nearest_banner (ls @ ms) r = parse_nearest_banner ls r"
  by (induction ls) (auto simp: stops_banner_search_def starts_summary_def Let_def split: option.splits)

text \<open>The last summary wins: output printed before a complete run of pgbench (its banner and its summary),
  earlier results and their version banners included, has no influence on the parsed result.\<close>

theorem earlier_output_is_ignored:
  assumes "last_summary run = Some (before, rest)" and "list_ex stops_banner_search before"
  shows "parse_summary_text (earlier @ run) = Inr r \<longleftrightarrow> parse_summary_text run = Inr r"
proof -
  have b: "parse_nearest_banner (rev (earlier @ before)) empty_result = parse_nearest_banner (rev before) empty_result"
    using parse_nearest_banner_append[of "rev before" "rev earlier"] assms(2) by simp
  have "success (parse_summary_text (earlier @ run)) = success (parse_summary_text run)"
    unfolding parse_summary_text_def last_summary_append[OF assms(1)] assms(1) option.case prod.case b success_bind
    by (subst success_summary_lines[of True "length (earlier @ before) + 1" _ _ "length before + 1"]) (rule refl)
  then show ?thesis by (metis success_iff)
qed

theorem earlier_output_is_ignored_witness:
  "parse_summary_text ([''transaction type: old''] @ [''pgbench (16)'', ''transaction type: x'']) = Inr empty_result \<longleftrightarrow>
   parse_summary_text [''pgbench (16)'', ''transaction type: x''] = Inr empty_result"
proof (rule earlier_output_is_ignored)
  have "trim_space ''pgbench (16)'' = ''pgbench (16)''" "trim_space ''transaction type: x'' = ''transaction type: x''"
    by (simp_all add: trim_space_solid solid_def code_def)
  then show "last_summary [''pgbench (16)'', ''transaction type: x''] =
      Some ([''pgbench (16)''], [''transaction type: x''])"
    and "list_ex stops_banner_search [''pgbench (16)'']"
    by (simp_all add: starts_summary_def has_prefix_def stops_banner_search_def banner_text_def has_suffix_def)
qed

text \<open>
  The sum of the detailed failure counts is not guarded against overflow: two counts of
  \<open>2^63 - 1\<close> add up to \<open>-2\<close>, and the breakdown check accepts them against zero failures.
\<close>

lemma failure_breakdown_wraps:
  assumes "pr_serialization_failures r = Some max_int64" "pr_deadlock_failures r = Some max_int64"
    and "pr_other_failures r = None"
  shows "detailed_failures r = -2"
  using assms by (simp add: detailed_failures_def add64_def wrap64_def max_int64_def)

text \<open>The breakdown check can be passed by wrapped counts: a result that otherwise satisfies the count
  checks, with zero failed transactions but \<open>2^63 - 1\<close> serialization and as many deadlock failures, is
  accepted.\<close>

lemma failure_breakdown_check_overflows:
  "validate_counts (empty_result\<lparr>pr_transactions_processed := 1, pr_transactions_failed := 0,
     pr_serialization_failures := Some max_int64, pr_deadlock_failures := Some max_int64\<rparr>) = Inr ()"
  by (simp add: validate_counts_def require_def failure_breakdown_wraps empty_result_def)

lemmas summary_eval =
  parse_summary_line_def parse_colon_field_def parse_metric_field_def colon_fields_def metric_fields_def
  has_prefix_def has_suffix_def trim_prefix_def trim_suffix_def trim_space_solid solid_def code_def parsed_as_def with_line_def
  mark_def parse_count_def canonical_nat_def all_digits_def is_digit_def parse_int64_def nat_of_digits_def
  digit_val_def of_option_def int64_def min_int64_def max_int64_def parse_query_mode_def parse_seconds_def
  parse_positive_int_def parse_nonnegative_int_def parse_processed_def metric_value_def
  parse_nonnegative_float_def decimal_number_def decimal_value_def decimal_places_def Let_def
  parse_tps_def split_at_last_def parse_positive_float_def f_le_def

definition sample_run :: "string list" where
  "sample_run =
     [''pgbench (16)'', ''transaction type: x'', ''scaling factor: 1'', ''query mode: simple'',
      ''number of clients: 1'', ''number of threads: 1'', ''maximum number of tries: 1'', ''duration: 1 s'',
      ''number of transactions actually processed: 5'', ''number of failed transactions: 0'',
      ''latency average = 1 ms'', ''tps = 5 (without initial connection time)'']"

lemma sample_rounding: "rnd 1 = Fin 1" "rnd 5 = Fin 5"
  using rnd_exact[OF f_valid_small_int[of 1]] rnd_exact[OF f_valid_small_int[of 5]] by simp_all

lemma sample_lines:
  "''transaction_type'' \<notin> set seen \<Longrightarrow> parse_summary_line n ''transaction type: x'' (r, seen) =
     Some (Inr (r\<lparr>pr_transaction_type := ''x''\<rparr>, ''transaction_type'' # seen))"
  "''scale_factor'' \<notin> set seen \<Longrightarrow> parse_summary_line n ''scaling factor: 1'' (r, seen) =
     Some (Inr (r\<lparr>pr_scale_factor := 1\<rparr>, ''scale_factor'' # seen))"
  "''query_mode'' \<notin> set seen \<Longrightarrow> parse_summary_line n ''query mode: simple'' (r, seen) =
     Some (Inr (r\<lparr>pr_query_mode := ''simple''\<rparr>, ''query_mode'' # seen))"
  "''clients'' \<notin> set seen \<Longrightarrow> parse_summary_line n ''number of clients: 1'' (r, seen) =
     Some (Inr (r\<lparr>pr_clients := 1\<rparr>, ''clients'' # seen))"
  "''threads'' \<notin> set seen \<Longrightarrow> parse_summary_line n ''number of threads: 1'' (r, seen) =
     Some (Inr (r\<lparr>pr_threads := 1\<rparr>, ''threads'' # seen))"
  "''maximum_tries'' \<notin> set seen \<Longrightarrow> parse_summary_line n ''maximum number of tries: 1'' (r, seen) =
     Some (Inr (r\<lparr>pr_maximum_tries := 1\<rparr>, ''maximum_tries'' # seen))"
  "''duration_seconds'' \<notin> set seen \<Longrightarrow> parse_summary_line n ''duration: 1 s'' (r, seen) =
     Some (Inr (r\<lparr>pr_duration_seconds := Some (Fin 1)\<rparr>, ''duration_seconds'' # seen))"
  "''transactions_processed'' \<notin> set seen \<Longrightarrow> parse_summary_line n ''number of transactions actually processed: 5'' (r, seen) =
     Some (Inr (r\<lparr>pr_transactions_processed := 5, pr_transactions_expected := None\<rparr>, ''transactions_processed'' # seen))"
  "''transactions_failed'' \<notin> set seen \<Longrightarrow> parse_summary_line n ''number of failed transactions: 0'' (r, seen) =
     Some (Inr (r\<lparr>pr_transactions_failed := 0\<rparr>, ''transactions_failed'' # seen))"
  "''latency_mean_ms'' \<notin> set seen \<Longrightarrow> parse_summary_line n ''latency average = 1 ms'' (r, seen) =
     Some (Inr (r\<lparr>pr_latency_mean_ms := Fin 1, pr_latency_observation := Some 0\<rparr>, ''latency_mean_ms'' # seen))"
  "''tps_excluding_connections'' \<notin> set seen \<Longrightarrow> parse_summary_line n ''tps = 5 (without initial connection time)'' (r, seen) =
     Some (Inr (r\<lparr>pr_tps_excluding_connections := Some (Fin 5), pr_tps_excluding_observation := Some \<lparr>to_decimal_places = 0, to_qualifier = ''without initial connection time''\<rparr>\<rparr>, ''tps_excluding_connections'' # seen))"
  by (simp_all add: summary_eval sample_rounding f_of_int_def)


lemma sample_last: "last_summary sample_run = Some ([''pgbench (16)''], tl sample_run)"
  by (simp add: sample_run_def starts_summary_def has_prefix_def trim_space_solid solid_def code_def)

lemma sample_banner:
  "parse_nearest_banner [''pgbench (16)''] empty_result = empty_result\<lparr>pr_pgbench_version := ''16''\<rparr>"
  by (simp add: banner_text_def apply_banner_def has_prefix_def has_suffix_def trim_prefix_def
      trim_space_solid solid_def code_def Let_def)

lemma sample_step:
  assumes "trim_space l = l" "l \<noteq> []" "first \<or> \<not> has_prefix l ''transaction type:''"
    "\<not> is_report_terminator l" "\<not> is_known_non_summary_line l"
    "parse_summary_line n l p = Some (Inr q)"
  shows "parse_summary_lines first n (l # ls) p = parse_summary_lines False (Suc n) ls q"
  using assms by (auto simp: Let_def)

lemma sample_run_parses: "\<exists>r. parse_summary_text sample_run = Inr r"
proof -
  have t: "list_all (\<lambda>l. trim_space l = l \<and> l \<noteq> [] \<and> \<not> is_report_terminator l \<and> \<not> is_known_non_summary_line l)
      (tl sample_run)"
    by (simp add: sample_run_def trim_space_solid solid_def code_def is_report_terminator_def
        is_known_non_summary_line_def has_prefix_def)
  have s: "list_all (\<lambda>l. \<not> has_prefix l ''transaction type:'') (tl (tl sample_run))"
    by (simp add: sample_run_def has_prefix_def)
  obtain r seen where l: "parse_summary_lines True 2 (tl sample_run) (empty_result\<lparr>pr_pgbench_version := ''16''\<rparr>, []) =
      Inr (r, seen)" and r: "r = empty_result\<lparr>pr_pgbench_version := ''16'', pr_transaction_type := ''x'',
        pr_scale_factor := 1, pr_query_mode := ''simple'', pr_clients := 1, pr_threads := 1,
        pr_maximum_tries := 1, pr_duration_seconds := Some (Fin 1), pr_transactions_processed := 5,
        pr_transactions_expected := None, pr_transactions_failed := 0, pr_latency_mean_ms := Fin 1,
        pr_latency_observation := Some 0, pr_tps_excluding_connections := Some (Fin 5),
        pr_tps_excluding_observation :=
          Some \<lparr>to_decimal_places = 0, to_qualifier = ''without initial connection time''\<rparr>\<rparr>"
    and seen: "seen = [''tps_excluding_connections'', ''latency_mean_ms'', ''transactions_failed'',
        ''transactions_processed'', ''duration_seconds'', ''maximum_tries'', ''threads'', ''clients'',
        ''query_mode'', ''scale_factor'', ''transaction_type'']"
    using t s unfolding sample_run_def list.sel
    by (simp add: sample_step sample_lines del: parse_summary_lines.simps(2))
  have "validate_summary (r, seen) = Inr (r\<lparr>pr_mode := ''time''\<rparr>)"
    by (simp add: r seen validate_summary_def validate_versions_def supported_major_def version_digits_def
        is_digit_def code_def parse_int64_def has_prefix_def all_digits_def nat_of_digits_def digit_val_def
        int64_def min_int64_def max_int64_def with_line_def empty_result_def validate_presence_def
        required_fields_def require_def derive_mode_def validate_counts_def detailed_failures_def
        validate_retries_def Let_def)
  moreover have "length [''pgbench (16)''] + 1 = 2" by simp
  ultimately show ?thesis
    unfolding parse_summary_text_def sample_last option.case prod.case rev_singleton_conv[THEN iffD2, OF refl]
      sample_banner by (simp add: l[unfolded numeral_2_eq_2] del: parse_summary_lines.simps)
qed

theorem accepted_summary_is_consistent_witness:
  "\<exists>r :: pgbench_result. 0 < pr_transactions_processed r \<and> parse_summary_text sample_run = Inr r"
proof -
  obtain r where "parse_summary_text sample_run = Inr r" using sample_run_parses by blast
  with accepted_summary_is_consistent[OF this] show ?thesis by blast
qed

end
