(* ===== verification/PgbenchIntegrity.thy ===== *)
theory PgbenchIntegrity
  imports PgbenchSummary
begin

section \<open>Integrity of reported rates and latencies\<close>

text \<open>
  \<^verbatim>\<open>internal/pgbenchresult/integrity.go\<close>: every reported TPS value is bound to the processed
  transactions and the journaled measure duration, and the printed latency mean to the same driver window.
  Durations are nanoseconds.
\<close>

subsection \<open>Neighbouring floats, powers of ten, seconds\<close>

text \<open>\<open>math.Nextafter\<close> towards plus and minus infinity.\<close>

definition step_below :: "rat \<Rightarrow> rat" where
  "step_below a =
     (let e = floor_log2 a
      in if a = 2 powi e \<and> -1074 \<le> e - 53 then 2 powi (e - 53) else 2 powi ulp_exponent a)"

definition largest_finite :: rat where
  "largest_finite = (2 ^ 53 - 1) * 2 ^ 971"

fun next_up :: "f64 \<Rightarrow> f64" where
  "next_up (Fin x) =
     (if x = 0 then Fin (2 powi (-1074))
      else if 0 < x then (let y = x + 2 powi ulp_exponent x in if y \<ge> 2 ^ 1024 then Inf False else Fin y)
      else Fin (x + step_below (- x)))"
| "next_up (Inf negative) = (if negative then Fin (- largest_finite) else Inf False)"
| "next_up NaN = NaN"

definition next_down :: "f64 \<Rightarrow> f64" where
  "next_down x = f_neg (next_up (f_neg x))"

text \<open>\<open>math.Pow10(-n)\<close>: a table entry for the multiple of 32 divided by one for the rest.\<close>

definition pow10_neg :: "nat \<Rightarrow> f64" where
  "pow10_neg n =
     (if n > 323 then Fin 0 else f_div (rnd (1 / 10 ^ (32 * (n div 32)))) (rnd (10 ^ (n mod 32))))"

definition printed_half_unit :: "nat \<Rightarrow> f64" where
  "printed_half_unit places = f_mul (Fin (1 / 2)) (pow10_neg places)"

definition f_max :: "f64 \<Rightarrow> f64 \<Rightarrow> f64" where
  "f_max x y =
     (if x = Inf False \<or> y = Inf False then Inf False
      else if x = NaN \<or> y = NaN then NaN else if f_less y x then x else y)"

definition f_min :: "f64 \<Rightarrow> f64 \<Rightarrow> f64" where
  "f_min x y =
     (if x = Inf True \<or> y = Inf True then Inf True
      else if x = NaN \<or> y = NaN then NaN else if f_less x y then x else y)"

definition duration_seconds :: "int \<Rightarrow> f64" where
  "duration_seconds d =
     (let seconds = sgn d * (\<bar>d\<bar> div 1000000000); nanos = sgn d * (\<bar>d\<bar> mod 1000000000)
      in f_add (f_of_int seconds) (f_div (f_of_int nanos) (rnd 1000000000)))"

definition finite_positive :: "f64 \<Rightarrow> bool" where
  "finite_positive x = (f_finite x \<and> f_less (Fin 0) x)"

subsection \<open>Rates\<close>

datatype integrity_problem =
    No_measure_duration
  | No_processed_transactions
  | No_observation string
  | Invalid_rate
  | Unsupported_mode string
  | Rounding_not_positive
  | No_nominal_duration
  | No_window
  | Measure_outside f64 f64
  | Nominal_outside f64 f64
  | No_reported_rate
  | Excluding_below_including
  | No_latency_observation
  | Contradictory_rates
  | Mixed_qualifiers
  | Unsupported_rate_qualifier string
  | Historical_excluding_only
  | Count_overflow
  | No_positive_count
  | No_positive_intervals
  | Latency_inconsistent
  | Raw_mean_invalid
  | Raw_with_failures
  | Raw_mean_outside

definition timer_skew_fraction :: f64 where
  "timer_skew_fraction = rnd (1 / 1000)"

definition phase_boundary_fixed_seconds :: f64 where
  "phase_boundary_fixed_seconds = Fin (1 / 2)"

definition phase_boundary_fraction :: f64 where
  "phase_boundary_fraction = rnd (1 / 100)"

definition boundary_allowance :: "f64 \<Rightarrow> f64" where
  "boundary_allowance reference =
     f_add phase_boundary_fixed_seconds (f_mul reference phase_boundary_fraction)"

definition validate_measure_window :: "f64 \<Rightarrow> f64 \<Rightarrow> f64 \<Rightarrow> (integrity_problem, unit) result" where
  "validate_measure_window measured minimum maximum =
     (if \<not> finite_positive minimum \<or> \<not> finite_positive maximum \<or> f_less maximum minimum then Inl No_window
      else
        let reference = f_div (f_add minimum maximum) (Fin 2);
            skew = f_mul reference timer_skew_fraction;
            lower = f_sub minimum skew;
            upper = f_add (f_add maximum skew) (boundary_allowance reference)
        in if f_less measured lower \<or> f_less upper measured then Inl (Measure_outside lower upper) else Inr ())"

definition validate_nominal_window :: "f64 \<Rightarrow> f64 \<Rightarrow> f64 \<Rightarrow> (integrity_problem, unit) result" where
  "validate_nominal_window nominal minimum maximum =
     (if \<not> finite_positive nominal \<or> \<not> finite_positive minimum \<or> \<not> finite_positive maximum \<or>
         f_less maximum minimum then Inl No_window
      else
        let reference = f_div (f_add minimum maximum) (Fin 2);
            skew = f_mul reference timer_skew_fraction;
            boundary = boundary_allowance reference;
            lower = f_sub (f_sub minimum skew) boundary;
            upper = f_add (f_add maximum skew) boundary
        in if f_less nominal lower \<or> f_less upper nominal then Inl (Nominal_outside lower upper) else Inr ())"

definition connection_offset_seconds :: "pgbench_result \<Rightarrow> string \<Rightarrow> f64" where
  "connection_offset_seconds r qualifier =
     (if qualifier = ''excluding connections establishing'' \<or> qualifier = ''without initial connection time''
      then (case pr_initial_connection_time_ms r of
              Some t \<Rightarrow> if f_le (Fin 0) t then f_div t (rnd 1000) else Fin 0
            | None \<Rightarrow> Fin 0)
      else Fin 0)"

definition validate_tps_observation ::
  "pgbench_result \<Rightarrow> f64 \<Rightarrow> f64 \<Rightarrow> tps_observation \<Rightarrow> (integrity_problem, unit) result" where
  "validate_tps_observation r measured reported observation =
     (let half_unit = printed_half_unit (to_decimal_places observation);
          low = f_sub reported half_unit;
          high = f_add reported half_unit;
          processed = f_of_int (pr_transactions_processed r);
          driver_minimum = f_div processed high;
          driver_maximum = f_div processed low;
          offset = connection_offset_seconds r (to_qualifier observation)
      in if \<not> finite_positive reported then Inl Invalid_rate
         else if pr_mode r \<noteq> ''time'' \<and> pr_mode r \<noteq> ''transactions'' then Inl (Unsupported_mode (pr_mode r))
         else if \<not> finite_positive low \<or> \<not> finite_positive high then Inl Rounding_not_positive
         else
           bind_r (if pr_mode r = ''time'' then
                     (case pr_duration_seconds r of
                        None \<Rightarrow> Inl No_nominal_duration
                      | Some nominal \<Rightarrow>
                        if \<not> finite_positive nominal then Inl No_nominal_duration
                        else validate_nominal_window nominal driver_minimum driver_maximum)
                   else Inr ()) (\<lambda>_.
             validate_measure_window measured (f_add driver_minimum offset) (f_add driver_maximum offset)))"

definition reported_rate_issues ::
  "pgbench_result \<Rightarrow> f64 \<Rightarrow> string \<times> f64 option \<times> tps_observation option \<Rightarrow> integrity_problem list" where
  "reported_rate_issues r measured item =
     (case item of (label, reported, observation) \<Rightarrow>
        case reported of
          None \<Rightarrow> []
        | Some rate \<Rightarrow>
          (case observation of
             None \<Rightarrow> [No_observation label]
           | Some ob \<Rightarrow> (case validate_tps_observation r measured rate ob of Inl e \<Rightarrow> [e] | Inr _ \<Rightarrow> [])))"

definition reported_rates :: "pgbench_result \<Rightarrow> (string \<times> f64 option \<times> tps_observation option) list" where
  "reported_rates r =
     [(''including connections'', pr_tps_including_connections r, pr_tps_including_observation r),
      (''excluding connections'', pr_tps_excluding_connections r, pr_tps_excluding_observation r)]"

definition ordering_issues :: "pgbench_result \<Rightarrow> integrity_problem list" where
  "ordering_issues r =
     (case (pr_tps_including_connections r, pr_tps_excluding_connections r,
            pr_tps_including_observation r, pr_tps_excluding_observation r) of
        (Some including, Some excluding, Some oi, Some oe) \<Rightarrow>
          if f_less (f_add excluding (printed_half_unit (to_decimal_places oe)))
                    (f_sub including (printed_half_unit (to_decimal_places oi)))
          then [Excluding_below_including] else []
      | _ \<Rightarrow> [])"

text \<open>The issues that the error of \<open>ValidateTPSIntegrity\<close> joins; none means success.\<close>

definition validate_tps_integrity :: "pgbench_result \<Rightarrow> int \<Rightarrow> integrity_problem list" where
  "validate_tps_integrity r duration =
     (let measured = duration_seconds duration
      in if \<not> finite_positive measured then [No_measure_duration]
         else if pr_transactions_processed r \<le> 0 then [No_processed_transactions]
         else concat (map (reported_rate_issues r measured) (reported_rates r)) @
              (if list_all (\<lambda>(label, reported, observation). reported = None) (reported_rates r)
               then [No_reported_rate] else []) @
              ordering_issues r)"

subsection \<open>Latency\<close>

definition ordinary_latency_tps :: "pgbench_result \<Rightarrow> (integrity_problem, f64 \<times> nat) result" where
  "ordinary_latency_tps r =
     (case pr_tps_including_connections r of
        Some including \<Rightarrow>
          (case pr_tps_including_observation r of
             None \<Rightarrow> Inl (No_observation ''including connections'')
           | Some ob \<Rightarrow>
             if to_qualifier ob = ''including reconnection times'' then
               (if pr_tps_excluding_connections r \<noteq> None then Inl Contradictory_rates
                else Inr (including, to_decimal_places ob))
             else if to_qualifier ob = ''including connections establishing'' then
               (case pr_tps_excluding_observation r of
                  Some oe \<Rightarrow> if to_qualifier oe \<noteq> ''excluding connections establishing'' then Inl Mixed_qualifiers
                             else Inr (including, to_decimal_places ob)
                | None \<Rightarrow> Inr (including, to_decimal_places ob))
             else Inl (Unsupported_rate_qualifier (to_qualifier ob)))
      | None \<Rightarrow>
        (case pr_tps_excluding_connections r of
           None \<Rightarrow> Inl No_reported_rate
         | Some excluding \<Rightarrow>
           (case pr_tps_excluding_observation r of
              None \<Rightarrow> Inl (No_observation ''excluding connections'')
            | Some oe \<Rightarrow>
              if to_qualifier oe = ''without initial connection time'' then Inr (excluding, to_decimal_places oe)
              else if to_qualifier oe = ''excluding connections establishing'' then Inl Historical_excluding_only
              else Inl (Unsupported_rate_qualifier (to_qualifier oe)))))"

definition add_count :: "int \<Rightarrow> int \<Rightarrow> (integrity_problem, int) result" where
  "add_count total_count n =
     (if n < 0 \<or> total_count > sub64 max_int64 n then Inl Count_overflow else Inr (add64 total_count n))"

definition latency_denominator :: "pgbench_result \<Rightarrow> (integrity_problem, int) result" where
  "latency_denominator r =
     bind_r (fold_r add_count (pr_transactions_processed r)
               [pr_transactions_failed r, optional_int (pr_transactions_skipped r)]) (\<lambda>n.
       if n \<le> 0 then Inl No_positive_count else Inr n)"

record latency_intervals =
  li_printed_lower :: f64
  li_printed_upper :: f64
  li_global_lower :: f64
  li_global_upper :: f64

definition ordinary_latency_intervals :: "pgbench_result \<Rightarrow> (integrity_problem, latency_intervals) result" where
  "ordinary_latency_intervals r =
     (case pr_latency_observation r of
        None \<Rightarrow> Inl No_latency_observation
      | Some places \<Rightarrow>
        bind_r (ordinary_latency_tps r) (\<lambda>(reported, precision).
        bind_r (latency_denominator r) (\<lambda>n.
        let tps_half = printed_half_unit precision;
            tps_lower = f_sub reported tps_half;
            tps_upper = f_add reported tps_half;
            latency_half = printed_half_unit places;
            printed_lower = f_max (Fin 0) (f_sub (pr_latency_mean_ms r) latency_half);
            printed_upper = f_add (pr_latency_mean_ms r) latency_half;
            numerator = f_mul (f_mul (rnd 1000) (f_of_int (pr_clients r))) (f_of_int (pr_transactions_processed r))
        in if \<not> finite_positive tps_lower \<or> \<not> finite_positive tps_upper \<or> \<not> finite_positive (f_of_int n) \<or>
              pr_clients r \<le> 0 \<or> pr_transactions_processed r \<le> 0
           then Inl No_positive_intervals
           else Inr \<lparr>li_printed_lower = next_down printed_lower, li_printed_upper = next_up printed_upper,
                  li_global_lower = next_down (f_div numerator (f_mul tps_upper (f_of_int n))),
                  li_global_upper = next_up (f_div numerator (f_mul tps_lower (f_of_int n)))\<rparr>)))"

definition intervals_disjoint :: "latency_intervals \<Rightarrow> bool" where
  "intervals_disjoint i =
     f_less (f_min (li_global_upper i) (li_printed_upper i)) (f_max (li_global_lower i) (li_printed_lower i))"

definition detailed_summary :: "pgbench_result \<Rightarrow> bool" where
  "detailed_summary r =
     (pr_schedule_lag_average_ms r \<noteq> None \<or> pr_latency_limit_ms r \<noteq> None \<or> pr_latency_stddev_ms r \<noteq> None)"

definition validate_latency_integrity :: "pgbench_result \<Rightarrow> (integrity_problem, unit) result" where
  "validate_latency_integrity r =
     (if detailed_summary r then Inr ()
      else bind_r (ordinary_latency_intervals r) (\<lambda>i.
        if intervals_disjoint i then Inl Latency_inconsistent else Inr ()))"

definition validate_raw_latency_mean :: "pgbench_result \<Rightarrow> f64 \<Rightarrow> (integrity_problem, unit) result" where
  "validate_raw_latency_mean r raw =
     (if \<not> f_finite raw \<or> f_less raw (Fin 0) then Inl Raw_mean_invalid
      else if pr_transactions_failed r \<noteq> 0 \<or> optional_int (pr_transactions_skipped r) \<noteq> 0
      then Inl Raw_with_failures
      else case pr_latency_observation r of
          None \<Rightarrow> Inl No_latency_observation
        | Some places \<Rightarrow>
          let raw_lower = next_down raw;
              raw_upper = next_up raw;
              latency_half = printed_half_unit places;
              printed_lower = next_down (f_max (Fin 0) (f_sub (pr_latency_mean_ms r) latency_half));
              printed_upper = next_up (f_add (pr_latency_mean_ms r) latency_half)
          in if detailed_summary r then
               (if f_less raw_upper printed_lower \<or> f_less printed_upper raw_lower
                then Inl Raw_mean_outside else Inr ())
             else bind_r (ordinary_latency_intervals r) (\<lambda>i.
               if intervals_disjoint i then Inl Latency_inconsistent
               else if f_less (f_min (li_global_upper i) (li_printed_upper i)) raw_lower
               then Inl Raw_mean_outside else Inr ()))"

subsection \<open>What an accepted rate means\<close>

lemma validate_measure_window_Inr:
  "validate_measure_window measured minimum maximum = Inr u \<longleftrightarrow>
     finite_positive minimum \<and> finite_positive maximum \<and> \<not> f_less maximum minimum \<and>
     \<not> f_less measured (f_sub minimum (f_mul (f_div (f_add minimum maximum) (Fin 2)) timer_skew_fraction)) \<and>
     \<not> f_less (f_add (f_add maximum (f_mul (f_div (f_add minimum maximum) (Fin 2)) timer_skew_fraction))
                (boundary_allowance (f_div (f_add minimum maximum) (Fin 2)))) measured"
  by (auto simp: validate_measure_window_def Let_def)

text \<open>The shortest and the longest run that a printed rate and the transaction count allow.\<close>

definition driver_window :: "pgbench_result \<Rightarrow> f64 \<Rightarrow> tps_observation \<Rightarrow> f64 \<times> f64" where
  "driver_window r rate ob =
     (let h = printed_half_unit (to_decimal_places ob); n = f_of_int (pr_transactions_processed r)
      in (f_div n (f_add rate h), f_div n (f_sub rate h)))"

text \<open>
  A duration within a window, up to a thousandth of its middle for the skew of the timers and, above it, half a second
  and a hundredth of the middle for the boundary of the phase.
\<close>

definition measured_within :: "f64 \<Rightarrow> f64 \<Rightarrow> f64 \<Rightarrow> bool" where
  "measured_within d low high =
     (let middle = f_div (f_add low high) (Fin 2)
      in finite_positive low \<and> finite_positive high \<and> \<not> f_less high low \<and>
         \<not> f_less d (f_sub low (f_mul middle (rnd (1 / 1000)))) \<and>
         \<not> f_less (f_add (f_add high (f_mul middle (rnd (1 / 1000)))) (f_add (Fin (1 / 2)) (f_mul middle (rnd (1 / 100))))) d)"

text \<open>A nominal duration has the boundary on both sides.\<close>

definition nominal_within :: "f64 \<Rightarrow> f64 \<Rightarrow> f64 \<Rightarrow> bool" where
  "nominal_within d low high =
     (let middle = f_div (f_add low high) (Fin 2);
          boundary = f_add (Fin (1 / 2)) (f_mul middle (rnd (1 / 100)))
      in finite_positive low \<and> finite_positive high \<and> \<not> f_less high low \<and>
         \<not> f_less d (f_sub (f_sub low (f_mul middle (rnd (1 / 1000)))) boundary) \<and>
         \<not> f_less (f_add (f_add high (f_mul middle (rnd (1 / 1000)))) boundary) d)"

lemma validate_nominal_window_Inr:
  "validate_nominal_window d low high = Inr u \<longleftrightarrow> finite_positive d \<and> nominal_within d low high"
  by (auto simp: validate_nominal_window_def nominal_within_def Let_def timer_skew_fraction_def boundary_allowance_def
      phase_boundary_fixed_seconds_def phase_boundary_fraction_def)

lemma measured_window_Inr: "validate_measure_window d low high = Inr u \<longleftrightarrow> measured_within d low high"
  unfolding validate_measure_window_Inr
  by (simp add: measured_within_def Let_def timer_skew_fraction_def boundary_allowance_def
      phase_boundary_fixed_seconds_def phase_boundary_fraction_def)

text \<open>What a rate must satisfy against the measured duration, and by time against the nominal one.\<close>

definition rate_clocked :: "pgbench_result \<Rightarrow> f64 \<Rightarrow> f64 \<Rightarrow> tps_observation \<Rightarrow> bool" where
  "rate_clocked r measured rate ob =
     (let (low, high) = driver_window r rate ob; offset = connection_offset_seconds r (to_qualifier ob)
      in finite_positive rate \<and> measured_within measured (f_add low offset) (f_add high offset) \<and>
         (pr_mode r = ''transactions'' \<or>
          pr_mode r = ''time'' \<and> (\<exists>d. pr_duration_seconds r = Some d \<and> finite_positive d \<and> nominal_within d low high)))"

lemma validate_tps_observation_Inr:
  "validate_tps_observation r measured rate ob = Inr u \<Longrightarrow> rate_clocked r measured rate ob"
  by (auto simp: validate_tps_observation_def rate_clocked_def Let_def driver_window_def bind_r_Inr measured_window_Inr
      validate_nominal_window_Inr split: if_splits option.splits)

text \<open>C36: An accepted report of rates is bound to the clock. When the integrity check finds no issue, transactions were
  processed and a rate was reported; every reported rate is positive and finite and came with its printed precision; the
  journaled duration of the measure phase lies between the shortest and the longest run that the printed rate and
  the transaction count allow, moved by the initial connection time where the rate excludes it, up to a thousandth
  for the skew of the timers and, above, half a second and a hundredth for the boundary of the phase; and in the mode
  by time the nominal duration lies in the same window without that move, with the boundary on both sides. Where both
  rates are reported, the one without connections is not below the other one, up to half a unit of each print.\<close>

theorem accepted_rates_match_the_clock:
  assumes "validate_tps_integrity r duration = []"
  shows "0 < pr_transactions_processed r \<and>
    (pr_tps_including_connections r \<noteq> None \<or> pr_tps_excluding_connections r \<noteq> None) \<and>
    (\<forall>rate. pr_tps_including_connections r = Some rate \<longrightarrow>
       (\<exists>ob. pr_tps_including_observation r = Some ob \<and> rate_clocked r (duration_seconds duration) rate ob)) \<and>
    (\<forall>rate. pr_tps_excluding_connections r = Some rate \<longrightarrow>
       (\<exists>ob. pr_tps_excluding_observation r = Some ob \<and> rate_clocked r (duration_seconds duration) rate ob)) \<and>
    (\<forall>x y ob ob'. pr_tps_including_connections r = Some x \<longrightarrow> pr_tps_excluding_connections r = Some y \<longrightarrow>
       pr_tps_including_observation r = Some ob \<longrightarrow> pr_tps_excluding_observation r = Some ob' \<longrightarrow>
       \<not> f_less (f_add y (printed_half_unit (to_decimal_places ob'))) (f_sub x (printed_half_unit (to_decimal_places ob))))"
proof -
  have p: "0 < pr_transactions_processed r"
    and i: "concat (map (reported_rate_issues r (duration_seconds duration)) (reported_rates r)) = []"
    and n: "\<not> list_all (\<lambda>(label, reported, observation). reported = None) (reported_rates r)"
    and o: "ordering_issues r = []"
    using assms unfolding validate_tps_integrity_def Let_def by (auto split: if_splits)
  have each: "\<exists>ob. observation = Some ob \<and> rate_clocked r (duration_seconds duration) rate ob"
    if "(label, Some rate, observation) \<in> set (reported_rates r)" for label rate observation
  proof -
    have "reported_rate_issues r (duration_seconds duration) (label, Some rate, observation) = []" using i that by simp
    then show ?thesis using validate_tps_observation_Inr by (auto simp: reported_rate_issues_def split: option.splits sum.splits)
  qed
  have "\<exists>ob. pr_tps_including_observation r = Some ob \<and> rate_clocked r (duration_seconds duration) rate ob"
    if "pr_tps_including_connections r = Some rate" for rate
    using that by (intro each[of "''including connections''"]) (simp add: reported_rates_def)
  moreover have "\<exists>ob. pr_tps_excluding_observation r = Some ob \<and> rate_clocked r (duration_seconds duration) rate ob"
    if "pr_tps_excluding_connections r = Some rate" for rate
    using that by (intro each[of "''excluding connections''"]) (simp add: reported_rates_def)
  moreover have "\<not> f_less (f_add y (printed_half_unit (to_decimal_places ob'))) (f_sub x (printed_half_unit (to_decimal_places ob)))"
    if "pr_tps_including_connections r = Some x" "pr_tps_excluding_connections r = Some y"
      "pr_tps_including_observation r = Some ob" "pr_tps_excluding_observation r = Some ob'" for x y ob ob'
    using o that by (auto simp: ordering_issues_def split: if_splits)
  ultimately show ?thesis using p n by (auto simp: reported_rates_def)
qed

definition exact_result :: pgbench_result where
  "exact_result = empty_result\<lparr>pr_mode := ''transactions'', pr_transactions_processed := 4,
     pr_tps_excluding_connections := Some (Fin 4),
     pr_tps_excluding_observation := Some \<lparr>to_decimal_places = 324, to_qualifier = ''without initial connection time''\<rparr>\<rparr>"

lemma exact_result_accepted: "validate_tps_integrity exact_result 1000000000 = []"
proof -
  have r: "rnd 0 = Fin 0" "rnd 1 = Fin 1" "rnd 2 = Fin 2" "rnd 4 = Fin 4" "rnd 1000000000 = Fin 1000000000"
    using rnd_exact[OF f_valid_small_int[of 0]] rnd_exact[OF f_valid_small_int[of 1]]
      rnd_exact[OF f_valid_small_int[of 2]] rnd_exact[OF f_valid_small_int[of 4]]
      rnd_exact[OF f_valid_small_int[of 1000000000]] by simp_all
  have between: "\<exists>y. rnd x = Fin y \<and> 0 \<le> y \<and> y \<le> 1" if "0 \<le> x" "x \<le> 1" for x
    using rnd_mono[OF that(1)] rnd_mono[OF that(2)] r(1,2)
    by (cases "rnd x") (auto simp: less_eq_f64_def less_f64_def split: if_splits)
  obtain s where s: "rnd (1 / 1000) = Fin s" "0 \<le> s" "s \<le> 1" using between[of "1/1000"] by auto
  obtain t where t: "rnd (1 / 100) = Fin t" "0 \<le> t" "t \<le> 1" using between[of "1/100"] by auto
  obtain s' where s': "rnd s = Fin s'" "0 \<le> s'" "s' \<le> 1" using between s by auto
  obtain t' where t': "rnd t = Fin t'" "0 \<le> t'" "t' \<le> 1" using between t by auto
  have up: "\<not> f_less (rnd x) (Fin 1)" if "1 \<le> x" for x
    using rnd_mono[OF that] r(2) by (cases "rnd x") (auto simp: less_eq_f64_def less_f64_def split: if_splits)
  have down: "\<not> f_less (Fin 1) (rnd x)" if "x \<le> 1" for x
    using rnd_mono[OF that] r(2) by (cases "rnd x") (auto simp: less_eq_f64_def less_f64_def split: if_splits)
  have pos: "0 \<le> y" if "rnd x = Fin y" "0 \<le> x" for x y
    using rnd_mono[OF that(2)] r(1) that(1) by simp
  have d: "duration_seconds 1000000000 = Fin 1"
    by (simp add: duration_seconds_def Let_def f_of_int_def r)
  have h: "printed_half_unit 324 = Fin 0" by (simp add: printed_half_unit_def pow10_neg_def r)
  have lower: "\<not> f_less (Fin 1) (f_sub (Fin 1) (Fin s'))"
    using down[of "1 - s'"] s' by (simp add: f_sub_def)
  have upper: "\<not> f_less (f_add (f_add (Fin 1) (Fin s')) (f_add (Fin (1 / 2)) (Fin t'))) (Fin 1)"
  proof -
    obtain a where a: "rnd (1 + s') = Fin a" "1 \<le> a"
    proof -
      have "rnd 1 \<le> rnd (1 + s')" "rnd (1 + s') \<le> rnd 2" using s' by (auto intro: rnd_mono)
      then show thesis using that unfolding r by (cases "rnd (1 + s')") (auto simp: less_eq_f64_def less_f64_def split: if_splits)
    qed
    obtain b where b: "rnd (1 / 2 + t') = Fin b" "0 \<le> b"
    proof -
      have "rnd 0 \<le> rnd (1 / 2 + t')" "rnd (1 / 2 + t') \<le> rnd 2" by (rule rnd_mono; use t' in simp)+
      then show thesis using that unfolding r by (cases "rnd (1 / 2 + t')") (auto simp: less_eq_f64_def less_f64_def split: if_splits)
    qed
    show ?thesis using up[of "a + b"] a b by simp
  qed
  have "validate_measure_window (Fin 1) (Fin 1) (Fin 1) = Inr ()"
    using lower upper by (simp add: validate_measure_window_Inr finite_positive_def r s t s' t'
        timer_skew_fraction_def boundary_allowance_def phase_boundary_fixed_seconds_def phase_boundary_fraction_def)
  then show ?thesis
    by (simp add: validate_tps_integrity_def Let_def d finite_positive_def exact_result_def empty_result_def
        reported_rates_def reported_rate_issues_def validate_tps_observation_def h f_sub_def f_of_int_def r
        connection_offset_seconds_def ordering_issues_def)
qed

theorem accepted_rates_match_the_clock_witness:
  "0 < pr_transactions_processed exact_result"
  using accepted_rates_match_the_clock[OF exact_result_accepted] by blast

end
