(* ===== verification/EnvFile.thy ===== *)
theory EnvFile
  imports GoScan
begin

section \<open>Environment files\<close>

text \<open>
  \<^verbatim>\<open>internal/envfile/envfile.go\<close>: the reader of \<open>KEY=value\<close> files, with the default line limit of
  \<open>bufio.Scanner\<close>, and the interface between a writer of such lines and this reader.
\<close>

subsection \<open>The reader\<close>

datatype env_error = Expected_key_value nat | Empty_key nat | Line_too_long

definition unescape_char :: "char \<Rightarrow> string" where
  "unescape_char c =
     (if c = CHR 0x22 \<or> c = CHR 0x5C \<or> c = CHR ''$'' \<or> c = CHR 0x60 then [c]
      else if c = CHR ''n'' then [CHR 0x0A]
      else if c = CHR ''r'' then [CHR 0x0D]
      else if c = CHR ''t'' then [CHR 0x09]
      else [CHR 0x5C, c])"

fun unescape :: "string \<Rightarrow> string" where
  "unescape [] = []"
| "unescape [c] = [c]"
| "unescape (c # d # cs) =
     (if c \<noteq> CHR 0x5C then c # unescape (d # cs) else unescape_char d @ unescape cs)"

definition unquote_double :: "string \<Rightarrow> string" where
  "unquote_double v = unescape (butlast (tl v))"

definition env_value :: "string \<Rightarrow> string" where
  "env_value v =
     (if 2 \<le> length v then
        (if hd v = CHR 0x22 \<and> last v = CHR 0x22 then unquote_double v
         else if hd v = CHR 0x27 \<and> last v = CHR 0x27 then butlast (tl v)
         else v)
      else v)"

definition parse_env_line :: "nat \<Rightarrow> string \<Rightarrow> (env_error, (string \<times> string) option) result" where
  "parse_env_line number raw =
     (let line = trim_space raw
      in if line = [] \<or> has_prefix line ''#'' then Inr None
         else case cut (CHR ''='') line of
           (k, v, found) \<Rightarrow>
             if \<not> found then Inl (Expected_key_value number)
             else let key = trim_space k
                  in if key = [] then Inl (Empty_key number) else Inr (Some (key, env_value (trim_space v))))"

fun parse_env_lines ::
  "nat \<Rightarrow> (string \<Rightarrow> string option) \<Rightarrow> string list \<Rightarrow> (env_error, string \<Rightarrow> string option) result" where
  "parse_env_lines number entries [] = Inr entries"
| "parse_env_lines number entries (line # rest) =
     bind_r (parse_env_line number line) (\<lambda>entry.
       parse_env_lines (Suc number)
         (case entry of None \<Rightarrow> entries | Some (k, v) \<Rightarrow> entries(k \<mapsto> v)) rest)"

definition env_line_limit :: nat where
  "env_line_limit = 65536"

definition parse_env :: "string \<Rightarrow> (env_error, string \<Rightarrow> string option) result" where
  "parse_env content =
     (case scan_lines env_line_limit content of
        (short, too_long) \<Rightarrow>
          bind_r (parse_env_lines 1 Map.empty short) (\<lambda>entries.
            if too_long then Inl Line_too_long else Inr entries))"

subsection \<open>What was written is read\<close>

text \<open>
  The interface between a writer and the reader: a quoting function whose results stay on their line,
  survive trimming and are read back as the value.
\<close>

definition plain_key :: "string \<Rightarrow> bool" where
  "plain_key k = (k \<noteq> [] \<and> list_all (\<lambda>c. solid c \<and> c \<noteq> CHR ''='' \<and> c \<noteq> CHR ''#'') k)"

definition entry_line :: "(string \<Rightarrow> string) \<Rightarrow> string \<times> string \<Rightarrow> string" where
  "entry_line quote e = fst e @ ''='' @ quote (snd e)"

definition env_text :: "(string \<Rightarrow> string) \<Rightarrow> (string \<times> string) list \<Rightarrow> string" where
  "env_text quote es = join [newline] (map (entry_line quote) es) @ [newline]"

lemma foldl_update_append:
  "distinct (map fst es) \<Longrightarrow> foldl (\<lambda>m (k, v). m(k \<mapsto> v)) m es = m ++ map_of es"
proof (induction es arbitrary: m)
  case (Cons e es)
  obtain k v where e: "e = (k, v)" by (cases e)
  have "map_of es k = None" using Cons.prems e by (simp add: map_of_eq_None_iff)
  then show ?case using Cons e by (auto simp: map_add_def fun_eq_iff split: option.splits)
qed simp

lemma foldl_update_map_of:
  "distinct (map fst es) \<Longrightarrow> foldl (\<lambda>m (k, v). m(k \<mapsto> v)) Map.empty es = map_of es"
  by (simp add: foldl_update_append)

locale env_quoting =
  fixes quote :: "string \<Rightarrow> string"
  assumes quote_one_line: "newline \<notin> set (quote v)"
    and quote_solid: "quote v \<noteq> [] \<and> solid (hd (quote v)) \<and> solid (last (quote v))"
    and quote_read: "env_value (quote v) = v"
begin

lemma quote_trim [simp]: "trim_space (quote v) = quote v"
  using quote_solid[of v] by (simp add: trim_space_solid)

lemma key_solid:
  "plain_key k \<Longrightarrow> k \<noteq> [] \<and> solid (hd k) \<and> solid (last k) \<and> trim_space k = k \<and> CHR ''='' \<notin> set k"
  by (auto simp: plain_key_def list_all_iff trim_space_solid)

lemma last_entry_line: "last (entry_line quote e) = last (quote (snd e))"
  using quote_solid[of "snd e"] by (simp add: entry_line_def)

lemma entry_line_read:
  assumes "plain_key (fst e)"
  shows "parse_env_line n (entry_line quote e) = Inr (Some e)"
proof -
  have k: "fst e \<noteq> []" "solid (hd (fst e))" "trim_space (fst e) = fst e" "CHR ''='' \<notin> set (fst e)"
    using key_solid[OF assms] by blast+
  have "hd (fst e) \<noteq> CHR ''#''" using assms by (cases "fst e") (auto simp: plain_key_def)
  then have hash: "\<not> has_prefix (entry_line quote e) ''#''"
    using k(1) by (cases "fst e") (simp_all add: entry_line_def has_prefix_def)
  have trim: "trim_space (entry_line quote e) = entry_line quote e"
    using k(1,2) last_entry_line[of e] quote_solid[of "snd e"]
    by (intro trim_space_solid) (simp add: entry_line_def)
  have "cut (CHR ''='') (entry_line quote e) = (fst e, quote (snd e), True)"
    using k(4) cut_append[of "CHR ''=''" "fst e" "quote (snd e)"] by (simp add: entry_line_def)
  moreover have "entry_line quote e \<noteq> []" by (simp add: entry_line_def)
  ultimately show ?thesis
    using k hash unfolding parse_env_line_def trim Let_def
    by (simp add: quote_read)
qed

lemma entry_lines_read:
  "list_all (\<lambda>e. plain_key (fst e)) es \<Longrightarrow>
     parse_env_lines n m (map (entry_line quote) es) = Inr (foldl (\<lambda>m (k, v). m(k \<mapsto> v)) m es)"
  by (induction es arbitrary: n m) (auto simp: entry_line_read)

lemma entry_line_one_line: "plain_key (fst e) \<Longrightarrow> newline \<notin> set (entry_line quote e)"
proof -
  assume "plain_key (fst e)"
  moreover have "\<not> solid newline" by (simp add: solid_def newline_def code_def)
  ultimately have "newline \<notin> set (fst e)" by (auto simp: plain_key_def list_all_iff)
  moreover have "newline \<notin> set ''=''" by (simp add: newline_def)
  ultimately show ?thesis using quote_one_line[of "snd e"] by (simp add: entry_line_def)
qed

lemma env_text_lines:
  assumes "es \<noteq> []" and "list_all (\<lambda>e. plain_key (fst e)) es"
  shows "raw_lines (env_text quote es) = map (entry_line quote) es"
proof -
  have "env_text quote es = join [newline] (map (entry_line quote) es @ [[]])"
    using assms(1) by (simp add: env_text_def join_snoc)
  moreover have "split_on newline (join [newline] (map (entry_line quote) es @ [[]])) = map (entry_line quote) es @ [[]]"
    using assms(2) entry_line_one_line by (intro split_on_join) (auto simp: list_all_iff)
  ultimately show ?thesis by (simp add: raw_lines_def Let_def)
qed

lemma drop_cr_entry: "drop_cr (entry_line quote e) = entry_line quote e"
proof -
  have "last (entry_line quote e) \<noteq> CHR 0x0D"
    using quote_solid[of "snd e"] unfolding last_entry_line by (auto simp: solid_def code_def)
  then show ?thesis by (simp add: drop_cr_def)
qed

text \<open>The round trip of a whole file.\<close>

lemma env_text_read:
  assumes "es \<noteq> []" and "list_all (\<lambda>e. plain_key (fst e)) es"
    and "list_all (\<lambda>e. length (entry_line quote e) < env_line_limit) es" and "distinct (map fst es)"
  shows "parse_env (env_text quote es) = Inr (map_of es)"
proof -
  define ls where "ls = map (entry_line quote) es"
  have short: "takeWhile (\<lambda>l. length l < env_line_limit) ls = ls"
    using assms(3) by (simp add: takeWhile_eq_all_conv list_all_iff ls_def)
  have "map drop_cr ls = ls" by (simp add: ls_def drop_cr_entry)
  moreover have "raw_lines (env_text quote es) = ls" using env_text_lines[OF assms(1,2)] by (simp add: ls_def)
  ultimately have "scan_lines env_line_limit (env_text quote es) = (ls, False)"
    by (simp add: scan_lines_def short Let_def)
  moreover have "foldl (\<lambda>m (k, v). m(k \<mapsto> v)) Map.empty es = map_of es"
    using assms(4) by (rule foldl_update_map_of)
  ultimately show ?thesis
    using entry_lines_read[OF assms(2), of 1 Map.empty] by (simp add: parse_env_def ls_def)
qed

text \<open>A line over the limit makes the whole file unreadable.\<close>

lemma env_text_too_long:
  assumes "es \<noteq> []" and "list_all (\<lambda>e. plain_key (fst e)) es"
    and "list_ex (\<lambda>e. env_line_limit \<le> length (entry_line quote e)) es"
  shows "parse_env (env_text quote es) = Inl Line_too_long"
proof -
  define fits where "fits = takeWhile (\<lambda>e. length (entry_line quote e) < env_line_limit) es"
  have keys: "list_all (\<lambda>e. plain_key (fst e)) fits"
    using assms(2) unfolding fits_def list_all_iff by (meson set_takeWhileD)
  have short: "takeWhile (\<lambda>l. length l < env_line_limit) (map (entry_line quote) es) = map (entry_line quote) fits"
    by (simp add: takeWhile_map fits_def comp_def)
  have "length fits \<noteq> length es"
  proof
    assume "length fits = length es"
    then have "fits = es" by (metis fits_def takeWhile_eq_take take_all_iff order_refl)
    then have "list_all (\<lambda>e. length (entry_line quote e) < env_line_limit) es"
      unfolding fits_def takeWhile_eq_all_conv list_all_iff by blast
    then show False using assms(3) by (auto simp: list_all_iff list_ex_iff)
  qed
  moreover have "length fits \<le> length es" unfolding fits_def by (rule length_takeWhile_le)
  ultimately have less: "length fits < length es" by simp
  have "map drop_cr (map (entry_line quote) fits) = map (entry_line quote) fits"
    by (simp add: drop_cr_entry)
  then have "scan_lines env_line_limit (env_text quote es) = (map (entry_line quote) fits, True)"
    using env_text_lines[OF assms(1,2)] less by (simp add: scan_lines_def short Let_def)
  then show ?thesis using entry_lines_read[OF keys, of 1 Map.empty] by (simp add: parse_env_def)
qed

end

end
