(* ===== verification/Evidence.thy ===== *)
theory Evidence
  imports GoNumbers
begin

section \<open>Digests and portable paths\<close>

unbundle bit_operations_syntax

text \<open>
  \<^verbatim>\<open>internal/evidence/evidence.go\<close>: SHA-256 digests of byte strings in the \<open>sha256:\<close> form, and the
  portable relative paths that artifacts may name. SHA-256 is the function of FIPS 180-4 that
  \<^verbatim>\<open>crypto/sha256\<close> computes; \<open>path_clean\<close> is \<open>path.Clean\<close>.
\<close>

subsection \<open>SHA-256\<close>

type_synonym word32 = "32 word"

text \<open>
  The constants as the standard defines them: the first 32 bits of the fractional parts of the cube
  roots of the first 64 primes, and of the square roots of the first eight.
\<close>

definition first_primes :: "nat list" where
  "first_primes =
    [2, 3, 5, 7, 11, 13, 17, 19, 23, 29, 31, 37, 41, 43, 47, 53, 59, 61, 67, 71, 73, 79, 83, 89, 97,
     101, 103, 107, 109, 113, 127, 131, 137, 139, 149, 151, 157, 163, 167, 173, 179, 181, 191, 193,
     197, 199, 211, 223, 227, 229, 233, 239, 241, 251, 257, 263, 269, 271, 277, 281, 283, 293, 307,
     311]"

definition integer_root :: "nat \<Rightarrow> nat \<Rightarrow> nat" where
  "integer_root e n = foldl (\<lambda>r k. if (r + 2 ^ k) ^ e \<le> n then r + 2 ^ k else r) 0 (rev [0..<40])"

definition fraction_bits :: "nat \<Rightarrow> nat \<Rightarrow> word32" where
  "fraction_bits e p = word_of_nat (integer_root e (p * 2 ^ (32 * e)))"

definition sha_k :: "word32 list" where
  "sha_k = map (fraction_bits 3) first_primes"

definition sha_h0 :: "word32 list" where
  "sha_h0 = map (fraction_bits 2) (take 8 first_primes)"

definition rotr :: "nat \<Rightarrow> word32 \<Rightarrow> word32" where
  "rotr n x = drop_bit n x OR push_bit (32 - n) x"

text \<open>Padding: a one bit, zeros, and the length in bits as a 64-bit big-endian number.\<close>

definition sha_pad :: "nat list \<Rightarrow> nat list" where
  "sha_pad bs =
     (let n = length bs; zeros = (119 - n mod 64) mod 64; bits = (8 * n) mod 2 ^ 64
      in bs @ [128] @ replicate zeros 0 @ map (\<lambda>i. bits div 256 ^ (7 - i) mod 256) [0..<8])"

function sha_blocks :: "nat list \<Rightarrow> nat list list" where
  "sha_blocks bs = (if bs = [] then [] else take 64 bs # sha_blocks (drop 64 bs))"
  by pat_completeness auto
termination by (relation "measure length") auto

definition block_words :: "nat list \<Rightarrow> word32 list" where
  "block_words b =
     map (\<lambda>i. word_of_nat (((b ! (4 * i) * 256 + b ! (4 * i + 1)) * 256 + b ! (4 * i + 2)) * 256 + b ! (4 * i + 3)))
       [0..<16]"

definition next_word :: "word32 list \<Rightarrow> word32" where
  "next_word w =
     (let n = length w; a = w ! (n - 15); b = w ! (n - 2);
          s0 = rotr 7 a XOR rotr 18 a XOR drop_bit 3 a;
          s1 = rotr 17 b XOR rotr 19 b XOR drop_bit 10 b
      in w ! (n - 16) + s0 + w ! (n - 7) + s1)"

definition schedule :: "word32 list \<Rightarrow> word32 list" where
  "schedule w = ((\<lambda>v. v @ [next_word v]) ^^ 48) w"

definition sha_round :: "word32 list \<Rightarrow> word32 \<times> word32 \<Rightarrow> word32 list" where
  "sha_round s kw =
     (let a = s ! 0; b = s ! 1; c = s ! 2; d = s ! 3; e = s ! 4; f = s ! 5; g = s ! 6; h = s ! 7;
          t1 = h + (rotr 6 e XOR rotr 11 e XOR rotr 25 e) + ((e AND f) XOR (NOT e AND g)) + fst kw + snd kw;
          t2 = (rotr 2 a XOR rotr 13 a XOR rotr 22 a) + ((a AND b) XOR (a AND c) XOR (b AND c))
      in [t1 + t2, a, b, c, d + t1, e, f, g])"

definition sha_compress :: "word32 list \<Rightarrow> nat list \<Rightarrow> word32 list" where
  "sha_compress h b = map (\<lambda>(x, y). x + y) (zip h (foldl sha_round h (zip sha_k (schedule (block_words b)))))"

definition sha256 :: "nat list \<Rightarrow> word32 list" where
  "sha256 bs = foldl sha_compress sha_h0 (sha_blocks (sha_pad bs))"

subsection \<open>Digests\<close>

definition hex_digit :: "nat \<Rightarrow> char" where
  "hex_digit n = ''0123456789abcdef'' ! (n mod 16)"

definition hex_word :: "word32 \<Rightarrow> string" where
  "hex_word w = map (\<lambda>i. hex_digit (unat w div 16 ^ (7 - i))) [0..<8]"

definition digest_prefix :: string where
  "digest_prefix = ''sha256:''"

definition digest_bytes :: "string \<Rightarrow> string" where
  "digest_bytes content = digest_prefix @ concat (map hex_word (sha256 (map code content)))"

definition is_hex_lower :: "char \<Rightarrow> bool" where
  "is_hex_lower c = (is_digit c \<or> (97 \<le> code c \<and> code c \<le> 102))"

definition is_digest :: "string \<Rightarrow> bool" where
  "is_digest v =
     (length v = length digest_prefix + 64 \<and> has_prefix v digest_prefix \<and>
      list_all is_hex_lower (trim_prefix v digest_prefix))"

lemma length_foldl_compress [simp]:
  "length h = 8 \<Longrightarrow> length (foldl sha_compress h bs) = 8"
proof (induction bs arbitrary: h)
  case (Cons b bs)
  have "length (foldl sha_round s kws) = 8" if "length s = 8" for s kws
    using that by (induction kws arbitrary: s) (simp_all add: sha_round_def Let_def)
  then show ?case using Cons by (simp add: sha_compress_def)
qed simp

lemma length_sha256 [simp]: "length (sha256 bs) = 8"
  by (simp add: sha256_def sha_h0_def first_primes_def)

lemma is_hex_lower_digit: "is_hex_lower (hex_digit n)"
proof -
  have "list_all is_hex_lower ''0123456789abcdef''"
    by (simp add: is_hex_lower_def is_digit_def code_def)
  moreover have "hex_digit n \<in> set ''0123456789abcdef''"
    unfolding hex_digit_def by (rule nth_mem) simp
  ultimately show ?thesis by (simp only: list_all_iff)
qed

lemma length_hex_words: "length (concat (map hex_word ws)) = 8 * length ws"
  by (induction ws) (simp_all add: hex_word_def)

lemma digest_bytes_is_digest [simp]: "is_digest (digest_bytes content)"
  by (auto simp: is_digest_def digest_bytes_def length_hex_words has_prefix_def trim_prefix_def digest_prefix_def
      list_all_iff hex_word_def is_hex_lower_digit)

text \<open>Every computed digest is in the accepted form: the digest of any byte string passes \<open>IsDigest\<close>.\<close>

theorem computed_digest_is_digest: "is_digest (digest_bytes content)"
  by (rule digest_bytes_is_digest)

subsection \<open>Portable paths\<close>

text \<open>\<open>path.Clean\<close>: the components without empty ones and dots, with double dots resolved.\<close>

definition push_component :: "bool \<Rightarrow> string list \<Rightarrow> string \<Rightarrow> string list" where
  "push_component rooted out c =
     (if c = [] \<or> c = ''.'' then out
      else if c = ''..'' then
        (if out \<noteq> [] \<and> last out \<noteq> ''..'' then butlast out
         else if rooted then out else out @ [c])
      else out @ [c])"

definition slash :: char where
  "slash = CHR ''/''"

definition path_clean :: "string \<Rightarrow> string" where
  "path_clean p =
     (if p = [] then ''.''
      else
        let rooted = (hd p = slash);
            out = foldl (push_component rooted) [] (split_on slash p);
            body = join [slash] out
        in if rooted then slash # body else if body = [] then ''.'' else body)"

definition is_portable_path :: "string \<Rightarrow> bool" where
  "is_portable_path v =
     (if v = [] \<or> list_ex (\<lambda>c. c = CHR 0x5C \<or> c = CHR '':'') v \<or> has_prefix v ''/'' then False
      else if list_ex (\<lambda>c. code c < 32 \<or> code c = 127) v then False
      else let cleaned = path_clean v
           in cleaned = v \<and> cleaned \<noteq> ''.'' \<and> cleaned \<noteq> ''..'' \<and> \<not> has_prefix cleaned ''../'')"

definition plain_component :: "string \<Rightarrow> bool" where
  "plain_component c = (c \<noteq> [] \<and> c \<noteq> ''.'' \<and> c \<noteq> ''..'')"

lemma push_plain: "plain_component c \<Longrightarrow> push_component rooted out c = out @ [c]"
  by (simp add: push_component_def plain_component_def)

lemma foldl_plain: "list_all plain_component cs \<Longrightarrow> foldl (push_component rooted) out cs = out @ cs"
  by (induction cs arbitrary: out) (simp_all add: push_plain)

text \<open>The cleaned components: double dots, only in front, then plain ones.\<close>

definition clean_list :: "string list \<Rightarrow> bool" where
  "clean_list out = (\<exists>n cs. out = replicate n ''..'' @ cs \<and> list_all plain_component cs)"

lemma clean_list_push: "clean_list out \<Longrightarrow> clean_list (push_component rooted out c)"
proof -
  assume "clean_list out"
  then obtain n cs where o: "out = replicate n ''..'' @ cs" "list_all plain_component cs"
    by (auto simp: clean_list_def)
  show ?thesis
  proof (cases "plain_component c")
    case True
    then have "push_component rooted out c = replicate n ''..'' @ (cs @ [c])" by (simp add: push_plain o)
    moreover have "list_all plain_component (cs @ [c])" using o True by simp
    ultimately show ?thesis unfolding clean_list_def by blast
  next
    case False
    then consider "c = [] \<or> c = ''.''" | "c = ''..''" by (auto simp: plain_component_def)
    then show ?thesis
    proof cases
      case 1
      then show ?thesis using \<open>clean_list out\<close> by (simp add: push_component_def)
    next
      case 2
      show ?thesis
      proof (cases "cs = []")
        case True
        have "replicate n ''..'' @ [''..''] = replicate (Suc n) ''..''"
          by (simp add: replicate_append_same)
        then have "push_component rooted out c \<in> {replicate n ''..'', replicate (Suc n) ''..''}"
          using True 2 o by (auto simp: push_component_def)
        moreover have "clean_list (replicate k ''..'')" for k
          unfolding clean_list_def by (intro exI[of _ k] exI[of _ "[]"]) simp
        ultimately show ?thesis by (metis insert_iff singletonD)
      next
        case False
        then have "last cs \<noteq> ''..''" using o(2) by (metis last_in_set list_all_iff plain_component_def)
        then have "push_component rooted out c = replicate n ''..'' @ butlast cs"
          using False 2 o by (simp add: push_component_def butlast_append)
        moreover have "list_all plain_component (butlast cs)"
          using o(2) by (auto simp: list_all_iff dest: in_set_butlastD)
        ultimately show ?thesis unfolding clean_list_def by blast
      qed
    qed
  qed
qed

lemma clean_list_foldl: "clean_list out \<Longrightarrow> clean_list (foldl (push_component rooted) out cs)"
  by (induction cs arbitrary: out) (simp_all add: clean_list_push)

lemma components_of_portable:
  assumes "is_portable_path v"
  shows "list_all plain_component (split_on slash v)"
proof -
  have ne: "v \<noteq> []" and rel: "hd v \<noteq> slash" and clean: "path_clean v = v"
    and no: "v \<noteq> ''.''" "v \<noteq> ''..''" "\<not> has_prefix v ''../''"
    using assms by (cases v; auto simp: is_portable_path_def Let_def has_prefix_def slash_def split: if_splits)+
  define out where "out = foldl (push_component False) [] (split_on slash v)"
  have "clean_list out" unfolding out_def by (rule clean_list_foldl) (auto simp: clean_list_def)
  then obtain n cs where o: "out = replicate n ''..'' @ cs" "list_all plain_component cs"
    by (auto simp: clean_list_def)
  have body: "join [slash] out = v" "out \<noteq> []"
    using clean ne rel no by (auto simp: path_clean_def Let_def out_def[symmetric] split: if_splits)
  have parts: "slash \<notin> set p" if "p \<in> set out" for p
  proof -
    have "set out \<subseteq> set (split_on slash v) \<union> {''..''}"
    proof -
      have "set (foldl (push_component False) acc cs) \<subseteq> set acc \<union> set cs \<union> {''..''}" for acc cs
      proof (induction cs arbitrary: acc)
        case (Cons c cs)
        have "set (push_component False acc c) \<subseteq> set acc \<union> {c}"
          by (auto simp: push_component_def dest: in_set_butlastD)
        then show ?case using Cons[of "push_component False acc c"] by fastforce
      qed auto
      then show ?thesis unfolding out_def by (metis empty_set sup_bot_left)
    qed
    then show ?thesis using that split_on_parts[of p slash v] by (auto simp: slash_def)
  qed
  have split: "split_on slash v = out" using split_on_join[OF body(2) parts] body(1) by simp
  have "n = 0"
  proof (rule ccontr)
    assume "n \<noteq> 0"
    then obtain rest where r: "out = ''..'' # rest" using o by (cases n) auto
    show False
    proof (cases rest)
      case Nil
      then show False using body r no by simp
    next
      case (Cons x xs)
      then have "v = ''..'' @ [slash] @ join [slash] rest" using body(1) r by simp
      then show False using no(3) by (simp add: has_prefix_def slash_def)
    qed
  qed
  then show ?thesis using split o by simp
qed

text \<open>Portable paths are exactly the harmless ones: a path is portable if and only if it contains no
  backslash, colon or control character and all of its slash-separated components are names, that is, not
  empty, not a dot and not a double dot. In particular it is relative and never leaves its root.\<close>

theorem portable_path_iff:
  "is_portable_path v \<longleftrightarrow>
     list_all (\<lambda>c. c \<noteq> CHR 0x5C \<and> c \<noteq> CHR '':'' \<and> 32 \<le> code c \<and> code c \<noteq> 127) v \<and>
     list_all plain_component (split_on slash v)"
proof
  assume p: "is_portable_path v"
  then have "list_all (\<lambda>c. c \<noteq> CHR 0x5C \<and> c \<noteq> CHR '':'' \<and> 32 \<le> code c \<and> code c \<noteq> 127) v"
    by (auto simp: is_portable_path_def list_all_iff list_ex_iff not_less split: if_splits)
  with components_of_portable[OF p] show "list_all (\<lambda>c. c \<noteq> CHR 0x5C \<and> c \<noteq> CHR '':'' \<and> 32 \<le> code c \<and> code c \<noteq> 127) v \<and>
     list_all plain_component (split_on slash v)" by blast
next
  assume h: "list_all (\<lambda>c. c \<noteq> CHR 0x5C \<and> c \<noteq> CHR '':'' \<and> 32 \<le> code c \<and> code c \<noteq> 127) v \<and>
     list_all plain_component (split_on slash v)"
  have ne: "v \<noteq> []" using h by (auto simp: plain_component_def)
  obtain c cs where v: "v = c # cs" using ne by (cases v) auto
  have c: "c \<noteq> slash"
    using h v by (auto simp: plain_component_def)
  have clean: "path_clean v = v"
  proof -
    have "foldl (push_component False) [] (split_on slash v) = split_on slash v"
      using foldl_plain[of "split_on slash v" False "[]"] h by simp
    moreover have "hd v \<noteq> slash" using c v by simp
    ultimately show ?thesis using ne by (simp add: path_clean_def Let_def join_split_on)
  qed
  have dots: "v \<noteq> ''.''" "v \<noteq> ''..''"
    using h by (auto simp: plain_component_def slash_def)
  have up: "\<not> has_prefix v ''../''"
  proof
    assume "has_prefix v ''../''"
    then obtain t where "v = ''..'' @ slash # t" by (auto simp: has_prefix_iff slash_def)
    then have "split_on slash v = ''..'' # split_on slash t"
      using split_on_append[of slash "''..''" t] by (simp add: slash_def)
    then show False using h by (simp add: plain_component_def)
  qed
  have rooted: "\<not> has_prefix v ''/''" using c v by (simp add: has_prefix_def slash_def)
  have "\<not> list_ex (\<lambda>c. c = CHR 0x5C \<or> c = CHR '':'') v"
    "\<not> list_ex (\<lambda>c. code c < 32 \<or> code c = 127) v"
    using conjunct1[OF h] unfolding list_all_iff list_ex_iff by fastforce+
  then have "\<not> (v = [] \<or> list_ex (\<lambda>c. c = CHR 0x5C \<or> c = CHR '':'') v \<or> has_prefix v ''/'')"
    "\<not> list_ex (\<lambda>c. code c < 32 \<or> code c = 127) v"
    using ne rooted by blast+
  then show "is_portable_path v"
    unfolding is_portable_path_def Let_def clean using dots up by (simp only: if_False simp_thms)
qed

end
