(* ===== verification/GoJson.thy ===== *)
theory GoJson
  imports Evidence
begin

section \<open>JSON text of strings and flat objects\<close>

text \<open>
  What \<open>encoding/json\<close> writes for strings and for objects with string and integer members: the HTML
  safe escapes of \<open>Marshal\<close>, one replacement character for every byte that is not part of a
  valid UTF-8 sequence. The reader is the specification of JSON strings, used to show that two
  different values never have the same text.
\<close>

subsection \<open>UTF-8\<close>

definition byte_in :: "nat \<Rightarrow> nat \<Rightarrow> char \<Rightarrow> bool" where
  "byte_in low high c = (low \<le> code c \<and> code c \<le> high)"

text \<open>The width of the multi-byte sequence at the front of a string; 0 where there is none.\<close>

definition rune_width :: "string \<Rightarrow> nat" where
  "rune_width s =
     (case s of
        a # b # rest \<Rightarrow>
          if byte_in 0xC2 0xDF a \<and> byte_in 0x80 0xBF b then 2
          else
            (case rest of
               c # rest' \<Rightarrow>
                 if byte_in 0x80 0xBF c \<and>
                    (if code a = 0xE0 then byte_in 0xA0 0xBF b
                     else if code a = 0xED then byte_in 0x80 0x9F b
                     else byte_in 0xE1 0xEF a \<and> byte_in 0x80 0xBF b) then 3
                 else
                   (case rest' of
                      d # _ \<Rightarrow>
                        if byte_in 0x80 0xBF c \<and> byte_in 0x80 0xBF d \<and>
                           (if code a = 0xF0 then byte_in 0x90 0xBF b
                            else if code a = 0xF4 then byte_in 0x80 0x8F b
                            else byte_in 0xF1 0xF3 a \<and> byte_in 0x80 0xBF b) then 4
                        else 0
                    | [] \<Rightarrow> 0)
             | [] \<Rightarrow> 0)
      | _ \<Rightarrow> 0)"

subsection \<open>Strings\<close>

definition backslash :: char where
  "backslash = CHR 0x5C"

definition quote_mark :: char where
  "quote_mark = CHR 0x22"

definition json_unicode :: "nat \<Rightarrow> string" where
  "json_unicode n =
     [backslash, CHR ''u'', hex_digit (n div 4096), hex_digit (n div 256), hex_digit (n div 16), hex_digit n]"

definition json_ascii :: "char \<Rightarrow> string" where
  "json_ascii c =
     (if c = backslash \<or> c = quote_mark then [backslash, c]
      else if code c = 8 then [backslash, CHR ''b'']
      else if code c = 12 then [backslash, CHR ''f'']
      else if code c = 10 then [backslash, CHR ''n'']
      else if code c = 13 then [backslash, CHR ''r'']
      else if code c = 9 then [backslash, CHR ''t'']
      else if code c < 32 \<or> c = CHR ''<'' \<or> c = CHR ''>'' \<or> c = CHR ''&'' then json_unicode (code c)
      else [c])"

definition json_rune :: "string \<Rightarrow> string" where
  "json_rune r =
     (if map code r = [0xE2, 0x80, 0xA8] then json_unicode 0x2028
      else if map code r = [0xE2, 0x80, 0xA9] then json_unicode 0x2029
      else r)"

function json_escape :: "string \<Rightarrow> string" where
  "json_escape s =
     (case s of
        [] \<Rightarrow> []
      | c # cs \<Rightarrow>
        if code c < 128 then json_ascii c @ json_escape cs
        else if rune_width s = 0 then json_unicode 0xFFFD @ json_escape cs
        else json_rune (take (rune_width s) s) @ json_escape (drop (rune_width s) s))"
  by pat_completeness auto
termination by (relation "measure length") auto

declare json_escape.simps [simp del]

definition json_string :: "string \<Rightarrow> string" where
  "json_string s = [quote_mark] @ json_escape s @ [quote_mark]"

subsection \<open>Objects\<close>

text \<open>Compact, as \<open>Marshal\<close> writes it; the members are encoded values.\<close>

definition json_member :: "string \<times> string \<Rightarrow> string" where
  "json_member m = json_string (fst m) @ '':'' @ snd m"

definition json_object :: "(string \<times> string) list \<Rightarrow> string" where
  "json_object ms = ''{'' @ join '','' (map json_member ms) @ ''}''"

text \<open>Indented by two blanks, as \<open>MarshalIndent\<close> writes it for a non-empty object.\<close>

definition json_object_indented :: "(string \<times> string) list \<Rightarrow> string" where
  "json_object_indented ms =
     ''{'' @ [CHR 0x0A] @
     join ('','' @ [CHR 0x0A]) (map (\<lambda>m. ''  '' @ json_string (fst m) @ '': '' @ snd m) ms) @
     [CHR 0x0A] @ ''}''"

subsection \<open>Reading a string back\<close>

definition hex_value :: "char \<Rightarrow> nat" where
  "hex_value c = (if is_digit c then code c - 48 else code c - 87)"

definition utf8_encode :: "nat \<Rightarrow> string" where
  "utf8_encode n =
     (if n < 0x80 then [char_of n]
      else if n < 0x800 then [char_of (0xC0 + n div 64), char_of (0x80 + n mod 64)]
      else [char_of (0xE0 + n div 4096), char_of (0x80 + n div 64 mod 64), char_of (0x80 + n mod 64)])"

definition unescape_simple :: "char \<Rightarrow> string" where
  "unescape_simple c =
     (if c = CHR ''b'' then [char_of (8::nat)]
      else if c = CHR ''f'' then [char_of (12::nat)]
      else if c = CHR ''n'' then [char_of (10::nat)]
      else if c = CHR ''r'' then [char_of (13::nat)]
      else if c = CHR ''t'' then [char_of (9::nat)]
      else [c])"

text \<open>The value of a JSON string after its opening quote, and what follows its closing quote.\<close>

function json_read :: "string \<Rightarrow> (string \<times> string) option" where
  "json_read s =
     (case s of
        [] \<Rightarrow> None
      | c # cs \<Rightarrow>
        if c = quote_mark then Some ([], cs)
        else if c \<noteq> backslash then map_option (map_prod ((@) [c]) id) (json_read cs)
        else
          (case cs of
             [] \<Rightarrow> None
           | e # es \<Rightarrow>
             if e \<noteq> CHR ''u'' then map_option (map_prod ((@) (unescape_simple e)) id) (json_read es)
             else
               map_option (map_prod ((@) (utf8_encode (foldl (\<lambda>n d. n * 16 + hex_value d) 0 (take 4 es)))) id)
                 (json_read (drop 4 es))))"
  by pat_completeness auto
termination by (relation "measure length") auto

declare json_read.simps [simp del]

lemma backslash_not_quote [simp]: "backslash \<noteq> quote_mark" "quote_mark \<noteq> backslash"
  by (simp_all add: backslash_def quote_mark_def)

lemma json_read_quote: "json_read (quote_mark # t) = Some ([], t)"
  by (simp add: json_read.simps[of "quote_mark # t"])

lemma json_read_plain:
  "c \<noteq> quote_mark \<Longrightarrow> c \<noteq> backslash \<Longrightarrow>
     json_read (c # t) = map_option (map_prod ((@) [c]) id) (json_read t)"
  by (simp add: json_read.simps[of "c # t"])

lemma json_read_simple:
  "e \<noteq> CHR ''u'' \<Longrightarrow> json_read (backslash # e # t) = map_option (map_prod ((@) (unescape_simple e)) id) (json_read t)"
  by (simp add: json_read.simps[of "backslash # e # t"])

lemma hex_value_digit: "hex_value (hex_digit n) = n mod 16"
proof -
  have "list_all (\<lambda>k. hex_value (''0123456789abcdef'' ! k) = k) [0..<16]"
    by (simp add: upt_conv_Cons hex_value_def is_digit_def code_def)
  then show ?thesis by (simp add: list_all_iff hex_digit_def)
qed

lemma four_digits:
  "a = (w::nat) \<Longrightarrow> b = a * 16 + x \<Longrightarrow> c = b * 16 + y \<Longrightarrow> n = c * 16 + z \<Longrightarrow>
     ((w * 16 + x) * 16 + y) * 16 + z = n"
  by simp

lemma json_read_unicode:
  assumes "n < 65536"
  shows "json_read (json_unicode n @ t) = map_option (map_prod ((@) (utf8_encode n)) id) (json_read t)"
proof -
  let ?ds = "[hex_digit (n div 4096), hex_digit (n div 256), hex_digit (n div 16), hex_digit n]"
  have "foldl (\<lambda>n d. n * 16 + hex_value d) 0 ?ds =
      (((n div 4096) mod 16 * 16 + (n div 256) mod 16) * 16 + (n div 16) mod 16) * 16 + n mod 16"
    by (simp add: hex_value_digit)
  also have "\<dots> = n"
  proof -
    have "n div 4096 = n div 4096 mod 16" using assms by simp
    moreover have "n div 256 = n div 4096 * 16 + n div 256 mod 16"
      using div_mult_mod_eq[of "n div 256" 16] by (simp add: div_mult2_eq[symmetric])
    moreover have "n div 16 = n div 256 * 16 + n div 16 mod 16"
      using div_mult_mod_eq[of "n div 16" 16] by (simp add: div_mult2_eq[symmetric])
    moreover have "n = n div 16 * 16 + n mod 16" by simp
    ultimately show ?thesis by (rule four_digits)
  qed
  finally have f: "foldl (\<lambda>n d. n * 16 + hex_value d) 0 ?ds = n" .
  have "json_unicode n @ t = backslash # CHR ''u'' # ?ds @ t" by (simp add: json_unicode_def)
  moreover have "take 4 (?ds @ t) = ?ds" "drop 4 (?ds @ t) = t" by simp_all
  ultimately show ?thesis
    using f by (simp only: json_read.simps[of "backslash # CHR ''u'' # ?ds @ t"] list.case backslash_not_quote if_False simp_thms)
qed

lemma utf8_ascii: "code c < 128 \<Longrightarrow> utf8_encode (code c) = [c]"
  by (simp add: utf8_encode_def code_def)

lemma char_of_code: "char_of (code c) = c"
  by (simp add: code_def)

lemma json_read_ascii:
  assumes "code c < 128"
  shows "json_read (json_ascii c @ t) = map_option (map_prod ((@) [c]) id) (json_read t)"
proof -
  have u: "json_read (json_unicode (code c) @ t) = map_option (map_prod ((@) [c]) id) (json_read t)"
    using json_read_unicode[of "code c" t] utf8_ascii[OF assms] assms by simp
  have s: "json_read (backslash # e # t) = map_option (map_prod ((@) [c]) id) (json_read t)"
    if "e \<noteq> CHR ''u''" "unescape_simple e = [c]" for e
    using json_read_simple[OF that(1)] that(2) by simp
  have esc: "unescape_simple quote_mark = [quote_mark]" "unescape_simple backslash = [backslash]"
    "quote_mark \<noteq> CHR ''u''" "backslash \<noteq> CHR ''u''"
    by (simp_all add: unescape_simple_def quote_mark_def backslash_def)
  have ctrl: "[char_of (k::nat)] = [c]" if "code c = k" for k
    using that char_of_code[of c] by simp
  have e: "json_read (json_ascii c @ t) = map_option (map_prod ((@) [c]) id) (json_read t)"
    if "json_ascii c = [backslash, e]" "e \<noteq> CHR ''u''" "unescape_simple e = [c]" for e
    using s[OF that(2,3)] that(1) by simp
  consider "c = backslash" | "c = quote_mark"
    | k e where "c \<noteq> backslash" "c \<noteq> quote_mark"
        "(k, e) \<in> {(8, CHR ''b''), (12, CHR ''f''), (10, CHR ''n''), (13, CHR ''r''), (9, CHR ''t'')}" "code c = k"
    | "json_ascii c = json_unicode (code c)"
    | "json_ascii c = [c]" "c \<noteq> quote_mark" "c \<noteq> backslash"
  proof (cases "c = backslash \<or> c = quote_mark \<or> code c \<in> {8, 12, 10, 13, 9}")
    case True
    then show ?thesis using that(1-3) by auto
  next
    case False
    then have "json_ascii c = json_unicode (code c) \<or> json_ascii c = [c]"
      by (simp add: json_ascii_def)
    then show ?thesis using that(4,5) False by blast
  qed
  then show ?thesis
  proof cases
    case 1
    then show ?thesis using esc by (intro e[of backslash]) (simp_all add: json_ascii_def)
  next
    case 2
    then show ?thesis using esc by (intro e[of quote_mark]) (simp_all add: json_ascii_def)
  next
    case (3 k e')
    have "json_ascii c = [backslash, e']" using 3 by (auto simp: json_ascii_def)
    moreover have "e' \<noteq> CHR ''u''" using 3(3) by auto
    moreover have "unescape_simple e' = [c]" using 3(3) ctrl[OF 3(4)] by (auto simp: unescape_simple_def)
    ultimately show ?thesis by (rule e)
  next
    case 4
    then show ?thesis using u by simp
  next
    case 5
    then show ?thesis using json_read_plain[of c t] by simp
  qed
qed

function utf8_valid :: "string \<Rightarrow> bool" where
  "utf8_valid s =
     (case s of
        [] \<Rightarrow> True
      | c # cs \<Rightarrow>
        if code c < 128 then utf8_valid cs
        else if rune_width s = 0 then False else utf8_valid (drop (rune_width s) s))"
  by pat_completeness auto
termination by (relation "measure length") auto

declare utf8_valid.simps [simp del]

lemma json_read_raw:
  "list_all (\<lambda>c. c \<noteq> quote_mark \<and> c \<noteq> backslash) r \<Longrightarrow>
     json_read (r @ t) = map_option (map_prod ((@) r) id) (json_read t)"
proof (induction r)
  case Nil
  then show ?case by (cases "json_read t") (simp_all add: prod.map_id0)
next
  case (Cons c r)
  then show ?case by (cases "json_read t") (auto simp: json_read_plain)
qed

lemma rune_width_bytes:
  "list_all (\<lambda>c. 128 \<le> code c) (take (rune_width s) s)"
proof -
  consider "rune_width s = 0"
    | a b rest where "s = a # b # rest" "rune_width s = 2" "byte_in 0xC2 0xDF a" "byte_in 0x80 0xBF b"
    | a b c rest where "s = a # b # c # rest" "rune_width s = 3" "0xE0 \<le> code a" "0x80 \<le> code b" "byte_in 0x80 0xBF c"
    | a b c d rest where "s = a # b # c # d # rest" "rune_width s = 4" "0xF0 \<le> code a" "0x80 \<le> code b"
        "byte_in 0x80 0xBF c" "byte_in 0x80 0xBF d"
  proof (cases "\<exists>a b rest. s = a # b # rest")
    case False
    then have "rune_width s = 0" by (simp add: rune_width_def split: list.splits)
    then show ?thesis using that(1) by blast
  next
    case True
    then obtain a b rest where s: "s = a # b # rest" by blast
    show ?thesis
    proof (cases "byte_in 0xC2 0xDF a \<and> byte_in 0x80 0xBF b")
      case True
      then show ?thesis using that(2)[OF s] s by (simp add: rune_width_def)
    next
      case two: False
      show ?thesis
      proof (cases rest)
        case Nil
        then show ?thesis using that(1) s two by (simp add: rune_width_def)
      next
        case (Cons c rest')
        define three where "three = (byte_in 0x80 0xBF c \<and>
            (if code a = 0xE0 then byte_in 0xA0 0xBF b
             else if code a = 0xED then byte_in 0x80 0x9F b
             else byte_in 0xE1 0xEF a \<and> byte_in 0x80 0xBF b))"
        show ?thesis
        proof (cases three)
          case True
          then have "rune_width s = 3" using s Cons two by (simp add: rune_width_def three_def)
          moreover have "0xE0 \<le> code a \<and> 0x80 \<le> code b \<and> byte_in 0x80 0xBF c"
            using True by (auto simp: three_def byte_in_def split: if_splits)
          ultimately show ?thesis using that(3) s Cons by blast
        next
          case three_no: False
          show ?thesis
          proof (cases rest')
            case Nil
            then show ?thesis using that(1) s two Cons three_no by (simp add: rune_width_def three_def)
          next
            case d: (Cons d rest'')
            define four where "four = (byte_in 0x80 0xBF c \<and> byte_in 0x80 0xBF d \<and>
                (if code a = 0xF0 then byte_in 0x90 0xBF b
                 else if code a = 0xF4 then byte_in 0x80 0x8F b
                 else byte_in 0xF1 0xF3 a \<and> byte_in 0x80 0xBF b))"
            have "rune_width s =
                (if byte_in 0xC2 0xDF a \<and> byte_in 0x80 0xBF b then 2
                 else if three then 3 else if four then 4 else 0)"
              unfolding three_def four_def rune_width_def s Cons d by (simp only: list.case)
            then have w: "rune_width s = (if four then 4 else 0)"
              by (simp only: if_not_P[OF two] if_not_P[OF three_no])
            have "0xF0 \<le> code a \<and> 0x80 \<le> code b \<and> byte_in 0x80 0xBF c \<and> byte_in 0x80 0xBF d" if four
              using that by (auto simp: four_def byte_in_def split: if_splits)
            then show ?thesis using that(1,4) w s Cons d by (cases four) auto
          qed
        qed
      qed
    qed
  qed
  then show ?thesis by cases (simp_all add: byte_in_def numeral_eq_Suc)
qed

lemma json_read_rune:
  assumes "r = take (rune_width s) s"
  shows "json_read (json_rune r @ t) = map_option (map_prod ((@) r) id) (json_read t)"
proof -
  have raw: "list_all (\<lambda>c. c \<noteq> quote_mark \<and> c \<noteq> backslash) r"
    using rune_width_bytes[of s] unfolding assms
    by (rule list.pred_mono_strong) (auto simp: quote_mark_def backslash_def code_def)
  have three: "r = map char_of (map code r)" by (simp add: char_of_code comp_def)
  consider "map code r = [0xE2, 0x80, 0xA8]" | "map code r = [0xE2, 0x80, 0xA9]" | "json_rune r = r"
    unfolding json_rune_def by presburger
  then show ?thesis
  proof cases
    case 1
    moreover have "utf8_encode 0x2028 = r" using three 1 by (simp add: utf8_encode_def)
    ultimately show ?thesis using json_read_unicode[of "0x2028" t] by (simp add: json_rune_def)
  next
    case 2
    moreover have "utf8_encode 0x2029 = r" using three 2 by (simp add: utf8_encode_def)
    ultimately show ?thesis using json_read_unicode[of "0x2029" t] by (simp add: json_rune_def)
  next
    case 3
    then show ?thesis using json_read_raw[OF raw] by simp
  qed
qed

lemma json_read_escape: "utf8_valid s \<Longrightarrow> json_read (json_escape s @ quote_mark # t) = Some (s, t)"
proof (induction s rule: utf8_valid.induct)
  case (1 s)
  show ?case
  proof (cases s)
    case Nil
    then show ?thesis by (simp add: json_escape.simps[of "[]"] json_read_quote)
  next
    case (Cons c cs)
    show ?thesis
    proof (cases "code c < 128")
      case True
      then have "utf8_valid cs" using 1(3) Cons by (simp add: utf8_valid.simps[of "c # cs"])
      then have "json_read (json_escape cs @ quote_mark # t) = Some (cs, t)" using 1(1) Cons True by blast
      then show ?thesis using True Cons by (simp add: json_escape.simps[of "c # cs"] json_read_ascii)
    next
      case False
      then have w: "rune_width s \<noteq> 0" "utf8_valid (drop (rune_width s) s)"
        using 1(3) Cons by (auto simp: utf8_valid.simps[of "c # cs"] split: if_splits)
      then have "json_read (json_escape (drop (rune_width s) s) @ quote_mark # t) = Some (drop (rune_width s) s, t)"
        using 1(2) Cons False by blast
      moreover have "json_escape s = json_rune (take (rune_width s) s) @ json_escape (drop (rune_width s) s)"
        using w(1) False Cons by (simp add: json_escape.simps[of "c # cs"])
      ultimately show ?thesis by (simp add: json_read_rune[OF refl])
    qed
  qed
qed

lemma json_string_append:
  assumes "json_string a @ r = json_string b @ r'" and "utf8_valid a" and "utf8_valid b"
  shows "a = b \<and> r = r'"
proof -
  have "json_escape a @ quote_mark # r = json_escape b @ quote_mark # r'"
    using assms(1) by (simp add: json_string_def)
  then have "Some (a, r) = Some (b, r')"
    using json_read_escape[OF assms(2), of r] json_read_escape[OF assms(3), of r'] by metis
  then show ?thesis by simp
qed

text \<open>Objects of string members are determined by their text.\<close>

definition string_object :: "(string \<times> string) list \<Rightarrow> string" where
  "string_object es = json_object (map (\<lambda>(k, v). (k, json_string v)) es)"

definition valid_entry :: "string \<times> string \<Rightarrow> bool" where
  "valid_entry e = (utf8_valid (fst e) \<and> utf8_valid (snd e))"

fun object_tail :: "(string \<times> string) list \<Rightarrow> string" where
  "object_tail [] = ''}''"
| "object_tail (e # es) = '','' @ json_member (fst e, json_string (snd e)) @ object_tail es"

lemma json_member_append:
  assumes "json_member (k, json_string v) @ r = json_member (k', json_string v') @ r'"
    and "valid_entry (k, v)" and "valid_entry (k', v')"
  shows "k = k' \<and> v = v' \<and> r = r'"
proof -
  have "json_string k @ '':'' @ json_string v @ r = json_string k' @ '':'' @ json_string v' @ r'"
    using assms(1) by (simp add: json_member_def)
  from json_string_append[OF this] assms(2,3)
  have "k = k'" "json_string v @ r = json_string v' @ r'" by (auto simp: valid_entry_def)
  with json_string_append[of v r v' r'] assms(2,3) show ?thesis by (auto simp: valid_entry_def)
qed

lemma object_tail_inject:
  "object_tail es = object_tail es' \<Longrightarrow> list_all valid_entry es \<Longrightarrow> list_all valid_entry es' \<Longrightarrow> es = es'"
proof (induction es arbitrary: es')
  case Nil
  then show ?case by (cases es') auto
next
  case (Cons e es)
  from Cons.prems(1) obtain f fs where f: "es' = f # fs" by (cases es') auto
  obtain k v k' v' where e: "e = (k, v)" "f = (k', v')" by (cases e; cases f)
  have "json_member (k, json_string v) @ object_tail es = json_member (k', json_string v') @ object_tail fs"
    using Cons.prems(1) f e by simp
  from json_member_append[OF this] Cons.prems(2,3) f e
  have "e = f" "object_tail es = object_tail fs" by auto
  then show ?case using Cons f by simp
qed

lemma string_object_tail:
  "string_object (e # es) = ''{'' @ json_member (fst e, json_string (snd e)) @ object_tail es"
proof -
  have "join '','' (json_member (fst e, json_string (snd e)) #
      map (\<lambda>x. json_member (fst x, json_string (snd x))) es) @ ''}'' =
    json_member (fst e, json_string (snd e)) @ object_tail es" for e
    by (induction es arbitrary: e) auto
  then show ?thesis by (simp add: string_object_def json_object_def case_prod_unfold comp_def)
qed

lemma string_object_inject:
  assumes "string_object es = string_object es'" and "list_all valid_entry es" and "list_all valid_entry es'"
    and "es \<noteq> []" and "es' \<noteq> []"
  shows "es = es'"
proof -
  obtain e es1 f fs1 where c: "es = e # es1" "es' = f # fs1" using assms(4,5) by (cases es; cases es') auto
  have "object_tail es = object_tail es'"
    using assms(1) unfolding c string_object_tail by simp
  then show ?thesis using object_tail_inject assms(2,3) by blast
qed

end
