(* ===== verification/Semver.thy ===== *)
theory Semver
  imports GoNumbers "HOL-Library.Product_Lexorder"
begin

section \<open>Engine versions and scenario-pack constraints\<close>

text \<open>
  \<^verbatim>\<open>internal/scenariopack/semver.go\<close>: strict SemVer parsing, the precedence comparison, the
  four constraint operators and \<open>CheckEngineCompatibility\<close>, which decides whether an engine
  may run a scenario pack and whether the run may count as release evidence. Version
  numbers are 64-bit words, because the bounds of a caret or tilde constraint are computed
  with wrapping addition.
\<close>

subsection \<open>Parsing\<close>

datatype semversion =
  SemVersion (sv_major: "64 word") (sv_minor: "64 word") (sv_patch: "64 word")
    (sv_prerelease: string)

datatype number_error = Number_empty | Leading_zero | Non_numeric | Number_out_of_range

datatype version_error =
    Version_empty_or_space
  | Invalid_build
  | Invalid_prerelease
  | Not_three_parts
  | Invalid_major number_error
  | Invalid_minor number_error
  | Invalid_patch number_error

definition parse_core_number :: "string \<Rightarrow> (number_error, 64 word) result" where
  "parse_core_number value =
     (if value = [] then Inl Number_empty
      else if length value > 1 \<and> hd value = CHR ''0'' then Inl Leading_zero
      else if \<not> list_all is_digit value then Inl Non_numeric
      else of_option Number_out_of_range (parse_uint64 value))"

definition identifier_char :: "char \<Rightarrow> bool" where
  "identifier_char c \<longleftrightarrow> is_digit c \<or> is_upper c \<or> is_lower c \<or> c = CHR ''-''"

definition valid_identifier :: "bool \<Rightarrow> string \<Rightarrow> bool" where
  "valid_identifier reject ident \<longleftrightarrow>
     ident \<noteq> [] \<and> list_all identifier_char ident \<and>
     \<not> (reject \<and> list_all is_digit ident \<and> length ident > 1 \<and> hd ident = CHR ''0'')"

definition valid_identifiers :: "string \<Rightarrow> bool \<Rightarrow> bool" where
  "valid_identifiers value reject \<longleftrightarrow>
     value \<noteq> [] \<and> list_all (valid_identifier reject) (split_on CHR ''.'' value)"

definition map_error :: "('e \<Rightarrow> 'f) \<Rightarrow> ('e, 'a) result \<Rightarrow> ('f, 'a) result" where
  "map_error f r = (case r of Inl e \<Rightarrow> Inl (f e) | Inr x \<Rightarrow> Inr x)"

definition parse_sem_version :: "string \<Rightarrow> (version_error, semversion) result" where
  "parse_sem_version value =
     (if value = [] \<or> trim_space value \<noteq> value then Inl Version_empty_or_space
      else case cut CHR ''+'' value of (without_build, build, has_build) \<Rightarrow>
        if has_build \<and> (contains build ''+'' \<or> \<not> valid_identifiers build False)
        then Inl Invalid_build
        else case cut CHR ''-'' without_build of (core, prerelease, has_prerelease) \<Rightarrow>
          if has_prerelease \<and> \<not> valid_identifiers prerelease True
          then Inl Invalid_prerelease
          else case split_on CHR ''.'' core of
              [a, b, c] \<Rightarrow>
                bind_r (map_error Invalid_major (parse_core_number a)) (\<lambda>major.
                bind_r (map_error Invalid_minor (parse_core_number b)) (\<lambda>minor.
                bind_r (map_error Invalid_patch (parse_core_number c)) (\<lambda>patch.
                Inr (SemVersion major minor patch prerelease))))
            | _ \<Rightarrow> Inl Not_three_parts)"

subsection \<open>Precedence\<close>

definition compare_uint :: "'a::linorder \<Rightarrow> 'a \<Rightarrow> int" where
  "compare_uint left right = (if left < right then -1 else if left > right then 1 else 0)"

definition numeric_identifier :: "string \<Rightarrow> bool" where
  "numeric_identifier value \<longleftrightarrow> list_all is_digit value \<and> value \<noteq> []"

definition compare_prerelease_identifier :: "string \<Rightarrow> string \<Rightarrow> int" where
  "compare_prerelease_identifier left right =
     (let left_numeric = numeric_identifier left; right_numeric = numeric_identifier right
      in if left_numeric \<and> \<not> right_numeric then -1
         else if \<not> left_numeric \<and> right_numeric then 1
         else if left_numeric \<and> length left < length right then -1
         else if left_numeric \<and> length left > length right then 1
         else if left < right then -1
         else if left > right then 1
         else 0)"

text \<open>
  The indexed loop over both identifier lists; when one list is exhausted the lengths
  decide. Both lists have lost the same number of elements by then, so comparing what is
  left compares the original lengths.
\<close>

fun compare_parts :: "string list \<Rightarrow> string list \<Rightarrow> int" where
  "compare_parts (x # xs) (y # ys) =
     (let result = compare_prerelease_identifier x y
      in if result \<noteq> 0 then result else compare_parts xs ys)"
| "compare_parts xs ys = compare_uint (length xs) (length ys)"

definition compare_prerelease :: "string \<Rightarrow> string \<Rightarrow> int" where
  "compare_prerelease left right =
     (if left = right then 0
      else if left = [] then 1
      else if right = [] then -1
      else compare_parts (split_on CHR ''.'' left) (split_on CHR ''.'' right))"

definition compare_version :: "semversion \<Rightarrow> semversion \<Rightarrow> int" where
  "compare_version version other =
     (let r1 = compare_uint (sv_major version) (sv_major other);
          r2 = compare_uint (sv_minor version) (sv_minor other);
          r3 = compare_uint (sv_patch version) (sv_patch other)
      in if r1 \<noteq> 0 then r1 else if r2 \<noteq> 0 then r2 else if r3 \<noteq> 0 then r3
         else compare_prerelease (sv_prerelease version) (sv_prerelease other))"

definition is_development_prerelease :: "semversion \<Rightarrow> bool" where
  "is_development_prerelease version \<longleftrightarrow>
     list_ex (\<lambda>ident. to_lower ident \<in> {''dev'', ''development'', ''dirty'', ''snapshot''})
       (split_on CHR ''.'' (sv_prerelease version))"

subsection \<open>Constraints\<close>

datatype engine_constraint =
  EngineConstraint (ec_raw: string) (ec_operator: string) (ec_base: semversion)

datatype constraint_error =
    Constraint_space
  | Constraint_operator
  | Constraint_version version_error
  | Caret_overflow
  | Tilde_overflow

definition constraint_operators :: "string list" where
  "constraint_operators = [''>='', ''='', ''^'', ''~'']"

definition parse_constraint :: "string \<Rightarrow> (constraint_error, engine_constraint) result" where
  "parse_constraint value =
     (if trim_space value \<noteq> value then Inl Constraint_space
      else case find (has_prefix value) constraint_operators of
          None \<Rightarrow> Inl Constraint_operator
        | Some operator \<Rightarrow>
            bind_r (map_error Constraint_version (parse_sem_version (trim_prefix value operator)))
              (\<lambda>base.
                 if operator = ''^'' \<and>
                    (sv_major base = -1 \<or> sv_major base = 0 \<and> sv_minor base = -1 \<or>
                     sv_major base = 0 \<and> sv_minor base = 0 \<and> sv_patch base = -1)
                 then Inl Caret_overflow
                 else if operator = ''~'' \<and> sv_minor base = -1 then Inl Tilde_overflow
                 else Inr (EngineConstraint value operator base)))"

definition caret_upper_bound :: "engine_constraint \<Rightarrow> semversion" where
  "caret_upper_bound constraint =
     (let base = ec_base constraint
      in if sv_major base \<noteq> 0 then SemVersion (sv_major base + 1) 0 0 []
         else if sv_minor base \<noteq> 0 then SemVersion 0 (sv_minor base + 1) 0 []
         else SemVersion 0 0 (sv_patch base + 1) [])"

definition tilde_upper_bound :: "engine_constraint \<Rightarrow> semversion" where
  "tilde_upper_bound constraint =
     SemVersion (sv_major (ec_base constraint)) (sv_minor (ec_base constraint) + 1) 0 []"

definition constraint_matches :: "engine_constraint \<Rightarrow> semversion \<Rightarrow> bool" where
  "constraint_matches constraint version =
     (let comparison = compare_version version (ec_base constraint)
      in if ec_operator constraint = ''='' then comparison = 0
         else if ec_operator constraint = ''>='' then comparison \<ge> 0
         else if ec_operator constraint = ''^'' then
           comparison \<ge> 0 \<and> compare_version version (caret_upper_bound constraint) < 0
         else if ec_operator constraint = ''~'' then
           comparison \<ge> 0 \<and> compare_version version (tilde_upper_bound constraint) < 0
         else False)"

subsection \<open>Engine compatibility\<close>

record pack_manifest =
  pm_schema_version :: string
  pm_id :: string
  pm_version :: string
  pm_engine_constraint :: string
  pm_description :: string
  pm_assets :: "string list"

record engine_compatibility =
  ecomp_engine_version :: string
  ecomp_constraint :: string
  ecomp_status :: string
  ecomp_release_evidence_eligible :: bool
  ecomp_diagnostic :: string

text \<open>The zero value Go returns beside an error.\<close>

definition no_compatibility :: engine_compatibility where
  "no_compatibility = \<lparr>ecomp_engine_version = [], ecomp_constraint = [], ecomp_status = [],
     ecomp_release_evidence_eligible = False, ecomp_diagnostic = []\<rparr>"

datatype compatibility_error =
    Invalid_engine_constraint string constraint_error
  | Engine_not_semver string version_error
  | Engine_incompatible (ei_pack_id: string) (ei_engine_version: string)
      (ei_constraint: string) (ei_diagnostic: string)

definition development_compatibility :: "string \<Rightarrow> string \<Rightarrow> engine_compatibility" where
  "development_compatibility engine_version constraint =
     \<lparr>ecomp_engine_version = engine_version,
      ecomp_constraint = constraint,
      ecomp_status = ''unverified-development'',
      ecomp_release_evidence_eligible = False,
      ecomp_diagnostic = ''development engine '' @ engine_version
        @ '' cannot prove release compatibility with '' @ constraint
        @ ''; rebuild with a strict SemVer release version or pass --engine-version for a candidate check''\<rparr>"

definition check_engine_compatibility ::
  "pack_manifest \<Rightarrow> string \<Rightarrow> engine_compatibility \<times> compatibility_error option" where
  "check_engine_compatibility manifest engine_version_input =
     (case parse_constraint (pm_engine_constraint manifest) of
        Inl e \<Rightarrow> (no_compatibility, Some (Invalid_engine_constraint (pm_engine_constraint manifest) e))
      | Inr constraint \<Rightarrow>
        let engine_version = trim_space engine_version_input in
        if engine_version = ''dev''
        then (development_compatibility engine_version (ec_raw constraint), None)
        else case parse_sem_version engine_version of
            Inl e \<Rightarrow> (no_compatibility, Some (Engine_not_semver engine_version e))
          | Inr engine \<Rightarrow>
            if is_development_prerelease engine
            then (development_compatibility engine_version (ec_raw constraint), None)
            else
              let release_eligible = (sv_prerelease engine = []);
                  status = (if release_eligible then ''compatible-release''
                            else ''compatible-prerelease'')
              in if constraint_matches constraint engine
                 then (\<lparr>ecomp_engine_version = engine_version,
                        ecomp_constraint = ec_raw constraint,
                        ecomp_status = status,
                        ecomp_release_evidence_eligible = release_eligible,
                        ecomp_diagnostic =
                          ''engine '' @ engine_version @ '' satisfies '' @ ec_raw constraint
                          @ (if release_eligible then []
                             else ''; pre-release compatibility is not release evidence'')\<rparr>, None)
                 else
                   let diagnostic = ''scenario pack '' @ pm_id manifest @ '' requires pgworkbench ''
                         @ ec_raw constraint @ '', but engine '' @ engine_version
                         @ '' is incompatible; use an engine satisfying '' @ ec_raw constraint
                         @ '', or migrate and retest the pack before updating engine_constraint''
                   in (\<lparr>ecomp_engine_version = engine_version,
                        ecomp_constraint = ec_raw constraint,
                        ecomp_status = ''incompatible'',
                        ecomp_release_evidence_eligible = False,
                        ecomp_diagnostic = diagnostic\<rparr>,
                       Some (Engine_incompatible (pm_id manifest) engine_version
                               (ec_raw constraint) diagnostic)))"

subsection \<open>Precedence is a linear order\<close>

text \<open>
  Each level of the comparison is the comparison of a key in a linear order: identifiers
  by (class, length, text), prereleases as lists of identifiers with the empty prerelease
  last, versions lexicographically.
\<close>

definition identifier_key :: "string \<Rightarrow> nat \<times> nat \<times> string" where
  "identifier_key s = (if numeric_identifier s then (0, length s, s) else (1, 0, s))"

definition prerelease_key :: "string \<Rightarrow> nat \<times> (nat \<times> nat \<times> string) list" where
  "prerelease_key s = (if s = [] then (1, []) else (0, map identifier_key (split_on CHR ''.'' s)))"

definition version_key ::
  "semversion \<Rightarrow> 64 word \<times> 64 word \<times> 64 word \<times> nat \<times> (nat \<times> nat \<times> string) list" where
  "version_key v = (sv_major v, sv_minor v, sv_patch v, prerelease_key (sv_prerelease v))"

lemma compare_uint_0 [simp]: "compare_uint a b = 0 \<longleftrightarrow> a = b"
  by (auto simp: compare_uint_def)

lemma compare_uint_neg: "compare_uint a b < 0 \<longleftrightarrow> a < b"
  by (auto simp: compare_uint_def)

lemma compare_uint_le: "compare_uint a b \<le> 0 \<longleftrightarrow> a \<le> b"
  by (auto simp: compare_uint_def)

lemma compare_uint_ge: "compare_uint a b \<ge> 0 \<longleftrightarrow> b \<le> a"
  by (auto simp: compare_uint_def)

lemma compare_uint_swap: "compare_uint b a = - compare_uint a b"
  by (auto simp: compare_uint_def)

lemma compare_uint_pair:
  "compare_uint (a, b) (c, d) = (if compare_uint a c \<noteq> 0 then compare_uint a c else compare_uint b d)"
  by (auto simp: compare_uint_def)

lemma compare_uint_Cons:
  "compare_uint (x # xs) (y # ys) = (if compare_uint x y \<noteq> 0 then compare_uint x y else compare_uint xs ys)"
  by (auto simp: compare_uint_def)

lemma compare_prerelease_identifier_key:
  "compare_prerelease_identifier x y = compare_uint (identifier_key x) (identifier_key y)"
  by (auto simp: compare_prerelease_identifier_def identifier_key_def compare_uint_def Let_def)

lemma compare_parts_key:
  "compare_parts xs ys = compare_uint (map identifier_key xs) (map identifier_key ys)"
proof (induction xs ys rule: compare_parts.induct, goal_cases)
  case (1 x xs y ys)
  then show ?case
    by (simp add: compare_uint_Cons compare_prerelease_identifier_key Let_def)
next
  case (2 ys)
  then show ?case by (cases ys) (auto simp: compare_uint_def)
next
  case (3 xs)
  then show ?case by (cases xs) (auto simp: compare_uint_def)
qed

lemma inj_identifier_key: "inj identifier_key"
  by (auto simp: inj_def identifier_key_def split: if_splits)

lemma prerelease_key_inject [simp]: "prerelease_key s = prerelease_key t \<longleftrightarrow> s = t"
  by (auto simp: prerelease_key_def inj_map_eq_map[OF inj_identifier_key])

lemma compare_prerelease_key:
  "compare_prerelease s t = compare_uint (prerelease_key s) (prerelease_key t)"
proof (cases "s = [] \<or> t = [] \<or> s = t")
  case True
  then show ?thesis
    by (auto simp: compare_prerelease_def prerelease_key_def compare_uint_def)
next
  case False
  then show ?thesis
    by (simp add: compare_prerelease_def prerelease_key_def compare_parts_key compare_uint_pair)
qed

lemma compare_version_key: "compare_version v w = compare_uint (version_key v) (version_key w)"
  by (simp add: compare_version_def version_key_def compare_prerelease_key compare_uint_pair Let_def)

lemma version_key_inject [simp]: "version_key v = version_key w \<longleftrightarrow> v = w"
  by (cases v; cases w) (simp add: version_key_def)

instantiation semversion :: linorder
begin

definition less_eq_semversion :: "semversion \<Rightarrow> semversion \<Rightarrow> bool" where
  "less_eq_semversion v w \<longleftrightarrow> compare_version v w \<le> 0"

definition less_semversion :: "semversion \<Rightarrow> semversion \<Rightarrow> bool" where
  "less_semversion v w \<longleftrightarrow> compare_version v w < 0"

instance
  by standard
    (auto simp: less_eq_semversion_def less_semversion_def compare_version_key
       compare_uint_le compare_uint_neg dest: le_neq_trans)

end

lemma version_le_key: "v \<le> w \<longleftrightarrow> version_key v \<le> version_key w"
  by (simp add: less_eq_semversion_def compare_version_key compare_uint_le)

lemma version_less_key: "v < w \<longleftrightarrow> version_key v < version_key w"
  by (simp add: less_semversion_def compare_version_key compare_uint_neg)

lemma compare_version_uint: "compare_version v w = compare_uint v w"
  by (simp add: compare_version_key compare_uint_def version_less_key)

subsection \<open>SemVer 2.0.0 precedence\<close>

text \<open>
  The reference: identifiers compare as the SemVer document says, numerically when both are
  numeric, in ASCII order when neither is, numeric ones first. The code compares numeric
  identifiers by length and text instead, which is the same for numerals without leading
  zeros, the only ones a parsed version contains.
\<close>

datatype semver_identifier = Numeric nat | Alphanumeric string

definition identifier_of :: "string \<Rightarrow> semver_identifier" where
  "identifier_of s = (if numeric_identifier s then Numeric (nat_of_digits s) else Alphanumeric s)"

fun identifier_less :: "semver_identifier \<Rightarrow> semver_identifier \<Rightarrow> bool" where
  "identifier_less (Numeric m) (Numeric n) = (m < n)"
| "identifier_less (Numeric m) (Alphanumeric t) = True"
| "identifier_less (Alphanumeric s) (Numeric n) = False"
| "identifier_less (Alphanumeric s) (Alphanumeric t) = (s < t)"

lemma char_less_digit: "is_digit c \<Longrightarrow> is_digit d \<Longrightarrow> c < d \<longleftrightarrow> digit_val c < digit_val d"
  by (auto simp: digit_val_def is_digit_def less_char_def code_def)

lemma same_length_less:
  "length s = length t \<Longrightarrow> list_all is_digit s \<Longrightarrow> list_all is_digit t \<Longrightarrow>
     s < t \<longleftrightarrow> nat_of_digits s < nat_of_digits t"
proof (induction s t rule: list_induct2)
  case (Cons c s d t)
  have b: "nat_of_digits s < 10 ^ length t" "nat_of_digits t < 10 ^ length t"
    using Cons.hyps Cons.prems nat_of_digits_bound[of s] nat_of_digits_bound[of t] by auto
  consider "digit_val c < digit_val d" | "digit_val d < digit_val c" | "c = d"
    using Cons.prems digit_char_val[of c] digit_char_val[of d] nat_neq_iff by fastforce
  then show ?case
  proof cases
    case 1
    then have "Suc (digit_val c) * 10 ^ length t \<le> digit_val d * 10 ^ length t"
      by (intro mult_le_mono1) simp
    with 1 b Cons show ?thesis
      by (simp add: nat_of_digits_Cons char_less_digit)
  next
    case 2
    then have "Suc (digit_val d) * 10 ^ length t \<le> digit_val c * 10 ^ length t"
      by (intro mult_le_mono1) simp
    with 2 b Cons char_less_digit[of c d] show ?thesis
      by (auto simp: nat_of_digits_Cons)
  next
    case 3
    with Cons show ?thesis by (simp add: nat_of_digits_Cons)
  qed
qed simp

lemma numeric_less:
  assumes "canonical_nat s" and "canonical_nat t"
  shows "(length s, s) < (length t, t) \<longleftrightarrow> nat_of_digits s < nat_of_digits t"
proof -
  have shorter: "nat_of_digits s < nat_of_digits t"
    if len: "length s < length t" and c: "canonical_nat s" "canonical_nat t" for s t
  proof -
    obtain d t' where t: "t = d # t'" using len by (cases t) auto
    show ?thesis
    proof (cases "length t > 1")
      case True
      have "nat_of_digits s < 10 ^ length s"
        using c(1) nat_of_digits_bound by (simp add: canonical_nat_def all_digits_def)
      also have "\<dots> \<le> 10 ^ length t'"
        using len t by simp
      also have "\<dots> \<le> nat_of_digits t"
        using c(2) t True nat_of_digits_lower[of d t'] by (simp add: canonical_nat_def all_digits_def)
      finally show ?thesis .
    next
      case False
      with len c show ?thesis by (cases s) (auto simp: canonical_nat_def all_digits_def)
    qed
  qed
  show ?thesis
  proof (cases "length s = length t")
    case True
    with assms show ?thesis
      by (simp add: same_length_less canonical_nat_def all_digits_def)
  next
    case False
    with assms shorter[of s t] shorter[of t s] show ?thesis by auto
  qed
qed

lemma valid_numeric_canonical:
  "valid_identifier True s \<Longrightarrow> numeric_identifier s \<Longrightarrow> canonical_nat s"
  by (auto simp: valid_identifier_def numeric_identifier_def canonical_nat_def all_digits_def)

lemma identifier_key_less:
  assumes "valid_identifier True s" and "valid_identifier True t"
  shows "identifier_key s < identifier_key t \<longleftrightarrow> identifier_less (identifier_of s) (identifier_of t)"
  using assms numeric_less[of s t] valid_numeric_canonical[of s] valid_numeric_canonical[of t]
  by (auto simp: identifier_key_def identifier_of_def)


fun identifiers_less :: "semver_identifier list \<Rightarrow> semver_identifier list \<Rightarrow> bool" where
  "identifiers_less xs [] = False"
| "identifiers_less [] (y # ys) = True"
| "identifiers_less (x # xs) (y # ys) =
     (identifier_less x y \<or> x = y \<and> identifiers_less xs ys)"

definition semver_precedes :: "semversion \<Rightarrow> semversion \<Rightarrow> bool" where
  "semver_precedes v w \<longleftrightarrow>
     (sv_major v, sv_minor v, sv_patch v) < (sv_major w, sv_minor w, sv_patch w) \<or>
     (sv_major v, sv_minor v, sv_patch v) = (sv_major w, sv_minor w, sv_patch w) \<and>
     sv_prerelease v \<noteq> [] \<and>
     (sv_prerelease w = [] \<or>
      identifiers_less (map identifier_of (split_on CHR ''.'' (sv_prerelease v)))
                       (map identifier_of (split_on CHR ''.'' (sv_prerelease w))))"

definition sv_valid :: "semversion \<Rightarrow> bool" where
  "sv_valid v \<longleftrightarrow> sv_prerelease v = [] \<or> valid_identifiers (sv_prerelease v) True"

lemma identifier_of_inject:
  assumes "valid_identifier True s" and "valid_identifier True t"
  shows "identifier_of s = identifier_of t \<longleftrightarrow> s = t"
  using assms valid_numeric_canonical[of s] valid_numeric_canonical[of t]
  by (auto simp: identifier_of_def) (metis show_nat_of_digits)

lemma identifiers_key_less:
  "list_all (valid_identifier True) xs \<Longrightarrow> list_all (valid_identifier True) ys \<Longrightarrow>
     map identifier_key xs < map identifier_key ys \<longleftrightarrow>
     identifiers_less (map identifier_of xs) (map identifier_of ys)"
proof (induction xs ys rule: list_induct2')
  case (4 x xs y ys)
  then show ?case
    using inj_identifier_key
    by (auto simp: identifier_key_less identifier_of_inject inj_eq)
qed auto

lemma version_less_precedes:
  assumes "sv_valid v" and "sv_valid w"
  shows "v < w \<longleftrightarrow> semver_precedes v w"
proof -
  have "prerelease_key (sv_prerelease v) < prerelease_key (sv_prerelease w) \<longleftrightarrow>
      sv_prerelease v \<noteq> [] \<and> (sv_prerelease w = [] \<or>
        identifiers_less (map identifier_of (split_on CHR ''.'' (sv_prerelease v)))
                         (map identifier_of (split_on CHR ''.'' (sv_prerelease w))))"
    using assms identifiers_key_less
    by (auto simp: prerelease_key_def sv_valid_def valid_identifiers_def)
  then show ?thesis
    by (auto simp: version_less_key version_key_def semver_precedes_def)
qed

subsection \<open>The grammar of versions\<close>

definition render_version :: "semversion \<Rightarrow> string" where
  "render_version v =
     show_nat (unat (sv_major v)) @ ''.'' @ show_nat (unat (sv_minor v)) @ ''.''
     @ show_nat (unat (sv_patch v))
     @ (if sv_prerelease v = [] then [] else ''-'' @ sv_prerelease v)"

lemma parse_core_number_Inr:
  "parse_core_number s = Inr w \<longleftrightarrow> s = show_nat (unat w)"
proof -
  have "parse_core_number s = Inr w \<longleftrightarrow> canonical_nat s \<and> parse_uint64 s = Some w"
    by (auto simp: parse_core_number_def canonical_nat_def all_digits_def result_simps)
  also have "\<dots> \<longleftrightarrow> s = show_nat (unat w)"
    by (auto simp: parse_uint64_Some show_nat_of_digits)
  finally show ?thesis .
qed

lemma valid_identifiers_chars:
  assumes "valid_identifiers s r" and "c \<in> set s"
  shows "identifier_char c \<or> c = CHR ''.''"
proof -
  have "c \<in> set (join ''.'' (split_on CHR ''.'' s))" using assms by simp
  then obtain p where "c = CHR ''.'' \<or> p \<in> set (split_on CHR ''.'' s) \<and> c \<in> set p"
    using join_in_set[of c "''.''" "split_on CHR ''.'' s"] by auto
  with assms(1) show ?thesis
    by (auto simp: valid_identifiers_def valid_identifier_def list_all_iff)
qed

lemma identifier_char_solid: "identifier_char c \<Longrightarrow> solid c"
  by (auto simp: identifier_char_def solid_def is_digit_def is_upper_def is_lower_def code_def)


text \<open>What may follow the core of a version: a prerelease, then build metadata.\<close>

lemma identifiers_no_plus: "valid_identifiers s r \<Longrightarrow> CHR ''+'' \<notin> set s"
  using valid_identifiers_chars[of s r "CHR ''+''"]
  by (auto simp: identifier_char_def is_digit_def is_upper_def is_lower_def code_def)

lemma show_nat_no_char: "\<not> is_digit c \<Longrightarrow> c \<notin> set (show_nat n)"
  by (rule digits_no_char) simp_all

lemma solid_chars:
  "is_digit c \<Longrightarrow> solid c" "solid (CHR ''.'')" "solid (CHR ''-'')" "solid (CHR ''+'')"
  by (auto simp: solid_def is_digit_def code_def)

lemma not_digit_chars [simp]:
  "\<not> is_digit (CHR ''.'')" "\<not> is_digit (CHR ''-'')" "\<not> is_digit (CHR ''+'')"
  by (auto simp: is_digit_def code_def)

lemma set_show_nat_solid: "c \<in> set (show_nat n) \<Longrightarrow> solid c"
  using all_digits_show_nat[of n] solid_chars(1) by (auto simp: all_digits_def list_all_iff)

lemma set_identifiers_solid: "valid_identifiers s r \<Longrightarrow> c \<in> set s \<Longrightarrow> solid c"
  using valid_identifiers_chars[of s r c] identifier_char_solid solid_chars by blast

lemma set_render_solid: "sv_valid v \<Longrightarrow> c \<in> set (render_version v) \<Longrightarrow> solid c"
  by (auto simp: render_version_def sv_valid_def solid_chars set_show_nat_solid
      set_identifiers_solid split: if_splits)

lemma trim_space_all_solid: "(\<And>c. c \<in> set s \<Longrightarrow> solid c) \<Longrightarrow> trim_space s = s"
  by (cases "s = []") (auto simp: trim_space_solid)

lemma render_neq_Nil [simp]: "render_version v \<noteq> []"
  by (simp add: render_version_def)

definition core_text :: "semversion \<Rightarrow> string" where
  "core_text v = show_nat (unat (sv_major v)) @ CHR ''.'' # show_nat (unat (sv_minor v))
     @ CHR ''.'' # show_nat (unat (sv_patch v))"

lemma core_text_chars: "CHR ''+'' \<notin> set (core_text v)" "CHR ''-'' \<notin> set (core_text v)"
  by (simp_all add: core_text_def show_nat_no_char)

lemma split_core_text:
  "split_on CHR ''.'' (core_text v) =
     [show_nat (unat (sv_major v)), show_nat (unat (sv_minor v)), show_nat (unat (sv_patch v))]"
  by (simp add: core_text_def split_on_append split_on_notin show_nat_no_char)

lemma render_core_text:
  "render_version v = core_text v @ (if sv_prerelease v = [] then [] else CHR ''-'' # sv_prerelease v)"
  by (simp add: render_version_def core_text_def)

lemma split_core_parses:
  "(case split_on CHR ''.'' core of
      [a, b, c] \<Rightarrow>
        bind_r (map_error Invalid_major (parse_core_number a)) (\<lambda>major.
        bind_r (map_error Invalid_minor (parse_core_number b)) (\<lambda>minor.
        bind_r (map_error Invalid_patch (parse_core_number c)) (\<lambda>patch.
        Inr (SemVersion major minor patch pre))))
    | _ \<Rightarrow> Inl Not_three_parts) = Inr v
   \<longleftrightarrow> core = core_text v \<and> sv_prerelease v = pre"
    (is "?parsed = Inr v \<longleftrightarrow> _")
proof
  have map_ok: "map_error f r = Inr x \<longleftrightarrow> r = Inr x" for f :: "number_error \<Rightarrow> version_error" and r x
    by (cases r) (auto simp: map_error_def)
  {
    assume "?parsed = Inr v"
    then obtain a b c where abc: "split_on CHR ''.'' core = [a, b, c]"
      and v: "a = show_nat (unat (sv_major v))" "b = show_nat (unat (sv_minor v))"
        "c = show_nat (unat (sv_patch v))" "sv_prerelease v = pre"
      by (auto simp: result_simps map_ok parse_core_number_Inr split: list.splits)
    have "core = join ''.'' [a, b, c]" by (metis abc join_split_on)
    with v show "core = core_text v \<and> sv_prerelease v = pre"
      by (simp add: core_text_def)
  next
    assume "core = core_text v \<and> sv_prerelease v = pre"
    then show "?parsed = Inr v"
      by (cases v) (simp add: split_core_text result_simps map_ok parse_core_number_Inr)
  }
qed

lemma cut_render:
  "sv_valid v \<Longrightarrow> cut CHR ''-'' (render_version v) =
     (core_text v, sv_prerelease v, sv_prerelease v \<noteq> [])"
  by (simp add: render_core_text cut_append cut_notin core_text_chars)

lemma render_no_plus: "sv_valid v \<Longrightarrow> CHR ''+'' \<notin> set (render_version v)"
  by (auto simp: render_core_text sv_valid_def core_text_chars dest: identifiers_no_plus)

definition parse_release :: "string \<Rightarrow> (version_error, semversion) result" where
  "parse_release without_build =
     (case cut CHR ''-'' without_build of (core, prerelease, has_prerelease) \<Rightarrow>
          if has_prerelease \<and> \<not> valid_identifiers prerelease True
          then Inl Invalid_prerelease
          else case split_on CHR ''.'' core of
              [a, b, c] \<Rightarrow>
                bind_r (map_error Invalid_major (parse_core_number a)) (\<lambda>major.
                bind_r (map_error Invalid_minor (parse_core_number b)) (\<lambda>minor.
                bind_r (map_error Invalid_patch (parse_core_number c)) (\<lambda>patch.
                Inr (SemVersion major minor patch prerelease))))
            | _ \<Rightarrow> Inl Not_three_parts)"

lemma parse_release_Inr: "parse_release s = Inr v \<longleftrightarrow> sv_valid v \<and> s = render_version v"
proof (cases rule: cut_cases[of s "CHR ''-''"])
  case (found a b)
  then have "parse_release s = Inr v \<longleftrightarrow> valid_identifiers b True \<and> a = core_text v \<and> sv_prerelease v = b"
    by (simp add: parse_release_def split_core_parses)
  also have "\<dots> \<longleftrightarrow> sv_valid v \<and> s = render_version v"
  proof -
    have "b \<noteq> []" if "valid_identifiers b True" using that by (simp add: valid_identifiers_def)
    moreover have "a = core_text v \<and> sv_prerelease v = b" if "sv_valid v" and "s = render_version v"
      using cut_render[OF that(1)] found that(2) by simp
    ultimately show ?thesis
      using found by (auto simp: sv_valid_def render_core_text)
  qed
  finally show ?thesis .
next
  case missing
  then show ?thesis
    using cut_render[of v] by (auto simp: parse_release_def split_core_parses sv_valid_def render_core_text)
qed

lemma parse_sem_version_Inr:
  "parse_sem_version s = Inr v \<longleftrightarrow>
     sv_valid v \<and> (s = render_version v \<or>
                   (\<exists>build. valid_identifiers build False \<and> s = render_version v @ ''+'' @ build))"
proof -
  have unfold: "parse_sem_version s =
      (if s = [] \<or> trim_space s \<noteq> s then Inl Version_empty_or_space
       else case cut CHR ''+'' s of (r, build, has_build) \<Rightarrow>
         if has_build \<and> (contains build ''+'' \<or> \<not> valid_identifiers build False)
         then Inl Invalid_build else parse_release r)"
    by (simp only: parse_sem_version_def parse_release_def)
  have trimmed: "trim_space (render_version v) = render_version v" if "sv_valid v"
    using set_render_solid[OF that] by (rule trim_space_all_solid)
  have trimmed_build: "trim_space (render_version v @ CHR ''+'' # b) = render_version v @ CHR ''+'' # b"
    if "sv_valid v" "valid_identifiers b False" for b
    using set_render_solid[OF that(1)] set_identifiers_solid[OF that(2)] solid_chars(4)
    by (intro trim_space_all_solid) auto
  have no_plus: "\<not> contains b ''+''" if "valid_identifiers b False" for b
    using identifiers_no_plus[OF that] by (auto simp: contains_iff)
  show ?thesis
  proof (cases rule: cut_cases[of s "CHR ''+''"])
    case (found a b)
    then have "parse_sem_version s = Inr v \<longleftrightarrow>
        trim_space s = s \<and> valid_identifiers b False \<and> sv_valid v \<and> a = render_version v"
      unfolding unfold using no_plus by (auto simp: parse_release_Inr)
    moreover have "s = render_version v @ ''+'' @ build \<longleftrightarrow> a = render_version v \<and> b = build"
      if "sv_valid v" for build
      using cut_append[OF render_no_plus[OF that], of build] found by auto
    moreover have "s \<noteq> render_version v" if "sv_valid v"
      using render_no_plus[OF that] found(1) by (metis in_set_conv_decomp)
    moreover have "trim_space s = s" if "sv_valid v" "valid_identifiers b False" "a = render_version v"
      using trimmed_build[OF that(1,2)] that(3) found(1) by simp
    ultimately show ?thesis by blast
  next
    case missing
    have nonempty: "render_version v \<noteq> []" by simp
    from missing trimmed show ?thesis
      unfolding unfold using nonempty by (auto simp: parse_release_Inr simp del: render_neq_Nil)
  qed
qed


subsection \<open>Constraints in the order of versions\<close>

lemma constraint_matches_order:
  "constraint_matches c v \<longleftrightarrow>
     (if ec_operator c = ''='' then v = ec_base c
      else if ec_operator c = ''>='' then ec_base c \<le> v
      else if ec_operator c = ''^'' then ec_base c \<le> v \<and> v < caret_upper_bound c
      else if ec_operator c = ''~'' then ec_base c \<le> v \<and> v < tilde_upper_bound c
      else False)"
  by (simp add: constraint_matches_def compare_version_uint compare_uint_ge compare_uint_neg Let_def)

lemma parse_constraint_Inr:
  "parse_constraint s = Inr c \<Longrightarrow>
     ec_raw c = s \<and> ec_operator c \<in> set constraint_operators \<and> sv_valid (ec_base c) \<and>
     (ec_operator c = ''^'' \<longrightarrow> sv_major (ec_base c) \<noteq> -1 \<and>
        (sv_major (ec_base c) = 0 \<longrightarrow> sv_minor (ec_base c) \<noteq> -1 \<and>
           (sv_minor (ec_base c) = 0 \<longrightarrow> sv_patch (ec_base c) \<noteq> -1))) \<and>
     (ec_operator c = ''~'' \<longrightarrow> sv_minor (ec_base c) \<noteq> -1)"
  by (auto simp: parse_constraint_def result_simps map_error_def parse_sem_version_Inr find_Some_iff
      split: if_splits option.splits sum.splits)

lemma unat_inc: "w \<noteq> (-1 :: 64 word) \<Longrightarrow> unat (w + 1) = Suc (unat w)"
proof -
  assume "w \<noteq> -1"
  then have "1 + w \<noteq> 0" by (metis add.commute add_eq_0_iff)
  then show ?thesis by (metis add.commute unatSuc)
qed

lemma word_less_inc: "w \<noteq> (-1 :: 64 word) \<Longrightarrow> w < w + 1"
  by (simp add: word_less_nat_alt unat_inc)

lemma word_between: "w \<noteq> (-1 :: 64 word) \<Longrightarrow> x < w + 1 \<longleftrightarrow> x \<le> w"
  by (auto simp: word_less_nat_alt word_le_nat_alt unat_inc)

lemma base_below_caret:
  assumes "parse_constraint s = Inr c" and "ec_operator c = ''^''"
  shows "ec_base c < caret_upper_bound c"
  using parse_constraint_Inr[OF assms(1)] assms(2)
  by (auto simp: version_less_key version_key_def caret_upper_bound_def Let_def word_less_inc)

lemma base_below_tilde:
  assumes "parse_constraint s = Inr c" and "ec_operator c = ''~''"
  shows "ec_base c < tilde_upper_bound c"
  using parse_constraint_Inr[OF assms(1)] assms(2)
  by (auto simp: version_less_key version_key_def tilde_upper_bound_def word_less_inc)

text \<open>
  Where the engine is a release, a caret admits exactly the versions from the base on that
  agree with it up to its leftmost non-zero number, and a tilde those that agree in major
  and minor.
\<close>

lemma caret_release:
  assumes "parse_constraint s = Inr c" and "ec_operator c = ''^''" and "sv_prerelease v = []"
  shows "v < caret_upper_bound c \<and> ec_base c \<le> v \<longleftrightarrow>
    ec_base c \<le> v \<and>
    (if sv_major (ec_base c) \<noteq> 0 then sv_major v = sv_major (ec_base c)
     else if sv_minor (ec_base c) \<noteq> 0 then sv_major v = 0 \<and> sv_minor v = sv_minor (ec_base c)
     else sv_major v = 0 \<and> sv_minor v = 0 \<and> sv_patch v = sv_patch (ec_base c))"
  using parse_constraint_Inr[OF assms(1)] assms(2,3)
  by (auto simp: version_le_key version_less_key version_key_def caret_upper_bound_def Let_def
      word_between prerelease_key_def not_less_iff_gr_or_eq)


text \<open>Evaluation of the validity predicates on concrete text.\<close>

lemmas semver_eval = sv_valid_def valid_identifiers_def valid_identifier_def identifier_char_def
  is_digit_def is_upper_def is_lower_def code_def

text \<open>C33: Strict SemVer: the parser accepts exactly the rendering of a version whose prerelease is
  empty or a valid dotted list without numeric leading zeros, optionally followed by valid
  build metadata, and returns that version; in particular parsing a rendered version gives
  the version back and no number is ever out of its 64 bits.\<close>
theorem parse_sem_version_grammar:
  "parse_sem_version s = Inr v \<longleftrightarrow>
     sv_valid v \<and> (s = render_version v \<or>
                   (\<exists>build. valid_identifiers build False \<and> s = render_version v @ ''+'' @ build))"
  by (rule parse_sem_version_Inr)

text \<open>C34: The comparison of two parsed versions is SemVer 2.0.0 precedence: it is -1, 1 or 0 as
  the first version precedes the second, follows it, or is the same version (build metadata
  aside), with numeric identifiers compared as numbers.\<close>
theorem compare_version_precedence:
  assumes "parse_sem_version s = Inr v" and "parse_sem_version t = Inr w"
  shows "compare_version v w =
      (if semver_precedes v w then -1 else if semver_precedes w v then 1 else 0) \<and>
    (compare_version v w = 0 \<longleftrightarrow> v = w)"
proof -
  have "sv_valid v" "sv_valid w"
    using assms by (auto simp: parse_sem_version_Inr)
  then show ?thesis
    by (auto simp: compare_version_uint compare_uint_def version_less_precedes [symmetric])
qed

theorem compare_version_precedence_witness:
  "parse_sem_version ''1.0.0-rc.9'' = Inr (SemVersion 1 0 0 ''rc.9'') \<and>
   parse_sem_version ''1.0.0-rc.10'' = Inr (SemVersion 1 0 0 ''rc.10'') \<and>
   compare_version (SemVersion 1 0 0 ''rc.9'') (SemVersion 1 0 0 ''rc.10'') =
     (if semver_precedes (SemVersion 1 0 0 ''rc.9'') (SemVersion 1 0 0 ''rc.10'') then -1
      else if semver_precedes (SemVersion 1 0 0 ''rc.10'') (SemVersion 1 0 0 ''rc.9'') then 1 else 0)"
proof -
  have p: "parse_sem_version ''1.0.0-rc.9'' = Inr (SemVersion 1 0 0 ''rc.9'')"
    and q: "parse_sem_version ''1.0.0-rc.10'' = Inr (SemVersion 1 0 0 ''rc.10'')"
    by (simp_all add: parse_sem_version_Inr render_version_def go_simps semver_eval)
  show ?thesis using p q compare_version_precedence[OF p q] by simp
qed


lemma map_error_Inr [result_simps]: "map_error f r = Inr x \<longleftrightarrow> r = Inr x"
  by (cases r) (auto simp: map_error_def)

lemma parse_constraint_caret_eval:
  "parse_sem_version t = Inr v \<Longrightarrow> trim_space (''^'' @ t) = ''^'' @ t \<Longrightarrow>
     sv_major v \<noteq> -1 \<Longrightarrow> sv_major v \<noteq> 0 \<Longrightarrow>
     parse_constraint (''^'' @ t) = Inr (EngineConstraint (''^'' @ t) ''^'' v)"
  by (simp add: parse_constraint_def constraint_operators_def has_prefix_def trim_prefix_def map_error_def)

text \<open>An accepted constraint is satisfiable by its own base version whatever its operator, and
  a caret or tilde interval is never empty: the parser refuses every base whose upper bound
  would wrap around 64 bits.\<close>
theorem parse_constraint_admits_base:
  assumes "parse_constraint s = Inr c"
  shows "constraint_matches c (ec_base c) \<and>
    (ec_operator c = ''^'' \<longrightarrow> ec_base c < caret_upper_bound c) \<and>
    (ec_operator c = ''~'' \<longrightarrow> ec_base c < tilde_upper_bound c)"
  using parse_constraint_Inr[OF assms] base_below_caret[OF assms] base_below_tilde[OF assms]
  by (auto simp: constraint_matches_order constraint_operators_def)

lemma witness_constraint:
  "parse_constraint ''^1.2.3'' = Inr (EngineConstraint ''^1.2.3'' ''^'' (SemVersion 1 2 3 []))"
proof -
  have "parse_sem_version ''1.2.3'' = Inr (SemVersion 1 2 3 [])"
    by (simp add: parse_sem_version_Inr render_version_def go_simps semver_eval)
  moreover have "trim_space (''^'' @ ''1.2.3'') = ''^'' @ ''1.2.3''"
    by (rule trim_space_solid) (simp add: solid_def code_def)
  ultimately show ?thesis
    using parse_constraint_caret_eval[of "''1.2.3''" "SemVersion 1 2 3 []"] by simp
qed

theorem parse_constraint_admits_base_witness:
  "constraint_matches (EngineConstraint ''^1.2.3'' ''^'' (SemVersion 1 2 3 [])) (SemVersion 1 2 3 []) \<and>
   SemVersion 1 2 3 [] < caret_upper_bound (EngineConstraint ''^1.2.3'' ''^'' (SemVersion 1 2 3 []))"
  using parse_constraint_admits_base[OF witness_constraint] by simp

text \<open>For release engines a caret constraint means what SemVer users expect: the engine is at
  least the base and agrees with it up to the leftmost non-zero number.\<close>
theorem caret_matches_release:
  assumes "parse_constraint s = Inr c" and "ec_operator c = ''^''" and "sv_prerelease v = []"
  shows "constraint_matches c v \<longleftrightarrow>
    ec_base c \<le> v \<and>
    (if sv_major (ec_base c) \<noteq> 0 then sv_major v = sv_major (ec_base c)
     else if sv_minor (ec_base c) \<noteq> 0 then sv_major v = 0 \<and> sv_minor v = sv_minor (ec_base c)
     else sv_major v = 0 \<and> sv_minor v = 0 \<and> sv_patch v = sv_patch (ec_base c))"
  using caret_release[OF assms] assms(2) by (auto simp: constraint_matches_order)

theorem caret_matches_release_witness:
  "constraint_matches (EngineConstraint ''^1.2.3'' ''^'' (SemVersion 1 2 3 [])) (SemVersion 1 9 0 []) \<and>
   \<not> constraint_matches (EngineConstraint ''^1.2.3'' ''^'' (SemVersion 1 2 3 [])) (SemVersion 2 0 0 [])"
  using caret_matches_release[OF witness_constraint, of "SemVersion 1 9 0 []"]
    caret_matches_release[OF witness_constraint, of "SemVersion 2 0 0 []"]
  by (simp add: version_le_key version_key_def)

text \<open>
  The interval is in the order of versions, so a prerelease of the next major version lies
  below its upper bound and is admitted.
\<close>

lemma caret_admits_next_major_prerelease:
  "constraint_matches (EngineConstraint ''^1.2.3'' ''^'' (SemVersion 1 2 3 [])) (SemVersion 2 0 0 ''rc.1'')"
  by (simp add: constraint_matches_order version_le_key version_less_key version_key_def
      caret_upper_bound_def prerelease_key_def)

lemma release_not_development: "sv_prerelease v = [] \<Longrightarrow> \<not> is_development_prerelease v"
  by (simp add: is_development_prerelease_def to_lower_def)

lemma dev_not_version: "parse_sem_version ''dev'' \<noteq> Inr v"
  using core_text_chars(2)[of v]
  by (auto simp: parse_sem_version_Inr render_core_text core_text_def Cons_eq_append_conv
      dest!: arg_cong[of _ _ "\<lambda>s. CHR ''.'' \<in> set s"])

text \<open>Release evidence is fail-closed: a compatibility report is eligible exactly when the
  constraint parses, the trimmed engine version is strict SemVer without a prerelease, and it
  satisfies the constraint. Development builds, prereleases, unparsable versions and
  incompatible engines are never eligible.\<close>
theorem release_evidence_eligibility:
  "ecomp_release_evidence_eligible (fst (check_engine_compatibility m engine)) \<longleftrightarrow>
     (\<exists>c v. parse_constraint (pm_engine_constraint m) = Inr c \<and>
            parse_sem_version (trim_space engine) = Inr v \<and>
            sv_prerelease v = [] \<and> constraint_matches c v)"
  using dev_not_version
  by (auto simp: check_engine_compatibility_def Let_def no_compatibility_def release_not_development
      development_compatibility_def split: sum.splits)

text \<open>The engine check reports the incompatible status exactly when it returns the
  incompatibility error, and an engine it accepts without an error is either an unverified
  development build or a parsed version inside the constraint.\<close>
theorem check_engine_compatibility_outcome:
  "(snd (check_engine_compatibility m engine) = None \<longleftrightarrow>
     (\<exists>c. parse_constraint (pm_engine_constraint m) = Inr c \<and>
        (trim_space engine = ''dev'' \<or>
         (\<exists>v. parse_sem_version (trim_space engine) = Inr v \<and>
              (is_development_prerelease v \<or> constraint_matches c v))))) \<and>
   (ecomp_status (fst (check_engine_compatibility m engine)) = ''incompatible'' \<longleftrightarrow>
     (\<exists>pid ev raw d. snd (check_engine_compatibility m engine) =
        Some (Engine_incompatible pid ev raw d)))"
  using dev_not_version
  by (auto simp: check_engine_compatibility_def Let_def no_compatibility_def
      development_compatibility_def split: sum.splits if_splits)

end
