(* ===== verification/RunState.thy ===== *)
theory RunState
  imports EnvFile GoJson Semver
begin

section \<open>The manifest and the verdict of a run\<close>

text \<open>
  \<^verbatim>\<open>internal/runstate/state.go\<close>: what a run records of itself. The environment is a function, the
  content of files and the running platform are arguments; the functions that write a file return its
  content. \<open>%q\<close> renderings in error texts are arguments of error constructors.
\<close>

subsection \<open>Data\<close>

record manifest =
  mf_schema_version :: string
  mf_artifact_type :: string
  mf_run_id :: string
  mf_started_at :: string
  mf_experiment_spec :: string
  mf_experiment_spec_id :: string
  mf_experiment_spec_ref :: string
  mf_experiment_spec_digest :: string
  mf_source_spec_kind :: string
  mf_source_spec_id :: string
  mf_source_spec_ref :: string
  mf_source_spec_digest :: string
  mf_execution_parameters_digest :: string
  mf_runtime_ports_digest :: string
  mf_experiment_identity_digest :: string
  mf_runtime :: string
  mf_engine_version :: string
  mf_engine_commit :: string
  mf_pack_id :: string
  mf_pack_version :: string
  mf_pack_digest :: string
  mf_runtime_fingerprint_status :: string
  mf_runtime_fingerprint_target :: string
  mf_runtime_os :: string
  mf_runtime_arch :: string
  mf_postgres_server_version_num :: string
  mf_postgres_server_major :: string
  mf_runtime_fingerprint_at :: string
  mf_experiment_name :: string
  mf_experiment_topology :: string
  mf_experiment_pg_config :: string
  mf_profile :: string
  mf_dataset_spec :: string
  mf_profile_size :: string
  mf_workload_spec :: string
  mf_background_specs :: string
  mf_metrics_enabled :: string
  mf_metrics_samples :: string
  mf_artifact_root :: string
  mf_run_dir :: string

record verdict =
  vd_schema_version :: string
  vd_artifact_type :: string
  vd_run_id :: string
  vd_status :: string
  vd_message :: string
  vd_started_at :: string
  vd_finished_at :: string
  vd_experiment_spec_id :: string
  vd_experiment_spec_digest :: string
  vd_experiment_identity_digest :: string
  vd_manifest_digest :: string
  vd_artifact_root :: string
  vd_run_dir :: string
  vd_workload_exit :: int
  vd_assert_exit :: int
  vd_scan_exit :: int

record identity =
  id_spec_id :: string
  id_topology :: string
  id_pg_config :: string
  id_profile :: string
  id_dataset_spec :: string
  id_profile_size :: string
  id_workload_spec :: string
  id_background_specs :: string
  id_metrics_enabled :: string
  id_metrics_samples :: string
  id_runtime :: string
  id_engine_version :: string
  id_engine_commit :: string
  id_pack_id :: string
  id_pack_version :: string
  id_pack_digest :: string
  id_source_spec_kind :: string
  id_source_spec_id :: string
  id_source_spec_ref :: string
  id_source_spec_digest :: string
  id_runtime_fingerprint_status :: string
  id_runtime_fingerprint_target :: string
  id_runtime_os :: string
  id_runtime_arch :: string
  id_postgres_server_version_num :: string
  id_postgres_server_major :: string
  id_execution_parameters_digest :: string
  id_runtime_ports_digest :: string

definition effective_parameter_keys :: "string list" where
  "effective_parameter_keys =
     [''EXPERIMENT_TOPOLOGY'', ''EXPERIMENT_PG_CONFIG'', ''EXPERIMENT_PROFILE'',
      ''EXPERIMENT_PROFILE_SIZE'', ''EXPERIMENT_PROFILE_SECONDS'', ''EXPERIMENT_PROFILE_SETUP'',
      ''EXPERIMENT_PROFILE_RUN'', ''EXPERIMENT_PROFILE_RUN_SQL'', ''EXPERIMENT_DATASET_SPEC'',
      ''EXPERIMENT_DATASET_SIZE'', ''EXPERIMENT_WORKLOAD_SPEC'', ''EXPERIMENT_BACKGROUND_SPECS'',
      ''EXPERIMENT_BACKGROUND_WARMUP'', ''EXPERIMENT_BACKGROUND_WAIT'',
      ''EXPERIMENT_BEFORE_SQL_FILES'', ''EXPERIMENT_BEFORE_SQL'', ''EXPERIMENT_BEFORE_SHELL'',
      ''EXPERIMENT_AFTER_SQL_FILES'', ''EXPERIMENT_AFTER_SQL'', ''EXPERIMENT_AFTER_SHELL'',
      ''EXPERIMENT_ASSERT_SQL_FILES'', ''EXPERIMENT_ASSERT_SQL'', ''EXPERIMENT_ASSERT_TRUE_SQL'',
      ''EXPERIMENT_ASSERT_SHELL'', ''EXPERIMENT_METRICS'', ''EXPERIMENT_METRICS_INTERVAL'',
      ''EXPERIMENT_METRICS_DURATION'', ''EXPERIMENT_METRICS_SAMPLES'', ''EXPERIMENT_SNAPSHOT'',
      ''EXPERIMENT_RUNTIME_RESET'', ''EXPERIMENT_DOCKER_RESET'', ''EXPERIMENT_CAPTURE_FILES'',
      ''EXPERIMENT_SCAN_PATHS'', ''PROFILE_SIZE'', ''PROFILE_SECONDS'', ''DATASET_SIZE'',
      ''PG_CONFIG'', ''PGWORKBENCH_RUNTIME'', ''PGWORKBENCH_NATIVE_TOOLCHAIN_DIGEST'',
      ''PGWORKBENCH_EXECUTION_TIMEOUT'', ''PGWORKBENCH_CLEANUP_GRACE'', ''PGBENCH_RESET'',
      ''PGBENCH_INIT'', ''PGBENCH_SCALE'', ''PGBENCH_CLIENTS'', ''PGBENCH_THREADS'',
      ''PGBENCH_TIME'', ''PGBENCH_TRANSACTIONS'', ''PGBENCH_WARMUP_TIME'', ''PGBENCH_SCRIPT'',
      ''PGBENCH_MODE'', ''PGBENCH_PROTOCOL'', ''PGBENCH_CONNECT_PER_TRANSACTION'', ''PGBENCH_RATE'',
      ''PGBENCH_LATENCY_LIMIT'', ''PGBENCH_RANDOM_SEED'', ''PGBENCH_WARMUP_RANDOM_SEED'',
      ''PGBENCH_MEASURE_RANDOM_SEED'', ''PGBENCH_MAX_TRIES'', ''PGBENCH_PROGRESS'',
      ''PGBENCH_LOG_TRANSACTIONS'', ''PGBENCH_LOG_SAMPLE_RATE'', ''PGBENCH_EXTRA_ARGS'',
      ''PGBENCH_TARGET'', ''PGBOUNCER_HOST'', ''PGBOUNCER_PORT'', ''PGBOUNCER_IMAGE'',
      ''PGBOUNCER_POOL_MODE'', ''PGBOUNCER_AUTH_TYPE'', ''PGBOUNCER_MAX_CLIENT_CONN'',
      ''PGBOUNCER_DEFAULT_POOL_SIZE'', ''PGBOUNCER_MIN_POOL_SIZE'', ''PGBOUNCER_RESERVE_POOL_SIZE'',
      ''PGBOUNCER_IGNORE_STARTUP_PARAMETERS'', ''PGBOUNCER_ADMIN_USERS'', ''PGBOUNCER_STATS_USERS'']"

text \<open>The members in the order of the struct; an empty digest of the ports is omitted.\<close>

definition identity_entries :: "identity \<Rightarrow> (string \<times> string) list" where
  "identity_entries i =
     [(''spec_id'', id_spec_id i),
      (''topology'', id_topology i),
      (''pg_config'', id_pg_config i),
      (''profile'', id_profile i),
      (''dataset_spec'', id_dataset_spec i),
      (''profile_size'', id_profile_size i),
      (''workload_spec'', id_workload_spec i),
      (''background_specs'', id_background_specs i),
      (''metrics_enabled'', id_metrics_enabled i),
      (''metrics_samples'', id_metrics_samples i),
      (''runtime'', id_runtime i),
      (''engine_version'', id_engine_version i),
      (''engine_commit'', id_engine_commit i),
      (''pack_id'', id_pack_id i),
      (''pack_version'', id_pack_version i),
      (''pack_digest'', id_pack_digest i),
      (''source_spec_kind'', id_source_spec_kind i),
      (''source_spec_id'', id_source_spec_id i),
      (''source_spec_ref'', id_source_spec_ref i),
      (''source_spec_digest'', id_source_spec_digest i),
      (''runtime_fingerprint_status'', id_runtime_fingerprint_status i),
      (''runtime_fingerprint_target'', id_runtime_fingerprint_target i),
      (''runtime_os'', id_runtime_os i),
      (''runtime_arch'', id_runtime_arch i),
      (''postgres_server_version_num'', id_postgres_server_version_num i),
      (''postgres_server_major'', id_postgres_server_major i),
      (''execution_parameters_digest'', id_execution_parameters_digest i)] @
     (if id_runtime_ports_digest i = [] then []
      else [(''runtime_ports_digest'', id_runtime_ports_digest i)])"

definition manifest_v1_entries :: "manifest \<Rightarrow> (string \<times> string) list" where
  "manifest_v1_entries m =
     [(''schema_version'', mf_schema_version m),
      (''artifact_type'', mf_artifact_type m),
      (''run_id'', mf_run_id m),
      (''started_at'', mf_started_at m),
      (''experiment_spec'', mf_experiment_spec m),
      (''experiment_spec_id'', mf_experiment_spec_id m),
      (''experiment_spec_ref'', mf_experiment_spec_ref m),
      (''experiment_spec_digest'', mf_experiment_spec_digest m),
      (''source_spec_kind'', mf_source_spec_kind m),
      (''source_spec_id'', mf_source_spec_id m),
      (''source_spec_ref'', mf_source_spec_ref m),
      (''source_spec_digest'', mf_source_spec_digest m),
      (''execution_parameters_digest'', mf_execution_parameters_digest m),
      (''experiment_identity_digest'', mf_experiment_identity_digest m),
      (''runtime'', mf_runtime m),
      (''engine_version'', mf_engine_version m),
      (''engine_commit'', mf_engine_commit m),
      (''pack_id'', mf_pack_id m),
      (''pack_version'', mf_pack_version m),
      (''pack_digest'', mf_pack_digest m),
      (''runtime_fingerprint_status'', mf_runtime_fingerprint_status m),
      (''runtime_fingerprint_target'', mf_runtime_fingerprint_target m),
      (''runtime_os'', mf_runtime_os m),
      (''runtime_arch'', mf_runtime_arch m),
      (''postgres_server_version_num'', mf_postgres_server_version_num m),
      (''postgres_server_major'', mf_postgres_server_major m),
      (''runtime_fingerprint_observed_at'', mf_runtime_fingerprint_at m),
      (''experiment_name'', mf_experiment_name m),
      (''experiment_topology'', mf_experiment_topology m),
      (''experiment_pg_config'', mf_experiment_pg_config m),
      (''profile'', mf_profile m),
      (''dataset_spec'', mf_dataset_spec m),
      (''profile_size'', mf_profile_size m),
      (''workload_spec'', mf_workload_spec m),
      (''background_specs'', mf_background_specs m),
      (''metrics_enabled'', mf_metrics_enabled m),
      (''metrics_samples'', mf_metrics_samples m),
      (''artifact_root'', mf_artifact_root m),
      (''run_dir'', ''.'')]"

definition verdict_entries :: "verdict \<Rightarrow> (string \<times> string) list" where
  "verdict_entries v =
     [(''schema_version'', vd_schema_version v),
      (''artifact_type'', vd_artifact_type v),
      (''run_id'', vd_run_id v),
      (''status'', vd_status v),
      (''message'', vd_message v),
      (''started_at'', vd_started_at v),
      (''finished_at'', vd_finished_at v),
      (''experiment_spec_id'', vd_experiment_spec_id v),
      (''experiment_spec_digest'', vd_experiment_spec_digest v),
      (''experiment_identity_digest'', vd_experiment_identity_digest v),
      (''manifest_digest'', vd_manifest_digest v),
      (''artifact_root'', vd_artifact_root v),
      (''run_dir'', vd_run_dir v),
      (''workload_exit'', show_int (vd_workload_exit v)),
      (''assert_exit'', show_int (vd_assert_exit v)),
      (''scan_exit'', show_int (vd_scan_exit v))]"

text \<open>The members of \<open>verdict.json\<close>; the tag \<open>omitempty\<close> leaves out empty strings.\<close>

definition string_member :: "string \<Rightarrow> string \<Rightarrow> (string \<times> string) list" where
  "string_member k v = [(k, json_string v)]"

definition optional_member :: "string \<Rightarrow> string \<Rightarrow> (string \<times> string) list" where
  "optional_member k v = (if v = [] then [] else [(k, json_string v)])"

definition int_member :: "string \<Rightarrow> int \<Rightarrow> (string \<times> string) list" where
  "int_member k n = [(k, show_int n)]"

definition verdict_json :: "verdict \<Rightarrow> string" where
  "verdict_json v =
     json_object_indented
      (optional_member ''schema_version'' (vd_schema_version v) @
       optional_member ''artifact_type'' (vd_artifact_type v) @
       string_member ''run_id'' (vd_run_id v) @
       string_member ''status'' (vd_status v) @
       string_member ''message'' (vd_message v) @
       string_member ''started_at'' (vd_started_at v) @
       string_member ''finished_at'' (vd_finished_at v) @
       string_member ''experiment_spec'' (vd_experiment_spec_id v) @
       optional_member ''experiment_spec_digest'' (vd_experiment_spec_digest v) @
       optional_member ''experiment_identity_digest'' (vd_experiment_identity_digest v) @
       optional_member ''manifest_digest'' (vd_manifest_digest v) @
       optional_member ''artifact_root'' (vd_artifact_root v) @
       string_member ''run_dir'' (vd_run_dir v) @
       int_member ''workload_exit'' (vd_workload_exit v) @
       int_member ''assert_exit'' (vd_assert_exit v) @
       int_member ''scan_exit'' (vd_scan_exit v)) @ [CHR 0x0A]"

definition identity_digest :: "identity \<Rightarrow> string" where
  "identity_digest i = digest_bytes (string_object (identity_entries i))"

subsection \<open>Normal forms\<close>

definition int_from_env :: "(string \<Rightarrow> string) \<Rightarrow> string \<Rightarrow> int" where
  "int_from_env getenv key =
     (let v = getenv key
      in if v = [] then 0 else (case parse_int64 v of None \<Rightarrow> 0 | Some n \<Rightarrow> n))"

definition canonical_digest :: "string \<Rightarrow> string" where
  "canonical_digest raw =
     (let v = trim_space raw
      in if v = [] \<or> is_digest v then v
         else if is_digest (digest_prefix @ v) then digest_prefix @ v
         else v)"

text \<open>\<open>engineVersionPattern\<close>: SemVer with numbers of any length.\<close>

definition engine_version_pattern :: "string \<Rightarrow> bool" where
  "engine_version_pattern v =
     (case cut (CHR ''+'') v of (before_build, build, has_build) \<Rightarrow>
      case cut (CHR ''-'') before_build of (core, prerelease, has_prerelease) \<Rightarrow>
        (has_build \<longrightarrow> valid_identifiers build False) \<and>
        (has_prerelease \<longrightarrow> valid_identifiers prerelease True) \<and>
        length (split_on (CHR ''.'') core) = 3 \<and> list_all canonical_nat (split_on (CHR ''.'') core))"

definition engine_commit_pattern :: "string \<Rightarrow> bool" where
  "engine_commit_pattern v = (list_all is_hex_lower v \<and> (length v = 40 \<or> length v = 64))"

definition unverified :: string where
  "unverified = ''unverified''"

definition is_engine_version :: "string \<Rightarrow> bool" where
  "is_engine_version v = (v = unverified \<or> engine_version_pattern v)"

definition is_engine_commit :: "string \<Rightarrow> bool" where
  "is_engine_commit v = (v = unverified \<or> engine_commit_pattern v)"

definition normalize_engine_version :: "string \<Rightarrow> string" where
  "normalize_engine_version raw = (let v = trim_space raw in if is_engine_version v then v else unverified)"

definition normalize_engine_commit :: "string \<Rightarrow> string" where
  "normalize_engine_commit raw =
     (let v = to_lower (trim_space raw) in if is_engine_commit v then v else unverified)"

definition default_fingerprint_target :: "string \<Rightarrow> string" where
  "default_fingerprint_target topology =
     (if topology = ''multi-version-upgrade'' then ''upgrade-new'' else ''primary'')"

definition fingerprint_unavailable :: string where
  "fingerprint_unavailable = ''unavailable''"

definition fingerprint_observed :: string where
  "fingerprint_observed = ''observed''"

definition manifest_v1 :: string where
  "manifest_v1 = ''pgworkbench.run-manifest/v1''"

definition manifest_v2 :: string where
  "manifest_v2 = ''pgworkbench.run-manifest/v2''"

definition is_manifest_schema_version :: "string \<Rightarrow> bool" where
  "is_manifest_schema_version v = (v = manifest_v1 \<or> v = manifest_v2)"

definition effective_parameters_digest :: "(string \<Rightarrow> string) \<Rightarrow> string" where
  "effective_parameters_digest getenv =
     digest_bytes (string_object (map (\<lambda>k. (k, getenv k)) (sort (remdups effective_parameter_keys))))"

text \<open>The content of a file is the value of \<open>files\<close> at its path; \<open>None\<close> when it cannot be read.\<close>

definition digest_file_or_empty :: "(string \<Rightarrow> string option) \<Rightarrow> string \<Rightarrow> string" where
  "digest_file_or_empty files path =
     (if path = [] then [] else (case files path of None \<Rightarrow> [] | Some content \<Rightarrow> digest_bytes content))"

text \<open>
  \<open>filepath.Rel\<close> where its result does not leave the base: the part of the cleaned path below the
  cleaned base. In all other cases the caller does not use the result.
\<close>

definition path_below :: "string \<Rightarrow> string \<Rightarrow> string option" where
  "path_below base target =
     (let b = path_clean base; t = path_clean target
      in if t = b then None
         else if b = ''.'' then (if has_prefix t ''/'' then None else Some t)
         else let p = (if b = ''/'' then b else b @ ''/'')
              in if has_prefix t p then Some (drop (length p) t) else None)"

definition spec_ref_of_id :: "string \<Rightarrow> string" where
  "spec_ref_of_id spec_id =
     (if spec_id = [] then []
      else ''experiments/'' @
           trim_suffix (trim_prefix (path_clean spec_id) ''experiments/'') ''.env'' @ ''.env'')"

definition usable_ref :: "string \<Rightarrow> bool" where
  "usable_ref rel = (rel \<noteq> ''.'' \<and> rel \<noteq> ''..'' \<and> \<not> has_prefix rel ''../'')"

definition spec_ref_below :: "string \<Rightarrow> string \<Rightarrow> string option" where
  "spec_ref_below repo spec_path =
     (if repo = [] then None
      else case path_below repo spec_path of
             None \<Rightarrow> None
           | Some rel \<Rightarrow> if usable_ref rel then Some (path_clean rel) else None)"

definition portable_spec_ref :: "string \<Rightarrow> string \<Rightarrow> string \<Rightarrow> string" where
  "portable_spec_ref spec_path repo spec_id =
     (if spec_path = [] then spec_ref_of_id spec_id
      else
        case spec_ref_below repo spec_path of
          Some ref \<Rightarrow> ref
        | None \<Rightarrow>
            if \<not> has_prefix spec_path ''/'' then path_clean spec_path
            else (case split_at_last ''/experiments/'' (path_clean spec_path) of
                    Some (_, after) \<Rightarrow> ''experiments/'' @ after
                  | None \<Rightarrow> spec_ref_of_id spec_id))"

subsection \<open>Identity and defaults\<close>

definition manifest_identity :: "manifest \<Rightarrow> identity" where
  "manifest_identity m =
     \<lparr>id_spec_id = mf_experiment_spec_id m,
      id_topology = value_or (mf_experiment_topology m) ''single'',
      id_pg_config = value_or (mf_experiment_pg_config m) ''default'',
      id_profile = mf_profile m, id_dataset_spec = mf_dataset_spec m,
      id_profile_size = value_or (mf_profile_size m) ''small'',
      id_workload_spec = mf_workload_spec m, id_background_specs = mf_background_specs m,
      id_metrics_enabled = value_or (mf_metrics_enabled m) ''1'',
      id_metrics_samples = mf_metrics_samples m,
      id_runtime = value_or (mf_runtime m) ''docker'',
      id_engine_version = normalize_engine_version (mf_engine_version m),
      id_engine_commit = normalize_engine_commit (mf_engine_commit m),
      id_pack_id = mf_pack_id m, id_pack_version = mf_pack_version m, id_pack_digest = mf_pack_digest m,
      id_source_spec_kind = mf_source_spec_kind m, id_source_spec_id = mf_source_spec_id m,
      id_source_spec_ref = mf_source_spec_ref m, id_source_spec_digest = mf_source_spec_digest m,
      id_runtime_fingerprint_status = value_or (mf_runtime_fingerprint_status m) fingerprint_unavailable,
      id_runtime_fingerprint_target =
        value_or (mf_runtime_fingerprint_target m) (default_fingerprint_target (mf_experiment_topology m)),
      id_runtime_os = mf_runtime_os m, id_runtime_arch = mf_runtime_arch m,
      id_postgres_server_version_num = mf_postgres_server_version_num m,
      id_postgres_server_major = mf_postgres_server_major m,
      id_execution_parameters_digest = mf_execution_parameters_digest m,
      id_runtime_ports_digest = mf_runtime_ports_digest m\<rparr>"

record platform =
  pl_os :: string
  pl_arch :: string

definition apply_plain_defaults :: "manifest \<Rightarrow> manifest" where
  "apply_plain_defaults m =
     m\<lparr>mf_schema_version :=
         value_or (mf_schema_version m)
           (if trim_space (mf_runtime_ports_digest m) \<noteq> [] then manifest_v2 else manifest_v1),
       mf_artifact_type := value_or (mf_artifact_type m) ''pgworkbench.run-manifest'',
       mf_experiment_topology := value_or (mf_experiment_topology m) ''single'',
       mf_experiment_pg_config := value_or (mf_experiment_pg_config m) ''default'',
       mf_profile_size := value_or (mf_profile_size m) ''small'',
       mf_metrics_enabled := value_or (mf_metrics_enabled m) ''1'',
       mf_runtime := value_or (mf_runtime m) ''docker'',
       mf_engine_version := normalize_engine_version (mf_engine_version m),
       mf_engine_commit := normalize_engine_commit (mf_engine_commit m),
       mf_runtime_fingerprint_status := value_or (mf_runtime_fingerprint_status m) fingerprint_unavailable,
       mf_artifact_root := value_or (mf_artifact_root m) ''.''\<rparr>"

definition apply_platform :: "platform \<Rightarrow> manifest \<Rightarrow> manifest" where
  "apply_platform pl m =
     m\<lparr>mf_runtime_fingerprint_target :=
         value_or (mf_runtime_fingerprint_target m) (default_fingerprint_target (mf_experiment_topology m)),
       mf_runtime_os :=
         (if mf_runtime_fingerprint_status m = fingerprint_observed then value_or (mf_runtime_os m) (pl_os pl)
          else mf_runtime_os m),
       mf_runtime_arch :=
         (if mf_runtime_fingerprint_status m = fingerprint_observed then value_or (mf_runtime_arch m) (pl_arch pl)
          else mf_runtime_arch m)\<rparr>"

definition apply_digests :: "(string \<Rightarrow> string option) \<Rightarrow> string \<Rightarrow> manifest \<Rightarrow> manifest" where
  "apply_digests files repo m =
     m\<lparr>mf_experiment_spec_ref :=
         value_or (mf_experiment_spec_ref m)
           (portable_spec_ref (mf_experiment_spec m) repo (mf_experiment_spec_id m)),
       mf_experiment_spec_digest :=
         canonical_digest (value_or (mf_experiment_spec_digest m) (digest_file_or_empty files (mf_experiment_spec m))),
       mf_source_spec_digest := canonical_digest (mf_source_spec_digest m),
       mf_pack_digest := canonical_digest (mf_pack_digest m),
       mf_execution_parameters_digest :=
         value_or (canonical_digest (mf_execution_parameters_digest m)) (digest_bytes ''{}''),
       mf_runtime_ports_digest := canonical_digest (mf_runtime_ports_digest m)\<rparr>"

definition apply_identity :: "manifest \<Rightarrow> manifest" where
  "apply_identity m =
     m\<lparr>mf_experiment_identity_digest :=
         value_or (mf_experiment_identity_digest m) (identity_digest (manifest_identity m))\<rparr>"

definition apply_manifest_defaults ::
  "platform \<Rightarrow> (string \<Rightarrow> string option) \<Rightarrow> string \<Rightarrow> manifest \<Rightarrow> manifest" where
  "apply_manifest_defaults pl files repo m =
     apply_identity (apply_digests files repo (apply_platform pl (apply_plain_defaults m)))"

definition manifest_from_env ::
  "platform \<Rightarrow> (string \<Rightarrow> string option) \<Rightarrow> (string \<Rightarrow> string) \<Rightarrow> manifest" where
  "manifest_from_env pl files getenv =
     (let spec_id = getenv ''EXPERIMENT_SPEC_ID'';
          ports_input = trim_space (getenv ''PGWORKBENCH_RUNTIME_PORTS_DIGEST'');
          ports_digest = canonical_digest ports_input;
          ports = (if ports_input \<noteq> [] \<and> ports_digest = [] then ports_input else ports_digest)
      in apply_manifest_defaults pl files (getenv ''REPO_DIR'')
        \<lparr>mf_schema_version = (if ports_input \<noteq> [] then manifest_v2 else manifest_v1),
         mf_artifact_type = ''pgworkbench.run-manifest'',
         mf_run_id = getenv ''RUN_ID'',
         mf_started_at = getenv ''STARTED_AT'',
         mf_experiment_spec = getenv ''EXPERIMENT_SPEC_FILE'',
         mf_experiment_spec_id = spec_id,
         mf_experiment_spec_ref = getenv ''EXPERIMENT_SPEC_REF'',
         mf_experiment_spec_digest =
           canonical_digest (value_or (getenv ''EXPERIMENT_SPEC_DIGEST'') (getenv ''EXPERIMENT_SPEC_SHA256'')),
         mf_source_spec_kind = getenv ''PGWORKBENCH_SOURCE_SPEC_KIND'',
         mf_source_spec_id = getenv ''PGWORKBENCH_SOURCE_SPEC_ID'',
         mf_source_spec_ref = getenv ''PGWORKBENCH_SOURCE_SPEC_REF'',
         mf_source_spec_digest = canonical_digest (getenv ''PGWORKBENCH_SOURCE_SPEC_DIGEST''),
         mf_execution_parameters_digest = effective_parameters_digest getenv,
         mf_runtime_ports_digest = ports,
         mf_experiment_identity_digest = getenv ''EXPERIMENT_IDENTITY_DIGEST'',
         mf_runtime = value_or (getenv ''PGWORKBENCH_RUNTIME'') ''docker'',
         mf_engine_version = normalize_engine_version (getenv ''PGWORKBENCH_ENGINE_VERSION''),
         mf_engine_commit = normalize_engine_commit (getenv ''PGWORKBENCH_ENGINE_COMMIT''),
         mf_pack_id = getenv ''PGWORKBENCH_PACK_ID'',
         mf_pack_version = getenv ''PGWORKBENCH_PACK_VERSION'',
         mf_pack_digest = canonical_digest (getenv ''PGWORKBENCH_PACK_DIGEST''),
         mf_runtime_fingerprint_status =
           value_or (getenv ''PGWORKBENCH_RUNTIME_FINGERPRINT_STATUS'') fingerprint_unavailable,
         mf_runtime_fingerprint_target = getenv ''PGWORKBENCH_RUNTIME_FINGERPRINT_TARGET'',
         mf_runtime_os = getenv ''PGWORKBENCH_RUNTIME_OS'',
         mf_runtime_arch = getenv ''PGWORKBENCH_RUNTIME_ARCH'',
         mf_postgres_server_version_num = getenv ''PGWORKBENCH_POSTGRES_SERVER_VERSION_NUM'',
         mf_postgres_server_major = getenv ''PGWORKBENCH_POSTGRES_SERVER_MAJOR'',
         mf_runtime_fingerprint_at = getenv ''PGWORKBENCH_RUNTIME_FINGERPRINT_OBSERVED_AT'',
         mf_experiment_name = value_or (getenv ''EXPERIMENT_NAME'') spec_id,
         mf_experiment_topology = value_or (getenv ''EXPERIMENT_TOPOLOGY'') ''single'',
         mf_experiment_pg_config =
           value_or (getenv ''EXPERIMENT_PG_CONFIG'') (value_or (getenv ''PG_CONFIG'') ''default''),
         mf_profile = getenv ''EXPERIMENT_PROFILE'',
         mf_dataset_spec = getenv ''EXPERIMENT_DATASET_SPEC'',
         mf_profile_size =
           value_or (getenv ''EXPERIMENT_PROFILE_SIZE'') (value_or (getenv ''PROFILE_SIZE'') ''small''),
         mf_workload_spec = getenv ''EXPERIMENT_WORKLOAD_SPEC'',
         mf_background_specs = getenv ''EXPERIMENT_BACKGROUND_SPECS'',
         mf_metrics_enabled = value_or (getenv ''EXPERIMENT_METRICS'') ''1'',
         mf_metrics_samples = getenv ''EXPERIMENT_METRICS_SAMPLES'',
         mf_artifact_root = ''.'',
         mf_run_dir = getenv ''RUN_DIR''\<rparr>)"

subsection \<open>Writing the manifest\<close>

definition quote_env_char :: "char \<Rightarrow> string" where
  "quote_env_char c =
     (if c = CHR 0x22 \<or> c = CHR 0x5C \<or> c = CHR 0x60 \<or> c = CHR ''$'' then [CHR 0x5C, c]
      else if c = CHR 0x0A then [CHR 0x5C, CHR ''n'']
      else if c = CHR 0x0D then [CHR 0x5C, CHR ''r'']
      else if c = CHR 0x09 then [CHR 0x5C, CHR ''t'']
      else [c])"

definition quote_env_value :: "string \<Rightarrow> string" where
  "quote_env_value v = [CHR 0x22] @ concat (map quote_env_char v) @ [CHR 0x22]"

datatype manifest_error =
    Run_dir_required
  | V1_with_ports_digest
  | V2_without_ports_digest
  | Unsupported_manifest_schema string

definition check_manifest_schema :: "manifest \<Rightarrow> (manifest_error, unit) result" where
  "check_manifest_schema m =
     (if mf_schema_version m = manifest_v1 then require (mf_runtime_ports_digest m = []) V1_with_ports_digest
      else if mf_schema_version m = manifest_v2
      then require (is_digest (mf_runtime_ports_digest m)) V2_without_ports_digest
      else Inl (Unsupported_manifest_schema (mf_schema_version m)))"

definition manifest_entries :: "manifest \<Rightarrow> (string \<times> string) list" where
  "manifest_entries m =
     (let es = manifest_v1_entries m
      in if mf_schema_version m = manifest_v2
         then take 13 es @ [(''runtime_ports_digest'', mf_runtime_ports_digest m)] @ drop 13 es
         else es)"

text \<open>The content of \<open>manifest.env\<close>.\<close>

definition write_manifest ::
  "platform \<Rightarrow> (string \<Rightarrow> string option) \<Rightarrow> string \<Rightarrow> manifest \<Rightarrow> (manifest_error, string) result" where
  "write_manifest pl files run_dir m =
     (let dir = value_or run_dir (mf_run_dir m)
      in if dir = [] then Inl Run_dir_required
         else let completed = apply_manifest_defaults pl files [] (m\<lparr>mf_run_dir := dir\<rparr>)
              in bind_r (check_manifest_schema completed) (\<lambda>_.
                   Inr (env_text quote_env_value (manifest_entries completed))))"

subsection \<open>Writing the verdict\<close>

datatype outcome_error =
    Unknown_verdict_status string
  | Passed_with_exits int int int
  | Failed_without_exit

definition validate_verdict_status :: "string \<Rightarrow> (outcome_error, unit) result" where
  "validate_verdict_status status =
     require (status = ''passed'' \<or> status = ''failed'') (Unknown_verdict_status status)"

definition validate_verdict_outcome :: "string \<Rightarrow> int \<Rightarrow> int \<Rightarrow> int \<Rightarrow> (outcome_error, unit) result" where
  "validate_verdict_outcome status workload check scan =
     bind_r (validate_verdict_status status) (\<lambda>_.
       if status = ''passed'' \<and> (workload \<noteq> 0 \<or> check \<noteq> 0 \<or> scan \<noteq> 0)
       then Inl (Passed_with_exits workload check scan)
       else if status = ''failed'' \<and> workload = 0 \<and> check = 0 \<and> scan = 0
       then Inl Failed_without_exit
       else Inr ())"

datatype verdict_error =
    Verdict_run_dir_required
  | Bad_outcome outcome_error
  | Manifest_unreadable
  | Manifest_malformed env_error
  | Fingerprint_not_observed

definition verdict_from_env ::
  "(string \<Rightarrow> string option) \<Rightarrow> string \<Rightarrow> (string \<Rightarrow> string) \<Rightarrow> string \<Rightarrow> string \<Rightarrow> string \<Rightarrow> verdict" where
  "verdict_from_env files now getenv status message finished_at =
     \<lparr>vd_schema_version = ''pgworkbench.run-verdict/v1'',
      vd_artifact_type = ''pgworkbench.run-verdict'',
      vd_run_id = getenv ''RUN_ID'',
      vd_status = status,
      vd_message = message,
      vd_started_at = getenv ''STARTED_AT'',
      vd_finished_at = value_or finished_at now,
      vd_experiment_spec_id = getenv ''EXPERIMENT_SPEC_ID'',
      vd_experiment_spec_digest =
        canonical_digest
          (value_or (value_or (getenv ''EXPERIMENT_SPEC_DIGEST'') (getenv ''EXPERIMENT_SPEC_SHA256''))
            (digest_file_or_empty files (getenv ''EXPERIMENT_SPEC_FILE''))),
      vd_experiment_identity_digest = [],
      vd_manifest_digest = [],
      vd_artifact_root = ''.'',
      vd_run_dir = getenv ''RUN_DIR'',
      vd_workload_exit = int_from_env getenv ''WORKLOAD_EXIT'',
      vd_assert_exit = int_from_env getenv ''ASSERT_EXIT'',
      vd_scan_exit = int_from_env getenv ''SCAN_EXIT''\<rparr>"

text \<open>A missing key of the parsed manifest reads as the empty string.\<close>

definition entry_or_empty :: "(string \<Rightarrow> string option) \<Rightarrow> string \<Rightarrow> string" where
  "entry_or_empty entries k = (case entries k of None \<Rightarrow> [] | Some v \<Rightarrow> v)"

definition bind_verdict :: "string option \<Rightarrow> verdict \<Rightarrow> (verdict_error, verdict) result" where
  "bind_verdict manifest_file v =
     bind_r (of_option Manifest_unreadable manifest_file) (\<lambda>content.
     bind_r (map_error Manifest_malformed (parse_env content)) (\<lambda>entries.
       let bound = v\<lparr>vd_manifest_digest := digest_bytes content,
             vd_experiment_spec_digest :=
               value_or (vd_experiment_spec_digest v) (entry_or_empty entries ''experiment_spec_digest''),
             vd_experiment_identity_digest :=
               value_or (vd_experiment_identity_digest v) (entry_or_empty entries ''experiment_identity_digest'')\<rparr>
       in if vd_status v = ''passed'' \<and>
             is_manifest_schema_version (entry_or_empty entries ''schema_version'') \<and>
             entry_or_empty entries ''runtime_fingerprint_status'' \<noteq> fingerprint_observed
          then Inl Fingerprint_not_observed
          else Inr bound))"

text \<open>The contents of \<open>verdict.env\<close> and \<open>verdict.json\<close>.\<close>

definition write_verdict :: "string \<Rightarrow> string option \<Rightarrow> verdict \<Rightarrow> (verdict_error, string \<times> string) result" where
  "write_verdict run_dir manifest_file v =
     (if value_or run_dir (vd_run_dir v) = [] then Inl Verdict_run_dir_required
      else
        let v1 = v\<lparr>vd_run_dir := ''.'',
              vd_schema_version := value_or (vd_schema_version v) ''pgworkbench.run-verdict/v1'',
              vd_artifact_type := value_or (vd_artifact_type v) ''pgworkbench.run-verdict'',
              vd_artifact_root := value_or (vd_artifact_root v) ''.''\<rparr>
        in bind_r (map_error Bad_outcome
                    (validate_verdict_outcome (vd_status v1) (vd_workload_exit v1) (vd_assert_exit v1) (vd_scan_exit v1)))
             (\<lambda>_. bind_r (bind_verdict manifest_file v1) (\<lambda>bound.
               Inr (env_text quote_env_value (verdict_entries bound), verdict_json bound))))"

subsection \<open>The quoting of values\<close>

lemma unescape_quoted: "unescape (quote_env_char c @ s) = c # unescape s"
  by (cases s) (auto simp: quote_env_char_def unescape_char_def)

lemma unescape_concat: "unescape (concat (map quote_env_char v)) = v"
  by (induction v) (simp_all add: unescape_quoted)

lemma quote_env_char_line: "newline \<notin> set (quote_env_char c)"
  by (auto simp: quote_env_char_def newline_def)

interpretation env_quote: env_quoting quote_env_value
proof
  fix v
  show "newline \<notin> set (quote_env_value v)"
    using quote_env_char_line by (auto simp: quote_env_value_def newline_def)
  show "quote_env_value v \<noteq> [] \<and> solid (hd (quote_env_value v)) \<and> solid (last (quote_env_value v))"
    by (simp add: quote_env_value_def solid_def code_def)
  show "env_value (quote_env_value v) = v"
    by (simp add: env_value_def quote_env_value_def unquote_double_def butlast_append unescape_concat)
qed

lemma length_quoted: "length (quote_env_value v) \<le> 2 * length v + 2"
proof -
  have "length (concat (map quote_env_char v)) \<le> 2 * length v"
    by (induction v) (auto simp: quote_env_char_def)
  then show ?thesis by (simp add: quote_env_value_def)
qed

subsection \<open>The written manifest\<close>

lemma plain_key_code: "plain_key k \<longleftrightarrow> k \<noteq> [] \<and> list_all (\<lambda>c. 32 < code c \<and> code c < 128 \<and> c \<noteq> CHR ''='' \<and> c \<noteq> CHR ''#'') k"
  by (simp add: plain_key_def solid_def)

lemma manifest_v1_keys:
  "map fst (manifest_v1_entries m) =
     [''schema_version'', ''artifact_type'', ''run_id'', ''started_at'', ''experiment_spec'', ''experiment_spec_id'',
      ''experiment_spec_ref'', ''experiment_spec_digest'', ''source_spec_kind'', ''source_spec_id'',
      ''source_spec_ref'', ''source_spec_digest'', ''execution_parameters_digest'', ''experiment_identity_digest'',
      ''runtime'', ''engine_version'', ''engine_commit'', ''pack_id'', ''pack_version'', ''pack_digest'',
      ''runtime_fingerprint_status'', ''runtime_fingerprint_target'', ''runtime_os'', ''runtime_arch'',
      ''postgres_server_version_num'', ''postgres_server_major'', ''runtime_fingerprint_observed_at'',
      ''experiment_name'', ''experiment_topology'', ''experiment_pg_config'', ''profile'', ''dataset_spec'',
      ''profile_size'', ''workload_spec'', ''background_specs'', ''metrics_enabled'', ''metrics_samples'',
      ''artifact_root'', ''run_dir'']"
  by (simp add: manifest_v1_entries_def)

lemma manifest_keys_plain: "list_all plain_key (map fst (manifest_v1_entries m))"
  unfolding manifest_v1_keys by (simp add: plain_key_code code_def)

lemma manifest_keys_distinct: "distinct (map fst (manifest_v1_entries m))"
  "''runtime_ports_digest'' \<notin> set (map fst (manifest_v1_entries m))"
  unfolding manifest_v1_keys by simp_all

lemma manifest_keys_short: "list_all (\<lambda>k. length k \<le> 40) (map fst (manifest_v1_entries m))"
  unfolding manifest_v1_keys by simp

lemma inserted_set: "set (take n es @ [e] @ drop n es) = insert e (set es)"
  by (metis append_take_drop_id insert_is_Un set_append list.set(2) Un_left_commute empty_set Un_commute)

lemma manifest_entries_set:
  "set (manifest_entries m) =
     (if mf_schema_version m = manifest_v2
      then insert (''runtime_ports_digest'', mf_runtime_ports_digest m) (set (manifest_v1_entries m))
      else set (manifest_v1_entries m))"
  by (simp only: manifest_entries_def Let_def inserted_set if_distrib[of set])

lemma manifest_entries_distinct: "distinct (map fst (manifest_entries m))"
proof -
  let ?ks = "map fst (manifest_v1_entries m)" and ?k = "''runtime_ports_digest''"
  have "distinct (take n ?ks @ [?k] @ drop n ?ks)" for n
  proof -
    have "distinct (take n ?ks @ drop n ?ks)" using manifest_keys_distinct(1) by simp
    moreover have "?k \<notin> set (take n ?ks @ drop n ?ks)" using manifest_keys_distinct(2) by (simp del: set_append)
    ultimately show ?thesis by (auto simp del: append_take_drop_id)
  qed
  then have "distinct (map fst (take 13 (manifest_v1_entries m) @
      [(?k, mf_runtime_ports_digest m)] @ drop 13 (manifest_v1_entries m)))"
    by (simp only: map_append take_map drop_map list.map fst_conv)
  then show ?thesis using manifest_keys_distinct(1) by (simp add: manifest_entries_def Let_def)
qed

lemma manifest_entries_keys:
  assumes "e \<in> set (manifest_entries m)"
  shows "plain_key (fst e) \<and> length (fst e) \<le> 40"
proof -
  have "plain_key ''runtime_ports_digest''" by (simp add: plain_key_code code_def)
  moreover have "plain_key (fst e) \<and> length (fst e) \<le> 40" if "e \<in> set (manifest_v1_entries m)"
    using manifest_keys_plain[of m] manifest_keys_short[of m] that by (simp add: list_all_iff)
  ultimately show ?thesis using assms by (auto simp: manifest_entries_set split: if_splits)
qed

lemma manifest_entries_neq_Nil: "manifest_entries m \<noteq> []"
  by (simp add: manifest_entries_def manifest_v1_entries_def Let_def)

lemma entry_line_short:
  "length (fst e) \<le> 40 \<Longrightarrow> length (snd e) \<le> 32000 \<Longrightarrow> length (entry_line quote_env_value e) < env_line_limit"
  using length_quoted[of "snd e"] by (simp add: entry_line_def env_line_limit_def)

definition completed_manifest :: "platform \<Rightarrow> (string \<Rightarrow> string option) \<Rightarrow> string \<Rightarrow> manifest \<Rightarrow> manifest" where
  "completed_manifest pl files run_dir m =
     apply_manifest_defaults pl files [] (m\<lparr>mf_run_dir := value_or run_dir (mf_run_dir m)\<rparr>)"

lemma write_manifest_Inr:
  "write_manifest pl files run_dir m = Inr content \<longleftrightarrow>
     value_or run_dir (mf_run_dir m) \<noteq> [] \<and>
     check_manifest_schema (completed_manifest pl files run_dir m) = Inr () \<and>
     content = env_text quote_env_value (manifest_entries (completed_manifest pl files run_dir m))"
  by (auto simp: write_manifest_def completed_manifest_def Let_def result_simps)

text \<open>C23: A manifest reads back exactly when its lines fit: the text of a written manifest parses to the map
  of all its keys and values, whatever bytes the values contain, unless one of its lines reaches the 65536
  bytes of the scanner's buffer; then the reader refuses the whole file that the writer accepted.\<close>

theorem manifest_reads_back:
  assumes "write_manifest pl files run_dir m = Inr content"
  defines "es \<equiv> manifest_entries (completed_manifest pl files run_dir m)"
  shows "parse_env content =
    (if list_all (\<lambda>e. length (entry_line quote_env_value e) < 65536) es then Inr (map_of es)
     else Inl Line_too_long)"
proof -
  have c: "content = env_text quote_env_value es"
    using assms(1) by (simp add: write_manifest_Inr es_def)
  have keys: "list_all (\<lambda>e. plain_key (fst e)) es"
    using manifest_entries_keys by (simp add: list_all_iff es_def)
  have "es \<noteq> []" "distinct (map fst es)"
    using manifest_entries_neq_Nil manifest_entries_distinct by (simp_all add: es_def)
  with keys show ?thesis
    using env_quote.env_text_read[of es] env_quote.env_text_too_long[of es]
    by (simp add: c env_line_limit_def list_ex_iff list_all_iff not_less) 
qed

definition smoke_manifest :: manifest where
  "smoke_manifest =
     \<lparr>mf_schema_version = manifest_v1, mf_artifact_type = ''pgworkbench.run-manifest'', mf_run_id = ''r1'',
      mf_started_at = ''now'', mf_experiment_spec = [], mf_experiment_spec_id = ''smoke'',
      mf_experiment_spec_ref = ''experiments/smoke.env'', mf_experiment_spec_digest = ''x'',
      mf_source_spec_kind = [], mf_source_spec_id = [], mf_source_spec_ref = [], mf_source_spec_digest = [],
      mf_execution_parameters_digest = ''y'', mf_runtime_ports_digest = [], mf_experiment_identity_digest = ''z'',
      mf_runtime = ''docker'', mf_engine_version = unverified, mf_engine_commit = unverified, mf_pack_id = [],
      mf_pack_version = [], mf_pack_digest = [], mf_runtime_fingerprint_status = fingerprint_observed,
      mf_runtime_fingerprint_target = ''primary'', mf_runtime_os = ''linux'', mf_runtime_arch = ''amd64'',
      mf_postgres_server_version_num = ''170000'', mf_postgres_server_major = ''17'',
      mf_runtime_fingerprint_at = ''now'', mf_experiment_name = ''smoke'', mf_experiment_topology = ''single'',
      mf_experiment_pg_config = ''default'', mf_profile = [], mf_dataset_spec = [], mf_profile_size = ''small'',
      mf_workload_spec = [], mf_background_specs = [], mf_metrics_enabled = ''1'', mf_metrics_samples = [],
      mf_artifact_root = ''.'', mf_run_dir = ''runs/r1''\<rparr>"

definition smoke_platform :: platform where
  "smoke_platform = \<lparr>pl_os = ''linux'', pl_arch = ''amd64''\<rparr>"

lemma is_digest_short: "length v \<noteq> 71 \<Longrightarrow> \<not> is_digest v"
  by (simp add: is_digest_def digest_prefix_def)

lemma canonical_digest_short:
  "v = [] \<or> solid (hd v) \<and> solid (last v) \<Longrightarrow> length v < 64 \<Longrightarrow> canonical_digest v = v"
  by (simp add: canonical_digest_def trim_space_solid is_digest_short digest_prefix_def Let_def)

lemma unverified_normal [simp]:
  "normalize_engine_version unverified = unverified" "normalize_engine_commit unverified = unverified"
  by (simp_all add: normalize_engine_version_def normalize_engine_commit_def unverified_def trim_space_solid solid_def
      code_def is_engine_version_def is_engine_commit_def to_lower_def to_lower_char_def is_upper_def Let_def)

lemma smoke_manifest_complete:
  "completed_manifest smoke_platform (\<lambda>_. None) [] smoke_manifest = smoke_manifest"
proof -
  have d: "canonical_digest ''x'' = ''x''" "canonical_digest ''y'' = ''y''" "canonical_digest [] = []"
    by (simp_all add: canonical_digest_short solid_def code_def)
  show ?thesis
    by (simp add: completed_manifest_def apply_manifest_defaults_def apply_identity_def apply_digests_def
        apply_platform_def apply_plain_defaults_def smoke_manifest_def value_or_def manifest_v1_def
        fingerprint_observed_def d)
qed

lemma smoke_manifest_written:
  "write_manifest smoke_platform (\<lambda>_. None) [] smoke_manifest =
     Inr (env_text quote_env_value (manifest_entries smoke_manifest))"
proof -
  have "value_or [] (mf_run_dir smoke_manifest) \<noteq> []" "check_manifest_schema smoke_manifest = Inr ()"
    by (simp_all add: value_or_def smoke_manifest_def check_manifest_schema_def require_def)
  then show ?thesis unfolding write_manifest_Inr smoke_manifest_complete by blast
qed

lemma smoke_lines_fit:
  "list_all (\<lambda>e. length (entry_line quote_env_value e) < env_line_limit) (manifest_entries smoke_manifest)"
proof -
  have "list_all (\<lambda>e. length (snd e) \<le> 32000) (manifest_v1_entries smoke_manifest)"
    by (simp add: manifest_v1_entries_def smoke_manifest_def unverified_def manifest_v1_def fingerprint_observed_def)
  then have "list_all (\<lambda>e. length (snd e) \<le> 32000) (manifest_entries smoke_manifest)"
    by (auto simp: list_all_iff manifest_entries_set smoke_manifest_def)
  then show ?thesis
    using manifest_entries_keys entry_line_short unfolding list_all_iff by blast
qed

theorem manifest_reads_back_witness:
  "parse_env (env_text quote_env_value (manifest_entries smoke_manifest)) =
     Inr (map_of (manifest_entries smoke_manifest))"
  using manifest_reads_back[OF smoke_manifest_written] smoke_lines_fit
  by (simp add: smoke_manifest_complete env_line_limit_def)

subsection \<open>The verdict\<close>

lemma map_error_simps [simp]: "map_error f (Inl e) = Inl (f e)" "map_error f (Inr x) = Inr x"
  by (simp_all add: map_error_def)

lemma validate_verdict_outcome_Inr:
  "validate_verdict_outcome status w a s = Inr () \<longleftrightarrow>
     status = ''passed'' \<and> w = 0 \<and> a = 0 \<and> s = 0 \<or> status = ''failed'' \<and> \<not> (w = 0 \<and> a = 0 \<and> s = 0)"
  by (auto simp: validate_verdict_outcome_def validate_verdict_status_def require_def)

lemma bind_verdict_Inr:
  assumes "bind_verdict manifest_file v = Inr bound"
  shows "\<exists>content entries. manifest_file = Some content \<and> parse_env content = Inr entries \<and>
    vd_manifest_digest bound = digest_bytes content \<and>
    (vd_status v = ''passed'' \<and> is_manifest_schema_version (entry_or_empty entries ''schema_version'') \<longrightarrow>
       entry_or_empty entries ''runtime_fingerprint_status'' = fingerprint_observed) \<and>
    vd_status bound = vd_status v \<and> vd_workload_exit bound = vd_workload_exit v \<and>
    vd_assert_exit bound = vd_assert_exit v \<and> vd_scan_exit bound = vd_scan_exit v"
  using assms by (auto simp: bind_verdict_def result_simps map_error_Inr Let_def split: if_splits)

text \<open>C24: A passed verdict is only written over a run that can carry it: when the verdict of a manifest that
  \<open>WriteManifest\<close> produced is written as passed, all three exit codes are zero, the manifest records an
  observed runtime fingerprint, and the verdict is bound to the digest of exactly that manifest.\<close>

theorem passed_verdict_needs_observed_run:
  assumes "write_manifest pl files dir m = Inr content"
    and "write_verdict run_dir (Some content) v = Inr (env, json)" and "vd_status v = ''passed''"
  shows "vd_workload_exit v = 0 \<and> vd_assert_exit v = 0 \<and> vd_scan_exit v = 0 \<and>
    mf_runtime_fingerprint_status (completed_manifest pl files dir m) = fingerprint_observed \<and>
    (\<exists>bound. env = env_text quote_env_value (verdict_entries bound) \<and> json = verdict_json bound \<and>
       vd_status bound = ''passed'' \<and> vd_manifest_digest bound = digest_bytes content)"
proof -
  define cm where "cm = completed_manifest pl files dir m"
  from assms(2) obtain w bound where outcome: "validate_verdict_outcome (vd_status v) (vd_workload_exit v)
      (vd_assert_exit v) (vd_scan_exit v) = Inr ()"
    and b: "bind_verdict (Some content) w = Inr bound" "vd_status w = vd_status v"
    and out: "env = env_text quote_env_value (verdict_entries bound)" "json = verdict_json bound"
    by (auto simp: write_verdict_def Let_def result_simps map_error_Inr split: if_splits)
  from bind_verdict_Inr[OF b(1)] obtain entries where e: "parse_env content = Inr entries"
    and digest: "vd_manifest_digest bound = digest_bytes content"
    and observed: "is_manifest_schema_version (entry_or_empty entries ''schema_version'') \<Longrightarrow>
        entry_or_empty entries ''runtime_fingerprint_status'' = fingerprint_observed"
    and status: "vd_status bound = ''passed''"
    using assms(3) b(2) by auto
  have es: "entries = map_of (manifest_entries cm)"
    using manifest_reads_back[OF assms(1)] e by (auto simp: cm_def split: if_splits)
  have look: "entry_or_empty entries k = x" if "(k, x) \<in> set (manifest_entries cm)" for k x
    using map_of_is_SomeI[OF manifest_entries_distinct that] by (simp add: es entry_or_empty_def)
  have "(''schema_version'', mf_schema_version cm) \<in> set (manifest_entries cm)"
    "(''runtime_fingerprint_status'', mf_runtime_fingerprint_status cm) \<in> set (manifest_entries cm)"
    by (simp_all add: manifest_entries_set manifest_v1_entries_def)
  moreover have "is_manifest_schema_version (mf_schema_version cm)"
    using assms(1)
    by (auto simp: write_manifest_Inr check_manifest_schema_def is_manifest_schema_version_def cm_def split: if_splits)
  ultimately have "mf_runtime_fingerprint_status cm = fingerprint_observed"
    using observed look by metis
  moreover have "vd_workload_exit v = 0 \<and> vd_assert_exit v = 0 \<and> vd_scan_exit v = 0"
    using outcome assms(3) by (auto simp: validate_verdict_outcome_Inr)
  ultimately show ?thesis using out digest status unfolding cm_def by blast
qed

subsection \<open>Completed manifests\<close>

lemma length_digest_prefix [simp]: "length digest_prefix = 7"
  by (simp add: digest_prefix_def)

lemma trim_digest: "is_digest v \<Longrightarrow> trim_space v = v"
proof -
  assume d: "is_digest v"
  have v: "v = digest_prefix @ drop 7 v"
    using d by (metis append_take_drop_id has_prefix_def is_digest_def length_digest_prefix)
  have rest: "list_all is_hex_lower (drop 7 v)" "length (drop 7 v) = 64"
    using d by (auto simp: is_digest_def trim_prefix_def length_digest_prefix)
  have "solid (last (drop 7 v))"
  proof -
    have "drop 7 v \<noteq> []" using rest(2) by auto
    then have "is_hex_lower (last (drop 7 v))" using rest(1) last_in_set unfolding list_all_iff by blast
    then show ?thesis by (auto simp: is_hex_lower_def is_digit_def solid_def)
  qed
  moreover have "last v = last (drop 7 v)" using rest(2) by (metis last_drop length_drop zero_less_diff zero_less_numeral)
  moreover have "hd v = CHR ''s''" using v by (metis digest_prefix_def hd_append2 list.sel(1) list.distinct(1))
  ultimately show ?thesis by (intro trim_space_solid) (simp add: solid_def code_def)
qed

lemma canonical_digest_idem [simp]: "canonical_digest (canonical_digest v) = canonical_digest v"
proof -
  define w where "w = trim_space v"
  have w: "trim_space w = w" by (simp add: w_def)
  consider "w = [] \<or> is_digest w" | "\<not> (w = [] \<or> is_digest w)" "is_digest (digest_prefix @ w)"
    | "\<not> (w = [] \<or> is_digest w)" "\<not> is_digest (digest_prefix @ w)" by blast
  then show ?thesis
  proof cases
    case 1
    then have "canonical_digest v = w" by (auto simp: canonical_digest_def w_def Let_def)
    then show ?thesis using 1 w by (auto simp: canonical_digest_def Let_def)
  next
    case 2
    then have c: "canonical_digest v = digest_prefix @ w" by (simp add: canonical_digest_def w_def Let_def)
    have "trim_space (digest_prefix @ w) = digest_prefix @ w"
      using 2(2) by (rule trim_digest)
    then show ?thesis using 2 unfolding c by (simp add: canonical_digest_def Let_def)
  next
    case 3
    then have "canonical_digest v = w" by (simp add: canonical_digest_def w_def Let_def)
    then show ?thesis using 3 w by (simp add: canonical_digest_def Let_def)
  qed
qed

lemma canonical_digest_id: "is_digest v \<Longrightarrow> canonical_digest v = v"
  by (simp add: canonical_digest_def trim_digest Let_def)

lemma canonical_Nil [simp]: "canonical_digest [] = []"
  by (simp add: canonical_digest_def)

lemma normalize_version_idem [simp]:
  "normalize_engine_version (normalize_engine_version v) = normalize_engine_version v"
proof (cases "is_engine_version (trim_space v)")
  case True
  then show ?thesis by (simp add: normalize_engine_version_def Let_def)
next
  case False
  then have "normalize_engine_version v = unverified" by (simp add: normalize_engine_version_def Let_def)
  then show ?thesis by simp
qed

lemma normalize_commit_idem [simp]:
  "normalize_engine_commit (normalize_engine_commit v) = normalize_engine_commit v"
proof -
  define w where "w = to_lower (trim_space v)"
  consider "w = unverified" | "engine_commit_pattern w" | "\<not> is_engine_commit w"
    by (auto simp: is_engine_commit_def)
  then show ?thesis
  proof cases
    case 1
    then have "normalize_engine_commit v = unverified"
      by (simp add: normalize_engine_commit_def w_def[symmetric] Let_def)
    then show ?thesis by simp
  next
    case 2
    have hex: "solid c \<and> to_lower_char c = c" if "is_hex_lower c" for c
      using that by (auto simp: is_hex_lower_def is_digit_def solid_def to_lower_char_def is_upper_def)
    have "w \<noteq> []" "list_all is_hex_lower w" using 2 by (auto simp: engine_commit_pattern_def)
    then have "trim_space w = w" "to_lower w = w"
      using hex by (auto simp: to_lower_def list_all_iff map_idI intro!: trim_space_solid)
    then show ?thesis using 2
      by (simp add: normalize_engine_commit_def w_def[symmetric] is_engine_commit_def Let_def)
  next
    case 3
    then have "normalize_engine_commit v = unverified"
      by (simp add: normalize_engine_commit_def w_def[symmetric] Let_def)
    then show ?thesis by simp
  qed
qed

lemma value_or_Nil [simp]: "value_or [] d = d" "v \<noteq> [] \<Longrightarrow> value_or v d = v"
  by (simp_all add: value_or_def)

lemma value_or_eq_Nil [simp]: "value_or v d = [] \<longleftrightarrow> v = [] \<and> d = []"
  by (simp add: value_or_def)

lemma value_or_twice [simp]: "value_or (value_or v d) d = value_or v d"
  by (simp add: value_or_def)

lemma path_clean_neq_Nil [simp]: "path_clean p \<noteq> []"
  by (simp add: path_clean_def Let_def)

lemma digest_file_cases: "digest_file_or_empty files p = [] \<or> is_digest (digest_file_or_empty files p)"
  by (auto simp: digest_file_or_empty_def digest_bytes_is_digest split: option.splits)

lemma portable_spec_ref_stable:
  assumes "portable_spec_ref p repo i = []"
  shows "portable_spec_ref p [] i = []"
  using assms by (auto simp: portable_spec_ref_def spec_ref_below_def split: option.splits if_splits)

text \<open>What every completed manifest satisfies.\<close>

definition complete_manifest :: "(string \<Rightarrow> string option) \<Rightarrow> manifest \<Rightarrow> bool" where
  "complete_manifest files m =
     (list_all (\<lambda>v. v \<noteq> [])
        [mf_schema_version m, mf_artifact_type m, mf_experiment_topology m, mf_experiment_pg_config m,
         mf_profile_size m, mf_metrics_enabled m, mf_runtime m, mf_runtime_fingerprint_status m,
         mf_runtime_fingerprint_target m, mf_artifact_root m, mf_execution_parameters_digest m,
         mf_experiment_identity_digest m] \<and>
      list_all (\<lambda>v. canonical_digest v = v)
        [mf_experiment_spec_digest m, mf_source_spec_digest m, mf_pack_digest m,
         mf_execution_parameters_digest m, mf_runtime_ports_digest m] \<and>
      normalize_engine_version (mf_engine_version m) = mf_engine_version m \<and>
      normalize_engine_commit (mf_engine_commit m) = mf_engine_commit m \<and>
      (mf_runtime_fingerprint_status m = fingerprint_observed \<longrightarrow> mf_runtime_os m \<noteq> [] \<and> mf_runtime_arch m \<noteq> []) \<and>
      (mf_experiment_spec_ref m = [] \<longrightarrow>
         portable_spec_ref (mf_experiment_spec m) [] (mf_experiment_spec_id m) = []) \<and>
      (mf_experiment_spec_digest m = [] \<longrightarrow> digest_file_or_empty files (mf_experiment_spec m) = []))"

lemma complete_manifest_fixed:
  assumes "complete_manifest files m"
  shows "apply_manifest_defaults pl files [] m = m"
proof -
  have "mf_experiment_spec_digest m = [] \<Longrightarrow> digest_file_or_empty files (mf_experiment_spec m) = []"
    and "mf_experiment_spec_ref m = [] \<Longrightarrow> portable_spec_ref (mf_experiment_spec m) [] (mf_experiment_spec_id m) = []"
    using assms by (simp_all add: complete_manifest_def)
  then have d: "canonical_digest (value_or (mf_experiment_spec_digest m) (digest_file_or_empty files (mf_experiment_spec m))) =
      mf_experiment_spec_digest m"
    and r: "value_or (mf_experiment_spec_ref m)
        (portable_spec_ref (mf_experiment_spec m) [] (mf_experiment_spec_id m)) = mf_experiment_spec_ref m"
    using assms by (cases "mf_experiment_spec_digest m = []"; cases "mf_experiment_spec_ref m = []";
        simp add: complete_manifest_def)+
  have plain: "apply_plain_defaults m = m"
    using assms by (simp add: apply_plain_defaults_def complete_manifest_def)
  have plat: "apply_platform pl m = m"
    using assms by (simp add: apply_platform_def complete_manifest_def)
  have dig: "apply_digests files [] m = m"
    using assms by (simp add: apply_digests_def d r) (simp add: complete_manifest_def)
  have "apply_identity m = m"
    using assms by (simp add: apply_identity_def complete_manifest_def)
  then show ?thesis by (simp add: apply_manifest_defaults_def plain plat dig)
qed


lemma portable_spec_ref_again:
  "value_or r (portable_spec_ref p repo i) = [] \<Longrightarrow> portable_spec_ref p [] i = []"
  using portable_spec_ref_stable[of p repo i] by simp

lemma spec_digest_again:
  assumes "canonical_digest d = d" and "canonical_digest (value_or d (digest_file_or_empty files p)) = []"
  shows "digest_file_or_empty files p = []"
proof -
  have "d = []" using assms by (cases "d = []") simp_all
  then show ?thesis using assms(2) digest_file_cases[of files p] by (auto simp: canonical_digest_id)
qed

lemma apply_identity_simps [simp]:
  "mf_schema_version (apply_identity m) = mf_schema_version m" "mf_artifact_type (apply_identity m) = mf_artifact_type m"
  "mf_experiment_topology (apply_identity m) = mf_experiment_topology m" "mf_experiment_pg_config (apply_identity m) = mf_experiment_pg_config m"
  "mf_profile_size (apply_identity m) = mf_profile_size m" "mf_metrics_enabled (apply_identity m) = mf_metrics_enabled m"
  "mf_runtime (apply_identity m) = mf_runtime m" "mf_runtime_fingerprint_status (apply_identity m) = mf_runtime_fingerprint_status m"
  "mf_runtime_fingerprint_target (apply_identity m) = mf_runtime_fingerprint_target m" "mf_artifact_root (apply_identity m) = mf_artifact_root m"
  "mf_execution_parameters_digest (apply_identity m) = mf_execution_parameters_digest m" "mf_experiment_spec_digest (apply_identity m) = mf_experiment_spec_digest m"
  "mf_source_spec_digest (apply_identity m) = mf_source_spec_digest m" "mf_pack_digest (apply_identity m) = mf_pack_digest m"
  "mf_runtime_ports_digest (apply_identity m) = mf_runtime_ports_digest m" "mf_engine_version (apply_identity m) = mf_engine_version m"
  "mf_engine_commit (apply_identity m) = mf_engine_commit m" "mf_runtime_os (apply_identity m) = mf_runtime_os m"
  "mf_runtime_arch (apply_identity m) = mf_runtime_arch m" "mf_experiment_spec_ref (apply_identity m) = mf_experiment_spec_ref m"
  "mf_experiment_spec (apply_identity m) = mf_experiment_spec m" "mf_experiment_spec_id (apply_identity m) = mf_experiment_spec_id m"
  by (simp_all add: apply_identity_def)

lemma apply_digests_simps [simp]:
  "mf_schema_version (apply_digests files repo m) = mf_schema_version m" "mf_artifact_type (apply_digests files repo m) = mf_artifact_type m"
  "mf_experiment_topology (apply_digests files repo m) = mf_experiment_topology m" "mf_experiment_pg_config (apply_digests files repo m) = mf_experiment_pg_config m"
  "mf_profile_size (apply_digests files repo m) = mf_profile_size m" "mf_metrics_enabled (apply_digests files repo m) = mf_metrics_enabled m"
  "mf_runtime (apply_digests files repo m) = mf_runtime m" "mf_runtime_fingerprint_status (apply_digests files repo m) = mf_runtime_fingerprint_status m"
  "mf_runtime_fingerprint_target (apply_digests files repo m) = mf_runtime_fingerprint_target m" "mf_artifact_root (apply_digests files repo m) = mf_artifact_root m"
  "mf_experiment_identity_digest (apply_digests files repo m) = mf_experiment_identity_digest m" "mf_engine_version (apply_digests files repo m) = mf_engine_version m"
  "mf_engine_commit (apply_digests files repo m) = mf_engine_commit m" "mf_runtime_os (apply_digests files repo m) = mf_runtime_os m"
  "mf_runtime_arch (apply_digests files repo m) = mf_runtime_arch m" "mf_experiment_spec (apply_digests files repo m) = mf_experiment_spec m"
  "mf_experiment_spec_id (apply_digests files repo m) = mf_experiment_spec_id m"
  by (simp_all add: apply_digests_def)

lemma apply_platform_simps [simp]:
  "mf_schema_version (apply_platform pl m) = mf_schema_version m" "mf_artifact_type (apply_platform pl m) = mf_artifact_type m"
  "mf_experiment_topology (apply_platform pl m) = mf_experiment_topology m" "mf_experiment_pg_config (apply_platform pl m) = mf_experiment_pg_config m"
  "mf_profile_size (apply_platform pl m) = mf_profile_size m" "mf_metrics_enabled (apply_platform pl m) = mf_metrics_enabled m"
  "mf_runtime (apply_platform pl m) = mf_runtime m" "mf_runtime_fingerprint_status (apply_platform pl m) = mf_runtime_fingerprint_status m"
  "mf_artifact_root (apply_platform pl m) = mf_artifact_root m" "mf_execution_parameters_digest (apply_platform pl m) = mf_execution_parameters_digest m"
  "mf_experiment_identity_digest (apply_platform pl m) = mf_experiment_identity_digest m" "mf_experiment_spec_digest (apply_platform pl m) = mf_experiment_spec_digest m"
  "mf_source_spec_digest (apply_platform pl m) = mf_source_spec_digest m" "mf_pack_digest (apply_platform pl m) = mf_pack_digest m"
  "mf_runtime_ports_digest (apply_platform pl m) = mf_runtime_ports_digest m" "mf_engine_version (apply_platform pl m) = mf_engine_version m"
  "mf_engine_commit (apply_platform pl m) = mf_engine_commit m" "mf_experiment_spec_ref (apply_platform pl m) = mf_experiment_spec_ref m"
  "mf_experiment_spec (apply_platform pl m) = mf_experiment_spec m" "mf_experiment_spec_id (apply_platform pl m) = mf_experiment_spec_id m"
  by (simp_all add: apply_platform_def)

lemma apply_plain_defaults_simps [simp]:
  "mf_runtime_fingerprint_target (apply_plain_defaults m) = mf_runtime_fingerprint_target m" "mf_execution_parameters_digest (apply_plain_defaults m) = mf_execution_parameters_digest m"
  "mf_experiment_identity_digest (apply_plain_defaults m) = mf_experiment_identity_digest m" "mf_experiment_spec_digest (apply_plain_defaults m) = mf_experiment_spec_digest m"
  "mf_source_spec_digest (apply_plain_defaults m) = mf_source_spec_digest m" "mf_pack_digest (apply_plain_defaults m) = mf_pack_digest m"
  "mf_runtime_ports_digest (apply_plain_defaults m) = mf_runtime_ports_digest m" "mf_runtime_os (apply_plain_defaults m) = mf_runtime_os m"
  "mf_runtime_arch (apply_plain_defaults m) = mf_runtime_arch m" "mf_experiment_spec_ref (apply_plain_defaults m) = mf_experiment_spec_ref m"
  "mf_experiment_spec (apply_plain_defaults m) = mf_experiment_spec m" "mf_experiment_spec_id (apply_plain_defaults m) = mf_experiment_spec_id m"
  by (simp_all add: apply_plain_defaults_def)

lemma normalized_neq_Nil [simp]: "manifest_v1 \<noteq> []" "manifest_v2 \<noteq> []"
  "default_fingerprint_target t \<noteq> []" "fingerprint_unavailable \<noteq> []"
  "digest_bytes c \<noteq> []" "identity_digest i \<noteq> []"
  by (simp_all add: manifest_v1_def manifest_v2_def default_fingerprint_target_def fingerprint_unavailable_def
      digest_bytes_def digest_prefix_def identity_digest_def)

lemma complete_plain:
  assumes "x \<in> {mf_schema_version, mf_artifact_type, mf_experiment_topology, mf_experiment_pg_config,
    mf_profile_size, mf_metrics_enabled, mf_runtime, mf_runtime_fingerprint_status, mf_artifact_root}"
  shows "x (apply_plain_defaults m) \<noteq> []"
  using assms by (auto simp: apply_plain_defaults_def)

lemma complete_engine:
  "normalize_engine_version (mf_engine_version (apply_plain_defaults m)) = mf_engine_version (apply_plain_defaults m)"
  "normalize_engine_commit (mf_engine_commit (apply_plain_defaults m)) = mf_engine_commit (apply_plain_defaults m)"
  by (simp_all add: apply_plain_defaults_def)

lemma complete_platform:
  assumes "pl_os pl \<noteq> []" and "pl_arch pl \<noteq> []"
  shows "mf_runtime_fingerprint_target (apply_platform pl m) \<noteq> []"
    and "mf_runtime_fingerprint_status m = fingerprint_observed \<Longrightarrow>
      mf_runtime_os (apply_platform pl m) \<noteq> [] \<and> mf_runtime_arch (apply_platform pl m) \<noteq> []"
  using assms by (simp_all add: apply_platform_def)

lemma canonical_value_or: "canonical_digest (value_or (canonical_digest v) (digest_bytes c)) =
    value_or (canonical_digest v) (digest_bytes c)"
  by (cases "canonical_digest v = []") (simp_all add: canonical_digest_id)

lemma complete_digests:
  "canonical_digest (mf_experiment_spec_digest (apply_digests files repo m)) =
     mf_experiment_spec_digest (apply_digests files repo m)"
  "canonical_digest (mf_source_spec_digest (apply_digests files repo m)) =
     mf_source_spec_digest (apply_digests files repo m)"
  "canonical_digest (mf_pack_digest (apply_digests files repo m)) = mf_pack_digest (apply_digests files repo m)"
  "canonical_digest (mf_execution_parameters_digest (apply_digests files repo m)) =
     mf_execution_parameters_digest (apply_digests files repo m)"
  "canonical_digest (mf_runtime_ports_digest (apply_digests files repo m)) =
     mf_runtime_ports_digest (apply_digests files repo m)"
  "mf_execution_parameters_digest (apply_digests files repo m) \<noteq> []"
  by (simp_all add: apply_digests_def canonical_value_or)

lemma complete_spec_ref:
  "mf_experiment_spec_ref (apply_digests files repo m) = [] \<Longrightarrow>
     portable_spec_ref (mf_experiment_spec m) [] (mf_experiment_spec_id m) = []"
  by (rule portable_spec_ref_again[of "mf_experiment_spec_ref m" _ repo]) (simp add: apply_digests_def)

lemma complete_spec_digest:
  "canonical_digest (mf_experiment_spec_digest m) = mf_experiment_spec_digest m \<Longrightarrow>
   mf_experiment_spec_digest (apply_digests files repo m) = [] \<Longrightarrow>
     digest_file_or_empty files (mf_experiment_spec m) = []"
  by (rule spec_digest_again) (simp_all add: apply_digests_def)

lemma complete_identity: "mf_experiment_identity_digest (apply_identity m) \<noteq> []"
  by (simp add: apply_identity_def)

lemma defaults_complete:
  assumes "canonical_digest (mf_experiment_spec_digest m) = mf_experiment_spec_digest m"
    and "pl_os pl \<noteq> []" and "pl_arch pl \<noteq> []"
  shows "complete_manifest files (apply_manifest_defaults pl files repo m)"
proof -
  let ?n = "apply_platform pl (apply_plain_defaults m)"
  have "mf_experiment_spec_ref (apply_digests files repo ?n) = [] \<longrightarrow>
      portable_spec_ref (mf_experiment_spec m) [] (mf_experiment_spec_id m) = []"
    using complete_spec_ref[of files repo ?n] by simp
  moreover have "mf_experiment_spec_digest (apply_digests files repo ?n) = [] \<longrightarrow>
      digest_file_or_empty files (mf_experiment_spec m) = []"
    using complete_spec_digest[of ?n files repo] assms(1) by simp
  ultimately show ?thesis
    unfolding complete_manifest_def apply_manifest_defaults_def
    using assms by (simp add: complete_plain complete_engine complete_platform complete_digests complete_identity)
qed

lemma from_env_complete:
  assumes "pl_os pl \<noteq> []" and "pl_arch pl \<noteq> []"
  shows "complete_manifest files (manifest_from_env pl files getenv)"
  unfolding manifest_from_env_def Let_def by (rule defaults_complete) (use assms in simp_all)

text \<open>What the environment describes is what is written: the manifest built from an environment is complete,
  so applying the defaults again, as \<open>WriteManifest\<close> does, changes nothing, whatever the environment
  holds; only the run directory is set.\<close>

theorem manifest_from_env_is_complete:
  assumes "pl_os pl \<noteq> []" and "pl_arch pl \<noteq> []"
  shows "apply_manifest_defaults pl files [] (manifest_from_env pl files getenv) = manifest_from_env pl files getenv"
  by (rule complete_manifest_fixed[OF from_env_complete[OF assms]])

theorem manifest_from_env_is_complete_witness:
  "apply_manifest_defaults smoke_platform (\<lambda>_. None) [] (manifest_from_env smoke_platform (\<lambda>_. None) (\<lambda>_. [])) =
     manifest_from_env smoke_platform (\<lambda>_. None) (\<lambda>_. [])"
  by (rule manifest_from_env_is_complete) (simp_all add: smoke_platform_def)

subsection \<open>The identity of an experiment\<close>

lemma identity_entries_inject: "identity_entries i = identity_entries j \<longleftrightarrow> i = j"
proof
  assume "identity_entries i = identity_entries j"
  then have "length (identity_entries i) = length (identity_entries j)"
    and e: "identity_entries i = identity_entries j" by simp_all
  then have "(id_runtime_ports_digest i = []) = (id_runtime_ports_digest j = [])"
    by (simp add: identity_entries_def split: if_splits)
  with e show "i = j" by (cases i; cases j) (simp add: identity_entries_def split: if_splits)
qed simp

definition utf8_identity :: "identity \<Rightarrow> bool" where
  "utf8_identity i = list_all (\<lambda>e. utf8_valid (snd e)) (identity_entries i)"

lemma utf8_valid_ascii: "list_all (\<lambda>c. code c < 128) s \<Longrightarrow> utf8_valid s"
  by (induction s) (simp_all add: utf8_valid.simps)

lemma identity_keys_ascii: "list_all (\<lambda>e. list_all (\<lambda>c. code c < 128) (fst e)) (identity_entries i)"
  by (simp add: identity_entries_def code_def)

lemma utf8_identity_entries: "utf8_identity i \<Longrightarrow> list_all valid_entry (identity_entries i)"
  using identity_keys_ascii[of i] utf8_valid_ascii
  by (auto simp: utf8_identity_def valid_entry_def list_all_iff)

text \<open>The identity digest identifies: two experiment identities with UTF-8 fields and the same digest are
  the same identity, or their different canonical texts are an explicit SHA-256 collision. No separator,
  escape or omitted member makes two identities look alike.\<close>

theorem identity_digest_identifies:
  assumes "utf8_identity i" and "utf8_identity j" and "identity_digest i = identity_digest j"
  shows "i = j \<or> (string_object (identity_entries i) \<noteq> string_object (identity_entries j) \<and>
    digest_bytes (string_object (identity_entries i)) = digest_bytes (string_object (identity_entries j)))"
proof (cases "string_object (identity_entries i) = string_object (identity_entries j)")
  case True
  have "identity_entries i \<noteq> []" "identity_entries j \<noteq> []" by (simp_all add: identity_entries_def)
  then have "identity_entries i = identity_entries j"
    using string_object_inject[OF True utf8_identity_entries[OF assms(1)] utf8_identity_entries[OF assms(2)]] by blast
  then show ?thesis by (simp add: identity_entries_inject)
next
  case False
  then show ?thesis using assms(3) by (simp add: identity_digest_def)
qed

theorem identity_digest_identifies_witness:
  "manifest_identity smoke_manifest = manifest_identity (smoke_manifest\<lparr>mf_runtime := []\<rparr>) \<or>
   string_object (identity_entries (manifest_identity smoke_manifest)) \<noteq>
     string_object (identity_entries (manifest_identity (smoke_manifest\<lparr>mf_runtime := []\<rparr>))) \<and>
   digest_bytes (string_object (identity_entries (manifest_identity smoke_manifest))) =
     digest_bytes (string_object (identity_entries (manifest_identity (smoke_manifest\<lparr>mf_runtime := []\<rparr>))))"
proof (rule identity_digest_identifies)
  show "utf8_identity (manifest_identity smoke_manifest)"
    "utf8_identity (manifest_identity (smoke_manifest\<lparr>mf_runtime := []\<rparr>))"
    unfolding utf8_identity_def
    by (simp_all add: identity_entries_def manifest_identity_def smoke_manifest_def value_or_def)
      (intro conjI utf8_valid_ascii; simp add: unverified_def fingerprint_observed_def code_def)+
  show "identity_digest (manifest_identity smoke_manifest) =
      identity_digest (manifest_identity (smoke_manifest\<lparr>mf_runtime := []\<rparr>))"
    by (simp add: manifest_identity_def smoke_manifest_def value_or_def)
qed

subsection \<open>A run that passed\<close>

definition smoke_verdict :: verdict where
  "smoke_verdict =
     verdict_from_env (\<lambda>_. None) ''now'' (\<lambda>k. if k = ''RUN_DIR'' then ''runs/r1'' else []) ''passed'' ''ok'' []"

lemma smoke_manifest_text:
  "parse_env (env_text quote_env_value (manifest_entries smoke_manifest)) =
     Inr (map_of (manifest_entries smoke_manifest))"
  using manifest_entries_keys smoke_lines_fit manifest_entries_neq_Nil manifest_entries_distinct
  by (intro env_quote.env_text_read) (simp_all add: list_all_iff)

lemma smoke_verdict_written:
  "\<exists>r. write_verdict [] (Some (env_text quote_env_value (manifest_entries smoke_manifest))) smoke_verdict = Inr r"
proof -
  have "entry_or_empty (map_of (manifest_entries smoke_manifest)) ''runtime_fingerprint_status'' = fingerprint_observed"
    by (simp add: entry_or_empty_def manifest_entries_def manifest_v1_entries_def smoke_manifest_def
        manifest_v1_def manifest_v2_def Let_def)
  moreover have "validate_verdict_outcome ''passed'' 0 0 0 = Inr ()" by (simp add: validate_verdict_outcome_Inr)
  ultimately show ?thesis
    by (simp add: write_verdict_def bind_verdict_def smoke_manifest_text smoke_verdict_def verdict_from_env_def
        int_from_env_def value_or_def of_option_def Let_def)
qed

theorem passed_verdict_needs_observed_run_witness:
  "vd_scan_exit smoke_verdict = 0 \<and>
   mf_runtime_fingerprint_status (completed_manifest smoke_platform (\<lambda>_. None) [] smoke_manifest) = fingerprint_observed"
proof -
  obtain env json where w: "write_verdict [] (Some (env_text quote_env_value (manifest_entries smoke_manifest)))
      smoke_verdict = Inr (env, json)" using smoke_verdict_written by (metis surj_pair)
  have "vd_status smoke_verdict = ''passed''" by (simp add: smoke_verdict_def verdict_from_env_def)
  from passed_verdict_needs_observed_run[OF smoke_manifest_written w this] show ?thesis by blast
qed

end
