(* ===== verification/Compare.thy ===== *)
theory Compare
  imports BenchTypes
begin

section \<open>Benchmark comparison\<close>

text \<open>
  \<^verbatim>\<open>internal/benchmarkcompare\<close>: the deterministic bootstrap (SplitMix64), the decision rule on
  a confidence interval, the counterbalanced paired analysis, and the comparison of two
  independent series. \<open>compare_series\<close> starts from what \<open>benchmarkartifact.Verify\<close> returned
  for each side: the issues it found and, when there are none, the series.
\<close>

subsection \<open>The random generator\<close>

definition new_generator :: "64 word \<Rightarrow> 64 word" where
  "new_generator seed = (if seed = 0 then 0x9e3779b97f4a7c15 else seed)"

definition generator_next :: "64 word \<Rightarrow> 64 word \<times> 64 word" where
  "generator_next state =
     (let g = state + 0x9e3779b97f4a7c15;
          z1 = (xor g (drop_bit 30 g)) * 0xbf58476d1ce4e5b9;
          z2 = (xor z1 (drop_bit 27 z1)) * 0x94d049bb133111eb
      in (xor z2 (drop_bit 31 z2), g))"

definition intn :: "64 word \<Rightarrow> nat \<Rightarrow> nat \<times> 64 word" where
  "intn state n = (case generator_next state of (z, g) \<Rightarrow> (unat z mod n, g))"

text \<open>\<open>k\<close> draws with replacement from a pool.\<close>

fun resample :: "nat \<Rightarrow> 'a list \<Rightarrow> 64 word \<Rightarrow> 'a list \<times> 64 word" where
  "resample 0 pool g = ([], g)"
| "resample (Suc k) pool g =
     (case intn g (length pool) of (i, g') \<Rightarrow>
      case resample k pool g' of (rest, g'') \<Rightarrow> (pool ! i # rest, g''))"

lemma intn_less: "0 < n \<Longrightarrow> fst (intn g n) < n"
  by (simp add: intn_def split: prod.splits)

lemma resample_set: "pool \<noteq> [] \<Longrightarrow> set (fst (resample k pool g)) \<subseteq> set pool"
proof (induction k arbitrary: g)
  case (Suc k)
  obtain i g' where i: "intn g (length pool) = (i, g')" by fastforce
  have "i < length pool" using intn_less[of "length pool" g] i Suc.prems by simp
  then show ?case
    using Suc.IH[OF Suc.prems, of g'] i by (auto split: prod.splits)
qed simp

lemma resample_length: "length (fst (resample k pool g)) = k"
proof (induction k arbitrary: g)
  case (Suc k)
  obtain i g' where "intn g (length pool) = (i, g')" by fastforce
  then show ?case using Suc.IH[of g'] by (auto split: prod.splits)
qed simp

subsection \<open>The decision rule\<close>

definition decide_interval :: "f64 \<Rightarrow> f64 \<Rightarrow> f64 \<Rightarrow> string \<times> string \<times> string list" where
  "decide_interval low high threshold =
     (if f_less high (f_neg threshold) then (''failed'', ''regressed'', [])
      else if f_le (f_neg threshold) low then
        (if f_less (Fin 0) low then (''passed'', ''improved'', [])
         else if f_le high threshold then (''passed'', ''equivalent-within-threshold'', [])
         else (''passed'', ''no-regression'', []))
      else (''inconclusive'', ''inconclusive'',
            [''confidence interval crosses the predeclared regression boundary'']))"

definition normalized_change :: "f64 \<Rightarrow> f64 \<Rightarrow> string \<Rightarrow> f64" where
  "normalized_change baseline candidate direction =
     (if direction = ''lower'' then f_mul (Fin 100) (f_sub (Fin 1) (f_div candidate baseline))
      else f_mul (Fin 100) (f_sub (f_div candidate baseline) (Fin 1)))"

subsection \<open>Paired analysis\<close>

definition minimum_paired_units :: int where
  "minimum_paired_units = 5"

definition minimum_paired_bootstrap_resamples :: int where
  "minimum_paired_bootstrap_resamples = 1000"

definition maximum_paired_bootstrap_resamples :: int where
  "maximum_paired_bootstrap_resamples = 1000000"

record paired_block =
  pb_valid :: bool
  pb_baseline :: f64
  pb_candidate :: f64

record counterbalance_unit =
  cu_ab :: paired_block
  cu_ba :: paired_block

record paired_options =
  po_direction :: string
  po_regression_threshold_pct :: "f64 option"
  po_min_units :: int
  po_bootstrap_resamples :: int
  po_confidence_level :: f64
  po_seed :: "64 word"

record paired_unit_effect =
  pue_unit_index :: nat
  pue_eligible :: bool
  pue_ab_effect_pct :: "f64 option"
  pue_ba_effect_pct :: "f64 option"

record paired_analysis =
  pa_design :: string
  pa_direction :: string
  pa_bootstrap_method :: string
  pa_bootstrap_resamples :: int
  pa_bootstrap_seed :: "64 word"
  pa_confidence_level :: f64
  pa_regression_threshold_pct :: "f64 option"
  pa_min_units :: int
  pa_total_units :: nat
  pa_units_n :: nat
  pa_blocks_n :: nat
  pa_unit_effects :: "paired_unit_effect list"
  pa_median_effect_pct :: f64
  pa_ci_low_pct :: f64
  pa_ci_high_pct :: f64
  pa_status :: string
  pa_decision :: string
  pa_reasons :: "string list"

definition validate_paired_options :: "paired_options \<Rightarrow> string list" where
  "validate_paired_options options =
     (if po_direction options \<noteq> ''higher'' \<and> po_direction options \<noteq> ''lower''
      then [''direction must be higher or lower''] else []) @
     (if po_min_units options < minimum_paired_units
      then [''min units must be at least '' @ show_int minimum_paired_units] else []) @
     (if po_bootstrap_resamples options < minimum_paired_bootstrap_resamples \<or>
         po_bootstrap_resamples options > maximum_paired_bootstrap_resamples
      then [''bootstrap resamples must be between '' @ show_int minimum_paired_bootstrap_resamples
            @ '' and '' @ show_int maximum_paired_bootstrap_resamples] else []) @
     (if \<not> f_finite (po_confidence_level options) \<or> f_le (po_confidence_level options) half \<or>
         f_le (Fin 1) (po_confidence_level options)
      then [''confidence level must be finite and greater than 0.5 and less than 1''] else []) @
     (case po_regression_threshold_pct options of
        None \<Rightarrow> []
      | Some threshold \<Rightarrow>
          if \<not> f_finite threshold \<or> f_less threshold (Fin 0)
          then [''regression threshold must be finite and non-negative''] else [])"

definition paired_block_effect :: "paired_block \<Rightarrow> string \<Rightarrow> (string, f64) result" where
  "paired_block_effect block direction =
     (if \<not> f_finite (pb_baseline block) \<or> f_eq (pb_baseline block) (Fin 0)
      then Inl ''baseline must be finite and non-zero''
      else if \<not> f_finite (pb_candidate block) \<or> f_eq (pb_candidate block) (Fin 0)
      then Inl ''candidate must be finite and non-zero''
      else let effect = normalized_change (pb_baseline block) (pb_candidate block) direction
           in if \<not> f_finite effect
              then Inl ''normalized effect overflowed finite float64 range''
              else Inr effect)"

text \<open>
  The loop over the units. A block is only looked at when it is valid, so its effect is
  absent (\<open>Inr None\<close>) when it is not. The loop returns the reasons, the recorded effects and
  the eligible pairs.
\<close>

definition block_effect :: "paired_block \<Rightarrow> string \<Rightarrow> (string, f64 option) result" where
  "block_effect block direction =
     (if pb_valid block then bind_r (paired_block_effect block direction) (\<lambda>e. Inr (Some e))
      else Inr None)"

definition effect_reason :: "nat \<Rightarrow> string \<Rightarrow> (string, f64 option) result \<Rightarrow> string list" where
  "effect_reason index order r =
     (case r of Inl e \<Rightarrow> [''unit '' @ show_nat (index + 1) @ '' '' @ order @ '': '' @ e] | Inr _ \<Rightarrow> [])"

fun analyze_units ::
  "string \<Rightarrow> nat \<Rightarrow> counterbalance_unit list \<Rightarrow>
     string list \<times> paired_unit_effect list \<times> (f64 \<times> f64) list" where
  "analyze_units direction index [] = ([], [], [])"
| "analyze_units direction index (unit # units) =
     (let ab = block_effect (cu_ab unit) direction;
          ba = block_effect (cu_ba unit) direction;
          reasons = effect_reason index ''AB'' ab @ effect_reason index ''BA'' ba
      in case analyze_units direction (Suc index) units of (rs, effects, eligible) \<Rightarrow>
         case (ab, ba) of
           (Inr a, Inr b) \<Rightarrow>
             (reasons @ rs,
              \<lparr>pue_unit_index = index + 1,
               pue_eligible = pb_valid (cu_ab unit) \<and> pb_valid (cu_ba unit),
               pue_ab_effect_pct = a, pue_ba_effect_pct = b\<rparr> # effects,
              (case (a, b) of (Some x, Some y) \<Rightarrow> (x, y) # eligible | _ \<Rightarrow> eligible))
         | _ \<Rightarrow> (reasons @ rs, effects, eligible))"

definition flatten_paired_effects :: "(f64 \<times> f64) list \<Rightarrow> f64 list" where
  "flatten_paired_effects units = concat (map (\<lambda>(ab, ba). [ab, ba]) units)"

fun bootstrap_medians ::
  "nat \<Rightarrow> (f64 \<times> f64) list \<Rightarrow> 64 word \<Rightarrow> (stats_error, f64 list) result" where
  "bootstrap_medians 0 units g = Inr []"
| "bootstrap_medians (Suc k) units g =
     (case resample (length units) units g of (sample, g') \<Rightarrow>
        bind_r (percentile_type7 (flatten_paired_effects sample) half) (\<lambda>median.
        bind_r (bootstrap_medians k units g') (\<lambda>rest. Inr (median # rest))))"

definition bootstrap_paired_ci ::
  "(f64 \<times> f64) list \<Rightarrow> paired_options \<Rightarrow> (string, f64 \<times> f64) result" where
  "bootstrap_paired_ci units options =
     (case bootstrap_medians (nat (po_bootstrap_resamples options)) units
            (new_generator (po_seed options)) of
        Inl e \<Rightarrow> Inl (''paired bootstrap median: '' @ stats_message e)
      | Inr statistics \<Rightarrow>
        let alpha = f_sub (Fin 1) (po_confidence_level options)
        in case percentile_type7 statistics (f_div alpha (Fin 2)) of
             Inl e \<Rightarrow> Inl (''paired bootstrap lower bound: '' @ stats_message e)
           | Inr low \<Rightarrow>
             (case percentile_type7 statistics (f_sub (Fin 1) (f_div alpha (Fin 2))) of
                Inl e \<Rightarrow> Inl (''paired bootstrap upper bound: '' @ stats_message e)
              | Inr high \<Rightarrow> Inr (low, high)))"

definition finish_paired :: "paired_analysis \<Rightarrow> paired_analysis" where
  "finish_paired analysis = analysis\<lparr>pa_reasons := unique_sorted (pa_reasons analysis)\<rparr>"

definition initial_analysis :: "nat \<Rightarrow> paired_options \<Rightarrow> paired_analysis" where
  "initial_analysis unit_count options =
     \<lparr>pa_design = ''paired-counterbalanced-ab-ba'',
      pa_direction = po_direction options,
      pa_bootstrap_method = ''percentile-cluster-bootstrap-of-block-median'',
      pa_bootstrap_resamples = po_bootstrap_resamples options,
      pa_bootstrap_seed = po_seed options,
      pa_confidence_level = po_confidence_level options,
      pa_regression_threshold_pct = po_regression_threshold_pct options,
      pa_min_units = po_min_units options,
      pa_total_units = unit_count,
      pa_units_n = 0, pa_blocks_n = 0, pa_unit_effects = [],
      pa_median_effect_pct = Fin 0, pa_ci_low_pct = Fin 0, pa_ci_high_pct = Fin 0,
      pa_status = ''invalid'', pa_decision = ''invalid'', pa_reasons = []\<rparr>"

definition analyze_paired :: "counterbalance_unit list \<Rightarrow> paired_options \<Rightarrow> paired_analysis" where
  "analyze_paired units options =
     (let analysis0 = (initial_analysis (length units) options)
            \<lparr>pa_reasons := validate_paired_options options\<rparr>
      in if pa_reasons analysis0 \<noteq> [] then finish_paired analysis0
         else case analyze_units (po_direction options) 0 units of (reasons, effects, eligible) \<Rightarrow>
           let analysis1 = analysis0\<lparr>pa_reasons := reasons, pa_unit_effects := effects\<rparr>
           in if reasons \<noteq> [] then finish_paired analysis1
              else
                let analysis2 = analysis1\<lparr>pa_units_n := length eligible, pa_blocks_n := 2 * length eligible\<rparr>;
                    excluded = length units - length eligible
                in if int (length eligible) < po_min_units options
                   then finish_paired (analysis2\<lparr>pa_status := ''inconclusive'',
                     pa_decision := ''inconclusive'',
                     pa_reasons := (''at least '' @ show_int (po_min_units options)
                         @ '' complete valid AB/BA units are required; got ''
                         @ show_nat (length eligible))
                       # (if excluded > 0
                          then [show_nat excluded @ '' counterbalance units were excluded because at least one block was invalid'']
                          else [])\<rparr>)
                   else case percentile_type7 (flatten_paired_effects eligible) half of
                       Inl e \<Rightarrow> finish_paired (analysis2\<lparr>pa_reasons := [''paired effect median: '' @ stats_message e]\<rparr>)
                     | Inr median \<Rightarrow>
                       (case bootstrap_paired_ci eligible options of
                          Inl e \<Rightarrow> finish_paired (analysis2\<lparr>pa_reasons := [e]\<rparr>)
                        | Inr (low, high) \<Rightarrow>
                          let analysis3 = analysis2\<lparr>pa_median_effect_pct := median,
                                pa_ci_low_pct := low, pa_ci_high_pct := high\<rparr>
                          in case po_regression_threshold_pct options of
                               None \<Rightarrow> finish_paired (analysis3\<lparr>pa_status := ''inconclusive'',
                                 pa_decision := ''inconclusive'',
                                 pa_reasons := [''a predeclared regression threshold is required for a paired comparison gate'']\<rparr>)
                             | Some threshold \<Rightarrow>
                               (case decide_interval low high threshold of
                                  (status, decision, rs) \<Rightarrow>
                                    finish_paired (analysis3\<lparr>pa_status := status,
                                      pa_decision := decision, pa_reasons := rs\<rparr>))))"

subsection \<open>Independent series\<close>

record compare_options =
  co_bootstrap_resamples :: int
  co_confidence_level :: f64
  co_seed :: "64 word"

record comparison =
  cp_baseline_run_id :: string
  cp_candidate_run_id :: string
  cp_baseline_subject :: string
  cp_candidate_subject :: string
  cp_benchmark :: string
  cp_comparison_key_digest :: string
  cp_primary_metric :: string
  cp_direction :: string
  cp_design :: string
  cp_confidence_level :: f64
  cp_bootstrap_method :: string
  cp_bootstrap_resamples :: int
  cp_bootstrap_seed :: "64 word"
  cp_baseline_n :: nat
  cp_candidate_n :: nat
  cp_baseline_median :: f64
  cp_candidate_median :: f64
  cp_change_pct :: f64
  cp_ci_low_pct :: f64
  cp_ci_high_pct :: f64
  cp_regression_threshold_pct :: "f64 option"
  cp_differences :: "string list"
  cp_status :: string
  cp_decision :: string
  cp_reasons :: "string list"

text \<open>
  What \<^verbatim>\<open>benchmarkartifact.Verify\<close> returns without an error: the issues, and the series it loaded.
  \<open>IsValid\<close> is the absence of issues.
\<close>

record verification =
  ve_issues :: "string list"
  ve_series :: series

definition with_defaults :: "compare_options \<Rightarrow> compare_options" where
  "with_defaults options =
     (let o1 = (if co_bootstrap_resamples options = 0
                then options\<lparr>co_bootstrap_resamples := 10000\<rparr> else options);
          o2 = (if f_eq (co_confidence_level o1) (Fin 0)
                then o1\<lparr>co_confidence_level := rnd (95 / 100)\<rparr> else o1);
          o3 = (if co_seed o2 = 0 then o2\<lparr>co_seed := 0x5eed5eed5eed5eed\<rparr> else o2);
          o4 = (if co_bootstrap_resamples o3 < 1000 \<or> co_bootstrap_resamples o3 > 1000000
                then o3\<lparr>co_bootstrap_resamples := 10000\<rparr> else o3)
      in if co_confidence_level o4 = NaN \<or> f_le (co_confidence_level o4) half \<or>
            f_le (Fin 1) (co_confidence_level o4)
         then o4\<lparr>co_confidence_level := rnd (95 / 100)\<rparr> else o4)"

definition allowed :: "string list \<Rightarrow> string \<Rightarrow> bool" where
  "allowed values want = list_ex (\<lambda>v. v = want) values"

definition trial_populations_overlap :: "trial list \<Rightarrow> trial list \<Rightarrow> bool" where
  "trial_populations_overlap baseline candidate =
     list_ex (\<lambda>t. tr_run_id t \<in> set (map tr_run_id baseline)) candidate"

definition trial_values :: "series \<Rightarrow> f64 list" where
  "trial_values s =
     map (\<lambda>t. the (tr_primary_value t))
       (filter (\<lambda>t. tr_status t = ''passed'' \<and> tr_primary_value t \<noteq> None) (se_trials s))"

text \<open>
  \<open>checkComparability\<close> appends to the reasons and, for an allowed subject dimension, to the
  differences. The compared environment fields are the table of the code.
\<close>

definition compared_fields :: "(string \<times> (environment \<Rightarrow> string)) list" where
  "compared_fields =
     [(''runtime'', env_runtime), (''runtime_os'', env_runtime_os), (''runtime_arch'', env_runtime_arch),
      (''driver'', env_driver), (''driver_version'', env_driver_version),
      (''parser_version'', env_parser_version), (''target_endpoint_host'', env_target_endpoint_host),
      (''docker_driver_image_id'', env_docker_driver_image_id),
      (''docker_target_image_id'', env_docker_target_image_id),
      (''postgres_server_version_num'', env_postgres_server_version_num),
      (''engine_version'', env_engine_version), (''engine_commit'', env_engine_commit),
      (''pack_id'', env_pack_id), (''pack_version'', env_pack_version), (''pack_digest'', env_pack_digest),
      (''native_toolchain_provenance'', env_native_toolchain_provenance)]"

definition series_reasons :: "series \<Rightarrow> series \<Rightarrow> string list" where
  "series_reasons baseline candidate =
     (if se_run_id baseline = se_run_id candidate
      then [''baseline and candidate benchmark series must be distinct''] else []) @
     (if trial_populations_overlap (se_trials baseline) (se_trials candidate)
      then [''baseline and candidate share linked trial runs''] else []) @
     (if se_class baseline \<noteq> ''measurement'' \<or> se_class candidate \<noteq> ''measurement''
      then [''smoke series are not performance-comparison evidence''] else []) @
     (if se_comparison_key_digest baseline \<noteq> se_comparison_key_digest candidate
      then [''comparison key digests differ''] else []) @
     (if se_primary_metric baseline \<noteq> se_primary_metric candidate \<or>
         se_direction baseline \<noteq> se_direction candidate
      then [''primary metric or direction differs''] else []) @
     (if se_runtime baseline \<noteq> se_runtime candidate
      then [''native and Docker results are different performance populations''] else []) @
     (if se_reset_policy baseline \<noteq> se_reset_policy candidate
      then [''dataset reset policies differ''] else []) @
     (if se_engine_binary_digest baseline \<noteq> se_engine_binary_digest candidate
      then [''benchmark engine binary digests differ''] else [])"

text \<open>A subject dimension that differs: an allowed difference or a reason.\<close>

definition subject_dimension ::
  "series \<Rightarrow> series \<Rightarrow> bool \<Rightarrow> string \<Rightarrow> string \<Rightarrow> string list \<times> string list" where
  "subject_dimension baseline candidate differs name reason =
     (if \<not> differs then ([], [])
      else if allowed (se_allowed_differences baseline) name \<and> allowed (se_allowed_differences candidate) name
      then ([], [name]) else ([reason], []))"

definition environment_reasons ::
  "series \<Rightarrow> series \<Rightarrow> environment \<Rightarrow> environment \<Rightarrow> string list \<times> string list" where
  "environment_reasons baseline candidate left right =
     (let toolchain = subject_dimension baseline candidate
            (env_native_toolchain_digest left \<noteq> env_native_toolchain_digest right) ''native_toolchain''
            ''native toolchain differs without an allowed subject dimension'';
          config = subject_dimension baseline candidate
            (env_pg_config left \<noteq> env_pg_config right \<or>
             env_pg_config_digest left \<noteq> env_pg_config_digest right) ''pg_config''
            ''PostgreSQL config differs without an allowed subject dimension''
      in ((if env_qualification left \<noteq> env_qualification right
           then [''environment qualification differs''] else []) @
          map (\<lambda>(name, field). name @ '' differs'')
            (filter (\<lambda>(name, field). field left \<noteq> field right) compared_fields) @
          (if env_target_endpoint_port left \<noteq> env_target_endpoint_port right
           then [''target_endpoint_port differs''] else []) @
          fst toolchain @ fst config,
          snd toolchain @ snd config))"

definition check_comparability :: "comparison \<Rightarrow> series \<Rightarrow> series \<Rightarrow> comparison" where
  "check_comparability c baseline candidate =
     (let c1 = c\<lparr>cp_reasons := cp_reasons c @ series_reasons baseline candidate\<rparr>
      in case (se_environment baseline, se_environment candidate) of
           (Some left, Some right) \<Rightarrow>
             (case environment_reasons baseline candidate left right of (rs, ds) \<Rightarrow>
                c1\<lparr>cp_reasons := cp_reasons c1 @ rs, cp_differences := cp_differences c1 @ ds\<rparr>)
         | _ \<Rightarrow> c1\<lparr>cp_reasons := cp_reasons c1 @ [''environment evidence is missing'']\<rparr>)"

text \<open>The median that the callers take with the error dropped: zero when there is one.\<close>

definition median_or_zero :: "f64 list \<Rightarrow> f64" where
  "median_or_zero values = (case percentile_type7 values half of Inl _ \<Rightarrow> Fin 0 | Inr m \<Rightarrow> m)"

fun bootstrap_changes ::
  "nat \<Rightarrow> f64 list \<Rightarrow> f64 list \<Rightarrow> string \<Rightarrow> 64 word \<Rightarrow> (string, f64 list) result" where
  "bootstrap_changes 0 baseline candidate direction g = Inr []"
| "bootstrap_changes (Suc k) baseline candidate direction g =
     (case resample (length baseline) baseline g of (left, g1) \<Rightarrow>
      case resample (length candidate) candidate g1 of (right, g2) \<Rightarrow>
        if f_eq (median_or_zero left) (Fin 0) then Inl ''bootstrap baseline median is zero''
        else bind_r (bootstrap_changes k baseline candidate direction g2) (\<lambda>rest.
          Inr (normalized_change (median_or_zero left) (median_or_zero right) direction # rest)))"

definition bootstrap_ci ::
  "f64 list \<Rightarrow> f64 list \<Rightarrow> string \<Rightarrow> compare_options \<Rightarrow> (string, f64 \<times> f64) result" where
  "bootstrap_ci baseline candidate direction options =
     bind_r (bootstrap_changes (nat (co_bootstrap_resamples options)) baseline candidate direction
               (new_generator (co_seed options))) (\<lambda>changes.
     let alpha = f_sub (Fin 1) (co_confidence_level options)
     in case percentile_type7 changes (f_div alpha (Fin 2)) of
          Inl e \<Rightarrow> Inl (stats_message e)
        | Inr low \<Rightarrow>
          (case percentile_type7 changes (f_sub (Fin 1) (f_div alpha (Fin 2))) of
             Inl e \<Rightarrow> Inl (stats_message e)
           | Inr high \<Rightarrow> Inr (low, high)))"

definition finish :: "comparison \<Rightarrow> comparison" where
  "finish c = c\<lparr>cp_reasons := unique_sorted (cp_reasons c),
               cp_differences := unique_sorted (cp_differences c)\<rparr>"

definition conclude :: "string \<Rightarrow> string list \<Rightarrow> comparison \<Rightarrow> comparison" where
  "conclude status reasons c =
     finish (c\<lparr>cp_status := status, cp_decision := status, cp_reasons := cp_reasons c @ reasons\<rparr>)"

definition initial_comparison :: "compare_options \<Rightarrow> comparison" where
  "initial_comparison options =
     \<lparr>cp_baseline_run_id = [], cp_candidate_run_id = [], cp_baseline_subject = [],
      cp_candidate_subject = [], cp_benchmark = [], cp_comparison_key_digest = [],
      cp_primary_metric = [], cp_direction = [], cp_design = ''independent-series-unpaired'',
      cp_confidence_level = co_confidence_level options,
      cp_bootstrap_method = ''percentile-bootstrap-of-median-ratio'',
      cp_bootstrap_resamples = co_bootstrap_resamples options,
      cp_bootstrap_seed = co_seed options, cp_baseline_n = 0, cp_candidate_n = 0,
      cp_baseline_median = Fin 0, cp_candidate_median = Fin 0, cp_change_pct = Fin 0,
      cp_ci_low_pct = Fin 0, cp_ci_high_pct = Fin 0, cp_regression_threshold_pct = None,
      cp_differences = [], cp_status = ''not-comparable'', cp_decision = ''not-comparable'',
      cp_reasons = []\<rparr>"

definition verification_reasons :: "verification \<Rightarrow> verification \<Rightarrow> string list" where
  "verification_reasons baseline candidate =
     (if ve_issues baseline \<noteq> []
      then [''baseline artifact verification failed: '' @ join ''; '' (ve_issues baseline)] else []) @
     (if ve_issues candidate \<noteq> []
      then [''candidate artifact verification failed: '' @ join ''; '' (ve_issues candidate)] else [])"

text \<open>The statistics of two comparable series, from \<open>trialValues\<close> on.\<close>

definition compare_values :: "series \<Rightarrow> series \<Rightarrow> compare_options \<Rightarrow> comparison \<Rightarrow> comparison" where
  "compare_values baseline candidate options c0 =
     (let baseline_values = trial_values baseline;
          candidate_values = trial_values candidate;
          c = c0\<lparr>cp_baseline_n := length baseline_values, cp_candidate_n := length candidate_values\<rparr>
      in if length baseline_values < 5 \<or> length candidate_values < 5
         then conclude ''inconclusive'' [''at least 5 valid independent trials per subject are required''] c
         else case (se_regression_threshold_pct baseline, se_regression_threshold_pct candidate) of
           (Some tb, Some tc) \<Rightarrow>
             if \<not> f_eq tb tc
             then conclude ''not-comparable'' [''regression thresholds differ''] c
             else
               let baseline_median = median_or_zero baseline_values;
                   candidate_median = median_or_zero candidate_values
               in if f_eq baseline_median (Fin 0) \<or> f_eq candidate_median (Fin 0)
                  then conclude ''invalid'' [''median primary metric must be non-zero''] c
                  else
                    let c' = c\<lparr>cp_baseline_median := baseline_median,
                          cp_candidate_median := candidate_median,
                          cp_change_pct := normalized_change baseline_median candidate_median
                            (se_direction baseline)\<rparr>
                    in (case bootstrap_ci baseline_values candidate_values (se_direction baseline) options of
                          Inl e \<Rightarrow> conclude ''invalid'' [e] c'
                        | Inr (low, high) \<Rightarrow>
                          conclude ''inconclusive''
                            [''independent unqualified series are descriptive only; a counterbalanced run with recorded qualification bookends is required for a performance verdict'']
                            (c'\<lparr>cp_ci_low_pct := low, cp_ci_high_pct := high\<rparr>))
         | _ \<Rightarrow> conclude ''inconclusive''
                  [''a predeclared regression threshold is required for a comparison gate''] c)"

definition compare_series :: "verification \<Rightarrow> verification \<Rightarrow> compare_options \<Rightarrow> comparison" where
  "compare_series baseline_verification candidate_verification options0 =
     (let options = with_defaults options0;
          c0 = initial_comparison options;
          reasons = verification_reasons baseline_verification candidate_verification
      in if reasons \<noteq> [] then conclude ''invalid'' reasons c0
         else
           let baseline = ve_series baseline_verification;
               candidate = ve_series candidate_verification;
               c1 = check_comparability (c0\<lparr>
                 cp_baseline_run_id := se_run_id baseline,
                 cp_candidate_run_id := se_run_id candidate,
                 cp_baseline_subject := se_subject baseline,
                 cp_candidate_subject := se_subject candidate,
                 cp_benchmark := se_benchmark baseline,
                 cp_comparison_key_digest := se_comparison_key_digest baseline,
                 cp_primary_metric := se_primary_metric baseline,
                 cp_direction := se_direction baseline,
                 cp_regression_threshold_pct := se_regression_threshold_pct baseline\<rparr>) baseline candidate
           in if cp_reasons c1 \<noteq> [] then conclude ''not-comparable'' [] c1
              else if se_status baseline = ''failed'' \<or> se_status baseline = ''invalid'' \<or>
                se_status candidate = ''failed'' \<or> se_status candidate = ''invalid''
              then conclude ''invalid'' [''failed or invalid benchmark series cannot enter performance analysis''] c1
              else if se_status baseline = ''inconclusive'' \<or> se_status candidate = ''inconclusive''
              then conclude ''inconclusive'' [''an input benchmark series is inconclusive''] c1
              else compare_values baseline candidate options c1)"

subsection \<open>Facts on the decision\<close>

lemma decide_interval_status:
  "decide_interval low high t = (status, decision, rs) \<Longrightarrow>
     (status = ''failed'' \<longleftrightarrow> f_less high (f_neg t)) \<and>
     (status = ''passed'' \<longleftrightarrow> \<not> f_less high (f_neg t) \<and> f_le (f_neg t) low) \<and>
     (rs = [] \<longleftrightarrow> status \<noteq> ''inconclusive'')"
  by (auto simp: decide_interval_def split: if_splits)

definition complete_unit :: "counterbalance_unit \<Rightarrow> bool" where
  "complete_unit u = (pb_valid (cu_ab u) \<and> pb_valid (cu_ba u))"

text \<open>A block whose effect the code can compute, and the effect.\<close>

definition usable_block :: "paired_block \<Rightarrow> bool" where
  "usable_block b = (f_finite (pb_baseline b) \<and> \<not> f_eq (pb_baseline b) (Fin 0) \<and>
     f_finite (pb_candidate b) \<and> \<not> f_eq (pb_candidate b) (Fin 0))"

definition block_change :: "string \<Rightarrow> paired_block \<Rightarrow> f64" where
  "block_change d b = normalized_change (pb_baseline b) (pb_candidate b) d"

definition unit_changes :: "string \<Rightarrow> counterbalance_unit \<Rightarrow> f64 \<times> f64" where
  "unit_changes d u = (block_change d (cu_ab u), block_change d (cu_ba u))"

definition unit_blocks :: "counterbalance_unit \<Rightarrow> paired_block list" where
  "unit_blocks u = filter pb_valid [cu_ab u, cu_ba u]"

lemma paired_block_effect_Inr [result_simps]:
  "paired_block_effect b d = Inr e \<longleftrightarrow>
     usable_block b \<and> e = block_change d b \<and> f_finite e"
  by (auto simp: paired_block_effect_def usable_block_def block_change_def Let_def)

lemma block_effect_cases:
  "effect_reason i order (block_effect b d) = [] \<longleftrightarrow>
     (pb_valid b \<longrightarrow> usable_block b \<and> f_finite (block_change d b))"
  by (simp add: effect_reason_def block_effect_def paired_block_effect_def usable_block_def
      block_change_def Let_def)

lemma block_effect_value:
  "block_effect b d = Inr v \<longleftrightarrow>
     (if pb_valid b then usable_block b \<and> f_finite (block_change d b) \<and> v = Some (block_change d b)
      else v = None)"
  by (auto simp: block_effect_def result_simps)

definition sound_unit :: "string \<Rightarrow> counterbalance_unit \<Rightarrow> bool" where
  "sound_unit d u = list_all (\<lambda>b. usable_block b \<and> f_finite (block_change d b)) (unit_blocks u)"

lemma analyze_units_sound:
  assumes "analyze_units d i units = ([], effects, eligible)"
  shows "list_all (sound_unit d) units \<and> eligible = map (unit_changes d) (filter complete_unit units)
    \<and> length effects = length units"
  using assms
proof (induction units arbitrary: i effects eligible)
  case (Cons u us)
  obtain rs fs es where r: "analyze_units d (Suc i) us = (rs, fs, es)" by (metis prod_cases3)
  obtain va vb where v: "block_effect (cu_ab u) d = Inr va" "block_effect (cu_ba u) d = Inr vb"
    using Cons.prems r
    by (cases "block_effect (cu_ab u) d"; cases "block_effect (cu_ba u) d")
       (auto simp: Let_def effect_reason_def)
  then have "rs = []" and h: "effects = \<lparr>pue_unit_index = i + 1,
      pue_eligible = complete_unit u, pue_ab_effect_pct = va, pue_ba_effect_pct = vb\<rparr> # fs"
    "eligible = (case (va, vb) of (Some x, Some y) \<Rightarrow> (x, y) # es | _ \<Rightarrow> es)"
    using Cons.prems r by (auto simp: Let_def effect_reason_def complete_unit_def)
  with Cons.IH r have "list_all (sound_unit d) us" "es = map (unit_changes d) (filter complete_unit us)"
    "length fs = length us" by auto
  moreover have "sound_unit d u"
    using v by (auto simp: block_effect_value sound_unit_def unit_blocks_def split: if_splits)
  moreover have "complete_unit u \<Longrightarrow> va = Some (block_change d (cu_ab u)) \<and> vb = Some (block_change d (cu_ba u))"
    "\<not> complete_unit u \<Longrightarrow> va = None \<or> vb = None"
    using v by (auto simp: block_effect_value complete_unit_def split: if_splits)
  ultimately show ?case using h by (cases "complete_unit u") (auto simp: unit_changes_def split: option.splits)
qed simp

lemma finish_paired_simps [simp]:
  "pa_status (finish_paired a) = pa_status a" "pa_decision (finish_paired a) = pa_decision a"
  "pa_units_n (finish_paired a) = pa_units_n a" "pa_ci_low_pct (finish_paired a) = pa_ci_low_pct a"
  "pa_ci_high_pct (finish_paired a) = pa_ci_high_pct a"
  "pa_median_effect_pct (finish_paired a) = pa_median_effect_pct a"
  "pa_reasons (finish_paired a) = unique_sorted (pa_reasons a)"
  by (simp_all add: finish_paired_def)

lemma initial_analysis_status [simp]:
  "pa_status (initial_analysis n options) = ''invalid''"
  by (simp add: initial_analysis_def)

lemma validate_paired_options_ok:
  "validate_paired_options options = [] \<longleftrightarrow>
     (po_direction options = ''higher'' \<or> po_direction options = ''lower'') \<and>
     5 \<le> po_min_units options \<and>
     1000 \<le> po_bootstrap_resamples options \<and> po_bootstrap_resamples options \<le> 1000000 \<and>
     f_finite (po_confidence_level options) \<and> \<not> f_le (po_confidence_level options) half \<and>
     \<not> f_le (Fin 1) (po_confidence_level options) \<and>
     (\<forall>t. po_regression_threshold_pct options = Some t \<longrightarrow> f_finite t \<and> \<not> f_less t (Fin 0))"
  by (auto simp: validate_paired_options_def minimum_paired_units_def
      minimum_paired_bootstrap_resamples_def maximum_paired_bootstrap_resamples_def split: option.splits)

lemma analyze_paired_decided:
  assumes "pa_status (analyze_paired units options) \<in> {''passed'', ''failed''}"
  shows "validate_paired_options options = [] \<and> list_all (sound_unit (po_direction options)) units \<and>
    po_min_units options \<le> int (length (filter complete_unit units)) \<and>
    (\<exists>t low high median. po_regression_threshold_pct options = Some t \<and>
      percentile_type7 (flatten_paired_effects (map (unit_changes (po_direction options))
        (filter complete_unit units))) half = Inr median \<and>
      bootstrap_paired_ci (map (unit_changes (po_direction options)) (filter complete_unit units)) options
        = Inr (low, high) \<and>
      pa_status (analyze_paired units options) = fst (decide_interval low high t) \<and>
      pa_decision (analyze_paired units options) = fst (snd (decide_interval low high t)) \<and>
      pa_median_effect_pct (analyze_paired units options) = median \<and>
      pa_ci_low_pct (analyze_paired units options) = low \<and>
      pa_ci_high_pct (analyze_paired units options) = high \<and>
      pa_units_n (analyze_paired units options) = length (filter complete_unit units))"
proof -
  obtain rs fs es where r: "analyze_units (po_direction options) 0 units = (rs, fs, es)"
    by (metis prod_cases3)
  have v: "validate_paired_options options = []"
    using assms by (auto simp: analyze_paired_def Let_def split: if_splits)
  have rs: "rs = []"
    using assms v r by (auto simp: analyze_paired_def Let_def split: if_splits)
  note s = analyze_units_sound[OF r[unfolded rs]]
  have n: "po_min_units options \<le> int (length es)"
    using assms v r rs by (auto simp: analyze_paired_def Let_def split: if_splits)
  obtain median where m: "percentile_type7 (flatten_paired_effects es) half = Inr median"
    using assms v r rs n
    by (cases "percentile_type7 (flatten_paired_effects es) half") (auto simp: analyze_paired_def Let_def)
  obtain low high where b: "bootstrap_paired_ci es options = Inr (low, high)"
    using assms v r rs n m
    by (cases "bootstrap_paired_ci es options") (auto simp: analyze_paired_def Let_def)
  obtain t where t: "po_regression_threshold_pct options = Some t"
    using assms v r rs n m b
    by (cases "po_regression_threshold_pct options") (auto simp: analyze_paired_def Let_def)
  have es: "es = map (unit_changes (po_direction options)) (filter complete_unit units)"
    and len: "length es = length (filter complete_unit units)" using s by auto
  have "\<exists>t low high median. po_regression_threshold_pct options = Some t \<and>
      percentile_type7 (flatten_paired_effects es) half = Inr median \<and>
      bootstrap_paired_ci es options = Inr (low, high) \<and>
      pa_status (analyze_paired units options) = fst (decide_interval low high t) \<and>
      pa_decision (analyze_paired units options) = fst (snd (decide_interval low high t)) \<and>
      pa_median_effect_pct (analyze_paired units options) = median \<and>
      pa_ci_low_pct (analyze_paired units options) = low \<and>
      pa_ci_high_pct (analyze_paired units options) = high \<and>
      pa_units_n (analyze_paired units options) = length es"
    using v r rs n m b t
    by (intro exI[of _ t] exI[of _ low] exI[of _ high] exI[of _ median])
       (auto simp: analyze_paired_def Let_def initial_analysis_def split: prod.splits)
  then show ?thesis using v s n len unfolding es by auto
qed

text \<open>What a block without a valid execution holds is never read.\<close>

definition same_block :: "paired_block \<Rightarrow> paired_block \<Rightarrow> bool" where
  "same_block b c = (pb_valid b = pb_valid c \<and> (pb_valid b \<longrightarrow> b = c))"

definition same_unit :: "counterbalance_unit \<Rightarrow> counterbalance_unit \<Rightarrow> bool" where
  "same_unit u w = (same_block (cu_ab u) (cu_ab w) \<and> same_block (cu_ba u) (cu_ba w))"

lemma same_block_effect: "same_block b c \<Longrightarrow> block_effect b d = block_effect c d"
  unfolding same_block_def block_effect_def by (cases "pb_valid b") simp_all

lemma same_units_analyze:
  "list_all2 same_unit us ws \<Longrightarrow> analyze_units d i us = analyze_units d i ws"
proof (induction us ws arbitrary: i rule: list_all2_induct)
  case (Cons u us w ws)
  from Cons.hyps(1) have "same_block (cu_ab u) (cu_ab w)" "same_block (cu_ba u) (cu_ba w)"
    by (simp_all add: same_unit_def)
  then have e: "block_effect (cu_ab u) d = block_effect (cu_ab w) d"
    "block_effect (cu_ba u) d = block_effect (cu_ba w) d"
    "pb_valid (cu_ab u) = pb_valid (cu_ab w)" "pb_valid (cu_ba u) = pb_valid (cu_ba w)"
    by (simp_all only: same_block_effect) (simp_all add: same_block_def)
  show ?case unfolding analyze_units.simps e Cons.IH ..
qed simp

lemma same_units_paired:
  assumes "list_all2 same_unit us ws"
  shows "analyze_paired us options = analyze_paired ws options"
proof -
  note a = same_units_analyze[OF assms, of "po_direction options" 0]
  note b = list_all2_lengthD[OF assms]
  show ?thesis unfolding analyze_paired_def a b by (rule refl)
qed

lemma set_flatten: "set (flatten_paired_effects us) = fst ` set us \<union> snd ` set us"
  by (force simp: flatten_paired_effects_def image_iff)

lemma length_flatten: "length (flatten_paired_effects us) = 2 * length us"
  by (induction us) (auto simp: flatten_paired_effects_def)

lemma bootstrap_medians_const:
  assumes "set us = {(Fin c, Fin c)}" "f_valid (Fin c)" "2 * length us < 2 ^ 53"
  shows "bootstrap_medians k us g = Inr (replicate k (Fin c))"
proof (induction k arbitrary: g)
  case (Suc k)
  obtain sample g' where r: "resample (length us) us g = (sample, g')" by fastforce
  have ne: "us \<noteq> []" using assms(1) by (metis insert_not_empty set_empty)
  have len: "length sample = length us" using resample_length[of "length us" us g] r by simp
  moreover have "set sample \<subseteq> {(Fin c, Fin c)}" using resample_set[OF ne, of "length us" g] r assms(1) by simp
  ultimately have "set sample = {(Fin c, Fin c)}"
    using ne by (metis subset_singletonD set_empty length_0_conv)
  then have "percentile_type7 (flatten_paired_effects sample) half = Inr (Fin c)"
    using assms(2,3) len by (intro percentile_const) (simp_all add: set_flatten length_flatten)
  then show ?case using Suc r by simp
qed simp

lemma half_gap_probability:
  assumes "f_finite level" "\<not> f_le level half" "\<not> f_le (Fin 1) level"
  shows "probability (f_div (f_sub (Fin 1) level) (Fin 2))"
    and "probability (f_sub (Fin 1) (f_div (f_sub (Fin 1) level) (Fin 2)))"
proof -
  obtain l where l: "level = Fin l" "1 / 2 < l" "l < 1"
    using assms by (cases level) (auto simp: f_le_def)
  have one: "f_valid (Fin 1)" using f_valid_small_int[of 1] by simp
  have unit: "\<exists>r. rnd x = Fin r \<and> 0 \<le> r \<and> r \<le> 1" if "0 \<le> x" "x \<le> 1" for x
    using rnd_mono[OF that(1)] rnd_mono[OF that(2)] rnd_exact[OF one]
    by (cases "rnd x") (auto simp: less_eq_f64_def less_f64_def split: if_splits)
  obtain a where a: "rnd (1 - l) = Fin a" "0 \<le> a" "a \<le> 1" using unit[of "1 - l"] l by auto
  obtain b where b: "rnd (a / 2) = Fin b" "0 \<le> b" "b \<le> 1" using unit[of "a / 2"] a by auto
  obtain d where d: "rnd (1 - b) = Fin d" "0 \<le> d" "d \<le> 1" using unit[of "1 - b"] b by auto
  show "probability (f_div (f_sub (Fin 1) level) (Fin 2))"
    and "probability (f_sub (Fin 1) (f_div (f_sub (Fin 1) level) (Fin 2)))"
    using a b d by (simp_all add: l f_sub_def probability_def)
qed

lemma bootstrap_paired_ci_const:
  assumes "set us = {(Fin c, Fin c)}" "f_valid (Fin c)" "2 * length us < 2 ^ 53"
    and "validate_paired_options options = []"
  shows "bootstrap_paired_ci us options = Inr (Fin c, Fin c)"
proof -
  define k where "k = nat (po_bootstrap_resamples options)"
  have k: "0 < k" "k < 2 ^ 53" using assms(4) by (auto simp: validate_paired_options_ok k_def)
  have p: "percentile_type7 (replicate k (Fin c)) p = Inr (Fin c)" if "probability p" for p
    using k that assms(2) by (intro percentile_const) auto
  show ?thesis
    using assms(4) unfolding bootstrap_paired_ci_def k_def[symmetric] bootstrap_medians_const[OF assms(1-3)] Let_def
    by (simp add: p half_gap_probability validate_paired_options_ok)
qed

text \<open>
  When every complete unit shows the same effect in both orders, the interval collapses to it and
  the decision is the rule at that point.
\<close>

lemma analyze_units_complete:
  assumes "list_all complete_unit units" and "list_all (sound_unit d) units"
  shows "\<exists>effects. analyze_units d i units = ([], effects, map (unit_changes d) units)"
  using assms
proof (induction units arbitrary: i)
  case (Cons u us)
  then obtain fs where r: "analyze_units d (Suc i) us = ([], fs, map (unit_changes d) us)" by force
  have "block_effect (cu_ab u) d = Inr (Some (block_change d (cu_ab u)))"
    "block_effect (cu_ba u) d = Inr (Some (block_change d (cu_ba u)))"
    using Cons.prems by (auto simp: block_effect_value complete_unit_def sound_unit_def unit_blocks_def)
  then show ?case using r by (simp add: Let_def effect_reason_def unit_changes_def)
qed simp

lemma analyze_paired_constant:
  assumes "list_all complete_unit units" "list_all (sound_unit (po_direction options)) units"
    and "validate_paired_options options = []" "po_min_units options \<le> int (length units)"
    and "2 * length units < 2 ^ 53"
    and "\<And>u. u \<in> set units \<Longrightarrow> unit_changes (po_direction options) u = (Fin c, Fin c)" "f_valid (Fin c)"
    and "po_regression_threshold_pct options = Some t"
  shows "pa_status (analyze_paired units options) = fst (decide_interval (Fin c) (Fin c) t)"
proof -
  define es where "es = map (unit_changes (po_direction options)) units"
  have "units \<noteq> []" using assms(3,4) by (auto simp: validate_paired_options_ok)
  then have es: "set es = {(Fin c, Fin c)}" using assms(6) by (cases units) (auto simp: es_def)
  obtain fs where r: "analyze_units (po_direction options) 0 units = ([], fs, es)"
    using analyze_units_complete[OF assms(1,2)] es_def by blast
  have "percentile_type7 (flatten_paired_effects es) half = Inr (Fin c)"
    using assms(5,7) es by (intro percentile_const) (simp_all add: set_flatten length_flatten es_def)
  moreover have "bootstrap_paired_ci es options = Inr (Fin c, Fin c)"
    using assms es by (intro bootstrap_paired_ci_const) (simp_all add: es_def)
  ultimately show ?thesis
    using assms(3,4,8) r by (simp add: analyze_paired_def Let_def es_def[symmetric] split: prod.splits)
       (simp add: es_def)
qed

subsection \<open>Properties of the paired analysis\<close>

definition doubling_unit :: counterbalance_unit where
  "doubling_unit = \<lparr>cu_ab = \<lparr>pb_valid = True, pb_baseline = Fin 1, pb_candidate = Fin 2\<rparr>,
                    cu_ba = \<lparr>pb_valid = True, pb_baseline = Fin 3, pb_candidate = Fin 6\<rparr>\<rparr>"

definition sample_paired_options :: paired_options where
  "sample_paired_options = \<lparr>po_direction = ''higher'', po_regression_threshold_pct = Some (Fin 5),
     po_min_units = 5, po_bootstrap_resamples = 1000, po_confidence_level = Fin (3 / 4), po_seed = 7\<rparr>"

lemma rnd_numeral: "(numeral n :: int) < 2 ^ 53 \<Longrightarrow> rnd (numeral n) = Fin (numeral n)"
  using rnd_exact[OF f_valid_small_int[of "numeral n"]] by simp

lemma sample_options_valid: "validate_paired_options sample_paired_options = []"
  by (simp add: validate_paired_options_ok sample_paired_options_def f_le_def)

lemma doubling_unit_changes:
  "unit_changes ''higher'' doubling_unit = (Fin 100, Fin 100)"
  using rnd_exact[OF f_valid_small_int[of 1]]
  by (simp add: unit_changes_def block_change_def doubling_unit_def normalized_change_def f_sub_def rnd_numeral)

lemma doubling_unit_sound: "complete_unit doubling_unit \<and> sound_unit ''higher'' doubling_unit"
  using doubling_unit_changes
  by (simp add: unit_changes_def complete_unit_def sound_unit_def unit_blocks_def usable_block_def)
     (simp add: doubling_unit_def)

lemma doubling_units_pass:
  "pa_status (analyze_paired (replicate 5 doubling_unit) sample_paired_options) = ''passed''"
proof -
  have "pa_status (analyze_paired (replicate 5 doubling_unit) sample_paired_options) =
      fst (decide_interval (Fin 100) (Fin 100) (Fin 5))"
    by (rule analyze_paired_constant)
       (use sample_options_valid doubling_unit_sound doubling_unit_changes f_valid_small_int[of 100] in
        \<open>simp_all add: sample_paired_options_def list_all_iff\<close>)
  then show ?thesis by (simp add: decide_interval_def f_le_def)
qed

text \<open>Unanimous evidence decides by the threshold alone: when every unit is complete and all blocks show
  the same effect, the bootstrap interval collapses to that effect for every seed and resample count, and
  the status is the decision rule at that point.\<close>

theorem unanimous_units_decide:
  assumes "list_all complete_unit units" "list_all (sound_unit (po_direction options)) units"
    and "validate_paired_options options = []" "po_min_units options \<le> int (length units)"
    and "2 * length units < 2 ^ 53" "f_valid (Fin c)"
    and "list_all (\<lambda>u. unit_changes (po_direction options) u = (Fin c, Fin c)) units"
    and "po_regression_threshold_pct options = Some t"
  shows "pa_status (analyze_paired units options) = fst (decide_interval (Fin c) (Fin c) t)"
  using assms by (intro analyze_paired_constant) (simp_all add: list_all_iff)

theorem unanimous_units_decide_witness:
  "pa_status (analyze_paired (replicate 5 doubling_unit) sample_paired_options) =
     fst (decide_interval (Fin 100) (Fin 100) (Fin 5))"
  by (rule unanimous_units_decide)
     (use sample_options_valid doubling_unit_sound doubling_unit_changes f_valid_small_int[of 100] in
      \<open>simp_all add: sample_paired_options_def list_all_iff\<close>)

text \<open>The decision rule is exhaustive and exclusive: an interval fails exactly when it lies below
  the negative threshold, passes exactly when it does not and its lower end reaches the negative
  threshold, and is inconclusive, with a reason, exactly otherwise (a NaN bound included). A pass is
  \<open>improved\<close> only above zero and \<open>equivalent\<close> only inside the threshold.\<close>

theorem decide_interval_exhaustive:
  "(fst (decide_interval low high t) = ''failed'') = f_less high (f_neg t) \<and>
   (fst (decide_interval low high t) = ''passed'') = (\<not> f_less high (f_neg t) \<and> f_le (f_neg t) low) \<and>
   (fst (decide_interval low high t) = ''inconclusive'') =
     (\<not> f_less high (f_neg t) \<and> \<not> f_le (f_neg t) low) \<and>
   (snd (snd (decide_interval low high t)) = []) = (fst (decide_interval low high t) \<noteq> ''inconclusive'') \<and>
   (fst (snd (decide_interval low high t)) = ''improved'') =
     (fst (decide_interval low high t) = ''passed'' \<and> f_less (Fin 0) low) \<and>
   (fst (snd (decide_interval low high t)) = ''equivalent-within-threshold'') =
     (fst (decide_interval low high t) = ''passed'' \<and> \<not> f_less (Fin 0) low \<and> f_le high t)"
  by (simp add: decide_interval_def)

lemma decision_status_cases:
  "fst (decide_interval low high t) \<in> {''passed'', ''failed'', ''inconclusive''}"
  by (simp add: decide_interval_def)

text \<open>C2: A paired analysis that passes or fails is fully justified: the options were valid (a direction that is
  higher or lower, at least five units, 1000 to 1000000 resamples, a finite confidence level strictly between one half
  and one, a finite threshold that is not negative), every block marked valid had finite non-zero values and a finite
  effect, at least the predeclared number of complete AB/BA units was present, and the verdict is the decision rule
  applied to the bootstrap interval of exactly those complete units.\<close>

theorem paired_verdict_justified:
  assumes "pa_status (analyze_paired units options) = ''passed'' \<or>
           pa_status (analyze_paired units options) = ''failed''"
  shows "po_direction options \<in> {''higher'', ''lower''} \<and>
    5 \<le> length (filter complete_unit units) \<and>
    po_min_units options \<le> int (length (filter complete_unit units)) \<and>
    1000 \<le> po_bootstrap_resamples options \<and> po_bootstrap_resamples options \<le> 1000000 \<and>
    f_finite (po_confidence_level options) \<and> f_less half (po_confidence_level options) \<and>
    f_less (po_confidence_level options) (Fin 1) \<and>
    list_all (sound_unit (po_direction options)) units \<and>
    (\<exists>t low high. po_regression_threshold_pct options = Some t \<and> f_finite t \<and> \<not> f_less t (Fin 0) \<and>
      bootstrap_paired_ci (map (unit_changes (po_direction options)) (filter complete_unit units)) options
        = Inr (low, high) \<and>
      pa_ci_low_pct (analyze_paired units options) = low \<and>
      pa_ci_high_pct (analyze_paired units options) = high \<and>
      (pa_status (analyze_paired units options), pa_decision (analyze_paired units options)) =
        (fst (decide_interval low high t), fst (snd (decide_interval low high t))))"
proof -
  have "pa_status (analyze_paired units options) \<in> {''passed'', ''failed''}" using assms by simp
  from analyze_paired_decided[OF this] obtain t low high where
    v: "validate_paired_options options = []" "list_all (sound_unit (po_direction options)) units"
      "po_min_units options \<le> int (length (filter complete_unit units))"
    and d: "po_regression_threshold_pct options = Some t"
      "bootstrap_paired_ci (map (unit_changes (po_direction options)) (filter complete_unit units)) options
        = Inr (low, high)"
      "pa_status (analyze_paired units options) = fst (decide_interval low high t)"
      "pa_decision (analyze_paired units options) = fst (snd (decide_interval low high t))"
      "pa_ci_low_pct (analyze_paired units options) = low" "pa_ci_high_pct (analyze_paired units options) = high"
    by blast
  have o: "5 \<le> po_min_units options" "1000 \<le> po_bootstrap_resamples options" "po_bootstrap_resamples options \<le> 1000000"
    "po_direction options \<in> {''higher'', ''lower''}" "f_finite (po_confidence_level options)"
    "\<not> f_le (po_confidence_level options) half" "\<not> f_le (Fin 1) (po_confidence_level options)"
    "f_finite t" "\<not> f_less t (Fin 0)"
    using v(1) d(1) unfolding validate_paired_options_ok by auto
  have "f_less half (po_confidence_level options)" "f_less (po_confidence_level options) (Fin 1)"
    using o(5-7) by (cases "po_confidence_level options"; auto simp: f_le_def)+
  then show ?thesis using v d o by auto
qed

theorem paired_verdict_justified_witness:
  "po_min_units sample_paired_options \<le> int (length (filter complete_unit (replicate 5 doubling_unit)))"
  using paired_verdict_justified[OF disjI1, OF doubling_units_pass] by blast

text \<open>C35: Values recorded in a block that is not valid have no influence at all: two populations whose
  blocks agree on validity, and agree on the values of the valid blocks, have the same analysis.\<close>

theorem invalid_blocks_never_read:
  assumes "list_all2 same_unit units units'"
  shows "analyze_paired units options = analyze_paired units' options"
  by (rule same_units_paired[OF assms])

theorem invalid_blocks_never_read_witness:
  "analyze_paired [\<lparr>cu_ab = \<lparr>pb_valid = False, pb_baseline = NaN, pb_candidate = Fin 1\<rparr>,
                    cu_ba = \<lparr>pb_valid = True, pb_baseline = Fin 2, pb_candidate = Fin 3\<rparr>\<rparr>] sample_paired_options =
   analyze_paired [\<lparr>cu_ab = \<lparr>pb_valid = False, pb_baseline = Inf True, pb_candidate = Fin 0\<rparr>,
                    cu_ba = \<lparr>pb_valid = True, pb_baseline = Fin 2, pb_candidate = Fin 3\<rparr>\<rparr>] sample_paired_options"
  by (rule invalid_blocks_never_read) (simp add: same_unit_def same_block_def)

lemma when_Nil: "(if b then [x] else []) = [] \<longleftrightarrow> \<not> b"
  by simp

subsection \<open>Facts on the comparison of independent series\<close>

lemma conclude_simps [simp]:
  "cp_status (conclude s rs c) = s" "cp_decision (conclude s rs c) = s"
  "cp_baseline_n (conclude s rs c) = cp_baseline_n c"
  "cp_candidate_n (conclude s rs c) = cp_candidate_n c"
  "cp_reasons (conclude s rs c) = unique_sorted (cp_reasons c @ rs)"
  "cp_differences (conclude s rs c) = unique_sorted (cp_differences c)"
  by (simp_all add: conclude_def finish_def)

lemma check_comparability_fields [simp]:
  "cp_baseline_n (check_comparability c b d) = cp_baseline_n c"
  "cp_candidate_n (check_comparability c b d) = cp_candidate_n c"
  by (simp_all add: check_comparability_def Let_def split: option.splits prod.splits)

lemma check_comparability_clean:
  "cp_reasons (check_comparability c b d) = [] \<longleftrightarrow>
     cp_reasons c = [] \<and> series_reasons b d = [] \<and>
     (\<exists>l r. se_environment b = Some l \<and> se_environment d = Some r \<and>
        fst (environment_reasons b d l r) = [])"
  by (auto simp: check_comparability_def Let_def split: option.splits prod.splits)

lemma check_comparability_differences:
  "set (cp_differences (check_comparability c b d)) \<subseteq>
     set (cp_differences c) \<union> (set (se_allowed_differences b) \<inter> set (se_allowed_differences d))"
  by (auto simp: check_comparability_def Let_def environment_reasons_def subject_dimension_def
      allowed_def list_ex_iff split: option.splits prod.splits if_splits)

lemma series_reasons_Nil:
  "series_reasons b d = [] \<longleftrightarrow>
     se_run_id b \<noteq> se_run_id d \<and>
     set (map tr_run_id (se_trials b)) \<inter> set (map tr_run_id (se_trials d)) = {} \<and>
     se_class b = ''measurement'' \<and> se_class d = ''measurement'' \<and>
     se_comparison_key_digest b = se_comparison_key_digest d \<and>
     se_primary_metric b = se_primary_metric d \<and> se_direction b = se_direction d \<and>
     se_runtime b = se_runtime d \<and> se_reset_policy b = se_reset_policy d \<and>
     se_engine_binary_digest b = se_engine_binary_digest d"
proof -
  have "trial_populations_overlap (se_trials b) (se_trials d) \<longleftrightarrow>
      set (map tr_run_id (se_trials b)) \<inter> set (map tr_run_id (se_trials d)) \<noteq> {}"
    by (auto simp: trial_populations_overlap_def list_ex_iff) (metis imageI)
  then show ?thesis unfolding series_reasons_def append_is_Nil_conv when_Nil by simp
qed

lemma compare_values_status:
  "cp_status (compare_values b d options c) \<in> {''invalid'', ''not-comparable'', ''inconclusive''} \<and>
   cp_decision (compare_values b d options c) = cp_status (compare_values b d options c)"
  by (auto simp: compare_values_def Let_def split: option.splits sum.splits)

lemma compare_series_status:
  "cp_status (compare_series b d options) \<in> {''invalid'', ''not-comparable'', ''inconclusive''} \<and>
   cp_decision (compare_series b d options) = cp_status (compare_series b d options)"
  using compare_values_status by (simp add: compare_series_def Let_def)

lemma verification_reasons_Nil:
  "verification_reasons b d = [] \<longleftrightarrow> ve_issues b = [] \<and> ve_issues d = []"
  unfolding verification_reasons_def by simp

lemma compare_series_counted:
  assumes "0 < cp_baseline_n (compare_series b d options)"
  shows "ve_issues b = [] \<and> ve_issues d = [] \<and> series_reasons (ve_series b) (ve_series d) = [] \<and>
    (\<exists>l r. se_environment (ve_series b) = Some l \<and> se_environment (ve_series d) = Some r \<and>
       fst (environment_reasons (ve_series b) (ve_series d) l r) = [])"
proof -
  define vr where "vr = verification_reasons b d"
  have v: "vr = []"
    using assms unfolding compare_series_def Let_def vr_def[symmetric]
    by (auto simp: initial_comparison_def split: if_splits)
  define c where "c = check_comparability ((initial_comparison (with_defaults options))\<lparr>
                 cp_baseline_run_id := se_run_id (ve_series b),
                 cp_candidate_run_id := se_run_id (ve_series d),
                 cp_baseline_subject := se_subject (ve_series b),
                 cp_candidate_subject := se_subject (ve_series d),
                 cp_benchmark := se_benchmark (ve_series b),
                 cp_comparison_key_digest := se_comparison_key_digest (ve_series b),
                 cp_primary_metric := se_primary_metric (ve_series b),
                 cp_direction := se_direction (ve_series b),
                 cp_regression_threshold_pct := se_regression_threshold_pct (ve_series b)\<rparr>)
        (ve_series b) (ve_series d)"
  have n: "cp_baseline_n c = 0" by (simp add: c_def initial_comparison_def)
  have "cp_reasons c = []"
    using assms v n unfolding compare_series_def Let_def vr_def[symmetric] c_def[symmetric]
    by (auto split: if_splits)
  then show ?thesis
    using v unfolding c_def check_comparability_clean vr_def verification_reasons_Nil by blast
qed

definition sample_environment :: environment where
  "sample_environment = \<lparr>env_schema_version = [], env_artifact_type = [], env_runtime = ''native'',
     env_runtime_os = [], env_runtime_arch = [], env_driver = [], env_target = [],
     env_target_endpoint_contract = [], env_target_endpoint_host = [], env_target_endpoint_port = 5432,
     env_docker_driver_image_id = [], env_docker_target_image_id = [], env_target_topology = [],
     env_driver_version = [], env_parser_version = [], env_postgres_server_version_num = [],
     env_postgres_server_major = [], env_pg_config = [], env_pg_config_digest = [],
     env_subject_dimension = [], env_native_toolchain_digest = [],
     env_native_toolchain_manifest_ref = [], env_native_toolchain_provenance = [],
     env_engine_version = [], env_engine_commit = [], env_engine_binary_digest = [], env_pack_id = [],
     env_pack_version = [], env_pack_digest = [], env_qualification = [], env_digest = []\<rparr>"

definition sample_trial :: "string \<Rightarrow> trial" where
  "sample_trial run = \<lparr>tr_schema_version = [], tr_artifact_type = [], tr_trial = 1, tr_run_id = run,
     tr_run_ref = [], tr_started_at = [], tr_finished_at = [], tr_duration_ms = 0, tr_status = ''passed'',
     tr_reasons = [], tr_experiment_verified = True, tr_environment_digest = [],
     tr_primary_metric = ''tps'', tr_primary_value = Some (Fin 100)\<rparr>"

definition sample_series :: "string \<Rightarrow> series" where
  "sample_series run = \<lparr>se_benchmark = [], se_name = [], se_class = ''measurement'', se_driver = [],
     se_target = [], se_target_endpoint_contract = [], se_target_topology = [], se_subject = run,
     se_run_id = run, se_run_dir = [], se_spec_ref = [], se_spec_digest = [], se_protocol_digest = [],
     se_comparison_key_digest = [], se_engine_binary_ref = [], se_engine_binary_digest = [],
     se_allowed_differences = [], se_runtime = ''native'', se_pgbouncer_port = None,
     se_evidence_class = [], se_primary_metric = ''tps'', se_direction = ''higher'',
     se_regression_threshold_pct = None, se_max_cv_pct = Fin 5, se_reset_policy = [],
     se_started_at = [], se_finished_at = [], se_status = ''passed'', se_reasons = [],
     se_trials_planned = 1, se_trials_valid = 1, se_trials_failed = 0, se_trials_invalid = 0,
     se_environment = Some sample_environment, se_stats = None, se_trials = [sample_trial run]\<rparr>"

definition sample_verification :: "string \<Rightarrow> verification" where
  "sample_verification run = \<lparr>ve_issues = [], ve_series = sample_series run\<rparr>"

lemma sample_comparable:
  "series_reasons (sample_series ''a'') (sample_series ''b'') = [] \<and>
   fst (environment_reasons (sample_series ''a'') (sample_series ''b'') sample_environment sample_environment) = []"
  by (simp add: series_reasons_Nil sample_series_def sample_trial_def)
     (simp add: environment_reasons_def subject_dimension_def compared_fields_def)

lemma sample_counted:
  "cp_baseline_n (compare_series (sample_verification ''a'') (sample_verification ''b'')
     \<lparr>co_bootstrap_resamples = 0, co_confidence_level = Fin 0, co_seed = 0\<rparr>) = 1"
proof -
  have "se_environment (sample_series run) = Some sample_environment" "se_status (sample_series run) = ''passed''"
    "length (trial_values (sample_series run)) = 1" for run
    by (simp_all add: sample_series_def trial_values_def sample_trial_def)
  then show ?thesis
    using sample_comparable
    by (simp add: compare_series_def compare_values_def Let_def verification_reasons_def
        sample_verification_def check_comparability_clean initial_comparison_def)
qed

text \<open>Two independently executed series never produce a performance verdict: whatever the inputs and
  options, the outcome is \<open>invalid\<close>, \<open>not-comparable\<close> or \<open>inconclusive\<close>, status and decision agree,
  and the reasons are sorted, without duplicates.\<close>

theorem independent_series_never_decide:
  "cp_status (compare_series baseline candidate options) \<in> {''invalid'', ''not-comparable'', ''inconclusive''} \<and>
   cp_decision (compare_series baseline candidate options) = cp_status (compare_series baseline candidate options)"
  by (rule compare_series_status)

text \<open>Trial values are only counted for comparable populations: both artifacts verified, the series are
  distinct measurement series over disjoint trial runs with the same key, metric, direction, runtime,
  reset policy and engine binary, and their environments agree on every compared field.\<close>

theorem counted_values_are_comparable:
  assumes "0 < cp_baseline_n (compare_series b d options)"
  shows "ve_issues b = [] \<and> ve_issues d = [] \<and> se_run_id (ve_series b) \<noteq> se_run_id (ve_series d) \<and>
    set (map tr_run_id (se_trials (ve_series b))) \<inter> set (map tr_run_id (se_trials (ve_series d))) = {} \<and>
    se_class (ve_series b) = ''measurement'' \<and>
    se_comparison_key_digest (ve_series b) = se_comparison_key_digest (ve_series d) \<and>
    se_engine_binary_digest (ve_series b) = se_engine_binary_digest (ve_series d) \<and>
    (\<exists>l r. se_environment (ve_series b) = Some l \<and> se_environment (ve_series d) = Some r \<and>
       env_qualification l = env_qualification r \<and> env_target_endpoint_port l = env_target_endpoint_port r \<and>
       list_all (\<lambda>(name, field). field l = field r) compared_fields)"
proof -
  from compare_series_counted[OF assms] obtain l r where
    h: "ve_issues b = []" "ve_issues d = []" "series_reasons (ve_series b) (ve_series d) = []"
    and e: "se_environment (ve_series b) = Some l" "se_environment (ve_series d) = Some r"
    and n: "fst (environment_reasons (ve_series b) (ve_series d) l r) = []" by blast
  from n have "filter (\<lambda>(name, field). field l \<noteq> field r) compared_fields = []"
    "env_qualification l = env_qualification r" "env_target_endpoint_port l = env_target_endpoint_port r"
    unfolding environment_reasons_def Let_def by (simp_all split: if_splits)
  then have "list_all (\<lambda>(name, field). field l = field r) compared_fields"
    by (auto simp: list_all_iff filter_empty_conv)
  with h e \<open>env_qualification l = _\<close> \<open>env_target_endpoint_port l = _\<close> show ?thesis
    unfolding series_reasons_Nil by blast
qed

theorem counted_values_are_comparable_witness:
  "se_class (ve_series (sample_verification ''a'')) = ''measurement''"
  using counted_values_are_comparable[of "sample_verification ''a''" "sample_verification ''b''"
      "\<lparr>co_bootstrap_resamples = 0, co_confidence_level = Fin 0, co_seed = 0\<rparr>"] sample_counted
  by simp

lemma default_confidence:
  "\<exists>r. rnd (95 / 100) = Fin r \<and> 1 / 2 < r \<and> r < 1"
proof -
  have "f_valid (Fin (3 / 4))"
    using representableI[of "3/4" 3 "-2"] by (simp add: power_int_minus)
  moreover have "f_valid (Fin (31 / 32))"
    using representableI[of "31/32" 31 "-5"] by (simp add: power_int_minus)
  ultimately have "Fin (3 / 4) \<le> rnd (95 / 100)" "rnd (95 / 100) \<le> Fin (31 / 32)"
    using rnd_mono[of "3 / 4" "95 / 100"] rnd_mono[of "95 / 100" "31 / 32"] by (simp_all add: rnd_exact)
  then obtain r where "rnd (95 / 100) = Fin r" "Fin (3 / 4) \<le> Fin r" "Fin r \<le> Fin (31 / 32)"
    by (cases "rnd (95 / 100)") (auto simp: less_eq_f64_def less_f64_def f_less.simps)
  then show ?thesis by auto
qed

definition usable_options :: "compare_options \<Rightarrow> bool" where
  "usable_options options =
     (1000 \<le> co_bootstrap_resamples options \<and> co_bootstrap_resamples options \<le> 1000000 \<and>
      f_finite (co_confidence_level options) \<and> f_less half (co_confidence_level options) \<and>
      f_less (co_confidence_level options) (Fin 1) \<and> co_seed options \<noteq> 0)"

lemma with_defaults_id: "usable_options options \<Longrightarrow> with_defaults options = options"
  by (cases "co_confidence_level options") (auto simp: usable_options_def with_defaults_def f_le_def Let_def)

lemma with_defaults_usable_options: "usable_options (with_defaults options)"
proof -
  obtain r where r: "rnd (95 / 100) = Fin r" "1 / 2 < r" "r < 1" using default_confidence by blast
  show ?thesis
    unfolding with_defaults_def r(1) Let_def
    by (cases "co_confidence_level options")
       (use r(2,3) in \<open>auto simp: usable_options_def f_le_def\<close>)
qed

text \<open>The options of a comparison are always replaced by usable ones (1000 to 1000000 resamples, a
  confidence level strictly between one half and one, a non-zero seed), and replacing them again
  changes nothing.\<close>

theorem with_defaults_usable:
  "usable_options (with_defaults options) \<and> with_defaults (with_defaults options) = with_defaults options"
  by (simp add: with_defaults_id with_defaults_usable_options)

end
