(* ===== verification/GoFloatText.thy ===== *)
theory GoFloatText
  imports Float64 GoScan GoJson
begin

section \<open>Floating point numbers as text\<close>

text \<open>
  \<open>strconv.ParseFloat\<close> and \<open>strconv.FormatFloat\<close> with the shortest precision, the number text of
  \<open>encoding/json\<close>, and \<open>strconv.Quote\<close> as \<open>%q\<close> uses it. Non-ASCII characters are left as they are by
  the model's \<open>Quote\<close>, which escapes the ones that Go's tables class as not printable.
\<close>

subsection \<open>Shortest decimals\<close>

text \<open>The position of the decimal point: \<open>10^(dp-1) \<le> x < 10^dp\<close>.\<close>

definition decimal_point :: "rat \<Rightarrow> int" where
  "decimal_point x =
     (let k = floor_log2 x * 30103 div 100000
      in if x < 10 powi k then k else if x < 10 powi (k + 1) then k + 1 else k + 2)"

text \<open>The decimals of \<open>n\<close> digits next to \<open>x\<close> that round to \<open>x\<close>: the closer one, if there is one.\<close>

definition decimal_candidate :: "rat \<Rightarrow> int \<Rightarrow> nat \<Rightarrow> int option" where
  "decimal_candidate x dp n =
     (let u = 10 powi (dp - int n); q = x / u; low = \<lfloor>q\<rfloor>;
          good = (\<lambda>c. rnd (of_int c * u) = Fin x)
      in if of_int low = q then Some low
         else if good low \<and> good (low + 1) then Some (round_half_even q)
         else if good low then Some low
         else if good (low + 1) then Some (low + 1)
         else None)"

fun first_candidate :: "rat \<Rightarrow> int \<Rightarrow> nat list \<Rightarrow> nat \<times> int" where
  "first_candidate x dp [] = (17, round_half_even (x / 10 powi (dp - 17)))"
| "first_candidate x dp (n # ns) =
     (case decimal_candidate x dp n of None \<Rightarrow> first_candidate x dp ns | Some c \<Rightarrow> (n, c))"

definition strip_zeros :: "string \<Rightarrow> string" where
  "strip_zeros s = rev (dropWhile (\<lambda>c. c = CHR ''0'') (rev s))"

text \<open>The digits and the position of the point of the shortest decimal of a positive number.\<close>

definition shortest_decimal :: "rat \<Rightarrow> string \<times> int" where
  "shortest_decimal x =
     (if x = 0 then ([], 0)
      else
        let dp = decimal_point x; (n, c) = first_candidate x dp [1..<18]; digits = show_nat (nat c)
        in (strip_zeros digits, if n < length digits then dp + 1 else dp))"

definition two_digits :: "nat \<Rightarrow> string" where
  "two_digits n = (if n < 10 then CHR ''0'' # show_nat n else show_nat n)"

definition format_e :: "string \<Rightarrow> int \<Rightarrow> string" where
  "format_e digits dp =
     (let e = (if digits = [] then 0 else dp - 1)
      in (case digits of [] \<Rightarrow> ''0'' | d # ds \<Rightarrow> d # (if ds = [] then [] else CHR ''.'' # ds)) @
         ''e'' @ (if e < 0 then ''-'' else ''+'') @ two_digits (nat \<bar>e\<bar>))"

definition format_f :: "string \<Rightarrow> int \<Rightarrow> string" where
  "format_f digits dp =
     (if 0 < dp then
        (let whole = take (nat dp) digits; rest = drop (nat dp) digits
         in whole @ replicate (nat dp - length whole) (CHR ''0'') @ (if rest = [] then [] else CHR ''.'' # rest))
      else ''0'' @ (if digits = [] then [] else CHR ''.'' # replicate (nat (- dp)) (CHR ''0'') @ digits))"

definition format_g :: "string \<Rightarrow> int \<Rightarrow> string" where
  "format_g digits dp = (if dp - 1 < -4 \<or> dp - 1 \<ge> 6 then format_e digits dp else format_f digits dp)"

text \<open>\<open>FormatFloat(x, 'g', -1, 64)\<close>.\<close>

fun format_float :: "f64 \<Rightarrow> string" where
  "format_float NaN = ''NaN''"
| "format_float (Inf s) = (if s then ''-Inf'' else ''+Inf'')"
| "format_float (Fin x) =
     (if x < 0 then ''-'' else []) @ (case shortest_decimal \<bar>x\<bar> of (digits, dp) \<Rightarrow> format_g digits dp)"

text \<open>\<open>FormatFloat(x, 'f', -1, 64)\<close>.\<close>

fun format_plain :: "f64 \<Rightarrow> string" where
  "format_plain NaN = ''NaN''"
| "format_plain (Inf s) = (if s then ''-Inf'' else ''+Inf'')"
| "format_plain (Fin x) =
     (if x < 0 then ''-'' else []) @ (case shortest_decimal \<bar>x\<bar> of (digits, dp) \<Rightarrow> format_f digits dp)"

text \<open>The number of \<open>encoding/json\<close>; it has no text for NaN and the infinities.\<close>

definition json_exponent :: "string \<Rightarrow> string" where
  "json_exponent s =
     (let n = length s
      in if 4 \<le> n \<and> s ! (n - 4) = CHR ''e'' \<and> s ! (n - 3) = CHR ''-'' \<and> s ! (n - 2) = CHR ''0''
         then take (n - 2) s @ [last s] else s)"

fun json_float :: "f64 \<Rightarrow> string option" where
  "json_float (Fin x) =
     (let (digits, dp) = shortest_decimal \<bar>x\<bar>; sign = (if x < 0 then ''-'' else [])
      in Some (if x \<noteq> 0 \<and> (f_less (Fin \<bar>x\<bar>) (rnd (1 / 1000000)) \<or> 10 ^ 21 \<le> \<bar>x\<bar>)
               then json_exponent (sign @ format_e digits dp) else sign @ format_f digits dp))"
| "json_float x = None"

subsection \<open>Reading\<close>

definition lower_char :: "char \<Rightarrow> char" where
  "lower_char c = (if is_upper c then char_of (code c + 32) else c)"

definition lower_ascii :: "string \<Rightarrow> string" where
  "lower_ascii s = map lower_char s"

definition is_hex :: "char \<Rightarrow> bool" where
  "is_hex c = (is_digit c \<or> (CHR ''a'' \<le> lower_char c \<and> lower_char c \<le> CHR ''f''))"

definition hex_val :: "char \<Rightarrow> nat" where
  "hex_val c = (if is_digit c then code c - 48 else code (lower_char c) - 87)"

text \<open>Underscores may stand between digits or between the base prefix and a digit.\<close>

fun underscores_between :: "bool \<Rightarrow> char \<Rightarrow> string \<Rightarrow> bool" where
  "underscores_between hex saw [] = (saw \<noteq> CHR ''_'')"
| "underscores_between hex saw (c # cs) =
     (if is_digit c \<or> hex \<and> is_hex c then underscores_between hex (CHR ''0'') cs
      else if c = CHR ''_'' then saw = CHR ''0'' \<and> underscores_between hex (CHR ''_'') cs
      else saw \<noteq> CHR ''_'' \<and> underscores_between hex (CHR ''!'') cs)"

definition underscores_ok :: "bool \<Rightarrow> string \<Rightarrow> bool" where
  "underscores_ok hex s =
     (CHR ''_'' \<in> set s \<longrightarrow> underscores_between hex (if hex then CHR ''0'' else CHR ''^'') s)"

text \<open>The digits and the point of a mantissa: the digits, those after the point, and whether there was one.\<close>

fun mantissa :: "(char \<Rightarrow> bool) \<Rightarrow> bool \<Rightarrow> string \<Rightarrow> nat \<Rightarrow> string \<Rightarrow> string \<times> nat \<times> string" where
  "mantissa digit dot ds places [] = (ds, places, [])"
| "mantissa digit dot ds places (c # cs) =
     (if c = CHR ''_'' then mantissa digit dot ds places cs
      else if c = CHR ''.'' \<and> \<not> dot then mantissa digit True ds places cs
      else if digit c then mantissa digit dot (ds @ [c]) (if dot then Suc places else places) cs
      else (ds, places, c # cs))"

text \<open>A decimal exponent after its letter: a sign, digits and underscores, at least one digit first.\<close>

definition parse_exponent :: "string \<Rightarrow> int option" where
  "parse_exponent s =
     (let neg = has_prefix s ''-'';
          body = (if neg \<or> has_prefix s ''+'' then drop 1 s else s);
          digits = filter (\<lambda>c. c \<noteq> CHR ''_'') body
      in if body \<noteq> [] \<and> is_digit (hd body) \<and> list_all (\<lambda>c. is_digit c \<or> c = CHR ''_'') body
         then Some (if neg then - int (nat_of_digits digits) else int (nat_of_digits digits)) else None)"

definition finite_or_none :: "f64 \<Rightarrow> f64 option" where
  "finite_or_none x = (if f_finite x then Some x else None)"

definition parse_decimal_float :: "(f64 \<Rightarrow> f64 option) \<Rightarrow> bool \<Rightarrow> string \<Rightarrow> f64 option" where
  "parse_decimal_float finish neg s =
     (case mantissa is_digit False [] 0 s of (ds, places, rest) \<Rightarrow>
        if ds = [] \<or> \<not> underscores_ok False s then None
        else
          Option.bind
            (if rest = [] then Some 0
             else if lower_char (hd rest) = CHR ''e'' then parse_exponent (tl rest) else None)
            (\<lambda>e. finish
              (rnd ((if neg then -1 else 1) * of_nat (nat_of_digits ds) * 10 powi (e - int places)))))"

definition parse_hex_float :: "(f64 \<Rightarrow> f64 option) \<Rightarrow> bool \<Rightarrow> string \<Rightarrow> f64 option" where
  "parse_hex_float finish neg s =
     (case mantissa is_hex False [] 0 s of (ds, places, rest) \<Rightarrow>
        if ds = [] \<or> rest = [] \<or> lower_char (hd rest) \<noteq> CHR ''p'' \<or> \<not> underscores_ok True s then None
        else
          Option.bind (parse_exponent (tl rest)) (\<lambda>e.
            finish
              (rnd ((if neg then -1 else 1) * of_nat (foldl (\<lambda>n c. n * 16 + hex_val c) 0 ds) *
                    2 powi (e - 4 * int places)))))"

definition parse_float_with :: "(f64 \<Rightarrow> f64 option) \<Rightarrow> string \<Rightarrow> f64 option" where
  "parse_float_with finish s =
     (let neg = has_prefix s ''-'';
          body = (if neg \<or> has_prefix s ''+'' then drop 1 s else s);
          word = lower_ascii body
      in if word = ''inf'' \<or> word = ''infinity'' then Some (Inf neg)
         else if lower_ascii s = ''nan'' then Some NaN
         else if has_prefix word ''0x'' then parse_hex_float finish neg (drop 2 body)
         else parse_decimal_float finish neg body)"

text \<open>\<open>ParseFloat(s, 64)\<close>; a value out of range is an error as well.\<close>

definition parse_float :: "string \<Rightarrow> f64 option" where
  "parse_float s = parse_float_with finite_or_none s"

text \<open>The number that \<open>ParseFloat\<close> returns even when it reports an error: the infinity of a number out of range.\<close>

definition float_value :: "string \<Rightarrow> f64" where
  "float_value s = (case parse_float_with Some s of None \<Rightarrow> Fin 0 | Some x \<Rightarrow> x)"

lemma finish_value: "finite_or_none v = Some x \<Longrightarrow> v = x"
  by (simp add: finite_or_none_def split: if_splits)

lemma finish_bind:
  "Option.bind m (\<lambda>e. finite_or_none (f e)) = Some x \<Longrightarrow> Option.bind m (\<lambda>e. Some (f e)) = Some x"
  by (cases m) (auto simp: finite_or_none_def split: if_splits)

lemma parse_decimal_finish: "parse_decimal_float finite_or_none neg s = Some x \<Longrightarrow> parse_decimal_float Some neg s = Some x"
  unfolding parse_decimal_float_def by (rule prod_cases3[of "mantissa is_digit False [] 0 s"]) (auto dest: finish_bind finish_value split: if_splits)

lemma parse_hex_finish: "parse_hex_float finite_or_none neg s = Some x \<Longrightarrow> parse_hex_float Some neg s = Some x"
  unfolding parse_hex_float_def by (rule prod_cases3[of "mantissa is_hex False [] 0 s"]) (auto dest: finish_bind finish_value split: if_splits)

lemma float_value_parsed: "parse_float s = Some x \<Longrightarrow> float_value s = x"
proof -
  assume "parse_float s = Some x"
  then have "parse_float_with Some s = Some x"
    unfolding parse_float_def parse_float_with_def Let_def
    using parse_decimal_finish parse_hex_finish by presburger
  then show ?thesis by (simp add: float_value_def)
qed

subsection \<open>Quoted strings\<close>

definition hex_escape :: "char \<Rightarrow> string" where
  "hex_escape c = [backslash, CHR ''x'', hex_digit (code c div 16), hex_digit (code c)]"

definition quote_ascii :: "char \<Rightarrow> string" where
  "quote_ascii c =
     (if c = backslash \<or> c = quote_mark then [backslash, c]
      else if code c = 7 then [backslash, CHR ''a'']
      else if code c = 8 then [backslash, CHR ''b'']
      else if code c = 12 then [backslash, CHR ''f'']
      else if code c = 10 then [backslash, CHR ''n'']
      else if code c = 13 then [backslash, CHR ''r'']
      else if code c = 9 then [backslash, CHR ''t'']
      else if code c = 11 then [backslash, CHR ''v'']
      else if code c < 32 \<or> code c = 127 then hex_escape c
      else [c])"

function quote_chars :: "string \<Rightarrow> string" where
  "quote_chars s =
     (case s of
        [] \<Rightarrow> []
      | c # cs \<Rightarrow>
        if code c < 128 then quote_ascii c @ quote_chars cs
        else if rune_width s = 0 then hex_escape c @ quote_chars cs
        else take (rune_width s) s @ quote_chars (drop (rune_width s) s))"
  by pat_completeness auto
termination by (relation "measure length") auto

declare quote_chars.simps [simp del]

definition go_quote :: "string \<Rightarrow> string" where
  "go_quote s = [quote_mark] @ quote_chars s @ [quote_mark]"

subsection \<open>Objects with numbers\<close>

text \<open>An object whose members may have no text, because of a number that JSON cannot express.\<close>

definition json_object_opt :: "(string \<times> string option) list \<Rightarrow> string option" where
  "json_object_opt ms =
     (if list_all (\<lambda>m. snd m \<noteq> None) ms then Some (json_object (map (\<lambda>(k, v). (k, the v)) ms)) else None)"

definition member_set :: "string \<Rightarrow> string \<Rightarrow> (string \<times> string option) list" where
  "member_set key v = (if v = [] then [] else [(key, Some (json_string v))])"

definition member_float :: "string \<Rightarrow> f64 option \<Rightarrow> (string \<times> string option) list" where
  "member_float key m = (case m of None \<Rightarrow> [] | Some v \<Rightarrow> [(key, json_float v)])"

definition member_uint :: "string \<Rightarrow> 64 word option \<Rightarrow> (string \<times> string option) list" where
  "member_uint key m = (case m of None \<Rightarrow> [] | Some v \<Rightarrow> [(key, Some (show_nat (unat v)))])"

definition member_string :: "string \<Rightarrow> string \<Rightarrow> string \<times> string option" where
  "member_string key v = (key, Some (json_string v))"

definition json_strings :: "string list \<Rightarrow> string" where
  "json_strings vs = ''['' @ join '','' (map json_string vs) @ '']''"

definition json_bool :: "bool \<Rightarrow> string" where
  "json_bool b = (if b then ''true'' else ''false'')"

definition member_int :: "string \<Rightarrow> int \<Rightarrow> string \<times> string option" where
  "member_int key v = (key, Some (show_int v))"

lemma json_object_opt_Some [simp]: "(\<exists>t. json_object_opt ms = Some t) \<longleftrightarrow> list_all (\<lambda>m. \<exists>y. snd m = Some y) ms"
  by (simp add: json_object_opt_def)

lemma json_float_Some: "f_finite x \<Longrightarrow> \<exists>t. json_float x = Some t"
  by (cases x) (simp_all add: Let_def split: prod.splits)

lemma members_Some [simp]:
  "list_all (\<lambda>m. \<exists>y. snd m = Some y) (member_set key v)" "list_all (\<lambda>m. \<exists>y. snd m = Some y) (member_uint key w)"
  "\<exists>y. snd (member_string key v) = Some y"
  by (simp_all add: member_set_def member_uint_def member_string_def split: option.splits)

lemma member_float_Some [simp]: "pred_option f_finite m \<Longrightarrow> list_all (\<lambda>m. \<exists>y. snd m = Some y) (member_float key m)"
  using json_float_Some by (cases m) (auto simp: member_float_def)

lemma json_members_Some: "list_all (\<lambda>m. snd m \<noteq> None) ms \<Longrightarrow> json_object_opt ms \<noteq> None"
  by (simp add: json_object_opt_def)

end
