(* ===== verification/GoTime.thy ===== *)
theory GoTime
  imports GoNumbers
begin

section \<open>Timestamps\<close>

text \<open>
  The part of \<open>time\<close> that the program uses: \<open>time.Parse\<close> and \<open>Format\<close> with the layout
  \<open>RFC3339Nano\<close>, and the saturating difference of two instants. An instant is the number of
  nanoseconds since the beginning of the year 0 in UTC.
\<close>

subsection \<open>The calendar\<close>

definition leap_year :: "int \<Rightarrow> bool" where
  "leap_year y = (y mod 4 = 0 \<and> (y mod 100 \<noteq> 0 \<or> y mod 400 = 0))"

definition days_before_year :: "int \<Rightarrow> int" where
  "days_before_year y = 365 * y + (y + 3) div 4 - (y + 99) div 100 + (y + 399) div 400"

definition month_lengths :: "bool \<Rightarrow> int list" where
  "month_lengths leap = [31, if leap then 29 else 28, 31, 30, 31, 30, 31, 31, 30, 31, 30, 31]"

definition days_in_month :: "int \<Rightarrow> nat \<Rightarrow> int" where
  "days_in_month y m = month_lengths (leap_year y) ! (m - 1)"

definition days_before_month :: "int \<Rightarrow> nat \<Rightarrow> int" where
  "days_before_month y m = sum_list (take (m - 1) (month_lengths (leap_year y)))"

definition date_days :: "int \<Rightarrow> nat \<Rightarrow> int \<Rightarrow> int" where
  "date_days y m d = days_before_year y + days_before_month y m + d - 1"

definition year_of :: "int \<Rightarrow> int" where
  "year_of n = last (filter (\<lambda>y. days_before_year y \<le> n) [n div 366 - 1 .. n div 365 + 1])"

definition month_of :: "int \<Rightarrow> nat" where
  "month_of n =
     (let y = year_of n in last (filter (\<lambda>m. days_before_year y + days_before_month y m \<le> n) [1..<13]))"

definition day_of :: "int \<Rightarrow> int" where
  "day_of n = n - days_before_year (year_of n) - days_before_month (year_of n) (month_of n) + 1"

definition nanos_per_second :: int where
  "nanos_per_second = 1000000000"

definition nanos_per_day :: int where
  "nanos_per_day = 86400 * nanos_per_second"

subsection \<open>Reading\<close>

definition fixed_digits :: "nat \<Rightarrow> string \<Rightarrow> (nat \<times> string) option" where
  "fixed_digits n s =
     (if n \<le> length s \<and> list_all is_digit (take n s) then Some (nat_of_digits (take n s), drop n s) else None)"

definition one_or_two_digits :: "string \<Rightarrow> (nat \<times> string) option" where
  "one_or_two_digits s = (case fixed_digits 2 s of Some r \<Rightarrow> Some r | None \<Rightarrow> fixed_digits 1 s)"

definition expect :: "char \<Rightarrow> string \<Rightarrow> string option" where
  "expect c s = (case s of [] \<Rightarrow> None | d # ds \<Rightarrow> if d = c then Some ds else None)"

definition in_range :: "nat \<Rightarrow> nat \<Rightarrow> (nat \<times> string) option \<Rightarrow> (nat \<times> string) option" where
  "in_range low high r = (case r of None \<Rightarrow> None | Some (n, s) \<Rightarrow> if low \<le> n \<and> n \<le> high then Some (n, s) else None)"

text \<open>The fraction of a second: a point or a comma and digits, of which nine count.\<close>

definition parse_fraction :: "string \<Rightarrow> nat \<times> string" where
  "parse_fraction s =
     (case s of
        c # d # rest \<Rightarrow>
          if (c = CHR ''.'' \<or> c = CHR '','') \<and> is_digit d then
            let digits = takeWhile is_digit (d # rest); first = take 9 digits
            in (nat_of_digits first * 10 ^ (9 - length first), dropWhile is_digit (d # rest))
          else (0, s)
      | _ \<Rightarrow> (0, s))"

text \<open>The offset from UTC in seconds.\<close>

definition parse_zone :: "string \<Rightarrow> (int \<times> string) option" where
  "parse_zone s =
     (case s of
        [] \<Rightarrow> None
      | c # cs \<Rightarrow>
        if c = CHR ''Z'' then Some (0, cs)
        else if c = CHR ''+'' \<or> c = CHR ''-'' then
          Option.bind (in_range 0 24 (fixed_digits 2 cs)) (\<lambda>(h, s1).
          Option.bind (expect (CHR '':'') s1) (\<lambda>s2.
          Option.bind (in_range 0 60 (fixed_digits 2 s2)) (\<lambda>(m, s3).
            Some ((if c = CHR ''-'' then -1 else 1) * (int h * 3600 + int m * 60), s3))))
        else None)"

definition parse_date :: "string \<Rightarrow> (int \<times> string) option" where
  "parse_date s =
     Option.bind (fixed_digits 4 s) (\<lambda>(y, s1).
     Option.bind (expect (CHR ''-'') s1) (\<lambda>s2.
     Option.bind (in_range 1 12 (fixed_digits 2 s2)) (\<lambda>(m, s3).
     Option.bind (expect (CHR ''-'') s3) (\<lambda>s4.
     Option.bind (fixed_digits 2 s4) (\<lambda>(d, s5).
       if 1 \<le> d \<and> int d \<le> days_in_month (int y) m then Some (date_days (int y) m (int d), s5) else None)))))"

definition parse_clock :: "string \<Rightarrow> (int \<times> string) option" where
  "parse_clock s =
     Option.bind (in_range 0 23 (one_or_two_digits s)) (\<lambda>(h, s1).
     Option.bind (expect (CHR '':'') s1) (\<lambda>s2.
     Option.bind (in_range 0 59 (fixed_digits 2 s2)) (\<lambda>(m, s3).
     Option.bind (expect (CHR '':'') s3) (\<lambda>s4.
     Option.bind (in_range 0 59 (fixed_digits 2 s4)) (\<lambda>(sec, s5).
       Some ((int h * 60 + int m) * 60 + int sec, s5))))))"

text \<open>The instant and the offset it was written with.\<close>

definition parse_instant :: "string \<Rightarrow> (int \<times> int) option" where
  "parse_instant s =
     Option.bind (parse_date s) (\<lambda>(days, s1).
     Option.bind (expect (CHR ''T'') s1) (\<lambda>s2.
     Option.bind (parse_clock s2) (\<lambda>(seconds, s3).
       case parse_fraction s3 of
         (nanos, s4) \<Rightarrow>
           Option.bind (parse_zone s4) (\<lambda>(offset, s5).
             if s5 = [] then Some (days * nanos_per_day + (seconds - offset) * nanos_per_second + int nanos, offset)
             else None))))"

definition parse_rfc3339 :: "string \<Rightarrow> int option" where
  "parse_rfc3339 s = map_option fst (parse_instant s)"

subsection \<open>Writing\<close>

definition pad_number :: "nat \<Rightarrow> int \<Rightarrow> string" where
  "pad_number width n =
     (let digits = show_nat (nat \<bar>n\<bar>)
      in (if n < 0 then ''-'' else []) @ replicate (width - length digits) (CHR ''0'') @ digits)"

definition format_fraction :: "int \<Rightarrow> string" where
  "format_fraction nanos =
     (if nanos = 0 then [] else ''.'' @ rev (dropWhile (\<lambda>c. c = CHR ''0'') (rev (pad_number 9 nanos))))"

definition format_rfc3339 :: "int \<Rightarrow> string" where
  "format_rfc3339 t =
     (let days = t div nanos_per_day; rest = t mod nanos_per_day;
          seconds = rest div nanos_per_second; nanos = rest mod nanos_per_second
      in pad_number 4 (year_of days) @ ''-'' @ pad_number 2 (int (month_of days)) @ ''-'' @ pad_number 2 (day_of days) @
         ''T'' @ pad_number 2 (seconds div 3600) @ '':'' @ pad_number 2 (seconds div 60 mod 60) @ '':'' @
         pad_number 2 (seconds mod 60) @ format_fraction nanos @ ''Z'')"

subsection \<open>Differences\<close>

text \<open>The zero \<open>Time\<close>, which a failed \<open>Parse\<close> returns: the beginning of the year 1.\<close>

definition zero_time :: int where
  "zero_time = days_before_year 1 * nanos_per_day"

definition time_sub :: "int \<Rightarrow> int \<Rightarrow> int" where
  "time_sub t u =
     (if t - u > max_int64 then max_int64 else if t - u < min_int64 then min_int64 else t - u)"

subsection \<open>The calendar round trip\<close>

lemma div_step:
  "0 < k \<Longrightarrow> j = k - 1 \<Longrightarrow> (y + k) div k = (y + j) div k + (if y mod k = 0 then 1 else (0::int))"
proof -
  assume k: "0 < k" and j: "j = k - 1"
  define q r where "q = y div k" and "r = y mod k"
  have y: "y = k * q + r" by (simp add: q_def r_def)
  have r: "0 \<le> r" "r < k" using k by (simp_all add: r_def)
  have "(y + k) div k = q + 1" using k div_add_self2[of k y] by (simp add: q_def)
  moreover have "(y + j) div k = (if r = 0 then q else q + 1)"
  proof (cases "r = 0")
    case True
    then have "(y + j) div k = (k * q + j) div k" by (simp add: y)
    also have "\<dots> = q" using k j by (subst div_mult_self4) simp_all
    finally show ?thesis using True by simp
  next
    case False
    then have "(y + j) div k = (k * (q + 1) + (r - 1)) div k" by (simp add: y j algebra_simps)
    also have "\<dots> = q + 1" using k r False by (subst div_mult_self4) simp_all
    finally show ?thesis using False by simp
  qed
  ultimately show ?thesis by (simp add: r_def)
qed

lemma days_before_year_step:
  "days_before_year (y + 1) = days_before_year y + (if leap_year y then 366 else 365)"
proof -
  have "y mod 400 mod 100 = y mod 100" "y mod 100 mod 4 = y mod 4" by (rule mod_mod_cancel; simp)+
  then have m: "y mod 400 = 0 \<Longrightarrow> y mod 100 = 0" "y mod 100 = 0 \<Longrightarrow> y mod 4 = 0" by auto
  have "days_before_year (y + 1) = 365 * y + 365 + (y + 4) div 4 - (y + 100) div 100 + (y + 400) div 400"
    by (simp add: days_before_year_def add.commute add.left_commute)
  moreover have "(y + 4) div 4 = (y + 3) div 4 + (if y mod 4 = 0 then 1 else 0)"
    "(y + 100) div 100 = (y + 99) div 100 + (if y mod 100 = 0 then 1 else 0)"
    "(y + 400) div 400 = (y + 399) div 400 + (if y mod 400 = 0 then 1 else 0)"
    by (rule div_step; simp)+
  moreover have "(if leap_year y then 366 else 365) =
      365 + (if y mod 4 = 0 then 1 else 0) - (if y mod 100 = 0 then 1 else 0) + (if y mod 400 = 0 then 1 else (0::int))"
  proof (cases "y mod 100 = 0")
    case True
    then show ?thesis using m(2) by (simp add: leap_year_def)
  next
    case False
    have "y mod 400 \<noteq> 0"
    proof
      assume "y mod 400 = 0"
      then show False using m(1) False by simp
    qed
    with False show ?thesis by (simp add: leap_year_def)
  qed
  ultimately show ?thesis unfolding days_before_year_def[of y] by linarith
qed

lemma days_before_year_mono: "y < z \<Longrightarrow> days_before_year y < days_before_year z"
proof (induction "nat (z - y)" arbitrary: z)
  case (Suc n)
  show ?case
  proof (cases "z - 1 = y")
    case True
    then have "days_before_year z = days_before_year y + (if leap_year y then 366 else 365)"
      using days_before_year_step[of y] by (simp add: algebra_simps)
    then show ?thesis by simp
  next
    case False
    then have "days_before_year y < days_before_year (z - 1)" using Suc by simp
    moreover have "days_before_year z = days_before_year (z - 1) + (if leap_year (z - 1) then 366 else 365)"
      using days_before_year_step[of "z - 1"] by simp
    ultimately show ?thesis by simp
  qed
qed simp

lemma days_before_year_0 [simp]: "days_before_year 0 = 0"
  by (simp add: days_before_year_def)

definition year_bracket :: "int \<Rightarrow> int \<Rightarrow> bool" where
  "year_bracket n y = (0 \<le> y \<and> days_before_year y \<le> n \<and> n < days_before_year (y + 1))"

lemma year_bracket_exists: "\<exists>y. year_bracket (int n) y"
proof (induction n)
  case 0
  have "year_bracket (int 0) 0" using days_before_year_step[of 0] by (simp add: year_bracket_def)
  then show ?case by blast
next
  case (Suc n)
  then obtain y where y: "year_bracket (int n) y" by blast
  show ?case
  proof (cases "int (Suc n) < days_before_year (y + 1)")
    case True
    then have "year_bracket (int (Suc n)) y" using y by (simp add: year_bracket_def)
    then show ?thesis by blast
  next
    case False
    then have "year_bracket (int (Suc n)) (y + 1)"
      using y days_before_year_step[of "y + 1"] by (auto simp: year_bracket_def)
    then show ?thesis by blast
  qed
qed

lemma days_before_year_bounds: "0 \<le> y \<Longrightarrow> 365 * y \<le> days_before_year y \<and> days_before_year y \<le> 366 * y"
proof (induction "nat y" arbitrary: y)
  case (Suc k)
  have "k = nat (y - 1)" "0 \<le> y - 1" using Suc(2,3) by arith+
  then have "365 * (y - 1) \<le> days_before_year (y - 1) \<and> days_before_year (y - 1) \<le> 366 * (y - 1)" by (rule Suc(1))
  then show ?case using days_before_year_step[of "y - 1"] by (simp split: if_splits)
qed simp

lemma last_filter_upto:
  "a \<le> y \<Longrightarrow> y \<le> b \<Longrightarrow> P y \<Longrightarrow> (\<And>z. y < z \<Longrightarrow> \<not> P z) \<Longrightarrow> last (filter P [a..b]) = (y::int)"
proof -
  assume a: "a \<le> y" "y \<le> b" "P y" "\<And>z. y < z \<Longrightarrow> \<not> P z"
  have "[a..b] = [a..y - 1] @ y # [y + 1..b]" using a(1,2) by (rule upto_split3)
  moreover have "filter P [y + 1..b] = []" using a(4) by (simp add: filter_empty_conv)
  ultimately show ?thesis using a(3) by simp
qed

lemma year_of_bracket: "year_bracket n y \<Longrightarrow> year_of n = y"
  unfolding year_of_def
proof (rule last_filter_upto)
  assume y: "year_bracket n y"
  then have b: "0 \<le> y" "days_before_year y \<le> n" "n < days_before_year (y + 1)" by (simp_all add: year_bracket_def)
  have "365 * y \<le> n" using b days_before_year_bounds[of y] by linarith
  then have "365 * y div 365 \<le> n div 365" by (rule zdiv_mono1) simp
  then show "y \<le> n div 365 + 1" by simp
  have "n \<le> 366 * (y + 1)" using b days_before_year_bounds[of "y + 1"] by linarith
  then have "n div 366 \<le> 366 * (y + 1) div 366" by (rule zdiv_mono1) simp
  then show "n div 366 - 1 \<le> y" by simp
  show "days_before_year y \<le> n" by (rule b(2))
  fix z assume "y < z"
  then have "days_before_year (y + 1) \<le> days_before_year z"
    using days_before_year_mono[of "y + 1" z] by (cases "z = y + 1") auto
  then show "\<not> days_before_year z \<le> n" using b(3) by linarith
qed

lemma year_of_nonneg: "0 \<le> n \<Longrightarrow> year_bracket n (year_of n)"
proof -
  assume "0 \<le> n"
  then obtain y where "year_bracket n y" using year_bracket_exists[of "nat n"] by auto
  then show ?thesis using year_of_bracket by simp
qed

lemma last_filter_upt:
  "a \<le> m \<Longrightarrow> m < b \<Longrightarrow> P m \<Longrightarrow> (\<And>z. m < z \<Longrightarrow> z < b \<Longrightarrow> \<not> P z) \<Longrightarrow> last (filter P [a..<b]) = (m::nat)"
proof -
  assume a: "a \<le> m" "m < b" "P m" "\<And>z. m < z \<Longrightarrow> z < b \<Longrightarrow> \<not> P z"
  have "[a..<b] = [a..<m] @ [m..<b]" using a(1,2) upt_add_eq_append[of a m "b - m"] by simp
  then have "[a..<b] = [a..<m] @ m # [Suc m..<b]" using a(2) by (simp add: upt_conv_Cons)
  moreover have "filter P [Suc m..<b] = []" using a(4) by (simp add: filter_empty_conv)
  ultimately show ?thesis using a(3) by simp
qed

lemma days_before_month_mono:
  assumes "1 \<le> m" and "m \<le> m'"
  shows "days_before_month y m \<le> days_before_month y m'"
proof -
  have pos: "0 \<le> x" if "x \<in> set (month_lengths l)" for x l
    using that by (auto simp: month_lengths_def split: if_splits)
  obtain k where k: "m' - 1 = (m - 1) + k" using assms by (metis diff_le_mono le_Suc_ex)
  have "0 \<le> sum_list (take k (drop (m - 1) (month_lengths (leap_year y))))"
    by (rule sum_list_nonneg) (meson in_set_dropD in_set_takeD pos)
  then show ?thesis unfolding days_before_month_def k take_add by simp
qed

lemma days_before_month_step:
  "1 \<le> m \<Longrightarrow> m \<le> 12 \<Longrightarrow> days_before_month y (m + 1) = days_before_month y m + days_in_month y m"
proof -
  assume m: "1 \<le> m" "m \<le> 12"
  then have "m - 1 < length (month_lengths (leap_year y))" by (simp add: month_lengths_def)
  moreover have "m = Suc (m - 1)" using m by simp
  ultimately have "take m (month_lengths (leap_year y)) =
      take (m - 1) (month_lengths (leap_year y)) @ [month_lengths (leap_year y) ! (m - 1)]"
    by (metis take_Suc_conv_app_nth)
  then show ?thesis by (simp add: days_before_month_def days_in_month_def)
qed

lemma days_before_month_ends:
  "days_before_month y 1 = 0" "days_before_month y 13 = (if leap_year y then 366 else 365)"
  by (simp_all add: days_before_month_def month_lengths_def)

lemma month_exists:
  assumes "0 \<le> r" and "r < days_before_month y 13"
  shows "\<exists>m\<in>{1..12}. days_before_month y m \<le> r \<and> r < days_before_month y (m + 1)"
proof -
  have "j \<le> 12 \<Longrightarrow> days_before_month y (j + 1) \<le> r \<or>
      (\<exists>m\<in>{1..j}. days_before_month y m \<le> r \<and> r < days_before_month y (m + 1))" for j
  proof (induction j)
    case 0
    then show ?case using assms(1) days_before_month_ends(1)[of y] by simp
  next
    case (Suc j)
    then consider "days_before_month y (j + 1) \<le> r"
      | "\<exists>m\<in>{1..j}. days_before_month y m \<le> r \<and> r < days_before_month y (m + 1)" by fastforce
    then show ?case
    proof cases
      case 1
      then show ?thesis by (cases "days_before_month y (Suc j + 1) \<le> r") (auto intro!: bexI[of _ "Suc j"])
    next
      case 2
      then show ?thesis by fastforce
    qed
  qed
  from this[of 12] show ?thesis using assms(2) by simp
qed

lemma month_of_bracket:
  assumes "m \<in> {1..12}" and "days_before_month (year_of n) m \<le> n - days_before_year (year_of n)"
    and "n - days_before_year (year_of n) < days_before_month (year_of n) (m + 1)"
  shows "month_of n = m"
  unfolding month_of_def Let_def
proof (rule last_filter_upt)
  show "days_before_year (year_of n) + days_before_month (year_of n) m \<le> n" using assms(2) by simp
  fix z assume "m < z" "z < 13"
  then have "days_before_month (year_of n) (m + 1) \<le> days_before_month (year_of n) z"
    by (intro days_before_month_mono) simp_all
  then show "\<not> days_before_year (year_of n) + days_before_month (year_of n) z \<le> n" using assms(3) by simp
qed (use assms(1) in simp_all)

lemma month_day:
  assumes "0 \<le> n"
  shows "month_of n \<in> {1..12} \<and> 1 \<le> day_of n \<and> day_of n \<le> days_in_month (year_of n) (month_of n)"
proof -
  define y r where "y = year_of n" and "r = n - days_before_year y"
  have "0 \<le> r" "r < days_before_month y 13"
    using year_of_nonneg[OF assms] days_before_year_step[of y]
    by (simp_all add: year_bracket_def r_def y_def days_before_month_ends)
  then obtain m where m: "m \<in> {1..12}" "days_before_month y m \<le> r" "r < days_before_month y (m + 1)"
    using month_exists by blast
  have "month_of n = m" using month_of_bracket[of m n] m by (simp add: y_def r_def)
  then show ?thesis
    using m days_before_month_step[of m y] by (simp add: day_of_def y_def[symmetric] r_def)
qed

lemma date_days_of: "date_days (year_of n) (month_of n) (day_of n) = n"
  by (simp add: date_days_def day_of_def)

subsection \<open>What is written is read\<close>

lemma nat_of_digits_zeros [simp]: "nat_of_digits (replicate z (CHR ''0'')) = 0"
  by (induction z) (simp_all add: nat_of_digits_Cons digit_val_def code_def)

lemma list_all_replicate_zero [simp]: "list_all is_digit (replicate z (CHR ''0''))"
  by (induction z) (simp_all add: is_digit_def code_def)

lemma pad_number:
  assumes "0 \<le> k" and "k < 10 ^ n" and "0 < n"
  shows "length (pad_number n k) = n" and "list_all is_digit (pad_number n k)"
    and "nat_of_digits (pad_number n k) = nat k"
proof -
  have "nat k < 10 ^ n" using assms(1,2) by (simp add: nat_less_iff)
  then have "length (show_nat (nat k)) \<le> n" using assms(3) by (rule length_show_nat)
  then show "length (pad_number n k) = n" using assms(1) by (simp add: pad_number_def Let_def)
  show "list_all is_digit (pad_number n k)"
    using assms(1) all_digits_show_nat[of "nat k"] by (simp add: pad_number_def all_digits_def Let_def)
  show "nat_of_digits (pad_number n k) = nat k"
    using assms(1) by (simp add: pad_number_def nat_of_digits_append Let_def)
qed

lemma fixed_digits_pad:
  "0 \<le> k \<Longrightarrow> k < 10 ^ n \<Longrightarrow> 0 < n \<Longrightarrow> fixed_digits n (pad_number n k @ s) = Some (nat k, s)"
  using pad_number[of k n] by (simp add: fixed_digits_def)

lemma fixed_two: "0 \<le> k \<Longrightarrow> k < 100 \<Longrightarrow> fixed_digits 2 (pad_number 2 k @ s) = Some (nat k, s)"
  using fixed_digits_pad[of k 2 s] by simp

lemma expect_Cons [simp]: "expect c (c # s) = Some s"
  by (simp add: expect_def)

lemma in_range_Some: "in_range a b (Some (n, s)) = (if a \<le> n \<and> n \<le> b then Some (n, s) else None)"
  by (simp add: in_range_def)

lemma days_in_month_bound: "m \<in> {1..12} \<Longrightarrow> days_in_month y m \<le> 31"
proof -
  assume "m \<in> {1..12}"
  then have "days_in_month y m \<in> set (month_lengths (leap_year y))"
    unfolding days_in_month_def by (intro nth_mem) (auto simp: month_lengths_def)
  then show ?thesis by (auto simp: month_lengths_def split: if_splits)
qed

lemma parse_date_pad:
  assumes "0 \<le> n" and "year_of n < 10000"
  shows "parse_date (pad_number 4 (year_of n) @ ''-'' @ pad_number 2 (int (month_of n)) @ ''-'' @
    pad_number 2 (day_of n) @ s) = Some (n, s)"
proof -
  have y: "0 \<le> year_of n" using year_of_nonneg[OF assms(1)] by (simp add: year_bracket_def)
  have m: "month_of n \<in> {1..12}" "1 \<le> day_of n" "day_of n \<le> days_in_month (year_of n) (month_of n)"
    using month_day[OF assms(1)] by blast+
  then have d: "day_of n < 100" using days_in_month_bound[of "month_of n" "year_of n"] by simp
  have "fixed_digits 4 (pad_number 4 (year_of n) @ r) = Some (nat (year_of n), r)" for r
    using fixed_digits_pad[of "year_of n" 4 r] y assms(2) by simp
  moreover have "in_range 1 12 (fixed_digits 2 (pad_number 2 (int (month_of n)) @ r)) = Some (month_of n, r)" for r
    using fixed_two[of "int (month_of n)" r] m(1) by (simp add: in_range_Some)
  moreover have "fixed_digits 2 (pad_number 2 (day_of n) @ r) = Some (nat (day_of n), r)" for r
    using fixed_two[of "day_of n" r] m(2) d by simp
  ultimately show ?thesis
    using m(2,3) y date_days_of[of n] by (simp add: parse_date_def)
qed

lemma parse_clock_parts:
  assumes "0 \<le> h" "h < 24" "0 \<le> m" "m < 60" "0 \<le> c" "c < 60"
  shows "parse_clock (pad_number 2 h @ '':'' @ pad_number 2 m @ '':'' @ pad_number 2 c @ s) =
    Some ((h * 60 + m) * 60 + c, s)"
proof -
  have "in_range 0 23 (one_or_two_digits (pad_number 2 h @ r)) = Some (nat h, r)" for r
    using fixed_two[of h r] assms(1,2) by (simp add: one_or_two_digits_def in_range_Some)
  moreover have "in_range 0 59 (fixed_digits 2 (pad_number 2 k @ r)) = Some (nat k, r)" if "0 \<le> k" "k < 60" for k r
    using fixed_two[of k r] that by (simp add: in_range_Some)
  ultimately show ?thesis using assms by (simp add: parse_clock_def)
qed

lemma parse_clock_pad:
  assumes "0 \<le> n" and "n < 86400"
  shows "parse_clock (pad_number 2 (n div 3600) @ '':'' @ pad_number 2 (n div 60 mod 60) @ '':'' @
    pad_number 2 (n mod 60) @ s) = Some (n, s)"
proof -
  have "n div 3600 = n div 60 div 60" using zdiv_zmult2_eq[of 60 n 60] by simp
  then have "n div 3600 * 60 + n div 60 mod 60 = n div 60" by simp
  then have whole: "(n div 3600 * 60 + n div 60 mod 60) * 60 + n mod 60 = n" by simp
  have "0 \<le> n div 3600" "n div 3600 < 24" using assms by auto
  from parse_clock_parts[OF this, of "n div 60 mod 60" "n mod 60" s]
  have "parse_clock (pad_number 2 (n div 3600) @ '':'' @ pad_number 2 (n div 60 mod 60) @ '':'' @
    pad_number 2 (n mod 60) @ s) = Some ((n div 3600 * 60 + n div 60 mod 60) * 60 + n mod 60, s)"
    by simp
  then show ?thesis by (simp only: whole)
qed

lemma parse_fraction_format:
  assumes "0 \<le> n" and "n < nanos_per_second"
  shows "parse_fraction (format_fraction n @ ''Z'') = (nat n, ''Z'')"
proof (cases "n = 0")
  case True
  then show ?thesis by (simp add: format_fraction_def parse_fraction_def)
next
  case False
  define p where "p = pad_number 9 n"
  define t where "t = rev (dropWhile (\<lambda>c. c = CHR ''0'') (rev p))"
  have p: "length p = 9" "list_all is_digit p" "nat_of_digits p = nat n"
    using pad_number[of n 9] assms by (simp_all add: p_def nanos_per_second_def)
  define z where "z = length (takeWhile (\<lambda>c. c = CHR ''0'') (rev p))"
  have "takeWhile (\<lambda>c. c = CHR ''0'') (rev p) = replicate z (CHR ''0'')"
    by (rule replicate_eqI) (auto simp: z_def dest: set_takeWhileD)
  then have "rev p = replicate z (CHR ''0'') @ rev t"
    using takeWhile_dropWhile_id[of "\<lambda>c. c = CHR ''0''" "rev p"] by (simp add: t_def)
  then have split: "p = t @ replicate z (CHR ''0'')" by (metis rev_append rev_replicate rev_rev_ident)
  have ne: "t \<noteq> []"
  proof
    assume "t = []"
    then have "nat_of_digits p = 0" using split by simp
    then show False using p(3) False assms(1) by simp
  qed
  obtain d ds where t: "t = d # ds" using ne by (cases t) auto
  have dig: "list_all is_digit t" using p(2) split by simp
  have tw: "takeWhile is_digit (t @ ''Z'') = t" "dropWhile is_digit (t @ ''Z'') = ''Z''"
  proof -
    have "\<not> is_digit CHR ''Z''" by (simp add: is_digit_def code_def)
    then show "takeWhile is_digit (t @ ''Z'') = t" "dropWhile is_digit (t @ ''Z'') = ''Z''"
      using dig by (simp_all add: takeWhile_append2 dropWhile_append2 list_all_iff)
  qed
  have len: "length t + z = 9" using p(1) split by simp
  have "nat_of_digits t * 10 ^ (9 - length t) = nat n"
  proof -
    have "9 - length t = z" using len by simp
    moreover have "nat_of_digits p = nat_of_digits t * 10 ^ z" by (simp add: split nat_of_digits_append)
    ultimately show ?thesis using p(3) by simp
  qed
  moreover have "format_fraction n = CHR ''.'' # t" using False by (simp add: format_fraction_def p_def[symmetric] t_def[symmetric])
  moreover have "is_digit d" using dig t by simp
  ultimately show ?thesis using tw len t by (simp add: parse_fraction_def Let_def)
qed

lemma parse_instant_format:
  assumes "0 \<le> t" and "t < days_before_year 10000 * nanos_per_day"
  shows "parse_instant (format_rfc3339 t) = Some (t, 0)"
proof -
  define days rest where "days = t div nanos_per_day" and "rest = t mod nanos_per_day"
  define seconds nanos where "seconds = rest div nanos_per_second" and "nanos = rest mod nanos_per_second"
  have day: "0 < nanos_per_day" by (simp add: nanos_per_day_def nanos_per_second_def)
  have d0: "0 \<le> days" using assms(1) day by (simp add: days_def pos_imp_zdiv_nonneg_iff)
  have "days < days_before_year 10000"
  proof -
    have "days * nanos_per_day + rest = t" "0 \<le> rest" using day by (simp_all add: days_def rest_def)
    then have "days * nanos_per_day < days_before_year 10000 * nanos_per_day" using assms(2) by linarith
    then show ?thesis using day by (simp add: mult_less_cancel_right)
  qed
  moreover have "days_before_year (year_of days) \<le> days" using year_of_nonneg[OF d0] by (simp add: year_bracket_def)
  ultimately have "\<not> 10000 \<le> year_of days"
    using days_before_year_mono[of 10000 "year_of days"] by (cases "year_of days = 10000") auto
  then have year: "year_of days < 10000" by simp
  have r: "0 \<le> rest" "rest < nanos_per_day" using day by (simp_all add: rest_def)
  have s: "0 \<le> seconds" "seconds < 86400" "0 \<le> nanos" "nanos < nanos_per_second"
  proof -
    show "0 \<le> seconds" "0 \<le> nanos" "nanos < nanos_per_second"
      using r by (simp_all add: seconds_def nanos_def nanos_per_second_def pos_imp_zdiv_nonneg_iff)
    show "seconds < 86400" using r(2) by (simp add: seconds_def nanos_per_day_def nanos_per_second_def)
  qed
  have written: "format_rfc3339 t = pad_number 4 (year_of days) @ ''-'' @ pad_number 2 (int (month_of days)) @ ''-'' @
      pad_number 2 (day_of days) @ ''T'' @ pad_number 2 (seconds div 3600) @ '':'' @
      pad_number 2 (seconds div 60 mod 60) @ '':'' @ pad_number 2 (seconds mod 60) @ format_fraction nanos @ ''Z''"
    by (simp add: format_rfc3339_def days_def rest_def seconds_def nanos_def Let_def)
  have "days * nanos_per_day + seconds * nanos_per_second + nanos = t"
  proof -
    have "seconds * nanos_per_second + nanos = rest" by (simp add: seconds_def nanos_def)
    moreover have "days * nanos_per_day + rest = t" by (simp add: days_def rest_def)
    ultimately show ?thesis by simp
  qed
  then show ?thesis
    unfolding parse_instant_def written
    using parse_date_pad[OF d0 year] parse_clock_pad[OF s(1,2)] parse_fraction_format[OF s(3,4)] s(3)
    by (simp add: parse_zone_def)
qed

lemma parse_format:
  "0 \<le> t \<Longrightarrow> t < days_before_year 10000 * nanos_per_day \<Longrightarrow> parse_rfc3339 (format_rfc3339 t) = Some t"
  by (simp add: parse_rfc3339_def parse_instant_format)

subsection \<open>Instants written in UTC\<close>

definition parse_utc :: "string \<Rightarrow> int option" where
  "parse_utc s = (case parse_instant s of None \<Rightarrow> None | Some (t, offset) \<Rightarrow> if offset = 0 then Some t else None)"

lemma nat_of_digits_less: "list_all is_digit s \<Longrightarrow> nat_of_digits s < 10 ^ length s"
proof (induction s rule: rev_induct)
  case (snoc c s)
  then have "nat_of_digits s < 10 ^ length s" "digit_val c < 10" by (simp_all add: digit_val_less)
  then show ?case by simp
qed simp

lemma fixed_digits_less: "fixed_digits n s = Some (k, r) \<Longrightarrow> k < 10 ^ n"
  using nat_of_digits_less[of "take n s"] by (auto simp: fixed_digits_def min_def split: if_splits)

lemma in_range_bounds: "in_range a b m = Some (n, r) \<Longrightarrow> a \<le> n \<and> n \<le> b"
  by (auto simp: in_range_def split: option.splits if_splits)

lemma parse_fraction_less: "int (fst (parse_fraction s)) < nanos_per_second"
proof (cases "\<exists>c d rest. s = c # d # rest \<and> (c = CHR ''.'' \<or> c = CHR '','') \<and> is_digit d")
  case True
  then obtain c d rest where s: "s = c # d # rest" "c = CHR ''.'' \<or> c = CHR '',''" "is_digit d" by blast
  define first where "first = take 9 (takeWhile is_digit (d # rest))"
  have l: "list_all is_digit first" "length first \<le> 9"
    by (auto simp: first_def list_all_iff dest: in_set_takeD set_takeWhileD)
  have "nat_of_digits first * 10 ^ (9 - length first) < 10 ^ length first * 10 ^ (9 - length first)"
    using nat_of_digits_less[OF l(1)] by simp
  also have "\<dots> = 10 ^ 9" using l(2) by (simp flip: power_add)
  finally have "nat_of_digits first * 10 ^ (9 - length first) < 1000000000" by simp
  moreover have "fst (parse_fraction s) = nat_of_digits first * 10 ^ (9 - length first)"
    using s by (simp add: parse_fraction_def first_def Let_def)
  ultimately have "int (fst (parse_fraction s)) < int 1000000000" by (simp only: of_nat_less_iff)
  then show ?thesis by (simp add: nanos_per_second_def)
next
  case False
  then have "parse_fraction s = (0, s)" by (auto simp: parse_fraction_def split: list.splits)
  then show ?thesis by (simp add: nanos_per_second_def)
qed

lemma parse_date_range:
  assumes "parse_date s = Some (n, r)"
  shows "0 \<le> n \<and> n < days_before_year 10000"
proof -
  obtain y s1 s2 m s3 s4 d s5 where
    y: "fixed_digits 4 s = Some (y, s1)" and m: "in_range 1 12 (fixed_digits 2 s2) = Some (m, s3)"
    and d: "1 \<le> d" "int d \<le> days_in_month (int y) m" and n: "n = date_days (int y) m (int d)"
    using assms by (auto simp: parse_date_def bind_eq_Some_conv split: if_splits)
  have my: "1 \<le> m" "m \<le> 12" using in_range_bounds[OF m] by simp_all
  have "int y + 1 \<le> 10000" using fixed_digits_less[OF y] by simp
  then have year: "days_before_year (int y + 1) \<le> days_before_year 10000"
    using days_before_year_mono[of "int y + 1" 10000] by (cases "int y + 1 = 10000") auto
  have low: "0 \<le> days_before_year (int y)" "0 \<le> days_before_month (int y) m"
    using days_before_year_bounds[of "int y"] days_before_month_mono[OF order_refl my(1), of "int y"]
    by (simp_all add: days_before_month_def)
  have "days_before_month (int y) (m + 1) \<le> days_before_month (int y) 13"
    using my by (intro days_before_month_mono) simp_all
  then have "days_before_month (int y) m + int d \<le> (if leap_year (int y) then 366 else 365)"
    using days_before_month_step[of m "int y"] my d by (simp add: days_before_month_ends)
  then show ?thesis
    using n d low year days_before_year_step[of "int y"] by (simp add: date_days_def)
qed

lemma parse_clock_range:
  assumes "parse_clock s = Some (n, r)"
  shows "0 \<le> n \<and> n < 86400"
proof -
  have "\<exists>h m c. n = (int h * 60 + int m) * 60 + int c \<and> h \<le> 23 \<and> m \<le> 59 \<and> c \<le> 59"
    using assms by (auto simp: parse_clock_def bind_eq_Some_conv dest!: in_range_bounds)
  then show ?thesis by auto
qed

lemma parse_utc_range:
  assumes "parse_utc s = Some t"
  shows "0 \<le> t \<and> t < days_before_year 10000 * nanos_per_day"
proof -
  have "parse_instant s = Some (t, 0)" using assms by (auto simp: parse_utc_def split: option.splits if_splits)
  then obtain d c where
    p: "parse_date s = Some d" "parse_clock (the (expect (CHR ''T'') (snd d))) = Some c"
    and t: "t = fst d * nanos_per_day + fst c * nanos_per_second + int (fst (parse_fraction (snd c)))"
    by (auto simp: parse_instant_def bind_eq_Some_conv case_prod_unfold split: if_splits)
  obtain days s1 seconds s3 where dc: "d = (days, s1)" "c = (seconds, s3)" by (cases d; cases c)
  have "0 \<le> days" "days + 1 \<le> days_before_year 10000" using parse_date_range[of s days s1] p(1) dc by simp_all
  moreover have "(days + 1) * nanos_per_day \<le> days_before_year 10000 * nanos_per_day"
    using calculation(2) by (intro mult_right_mono) (simp_all add: nanos_per_day_def nanos_per_second_def)
  moreover have "0 \<le> seconds" "seconds < 86400" using parse_clock_range[of _ seconds s3] p(2) dc by simp_all
  ultimately show ?thesis
    using t dc parse_fraction_less[of s3] by (simp add: nanos_per_day_def nanos_per_second_def)
qed

text \<open>Normalising a UTC timestamp is harmless: the text written for it reads back as the same instant.\<close>

lemma parse_utc_format: "parse_utc s = Some t \<Longrightarrow> parse_utc (format_rfc3339 t) = Some t"
  using parse_utc_range[of s t] by (simp add: parse_utc_def[of "format_rfc3339 t"] parse_instant_format)

lemma parse_utc_instant: "parse_utc s = Some t \<Longrightarrow> parse_rfc3339 s = Some t"
  by (auto simp: parse_utc_def parse_rfc3339_def split: option.splits if_splits)

end
