(* ===== verification/HostSnapshot.thy ===== *)
theory HostSnapshot
  imports GoFloatText GoTime
begin

section \<open>Host snapshots of a benchmark\<close>

text \<open>
  \<^verbatim>\<open>internal/benchmarkqualify/types.go\<close> and \<^verbatim>\<open>collect.go\<close>: the observations of a host before and
  after a benchmark, and how they are collected. What the collector asks the system, its probes, is
  an argument: files, globs, commands, the storage of a path and the number of processors.
\<close>

subsection \<open>Observations\<close>

definition observed :: string where
  "observed = ''observed''"

definition unavailable :: string where
  "unavailable = ''unavailable''"

record string_observation =
  so_availability :: string
  so_value :: string
  so_source :: string

record list_observation =
  lo_availability :: string
  lo_values :: "string list"
  lo_source :: string

record uint_observation =
  uo_availability :: string
  uo_value :: "64 word option"
  uo_source :: string

record number_observation =
  no_availability :: string
  no_value :: "f64 option"
  no_source :: string

record platform_snapshot =
  ps_os :: string_observation
  ps_architecture :: string_observation
  ps_kernel :: string_observation

record cpu_snapshot =
  cs_model :: string_observation
  cs_logical_cpus :: uint_observation

record capacity_snapshot =
  cap_total_bytes :: uint_observation
  cap_available_bytes :: uint_observation
  cap_available_pct :: number_observation

record storage_snapshot =
  ss_label :: string
  ss_filesystem :: string_observation
  ss_total_bytes :: uint_observation
  ss_available_bytes :: uint_observation
  ss_available_pct :: number_observation

record interference_snapshot =
  is_load1 :: number_observation
  is_load1_per_cpu :: number_observation
  is_runnable_processes :: uint_observation
  is_process_count :: uint_observation

record headroom_snapshot =
  hs_load_capacity_pct :: number_observation
  hs_memory_pct :: number_observation
  hs_storage_pct :: number_observation

record snapshot =
  sn_platform :: platform_snapshot
  sn_cpu :: cpu_snapshot
  sn_memory :: capacity_snapshot
  sn_storage :: storage_snapshot
  sn_clocksource :: string_observation
  sn_governors :: list_observation
  sn_max_celsius :: number_observation
  sn_placement :: string_observation
  sn_interference :: interference_snapshot
  sn_headroom :: headroom_snapshot

definition observed_string :: "string \<Rightarrow> string \<Rightarrow> string_observation" where
  "observed_string v source = \<lparr>so_availability = observed, so_value = v, so_source = source\<rparr>"

definition unavailable_string :: "string \<Rightarrow> string_observation" where
  "unavailable_string source = \<lparr>so_availability = unavailable, so_value = [], so_source = source\<rparr>"

definition observed_list :: "string list \<Rightarrow> string \<Rightarrow> list_observation" where
  "observed_list vs source = \<lparr>lo_availability = observed, lo_values = vs, lo_source = source\<rparr>"

definition unavailable_list :: "string \<Rightarrow> list_observation" where
  "unavailable_list source = \<lparr>lo_availability = unavailable, lo_values = [], lo_source = source\<rparr>"

definition observed_uint :: "64 word \<Rightarrow> string \<Rightarrow> uint_observation" where
  "observed_uint v source = \<lparr>uo_availability = observed, uo_value = Some v, uo_source = source\<rparr>"

definition unavailable_uint :: "string \<Rightarrow> uint_observation" where
  "unavailable_uint source = \<lparr>uo_availability = unavailable, uo_value = None, uo_source = source\<rparr>"

definition observed_number :: "f64 \<Rightarrow> string \<Rightarrow> number_observation" where
  "observed_number v source = \<lparr>no_availability = observed, no_value = Some v, no_source = source\<rparr>"

definition unavailable_number :: "string \<Rightarrow> number_observation" where
  "unavailable_number source = \<lparr>no_availability = unavailable, no_value = None, no_source = source\<rparr>"

definition f_of_uint :: "64 word \<Rightarrow> f64" where
  "f_of_uint w = rnd (of_nat (unat w))"

definition percent :: "64 word \<Rightarrow> 64 word \<Rightarrow> f64" where
  "percent part all = f_mul (f_div (f_of_uint part) (f_of_uint all)) (Fin 100)"

text \<open>\<open>math.Max\<close>; the sign of zero is not modelled.\<close>

definition f_max :: "f64 \<Rightarrow> f64 \<Rightarrow> f64" where
  "f_max x y =
     (if x = Inf False \<or> y = Inf False then Inf False
      else if x = NaN \<or> y = NaN then NaN
      else if f_less y x then x else y)"

definition observed_capacity :: "64 word \<Rightarrow> 64 word \<Rightarrow> string \<Rightarrow> capacity_snapshot" where
  "observed_capacity all available source =
     \<lparr>cap_total_bytes = observed_uint all source, cap_available_bytes = observed_uint available source,
      cap_available_pct = observed_number (percent available all) ''derived''\<rparr>"

definition unavailable_capacity :: "string \<Rightarrow> capacity_snapshot" where
  "unavailable_capacity source =
     \<lparr>cap_total_bytes = unavailable_uint source, cap_available_bytes = unavailable_uint source,
      cap_available_pct = unavailable_number ''derived''\<rparr>"

subsection \<open>Names\<close>

definition portable_label :: "string \<Rightarrow> bool" where
  "portable_label v =
     (v \<noteq> [] \<and> length v \<le> 64 \<and> (is_lower (hd v) \<or> is_digit (hd v)) \<and>
      list_all (\<lambda>c. is_lower c \<or> is_digit c \<or> c = CHR ''-'' \<or> c = CHR ''_'' \<or> c = CHR ''.'') (tl v))"

definition portable_token :: "string \<Rightarrow> bool" where
  "portable_token v =
     (v \<noteq> [] \<and> length v \<le> 128 \<and>
      list_all (\<lambda>c. is_alnum c \<or> c = CHR ''.'' \<or> c = CHR ''_'' \<or> c = CHR ''+'' \<or> c = CHR ''-'') v)"

definition valid_client_placement :: "string \<Rightarrow> bool" where
  "valid_client_placement v = (v = ''same-host'' \<or> v = ''separate-host'' \<or> v = ''remote-host'')"

text \<open>Sorting and dropping repetitions.\<close>

definition sorted_unique :: "string list \<Rightarrow> string list" where
  "sorted_unique vs = remdups_adj (sort vs)"

subsection \<open>Probes\<close>

record storage_result =
  sr_filesystem :: string
  sr_total_bytes :: "64 word"
  sr_available_bytes :: "64 word"

record probes =
  pr_goos :: string
  pr_goarch :: string
  pr_num_cpu :: int
  pr_read_file :: "string \<Rightarrow> string option"
  pr_glob :: "string \<Rightarrow> string list option"
  pr_command :: "string \<Rightarrow> string list \<Rightarrow> string option"
  pr_storage :: "string \<Rightarrow> storage_result option"

definition command_string :: "probes \<Rightarrow> string \<Rightarrow> string list \<Rightarrow> string" where
  "command_string p name args = (case pr_command p name args of None \<Rightarrow> [] | Some out \<Rightarrow> trim_space out)"

definition platform_source :: "string \<Rightarrow> string" where
  "platform_source goos = (if goos = ''linux'' then ''procfs'' else ''sysctl'')"

definition governor_source :: "string \<Rightarrow> string" where
  "governor_source goos = (if goos = ''linux'' then ''sysfs'' else ''unsupported'')"

definition thermal_source :: "string \<Rightarrow> string" where
  "thermal_source goos = (if goos = ''linux'' then ''sysfs'' else ''unsupported'')"

subsection \<open>Reading what Linux reports\<close>

definition cpu_line :: "string \<Rightarrow> string \<Rightarrow> string option" where
  "cpu_line key line =
     (case cut (CHR '':'') line of (a, b, found) \<Rightarrow> if found \<and> trim_space a = key then Some (trim_space b) else None)"

definition linux_cpu_model :: "string \<Rightarrow> string" where
  "linux_cpu_model content =
     (case List.map_filter
             (\<lambda>(key, line). cpu_line key line)
             (concat (map (\<lambda>key. map (Pair key) (split_on newline content))
                [''model name'', ''Model'', ''Processor'', ''Hardware''])) of
        [] \<Rightarrow> []
      | v # _ \<Rightarrow> v)"

definition max_uint64 :: nat where
  "max_uint64 = 18446744073709551615"

text \<open>The two values of the memory report so far; an unreadable one ends the scan.\<close>

fun linux_memory_lines ::
  "64 word option \<Rightarrow> 64 word option \<Rightarrow> string list \<Rightarrow> (64 word option \<times> 64 word option) option" where
  "linux_memory_lines all available [] = Some (all, available)"
| "linux_memory_lines all available (line # lines) =
     (case str_fields line of
        key_text # value_text # _ \<Rightarrow>
          (let key = trim_suffix key_text '':''
           in if key \<noteq> ''MemTotal'' \<and> key \<noteq> ''MemAvailable'' then linux_memory_lines all available lines
              else
                (case parse_uint64 value_text of
                   None \<Rightarrow> None
                 | Some v \<Rightarrow>
                   if unat v > max_uint64 div 1024 then None
                   else if key = ''MemTotal'' then linux_memory_lines (Some (v * 1024)) available lines
                   else linux_memory_lines all (Some (v * 1024)) lines))
      | _ \<Rightarrow> linux_memory_lines all available lines)"

definition linux_memory :: "string \<Rightarrow> (64 word \<times> 64 word) option" where
  "linux_memory content =
     (case linux_memory_lines None None (split_on newline content) of
        Some (Some all, Some available) \<Rightarrow>
          if 0 < all \<and> available \<le> all then Some (all, available) else None
      | _ \<Rightarrow> None)"

definition linux_processes :: "string \<Rightarrow> (64 word \<times> 64 word) option" where
  "linux_processes s =
     (case split_on (CHR ''/'') s of
        [a, b] \<Rightarrow>
          Option.bind (parse_uint64 a) (\<lambda>runnable.
          Option.bind (parse_uint64 b) (\<lambda>all. if runnable > all then None else Some (runnable, all)))
      | _ \<Rightarrow> None)"

definition linux_load :: "string \<Rightarrow> (f64 \<times> 64 word \<times> 64 word) option" where
  "linux_load content =
     (case str_fields content of
        load_text # _ # _ # process_text # _ \<Rightarrow>
          Option.bind (parse_float load_text) (\<lambda>load.
            if \<not> f_finite load \<or> f_less load (Fin 0) then None
            else map_option (Pair load) (linux_processes process_text))
      | _ \<Rightarrow> None)"

text \<open>One governor file and one temperature file.\<close>

definition governor_value :: "probes \<Rightarrow> string \<Rightarrow> string option" where
  "governor_value p path =
     (case pr_read_file p path of
        None \<Rightarrow> None
      | Some content \<Rightarrow> if portable_token (trim_space content) then Some (trim_space content) else None)"

definition temperature :: "string \<Rightarrow> f64 option" where
  "temperature content =
     Option.bind (parse_float (trim_space content)) (\<lambda>raw.
       let v = (if f_less (Fin 1000) (f_abs raw) then f_div raw (Fin 1000) else raw)
       in if \<not> f_finite v \<or> f_less v (Fin (-100)) \<or> f_less (Fin 250) v then None else Some v)"

definition hotter :: "f64 option \<Rightarrow> f64 \<Rightarrow> f64 option" where
  "hotter maximum v = (case maximum of None \<Rightarrow> Some v | Some m \<Rightarrow> if f_less m v then Some v else maximum)"

definition max_temperature :: "probes \<Rightarrow> string list \<Rightarrow> f64 option" where
  "max_temperature p paths =
     foldl hotter None (List.map_filter (\<lambda>path. Option.bind (pr_read_file p path) temperature) paths)"

definition when_read :: "probes \<Rightarrow> string \<Rightarrow> (string \<Rightarrow> 'a option) \<Rightarrow> 'a \<Rightarrow> 'a" where
  "when_read p path f fallback =
     (case pr_read_file p path of
        None \<Rightarrow> fallback
      | Some content \<Rightarrow> (case f content of None \<Rightarrow> fallback | Some v \<Rightarrow> v))"

definition non_empty_string :: "string \<Rightarrow> string \<Rightarrow> string_observation option" where
  "non_empty_string source v = (if v = [] then None else Some (observed_string v source))"

definition collect_linux :: "probes \<Rightarrow> snapshot \<Rightarrow> snapshot" where
  "collect_linux p s =
     s\<lparr>sn_platform := (sn_platform s)\<lparr>ps_kernel :=
           when_read p ''/proc/sys/kernel/osrelease'' (\<lambda>c. non_empty_string ''procfs'' (trim_space c))
             (ps_kernel (sn_platform s))\<rparr>,
       sn_cpu := (sn_cpu s)\<lparr>cs_model :=
           when_read p ''/proc/cpuinfo'' (\<lambda>c. non_empty_string ''procfs'' (linux_cpu_model c)) (cs_model (sn_cpu s))\<rparr>,
       sn_memory :=
           when_read p ''/proc/meminfo''
             (\<lambda>c. map_option (\<lambda>(all, available). observed_capacity all available ''procfs'') (linux_memory c))
             (sn_memory s),
       sn_interference :=
           when_read p ''/proc/loadavg''
             (\<lambda>c. map_option (\<lambda>(load, runnable, all). (sn_interference s)\<lparr>
                is_load1 := observed_number load ''procfs'',
                is_runnable_processes := observed_uint runnable ''procfs'',
                is_process_count := observed_uint all ''procfs''\<rparr>) (linux_load c))
             (sn_interference s),
       sn_clocksource :=
           when_read p ''/sys/devices/system/clocksource/clocksource0/current_clocksource''
             (\<lambda>c. non_empty_string ''sysfs'' (trim_space c)) (sn_clocksource s),
       sn_governors :=
           (case pr_glob p ''/sys/devices/system/cpu/cpu*/cpufreq/scaling_governor'' of
              None \<Rightarrow> sn_governors s
            | Some paths \<Rightarrow>
              (let vs = sorted_unique (List.map_filter (governor_value p) paths)
               in if vs = [] then sn_governors s else observed_list vs ''sysfs'')),
       sn_max_celsius :=
           (case pr_glob p ''/sys/class/thermal/thermal_zone*/temp'' of
              None \<Rightarrow> sn_max_celsius s
            | Some paths \<Rightarrow>
              (case max_temperature p paths of
                 None \<Rightarrow> sn_max_celsius s
               | Some m \<Rightarrow> observed_number m ''sysfs''))\<rparr>"

subsection \<open>Reading what Darwin reports\<close>

text \<open>The text before and after the first occurrence of \<open>p\<close>.\<close>

fun split_first :: "string \<Rightarrow> string \<Rightarrow> (string \<times> string) option" where
  "split_first p [] = (if p = [] then Some ([], []) else None)"
| "split_first p (c # cs) =
     (if has_prefix (c # cs) p then Some ([], drop (length p) (c # cs))
      else map_option (\<lambda>(a, b). (c # a, b)) (split_first p cs))"

definition darwin_page_size :: "string \<Rightarrow> 64 word" where
  "darwin_page_size content =
     (case split_first ''page size of '' content of
        None \<Rightarrow> 4096
      | Some (_, fragment) \<Rightarrow>
        (case split_first '' bytes'' fragment of
           None \<Rightarrow> 4096
         | Some (number, _) \<Rightarrow>
           if number = [] then 4096
           else (case parse_uint64 (trim_space number) of
                   None \<Rightarrow> 4096
                 | Some n \<Rightarrow> if 0 < n then n else 4096)))"

fun darwin_pages :: "64 word \<Rightarrow> bool \<Rightarrow> string list \<Rightarrow> (64 word \<times> bool) option" where
  "darwin_pages pages found [] = Some (pages, found)"
| "darwin_pages pages found (line # lines) =
     (case cut (CHR '':'') line of
        (key_text, value_text, colon) \<Rightarrow>
          if \<not> colon \<or> trim_space key_text \<notin> {''Pages free'', ''Pages inactive'', ''Pages speculative''}
          then darwin_pages pages found lines
          else
            (case parse_uint64 (trim_space (trim_suffix value_text ''.'')) of
               None \<Rightarrow> None
             | Some n \<Rightarrow>
               if unat n > max_uint64 - unat pages then None else darwin_pages (pages + n) True lines))"

definition darwin_available_memory :: "string \<Rightarrow> 64 word option" where
  "darwin_available_memory content =
     (let size = darwin_page_size content
      in case darwin_pages 0 False (split_on newline content) of
           None \<Rightarrow> None
         | Some (pages, found) \<Rightarrow>
           if \<not> found \<or> unat pages > max_uint64 div unat size then None else Some (pages * size))"

definition darwin_load :: "string \<Rightarrow> f64 option" where
  "darwin_load content =
     (let words = str_fields (map (\<lambda>c. if c = CHR ''{'' \<or> c = CHR ''}'' then CHR '' '' else c) content)
      in case List.map_filter
                (\<lambda>w. Option.bind (parse_float w) (\<lambda>v.
                   if f_finite v \<and> \<not> f_less v (Fin 0) then Some v else None)) words of
           [] \<Rightarrow> None
         | v # _ \<Rightarrow> Some v)"

definition with_observation :: "string_observation option \<Rightarrow> string_observation \<Rightarrow> string_observation" where
  "with_observation m fallback = (case m of None \<Rightarrow> fallback | Some o' \<Rightarrow> o')"

definition darwin_memory :: "probes \<Rightarrow> capacity_snapshot option" where
  "darwin_memory p =
     Option.bind (parse_uint64 (command_string p ''sysctl'' [''-n'', ''hw.memsize''])) (\<lambda>all.
       if all = 0 then None
       else
         Option.bind (pr_command p ''vm_stat'' []) (\<lambda>out.
         Option.bind (darwin_available_memory out) (\<lambda>available.
           if available \<le> all then
             Some \<lparr>cap_total_bytes = observed_uint all ''sysctl'',
                   cap_available_bytes = observed_uint available ''vm-stat'',
                   cap_available_pct = observed_number (percent available all) ''derived''\<rparr>
           else None)))"

definition collect_darwin :: "probes \<Rightarrow> snapshot \<Rightarrow> snapshot" where
  "collect_darwin p s =
     (let brand = command_string p ''sysctl'' [''-n'', ''machdep.cpu.brand_string''];
          model = (if brand = [] then command_string p ''sysctl'' [''-n'', ''hw.model''] else brand);
          load = command_string p ''sysctl'' [''-n'', ''vm.loadavg'']
      in s\<lparr>sn_platform := (sn_platform s)\<lparr>ps_kernel :=
               with_observation (non_empty_string ''sysctl'' (command_string p ''sysctl'' [''-n'', ''kern.osrelease'']))
                 (ps_kernel (sn_platform s))\<rparr>,
           sn_cpu := (sn_cpu s)\<lparr>cs_model := with_observation (non_empty_string ''sysctl'' model) (cs_model (sn_cpu s))\<rparr>,
           sn_memory := (case darwin_memory p of None \<Rightarrow> sn_memory s | Some m \<Rightarrow> m),
           sn_interference :=
             (case darwin_load load of
                None \<Rightarrow> sn_interference s
              | Some v \<Rightarrow> (sn_interference s)\<lparr>is_load1 := observed_number v ''sysctl''\<rparr>),
           sn_clocksource :=
             with_observation
               (non_empty_string ''sysctl'' (command_string p ''sysctl'' [''-n'', ''kern.timecounter.hardware'']))
               (sn_clocksource s)\<rparr>)"

subsection \<open>The snapshot\<close>

definition empty_snapshot :: "string \<Rightarrow> string \<Rightarrow> string \<Rightarrow> snapshot" where
  "empty_snapshot goos goarch label =
     \<lparr>sn_platform = \<lparr>ps_os = observed_string goos ''runtime'', ps_architecture = observed_string goarch ''runtime'',
        ps_kernel = unavailable_string (platform_source goos)\<rparr>,
      sn_cpu = \<lparr>cs_model = unavailable_string (platform_source goos), cs_logical_cpus = unavailable_uint ''runtime''\<rparr>,
      sn_memory = unavailable_capacity (platform_source goos),
      sn_storage = \<lparr>ss_label = label, ss_filesystem = unavailable_string ''statfs'',
        ss_total_bytes = unavailable_uint ''statfs'', ss_available_bytes = unavailable_uint ''statfs'',
        ss_available_pct = unavailable_number ''derived''\<rparr>,
      sn_clocksource = unavailable_string (platform_source goos),
      sn_governors = unavailable_list (governor_source goos),
      sn_max_celsius = unavailable_number (thermal_source goos),
      sn_placement = unavailable_string ''operator'',
      sn_interference = \<lparr>is_load1 = unavailable_number (platform_source goos),
        is_load1_per_cpu = unavailable_number ''derived'',
        is_runnable_processes = unavailable_uint (platform_source goos),
        is_process_count = unavailable_uint (platform_source goos)\<rparr>,
      sn_headroom = \<lparr>hs_load_capacity_pct = unavailable_number ''derived'', hs_memory_pct = unavailable_number ''derived'',
        hs_storage_pct = unavailable_number ''derived''\<rparr>\<rparr>"

definition collect_processors :: "probes \<Rightarrow> snapshot \<Rightarrow> snapshot" where
  "collect_processors p s =
     (if 0 < pr_num_cpu p
      then s\<lparr>sn_cpu := (sn_cpu s)\<lparr>cs_logical_cpus := observed_uint (word_of_int (pr_num_cpu p)) ''runtime''\<rparr>\<rparr> else s)"

definition collect_placement :: "string \<Rightarrow> snapshot \<Rightarrow> snapshot" where
  "collect_placement placement s =
     (if placement \<noteq> [] then s\<lparr>sn_placement := observed_string placement ''operator''\<rparr> else s)"

definition collect_storage :: "probes \<Rightarrow> string \<Rightarrow> snapshot \<Rightarrow> snapshot" where
  "collect_storage p path s =
     (case pr_storage p path of
        None \<Rightarrow> s
      | Some r \<Rightarrow>
        if 0 < sr_total_bytes r \<and> sr_available_bytes r \<le> sr_total_bytes r then
          (let pct = percent (sr_available_bytes r) (sr_total_bytes r)
           in s\<lparr>sn_storage := \<lparr>ss_label = ss_label (sn_storage s),
                  ss_filesystem = observed_string (sr_filesystem r) ''statfs'',
                  ss_total_bytes = observed_uint (sr_total_bytes r) ''statfs'',
                  ss_available_bytes = observed_uint (sr_available_bytes r) ''statfs'',
                  ss_available_pct = observed_number pct ''derived''\<rparr>,
                sn_headroom := (sn_headroom s)\<lparr>hs_storage_pct := observed_number pct ''derived''\<rparr>\<rparr>)
        else s)"

text \<open>The values derived from others; a value that is observed is present.\<close>

definition derive_memory :: "snapshot \<Rightarrow> snapshot" where
  "derive_memory s =
     (if no_availability (cap_available_pct (sn_memory s)) = observed
      then s\<lparr>sn_headroom := (sn_headroom s)\<lparr>hs_memory_pct :=
               observed_number (the (no_value (cap_available_pct (sn_memory s)))) ''derived''\<rparr>\<rparr>
      else s)"

definition derive_load :: "snapshot \<Rightarrow> snapshot" where
  "derive_load s =
     (let cpus = cs_logical_cpus (sn_cpu s); load = is_load1 (sn_interference s)
      in if uo_availability cpus = observed \<and> no_availability load = observed then
           (let per_cpu = f_div (the (no_value load)) (f_of_uint (the (uo_value cpus)));
                headroom = f_max (Fin 0) (f_mul (f_sub (Fin 1) per_cpu) (Fin 100))
            in s\<lparr>sn_interference := (sn_interference s)\<lparr>is_load1_per_cpu := observed_number per_cpu ''derived''\<rparr>,
                 sn_headroom := (sn_headroom s)\<lparr>hs_load_capacity_pct := observed_number headroom ''derived''\<rparr>\<rparr>)
         else s)"

definition derive_snapshot :: "snapshot \<Rightarrow> snapshot" where
  "derive_snapshot s = derive_load (derive_memory s)"

definition collect_snapshot :: "string \<Rightarrow> string \<Rightarrow> string \<Rightarrow> probes \<Rightarrow> snapshot" where
  "collect_snapshot label placement path p =
     (let s = collect_storage p path
                (collect_placement placement
                  (collect_processors p (empty_snapshot (pr_goos p) (pr_goarch p) label)));
          t = (if pr_goos p = ''linux'' then collect_linux p s else collect_darwin p s)
      in derive_snapshot t)"

end
