(* ===== verification/HostQualify.thy ===== *)
theory HostQualify
  imports HostSnapshot
begin

section \<open>Qualification of a benchmark host\<close>

text \<open>
  \<^verbatim>\<open>internal/benchmarkqualify\<close>: the gates of a policy over a snapshot (\<^verbatim>\<open>policy.go\<close>), the artifact that
  \<open>Inspect\<close> records (\<^verbatim>\<open>collect.go\<close>), its verification (\<^verbatim>\<open>verify.go\<close>), and the assessment of the
  artifacts recorded before and after a benchmark (\<^verbatim>\<open>bookends.go\<close>). Findings are texts, as in the code.
\<close>

subsection \<open>Policies and their gates\<close>

record policy =
  po_strict :: bool
  po_min_logical_cpus :: "64 word option"
  po_min_memory_available_pct :: "f64 option"
  po_min_storage_available_pct :: "f64 option"
  po_max_load1_per_cpu :: "f64 option"
  po_required_clocksource :: string
  po_required_governor :: string
  po_max_temperature_celsius :: "f64 option"
  po_required_client_placement :: string

record check =
  ch_gate :: string
  ch_status :: string
  ch_observation :: string
  ch_requirement :: string

definition gate_check :: "string \<Rightarrow> string \<Rightarrow> (string \<times> bool) option \<Rightarrow> check" where
  "gate_check gate requirement observation =
     (case observation of
        None \<Rightarrow> \<lparr>ch_gate = gate, ch_status = ''failed'', ch_observation = unavailable, ch_requirement = requirement\<rparr>
      | Some (shown, passed) \<Rightarrow>
        \<lparr>ch_gate = gate, ch_status = (if passed then ''passed'' else ''failed''), ch_observation = shown,
         ch_requirement = requirement\<rparr>)"

definition minimum_uint_check :: "string \<Rightarrow> uint_observation \<Rightarrow> 64 word \<Rightarrow> check" where
  "minimum_uint_check gate ob least =
     gate_check gate (''>= '' @ show_nat (unat least))
       (if uo_availability ob = observed
        then map_option (\<lambda>v. (show_nat (unat v), least \<le> v)) (uo_value ob) else None)"

definition minimum_number_check :: "string \<Rightarrow> number_observation \<Rightarrow> f64 \<Rightarrow> check" where
  "minimum_number_check gate ob least =
     gate_check gate (''>= '' @ format_float least)
       (if no_availability ob = observed
        then map_option (\<lambda>v. (format_float v, f_le least v)) (no_value ob) else None)"

definition maximum_number_check :: "string \<Rightarrow> number_observation \<Rightarrow> f64 \<Rightarrow> check" where
  "maximum_number_check gate ob most =
     gate_check gate (''<= '' @ format_float most)
       (if no_availability ob = observed
        then map_option (\<lambda>v. (format_float v, f_le v most)) (no_value ob) else None)"

definition equal_string_check :: "string \<Rightarrow> string_observation \<Rightarrow> string \<Rightarrow> check" where
  "equal_string_check gate ob required =
     gate_check gate (''= '' @ required)
       (if so_availability ob = observed then Some (so_value ob, so_value ob = required) else None)"

definition contains_string_check :: "string \<Rightarrow> list_observation \<Rightarrow> string \<Rightarrow> check" where
  "contains_string_check gate ob required =
     gate_check gate (''contains '' @ required)
       (if lo_availability ob = observed
        then Some (''['' @ join '','' (sort (lo_values ob)) @ '']'', required \<in> set (lo_values ob)) else None)"

definition gate_if :: "'a option \<Rightarrow> ('a \<Rightarrow> check) \<Rightarrow> check list" where
  "gate_if m f = (case m of None \<Rightarrow> [] | Some v \<Rightarrow> [f v])"

definition gate_if_set :: "string \<Rightarrow> (string \<Rightarrow> check) \<Rightarrow> check list" where
  "gate_if_set v f = (if v = [] then [] else [f v])"

definition policy_checks :: "snapshot \<Rightarrow> policy \<Rightarrow> check list" where
  "policy_checks s p =
     gate_if (po_min_logical_cpus p) (minimum_uint_check ''min_logical_cpus'' (cs_logical_cpus (sn_cpu s))) @
     gate_if (po_min_memory_available_pct p)
       (minimum_number_check ''min_memory_available_pct'' (cap_available_pct (sn_memory s))) @
     gate_if (po_min_storage_available_pct p)
       (minimum_number_check ''min_storage_available_pct'' (ss_available_pct (sn_storage s))) @
     gate_if (po_max_load1_per_cpu p)
       (maximum_number_check ''max_load_1m_per_cpu'' (is_load1_per_cpu (sn_interference s))) @
     gate_if_set (po_required_clocksource p) (equal_string_check ''required_clocksource'' (sn_clocksource s)) @
     gate_if_set (po_required_governor p) (contains_string_check ''required_governor'' (sn_governors s)) @
     gate_if (po_max_temperature_celsius p) (maximum_number_check ''max_temperature_celsius'' (sn_max_celsius s)) @
     gate_if_set (po_required_client_placement p) (equal_string_check ''required_client_placement'' (sn_placement s))"

definition check_reason :: "check \<Rightarrow> string" where
  "check_reason c =
     ch_gate c @ '' failed: observed '' @ ch_observation c @ ''; require '' @ ch_requirement c"

text \<open>The checks, whether the host qualifies, and why not.\<close>

definition evaluate_policy :: "snapshot \<Rightarrow> policy \<Rightarrow> check list \<times> string \<times> string list" where
  "evaluate_policy s p =
     (let checks = policy_checks s p;
          reasons =
            note_if (\<not> po_strict p) ''strict policy is not enabled'' @
            note_if (checks = []) ''no explicit qualification gates were configured'' @
            map check_reason (filter (\<lambda>c. ch_status c = ''failed'') checks);
          qualified = (po_strict p \<and> checks \<noteq> [] \<and> list_all (\<lambda>c. ch_status c \<noteq> ''failed'') checks)
      in (checks, if qualified then ''qualified'' else ''unqualified'', reasons))"

definition out_of_percent :: "f64 \<Rightarrow> bool" where
  "out_of_percent v = (f_less v (Fin 0) \<or> f_less (Fin 100) v)"

definition bad_number :: "(f64 \<Rightarrow> bool) \<Rightarrow> f64 option \<Rightarrow> bool" where
  "bad_number bad m = (case m of None \<Rightarrow> False | Some v \<Rightarrow> \<not> f_finite v \<or> bad v)"

definition policy_problems :: "policy \<Rightarrow> string list" where
  "policy_problems p =
     sort
      (note_if (po_min_logical_cpus p = Some 0) ''min logical CPUs must be greater than zero'' @
       note_if (bad_number out_of_percent (po_min_memory_available_pct p))
         ''min memory available percent must be between 0 and 100'' @
       note_if (bad_number out_of_percent (po_min_storage_available_pct p))
         ''min storage available percent must be between 0 and 100'' @
       note_if (bad_number (\<lambda>v. f_less v (Fin 0)) (po_max_load1_per_cpu p))
         ''max 1-minute load per CPU must be non-negative'' @
       note_if (po_required_clocksource p \<noteq> [] \<and> \<not> portable_token (po_required_clocksource p))
         ''required clocksource must be a portable token'' @
       note_if (po_required_governor p \<noteq> [] \<and> \<not> portable_token (po_required_governor p))
         ''required governor must be a portable token'' @
       note_if (bad_number (\<lambda>v. f_less v (Fin (-100)) \<or> f_less (Fin 250) v) (po_max_temperature_celsius p))
         ''max temperature Celsius must be between -100 and 250'' @
       note_if (po_required_client_placement p \<noteq> [] \<and> \<not> valid_client_placement (po_required_client_placement p))
         ''required client placement must be one of same-host, separate-host, or remote-host'')"

definition validate_policy :: "policy \<Rightarrow> (string, unit) result" where
  "validate_policy p =
     (if policy_problems p = [] then Inr () else Inl (join ''; '' (policy_problems p)))"

text \<open>The gates a counterbalanced decision needs.\<close>

definition decision_profile_complete :: "policy \<Rightarrow> bool" where
  "decision_profile_complete p =
     (po_strict p \<and> po_min_memory_available_pct p \<noteq> None \<and> po_min_storage_available_pct p \<noteq> None \<and>
      po_max_load1_per_cpu p \<noteq> None \<and> po_required_clocksource p \<noteq> [] \<and> po_required_governor p \<noteq> [] \<and>
      po_required_client_placement p \<noteq> [])"

subsection \<open>Canonical texts\<close>

definition policy_json :: "policy \<Rightarrow> string option" where
  "policy_json p =
     json_object_opt
       ([(''strict'', Some (json_bool (po_strict p)))] @
        member_uint ''min_logical_cpus'' (po_min_logical_cpus p) @
        member_float ''min_memory_available_pct'' (po_min_memory_available_pct p) @
        member_float ''min_storage_available_pct'' (po_min_storage_available_pct p) @
        member_float ''max_load_1m_per_cpu'' (po_max_load1_per_cpu p) @
        member_set ''required_clocksource'' (po_required_clocksource p) @
        member_set ''required_governor'' (po_required_governor p) @
        member_float ''max_temperature_celsius'' (po_max_temperature_celsius p) @
        member_set ''required_client_placement'' (po_required_client_placement p))"

definition string_observation_json :: "string_observation \<Rightarrow> string option" where
  "string_observation_json ob =
     json_object_opt ([member_string ''availability'' (so_availability ob)] @ member_set ''value'' (so_value ob) @
       [member_string ''source'' (so_source ob)])"

definition list_observation_json :: "list_observation \<Rightarrow> string option" where
  "list_observation_json ob =
     json_object_opt ([member_string ''availability'' (lo_availability ob)] @
       (if lo_values ob = [] then [] else [(''values'', Some (json_strings (lo_values ob)))]) @
       [member_string ''source'' (lo_source ob)])"

definition uint_observation_json :: "uint_observation \<Rightarrow> string option" where
  "uint_observation_json ob =
     json_object_opt ([member_string ''availability'' (uo_availability ob)] @ member_uint ''value'' (uo_value ob) @
       [member_string ''source'' (uo_source ob)])"

definition number_observation_json :: "number_observation \<Rightarrow> string option" where
  "number_observation_json ob =
     json_object_opt ([member_string ''availability'' (no_availability ob)] @ member_float ''value'' (no_value ob) @
       [member_string ''source'' (no_source ob)])"

definition capacity_json :: "capacity_snapshot \<Rightarrow> string option" where
  "capacity_json c =
     json_object_opt
       [(''total_bytes'', uint_observation_json (cap_total_bytes c)),
        (''available_bytes'', uint_observation_json (cap_available_bytes c)),
        (''available_pct'', number_observation_json (cap_available_pct c))]"

definition storage_json :: "storage_snapshot \<Rightarrow> string option" where
  "storage_json s =
     json_object_opt
       [member_string ''label'' (ss_label s), (''filesystem'', string_observation_json (ss_filesystem s)),
        (''total_bytes'', uint_observation_json (ss_total_bytes s)),
        (''available_bytes'', uint_observation_json (ss_available_bytes s)),
        (''available_pct'', number_observation_json (ss_available_pct s))]"

definition snapshot_json :: "snapshot \<Rightarrow> string option" where
  "snapshot_json s =
     json_object_opt
       [(''platform'', json_object_opt
           [(''os'', string_observation_json (ps_os (sn_platform s))),
            (''architecture'', string_observation_json (ps_architecture (sn_platform s))),
            (''kernel'', string_observation_json (ps_kernel (sn_platform s)))]),
        (''cpu'', json_object_opt
           [(''model'', string_observation_json (cs_model (sn_cpu s))),
            (''logical_cpus'', uint_observation_json (cs_logical_cpus (sn_cpu s)))]),
        (''memory'', capacity_json (sn_memory s)), (''storage'', storage_json (sn_storage s)),
        (''clock'', json_object_opt [(''clocksource'', string_observation_json (sn_clocksource s))]),
        (''power'', json_object_opt [(''governors'', list_observation_json (sn_governors s))]),
        (''thermal'', json_object_opt [(''max_celsius'', number_observation_json (sn_max_celsius s))]),
        (''client'', json_object_opt [(''placement'', string_observation_json (sn_placement s))]),
        (''interference'', json_object_opt
           [(''load_1m'', number_observation_json (is_load1 (sn_interference s))),
            (''load_1m_per_cpu'', number_observation_json (is_load1_per_cpu (sn_interference s))),
            (''runnable_processes'', uint_observation_json (is_runnable_processes (sn_interference s))),
            (''process_count'', uint_observation_json (is_process_count (sn_interference s)))]),
        (''headroom'', json_object_opt
           [(''load_capacity_pct'', number_observation_json (hs_load_capacity_pct (sn_headroom s))),
            (''memory_available_pct'', number_observation_json (hs_memory_pct (sn_headroom s))),
            (''storage_available_pct'', number_observation_json (hs_storage_pct (sn_headroom s)))])]"

definition check_json :: "check \<Rightarrow> string" where
  "check_json c =
     json_object [(''gate'', json_string (ch_gate c)), (''status'', json_string (ch_status c)),
       (''observation'', json_string (ch_observation c)), (''requirement'', json_string (ch_requirement c))]"

definition digest_json :: "string option \<Rightarrow> string option" where
  "digest_json content = map_option digest_bytes content"

definition policy_digest :: "policy \<Rightarrow> string option" where
  "policy_digest p = digest_json (policy_json p)"

subsection \<open>Artifacts\<close>

record assurance =
  as_evidence_origin :: string
  as_signed :: bool
  as_digest_purpose :: string
  as_verification_scope :: string

text \<open>\<open>None\<close> is a slice that is \<open>nil\<close>.\<close>

record artifact =
  ar_schema_version :: string
  ar_artifact_type :: string
  ar_collector_version :: string
  ar_recorded_at :: string
  ar_assurance :: assurance
  ar_snapshot :: snapshot
  ar_policy :: policy
  ar_checks :: "check list option"
  ar_verdict :: string
  ar_reasons :: "string list option"
  ar_snapshot_digest :: string
  ar_digest :: string

definition qualification_schema :: string where
  "qualification_schema = ''pgworkbench.benchmark-host-qualification/v1''"

definition qualification_type :: string where
  "qualification_type = ''pgworkbench.benchmark-host-qualification''"

definition recorded_assurance :: assurance where
  "recorded_assurance =
     \<lparr>as_evidence_origin = ''operator-recorded'', as_signed = False, as_digest_purpose = ''content-integrity-only'',
      as_verification_scope = ''structure-and-recorded-content-only''\<rparr>"

definition artifact_json :: "artifact \<Rightarrow> string option" where
  "artifact_json a =
     json_object_opt
       [member_string ''schema_version'' (ar_schema_version a), member_string ''artifact_type'' (ar_artifact_type a),
        member_string ''collector_version'' (ar_collector_version a), member_string ''recorded_at'' (ar_recorded_at a),
        (''assurance'', json_object_opt
           [member_string ''evidence_origin'' (as_evidence_origin (ar_assurance a)),
            (''signed'', Some (json_bool (as_signed (ar_assurance a)))),
            member_string ''digest_purpose'' (as_digest_purpose (ar_assurance a)),
            member_string ''verification_scope'' (as_verification_scope (ar_assurance a))]),
        (''snapshot'', snapshot_json (ar_snapshot a)), (''policy'', policy_json (ar_policy a)),
        (''checks'', Some (case ar_checks a of None \<Rightarrow> ''null''
                           | Some cs \<Rightarrow> ''['' @ join '','' (map check_json cs) @ '']'')),
        member_string ''verdict'' (ar_verdict a),
        (''reasons'', Some (case ar_reasons a of None \<Rightarrow> ''null'' | Some rs \<Rightarrow> json_strings rs)),
        member_string ''snapshot_digest'' (ar_snapshot_digest a), member_string ''digest'' (ar_digest a)]"

definition artifact_digest :: "artifact \<Rightarrow> string option" where
  "artifact_digest a = digest_json (artifact_json (a\<lparr>ar_digest := []\<rparr>))"

datatype inspect_error =
    Unsupported_platform string
  | Bad_storage_label
  | Bad_client_placement
  | Bad_policy string
  | Snapshot_not_digestible
  | Artifact_not_digestible

record inspect_options =
  io_recorded_at :: int
  io_storage_path :: string
  io_storage_label :: string
  io_client_placement :: string
  io_policy :: policy

definition inspect_recorded_at :: "int \<Rightarrow> inspect_options \<Rightarrow> int" where
  "inspect_recorded_at now ops = (if io_recorded_at ops = zero_time then now else io_recorded_at ops)"

definition or_default :: "string \<Rightarrow> string \<Rightarrow> string" where
  "or_default v fallback = (if v = [] then fallback else v)"

definition inspect_host :: "int \<Rightarrow> inspect_options \<Rightarrow> probes \<Rightarrow> (inspect_error, artifact) result" where
  "inspect_host now ops p =
     (let label = or_default (io_storage_label ops) ''target-filesystem'';
          path = or_default (io_storage_path ops) ''.'';
          placement = io_client_placement ops;
          s = collect_snapshot label placement path p
      in if pr_goos p \<noteq> ''linux'' \<and> pr_goos p \<noteq> ''darwin'' then Inl (Unsupported_platform (pr_goos p))
         else if \<not> portable_label label then Inl Bad_storage_label
         else if placement \<noteq> [] \<and> \<not> valid_client_placement placement then Inl Bad_client_placement
         else
           bind_r (case validate_policy (io_policy ops) of Inl e \<Rightarrow> Inl (Bad_policy e) | Inr u \<Rightarrow> Inr u) (\<lambda>_.
             case evaluate_policy s (io_policy ops) of
               (checks, verdict, reasons) \<Rightarrow>
                 bind_r (of_option Snapshot_not_digestible (digest_json (snapshot_json s))) (\<lambda>snapshot_digest.
                   let a = \<lparr>ar_schema_version = qualification_schema, ar_artifact_type = qualification_type,
                            ar_collector_version = ''1'',
                            ar_recorded_at = format_rfc3339 (inspect_recorded_at now ops),
                            ar_assurance = recorded_assurance, ar_snapshot = s, ar_policy = io_policy ops,
                            ar_checks = Some checks, ar_verdict = verdict, ar_reasons = Some reasons,
                            ar_snapshot_digest = snapshot_digest, ar_digest = []\<rparr>
                   in bind_r (of_option Artifact_not_digestible (artifact_digest a)) (\<lambda>digest.
                        Inr (a\<lparr>ar_digest := digest\<rparr>)))))"


subsection \<open>Verification\<close>

definition canonical_utc :: "string \<Rightarrow> int option" where
  "canonical_utc v =
     (case parse_rfc3339 v of None \<Rightarrow> None
      | Some t \<Rightarrow> if has_suffix v ''Z'' \<and> format_rfc3339 t = v then Some t else None)"

definition availability_issues :: "string \<Rightarrow> string \<Rightarrow> string \<Rightarrow> string list" where
  "availability_issues path availability source =
     note_if (availability \<noteq> observed \<and> availability \<noteq> unavailable)
       (path @ '' availability = '' @ go_quote availability) @
     note_if (\<not> portable_token source) (path @ '' source must be a portable token'')"

definition control_char :: "char \<Rightarrow> bool" where
  "control_char c = (code c < 32 \<or> code c = 127)"

definition string_issues :: "string \<Rightarrow> string_observation \<Rightarrow> string list" where
  "string_issues path ob =
     availability_issues path (so_availability ob) (so_source ob) @
     (if so_availability ob = observed then
        note_if (so_value ob = [] \<or> 512 < length (so_value ob) \<or> list_ex control_char (so_value ob))
          (path @ '' observed value must be non-empty printable text'')
      else note_if (so_availability ob = unavailable \<and> so_value ob \<noteq> [])
          (path @ '' unavailable observation must omit value''))"

text \<open>The items of a list up to the first that is out of order.\<close>

fun item_issues :: "string \<Rightarrow> string option \<Rightarrow> string list \<Rightarrow> string list" where
  "item_issues path previous [] = []"
| "item_issues path previous (v # vs) =
     note_if (\<not> portable_token v) (path @ '' value '' @ go_quote v @ '' is not a portable token'') @
     (if (case previous of None \<Rightarrow> False | Some u \<Rightarrow> v \<le> u)
      then [path @ '' values must be sorted and unique''] else item_issues path (Some v) vs)"

definition list_issues :: "string \<Rightarrow> list_observation \<Rightarrow> string list" where
  "list_issues path ob =
     availability_issues path (lo_availability ob) (lo_source ob) @
     (if lo_availability ob = unavailable then
        note_if (lo_values ob \<noteq> []) (path @ '' unavailable observation must omit values'')
      else if lo_availability ob \<noteq> observed then []
      else if lo_values ob = [] then [path @ '' observed values must not be empty'']
      else item_issues path None (lo_values ob))"

definition uint_issues :: "string \<Rightarrow> uint_observation \<Rightarrow> string list" where
  "uint_issues path ob =
     availability_issues path (uo_availability ob) (uo_source ob) @
     note_if (uo_availability ob = observed \<and> uo_value ob = None) (path @ '' observed value is missing'') @
     note_if (uo_availability ob = unavailable \<and> uo_value ob \<noteq> None)
       (path @ '' unavailable observation must omit value'')"

definition number_holds :: "(f64 \<Rightarrow> bool) \<Rightarrow> number_observation \<Rightarrow> bool" where
  "number_holds P ob =
     (no_availability ob = observed \<and> (case no_value ob of None \<Rightarrow> False | Some v \<Rightarrow> P v))"

definition number_issues :: "string \<Rightarrow> number_observation \<Rightarrow> string list" where
  "number_issues path ob =
     availability_issues path (no_availability ob) (no_source ob) @
     (if no_availability ob = observed then
        note_if (\<not> number_holds f_finite ob) (path @ '' observed value must be finite'')
      else note_if (no_availability ob = unavailable \<and> no_value ob \<noteq> None)
          (path @ '' unavailable observation must omit value''))"

definition percentage_issues :: "string \<Rightarrow> number_observation \<Rightarrow> string list" where
  "percentage_issues path ob = note_if (number_holds out_of_percent ob) (path @ '' must be between 0 and 100'')"

definition almost_equal :: "f64 \<Rightarrow> f64 \<Rightarrow> bool" where
  "almost_equal l r =
     f_le (f_abs (f_sub l r)) (f_mul (rnd (1 / 10 ^ 12)) (f_max (Fin 1) (f_max (f_abs l) (f_abs r))))"

definition capacity_issues :: "string \<Rightarrow> capacity_snapshot \<Rightarrow> string list" where
  "capacity_issues path c =
     uint_issues (path @ ''.total_bytes'') (cap_total_bytes c) @
     uint_issues (path @ ''.available_bytes'') (cap_available_bytes c) @
     number_issues (path @ ''.available_pct'') (cap_available_pct c) @
     (if uo_availability (cap_total_bytes c) \<noteq> uo_availability (cap_available_bytes c) \<or>
         uo_availability (cap_total_bytes c) \<noteq> no_availability (cap_available_pct c)
      then [path @ '' capacity observations must have matching availability'']
      else if uo_availability (cap_total_bytes c) \<noteq> observed then []
      else
        (case (uo_value (cap_total_bytes c), uo_value (cap_available_bytes c), no_value (cap_available_pct c)) of
           (Some all, Some available, Some pct) \<Rightarrow>
             if all = 0 \<or> all < available then [path @ '' capacity bytes are inconsistent'']
             else
               note_if (\<not> almost_equal pct (percent available all))
                 (path @ ''.available_pct does not match capacity bytes'') @
               percentage_issues (path @ ''.available_pct'') (cap_available_pct c)
         | _ \<Rightarrow> []))"

definition derived_issues :: "string \<Rightarrow> number_observation \<Rightarrow> number_observation \<Rightarrow> string list" where
  "derived_issues path derived source =
     (if no_availability source = unavailable then
        note_if (no_availability derived \<noteq> unavailable)
          (path @ '' must be unavailable when its source is unavailable'')
      else
        note_if
          (\<not> (no_availability derived = observed \<and>
              (case (no_value derived, no_value source) of (Some d, Some v) \<Rightarrow> almost_equal d v | _ \<Rightarrow> False)))
          (path @ '' does not match its source observation''))"

definition load_issues :: "snapshot \<Rightarrow> string list" where
  "load_issues s =
     (let cpus = cs_logical_cpus (sn_cpu s); load = is_load1 (sn_interference s);
          per_cpu = is_load1_per_cpu (sn_interference s); capacity = hs_load_capacity_pct (sn_headroom s)
      in if uo_availability cpus = observed \<and> uo_value cpus \<noteq> None \<and> uo_value cpus \<noteq> Some 0 \<and>
            no_availability load = observed \<and> no_value load \<noteq> None then
           (let wanted = f_div (the (no_value load)) (f_of_uint (the (uo_value cpus)));
                headroom = f_max (Fin 0) (f_mul (f_sub (Fin 1) wanted) (Fin 100))
            in note_if (\<not> number_holds (\<lambda>v. almost_equal v wanted) per_cpu)
                 ''snapshot.interference.load_1m_per_cpu does not match load and logical CPUs'' @
               note_if (\<not> number_holds (\<lambda>v. almost_equal v headroom) capacity)
                 ''snapshot.headroom.load_capacity_pct does not match normalized load'')
         else
           note_if (no_availability per_cpu \<noteq> unavailable \<or> no_availability capacity \<noteq> unavailable)
             ''derived load observations must be unavailable when their inputs are unavailable'')"

definition storage_capacity :: "storage_snapshot \<Rightarrow> capacity_snapshot" where
  "storage_capacity s =
     \<lparr>cap_total_bytes = ss_total_bytes s, cap_available_bytes = ss_available_bytes s,
      cap_available_pct = ss_available_pct s\<rparr>"

definition platform_issues :: "snapshot \<Rightarrow> string list" where
  "platform_issues s =
     (let p = sn_platform s
      in string_issues ''snapshot.platform.os'' (ps_os p) @
         string_issues ''snapshot.platform.architecture'' (ps_architecture p) @
         string_issues ''snapshot.platform.kernel'' (ps_kernel p) @
         note_if (so_availability (ps_os p) \<noteq> observed \<or> (so_value (ps_os p) \<noteq> ''linux'' \<and> so_value (ps_os p) \<noteq> ''darwin''))
           ''snapshot.platform.os must be observed linux or darwin'' @
         note_if (so_availability (ps_architecture p) \<noteq> observed \<or> \<not> portable_token (so_value (ps_architecture p)))
           ''snapshot.platform.architecture must be an observed portable token'')"

definition cpu_issues :: "snapshot \<Rightarrow> string list" where
  "cpu_issues s =
     (let c = sn_cpu s
      in string_issues ''snapshot.cpu.model'' (cs_model c) @
         uint_issues ''snapshot.cpu.logical_cpus'' (cs_logical_cpus c) @
         note_if (uo_availability (cs_logical_cpus c) \<noteq> observed \<or> uo_value (cs_logical_cpus c) = None \<or>
                  uo_value (cs_logical_cpus c) = Some 0)
           ''snapshot.cpu.logical_cpus must be observed and greater than zero'')"

definition storage_issues :: "snapshot \<Rightarrow> string list" where
  "storage_issues s =
     (let g = sn_storage s
      in note_if (\<not> portable_label (ss_label g)) ''snapshot.storage.label must be a portable label'' @
         string_issues ''snapshot.storage.filesystem'' (ss_filesystem g) @
         capacity_issues ''snapshot.storage'' (storage_capacity g) @
         note_if (uo_availability (ss_total_bytes g) \<noteq> so_availability (ss_filesystem g))
           ''snapshot.storage.filesystem availability must match storage capacity availability'' @
         note_if (so_availability (ss_filesystem g) = observed \<and> \<not> portable_token (so_value (ss_filesystem g)))
           ''snapshot.storage.filesystem must be a portable token'')"

definition device_issues :: "snapshot \<Rightarrow> string list" where
  "device_issues s =
     string_issues ''snapshot.clock.clocksource'' (sn_clocksource s) @
     note_if (so_availability (sn_clocksource s) = observed \<and> \<not> portable_token (so_value (sn_clocksource s)))
       ''snapshot.clock.clocksource must be a portable token'' @
     list_issues ''snapshot.power.governors'' (sn_governors s) @
     number_issues ''snapshot.thermal.max_celsius'' (sn_max_celsius s) @
     note_if (no_availability (sn_max_celsius s) = observed \<and>
              \<not> number_holds (\<lambda>v. f_le (Fin (-100)) v \<and> f_le v (Fin 250)) (sn_max_celsius s))
       ''snapshot.thermal.max_celsius must be between -100 and 250'' @
     string_issues ''snapshot.client.placement'' (sn_placement s) @
     note_if (so_source (sn_placement s) \<noteq> ''operator'') ''snapshot.client.placement source must be operator'' @
     note_if (so_availability (sn_placement s) = observed \<and> \<not> valid_client_placement (so_value (sn_placement s)))
       ''snapshot.client.placement has an unsupported value''"

definition interference_issues :: "snapshot \<Rightarrow> string list" where
  "interference_issues s =
     (let i = sn_interference s
      in number_issues ''snapshot.interference.load_1m'' (is_load1 i) @
         number_issues ''snapshot.interference.load_1m_per_cpu'' (is_load1_per_cpu i) @
         uint_issues ''snapshot.interference.runnable_processes'' (is_runnable_processes i) @
         uint_issues ''snapshot.interference.process_count'' (is_process_count i) @
         note_if (number_holds (\<lambda>v. f_less v (Fin 0)) (is_load1 i))
           ''snapshot.interference.load_1m must be non-negative'' @
         note_if (number_holds (\<lambda>v. f_less v (Fin 0)) (is_load1_per_cpu i))
           ''snapshot.interference.load_1m_per_cpu must be non-negative'' @
         note_if (uo_availability (is_runnable_processes i) = observed \<and> uo_availability (is_process_count i) = observed \<and>
                  (case (uo_value (is_runnable_processes i), uo_value (is_process_count i)) of
                     (Some r, Some n) \<Rightarrow> n < r | _ \<Rightarrow> False))
           ''snapshot.interference.runnable_processes exceeds process_count'')"

definition headroom_issues :: "snapshot \<Rightarrow> string list" where
  "headroom_issues s =
     (let h = sn_headroom s
      in number_issues ''snapshot.headroom.load_capacity_pct'' (hs_load_capacity_pct h) @
         number_issues ''snapshot.headroom.memory_available_pct'' (hs_memory_pct h) @
         number_issues ''snapshot.headroom.storage_available_pct'' (hs_storage_pct h) @
         percentage_issues ''snapshot.headroom.load_capacity_pct'' (hs_load_capacity_pct h) @
         percentage_issues ''snapshot.headroom.memory_available_pct'' (hs_memory_pct h) @
         percentage_issues ''snapshot.headroom.storage_available_pct'' (hs_storage_pct h) @
         derived_issues ''snapshot.headroom.memory_available_pct'' (hs_memory_pct h) (cap_available_pct (sn_memory s)) @
         derived_issues ''snapshot.headroom.storage_available_pct'' (hs_storage_pct h) (ss_available_pct (sn_storage s)) @
         load_issues s)"

definition snapshot_issues :: "snapshot \<Rightarrow> string list" where
  "snapshot_issues s =
     platform_issues s @ cpu_issues s @ capacity_issues ''snapshot.memory'' (sn_memory s) @ storage_issues s @
     device_issues s @ interference_issues s @ headroom_issues s"

definition field_issue :: "string \<Rightarrow> string \<Rightarrow> string \<Rightarrow> string \<Rightarrow> string list" where
  "field_issue name got separator wanted =
     note_if (got \<noteq> wanted) (name @ '' = '' @ go_quote got @ separator @ go_quote wanted)"

text \<open>The cause that the encoder gives for a failed digest is left out of the text.\<close>

definition digest_issue :: "string \<Rightarrow> string \<Rightarrow> string \<Rightarrow> string option \<Rightarrow> string list" where
  "digest_issue field name recorded digest =
     (if \<not> is_digest recorded then [field @ '' is not a lowercase sha256 digest'']
      else
        (case digest of
           None \<Rightarrow> [''cannot recompute '' @ name @ '' digest: '']
         | Some d \<Rightarrow> note_if (d \<noteq> recorded) (name @ '' digest mismatch: got '' @ recorded @ '' want '' @ d)))"

definition artifact_issues :: "artifact \<Rightarrow> string list" where
  "artifact_issues a =
     (case evaluate_policy (ar_snapshot a) (ar_policy a) of
        (checks, verdict, reasons) \<Rightarrow>
          sort
           (field_issue ''schema_version'' (ar_schema_version a) '', want '' qualification_schema @
            field_issue ''artifact_type'' (ar_artifact_type a) '', want '' qualification_type @
            field_issue ''collector_version'' (ar_collector_version a) '', want '' ''1'' @
            note_if (canonical_utc (ar_recorded_at a) = None) ''recorded_at must be canonical UTC RFC3339Nano'' @
            note_if (ar_assurance a \<noteq> recorded_assurance)
              ''assurance must declare operator-recorded unsigned integrity-only evidence with recorded-content-only verification'' @
            snapshot_issues (ar_snapshot a) @
            (case validate_policy (ar_policy a) of Inl e \<Rightarrow> [''invalid policy: '' @ e] | Inr _ \<Rightarrow> []) @
            note_if (ar_checks a = None) ''checks must be present as an array'' @
            note_if (ar_reasons a = None) ''reasons must be present as an array'' @
            note_if (ar_checks a \<noteq> Some checks) ''checks do not match independently recomputed policy evaluation'' @
            field_issue ''verdict'' (ar_verdict a) '', want independently recomputed '' verdict @
            note_if (ar_reasons a \<noteq> Some reasons) ''reasons do not match independently recomputed policy evaluation'' @
            digest_issue ''snapshot_digest'' ''snapshot'' (ar_snapshot_digest a) (digest_json (snapshot_json (ar_snapshot a))) @
            digest_issue ''digest'' ''artifact'' (ar_digest a) (artifact_digest a)))"

record verification =
  ve_valid :: bool
  ve_recorded_verdict :: string
  ve_assurance :: assurance
  ve_issues :: "string list"

definition verify_artifact :: "artifact \<Rightarrow> verification" where
  "verify_artifact a =
     \<lparr>ve_valid = (artifact_issues a = []), ve_recorded_verdict = ar_verdict a, ve_assurance = ar_assurance a,
      ve_issues = artifact_issues a\<rparr>"

subsection \<open>Bookends\<close>

record stable_host_class =
  sh_os :: "string \<times> string"
  sh_architecture :: "string \<times> string"
  sh_kernel :: "string \<times> string"
  sh_cpu_model :: "string \<times> string"
  sh_logical_cpus :: "string \<times> 64 word option"
  sh_memory_total :: "string \<times> 64 word option"
  sh_storage_label :: string
  sh_storage_fs :: "string \<times> string"
  sh_storage_total :: "string \<times> 64 word option"
  sh_clocksource :: "string \<times> string"
  sh_governors :: "string \<times> string list"
  sh_client_placement :: "string \<times> string"

text \<open>An observation without its source: availability and value.\<close>

definition stable_string :: "string_observation \<Rightarrow> string \<times> string" where
  "stable_string ob = (so_availability ob, so_value ob)"

definition stable_uint :: "uint_observation \<Rightarrow> string \<times> 64 word option" where
  "stable_uint ob = (uo_availability ob, uo_value ob)"

definition project_stable_host_class :: "snapshot \<Rightarrow> stable_host_class" where
  "project_stable_host_class s =
     \<lparr>sh_os = stable_string (ps_os (sn_platform s)),
      sh_architecture = stable_string (ps_architecture (sn_platform s)),
      sh_kernel = stable_string (ps_kernel (sn_platform s)),
      sh_cpu_model = stable_string (cs_model (sn_cpu s)),
      sh_logical_cpus = stable_uint (cs_logical_cpus (sn_cpu s)),
      sh_memory_total = stable_uint (cap_total_bytes (sn_memory s)),
      sh_storage_label = ss_label (sn_storage s),
      sh_storage_fs = stable_string (ss_filesystem (sn_storage s)),
      sh_storage_total = stable_uint (ss_total_bytes (sn_storage s)),
      sh_clocksource = stable_string (sn_clocksource s),
      sh_governors = (lo_availability (sn_governors s), sort (lo_values (sn_governors s))),
      sh_client_placement = stable_string (sn_placement s)\<rparr>"

definition stable_string_json :: "string \<times> string \<Rightarrow> string option" where
  "stable_string_json v = json_object_opt ([member_string ''availability'' (fst v)] @ member_set ''value'' (snd v))"

definition stable_uint_json :: "string \<times> 64 word option \<Rightarrow> string option" where
  "stable_uint_json v = json_object_opt ([member_string ''availability'' (fst v)] @ member_uint ''value'' (snd v))"

definition stable_strings_json :: "string \<times> string list \<Rightarrow> string option" where
  "stable_strings_json v =
     json_object_opt ([member_string ''availability'' (fst v)] @
       (if snd v = [] then [] else [(''values'', Some (json_strings (snd v)))]))"

definition stable_class_json :: "stable_host_class \<Rightarrow> string option" where
  "stable_class_json c =
     json_object_opt
       [(''os'', stable_string_json (sh_os c)), (''architecture'', stable_string_json (sh_architecture c)),
        (''kernel'', stable_string_json (sh_kernel c)), (''cpu_model'', stable_string_json (sh_cpu_model c)),
        (''logical_cpus'', stable_uint_json (sh_logical_cpus c)),
        (''memory_total_bytes'', stable_uint_json (sh_memory_total c)),
        member_string ''storage_label'' (sh_storage_label c),
        (''storage_filesystem'', stable_string_json (sh_storage_fs c)),
        (''storage_total_bytes'', stable_uint_json (sh_storage_total c)),
        (''clocksource'', stable_string_json (sh_clocksource c)),
        (''governors'', stable_strings_json (sh_governors c)),
        (''client_placement'', stable_string_json (sh_client_placement c))]"

definition stable_class_digest :: "stable_host_class \<Rightarrow> string option" where
  "stable_class_digest c = digest_json (stable_class_json c)"

text \<open>Deep equality of policies: two numbers that are not numbers differ.\<close>

definition same_number :: "f64 option \<Rightarrow> f64 option \<Rightarrow> bool" where
  "same_number m n = (case (m, n) of (None, None) \<Rightarrow> True | (Some x, Some y) \<Rightarrow> f_eq x y | _ \<Rightarrow> False)"

definition same_policy :: "policy \<Rightarrow> policy \<Rightarrow> bool" where
  "same_policy p q =
     (po_strict p = po_strict q \<and> po_min_logical_cpus p = po_min_logical_cpus q \<and>
      same_number (po_min_memory_available_pct p) (po_min_memory_available_pct q) \<and>
      same_number (po_min_storage_available_pct p) (po_min_storage_available_pct q) \<and>
      same_number (po_max_load1_per_cpu p) (po_max_load1_per_cpu q) \<and>
      po_required_clocksource p = po_required_clocksource q \<and>
      po_required_governor p = po_required_governor q \<and>
      same_number (po_max_temperature_celsius p) (po_max_temperature_celsius q) \<and>
      po_required_client_placement p = po_required_client_placement q)"

record bookend_assessment =
  ba_status :: string
  ba_reasons :: "string list"
  ba_before_artifact_digest :: string
  ba_after_artifact_digest :: string
  ba_before_policy_digest :: string
  ba_after_policy_digest :: string
  ba_before_class_digest :: string
  ba_after_class_digest :: string

definition text_or_empty :: "string option \<Rightarrow> string" where
  "text_or_empty m = (case m of None \<Rightarrow> [] | Some v \<Rightarrow> v)"

definition bookend_reasons :: "artifact \<Rightarrow> artifact \<Rightarrow> string list" where
  "bookend_reasons before after =
     (let before_time = canonical_utc (ar_recorded_at before); after_time = canonical_utc (ar_recorded_at after);
          before_class = project_stable_host_class (ar_snapshot before);
          after_class = project_stable_host_class (ar_snapshot after)
      in map (\<lambda>i. ''before artifact invalid: '' @ i) (ve_issues (verify_artifact before)) @
         map (\<lambda>i. ''after artifact invalid: '' @ i) (ve_issues (verify_artifact after)) @
         note_if (policy_digest (ar_policy before) = None) ''before policy cannot be digested'' @
         note_if (policy_digest (ar_policy after) = None) ''after policy cannot be digested'' @
         note_if (\<not> same_policy (ar_policy before) (ar_policy after)) ''before and after policies differ'' @
         note_if (stable_class_digest before_class = None) ''before stable host class cannot be digested'' @
         note_if (stable_class_digest after_class = None) ''after stable host class cannot be digested'' @
         note_if (before_class \<noteq> after_class) ''before and after stable host classes differ'' @
         note_if (ar_verdict before \<noteq> ''qualified'')
           (''before recorded verdict is '' @ go_quote (ar_verdict before) @ '', want '' @ go_quote ''qualified'') @
         note_if (ar_verdict after \<noteq> ''qualified'')
           (''after recorded verdict is '' @ go_quote (ar_verdict after) @ '', want '' @ go_quote ''qualified'') @
         note_if (before_time = None) ''before recorded_at is not canonical UTC RFC3339Nano'' @
         note_if (after_time = None) ''after recorded_at is not canonical UTC RFC3339Nano'' @
         note_if (case (before_time, after_time) of (Some b, Some a) \<Rightarrow> a < b | _ \<Rightarrow> False)
           ''before recorded_at is later than after recorded_at'')"

definition assess_bookends :: "artifact \<Rightarrow> artifact \<Rightarrow> bookend_assessment" where
  "assess_bookends before after =
     (let reasons = sorted_unique (bookend_reasons before after)
      in \<lparr>ba_status = (if reasons = [] then ''recorded-policy-passed'' else ''unqualified''), ba_reasons = reasons,
          ba_before_artifact_digest = ar_digest before, ba_after_artifact_digest = ar_digest after,
          ba_before_policy_digest = text_or_empty (policy_digest (ar_policy before)),
          ba_after_policy_digest = text_or_empty (policy_digest (ar_policy after)),
          ba_before_class_digest = text_or_empty (stable_class_digest (project_stable_host_class (ar_snapshot before))),
          ba_after_class_digest = text_or_empty (stable_class_digest (project_stable_host_class (ar_snapshot after)))\<rparr>)"


section \<open>What a qualified host satisfies\<close>

text \<open>The gates of a policy, without checks and texts.\<close>

definition uint_holds :: "(64 word \<Rightarrow> bool) \<Rightarrow> uint_observation \<Rightarrow> bool" where
  "uint_holds P ob = (uo_availability ob = observed \<and> (case uo_value ob of None \<Rightarrow> False | Some v \<Rightarrow> P v))"

definition if_set :: "'a option \<Rightarrow> ('a \<Rightarrow> bool) \<Rightarrow> bool" where
  "if_set m P = (case m of None \<Rightarrow> True | Some v \<Rightarrow> P v)"

definition gates_met :: "snapshot \<Rightarrow> policy \<Rightarrow> bool" where
  "gates_met s p =
     (if_set (po_min_logical_cpus p) (\<lambda>n. uint_holds (\<lambda>v. n \<le> v) (cs_logical_cpus (sn_cpu s))) \<and>
      if_set (po_min_memory_available_pct p) (\<lambda>m. number_holds (\<lambda>v. f_le m v) (cap_available_pct (sn_memory s))) \<and>
      if_set (po_min_storage_available_pct p) (\<lambda>m. number_holds (\<lambda>v. f_le m v) (ss_available_pct (sn_storage s))) \<and>
      if_set (po_max_load1_per_cpu p) (\<lambda>m. number_holds (\<lambda>v. f_le v m) (is_load1_per_cpu (sn_interference s))) \<and>
      (po_required_clocksource p \<noteq> [] \<longrightarrow>
         so_availability (sn_clocksource s) = observed \<and> so_value (sn_clocksource s) = po_required_clocksource p) \<and>
      (po_required_governor p \<noteq> [] \<longrightarrow>
         lo_availability (sn_governors s) = observed \<and> po_required_governor p \<in> set (lo_values (sn_governors s))) \<and>
      if_set (po_max_temperature_celsius p) (\<lambda>m. number_holds (\<lambda>v. f_le v m) (sn_max_celsius s)) \<and>
      (po_required_client_placement p \<noteq> [] \<longrightarrow>
         so_availability (sn_placement s) = observed \<and> so_value (sn_placement s) = po_required_client_placement p))"

definition has_gate :: "policy \<Rightarrow> bool" where
  "has_gate p =
     (po_min_logical_cpus p \<noteq> None \<or> po_min_memory_available_pct p \<noteq> None \<or> po_min_storage_available_pct p \<noteq> None \<or>
      po_max_load1_per_cpu p \<noteq> None \<or> po_required_clocksource p \<noteq> [] \<or> po_required_governor p \<noteq> [] \<or>
      po_max_temperature_celsius p \<noteq> None \<or> po_required_client_placement p \<noteq> [])"

lemma gate_check_passed: "ch_status (gate_check gate requirement ob) \<noteq> ''failed'' \<longleftrightarrow> (\<exists>shown. ob = Some (shown, True))"
  by (auto simp: gate_check_def split: option.splits prod.splits if_splits)

lemma gate_if_passed [simp]:
  "list_all P (gate_if m f) = if_set m (\<lambda>v. P (f v))"
  by (simp add: gate_if_def if_set_def split: option.splits)

lemma gate_if_set_passed [simp]: "list_all P (gate_if_set v f) = (v \<noteq> [] \<longrightarrow> P (f v))"
  by (simp add: gate_if_set_def)

lemma gate_if_Nil [simp]: "gate_if m f = [] \<longleftrightarrow> m = None"
  by (simp add: gate_if_def split: option.splits)

lemma gate_if_set_Nil [simp]: "gate_if_set v f = [] \<longleftrightarrow> v = []"
  by (simp add: gate_if_set_def)

lemma number_check_passed:
  "ch_status (minimum_number_check gate ob m) \<noteq> ''failed'' \<longleftrightarrow> number_holds (\<lambda>v. f_le m v) ob"
  "ch_status (maximum_number_check gate ob m) \<noteq> ''failed'' \<longleftrightarrow> number_holds (\<lambda>v. f_le v m) ob"
  by (auto simp: minimum_number_check_def maximum_number_check_def gate_check_passed number_holds_def split: option.splits)

lemma uint_check_passed:
  "ch_status (minimum_uint_check gate ob n) \<noteq> ''failed'' \<longleftrightarrow> uint_holds (\<lambda>v. n \<le> v) ob"
  by (auto simp: minimum_uint_check_def gate_check_passed uint_holds_def split: option.splits)

lemma string_check_passed:
  "ch_status (equal_string_check gate ob v) \<noteq> ''failed'' \<longleftrightarrow> so_availability ob = observed \<and> so_value ob = v"
  "ch_status (contains_string_check gate ls v) \<noteq> ''failed'' \<longleftrightarrow> lo_availability ls = observed \<and> v \<in> set (lo_values ls)"
  by (auto simp: equal_string_check_def contains_string_check_def gate_check_passed)

lemmas check_passed = number_check_passed uint_check_passed string_check_passed

lemma policy_checks_passed:
  "list_all (\<lambda>c. ch_status c \<noteq> ''failed'') (policy_checks s p) \<longleftrightarrow> gates_met s p"
  by (simp add: policy_checks_def gates_met_def check_passed)

lemma policy_checks_empty: "policy_checks s p = [] \<longleftrightarrow> \<not> has_gate p"
  by (auto simp: policy_checks_def has_gate_def)

lemma evaluate_policy_verdict:
  "evaluate_policy s p = (checks, verdict, reasons) \<Longrightarrow>
     verdict = (if po_strict p \<and> has_gate p \<and> gates_met s p then ''qualified'' else ''unqualified'')"
  by (auto simp: evaluate_policy_def Let_def policy_checks_passed policy_checks_empty)

lemma evaluate_policy_reasons:
  assumes "evaluate_policy s p = (checks, verdict, reasons)"
  shows "verdict = ''qualified'' \<longleftrightarrow> reasons = []"
proof -
  have failed: "filter (\<lambda>c. ch_status c = ''failed'') cs = [] \<longleftrightarrow> list_all (\<lambda>c. ch_status c \<noteq> ''failed'') cs" for cs
    by (auto simp: filter_empty_conv list_all_iff)
  have "verdict = (if po_strict p \<and> policy_checks s p \<noteq> [] \<and>
      list_all (\<lambda>c. ch_status c \<noteq> ''failed'') (policy_checks s p) then ''qualified'' else ''unqualified'')"
    and reasons: "reasons = note_if (\<not> po_strict p) ''strict policy is not enabled'' @
      note_if (policy_checks s p = []) ''no explicit qualification gates were configured'' @
      map check_reason (filter (\<lambda>c. ch_status c = ''failed'') (policy_checks s p))"
    using assms[unfolded evaluate_policy_def Let_def prod.inject] by blast+
  then have "verdict = ''qualified'' \<longleftrightarrow> po_strict p \<and> policy_checks s p \<noteq> [] \<and>
      list_all (\<lambda>c. ch_status c \<noteq> ''failed'') (policy_checks s p)" by simp
  moreover have "reasons = [] \<longleftrightarrow> po_strict p \<and> policy_checks s p \<noteq> [] \<and>
      list_all (\<lambda>c. ch_status c \<noteq> ''failed'') (policy_checks s p)"
    unfolding reasons append_is_Nil_conv map_is_Nil_conv failed by (simp add: note_if_def)
  ultimately show ?thesis by simp
qed

text \<open>C30: A host qualifies exactly when the policy is strict, has at least one gate, and every configured gate is met
  by an observed value of the snapshot; and it is refused with a reason exactly when it does not qualify.\<close>

theorem qualified_iff_gates_met:
  "case evaluate_policy s p of (checks, verdict, reasons) \<Rightarrow>
     (verdict = ''qualified'' \<longleftrightarrow> po_strict p \<and> has_gate p \<and> gates_met s p) \<and>
     (verdict = ''unqualified'' \<longleftrightarrow> reasons \<noteq> [])"
proof -
  obtain checks verdict reasons where e: "evaluate_policy s p = (checks, verdict, reasons)"
    by (cases "evaluate_policy s p") auto
  show ?thesis using evaluate_policy_verdict[OF e] evaluate_policy_reasons[OF e] by (auto simp: e)
qed

section \<open>What the bookends of a benchmark show\<close>

lemma note_if_Nil [simp]: "note_if b m = [] \<longleftrightarrow> \<not> b"
  by (simp add: note_if_def)

lemma sort_Nil_iff [simp]: "sort xs = [] \<longleftrightarrow> xs = []"
  by (metis set_empty set_sort)

lemma sorted_unique_Nil [simp]: "sorted_unique vs = [] \<longleftrightarrow> vs = []"
  by (simp add: sorted_unique_def)

lemma field_issue_Nil [simp]: "field_issue name got separator wanted = [] \<longleftrightarrow> got = wanted"
  by (simp add: field_issue_def)

lemma digest_issue_Nil:
  "digest_issue field name recorded digest = [] \<longleftrightarrow> is_digest recorded \<and> digest = Some recorded"
  by (auto simp: digest_issue_def split: option.splits)

text \<open>An artifact verifies exactly when its parts are what the snapshot and the policy give.\<close>

lemma verify_artifact_valid:
  assumes "evaluate_policy (ar_snapshot a) (ar_policy a) = (checks, verdict, reasons)"
  shows "ve_valid (verify_artifact a) \<longleftrightarrow>
     ar_schema_version a = qualification_schema \<and> ar_artifact_type a = qualification_type \<and>
     ar_collector_version a = ''1'' \<and> canonical_utc (ar_recorded_at a) \<noteq> None \<and>
     ar_assurance a = recorded_assurance \<and> snapshot_issues (ar_snapshot a) = [] \<and>
     policy_problems (ar_policy a) = [] \<and> ar_checks a = Some checks \<and> ar_verdict a = verdict \<and>
     ar_reasons a = Some reasons \<and>
     is_digest (ar_snapshot_digest a) \<and> digest_json (snapshot_json (ar_snapshot a)) = Some (ar_snapshot_digest a) \<and>
     is_digest (ar_digest a) \<and> artifact_digest a = Some (ar_digest a)"
  by (auto simp: verify_artifact_def artifact_issues_def assms digest_issue_Nil validate_policy_def split: if_splits)

lemma ve_issues_Nil: "ve_issues (verify_artifact a) = [] \<longleftrightarrow> ve_valid (verify_artifact a)"
  by (simp add: verify_artifact_def)

lemma assess_bookends_status:
  "ba_status (assess_bookends before after) = ''recorded-policy-passed'' \<longleftrightarrow> bookend_reasons before after = []"
  by (simp add: assess_bookends_def Let_def)

lemma bookend_reasons_Nil:
  "bookend_reasons before after = [] \<longleftrightarrow>
     ve_valid (verify_artifact before) \<and> ve_valid (verify_artifact after) \<and>
     policy_digest (ar_policy before) \<noteq> None \<and> policy_digest (ar_policy after) \<noteq> None \<and>
     same_policy (ar_policy before) (ar_policy after) \<and>
     stable_class_digest (project_stable_host_class (ar_snapshot before)) \<noteq> None \<and>
     stable_class_digest (project_stable_host_class (ar_snapshot after)) \<noteq> None \<and>
     project_stable_host_class (ar_snapshot before) = project_stable_host_class (ar_snapshot after) \<and>
     ar_verdict before = ''qualified'' \<and> ar_verdict after = ''qualified'' \<and>
     (\<exists>b a. canonical_utc (ar_recorded_at before) = Some b \<and> canonical_utc (ar_recorded_at after) = Some a \<and> b \<le> a)"
  unfolding bookend_reasons_def Let_def append_is_Nil_conv map_is_Nil_conv note_if_Nil ve_issues_Nil
  by (auto simp: not_less split: option.splits)

lemma verified_verdict_gates:
  assumes "ve_valid (verify_artifact a)" and "ar_verdict a = ''qualified''"
  shows "po_strict (ar_policy a) \<and> has_gate (ar_policy a) \<and> gates_met (ar_snapshot a) (ar_policy a)"
proof -
  obtain checks verdict reasons where e: "evaluate_policy (ar_snapshot a) (ar_policy a) = (checks, verdict, reasons)"
    by (cases "evaluate_policy (ar_snapshot a) (ar_policy a)") auto
  then have "verdict = ''qualified''" using assms verify_artifact_valid[OF e] by simp
  then show ?thesis using evaluate_policy_verdict[OF e] by (auto split: if_splits)
qed

end
