(* ===== verification/HostInspect.thy ===== *)
theory HostInspect
  imports HostQualify
begin

section \<open>An inspected host verifies\<close>

text \<open>
  The collector of \<^verbatim>\<open>collect.go\<close> against the verifier of \<^verbatim>\<open>verify.go\<close>: whatever the probes return, the artifact
  that \<open>Inspect\<close> records has no issue, as long as the names that the system reports can be recorded as text.
\<close>

subsection \<open>Derived numbers\<close>

lemma rnd_between:
  assumes "a \<le> x" and "x \<le> b" and "f_valid (Fin a)" and "f_valid (Fin b)"
  shows "\<exists>r. rnd x = Fin r \<and> a \<le> r \<and> r \<le> b"
proof -
  have "Fin a \<le> rnd x" "rnd x \<le> Fin b"
    using rnd_mono[OF assms(1)] rnd_mono[OF assms(2)] assms(3,4) by (simp_all add: rnd_exact)
  then show ?thesis by (cases "rnd x") (auto simp: less_eq_f64_def less_f64_def)
qed

lemma valid_numeral: "0 \<le> i \<Longrightarrow> i < 1000 \<Longrightarrow> f_valid (Fin (of_int i))"
  by (intro f_valid_small_int) simp

lemma valid_power: "n < 1024 \<Longrightarrow> f_valid (Fin (2 ^ n))"
proof -
  assume n: "n < 1024"
  have "representable (2 ^ n :: rat)" by (rule representableI[of _ 1 "int n"]) simp_all
  moreover have "(2 ^ n :: rat) < 2 ^ 1024" using n by (intro power_strict_increasing) simp_all
  ultimately show ?thesis by simp
qed

lemma f_of_uint_finite: "\<exists>r. f_of_uint w = Fin r \<and> 0 \<le> r \<and> (0 < w \<longrightarrow> 1 \<le> r)"
proof -
  have le: "(of_nat (unat w) :: rat) \<le> 2 ^ 64"
  proof -
    have "(2::nat) ^ 64 = 18446744073709551616" by simp
    then have "unat w \<le> 2 ^ 64" using unat64_bound[of w] by linarith
    then have "(of_nat (unat w) :: rat) \<le> of_nat (2 ^ 64)" by (simp only: of_nat_le_iff)
    then show ?thesis by simp
  qed
  show ?thesis
  proof (cases "0 < w")
    case True
    then have "1 \<le> unat w" by (simp add: word_less_nat_alt)
    then have "(of_nat 1 :: rat) \<le> of_nat (unat w)" by (simp only: of_nat_le_iff)
    then have "(1::rat) \<le> of_nat (unat w)" by (simp only: of_nat_1)
    with le valid_numeral[of 1] valid_power[of 64] have "\<exists>r. f_of_uint w = Fin r \<and> 1 \<le> r \<and> r \<le> 2 ^ 64"
      unfolding f_of_uint_def by (intro rnd_between) simp_all
    then show ?thesis by force
  next
    case False
    have "(of_nat 0 :: rat) \<le> of_nat (unat w)" by (simp only: of_nat_le_iff le0)
    then have "(0::rat) \<le> of_nat (unat w)" by (simp only: of_nat_0)
    with le valid_numeral[of 0] valid_power[of 64] have "\<exists>r. f_of_uint w = Fin r \<and> 0 \<le> r \<and> r \<le> 2 ^ 64"
      unfolding f_of_uint_def by (intro rnd_between) simp_all
    with False show ?thesis by force
  qed
qed

lemma f_of_uint_mono: "v \<le> w \<Longrightarrow> f_of_uint v = Fin r \<Longrightarrow> f_of_uint w = Fin s \<Longrightarrow> r \<le> s"
  using rnd_mono[of "of_nat (unat v)" "of_nat (unat w)"]
  by (simp only: f_of_uint_def word_le_nat_alt of_nat_le_iff Fin_le)

lemma percent_in_range:
  assumes "0 < all" and "available \<le> all"
  shows "\<exists>r. percent available all = Fin r \<and> 0 \<le> r \<and> r \<le> 100"
proof -
  obtain a where a: "f_of_uint available = Fin a" "0 \<le> a" using f_of_uint_finite by blast
  obtain b where b: "f_of_uint all = Fin b" "1 \<le> b" using f_of_uint_finite[of all] assms(1) by blast
  have "a \<le> b" using f_of_uint_mono[OF assms(2)] a b by blast
  then have "0 \<le> a / b" "a / b \<le> 1" using a b by (simp_all add: divide_le_eq_1)
  then obtain q where q: "rnd (a / b) = Fin q" "0 \<le> q" "q \<le> 1"
    using rnd_between[of 0 "a / b" 1] valid_numeral[of 0] valid_numeral[of 1] by auto
  then obtain r where "rnd (q * 100) = Fin r" "0 \<le> r" "r \<le> 100"
    using rnd_between[of 0 "q * 100" 100] valid_numeral[of 0] valid_numeral[of 100] by auto
  then show ?thesis using a b q by (simp add: percent_def)
qed

lemma almost_equal_refl:
  assumes "f_finite x"
  shows "almost_equal x x"
proof -
  obtain r where x: "x = Fin r" using assms f_finite_iff by blast
  define m where "m = f_max (Fin 1) (f_max (f_abs x) (f_abs x))"
  have m: "m = Fin (max 1 \<bar>r\<bar>)" by (simp add: m_def f_max_def x max_def)
  obtain t where t: "rnd (1 / 10 ^ 12) = Fin t" "0 \<le> t"
    using rnd_between[of 0 "1 / 10 ^ 12" 1] valid_numeral[of 0] valid_numeral[of 1] by auto
  have "rnd 0 \<le> rnd (t * max 1 \<bar>r\<bar>)" using t by (intro rnd_mono) simp
  then have "f_le (Fin 0) (rnd (t * max 1 \<bar>r\<bar>))"
    by (cases "rnd (t * max 1 \<bar>r\<bar>)") (auto simp: f_le_def less_eq_f64_def less_f64_def)
  then show ?thesis unfolding almost_equal_def m_def[symmetric] m t by (simp add: x f_sub_def)
qed

subsection \<open>Observations without issues\<close>

lemma portable_sources [simp]:
  "portable_token ''runtime''" "portable_token ''procfs''" "portable_token ''sysfs''" "portable_token ''sysctl''"
  "portable_token ''statfs''" "portable_token ''derived''" "portable_token ''operator''" "portable_token ''vm-stat''"
  "portable_token ''unsupported''"
  by (simp_all add: portable_token_def is_alnum_def is_lower_def is_upper_def is_digit_def code_def)

lemma observed_neq [simp]: "observed \<noteq> unavailable" "unavailable \<noteq> observed"
  by (simp_all add: observed_def unavailable_def)

lemma availability_issues_Nil [simp]:
  "availability_issues path observed source = [] \<longleftrightarrow> portable_token source"
  "availability_issues path unavailable source = [] \<longleftrightarrow> portable_token source"
  by (simp_all add: availability_issues_def)

text \<open>A text that can be recorded: not empty, not too long and without control characters.\<close>

definition recordable :: "string \<Rightarrow> bool" where
  "recordable v = (v \<noteq> [] \<and> length v \<le> 512 \<and> \<not> list_ex control_char v)"

text \<open>An observation as the collector makes it, from a known source.\<close>

definition collected :: "string_observation \<Rightarrow> bool" where
  "collected ob =
     (portable_token (so_source ob) \<and>
      (so_availability ob = observed \<or> so_availability ob = unavailable \<and> so_value ob = []))"

lemma collected_string [simp]:
  "collected (observed_string v source) \<longleftrightarrow> portable_token source"
  "collected (unavailable_string source) \<longleftrightarrow> portable_token source"
  by (simp_all add: collected_def observed_string_def unavailable_string_def)

lemma string_issues_collected:
  "collected ob \<Longrightarrow> (so_availability ob = observed \<longrightarrow> recordable (so_value ob)) \<Longrightarrow> string_issues path ob = []"
  by (auto simp: collected_def string_issues_def recordable_def not_less)

lemma portable_token_recordable: "portable_token v \<Longrightarrow> recordable v"
proof -
  assume v: "portable_token v"
  have "\<not> control_char c" if "c \<in> set v" for c
  proof -
    have "is_alnum c \<or> c = CHR ''.'' \<or> c = CHR ''_'' \<or> c = CHR ''+'' \<or> c = CHR ''-''"
      using v that by (auto simp: portable_token_def list_all_iff)
    then show ?thesis
      by (auto simp: control_char_def is_alnum_def is_lower_def is_upper_def is_digit_def code_def)
  qed
  then show ?thesis using v by (auto simp: recordable_def portable_token_def list_ex_iff)
qed

lemma uint_issues_Nil [simp]:
  "uint_issues path (observed_uint v source) = [] \<longleftrightarrow> portable_token source"
  "uint_issues path (unavailable_uint source) = [] \<longleftrightarrow> portable_token source"
  by (simp_all add: uint_issues_def observed_uint_def unavailable_uint_def)

lemma number_issues_Nil [simp]:
  "number_issues path (observed_number v source) = [] \<longleftrightarrow> portable_token source \<and> f_finite v"
  "number_issues path (unavailable_number source) = [] \<longleftrightarrow> portable_token source"
  by (auto simp: number_issues_def number_holds_def observed_number_def unavailable_number_def)

lemma number_holds_observed [simp]:
  "number_holds P (observed_number v source) \<longleftrightarrow> P v" "\<not> number_holds P (unavailable_number source)"
  by (simp_all add: number_holds_def observed_number_def unavailable_number_def)

lemma observation_fields [simp]:
  "no_availability (observed_number v source) = observed" "no_value (observed_number v source) = Some v"
  "no_availability (unavailable_number source) = unavailable" "no_value (unavailable_number source) = None"
  "uo_availability (observed_uint w source) = observed" "uo_value (observed_uint w source) = Some w"
  "uo_availability (unavailable_uint source) = unavailable" "uo_value (unavailable_uint source) = None"
  "so_availability (observed_string s source) = observed" "so_value (observed_string s source) = s"
  "so_source (observed_string s source) = source" "so_source (unavailable_string source) = source"
  "so_availability (unavailable_string source) = unavailable" "so_value (unavailable_string source) = []"
  by (simp_all add: observed_number_def unavailable_number_def observed_uint_def unavailable_uint_def
      observed_string_def unavailable_string_def)

text \<open>A capacity as the collector makes it.\<close>

definition collected_capacity :: "capacity_snapshot \<Rightarrow> bool" where
  "collected_capacity c =
     ((\<exists>source. portable_token source \<and> c = unavailable_capacity source) \<or>
      (\<exists>all available source source'. portable_token source \<and> portable_token source' \<and> 0 < all \<and> available \<le> all \<and>
         c = \<lparr>cap_total_bytes = observed_uint all source, cap_available_bytes = observed_uint available source',
              cap_available_pct = observed_number (percent available all) ''derived''\<rparr>))"

lemma collected_capacity_pct:
  assumes "collected_capacity c"
  shows "cap_available_pct c = unavailable_number ''derived'' \<or>
    (\<exists>r. cap_available_pct c = observed_number (Fin r) ''derived'' \<and> 0 \<le> r \<and> r \<le> 100)"
  using assms percent_in_range unfolding collected_capacity_def unavailable_capacity_def by fastforce

lemma capacity_issues_collected: "collected_capacity c \<Longrightarrow> capacity_issues path c = []"
  unfolding collected_capacity_def
proof (elim disjE exE conjE)
  fix source assume "portable_token source" "c = unavailable_capacity source"
  then show ?thesis by (simp add: capacity_issues_def unavailable_capacity_def)
next
  fix all available source source'
  assume tokens: "portable_token source" "portable_token source'" and pos: "0 < all" and le: "available \<le> all"
    and c: "c = \<lparr>cap_total_bytes = observed_uint all source, cap_available_bytes = observed_uint available source',
      cap_available_pct = observed_number (percent available all) ''derived''\<rparr>"
  obtain r where r: "percent available all = Fin r" "0 \<le> r" "r \<le> 100" using percent_in_range[OF pos le] by blast
  have "almost_equal (Fin r) (Fin r)" by (rule almost_equal_refl) simp
  then show ?thesis
    using tokens pos le r
    by (simp add: c capacity_issues_def percentage_issues_def out_of_percent_def not_less word_neq_0_conv)
qed


subsection \<open>What the collector leaves\<close>

definition collected_load :: "number_observation \<Rightarrow> bool" where
  "collected_load ob =
     (\<exists>source. portable_token source \<and>
        (ob = unavailable_number source \<or> (\<exists>r. f_valid (Fin r) \<and> 0 \<le> r \<and> ob = observed_number (Fin r) source)))"

definition collected_processes :: "uint_observation \<Rightarrow> uint_observation \<Rightarrow> bool" where
  "collected_processes runnable processes =
     (\<exists>source. portable_token source \<and>
        (runnable = unavailable_uint source \<and> processes = unavailable_uint source \<or>
         (\<exists>r n. r \<le> n \<and> runnable = observed_uint r source \<and> processes = observed_uint n source)))"

definition collected_temperature :: "number_observation \<Rightarrow> bool" where
  "collected_temperature ob =
     (\<exists>source. portable_token source \<and>
        (ob = unavailable_number source \<or> (\<exists>r. -100 \<le> r \<and> r \<le> 250 \<and> ob = observed_number (Fin r) source)))"

definition collected_cpus :: "uint_observation \<Rightarrow> bool" where
  "collected_cpus ob = (\<exists>n. 0 < n \<and> ob = observed_uint n ''runtime'')"

definition collected_placement :: "string_observation \<Rightarrow> bool" where
  "collected_placement ob =
     (ob = unavailable_string ''operator'' \<or>
      (\<exists>v. valid_client_placement v \<and> ob = observed_string v ''operator''))"

definition collected_storage :: "string \<Rightarrow> storage_snapshot \<Rightarrow> bool" where
  "collected_storage label g =
     (ss_label g = label \<and> collected (ss_filesystem g) \<and> collected_capacity (storage_capacity g) \<and>
      so_availability (ss_filesystem g) = uo_availability (ss_total_bytes g))"

text \<open>Everything but the derived values, which are still unavailable except the one of the storage.\<close>

definition collected_snapshot :: "string \<Rightarrow> string \<Rightarrow> string \<Rightarrow> snapshot \<Rightarrow> bool" where
  "collected_snapshot goos goarch label s =
     (ps_os (sn_platform s) = observed_string goos ''runtime'' \<and>
      ps_architecture (sn_platform s) = observed_string goarch ''runtime'' \<and> collected (ps_kernel (sn_platform s)) \<and>
      collected (cs_model (sn_cpu s)) \<and> collected_cpus (cs_logical_cpus (sn_cpu s)) \<and>
      collected_capacity (sn_memory s) \<and> collected_storage label (sn_storage s) \<and>
      collected (sn_clocksource s) \<and> (\<forall>path. list_issues path (sn_governors s) = []) \<and>
      collected_temperature (sn_max_celsius s) \<and> collected_placement (sn_placement s) \<and>
      collected_load (is_load1 (sn_interference s)) \<and>
      is_load1_per_cpu (sn_interference s) = unavailable_number ''derived'' \<and>
      collected_processes (is_runnable_processes (sn_interference s)) (is_process_count (sn_interference s)) \<and>
      hs_load_capacity_pct (sn_headroom s) = unavailable_number ''derived'' \<and>
      hs_memory_pct (sn_headroom s) = unavailable_number ''derived'' \<and>
      hs_storage_pct (sn_headroom s) = ss_available_pct (sn_storage s))"

lemma collected_capacity_unavailable: "portable_token source \<Longrightarrow> collected_capacity (unavailable_capacity source)"
  by (auto simp: collected_capacity_def)

lemma collected_capacity_observed:
  "portable_token source \<Longrightarrow> 0 < all \<Longrightarrow> available \<le> all \<Longrightarrow> collected_capacity (observed_capacity all available source)"
  unfolding collected_capacity_def observed_capacity_def by blast

lemma source_tokens [simp]:
  "portable_token (platform_source goos)" "portable_token (governor_source goos)" "portable_token (thermal_source goos)"
  by (simp_all add: platform_source_def governor_source_def thermal_source_def)

lemma valid_int64_word: "0 < i \<Longrightarrow> int64 i \<Longrightarrow> 0 < (word_of_int i :: 64 word)"
proof -
  assume i: "0 < i" "int64 i"
  then have "i < 2 ^ 64" by (simp add: int64_def max_int64_def)
  then have "uint (word_of_int i :: 64 word) = i" using i by (simp add: uint_word_of_int)
  then show ?thesis using i by (simp add: word_less_def)
qed

lemma start_collected:
  assumes "0 < pr_num_cpu p" and "int64 (pr_num_cpu p)" and "placement = [] \<or> valid_client_placement placement"
  shows "collected_snapshot (pr_goos p) (pr_goarch p) label
    (collect_storage p path (collect_placement placement
      (collect_processors p (empty_snapshot (pr_goos p) (pr_goarch p) label))))"
proof -
  let ?s = "collect_placement placement (collect_processors p (empty_snapshot (pr_goos p) (pr_goarch p) label))"
  have none: "(\<exists>source. portable_token source \<and> unavailable_uint a = unavailable_uint source \<and>
      unavailable_uint b = unavailable_uint source)" if "a = b" "portable_token b" for a b
    using that by blast
  have start: "collected_snapshot (pr_goos p) (pr_goarch p) label ?s"
    using assms valid_int64_word[OF assms(1,2)]
    unfolding collected_snapshot_def
    by (auto simp: collect_placement_def collect_processors_def empty_snapshot_def collected_cpus_def collected_storage_def
        storage_capacity_def collected_capacity_unavailable[unfolded unavailable_capacity_def]
        collected_capacity_unavailable unavailable_list_def list_issues_def collected_temperature_def
        collected_placement_def collected_load_def collected_processes_def intro: source_tokens)
  show ?thesis
  proof (cases "pr_storage p path")
    case None
    then show ?thesis using start by (simp add: collect_storage_def)
  next
    case (Some r)
    show ?thesis
    proof (cases "0 < sr_total_bytes r \<and> sr_available_bytes r \<le> sr_total_bytes r")
      case False
      then show ?thesis using start Some by (auto simp: collect_storage_def)
    next
      case True
      then have "collected_capacity (observed_capacity (sr_total_bytes r) (sr_available_bytes r) ''statfs'')"
        by (intro collected_capacity_observed) simp_all
      then show ?thesis
        using start Some True
        unfolding collected_snapshot_def
        by (simp add: collect_storage_def collected_storage_def storage_capacity_def observed_capacity_def Let_def)
    qed
  qed
qed


lemma parse_float_valid: "parse_float s = Some v \<Longrightarrow> f_valid v"
proof -
  have rounded: "finite_or_none (rnd x) = Some v \<Longrightarrow> f_valid v" for x
    by (auto simp: finite_or_none_def simp del: f_valid.simps split: if_splits)
  show "parse_float s = Some v \<Longrightarrow> f_valid v"
    by (auto simp: parse_float_def parse_float_with_def parse_hex_float_def parse_decimal_float_def Let_def rounded bind_eq_Some_conv
        split: if_splits prod.splits)
qed

lemma linux_processes_sound: "linux_processes text = Some (runnable, all) \<Longrightarrow> runnable \<le> all"
  by (auto simp: linux_processes_def bind_eq_Some_conv not_less split: list.split_asm if_splits)

lemma load_sound:
  assumes "parse_float text = Some v" and "f_finite v" and "\<not> f_less v (Fin 0)"
  shows "\<exists>r. v = Fin r \<and> f_valid (Fin r) \<and> 0 \<le> r"
  using assms parse_float_valid[OF assms(1)] by (auto simp: f_finite_iff not_less simp del: f_valid.simps)

lemma linux_load_sound:
  assumes "linux_load content = Some (load, runnable, all)"
  shows "(\<exists>r. load = Fin r \<and> f_valid (Fin r) \<and> 0 \<le> r) \<and> runnable \<le> all"
proof -
  obtain load_text process_text where "parse_float load_text = Some load" "f_finite load" "\<not> f_less load (Fin 0)"
    and "linux_processes process_text = Some (runnable, all)"
    using assms unfolding linux_load_def by (auto simp: bind_eq_Some_conv split: list.split_asm if_splits)
  then show ?thesis using load_sound linux_processes_sound by blast
qed

lemma linux_memory_sound: "linux_memory content = Some (all, available) \<Longrightarrow> 0 < all \<and> available \<le> all"
  by (auto simp: linux_memory_def split: option.splits if_splits prod.splits)

lemma darwin_load_sound: "darwin_load content = Some v \<Longrightarrow> \<exists>r. v = Fin r \<and> f_valid (Fin r) \<and> 0 \<le> r"
proof -
  let ?f = "\<lambda>w. Option.bind (parse_float w) (\<lambda>v. if f_finite v \<and> \<not> f_less v (Fin 0) then Some v else None)"
  assume "darwin_load content = Some v"
  then have "v \<in> set (List.map_filter ?f
      (str_fields (map (\<lambda>c. if c = CHR ''{'' \<or> c = CHR ''}'' then CHR '' '' else c) content)))"
    unfolding darwin_load_def Let_def by (auto split: list.splits)
  then obtain w where "?f w = Some v" by (auto simp: map_filter_def)
  then have "parse_float w = Some v" "f_finite v" "\<not> f_less v (Fin 0)"
    by (auto simp: bind_eq_Some_conv split: if_splits)
  then show ?thesis by (rule load_sound)
qed

lemma darwin_memory_collected:
  assumes "darwin_memory p = Some m"
  shows "collected_capacity m"
proof -
  obtain all available where "0 < all" "available \<le> all"
    and "m = \<lparr>cap_total_bytes = observed_uint all ''sysctl'', cap_available_bytes = observed_uint available ''vm-stat'',
      cap_available_pct = observed_number (percent available all) ''derived''\<rparr>"
    using assms by (auto simp: darwin_memory_def bind_eq_Some_conv word_neq_0_conv split: if_splits)
  then show ?thesis
    unfolding collected_capacity_def
    by (intro disjI2 exI[of _ all] exI[of _ available] exI[of _ "''sysctl''"] exI[of _ "''vm-stat''"]) simp
qed

definition in_heat :: "f64 \<Rightarrow> bool" where
  "in_heat v = (\<exists>r. v = Fin r \<and> -100 \<le> r \<and> r \<le> 250)"

lemma temperature_sound: "temperature content = Some v \<Longrightarrow> in_heat v"
  unfolding in_heat_def
  by (auto simp: temperature_def Let_def bind_eq_Some_conv f_finite_iff not_less split: if_splits)

lemma hottest_sound:
  "pred_option in_heat init \<Longrightarrow> list_all in_heat vs \<Longrightarrow> pred_option in_heat (foldl hotter init vs)"
proof (induction vs arbitrary: init)
  case (Cons v vs)
  have "pred_option in_heat (hotter init v)" using Cons.prems by (auto simp: hotter_def split: option.splits)
  then show ?case using Cons.IH Cons.prems(2) by simp
qed simp

lemma max_temperature_sound: "max_temperature p paths = Some m \<Longrightarrow> in_heat m"
proof -
  have "list_all in_heat (List.map_filter (\<lambda>path. Option.bind (pr_read_file p path) temperature) paths)"
    using temperature_sound by (auto simp: list_all_iff map_filter_def bind_eq_Some_conv)
  from hottest_sound[OF _ this, of None]
  show "max_temperature p paths = Some m \<Longrightarrow> in_heat m" by (simp add: max_temperature_def)
qed

lemma distinct_remdups_adj: "sorted xs \<Longrightarrow> distinct (remdups_adj xs)"
  for xs :: "'a :: linorder list"
  by (induction xs rule: remdups_adj.induct) auto

lemma sorted_unique_items:
  assumes "\<forall>v \<in> set vs. portable_token v"
  shows "item_issues path None (sorted_unique vs) = []"
proof -
  have run: "item_issues path previous us = []"
    if "sorted us" "distinct us" "\<forall>u \<in> set us. portable_token u" "\<forall>w. previous = Some w \<longrightarrow> (\<forall>u \<in> set us. w < u)"
    for previous us
    using that
  proof (induction us arbitrary: previous)
    case (Cons u us)
    have "\<forall>v \<in> set us. u < v" using Cons.prems(1,2) by (auto simp: order.strict_iff_order)
    then have "item_issues path (Some u) us = []" using Cons by simp
    moreover have "\<not> (case previous of None \<Rightarrow> False | Some w \<Rightarrow> u \<le> w)"
      using Cons.prems(4) by (auto split: option.splits)
    ultimately show ?case using Cons.prems(3) by (simp add: note_if_def)
  qed simp
  have "sorted (sorted_unique vs)" by (simp add: sorted_unique_def)
  moreover have "distinct (sorted_unique vs)" by (simp add: sorted_unique_def distinct_remdups_adj)
  ultimately show ?thesis using assms by (intro run) (simp_all add: sorted_unique_def)
qed

lemma governors_collected:
  assumes "\<forall>path. list_issues path g = []"
  shows "list_issues path
    (let vs = sorted_unique (List.map_filter (governor_value p) paths) in if vs = [] then g else observed_list vs ''sysfs'') = []"
proof -
  have "\<forall>v \<in> set (List.map_filter (governor_value p) paths). portable_token v"
    by (auto simp: map_filter_def governor_value_def split: option.splits if_splits)
  from sorted_unique_items[OF this] assms show ?thesis
    unfolding Let_def
    by (cases "List.map_filter (governor_value p) paths = []")
      (simp_all add: list_issues_def[of _ "\<lparr>lo_availability = _, lo_values = _, lo_source = _\<rparr>"] observed_list_def)
qed

lemma when_read_keeps:
  "P fallback \<Longrightarrow> (\<And>content v. f content = Some v \<Longrightarrow> P v) \<Longrightarrow> P (when_read p path f fallback)"
  by (auto simp: when_read_def split: option.splits)

lemma non_empty_string_collected: "portable_token source \<Longrightarrow> non_empty_string source v = Some ob \<Longrightarrow> collected ob"
  by (auto simp: non_empty_string_def split: if_splits)

lemma collect_linux_collected:
  assumes "collected_snapshot goos goarch label s"
  shows "collected_snapshot goos goarch label (collect_linux p s)"
proof -
  note start = assms[unfolded collected_snapshot_def]
  let ?t = "collect_linux p s"
  have same: "ps_os (sn_platform ?t) = ps_os (sn_platform s)" "ps_architecture (sn_platform ?t) = ps_architecture (sn_platform s)"
    "cs_logical_cpus (sn_cpu ?t) = cs_logical_cpus (sn_cpu s)" "sn_storage ?t = sn_storage s" "sn_headroom ?t = sn_headroom s"
    "sn_placement ?t = sn_placement s"
    by (simp_all add: collect_linux_def)
  have names: "collected (ps_kernel (sn_platform ?t))" "collected (cs_model (sn_cpu ?t))" "collected (sn_clocksource ?t)"
    using start by (auto simp: collect_linux_def intro!: when_read_keeps[where P = collected] elim: non_empty_string_collected[rotated])
  have memory: "collected_capacity (sn_memory ?t)"
    using start linux_memory_sound
    by (auto simp: collect_linux_def intro!: when_read_keeps[where P = collected_capacity] collected_capacity_observed)
  have read: "sn_interference ?t = when_read p ''/proc/loadavg''
      (\<lambda>c. map_option (\<lambda>(load, runnable, all). (sn_interference s)\<lparr>is_load1 := observed_number load ''procfs'',
        is_runnable_processes := observed_uint runnable ''procfs'', is_process_count := observed_uint all ''procfs''\<rparr>)
        (linux_load c)) (sn_interference s)"
    by (simp add: collect_linux_def)
  have interference: "collected_load (is_load1 i) \<and> is_load1_per_cpu i = unavailable_number ''derived'' \<and>
      collected_processes (is_runnable_processes i) (is_process_count i)" if "i = sn_interference ?t" for i
    unfolding that read
  proof (rule when_read_keeps[where P = "\<lambda>i. collected_load (is_load1 i) \<and>
      is_load1_per_cpu i = unavailable_number ''derived'' \<and> collected_processes (is_runnable_processes i) (is_process_count i)"])
    show "collected_load (is_load1 (sn_interference s)) \<and> is_load1_per_cpu (sn_interference s) = unavailable_number ''derived'' \<and>
        collected_processes (is_runnable_processes (sn_interference s)) (is_process_count (sn_interference s))"
      using start by blast
  next
    fix content v
    assume "map_option (\<lambda>(load, runnable, all). (sn_interference s)\<lparr>is_load1 := observed_number load ''procfs'',
        is_runnable_processes := observed_uint runnable ''procfs'', is_process_count := observed_uint all ''procfs''\<rparr>)
        (linux_load content) = Some v"
    then obtain load runnable all where l: "linux_load content = Some (load, runnable, all)"
      and v: "v = (sn_interference s)\<lparr>is_load1 := observed_number load ''procfs'',
        is_runnable_processes := observed_uint runnable ''procfs'', is_process_count := observed_uint all ''procfs''\<rparr>"
      by auto
    have "collected_processes (observed_uint runnable ''procfs'') (observed_uint all ''procfs'')"
      using linux_load_sound[OF l] unfolding collected_processes_def by (intro exI[of _ "''procfs''"]) auto
    moreover have "collected_load (observed_number load ''procfs'')"
      using linux_load_sound[OF l] unfolding collected_load_def by (intro exI[of _ "''procfs''"]) auto
    ultimately show "collected_load (is_load1 v) \<and> is_load1_per_cpu v = unavailable_number ''derived'' \<and>
        collected_processes (is_runnable_processes v) (is_process_count v)"
      using start by (simp add: v)
  qed
  have governors: "\<forall>path. list_issues path (sn_governors ?t) = []"
    using start governors_collected[of "sn_governors s"] by (auto simp: collect_linux_def split: option.splits)
  have heat: "collected_temperature (sn_max_celsius ?t)"
  proof (cases "pr_glob p ''/sys/class/thermal/thermal_zone*/temp''")
    case None
    then show ?thesis using start by (simp add: collect_linux_def)
  next
    case (Some paths)
    show ?thesis
    proof (cases "max_temperature p paths")
      case None
      then show ?thesis using start Some by (simp add: collect_linux_def)
    next
      case m: (Some m)
      then have "collected_temperature (observed_number m ''sysfs'')"
        using max_temperature_sound[OF m] unfolding collected_temperature_def in_heat_def by (intro exI[of _ "''sysfs''"]) auto
      then show ?thesis using Some m by (simp add: collect_linux_def)
    qed
  qed
  show ?thesis
    unfolding collected_snapshot_def same using start names memory interference[OF refl] governors heat by blast
qed

lemma with_observation_collected: "collected ob \<Longrightarrow> (\<And>o'. m = Some o' \<Longrightarrow> collected o') \<Longrightarrow> collected (with_observation m ob)"
  by (auto simp: with_observation_def split: option.splits)

lemma collect_darwin_collected:
  assumes "collected_snapshot goos goarch label s"
  shows "collected_snapshot goos goarch label (collect_darwin p s)"
proof -
  note start = assms[unfolded collected_snapshot_def]
  let ?t = "collect_darwin p s"
  have same: "ps_os (sn_platform ?t) = ps_os (sn_platform s)" "ps_architecture (sn_platform ?t) = ps_architecture (sn_platform s)"
    "cs_logical_cpus (sn_cpu ?t) = cs_logical_cpus (sn_cpu s)" "sn_storage ?t = sn_storage s" "sn_headroom ?t = sn_headroom s"
    "sn_placement ?t = sn_placement s" "sn_governors ?t = sn_governors s" "sn_max_celsius ?t = sn_max_celsius s"
    by (simp_all add: collect_darwin_def Let_def)
  have names: "collected (ps_kernel (sn_platform ?t))" "collected (cs_model (sn_cpu ?t))" "collected (sn_clocksource ?t)"
    using start
    by (auto simp: collect_darwin_def Let_def intro!: with_observation_collected elim: non_empty_string_collected[rotated])
  have memory: "collected_capacity (sn_memory ?t)"
    using start darwin_memory_collected by (auto simp: collect_darwin_def Let_def split: option.splits)
  have load: "collected_load (observed_number v ''sysctl'')" if "darwin_load content = Some v" for content v
    using darwin_load_sound[OF that] unfolding collected_load_def by (intro exI[of _ "''sysctl''"]) auto
  have interference: "collected_load (is_load1 (sn_interference ?t)) \<and>
      is_load1_per_cpu (sn_interference ?t) = unavailable_number ''derived'' \<and>
      collected_processes (is_runnable_processes (sn_interference ?t)) (is_process_count (sn_interference ?t))"
    using start load by (simp add: collect_darwin_def Let_def split: option.splits)
  show ?thesis unfolding collected_snapshot_def same using start names memory interference by blast
qed


subsection \<open>The derived values\<close>

lemma derived_load:
  assumes "f_valid (Fin r)" and "0 \<le> r" and "0 < n"
  shows "\<exists>q h. f_div (Fin r) (f_of_uint n) = Fin q \<and> 0 \<le> q \<and>
    f_max (Fin 0) (f_mul (f_sub (Fin 1) (Fin q)) (Fin 100)) = Fin h \<and> 0 \<le> h \<and> h \<le> 100"
proof -
  obtain b where b: "f_of_uint n = Fin b" "1 \<le> b" using f_of_uint_finite[of n] assms(3) by blast
  have "r / b \<le> r" using b assms(2) by (simp add: divide_le_eq mult_left_mono[of 1 b r, simplified])
  then obtain q where q: "rnd (r / b) = Fin q" "0 \<le> q"
    using rnd_between[of 0 "r / b" r] valid_numeral[of 0] assms(1,2) b by auto
  have "f_valid (Fin q)" using q(1) f_valid_rnd[of "r / b"] by simp
  then have "f_valid (Fin (- q))" by simp
  then obtain z where z: "rnd (1 - q) = Fin z" "z \<le> 1"
    using rnd_between[of "- q" "1 - q" 1] valid_numeral[of 1] q(2) by auto
  have "rnd (z * 100) \<le> rnd 100" using z(2) by (intro rnd_mono) simp
  then have "rnd (z * 100) \<le> Fin 100" using rnd_exact[OF valid_numeral[of 100]] by simp
  then have "\<exists>h. f_max (Fin 0) (rnd (z * 100)) = Fin h \<and> 0 \<le> h \<and> h \<le> 100"
    by (cases "rnd (z * 100)") (auto simp: f_max_def less_eq_f64_def less_f64_def)
  then show ?thesis using b q z by (auto simp: f_sub_def)
qed

lemma derive_same [simp]:
  "sn_platform (derive_snapshot s) = sn_platform s" "sn_cpu (derive_snapshot s) = sn_cpu s"
  "sn_memory (derive_snapshot s) = sn_memory s" "sn_storage (derive_snapshot s) = sn_storage s"
  "sn_clocksource (derive_snapshot s) = sn_clocksource s" "sn_governors (derive_snapshot s) = sn_governors s"
  "sn_max_celsius (derive_snapshot s) = sn_max_celsius s" "sn_placement (derive_snapshot s) = sn_placement s"
  "is_load1 (sn_interference (derive_snapshot s)) = is_load1 (sn_interference s)"
  "is_runnable_processes (sn_interference (derive_snapshot s)) = is_runnable_processes (sn_interference s)"
  "is_process_count (sn_interference (derive_snapshot s)) = is_process_count (sn_interference s)"
  "hs_storage_pct (sn_headroom (derive_snapshot s)) = hs_storage_pct (sn_headroom s)"
  by (simp_all add: derive_snapshot_def derive_load_def derive_memory_def Let_def)

lemma derived_memory:
  assumes "collected_capacity (sn_memory s)" and "hs_memory_pct (sn_headroom s) = unavailable_number ''derived''"
  shows "hs_memory_pct (sn_headroom (derive_snapshot s)) = cap_available_pct (sn_memory s)"
  using collected_capacity_pct[OF assms(1)] assms(2)
  by (auto simp: derive_snapshot_def derive_load_def derive_memory_def Let_def)

lemma derived_load_values:
  assumes "collected_load (is_load1 (sn_interference s))" and "collected_cpus (cs_logical_cpus (sn_cpu s))"
    and "is_load1_per_cpu (sn_interference s) = unavailable_number ''derived''"
    and "hs_load_capacity_pct (sn_headroom s) = unavailable_number ''derived''"
  shows "(\<exists>source. is_load1 (sn_interference s) = unavailable_number source) \<and>
      is_load1_per_cpu (sn_interference (derive_snapshot s)) = unavailable_number ''derived'' \<and>
      hs_load_capacity_pct (sn_headroom (derive_snapshot s)) = unavailable_number ''derived'' \<or>
    (\<exists>r n q h source. is_load1 (sn_interference s) = observed_number (Fin r) source \<and> 0 \<le> r \<and>
      cs_logical_cpus (sn_cpu s) = observed_uint n ''runtime'' \<and> 0 < n \<and>
      f_div (Fin r) (f_of_uint n) = Fin q \<and> 0 \<le> q \<and>
      f_max (Fin 0) (f_mul (f_sub (Fin 1) (Fin q)) (Fin 100)) = Fin h \<and> 0 \<le> h \<and> h \<le> 100 \<and>
      is_load1_per_cpu (sn_interference (derive_snapshot s)) = observed_number (Fin q) ''derived'' \<and>
      hs_load_capacity_pct (sn_headroom (derive_snapshot s)) = observed_number (Fin h) ''derived'')"
proof -
  obtain n where n: "0 < n" "cs_logical_cpus (sn_cpu s) = observed_uint n ''runtime''"
    using assms(2) unfolding collected_cpus_def by blast
  from assms(1) consider source where "is_load1 (sn_interference s) = unavailable_number source"
    | r source where "f_valid (Fin r)" "0 \<le> r" "is_load1 (sn_interference s) = observed_number (Fin r) source"
    unfolding collected_load_def by blast
  then show ?thesis
  proof cases
    case 1
    then show ?thesis
      using assms(3,4)
      by (auto simp: derive_snapshot_def derive_load_def derive_memory_def Let_def)
  next
    case (2 r source)
    obtain q h where qh: "f_div (Fin r) (f_of_uint n) = Fin q" "0 \<le> q"
      "f_max (Fin 0) (f_mul (f_sub (Fin 1) (Fin q)) (Fin 100)) = Fin h" "0 \<le> h" "h \<le> 100"
      using derived_load[OF 2(1,2) n(1)] by blast
    have "is_load1_per_cpu (sn_interference (derive_snapshot s)) = observed_number (Fin q) ''derived''"
      "hs_load_capacity_pct (sn_headroom (derive_snapshot s)) = observed_number (Fin h) ''derived''"
      using 2(3) n(2) qh(1,3) by (simp_all add: derive_snapshot_def derive_load_def derive_memory_def Let_def)
    then show ?thesis using 2 n qh by blast
  qed
qed

subsection \<open>The artifact of an inspection\<close>

text \<open>The names that the system reports, where it reports them, can be recorded.\<close>

definition names_recordable :: "snapshot \<Rightarrow> bool" where
  "names_recordable s =
     ((so_availability (ps_kernel (sn_platform s)) = observed \<longrightarrow> recordable (so_value (ps_kernel (sn_platform s)))) \<and>
      (so_availability (cs_model (sn_cpu s)) = observed \<longrightarrow> recordable (so_value (cs_model (sn_cpu s)))) \<and>
      (so_availability (sn_clocksource s) = observed \<longrightarrow> portable_token (so_value (sn_clocksource s))) \<and>
      (so_availability (ss_filesystem (sn_storage s)) = observed \<longrightarrow>
         portable_token (so_value (ss_filesystem (sn_storage s)))))"

lemma almost_equal_Fin [simp]: "almost_equal (Fin r) (Fin r)"
  by (rule almost_equal_refl) simp

lemma collected_pct_issues:
  assumes "collected_capacity c"
  shows "number_issues path (cap_available_pct c) = []" "percentage_issues path (cap_available_pct c) = []"
    "derived_issues path (cap_available_pct c) (cap_available_pct c) = []"
  using collected_capacity_pct[OF assms]
  by (auto simp: percentage_issues_def derived_issues_def out_of_percent_def not_less)

lemma valid_placement_recordable: "valid_client_placement v \<Longrightarrow> recordable v"
  by (auto simp: valid_client_placement_def intro!: portable_token_recordable)
    (simp_all add: portable_token_def is_alnum_def is_lower_def is_upper_def is_digit_def code_def)

lemma derived_snapshot_issues:
  assumes c: "collected_snapshot goos goarch label s" and names: "names_recordable s"
    and goos: "goos = ''linux'' \<or> goos = ''darwin''" and arch: "portable_token goarch" and label: "portable_label label"
  shows "snapshot_issues (derive_snapshot s) = []"
proof -
  note c = c[unfolded collected_snapshot_def] and names = names[unfolded names_recordable_def]
  have goos_token: "recordable goos"
    using goos by (auto simp: recordable_def control_char_def code_def)
  have platform: "platform_issues (derive_snapshot s) = []"
    using c names goos arch goos_token portable_token_recordable[OF arch]
    by (simp add: platform_issues_def Let_def string_issues_collected)
  have cpu: "cpu_issues (derive_snapshot s) = []"
    using c names by (auto simp: cpu_issues_def Let_def string_issues_collected collected_cpus_def)
  have memory: "capacity_issues ''snapshot.memory'' (sn_memory (derive_snapshot s)) = []"
    using c capacity_issues_collected by simp
  have storage: "storage_issues (derive_snapshot s) = []"
    using c names label capacity_issues_collected portable_token_recordable
    by (auto simp: storage_issues_def Let_def collected_storage_def string_issues_collected)
  have clock: "string_issues ''snapshot.clock.clocksource'' (sn_clocksource s) = []"
    using c names portable_token_recordable by (auto intro: string_issues_collected)
  have heat: "number_issues ''snapshot.thermal.max_celsius'' (sn_max_celsius s) = [] \<and>
      (no_availability (sn_max_celsius s) = observed \<longrightarrow>
        number_holds (\<lambda>v. f_le (Fin (-100)) v \<and> f_le v (Fin 250)) (sn_max_celsius s))"
    using c unfolding collected_temperature_def by auto
  have placement: "string_issues ''snapshot.client.placement'' (sn_placement s) = [] \<and>
      so_source (sn_placement s) = ''operator'' \<and>
      (so_availability (sn_placement s) = observed \<longrightarrow> valid_client_placement (so_value (sn_placement s)))"
    using c valid_placement_recordable unfolding collected_placement_def by (auto intro!: string_issues_collected)
  have device: "device_issues (derive_snapshot s) = []"
    using c names clock heat placement by (simp add: device_issues_def)
  note load = derived_load_values[of s]
  have load1: "number_issues path (is_load1 (sn_interference s)) = []"
    "\<not> number_holds (\<lambda>v. f_less v (Fin 0)) (is_load1 (sn_interference s))" for path
    using c unfolding collected_load_def by (auto simp: not_less)
  obtain source where source: "portable_token source" and
    processes: "is_runnable_processes (sn_interference s) = unavailable_uint source \<and>
        is_process_count (sn_interference s) = unavailable_uint source \<or>
      (\<exists>r n. r \<le> n \<and> is_runnable_processes (sn_interference s) = observed_uint r source \<and>
        is_process_count (sn_interference s) = observed_uint n source)"
    using c unfolding collected_processes_def by blast
  have interference: "interference_issues (derive_snapshot s) = []"
    using processes
  proof (elim disjE exE conjE)
    assume "is_runnable_processes (sn_interference s) = unavailable_uint source"
      "is_process_count (sn_interference s) = unavailable_uint source"
    then show ?thesis using load c load1 source by (auto simp: interference_issues_def Let_def)
  next
    fix r n assume "r \<le> n" "is_runnable_processes (sn_interference s) = observed_uint r source"
      "is_process_count (sn_interference s) = observed_uint n source"
    then show ?thesis using load c load1 source by (auto simp: interference_issues_def Let_def)
  qed
  have memory_pct: "hs_memory_pct (sn_headroom (derive_snapshot s)) = cap_available_pct (sn_memory s)"
    using c by (intro derived_memory) simp_all
  have storage_pct: "collected_capacity (storage_capacity (sn_storage s))"
    "ss_available_pct (sn_storage s) = cap_available_pct (storage_capacity (sn_storage s))"
    using c by (simp_all add: collected_storage_def storage_capacity_def)
  have loads: "load_issues (derive_snapshot s) = []"
    "number_issues path (hs_load_capacity_pct (sn_headroom (derive_snapshot s))) = []"
    "percentage_issues path (hs_load_capacity_pct (sn_headroom (derive_snapshot s))) = []" for path
    using load c
    by (auto simp: load_issues_def Let_def percentage_issues_def out_of_percent_def not_less word_neq_0_conv)
  have headroom: "headroom_issues (derive_snapshot s) = []"
    using c loads collected_pct_issues[of "sn_memory s"] collected_pct_issues[OF storage_pct(1)]
    by (simp add: headroom_issues_def Let_def memory_pct storage_pct(2))
  show ?thesis
    unfolding snapshot_issues_def using platform cpu memory storage device interference headroom by simp
qed


lemma derive_names [simp]: "names_recordable (derive_snapshot s) = names_recordable s"
  by (simp add: names_recordable_def)

text \<open>What a snapshot without issues says of its names.\<close>

lemma string_issues_recordable: "string_issues path ob = [] \<Longrightarrow> so_availability ob = observed \<Longrightarrow> recordable (so_value ob)"
  by (auto simp: string_issues_def recordable_def Let_def split: if_splits)

lemma verified_names: "snapshot_issues s = [] \<Longrightarrow> names_recordable s"
  unfolding snapshot_issues_def names_recordable_def
  by (auto simp: platform_issues_def cpu_issues_def storage_issues_def device_issues_def Let_def
      intro: string_issues_recordable split: if_splits)

lemma inspected_valid_iff:
  assumes "inspect_host now ops p = Inr a"
    and "0 < pr_num_cpu p" and "int64 (pr_num_cpu p)" and "portable_token (pr_goarch p)"
    and "0 \<le> inspect_recorded_at now ops"
    and "inspect_recorded_at now ops < days_before_year 10000 * nanos_per_day"
  shows "ve_valid (verify_artifact a) \<longleftrightarrow> names_recordable (ar_snapshot a)"
proof -
  define label where "label = or_default (io_storage_label ops) ''target-filesystem''"
  define path where "path = or_default (io_storage_path ops) ''.''"
  define placement where "placement = io_client_placement ops"
  define base where "base = collect_storage p path (collect_placement placement
    (collect_processors p (empty_snapshot (pr_goos p) (pr_goarch p) label)))"
  define full where "full = (if pr_goos p = ''linux'' then collect_linux p base else collect_darwin p base)"
  define s where "s = collect_snapshot label placement path p"
  have s: "s = derive_snapshot full" by (simp add: s_def collect_snapshot_def full_def base_def Let_def)
  obtain checks verdict reasons where e: "evaluate_policy s (io_policy ops) = (checks, verdict, reasons)"
    by (cases "evaluate_policy s (io_policy ops)") auto
  obtain sd d where goos: "pr_goos p = ''linux'' \<or> pr_goos p = ''darwin''" and label_ok: "portable_label label"
    and placed: "placement = [] \<or> valid_client_placement placement" and policy: "policy_problems (io_policy ops) = []"
    and digests: "digest_json (snapshot_json s) = Some sd"
    and a: "a = \<lparr>ar_schema_version = qualification_schema, ar_artifact_type = qualification_type,
        ar_collector_version = ''1'', ar_recorded_at = format_rfc3339 (inspect_recorded_at now ops),
        ar_assurance = recorded_assurance, ar_snapshot = s, ar_policy = io_policy ops, ar_checks = Some checks,
        ar_verdict = verdict, ar_reasons = Some reasons, ar_snapshot_digest = sd, ar_digest = d\<rparr>"
    and digest: "artifact_digest (a\<lparr>ar_digest := []\<rparr>) = Some d"
    using assms(1)
    by (auto simp: inspect_host_def Let_def label_def[symmetric] path_def[symmetric] placement_def[symmetric]
        s_def[symmetric] e bind_r_Inr of_option_Inr validate_policy_def split: if_splits)
  have base: "collected_snapshot (pr_goos p) (pr_goarch p) label base"
    unfolding base_def using assms(2,3) placed by (rule start_collected)
  then have collected: "collected_snapshot (pr_goos p) (pr_goarch p) label full"
    unfolding full_def using collect_linux_collected[OF base] collect_darwin_collected[OF base] by presburger
  have issues: "snapshot_issues s = [] \<longleftrightarrow> names_recordable s"
    using derived_snapshot_issues[OF collected _ goos assms(4) label_ok] verified_names[of s] by (auto simp: s)
  have "parse_rfc3339 (format_rfc3339 (inspect_recorded_at now ops)) = Some (inspect_recorded_at now ops)"
    using assms(5,6) by (intro parse_format) simp_all
  then have time: "canonical_utc (format_rfc3339 (inspect_recorded_at now ops)) \<noteq> None"
    by (simp add: canonical_utc_def format_rfc3339_def has_suffix_def Let_def has_prefix_def)
  have "artifact_digest a = Some d" using digest by (simp add: a artifact_digest_def)
  moreover have "is_digest sd" "is_digest d"
    using digests digest by (auto simp: digest_json_def artifact_digest_def)
  ultimately show ?thesis
    using verify_artifact_valid[of a checks verdict reasons] e issues time policy digests by (simp add: a)
qed

lemma inspected_valid:
  assumes "inspect_host now ops p = Inr a"
    and "0 < pr_num_cpu p" and "int64 (pr_num_cpu p)" and "portable_token (pr_goarch p)"
    and "names_recordable (ar_snapshot a)"
    and "0 \<le> inspect_recorded_at now ops"
    and "inspect_recorded_at now ops < days_before_year 10000 * nanos_per_day"
  shows "ve_valid (verify_artifact a)"
  using inspected_valid_iff[OF assms(1-4,6,7)] assms(5) by simp

text \<open>C29: When an inspection records an artifact that verifies: on a host with at least one processor and a portable name
  for its architecture, at any time of the calendar, the artifact has no issue if and only if the names that the system
  reported can be recorded: the kernel and the processor model are short printable text, the clock source and the file
  system portable tokens. Whatever else the probes return is recorded in a form that verifies: the derived percentages
  and loads, the checks, the verdict and both digests are recomputed. The collector does not check the names itself, so
  that it can record an artifact which its own verifier refuses.\<close>

theorem inspected_artifact_verifies:
  assumes "inspect_host now ops p = Inr a"
    and "0 < pr_num_cpu p" and "int64 (pr_num_cpu p)" and "portable_token (pr_goarch p)"
    and "0 \<le> inspect_recorded_at now ops"
    and "inspect_recorded_at now ops < days_before_year 10000 * nanos_per_day"
  shows "ve_valid (verify_artifact a) \<longleftrightarrow>
    (so_availability (ps_kernel (sn_platform (ar_snapshot a))) = observed \<longrightarrow> recordable (so_value (ps_kernel (sn_platform (ar_snapshot a))))) \<and>
    (so_availability (cs_model (sn_cpu (ar_snapshot a))) = observed \<longrightarrow> recordable (so_value (cs_model (sn_cpu (ar_snapshot a))))) \<and>
    (so_availability (sn_clocksource (ar_snapshot a)) = observed \<longrightarrow> portable_token (so_value (sn_clocksource (ar_snapshot a)))) \<and>
    (so_availability (ss_filesystem (sn_storage (ar_snapshot a))) = observed \<longrightarrow>
       portable_token (so_value (ss_filesystem (sn_storage (ar_snapshot a)))))"
  using inspected_valid_iff[OF assms] unfolding names_recordable_def .

lemma inspected_fields:
  assumes "inspect_host now ops p = Inr a"
  shows "ar_recorded_at a = format_rfc3339 (inspect_recorded_at now ops)" and "ar_policy a = io_policy ops"
    and "policy_problems (io_policy ops) = []"
  using assms by (auto simp: inspect_host_def Let_def bind_r_Inr validate_policy_def split: if_splits prod.splits)

lemma validated_numbers:
  assumes "policy_problems p = []"
  shows "pred_option f_finite (po_min_memory_available_pct p)" "pred_option f_finite (po_min_storage_available_pct p)"
    "pred_option f_finite (po_max_load1_per_cpu p)" "pred_option f_finite (po_max_temperature_celsius p)"
  using assms by (auto simp: policy_problems_def bad_number_def split: option.splits)

lemma same_number_refl: "pred_option f_finite m \<Longrightarrow> same_number m m"
  by (cases m) (auto simp: same_number_def f_finite_iff)

lemma same_policy_refl: "policy_problems p = [] \<Longrightarrow> same_policy p p"
  by (simp add: same_policy_def same_number_refl validated_numbers)

lemma policy_json_Some: "policy_problems p = [] \<Longrightarrow> \<exists>t. policy_json p = Some t"
  by (simp add: policy_json_def validated_numbers)

lemma policy_digest_Some: "policy_problems p = [] \<Longrightarrow> policy_digest p \<noteq> None"
  using policy_json_Some by (auto simp: policy_digest_def digest_json_def)

lemma stable_class_digest_Some: "stable_class_digest c \<noteq> None"
proof -
  have parts: "\<exists>t. stable_string_json v = Some t" "\<exists>t. stable_uint_json w = Some t" "\<exists>t. stable_strings_json u = Some t"
    for v w u
    by (simp_all add: stable_string_json_def stable_uint_json_def stable_strings_json_def)
  have "\<exists>t. stable_class_json c = Some t" by (simp add: stable_class_json_def parts)
  then show ?thesis by (auto simp: stable_class_digest_def digest_json_def)
qed

text \<open>A host that qualifies can be certified: when two inspections with one policy, the first not later than the
  second, both find the host qualified and in the same stable class, the bookends they form pass. Nothing but the
  policy, the class and the clock can keep a benchmark from being certified.\<close>

theorem qualified_inspections_certify:
  assumes "inspect_host now ops p = Inr before" and "inspect_host now' ops' p' = Inr after"
    and "io_policy ops' = io_policy ops"
    and "0 < pr_num_cpu p" "int64 (pr_num_cpu p)" "portable_token (pr_goarch p)"
    and "0 < pr_num_cpu p'" "int64 (pr_num_cpu p')" "portable_token (pr_goarch p')"
    and "names_recordable (ar_snapshot before)" and "names_recordable (ar_snapshot after)"
    and "0 \<le> inspect_recorded_at now ops" and "inspect_recorded_at now ops \<le> inspect_recorded_at now' ops'"
    and "inspect_recorded_at now' ops' < days_before_year 10000 * nanos_per_day"
    and "ar_verdict before = ''qualified''" and "ar_verdict after = ''qualified''"
    and "project_stable_host_class (ar_snapshot before) = project_stable_host_class (ar_snapshot after)"
  shows "ba_status (assess_bookends before after) = ''recorded-policy-passed''"
proof -
  note fields = inspected_fields[OF assms(1)] inspected_fields[OF assms(2)]
  have "parse_rfc3339 (format_rfc3339 t) = Some t" if "t \<in> {inspect_recorded_at now ops, inspect_recorded_at now' ops'}" for t
    using that assms(12-14) by (intro parse_format) auto
  then have times: "canonical_utc (format_rfc3339 t) = Some t"
    if "t \<in> {inspect_recorded_at now ops, inspect_recorded_at now' ops'}" for t
    using that by (simp add: canonical_utc_def format_rfc3339_def has_suffix_def Let_def has_prefix_def)
  have "ve_valid (verify_artifact before)" "ve_valid (verify_artifact after)"
    using inspected_valid[OF assms(1,4-6,10)] inspected_valid[OF assms(2,7-9,11)] assms(12-14) by simp_all
  then show ?thesis
    unfolding assess_bookends_status bookend_reasons_Nil fields
    using assms times same_policy_refl policy_digest_Some fields stable_class_digest_Some by simp
qed

text \<open>An inspection with valid options succeeds.\<close>

lemma inspect_host_succeeds:
  assumes "pr_goos p = ''linux'' \<or> pr_goos p = ''darwin''"
    and "portable_label (or_default (io_storage_label ops) ''target-filesystem'')"
    and "io_client_placement ops = [] \<or> valid_client_placement (io_client_placement ops)"
    and problems: "policy_problems (io_policy ops) = []"
    and s: "s = collect_snapshot (or_default (io_storage_label ops) ''target-filesystem'') (io_client_placement ops)
        (or_default (io_storage_path ops) ''.'') p"
    and json: "\<exists>t. snapshot_json s = Some t"
    and e: "evaluate_policy s (io_policy ops) = (checks, verdict, reasons)"
  shows "\<exists>a. inspect_host now ops p = Inr a \<and> ar_snapshot a = s \<and> ar_verdict a = verdict"
proof -
  obtain t where t: "snapshot_json s = Some t" using json by blast
  obtain u where u: "policy_json (io_policy ops) = Some u" using policy_json_Some[OF problems] by blast
  define a where "a = \<lparr>ar_schema_version = qualification_schema, ar_artifact_type = qualification_type,
    ar_collector_version = ''1'', ar_recorded_at = format_rfc3339 (inspect_recorded_at now ops),
    ar_assurance = recorded_assurance, ar_snapshot = s, ar_policy = io_policy ops, ar_checks = Some checks,
    ar_verdict = verdict, ar_reasons = Some reasons, ar_snapshot_digest = digest_bytes t, ar_digest = []\<rparr>"
  have "\<exists>v. artifact_json a = Some v" by (simp add: artifact_json_def a_def t u)
  moreover have "a\<lparr>ar_digest := []\<rparr> = a" by (simp add: a_def)
  ultimately obtain d where d: "artifact_digest a = Some d" by (auto simp: artifact_digest_def digest_json_def)
  have ad: "a\<lparr>ar_digest := d\<rparr> = \<lparr>ar_schema_version = qualification_schema, ar_artifact_type = qualification_type,
    ar_collector_version = ''1'', ar_recorded_at = format_rfc3339 (inspect_recorded_at now ops),
    ar_assurance = recorded_assurance, ar_snapshot = s, ar_policy = io_policy ops, ar_checks = Some checks,
    ar_verdict = verdict, ar_reasons = Some reasons, ar_snapshot_digest = digest_bytes t, ar_digest = d\<rparr>"
    by (simp add: a_def)
  have "inspect_host now ops p = Inr (a\<lparr>ar_digest := d\<rparr>)"
    unfolding ad using assms(1-3) d
    by (auto simp: inspect_host_def Let_def s[symmetric] e validate_policy_def problems digest_json_def t of_option_def
        a_def[symmetric])
  then show ?thesis by (intro exI[of _ "a\<lparr>ar_digest := d\<rparr>"]) (simp add: a_def)
qed

subsection \<open>A host that reports nothing but its processors\<close>

definition sample_probes :: probes where
  "sample_probes =
     \<lparr>pr_goos = ''linux'', pr_goarch = ''amd64'', pr_num_cpu = 4, pr_read_file = (\<lambda>_. None), pr_glob = (\<lambda>_. None),
      pr_command = (\<lambda>_ _. None), pr_storage = (\<lambda>_. None)\<rparr>"

definition sample_policy :: policy where
  "sample_policy =
     \<lparr>po_strict = True, po_min_logical_cpus = Some 2, po_min_memory_available_pct = None,
      po_min_storage_available_pct = None, po_max_load1_per_cpu = None, po_required_clocksource = [],
      po_required_governor = [], po_max_temperature_celsius = None, po_required_client_placement = []\<rparr>"

definition sample_options :: inspect_options where
  "sample_options =
     \<lparr>io_recorded_at = 0, io_storage_path = [], io_storage_label = [], io_client_placement = [],
      io_policy = sample_policy\<rparr>"

definition sample_snapshot :: snapshot where
  "sample_snapshot = collect_snapshot ''target-filesystem'' [] ''.'' sample_probes"

lemma sample_snapshot_value:
  "sample_snapshot =
     (empty_snapshot ''linux'' ''amd64'' ''target-filesystem'')
       \<lparr>sn_cpu := \<lparr>cs_model = unavailable_string ''procfs'', cs_logical_cpus = observed_uint 4 ''runtime''\<rparr>\<rparr>"
  by (simp add: sample_snapshot_def collect_snapshot_def sample_probes_def collect_storage_def collect_placement_def
      collect_processors_def collect_linux_def when_read_def derive_snapshot_def derive_load_def derive_memory_def
      empty_snapshot_def platform_source_def unavailable_capacity_def Let_def)

lemma sample_inspection:
  "\<exists>a. inspect_host 0 sample_options sample_probes = Inr a \<and> ar_snapshot a = sample_snapshot \<and> ar_verdict a = ''qualified''"
proof -
  obtain checks verdict reasons where e: "evaluate_policy sample_snapshot sample_policy = (checks, verdict, reasons)"
    by (cases "evaluate_policy sample_snapshot sample_policy") auto
  have verdict: "verdict = ''qualified''"
    using evaluate_policy_verdict[OF e]
    by (simp add: sample_policy_def has_gate_def gates_met_def if_set_def uint_holds_def sample_snapshot_value)
  have problems: "policy_problems sample_policy = []"
    by (simp add: policy_problems_def sample_policy_def bad_number_def note_if_def)
  have json: "\<exists>t. snapshot_json sample_snapshot = Some t"
    by (simp add: sample_snapshot_value empty_snapshot_def snapshot_json_def json_object_opt_def capacity_json_def
        storage_json_def string_observation_json_def uint_observation_json_def number_observation_json_def
        list_observation_json_def member_float_def unavailable_capacity_def unavailable_list_def)
  have label: "portable_label ''target-filesystem''" by code_simp
  have "sample_snapshot = collect_snapshot (or_default (io_storage_label sample_options) ''target-filesystem'')
      (io_client_placement sample_options) (or_default (io_storage_path sample_options) ''.'') sample_probes"
    by (simp add: sample_snapshot_def sample_options_def or_default_def)
  then have "\<exists>a. inspect_host 0 sample_options sample_probes = Inr a \<and> ar_snapshot a = sample_snapshot \<and>
      ar_verdict a = verdict"
    using json e problems label
    by (intro inspect_host_succeeds) (simp_all add: sample_options_def sample_probes_def or_default_def)
  then show ?thesis using verdict by simp
qed

lemma sample_names: "names_recordable sample_snapshot"
  by (simp add: names_recordable_def sample_snapshot_value empty_snapshot_def)

lemma sample_facts:
  "0 < pr_num_cpu sample_probes" "int64 (pr_num_cpu sample_probes)" "portable_token (pr_goarch sample_probes)"
  "0 \<le> inspect_recorded_at 0 sample_options"
  "inspect_recorded_at 0 sample_options < days_before_year 10000 * nanos_per_day"
proof -
  show "portable_token (pr_goarch sample_probes)" unfolding sample_probes_def by code_simp
qed (simp_all add: sample_probes_def int64_def min_int64_def max_int64_def inspect_recorded_at_def sample_options_def
      days_before_year_def nanos_per_day_def nanos_per_second_def)

theorem inspected_artifact_verifies_witness:
  "\<exists>a. inspect_host 0 sample_options sample_probes = Inr a \<and> ve_valid (verify_artifact a)"
proof -
  obtain a where a: "inspect_host 0 sample_options sample_probes = Inr a" "ar_snapshot a = sample_snapshot"
    using sample_inspection by blast
  have "ve_valid (verify_artifact a)"
    using inspected_artifact_verifies[OF a(1) sample_facts] sample_names[unfolded names_recordable_def] a(2) by simp
  then show ?thesis using a by blast
qed

lemma sample_bookends:
  assumes "inspect_host 0 sample_options sample_probes = Inr a" and "ar_snapshot a = sample_snapshot"
    and "ar_verdict a = ''qualified''"
  shows "bookend_reasons a a = []"
proof -
  note fields = inspected_fields[OF assms(1)]
  have "parse_rfc3339 (format_rfc3339 (inspect_recorded_at 0 sample_options)) = Some (inspect_recorded_at 0 sample_options)"
    using sample_facts by (intro parse_format) simp_all
  then have "canonical_utc (ar_recorded_at a) = Some (inspect_recorded_at 0 sample_options)"
    by (simp add: fields canonical_utc_def format_rfc3339_def has_suffix_def Let_def has_prefix_def)
  moreover have "ve_valid (verify_artifact a)"
    by (rule inspected_valid[OF assms(1) sample_facts(1-3)]) (use assms(2) sample_names sample_facts in simp_all)
  ultimately show ?thesis
    using assms(3) fields same_policy_refl policy_digest_Some stable_class_digest_Some
    unfolding bookend_reasons_Nil by simp
qed

text \<open>C28: Bookends that pass certify the host at both ends: both recordings verify, both snapshots meet every gate of
  the strict policy they share, the stable class of the host is the same, and the first recording is not later than
  the second.\<close>

theorem passed_bookends_certify_host:
  assumes "ba_status (assess_bookends before after) = ''recorded-policy-passed''"
  shows "ve_valid (verify_artifact before) \<and> ve_valid (verify_artifact after) \<and>
    same_policy (ar_policy before) (ar_policy after) \<and>
    po_strict (ar_policy before) \<and> has_gate (ar_policy before) \<and>
    gates_met (ar_snapshot before) (ar_policy before) \<and> gates_met (ar_snapshot after) (ar_policy after) \<and>
    project_stable_host_class (ar_snapshot before) = project_stable_host_class (ar_snapshot after) \<and>
    (\<exists>b a. canonical_utc (ar_recorded_at before) = Some b \<and> canonical_utc (ar_recorded_at after) = Some a \<and> b \<le> a)"
  using assms verified_verdict_gates[of before] verified_verdict_gates[of after]
  unfolding assess_bookends_status bookend_reasons_Nil by blast

theorem passed_bookends_certify_host_witness:
  "\<exists>a. ba_status (assess_bookends a a) = ''recorded-policy-passed'' \<and> gates_met (ar_snapshot a) (ar_policy a)"
proof -
  obtain a where "inspect_host 0 sample_options sample_probes = Inr a" "ar_snapshot a = sample_snapshot"
    "ar_verdict a = ''qualified''"
    using sample_inspection by blast
  then have "ba_status (assess_bookends a a) = ''recorded-policy-passed''"
    using sample_bookends by (simp add: assess_bookends_status)
  then show ?thesis using passed_bookends_certify_host by blast
qed

theorem qualified_inspections_certify_witness:
  "\<exists>a. inspect_host 0 sample_options sample_probes = Inr a \<and>
     ba_status (assess_bookends a a) = ''recorded-policy-passed''"
proof -
  obtain a where a: "inspect_host 0 sample_options sample_probes = Inr a" "ar_snapshot a = sample_snapshot"
    "ar_verdict a = ''qualified''"
    using sample_inspection by blast
  have "ba_status (assess_bookends a a) = ''recorded-policy-passed''"
    by (rule qualified_inspections_certify[OF a(1) a(1) refl sample_facts(1-3) sample_facts(1-3)])
      (use a sample_names sample_facts in simp_all)
  then show ?thesis using a by blast
qed

end
