(* ===== verification/GoCsv.thy ===== *)
theory GoCsv
  imports GoScan
begin

section \<open>Tab separated records: \<open>encoding/csv\<close>\<close>

text \<open>
  The reader of \<open>encoding/csv\<close> with a tab as separator and without lazy quotes. Lines keep their line feed; a
  quoted field may run over several lines. Reading stops at the first record that is malformed or does not have
  the expected number of fields.
\<close>

datatype csv_error = Bare_quote | Bad_quote | Wrong_field_count nat

definition tab :: char where
  "tab = CHR 0x09"

definition double_quote :: char where
  "double_quote = CHR 0x22"

text \<open>The lines of a text with their line feeds; \<open>\r\n\<close> is read as \<open>\n\<close>, and a final \<open>\r\<close> is dropped.\<close>

definition csv_lines :: "string \<Rightarrow> string list" where
  "csv_lines content =
     (let parts = split_on newline content
      in map (\<lambda>l. drop_cr l @ [newline]) (butlast parts) @ (if last parts = [] then [] else [drop_cr (last parts)]))"

definition strip_newline :: "string \<Rightarrow> string" where
  "strip_newline l = (if l \<noteq> [] \<and> last l = newline then butlast l else l)"

lemma cut_shorter: "cut c s = (a, b, True) \<Longrightarrow> length b < length s"
  by (auto simp: cut_found)

text \<open>
  The fields of the record that starts with a line: the fields read so far, the text of the quoted field that is
  open, if one is, the rest of the line, and the lines after it. The result is the fields and the lines left.
\<close>

function csv_fields ::
  "string list \<Rightarrow> string option \<Rightarrow> string \<Rightarrow> string list \<Rightarrow> (csv_error, string list \<times> string list) result" where
  "csv_fields fs None line rest =
     (if line \<noteq> [] \<and> hd line = double_quote then csv_fields fs (Some []) (tl line) rest
      else
        case cut tab line of
          (a, b, found) \<Rightarrow>
            let field = (if found then a else strip_newline line)
            in if double_quote \<in> set field then Inl Bare_quote
               else if found then csv_fields (fs @ [field]) None b rest
               else Inr (fs @ [field], rest))"
| "csv_fields fs (Some opened) line rest =
     (case cut double_quote line of
        (a, b, found) \<Rightarrow>
          if found then
            (if b \<noteq> [] \<and> hd b = double_quote then csv_fields fs (Some (opened @ a @ [double_quote])) (tl b) rest
             else if b \<noteq> [] \<and> hd b = tab then csv_fields (fs @ [opened @ a]) None (tl b) rest
             else if b = [] \<or> b = [newline] then Inr (fs @ [opened @ a], rest)
             else Inl Bad_quote)
          else if line = [] then Inl Bad_quote
          else (case rest of
                  [] \<Rightarrow> csv_fields fs (Some (opened @ line)) [] []
                | l # ls \<Rightarrow> csv_fields fs (Some (opened @ line)) l ls))"
  by pat_completeness auto
termination
  by (relation "measure (\<lambda>(fs, m, line, rest). length line + sum_list (map length rest))")
    (auto dest: cut_shorter cut_shorter[OF sym] simp: neq_Nil_conv)

declare csv_fields.simps [simp del]

lemma csv_fields_rest: "csv_fields fs m line rest = Inr out \<Longrightarrow> length (snd out) \<le> length rest"
proof (induction fs m line rest rule: csv_fields.induct)
  case (1 fs line rest)
  show ?case
  proof (cases "line \<noteq> [] \<and> hd line = double_quote")
    case True
    then show ?thesis using 1 by (simp add: csv_fields.simps(1)[of fs line rest])
  next
    case False
    obtain a b found where c: "cut tab line = (a, b, found)" by (cases "cut tab line")
    show ?thesis
      using False 1(3) 1(2)[OF False c[symmetric] refl refl]
      by (cases found) (simp_all add: csv_fields.simps(1)[of fs line rest] c Let_def split: if_splits, auto)
  qed
next
  case (2 fs opened line rest)
  obtain a b found where c: "cut double_quote line = (a, b, found)" by (cases "cut double_quote line")
  note IH = 2(1)[OF c[symmetric] refl] 2(2)[OF c[symmetric] refl] 2(3)[OF c[symmetric] refl] 2(4)[OF c[symmetric] refl]
  show ?case
  proof (cases found)
    case True
    then show ?thesis
      using 2(5) IH(1,2)
      by (simp add: csv_fields.simps(2)[of fs opened line rest] c split: if_splits) auto
  next
    case False
    show ?thesis
    proof (cases rest)
      case Nil
      then show ?thesis
        using False 2(5) IH(3)
        by (simp add: csv_fields.simps(2)[of fs opened line "[]"] c split: if_splits)
    next
      case (Cons l ls)
      then show ?thesis
        using False 2(5) IH(4)
        by (simp add: csv_fields.simps(2)[of fs opened line "l # ls"] c split: if_splits)
    qed
  qed
qed

definition blank_line :: "string \<Rightarrow> bool" where
  "blank_line l = (l = [] \<or> l = [newline])"

text \<open>The records up to the end or the first error.\<close>

function csv_records :: "nat \<Rightarrow> string list \<Rightarrow> string list list \<times> csv_error option" where
  "csv_records n ls =
     (case dropWhile blank_line ls of
        [] \<Rightarrow> ([], None)
      | line # rest \<Rightarrow>
        (case csv_fields [] None line rest of
           Inl e \<Rightarrow> ([], Some e)
         | Inr (fields, rest') \<Rightarrow>
           if length fields \<noteq> n then ([], Some (Wrong_field_count (length fields)))
           else (case csv_records n rest' of (records, e) \<Rightarrow> (fields # records, e))))"
  by pat_completeness auto
termination
proof (relation "measure (\<lambda>(n, ls). length ls)")
  fix n :: nat and ls line rest x a b
  assume "dropWhile blank_line ls = line # rest" "csv_fields [] None line rest = Inr x" "(a, b) = x"
  then have "length b \<le> length rest" "length (line # rest) \<le> length ls"
    using csv_fields_rest[of "[]" None line rest x] length_dropWhile_le[of blank_line ls] by auto
  then show "((n, b), (n, ls)) \<in> measure (\<lambda>(n, ls). length ls)" by simp
qed simp

declare csv_records.simps [simp del]

subsection \<open>Plain tables read back\<close>

definition plain_field :: "string \<Rightarrow> bool" where
  "plain_field f = (tab \<notin> set f \<and> newline \<notin> set f \<and> double_quote \<notin> set f \<and> CHR 0x0D \<notin> set f)"

definition table_line :: "string list \<Rightarrow> string" where
  "table_line row = join [tab] row @ [newline]"

lemma special_chars [simp]:
  "tab \<noteq> newline" "newline \<noteq> tab" "double_quote \<noteq> tab" "tab \<noteq> double_quote" "double_quote \<noteq> newline"
  "newline \<noteq> double_quote" "tab \<noteq> CHR 0x0D" "newline \<noteq> CHR 0x0D" "CHR 0x0D \<noteq> tab" "CHR 0x0D \<noteq> newline"
  by (simp_all add: tab_def newline_def double_quote_def)

lemma csv_fields_plain:
  "row \<noteq> [] \<Longrightarrow> list_all plain_field row \<Longrightarrow> csv_fields fs None (table_line row) rest = Inr (fs @ row, rest)"
proof (induction row arbitrary: fs rule: induct_list012)
  case (2 f)
  have "cut tab (f @ [newline]) = (f @ [newline], [], False)" using 2 by (simp add: cut_missing plain_field_def)
  moreover have "\<not> hd (f @ [newline]) = double_quote" using 2 by (cases f) (auto simp: plain_field_def)
  ultimately show ?case
    using 2 by (simp add: csv_fields.simps(1)[of fs "f @ [newline]"] table_line_def strip_newline_def plain_field_def)
next
  case (3 f g row)
  have line: "table_line (f # g # row) = f @ tab # table_line (g # row)" by (simp add: table_line_def)
  have "cut tab (f @ tab # table_line (g # row)) = (f, table_line (g # row), True)"
    using 3 by (intro cut_append) (simp add: plain_field_def)
  moreover have "\<not> hd (f @ tab # table_line (g # row)) = double_quote" using 3 by (cases f) (auto simp: plain_field_def)
  ultimately show ?case
    using 3(2)[of "fs @ [f]"] 3 by (simp add: csv_fields.simps(1)[of fs "f @ tab # table_line (g # row)"] line plain_field_def)
qed simp

lemma plain_join: "list_all plain_field row \<Longrightarrow> newline \<notin> set (join [tab] row) \<and> CHR 0x0D \<notin> set (join [tab] row)"
  by (auto simp: list_all_iff plain_field_def dest!: join_in_set)

lemma csv_lines_table:
  "list_all (list_all plain_field) rows \<Longrightarrow> csv_lines (concat (map table_line rows)) = map table_line rows"
proof -
  assume rows: "list_all (list_all plain_field) rows"
  have s: "split_on newline (concat (map table_line rows)) = map (join [tab]) rows @ [[]]"
    using rows by (induction rows) (simp_all add: table_line_def split_on_append plain_join)
  have cr: "drop_cr (join [tab] row) = join [tab] row" if "row \<in> set rows" for row
  proof -
    have "CHR 0x0D \<notin> set (join [tab] row)" using rows that plain_join[of row] by (simp add: list_all_iff)
    then show ?thesis unfolding drop_cr_def by (metis last_in_set)
  qed
  show ?thesis unfolding csv_lines_def s by (simp add: table_line_def cr)
qed

text \<open>A table whose fields need no quoting is read back as it was written.\<close>

lemma csv_records_table:
  assumes "list_all (\<lambda>row. length row = n \<and> list_all plain_field row) rows" and "1 < n"
  shows "csv_records n (csv_lines (concat (map table_line rows))) = (rows, None)"
proof -
  have "csv_records n (map table_line rows) = (rows, None)"
    using assms(1)
  proof (induction rows)
    case Nil
    then show ?case by (simp add: csv_records.simps[of n "[]"])
  next
    case (Cons row rows)
    then obtain f g gs where row: "row = f # g # gs" using assms(2) by (cases row; cases "tl row") auto
    have "tab \<in> set (table_line row)" by (simp add: table_line_def row)
    then have "\<not> blank_line (table_line row)" by (auto simp: blank_line_def)
    then show ?case
      using Cons csv_fields_plain[of row "[]" "map table_line rows"] row
      by (simp add: csv_records.simps[of n "table_line (f # g # gs) # map table_line rows"])
  qed
  moreover have "list_all (list_all plain_field) rows" using assms(1) by (auto simp: list_all_iff)
  ultimately show ?thesis by (simp add: csv_lines_table)
qed

end
