(* ===== verification/BenchmarkSettings.thy ===== *)
theory BenchmarkSettings
  imports GoCsv GoTime GoJson
begin

section \<open>Effective settings of a trial\<close>

text \<open>
  \<^verbatim>\<open>internal/benchmarksettings/settings.go\<close>: which PostgreSQL settings an A/B protocol observes, the reading of
  the table of their effective values, the verification of the retained evidence, and the comparison of two arms.
  The file system is a function from paths to files, which do not change while they are read.
\<close>

subsection \<open>Data\<close>

record source_ref =
  rf_path :: string
  rf_digest :: string
  rf_size :: int

record phase_binding =
  bd_name :: string
  bd_journal_digest :: string
  bd_started_at :: string
  bd_finished_at :: string

record setting =
  st_name :: string
  st_setting :: string
  st_unit :: string
  st_source :: string
  st_pending_restart :: bool
  st_context :: string

record settings_evidence =
  es_schema_version :: string
  es_artifact_type :: string
  es_parser_version :: string
  es_run_id :: string
  es_protocol_digest :: string
  es_trial :: int
  es_captured_at :: string
  es_server_version_num :: string
  es_names :: "string list"
  es_settings :: "setting list"
  es_source :: source_ref
  es_phase :: phase_binding
  es_digest :: string

record expectation =
  xp_run_id :: string
  xp_protocol_digest :: string
  xp_trial :: int
  xp_names :: "string list"
  xp_source :: source_ref
  xp_phase :: phase_binding

record file_entry =
  fi_regular :: bool
  fi_content :: string

type_synonym files = "string \<Rightarrow> file_entry option"

definition settings_schema :: string where
  "settings_schema = ''pgworkbench.benchmark-effective-settings/v1''"

definition settings_artifact :: string where
  "settings_artifact = ''pgworkbench.benchmark-effective-settings''"

definition settings_parser_version :: string where
  "settings_parser_version = ''1.0.0''"

definition settings_source_path :: string where
  "settings_source_path = ''artifacts/benchmark/effective-pg-settings.tsv''"

definition max_source_bytes :: int where
  "max_source_bytes = 1048576"

definition max_settings :: nat where
  "max_settings = 512"

definition source_header :: "string list" where
  "source_header =
     [''run_id'', ''protocol_digest'', ''trial'', ''captured_at'', ''server_version_num'', ''name'', ''setting'',
      ''unit'', ''source'', ''pending_restart'', ''context'']"

datatype settings_error =
    Names_out_of_bounds
  | Name_invalid nat
  | Name_sensitive string
  | Names_unsorted
  | Config_name_invalid nat
  | File_missing string
  | File_unbounded string
  | Expectation_identity
  | Expectation_source
  | Expectation_phase
  | Expectation_interval
  | Source_size_mismatch
  | Source_digest_mismatch
  | Source_header_mismatch
  | Row_unreadable nat csv_error
  | Too_many_rows
  | Row_binding nat
  | Row_captured_at nat
  | Row_version nat
  | Observation_identity
  | Row_incomplete nat
  | Row_pending nat
  | Row_count nat nat
  | Row_names
  | Outside_phase
  | Unsupported_settings
  | Values_mismatch
  | Setting_invalid nat
  | Captured_at_invalid
  | Version_invalid
  | Settings_digest_mismatch

subsection \<open>Setting names\<close>

definition setting_name :: "string \<Rightarrow> bool" where
  "setting_name v =
     (v \<noteq> [] \<and> is_lower (hd v) \<and>
      list_all (\<lambda>c. is_lower c \<or> is_digit c \<or> c = CHR ''_'' \<or> c = CHR ''.'') (tl v))"

definition sensitive_tokens :: "string list" where
  "sensitive_tokens = [''password'', ''passphrase'', ''secret'', ''token'', ''credential'', ''conninfo'']"

definition sensitive_setting_name :: "string \<Rightarrow> bool" where
  "sensitive_setting_name v = (list_ex (contains v) sensitive_tokens \<or> has_suffix v ''_command'')"

fun check_names :: "nat \<Rightarrow> string option \<Rightarrow> string list \<Rightarrow> (settings_error, unit) result" where
  "check_names n previous [] = Inr ()"
| "check_names n previous (v # vs) =
     (if \<not> setting_name v then Inl (Name_invalid (Suc n))
      else if sensitive_setting_name v then Inl (Name_sensitive v)
      else if (case previous of None \<Rightarrow> False | Some p \<Rightarrow> v \<le> p) then Inl Names_unsorted
      else check_names (Suc n) (Some v) vs)"

definition validate_names :: "string list \<Rightarrow> (settings_error, unit) result" where
  "validate_names vs =
     (if vs = [] \<or> length vs > max_settings then Inl Names_out_of_bounds else check_names 0 None vs)"

text \<open>
  White space runes are dropped wherever they are, and the name is then lowered with \<open>strings.ToLower\<close>: besides the
  capitals, the Kelvin sign and the dotted capital I have an ASCII lower case. Every other rune that is not ASCII stays
  outside ASCII, so that the name is refused whatever it becomes. Both passes read runes, so that one scan does them.
\<close>

function fold_name :: "string \<Rightarrow> string" where
  "fold_name s =
     (case strip1 space_encodings s of
        Some t \<Rightarrow> fold_name t
      | None \<Rightarrow>
        (case s of
           [] \<Rightarrow> []
         | c # cs \<Rightarrow>
             if code c = 0xC4 \<and> cs \<noteq> [] \<and> code (hd cs) = 0xB0 then CHR ''i'' # fold_name (tl cs)
             else if code c = 0xE2 \<and> map code (take 2 cs) = [0x84, 0xAA] then CHR ''k'' # fold_name (drop 2 cs)
             else to_lower_char c # fold_name cs))"
  by pat_completeness auto
termination by (relation "measure length") (auto dest: strip1_length)

declare fold_name.simps [simp del]

definition assigned_name :: "string \<Rightarrow> string option" where
  "assigned_name line =
     (let body = trim_space (fst (cut (CHR ''#'') line))
      in if body = [] \<or> CHR ''='' \<notin> set body then None
         else Some (fold_name (fst (cut (CHR ''='') body))))"

fun collect_names :: "nat \<Rightarrow> string list \<Rightarrow> (settings_error, string list) result" where
  "collect_names n [] = Inr []"
| "collect_names n (line # rest) =
     (case assigned_name line of
        None \<Rightarrow> collect_names (Suc n) rest
      | Some v \<Rightarrow>
        if \<not> setting_name v then Inl (Config_name_invalid (Suc n))
        else bind_r (collect_names (Suc n) rest) (\<lambda>vs. Inr (v # vs)))"

definition config_setting_names :: "string \<Rightarrow> (settings_error, string list) result" where
  "config_setting_names content =
     bind_r (collect_names 0 (split_on newline content)) (\<lambda>vs.
       let names = sort (remdups vs)
       in if names = [] then Inr names else bind_r (validate_names names) (\<lambda>_. Inr names))"

definition bounded_file :: "files \<Rightarrow> string \<Rightarrow> (settings_error, string) result" where
  "bounded_file fs path =
     bind_r (of_option (File_missing path) (fs path)) (\<lambda>f.
       if \<not> fi_regular f \<or> fi_content f = [] \<or> int (length (fi_content f)) > max_source_bytes
       then Inl (File_unbounded path) else Inr (fi_content f))"

definition config_setting_names_file :: "files \<Rightarrow> string \<Rightarrow> (settings_error, string list) result" where
  "config_setting_names_file fs path = bind_r (bounded_file fs path) config_setting_names"

definition union_config_setting_names :: "files \<Rightarrow> string list \<Rightarrow> (settings_error, string list) result" where
  "union_config_setting_names fs paths =
     bind_r (traverse (config_setting_names_file fs) paths) (\<lambda>groups.
       let names = sort (remdups (concat groups))
       in bind_r (validate_names names) (\<lambda>_. Inr names))"

subsection \<open>The table of effective values\<close>

definition the_time :: "int option \<Rightarrow> int" where
  "the_time m = (case m of None \<Rightarrow> zero_time | Some t \<Rightarrow> t)"

definition validate_expectation :: "expectation \<Rightarrow> (settings_error, unit) result" where
  "validate_expectation x =
     (if xp_run_id x = [] \<or> xp_trial x \<le> 0 \<or> \<not> is_digest (xp_protocol_digest x) then Inl Expectation_identity
      else bind_r (validate_names (xp_names x)) (\<lambda>_.
        if rf_path (xp_source x) \<noteq> settings_source_path \<or> \<not> is_digest (rf_digest (xp_source x)) \<or>
           rf_size (xp_source x) \<le> 0 \<or> rf_size (xp_source x) > max_source_bytes
        then Inl Expectation_source
        else if bd_name (xp_phase x) \<noteq> ''prepare'' \<or> \<not> is_digest (bd_journal_digest (xp_phase x))
        then Inl Expectation_phase
        else case (parse_utc (bd_started_at (xp_phase x)), parse_utc (bd_finished_at (xp_phase x))) of
               (Some started, Some finished) \<Rightarrow> require (\<not> finished < started) Expectation_interval
             | _ \<Rightarrow> Inl Expectation_interval))"

definition parse_postgres_bool :: "string \<Rightarrow> bool option" where
  "parse_postgres_bool v = (if v = ''t'' then Some True else if v = ''f'' then Some False else None)"

definition server_version :: "string \<Rightarrow> bool" where
  "server_version v =
     (case parse_int64 v of None \<Rightarrow> False | Some n \<Rightarrow> 10000 \<le> n \<and> show_int n = v)"

text \<open>What the rows read so far share, as the loop carries it: captured at, server version, settings.\<close>

record table_state =
  ta_captured_at :: string
  ta_server_version :: string
  ta_settings :: "setting list"

definition setting_of_row :: "string list \<Rightarrow> bool \<Rightarrow> setting" where
  "setting_of_row row pending =
     \<lparr>st_name = row ! 5, st_setting = row ! 6, st_unit = row ! 7, st_source = row ! 8,
      st_pending_restart = pending, st_context = row ! 10\<rparr>"

definition parse_setting_row ::
  "expectation \<Rightarrow> nat \<Rightarrow> table_state \<Rightarrow> string list \<Rightarrow> (settings_error, table_state) result" where
  "parse_setting_row x n s row =
     (if length (ta_settings s) \<ge> max_settings then Inl Too_many_rows
      else if parse_int64 (row ! 2) \<noteq> Some (xp_trial x) \<or> row ! 0 \<noteq> xp_run_id x \<or> row ! 1 \<noteq> xp_protocol_digest x
      then Inl (Row_binding n)
      else bind_r (of_option (Row_captured_at n) (parse_utc (row ! 3))) (\<lambda>observed_time.
        let normalized = format_rfc3339 observed_time
        in if \<not> server_version (row ! 4) then Inl (Row_version n)
           else if ta_captured_at s \<noteq> [] \<and> (ta_captured_at s \<noteq> normalized \<or> ta_server_version s \<noteq> row ! 4)
           then Inl Observation_identity
           else if \<not> setting_name (row ! 5) \<or> row ! 8 = [] \<or> row ! 10 = [] then Inl (Row_incomplete n)
           else bind_r (of_option (Row_pending n) (parse_postgres_bool (row ! 9))) (\<lambda>pending.
             Inr \<lparr>ta_captured_at = normalized, ta_server_version = row ! 4,
                  ta_settings = ta_settings s @ [setting_of_row row pending]\<rparr>)))"

fun parse_setting_rows ::
  "expectation \<Rightarrow> nat \<Rightarrow> table_state \<Rightarrow> string list list \<Rightarrow> csv_error option \<Rightarrow>
     (settings_error, table_state) result" where
  "parse_setting_rows x n s [] e = (case e of None \<Rightarrow> Inr s | Some c \<Rightarrow> Inl (Row_unreadable n c))"
| "parse_setting_rows x n s (row # rows) e =
     bind_r (parse_setting_row x n s row) (\<lambda>s'. parse_setting_rows x (Suc n) s' rows e)"

subsection \<open>The evidence\<close>

definition setting_json :: "setting \<Rightarrow> string" where
  "setting_json s =
     json_object
      [(''name'', json_string (st_name s)), (''setting'', json_string (st_setting s)),
       (''unit'', json_string (st_unit s)), (''source'', json_string (st_source s)),
       (''pending_restart'', if st_pending_restart s then ''true'' else ''false''),
       (''context'', json_string (st_context s))]"

definition json_array :: "string list \<Rightarrow> string" where
  "json_array items = ''['' @ join '','' items @ '']''"

definition evidence_json :: "settings_evidence \<Rightarrow> string" where
  "evidence_json v =
     json_object
      [(''schema_version'', json_string (es_schema_version v)), (''artifact_type'', json_string (es_artifact_type v)),
       (''parser_version'', json_string (es_parser_version v)), (''run_id'', json_string (es_run_id v)),
       (''protocol_digest'', json_string (es_protocol_digest v)), (''trial'', show_int (es_trial v)),
       (''captured_at'', json_string (es_captured_at v)),
       (''server_version_num'', json_string (es_server_version_num v)),
       (''names'', json_array (map json_string (es_names v))),
       (''settings'', json_array (map setting_json (es_settings v))),
       (''source'', json_object [(''path'', json_string (rf_path (es_source v))),
          (''digest'', json_string (rf_digest (es_source v))), (''size'', show_int (rf_size (es_source v)))]),
       (''phase'', json_object [(''name'', json_string (bd_name (es_phase v))),
          (''journal_digest'', json_string (bd_journal_digest (es_phase v))),
          (''started_at'', json_string (bd_started_at (es_phase v))),
          (''finished_at'', json_string (bd_finished_at (es_phase v)))]),
       (''digest'', json_string (es_digest v))]"

definition settings_digest :: "settings_evidence \<Rightarrow> string" where
  "settings_digest v = digest_bytes (evidence_json (v\<lparr>es_digest := []\<rparr>))"

definition evidence_of_table :: "expectation \<Rightarrow> table_state \<Rightarrow> settings_evidence" where
  "evidence_of_table x s =
     \<lparr>es_schema_version = settings_schema, es_artifact_type = settings_artifact,
      es_parser_version = settings_parser_version, es_run_id = xp_run_id x,
      es_protocol_digest = xp_protocol_digest x, es_trial = xp_trial x, es_captured_at = ta_captured_at s,
      es_server_version_num = ta_server_version s, es_names = xp_names x, es_settings = ta_settings s,
      es_source = xp_source x, es_phase = xp_phase x, es_digest = []\<rparr>"

definition parse_table :: "string \<Rightarrow> expectation \<Rightarrow> (settings_error, table_state) result" where
  "parse_table content x =
     (case csv_records (length source_header) (csv_lines content) of
        ([], e) \<Rightarrow> Inl Source_header_mismatch
      | (header # rows, e) \<Rightarrow>
        if header \<noteq> source_header then Inl Source_header_mismatch
        else parse_setting_rows x 2 \<lparr>ta_captured_at = [], ta_server_version = [], ta_settings = []\<rparr> rows e)"

definition parse_settings_file :: "files \<Rightarrow> string \<Rightarrow> expectation \<Rightarrow> (settings_error, settings_evidence) result" where
  "parse_settings_file fs path x =
     bind_r (validate_expectation x) (\<lambda>_.
     bind_r (bounded_file fs path) (\<lambda>content.
       if int (length content) \<noteq> rf_size (xp_source x) then Inl Source_size_mismatch
       else if digest_bytes content \<noteq> rf_digest (xp_source x) then Inl Source_digest_mismatch
       else bind_r (parse_table content x) (\<lambda>s.
         if length (ta_settings s) \<noteq> length (xp_names x)
         then Inl (Row_count (length (ta_settings s)) (length (xp_names x)))
         else if map st_name (ta_settings s) \<noteq> xp_names x then Inl Row_names
         else
           let captured = the_time (parse_rfc3339 (ta_captured_at s));
               started = the_time (parse_rfc3339 (bd_started_at (xp_phase x)));
               finished = the_time (parse_rfc3339 (bd_finished_at (xp_phase x)))
           in if captured < started \<or> finished < captured then Inl Outside_phase
              else let v = evidence_of_table x s in Inr (v\<lparr>es_digest := settings_digest v\<rparr>))))"

fun check_settings :: "nat \<Rightarrow> string list \<Rightarrow> setting list \<Rightarrow> (settings_error, unit) result" where
  "check_settings n (v # vs) (s # ss) =
     (if st_name s \<noteq> v \<or> st_source s = [] \<or> st_context s = [] then Inl (Setting_invalid (Suc n))
      else check_settings (Suc n) vs ss)"
| "check_settings n vs ss = Inr ()"

definition verify_settings :: "settings_evidence \<Rightarrow> (settings_error, unit) result" where
  "verify_settings v =
     (if es_schema_version v \<noteq> settings_schema \<or> es_artifact_type v \<noteq> settings_artifact \<or>
         es_parser_version v \<noteq> settings_parser_version
      then Inl Unsupported_settings
      else
        bind_r (validate_expectation
          \<lparr>xp_run_id = es_run_id v, xp_protocol_digest = es_protocol_digest v, xp_trial = es_trial v,
           xp_names = es_names v, xp_source = es_source v, xp_phase = es_phase v\<rparr>) (\<lambda>_.
        if length (es_settings v) \<noteq> length (es_names v) then Inl Values_mismatch
        else bind_r (check_settings 0 (es_names v) (es_settings v)) (\<lambda>_.
        bind_r (of_option Captured_at_invalid (parse_utc (es_captured_at v))) (\<lambda>captured.
          if captured < the_time (parse_utc (bd_started_at (es_phase v))) \<or>
             the_time (parse_utc (bd_finished_at (es_phase v))) < captured
          then Inl Outside_phase
          else if \<not> server_version (es_server_version_num v) then Inl Version_invalid
          else require (settings_digest v = es_digest v) Settings_digest_mismatch))))"

subsection \<open>Comparing two arms\<close>

definition equivalent_settings :: "settings_evidence \<Rightarrow> settings_evidence \<Rightarrow> bool" where
  "equivalent_settings l r =
     (if es_server_version_num l \<noteq> es_server_version_num r \<or> es_names l \<noteq> es_names r \<or>
         length (es_settings l) \<noteq> length (es_settings r)
      then False else list_all2 (=) (es_settings l) (es_settings r))"

definition effective_difference_names :: "settings_evidence \<Rightarrow> settings_evidence \<Rightarrow> string list" where
  "effective_difference_names l r =
     (if es_names l \<noteq> es_names r \<or> length (es_settings l) \<noteq> length (es_settings r) then []
      else map (\<lambda>i. es_names l ! i)
             (filter (\<lambda>i. st_setting (es_settings l ! i) \<noteq> st_setting (es_settings r ! i) \<or>
                          st_unit (es_settings l ! i) \<noteq> st_unit (es_settings r ! i))
               [0..<length (es_settings l)]))"

subsection \<open>Which names are observed\<close>

definition names_ready :: "string list \<Rightarrow> bool" where
  "names_ready vs =
     (vs \<noteq> [] \<and> length vs \<le> max_settings \<and> sorted_wrt (<) vs \<and>
      list_all (\<lambda>v. setting_name v \<and> \<not> sensitive_setting_name v) vs)"

lemma check_names_ok:
  "check_names n previous vs = Inr u \<longleftrightarrow>
     list_all (\<lambda>v. setting_name v \<and> \<not> sensitive_setting_name v) vs \<and> successively (<) vs \<and>
     (vs \<noteq> [] \<longrightarrow> (case previous of None \<Rightarrow> True | Some p \<Rightarrow> p < hd vs))"
  by (induction n previous vs rule: check_names.induct)
    (auto simp: successively_Cons not_le split: option.splits)

lemma validate_names_ok [result_simps]: "validate_names vs = Inr u \<longleftrightarrow> names_ready vs"
  by (auto simp: validate_names_def names_ready_def check_names_ok successively_conv_sorted_wrt)

lemma collect_names_ok [result_simps]:
  "collect_names n ls = Inr vs \<longleftrightarrow> vs = List.map_filter assigned_name ls \<and> list_all setting_name vs"
  by (induction n ls arbitrary: vs rule: collect_names.induct)
    (auto simp: result_simps map_filter_simps split: option.splits)

text \<open>The assignments of a configuration file.\<close>

definition assigned_names :: "string \<Rightarrow> string list" where
  "assigned_names content = List.map_filter assigned_name (split_on newline content)"

lemma config_setting_names_ok [result_simps]:
  "config_setting_names content = Inr names \<longleftrightarrow>
     names = sort (remdups (assigned_names content)) \<and> list_all setting_name (assigned_names content) \<and>
     (names = [] \<or> names_ready names)"
  by (auto simp: config_setting_names_def assigned_names_def Let_def result_simps)

lemma config_setting_names_set: "config_setting_names content = Inr names \<Longrightarrow> set names = set (assigned_names content)"
  unfolding config_setting_names_ok by (metis set_remdups set_sort)

lemma strip1_solid_Cons: "solid c \<Longrightarrow> strip1 space_encodings (c # s) = None"
  using hd_space_encoding by (intro strip1_None) fastforce

lemma fold_name_Nil [simp]: "fold_name [] = []"
  by (simp add: fold_name.simps[of "[]"] strip1_None_iff[THEN iffD2])

lemma fold_name_solid: "list_all (\<lambda>c. solid c \<and> code c < 128) s \<Longrightarrow> fold_name s = map to_lower_char s"
  by (induction s) (auto simp: fold_name.simps[of "_ # _"] strip1_solid_Cons)

subsection \<open>What an assignment is\<close>

text \<open>The name that a text spells: white space dropped and capitals lowered, among them the two that are not ASCII.\<close>

inductive spells :: "string \<Rightarrow> string \<Rightarrow> bool" where
  spells_nil: "spells [] []"
| spells_space: "w \<in> set space_encodings \<Longrightarrow> spells s v \<Longrightarrow> spells (w @ s) v"
| spells_char: "code c < 128 \<Longrightarrow> [c] \<notin> set space_encodings \<Longrightarrow> spells s v \<Longrightarrow> spells (c # s) (to_lower_char c # v)"
| spells_dotted: "code a = 0xC4 \<Longrightarrow> code b = 0xB0 \<Longrightarrow> spells s v \<Longrightarrow> spells (a # b # s) (CHR ''i'' # v)"
| spells_kelvin: "code a = 0xE2 \<Longrightarrow> code b = 0x84 \<Longrightarrow> code c = 0xAA \<Longrightarrow> spells s v \<Longrightarrow> spells (a # b # c # s) (CHR ''k'' # v)"

lemma strip1_Some: "strip1 encs s = Some t \<Longrightarrow> \<exists>w\<in>set encs. w \<noteq> [] \<and> s = w @ t"
  by (auto simp: strip1_def find_Some_iff split: option.splits) (metis append_take_drop_id nth_mem)

text \<open>The first byte of an encoding tells its length.\<close>

lemma encodings_length:
  "list_all (\<lambda>w. w \<noteq> [] \<and> length w = (if code (hd w) < 128 then 1 else if code (hd w) = 0xC2 then 2 else 3)) space_encodings"
  by code_simp

lemma encodings_ascii: "list_all (\<lambda>w. code (hd w) < 128 \<longrightarrow> w = [hd w]) space_encodings"
  "list_all (\<lambda>w. code (hd w) \<noteq> 0xC4 \<and> (code (hd w) = 0xE2 \<longrightarrow> w \<noteq> [] \<and> tl w \<noteq> [] \<and> code (hd (tl w)) \<noteq> 0x84)) space_encodings"
  by code_simp+

lemma strip1_encoding:
  assumes "w \<in> set space_encodings"
  shows "strip1 space_encodings (w @ s) = Some s"
proof (cases "strip1 space_encodings (w @ s)")
  case None
  then have "w = [] \<or> take (length w) (w @ s) \<noteq> w" using assms unfolding strip1_None_iff by blast
  then show ?thesis using assms encodings_length by (auto simp: list_all_iff)
next
  case (Some t)
  then obtain v where v: "v \<in> set space_encodings" "w @ s = v @ t" using strip1_Some by blast
  have "v \<noteq> [] \<and> w \<noteq> []" "hd v = hd w \<Longrightarrow> length v = length w"
    using assms v(1) encodings_length by (fastforce simp: list_all_iff)+
  moreover have "hd v = hd w" using v(2) calculation(1) by (metis hd_append2)
  ultimately have "v = w" using v(2) by (metis append_eq_append_conv)
  then show ?thesis using Some v(2) by simp
qed

lemma spells_fold: "spells s v \<Longrightarrow> fold_name s = v"
proof (induction rule: spells.induct)
  case (spells_space w s v)
  then show ?case using strip1_encoding by (simp add: fold_name.simps[of "w @ s"])
next
  case (spells_char c s v)
  have "strip1 space_encodings (c # s) = None"
    using spells_char.hyps encodings_ascii(1) by (intro strip1_None) (auto simp: list_all_iff)
  then show ?case using spells_char by (simp add: fold_name.simps[of "c # s"])
next
  case (spells_dotted a b s v)
  then have "strip1 space_encodings (a # b # s) = None"
    using encodings_ascii(2) by (intro strip1_None) (auto simp: list_all_iff)
  then show ?case using spells_dotted by (simp add: fold_name.simps[of "a # b # s"])
next
  case (spells_kelvin a b c s v)
  have "take (length w) (a # b # c # s) \<noteq> w" if "w \<in> set space_encodings" for w
  proof
    assume t: "take (length w) (a # b # c # s) = w"
    have e: "w \<noteq> []" "code (hd w) = 0xE2 \<Longrightarrow> tl w \<noteq> [] \<and> code (hd (tl w)) \<noteq> 0x84"
      using that encodings_length encodings_ascii(2) by (auto simp: list_all_iff)
    obtain x xs where w: "w = x # xs" using e(1) by (meson list.exhaust)
    have "x = a" using t by (simp add: w)
    with e(2) spells_kelvin.hyps(1) obtain y ys where "xs = y # ys" by (auto simp: w neq_Nil_conv)
    with t e(2) spells_kelvin.hyps(1,2) show False by (auto simp: w)
  qed
  then have "strip1 space_encodings (a # b # c # s) = None" unfolding strip1_None_iff by blast
  then show ?case using spells_kelvin by (simp add: fold_name.simps[of "a # b # c # s"])
qed simp

lemma to_lower_ascii: "code (to_lower_char c) < 128 \<longleftrightarrow> code c < 128"
  by (auto simp: to_lower_char_def is_upper_def code_def)

lemma fold_spells: "list_all (\<lambda>c. code c < 128) (fold_name s) \<Longrightarrow> spells s (fold_name s)"
proof (induction s rule: fold_name.induct)
  case (1 s)
  show ?case
  proof (cases "strip1 space_encodings s")
    case (Some t)
    then have "fold_name s = fold_name t" by (simp add: fold_name.simps[of s])
    moreover obtain w where "w \<in> set space_encodings" "s = w @ t" using strip1_Some[OF Some] by blast
    ultimately show ?thesis using 1(4)[OF Some] 1(5) by (auto intro: spells_space)
  next
    case None
    note step = fold_name.simps[of s, unfolded None option.case]
    show ?thesis
    proof (cases s)
      case (Cons c cs)
      consider (dotted) "code c = 0xC4 \<and> cs \<noteq> [] \<and> code (hd cs) = 0xB0"
        | (kelvin) "\<not> (code c = 0xC4 \<and> cs \<noteq> [] \<and> code (hd cs) = 0xB0)" "code c = 0xE2 \<and> map code (take 2 cs) = [0x84, 0xAA]"
        | (other) "\<not> (code c = 0xC4 \<and> cs \<noteq> [] \<and> code (hd cs) = 0xB0)" "\<not> (code c = 0xE2 \<and> map code (take 2 cs) = [0x84, 0xAA])"
        by blast
      then show ?thesis
      proof cases
        case dotted
        then have "fold_name s = CHR ''i'' # fold_name (tl cs)" using step Cons by simp
        then show ?thesis using 1(1)[OF None Cons dotted] 1(5) dotted Cons
          by (cases cs) (auto intro: spells_dotted)
      next
        case kelvin
        then have "fold_name s = CHR ''k'' # fold_name (drop 2 cs)"
          using step kelvin unfolding Cons by simp
        moreover obtain a b rest where "cs = a # b # rest" "code a = 0x84" "code b = 0xAA"
          using kelvin(2) by (cases cs; cases "tl cs") (auto simp: numeral_2_eq_2)
        ultimately show ?thesis using 1(2)[OF None Cons kelvin] 1(5) kelvin Cons by (auto intro: spells_kelvin)
      next
        case other
        then have "fold_name s = to_lower_char c # fold_name cs"
          using step unfolding Cons list.case if_not_P[OF other(1)] if_not_P[OF other(2)] by blast
        moreover have "[c] \<notin> set space_encodings" using None Cons unfolding strip1_None_iff by fastforce
        ultimately show ?thesis using 1(3)[OF None Cons other] 1(5) Cons to_lower_ascii
          by (auto intro: spells_char)
      qed
    qed (simp add: spells_nil)
  qed
qed

text \<open>Trimming changes neither whether a line assigns nor what.\<close>

lemma fold_name_strip: "strip1 space_encodings s = Some t \<Longrightarrow> fold_name s = fold_name t"
  by (simp add: fold_name.simps[of s])

lemma equals_not_space: "w \<in> set space_encodings \<Longrightarrow> CHR ''='' \<notin> set w"
proof -
  have "list_all (\<lambda>w. CHR ''='' \<notin> set w) space_encodings" by code_simp
  then show "w \<in> set space_encodings \<Longrightarrow> CHR ''='' \<notin> set w" by (auto simp: list_all_iff)
qed

lemma trim_left_equals:
  "CHR ''='' \<notin> set a \<Longrightarrow> \<exists>a'. trim_left (a @ CHR ''='' # b) = a' @ CHR ''='' # b \<and> CHR ''='' \<notin> set a' \<and> fold_name a' = fold_name a"
proof (induction a rule: length_induct)
  case (1 a)
  let ?s = "a @ CHR ''='' # b"
  have step: "trim_left ?s = (case strip1 space_encodings ?s of None \<Rightarrow> ?s | Some t \<Rightarrow> trim_left t)"
    by (simp add: trim_left_def strip_all.simps[of _ ?s] split: option.splits)
  show ?case
  proof (cases "strip1 space_encodings ?s")
    case (Some t)
    obtain w where w: "w \<in> set space_encodings" "w \<noteq> []" "?s = w @ t" using strip1_Some[OF Some] by blast
    obtain a' where a: "a = w @ a'" "t = a' @ CHR ''='' # b"
      using w(3) equals_not_space[OF w(1)] by (auto simp: append_eq_append_conv2 Cons_eq_append_conv)
    then have "fold_name a = fold_name a'" using strip1_encoding[OF w(1)] fold_name_strip by metis
    moreover have "length a' < length a" "CHR ''='' \<notin> set a'" using a(1) w(2) 1(2) by auto
    ultimately show ?thesis using 1(1) step Some a(2) by auto
  qed (use 1 step in auto)
qed

lemma trim_right_equals: "\<exists>b'. trim_right (a @ CHR ''='' # b) = a @ CHR ''='' # b'"
proof (induction b rule: length_induct)
  case (1 b)
  let ?s = "a @ CHR ''='' # b" and ?e = "map rev space_encodings"
  have step: "trim_right ?s = (case strip1 ?e (rev ?s) of None \<Rightarrow> ?s | Some t \<Rightarrow> trim_right (rev t))"
    by (simp add: trim_right_def strip_all.simps[of _ "rev b @ CHR ''='' # rev a"] split: option.splits)
  show ?case
  proof (cases "strip1 ?e (rev ?s)")
    case (Some t)
    obtain w where w: "w \<in> set space_encodings" "w \<noteq> []" "rev ?s = rev w @ t" using strip1_Some[OF Some] by auto
    then have "?s = rev t @ w" by (metis rev_append rev_rev_ident)
    then obtain b' where b: "b = b' @ w" "rev t = a @ CHR ''='' # b'"
      using equals_not_space[OF w(1)] by (auto simp: append_eq_append_conv2 Cons_eq_append_conv append_eq_Cons_conv)
    then have "length b' < length b" using w(2) by simp
    then show ?thesis using 1 step Some b(2) by auto
  qed (use step in auto)
qed

lemma trim_space_subset: "set (trim_space s) \<subseteq> set s"
proof -
  have l: "set (trim_left t) \<subseteq> set t" for t
    using strip_all_suffix[of t space_encodings] by (metis set_append sup_ge2 trim_left_def)
  have "set (trim_right t) \<subseteq> set t" for t
    using strip_all_suffix[of "rev t" "map rev space_encodings"] by (metis set_append set_rev sup_ge2 trim_right_def)
  from this[of "trim_left s"] l[of s] show ?thesis by (auto simp: trim_space_def)
qed

lemma assigned_name_parts:
  "assigned_name line = Some v \<longleftrightarrow>
     (\<exists>left right. line = left @ ''='' @ right \<and> CHR ''#'' \<notin> set left \<and> CHR ''='' \<notin> set left \<and> v = fold_name left)"
proof -
  obtain code comment where body: "fst (cut (CHR ''#'') line) = code" "CHR ''#'' \<notin> set code"
    "line = code \<or> line = code @ CHR ''#'' # comment"
    by (rule cut_cases[of line "CHR ''#''"]) auto
  show ?thesis
  proof (cases "CHR ''='' \<in> set code")
    case True
    then obtain a b where ab: "code = a @ CHR ''='' # b" "CHR ''='' \<notin> set a" by (metis split_list_first)
    obtain a' where a': "trim_left code = a' @ CHR ''='' # b" "CHR ''='' \<notin> set a'" "fold_name a' = fold_name a"
      using trim_left_equals[OF ab(2)] ab(1) by blast
    then obtain b' where "trim_space code = a' @ CHR ''='' # b'"
      using trim_right_equals by (metis trim_space_def)
    then have "assigned_name line = Some (fold_name a)"
      using a' by (simp add: assigned_name_def Let_def body(1) cut_append)
    moreover have "left = a" if "line = left @ ''='' @ right" "CHR ''='' \<notin> set left" for left right
    proof -
      have "line = a @ CHR ''='' # b \<or> line = a @ CHR ''='' # (b @ CHR ''#'' # comment)" using body(3) ab(1) by auto
      then have "fst (cut (CHR ''='') line) = a" using cut_append[OF ab(2)] by auto
      then show ?thesis using cut_append[OF that(2)] that(1) by auto
    qed
    moreover have "\<exists>right. line = a @ ''='' @ right" using body(3) ab(1) by auto
    moreover have "CHR ''#'' \<notin> set a" using body(2) ab(1) by auto
    ultimately show ?thesis using ab(2) by auto
  next
    case False
    then have "assigned_name line = None"
      using trim_space_subset[of code] by (auto simp: assigned_name_def Let_def body(1))
    moreover have False if "line = left @ ''='' @ right" "CHR ''#'' \<notin> set left" for left right
    proof -
      have "fst (cut (CHR ''#'') line) = left @ CHR ''='' # fst (cut (CHR ''#'') right)"
        using that by (induction left arbitrary: line) (auto simp: split: prod.splits)
      then show False using False body(1) by simp
    qed
    ultimately show ?thesis by auto
  qed
qed

text \<open>A content assigns a name: one of its lines has, before any comment, a first equals sign, and what stands before
  that spells the name. The last line counts although nothing ends it.\<close>

definition assigns :: "string \<Rightarrow> string \<Rightarrow> bool" where
  "assigns content v =
     (\<exists>line\<in>set (split_on newline content). \<exists>left right.
        line = left @ ''='' @ right \<and> CHR ''#'' \<notin> set left \<and> CHR ''='' \<notin> set left \<and> spells left v)"

lemma setting_name_ascii: "setting_name v \<Longrightarrow> list_all (\<lambda>c. code c < 128) v"
  by (cases v) (auto simp: setting_name_def is_lower_def is_digit_def code_def list_all_iff)

lemma assigned_names_assigns:
  assumes "list_all setting_name (assigned_names content)"
  shows "set (assigned_names content) = {v. assigns content v}"
proof -
  have "v \<in> set (assigned_names content) \<longleftrightarrow>
      (\<exists>line\<in>set (split_on newline content). assigned_name line = Some v)" for v
    by (force simp: assigned_names_def List.map_filter_def)
  then have m: "v \<in> set (assigned_names content) \<longleftrightarrow>
      (\<exists>line\<in>set (split_on newline content). \<exists>left right.
        line = left @ ''='' @ right \<and> CHR ''#'' \<notin> set left \<and> CHR ''='' \<notin> set left \<and> v = fold_name left)" for v
    unfolding assigned_name_parts .
  have "spells left (fold_name left)" if "fold_name left \<in> set (assigned_names content)" for left
    using that assms setting_name_ascii fold_spells by (auto simp: list_all_iff)
  then have "v \<in> set (assigned_names content) \<longleftrightarrow> assigns content v" for v
    unfolding assigns_def using m[of v] spells_fold by metis
  then show ?thesis by blast
qed

subsection \<open>The names of several configurations\<close>

lemma bounded_file_ok [result_simps]:
  "bounded_file fs path = Inr content \<longleftrightarrow>
     (\<exists>f. fs path = Some f \<and> fi_regular f \<and> fi_content f = content \<and> content \<noteq> [] \<and>
          int (length content) \<le> max_source_bytes)"
  by (auto simp: bounded_file_def result_simps)

lemma union_names:
  assumes "union_config_setting_names fs paths = Inr names"
  shows "names_ready names \<and>
    set names = (\<Union>path\<in>set paths. set (assigned_names (fi_content (the (fs path))))) \<and>
    (\<forall>path\<in>set paths. \<exists>f. fs path = Some f \<and> fi_regular f)"
proof -
  obtain groups where g: "traverse (config_setting_names_file fs) paths = Inr groups"
    and names: "names = sort (remdups (concat groups))" "names_ready names"
    using assms by (auto simp: union_config_setting_names_def Let_def result_simps)
  have "list_all2 (\<lambda>path group. (\<exists>f. fs path = Some f \<and> fi_regular f) \<and>
      set group = set (assigned_names (fi_content (the (fs path))))) paths groups"
    using g unfolding traverse_Inr
    by (rule list_all2_mono)
      (auto simp: config_setting_names_file_def bind_r_Inr bounded_file_ok dest: config_setting_names_set)
  then have "(\<forall>path\<in>set paths. \<exists>f. fs path = Some f \<and> fi_regular f) \<and>
      set (concat groups) = (\<Union>path\<in>set paths. set (assigned_names (fi_content (the (fs path)))))"
    by (induction rule: list_all2_induct) auto
  then show ?thesis using names by simp
qed

lemma union_assigned:
  assumes "union_config_setting_names fs paths = Inr names"
  shows "set names = {v. \<exists>path\<in>set paths. assigns (fi_content (the (fs path))) v}"
proof -
  obtain groups where "traverse (config_setting_names_file fs) paths = Inr groups"
    using assms by (auto simp: union_config_setting_names_def Let_def result_simps)
  then have "list_all2 (\<lambda>path group. config_setting_names_file fs path = Inr group) paths groups" by (simp only: traverse_Inr)
  then have "\<forall>path\<in>set paths. list_all setting_name (assigned_names (fi_content (the (fs path))))"
    by (induction rule: list_all2_induct)
      (auto simp: config_setting_names_file_def bind_r_Inr bounded_file_ok config_setting_names_ok)
  then show ?thesis using union_names[OF assms] assigned_names_assigns by blast
qed

subsection \<open>What is parsed verifies\<close>

definition complete_setting :: "setting \<Rightarrow> bool" where
  "complete_setting s = (st_source s \<noteq> [] \<and> st_context s \<noteq> [])"

definition table_ok :: "table_state \<Rightarrow> bool" where
  "table_ok s =
     (list_all complete_setting (ta_settings s) \<and>
      (ta_settings s \<noteq> [] \<longrightarrow> server_version (ta_server_version s) \<and> parse_utc (ta_captured_at s) \<noteq> None))"

lemma parse_setting_row_keeps:
  "parse_setting_row x n s row = Inr s' \<Longrightarrow> table_ok s \<Longrightarrow> table_ok s'"
  by (auto simp: parse_setting_row_def table_ok_def complete_setting_def setting_of_row_def Let_def result_simps
      parse_utc_format split: if_splits)

lemma parse_setting_rows_keep:
  "parse_setting_rows x n s rows e = Inr s' \<Longrightarrow> table_ok s \<Longrightarrow> table_ok s'"
  by (induction x n s rows e rule: parse_setting_rows.induct)
    (auto simp: result_simps split: option.splits dest: parse_setting_row_keeps)

lemma parse_table_ok: "parse_table content x = Inr s \<Longrightarrow> table_ok s"
  by (auto simp: parse_table_def table_ok_def split: list.splits prod.splits if_splits
      dest!: parse_setting_rows_keep)

lemma check_settings_ok:
  "length vs = length ss \<Longrightarrow>
     check_settings n vs ss = Inr u \<longleftrightarrow> map st_name ss = vs \<and> list_all complete_setting ss"
  by (induction n vs ss rule: check_settings.induct) (auto simp: complete_setting_def)

lemma validate_expectation_ok:
  "validate_expectation x = Inr u \<Longrightarrow>
     names_ready (xp_names x) \<and> (\<exists>started. parse_utc (bd_started_at (xp_phase x)) = Some started) \<and>
     (\<exists>finished. parse_utc (bd_finished_at (xp_phase x)) = Some finished)"
  by (auto simp: validate_expectation_def result_simps split: if_splits option.splits)

lemma parsed_settings_verify:
  assumes "parse_settings_file fs path x = Inr v"
  shows "verify_settings v = Inr ()"
proof -
  obtain content s where
    e: "validate_expectation x = Inr ()" and s: "parse_table content x = Inr s"
    and names: "length (ta_settings s) = length (xp_names x)" "map st_name (ta_settings s) = xp_names x"
    and time: "\<not> the_time (parse_rfc3339 (ta_captured_at s)) < the_time (parse_rfc3339 (bd_started_at (xp_phase x)))"
      "\<not> the_time (parse_rfc3339 (bd_finished_at (xp_phase x))) < the_time (parse_rfc3339 (ta_captured_at s))"
    and v: "v = (evidence_of_table x s)\<lparr>es_digest := settings_digest (evidence_of_table x s)\<rparr>"
    using assms by (auto simp: parse_settings_file_def Let_def result_simps split: if_splits)
  obtain started finished where
    p: "parse_utc (bd_started_at (xp_phase x)) = Some started" "parse_utc (bd_finished_at (xp_phase x)) = Some finished"
    and "xp_names x \<noteq> []"
    using validate_expectation_ok[OF e] by (auto simp: names_ready_def)
  then have "ta_settings s \<noteq> []" using names(2) by auto
  then obtain captured where
    ok: "list_all complete_setting (ta_settings s)" "server_version (ta_server_version s)"
      "parse_utc (ta_captured_at s) = Some captured"
    using parse_table_ok[OF s] by (auto simp: table_ok_def)
  have x: "\<lparr>xp_run_id = xp_run_id x, xp_protocol_digest = xp_protocol_digest x, xp_trial = xp_trial x,
      xp_names = xp_names x, xp_source = xp_source x, xp_phase = xp_phase x\<rparr> = x"
    by simp
  have fields: "es_schema_version v = settings_schema" "es_artifact_type v = settings_artifact"
    "es_parser_version v = settings_parser_version" "es_run_id v = xp_run_id x"
    "es_protocol_digest v = xp_protocol_digest x" "es_trial v = xp_trial x" "es_names v = xp_names x"
    "es_source v = xp_source x" "es_phase v = xp_phase x" "es_settings v = ta_settings s"
    "es_captured_at v = ta_captured_at s" "es_server_version_num v = ta_server_version s"
    by (simp_all add: v evidence_of_table_def)
  have digest: "settings_digest v = es_digest v"
    by (simp add: v settings_digest_def evidence_of_table_def)
  have checks: "check_settings 0 (xp_names x) (ta_settings s) = Inr ()"
    using check_settings_ok[of "xp_names x" "ta_settings s" 0 "()"] names ok(1) by simp
  show ?thesis
    unfolding verify_settings_def fields x
    using e names(1) checks ok p time digest
    by (simp add: require_def the_time_def of_option_def parse_utc_instant)
qed

lemma parsed_settings_bound:
  assumes "parse_settings_file fs path x = Inr v"
  shows "\<exists>f. fs path = Some f \<and> fi_regular f \<and> digest_bytes (fi_content f) = rf_digest (xp_source x) \<and>
    es_run_id v = xp_run_id x \<and> es_protocol_digest v = xp_protocol_digest x \<and> es_trial v = xp_trial x \<and>
    map st_name (es_settings v) = xp_names x \<and> es_source v = xp_source x \<and> es_phase v = xp_phase x"
  using assms by (auto simp: parse_settings_file_def evidence_of_table_def Let_def result_simps split: if_splits)

subsection \<open>Equivalence of evidence\<close>

lemma equivalent_settings_iff:
  "equivalent_settings l r \<longleftrightarrow>
     es_server_version_num l = es_server_version_num r \<and> es_names l = es_names r \<and> es_settings l = es_settings r"
  by (auto simp: equivalent_settings_def list.rel_eq)

lemma equivalent_no_difference: "equivalent_settings l r \<Longrightarrow> effective_difference_names l r = []"
  by (simp add: equivalent_settings_iff effective_difference_names_def)

subsection \<open>A configuration and its table\<close>

definition sample_config :: string where
  "sample_config = ''# memory'' @ [newline] @ ''Shared_Buffers=1GB# half'' @ [newline] @ ''work_mem=4MB'' @ [newline]"

definition sample_files :: files where
  "sample_files path =
     (if path = ''a.conf'' then Some \<lparr>fi_regular = True, fi_content = sample_config\<rparr>
      else if path = ''b.conf'' then Some \<lparr>fi_regular = True, fi_content = ''work_mem=8MB''\<rparr> else None)"

lemma sample_config_lines:
  "assigned_name ''# memory'' = None" "assigned_name [] = None"
  "assigned_name ''Shared_Buffers=1GB# half'' = Some ''shared_buffers''"
  "assigned_name ''work_mem=4MB'' = Some ''work_mem''" "assigned_name ''work_mem=8MB'' = Some ''work_mem''"
  by (simp_all add: assigned_name_def trim_space_solid solid_def code_def fold_name_solid to_lower_char_def is_upper_def) code_simp

lemma sample_assigned:
  "assigned_names sample_config = [''shared_buffers'', ''work_mem'']"
  "assigned_names ''work_mem=8MB'' = [''work_mem'']"
  by (simp_all add: assigned_names_def sample_config_def newline_def map_filter_simps sample_config_lines)

lemma sample_names_ready: "names_ready [''shared_buffers'', ''work_mem'']" "names_ready [''work_mem'']"
  by code_simp+

lemma sample_union:
  "union_config_setting_names sample_files [''a.conf'', ''b.conf''] = Inr [''shared_buffers'', ''work_mem'']"
proof -
  have names: "list_all setting_name [''shared_buffers'', ''work_mem'']" "list_all setting_name [''work_mem'']"
    by code_simp+
  have sorted: "sort (remdups [''shared_buffers'', ''work_mem'']) = [''shared_buffers'', ''work_mem'']"
    "sort (remdups [''work_mem'']) = [''work_mem'']"
    "sort (remdups [''shared_buffers'', ''work_mem'', ''work_mem'']) = [''shared_buffers'', ''work_mem'']"
    by code_simp+
  have len: "length sample_config \<noteq> 0" "int (length sample_config) \<le> max_source_bytes"
    by (simp_all add: sample_config_def max_source_bytes_def)
  have "config_setting_names_file sample_files ''a.conf'' = Inr [''shared_buffers'', ''work_mem'']"
    using len sample_names_ready names
    by (auto simp: config_setting_names_file_def result_simps sample_files_def sample_assigned sorted)
  moreover have "config_setting_names_file sample_files ''b.conf'' = Inr [''work_mem'']"
    using sample_names_ready names
    by (simp add: config_setting_names_file_def result_simps sample_files_def sample_assigned sorted max_source_bytes_def)
  ultimately show ?thesis
    by (simp add: union_config_setting_names_def sorted Let_def result_simps sample_names_ready)
qed

text \<open>C16: An A/B protocol observes exactly the settings its two configuration files assign: a name is observed if and
  only if some line of some file, an unterminated last one included, has an equals sign before any comment and what
  stands before the first spells the name, up to white space and capitals. Each is observed once and in order, at most
  512 of them, all well-formed, and none of them can hold a credential or a command.\<close>

theorem observed_settings_are_assigned:
  assumes "union_config_setting_names fs paths = Inr names"
  shows "set names = {v. \<exists>path\<in>set paths. assigns (fi_content (the (fs path))) v} \<and>
    sorted_wrt (<) names \<and> names \<noteq> [] \<and> length names \<le> max_settings \<and>
    list_all (\<lambda>v. setting_name v \<and> \<not> sensitive_setting_name v) names"
  using union_names[OF assms] union_assigned[OF assms] by (simp add: names_ready_def)

theorem observed_settings_are_assigned_witness:
  "set [''shared_buffers'', ''work_mem''] =
     {v. \<exists>path\<in>{''a.conf'', ''b.conf''}. assigns (fi_content (the (sample_files path))) v}"
  using conjunct1[OF observed_settings_are_assigned[OF sample_union]] by simp

definition sample_row :: "string list" where
  "sample_row =
     [''run-1'', digest_bytes ''protocol'', ''1'', ''2024-02-29T10:00:01+00:00'', ''170002'', ''work_mem'', ''4096'', ''kB'',
      ''configuration file'', ''f'', ''user'']"

definition sample_table :: string where
  "sample_table = join [tab] source_header @ [newline] @ join [tab] sample_row @ [newline]"

definition sample_expectation :: expectation where
  "sample_expectation =
     \<lparr>xp_run_id = ''run-1'', xp_protocol_digest = digest_bytes ''protocol'', xp_trial = 1, xp_names = [''work_mem''],
      xp_source = \<lparr>rf_path = settings_source_path, rf_digest = digest_bytes sample_table,
        rf_size = int (length sample_table)\<rparr>,
      xp_phase = \<lparr>bd_name = ''prepare'', bd_journal_digest = digest_bytes ''journal'',
        bd_started_at = ''2024-02-29T10:00:00Z'', bd_finished_at = ''2024-02-29T10:00:02Z''\<rparr>\<rparr>"

lemma sample_table_rows: "sample_table = concat (map table_line [source_header, sample_row])"
  by (simp add: sample_table_def table_line_def)

lemma digest_bytes_plain: "plain_field (digest_bytes s)"
proof -
  have "c \<notin> set (digest_bytes s)" if "\<not> is_hex_lower c" "c \<notin> set digest_prefix" for c
    using that digest_bytes_is_digest[of s]
    by (auto simp: is_digest_def digest_bytes_def has_prefix_def trim_prefix_def list_all_iff)
  moreover have "\<not> is_hex_lower c" "c \<notin> set digest_prefix" if "c \<in> {tab, newline, double_quote, CHR 0x0D}" for c
    using that by (auto simp: is_hex_lower_def is_digit_def code_def digest_prefix_def tab_def newline_def double_quote_def)
  ultimately show ?thesis by (auto simp: plain_field_def)
qed

lemma sample_records:
  "csv_records (length source_header) (csv_lines sample_table) = ([source_header, sample_row], None)"
  unfolding sample_table_rows
  by (rule csv_records_table)
    (simp_all add: source_header_def sample_row_def digest_bytes_plain, simp_all add: plain_field_def tab_def newline_def double_quote_def)

lemma sample_instants_read:
  "parse_utc ''2024-02-29T10:00:00Z'' = Some 63876420000000000000"
  "parse_utc ''2024-02-29T10:00:01+00:00'' = Some 63876420001000000000"
  "parse_utc ''2024-02-29T10:00:02Z'' = Some 63876420002000000000"
  by code_simp+

lemma sample_row_values:
  "parse_int64 ''1'' = Some 1" "setting_name ''work_mem''" "parse_postgres_bool ''f'' = Some False"
  by code_simp+

lemma sample_version: "server_version ''170002''"
proof -
  have n: "nat_of_digits ''170002'' = 170002" by (simp add: nat_of_digits_def digit_val_def code_def)
  have "canonical_nat ''170002''" by code_simp
  from show_nat_of_digits[OF this] have "show_int 170002 = ''170002''" by (simp add: n show_int_def)
  then show ?thesis using parse_int64_show_int[of 170002]
    by (simp add: server_version_def int64_def min_int64_def max_int64_def)
qed

lemma sample_row_nth:
  "sample_row ! 0 = ''run-1''" "sample_row ! 1 = digest_bytes ''protocol''" "sample_row ! 2 = ''1''"
  "sample_row ! 3 = ''2024-02-29T10:00:01+00:00''" "sample_row ! 4 = ''170002''" "sample_row ! 5 = ''work_mem''"
  "sample_row ! 8 = ''configuration file''" "sample_row ! 9 = ''f''" "sample_row ! 10 = ''user''"
  by (simp_all add: sample_row_def)

lemma sample_expectation_fields:
  "xp_run_id sample_expectation = ''run-1''" "xp_protocol_digest sample_expectation = digest_bytes ''protocol''"
  "xp_trial sample_expectation = 1" "xp_names sample_expectation = [''work_mem'']"
  "rf_path (xp_source sample_expectation) = settings_source_path"
  "rf_digest (xp_source sample_expectation) = digest_bytes sample_table"
  "rf_size (xp_source sample_expectation) = int (length sample_table)"
  "bd_name (xp_phase sample_expectation) = ''prepare''"
  "is_digest (bd_journal_digest (xp_phase sample_expectation))"
  "bd_started_at (xp_phase sample_expectation) = ''2024-02-29T10:00:00Z''"
  "bd_finished_at (xp_phase sample_expectation) = ''2024-02-29T10:00:02Z''"
  by (simp_all add: sample_expectation_def)

definition sample_state :: table_state where
  "sample_state = \<lparr>ta_captured_at = format_rfc3339 63876420001000000000, ta_server_version = ''170002'',
     ta_settings = [setting_of_row sample_row False]\<rparr>"

lemma sample_row_parsed:
  "parse_setting_row sample_expectation 2 \<lparr>ta_captured_at = [], ta_server_version = [], ta_settings = []\<rparr> sample_row =
     Inr sample_state"
  unfolding parse_setting_row_def sample_row_nth sample_expectation_fields sample_instants_read sample_row_values
  by (simp add: sample_row_values sample_version max_settings_def of_option_def sample_state_def)

lemma sample_table_parsed: "parse_table sample_table sample_expectation = Inr sample_state"
  unfolding parse_table_def sample_records by (simp add: sample_row_parsed)

definition sample_settings_files :: files where
  "sample_settings_files = [''t'' \<mapsto> \<lparr>fi_regular = True, fi_content = sample_table\<rparr>]"

lemma sample_table_bounded: "bounded_file sample_settings_files ''t'' = Inr sample_table"
proof -
  have "sample_table \<noteq> []" by (simp add: sample_table_def)
  moreover have "length (digest_bytes ''protocol'') = 71"
    using digest_bytes_is_digest[of "''protocol''"] by (simp add: is_digest_def digest_prefix_def)
  then have "int (length sample_table) \<le> max_source_bytes"
    by (simp add: sample_table_def sample_row_def source_header_def max_source_bytes_def)
  ultimately show ?thesis by (simp add: bounded_file_def of_option_def sample_settings_files_def)
qed

lemma sample_expectation_valid: "validate_expectation sample_expectation = Inr ()"
proof -
  have "sample_table \<noteq> []" "\<not> max_source_bytes < int (length sample_table)"
    using sample_table_bounded unfolding bounded_file_ok by auto
  then show ?thesis
    by (simp add: validate_expectation_def sample_expectation_fields result_simps sample_names_ready sample_instants_read)
qed

lemma sample_settings_parsed: "ok (parse_settings_file sample_settings_files ''t'' sample_expectation)"
proof -
  have "parse_rfc3339 (ta_captured_at sample_state) = Some 63876420001000000000"
    unfolding sample_state_def table_state.simps
    by (rule parse_format) (simp_all add: days_before_year_def nanos_per_day_def nanos_per_second_def)
  moreover have "map st_name (ta_settings sample_state) = [''work_mem'']" "length (ta_settings sample_state) = 1"
    by (simp_all add: sample_state_def setting_of_row_def sample_row_nth)
  ultimately show ?thesis
    unfolding parse_settings_file_def sample_expectation_valid sample_table_bounded bind_r.simps
      sample_table_parsed sample_expectation_fields parse_utc_instant[OF sample_instants_read(1)]
      parse_utc_instant[OF sample_instants_read(3)]
    by (simp add: the_time_def Let_def)
qed

text \<open>C15: Evidence of effective settings that was read from a table always passes its own verification, whatever
  the table holds; it carries the run, the protocol, the trial, the phase and exactly the names it was asked for, and
  the digest of its source is the digest of the file it was read from.\<close>

theorem parsed_settings_are_verified:
  assumes "parse_settings_file fs path x = Inr v"
  shows "verify_settings v = Inr () \<and> map st_name (es_settings v) = xp_names x \<and>
    es_run_id v = xp_run_id x \<and> es_protocol_digest v = xp_protocol_digest x \<and> es_trial v = xp_trial x \<and>
    es_phase v = xp_phase x \<and> (\<exists>f. fs path = Some f \<and> digest_bytes (fi_content f) = rf_digest (es_source v))"
  using parsed_settings_verify[OF assms] parsed_settings_bound[OF assms] by auto

theorem parsed_settings_are_verified_witness:
  "\<exists>v. parse_settings_file sample_settings_files ''t'' sample_expectation = Inr v \<and> verify_settings v = Inr ()"
proof -
  obtain v where v: "parse_settings_file sample_settings_files ''t'' sample_expectation = Inr v"
    using sample_settings_parsed by (auto simp: ok_iff)
  from parsed_settings_are_verified[OF v] v show ?thesis by blast
qed

end
