(* ===== verification/BenchmarkPhase.thy ===== *)
theory BenchmarkPhase
  imports GoScan GoJson GoTime
begin

section \<open>The phase timeline of a trial\<close>

text \<open>
  \<^verbatim>\<open>internal/benchmarkphase/phase.go\<close>: the journal of the phases of a trial, the lifecycle rules it must
  satisfy, and the verification of a retained timeline. Reading and writing timestamps is an interface,
  a \<open>clock\<close>; the program's clock is the layout \<open>RFC3339Nano\<close>.
\<close>

subsection \<open>Data\<close>

definition ordered_names :: "string list" where
  "ordered_names =
     [''preflight'', ''prepare'', ''stabilize'', ''pre-warmup-control'', ''warmup'', ''pre-measure-control'',
      ''measure'', ''cooldown'', ''validate'', ''collect'', ''cleanup'']"

definition legacy_ordered_names :: "string list" where
  "legacy_ordered_names =
     [''preflight'', ''prepare'', ''stabilize'', ''warmup'', ''measure'', ''cooldown'', ''validate'',
      ''collect'', ''cleanup'']"

record phase_event =
  pe_sequence :: int
  pe_name :: string
  pe_status :: string
  pe_started_at :: string
  pe_finished_at :: string
  pe_duration_ns :: int
  pe_duration_ms :: int
  pe_reason :: string

record timeline =
  tl_schema_version :: string
  tl_artifact_type :: string
  tl_run_id :: string
  tl_trial :: int
  tl_started_at :: string
  tl_finished_at :: string
  tl_duration_ns :: int
  tl_duration_ms :: int
  tl_status :: string
  tl_events :: "phase_event list"
  tl_digest :: string

record clock =
  ck_parse :: "string \<Rightarrow> int option"
  ck_format :: "int \<Rightarrow> string"

definition go_clock :: clock where
  "go_clock = \<lparr>ck_parse = parse_rfc3339, ck_format = format_rfc3339\<rparr>"

definition phase_schema_v3 :: string where
  "phase_schema_v3 = ''pgworkbench.benchmark-phase-timeline/v3''"

definition phase_schema_v2 :: string where
  "phase_schema_v2 = ''pgworkbench.benchmark-phase-timeline/v2''"

definition phase_schema_v1 :: string where
  "phase_schema_v1 = ''pgworkbench.benchmark-phase-timeline/v1''"

definition phase_artifact_type :: string where
  "phase_artifact_type = ''pgworkbench.benchmark-phase-timeline''"

datatype phase_error =
    Invalid_run_id
  | Trial_not_positive
  | Wrong_event_count nat nat
  | Identity_mismatch nat int string
  | Unsupported_phase_status string string
  | Missing_reason string string
  | Cleanup_skipped
  | Not_skipped_after_failure string
  | Required_skipped string
  | Bad_started_at string
  | Bad_finished_at string
  | Finishes_before_start string
  | Overlaps_previous string
  | Measure_without_duration
  | Journal_binding nat
  | Journal_trial nat int int
  | Journal_run_mismatch nat string string
  | Journal_run_change nat
  | Journal_unbound nat
  | Journal_columns nat nat
  | Journal_mixed nat
  | Journal_sequence nat string
  | Journal_reason nat
  | Journal_read
  | Unsupported_timeline
  | Bound_without_run_id
  | Legacy_with_run_id
  | Aggregate_mismatch
  | Digest_mismatch

definition valid_run_id :: "string \<Rightarrow> bool" where
  "valid_run_id v =
     (v \<noteq> [] \<and> length v \<le> 200 \<and> is_alnum (hd v) \<and>
      list_all (\<lambda>c. is_alnum c \<or> c = CHR ''.'' \<or> c = CHR ''_'' \<or> c = CHR ''-'') (tl v))"

definition phase_required :: "string \<Rightarrow> bool" where
  "phase_required name =
     (name \<in> {''preflight'', ''prepare'', ''measure'', ''validate'', ''collect'', ''cleanup''})"

subsection \<open>The lifecycle rules\<close>

text \<open>The rules of one event that do not need its times: \<open>failed\<close> tells whether an earlier phase failed.\<close>

definition check_phase :: "nat \<Rightarrow> string \<Rightarrow> bool \<Rightarrow> phase_event \<Rightarrow> (phase_error, unit) result" where
  "check_phase index name failed e =
     (if pe_sequence e \<noteq> int index + 1 \<or> pe_name e \<noteq> name
      then Inl (Identity_mismatch (index + 1) (pe_sequence e) (pe_name e))
      else if pe_status e \<noteq> ''passed'' \<and> pe_status e \<noteq> ''failed'' \<and> pe_status e \<noteq> ''skipped''
      then Inl (Unsupported_phase_status (pe_name e) (pe_status e))
      else if (pe_status e = ''failed'' \<or> pe_status e = ''skipped'') \<and> pe_reason e = []
      then Inl (Missing_reason (pe_name e) (pe_status e))
      else if pe_name e = ''cleanup'' then require (pe_status e \<noteq> ''skipped'') Cleanup_skipped
      else if failed then require (pe_status e = ''skipped'') (Not_skipped_after_failure (pe_name e))
      else require (\<not> (phase_required (pe_name e) \<and> pe_status e = ''skipped'')) (Required_skipped (pe_name e)))"

text \<open>The times of an event: read, compared with the end of the previous phase, and written in UTC.\<close>

definition time_phase :: "clock \<Rightarrow> int option \<Rightarrow> phase_event \<Rightarrow> (phase_error, phase_event \<times> int) result" where
  "time_phase ck previous e =
     bind_r (of_option (Bad_started_at (pe_name e)) (ck_parse ck (pe_started_at e))) (\<lambda>started.
     bind_r (of_option (Bad_finished_at (pe_name e)) (ck_parse ck (pe_finished_at e))) (\<lambda>finished.
       if finished < started then Inl (Finishes_before_start (pe_name e))
       else if (case previous of None \<Rightarrow> False | Some p \<Rightarrow> started < p) then Inl (Overlaps_previous (pe_name e))
       else
         let duration = time_sub finished started;
             timed = e\<lparr>pe_started_at := ck_format ck started, pe_finished_at := ck_format ck finished,
                       pe_duration_ns := duration, pe_duration_ms := duration div 1000000\<rparr>
         in if pe_name e = ''measure'' \<and> pe_status e = ''passed'' \<and> duration \<le> 0
            then Inl Measure_without_duration
            else Inr (timed, finished)))"

fun build_events ::
  "clock \<Rightarrow> nat \<Rightarrow> int option \<Rightarrow> bool \<Rightarrow> string list \<Rightarrow> phase_event list \<Rightarrow>
     (phase_error, phase_event list) result" where
  "build_events ck index previous failed (name # names) (e # es) =
     bind_r (check_phase index name failed e) (\<lambda>_.
     bind_r (time_phase ck previous e) (\<lambda>(timed, finished).
     bind_r (build_events ck (Suc index) (Some finished) (failed \<or> pe_status e = ''failed'') names es) (\<lambda>rest.
       Inr (timed # rest))))"
| "build_events ck index previous failed names es = Inr []"

definition truncated_div :: "int \<Rightarrow> int \<Rightarrow> int" where
  "truncated_div a b = sgn a * (\<bar>a\<bar> div b)"

text \<open>A time that cannot be read back becomes the zero time.\<close>

definition time_or_zero :: "clock \<Rightarrow> string \<Rightarrow> int" where
  "time_or_zero ck s = (case ck_parse ck s of None \<Rightarrow> zero_time | Some t \<Rightarrow> t)"

definition event_json :: "phase_event \<Rightarrow> string" where
  "event_json e =
     json_object
      ([(''sequence'', show_int (pe_sequence e)), (''name'', json_string (pe_name e)),
        (''status'', json_string (pe_status e)), (''started_at'', json_string (pe_started_at e)),
        (''finished_at'', json_string (pe_finished_at e)), (''duration_ns'', show_int (pe_duration_ns e)),
        (''duration_ms'', show_int (pe_duration_ms e))] @
       (if pe_reason e = [] then [] else [(''reason'', json_string (pe_reason e))]))"

definition timeline_json :: "timeline \<Rightarrow> string" where
  "timeline_json t =
     json_object
      [(''schema_version'', json_string (tl_schema_version t)), (''artifact_type'', json_string (tl_artifact_type t)),
       (''run_id'', json_string (tl_run_id t)), (''trial'', show_int (tl_trial t)),
       (''started_at'', json_string (tl_started_at t)), (''finished_at'', json_string (tl_finished_at t)),
       (''duration_ns'', show_int (tl_duration_ns t)), (''duration_ms'', show_int (tl_duration_ms t)),
       (''status'', json_string (tl_status t)),
       (''events'', ''['' @ join '','' (map event_json (tl_events t)) @ '']''),
       (''digest'', json_string (tl_digest t))]"

definition digest_timeline :: "timeline \<Rightarrow> string" where
  "digest_timeline t = digest_bytes (timeline_json (t\<lparr>tl_digest := []\<rparr>))"

definition build_timeline ::
  "clock \<Rightarrow> string \<Rightarrow> string \<Rightarrow> int \<Rightarrow> phase_event list \<Rightarrow> string list \<Rightarrow> (phase_error, timeline) result" where
  "build_timeline ck schema run_id trial events names =
     (if trial \<le> 0 then Inl Trial_not_positive
      else if length events \<noteq> length names then Inl (Wrong_event_count (length events) (length names))
      else
        bind_r (build_events ck 0 None False names events) (\<lambda>timed.
          let started = time_or_zero ck (pe_started_at (hd timed));
              finished = time_or_zero ck (pe_finished_at (last timed));
              duration = time_sub finished started;
              t = \<lparr>tl_schema_version = schema, tl_artifact_type = phase_artifact_type, tl_run_id = run_id,
                   tl_trial = trial, tl_started_at = ck_format ck started, tl_finished_at = ck_format ck finished,
                   tl_duration_ns = duration, tl_duration_ms = truncated_div duration 1000000,
                   tl_status = (if list_ex (\<lambda>e. pe_status e = ''failed'') timed then ''failed'' else ''passed''),
                   tl_events = timed, tl_digest = []\<rparr>
          in Inr (t\<lparr>tl_digest := digest_timeline t\<rparr>)))"

definition build_legacy :: "clock \<Rightarrow> int \<Rightarrow> phase_event list \<Rightarrow> (phase_error, timeline) result" where
  "build_legacy ck trial events = build_timeline ck phase_schema_v1 [] trial events legacy_ordered_names"

definition build_for_run :: "clock \<Rightarrow> string \<Rightarrow> int \<Rightarrow> phase_event list \<Rightarrow> (phase_error, timeline) result" where
  "build_for_run ck run_id trial events =
     (if \<not> valid_run_id run_id then Inl Invalid_run_id
      else build_timeline ck phase_schema_v3 run_id trial events ordered_names)"

subsection \<open>Verification\<close>

definition rebuild_timeline :: "clock \<Rightarrow> timeline \<Rightarrow> (phase_error, timeline) result" where
  "rebuild_timeline ck t =
     (if tl_schema_version t = phase_schema_v3 then build_for_run ck (tl_run_id t) (tl_trial t) (tl_events t)
      else if tl_schema_version t = phase_schema_v2 then
        (if \<not> valid_run_id (tl_run_id t) then Inl Bound_without_run_id
         else build_timeline ck phase_schema_v2 (tl_run_id t) (tl_trial t) (tl_events t) legacy_ordered_names)
      else if tl_run_id t \<noteq> [] then Inl Legacy_with_run_id
      else build_legacy ck (tl_trial t) (tl_events t))"

definition verify_timeline :: "clock \<Rightarrow> timeline \<Rightarrow> (phase_error, unit) result" where
  "verify_timeline ck t =
     (if (tl_schema_version t \<noteq> phase_schema_v3 \<and> tl_schema_version t \<noteq> phase_schema_v2 \<and>
          tl_schema_version t \<noteq> phase_schema_v1) \<or> tl_artifact_type t \<noteq> phase_artifact_type
      then Inl Unsupported_timeline
      else
        bind_r (rebuild_timeline ck t) (\<lambda>r.
          if tl_started_at r \<noteq> tl_started_at t \<or> tl_finished_at r \<noteq> tl_finished_at t \<or>
             tl_duration_ns r \<noteq> tl_duration_ns t \<or> tl_duration_ms r \<noteq> tl_duration_ms t \<or>
             tl_status r \<noteq> tl_status t
          then Inl Aggregate_mismatch
          else require (tl_digest r = tl_digest t) Digest_mismatch))"

definition event_by_name :: "timeline \<Rightarrow> string \<Rightarrow> phase_event option" where
  "event_by_name t name = find (\<lambda>e. pe_name e = name) (tl_events t)"

subsection \<open>The journal\<close>

definition canonical_positive :: "string \<Rightarrow> int option" where
  "canonical_positive s =
     (case parse_int64 s of None \<Rightarrow> None
      | Some n \<Rightarrow> if 0 < n \<and> show_int n = s then Some n else None)"

record journal =
  jo_format :: "bool option"
  jo_run_id :: string
  jo_events :: "phase_event list"

text \<open>The binding columns of a row: the run and the trial it belongs to. The format is bound when it has them.\<close>

definition check_binding ::
  "int \<Rightarrow> string \<Rightarrow> nat \<Rightarrow> string list \<Rightarrow> journal \<Rightarrow> (phase_error, bool \<times> string \<times> string list) result" where
  "check_binding trial wanted line columns j =
     (if length columns = 8 then
        (let run = columns ! 0
         in case canonical_positive (columns ! 1) of
              None \<Rightarrow> Inl (Journal_binding line)
            | Some row_trial \<Rightarrow>
              if \<not> valid_run_id run then Inl (Journal_binding line)
              else if row_trial \<noteq> trial then Inl (Journal_trial line row_trial trial)
              else if wanted \<noteq> [] \<and> run \<noteq> wanted then Inl (Journal_run_mismatch line run wanted)
              else if jo_run_id j \<noteq> [] \<and> run \<noteq> jo_run_id j then Inl (Journal_run_change line)
              else Inr (True, run, drop 2 columns))
      else if length columns = 6 then
        (if wanted \<noteq> [] then Inl (Journal_unbound line) else Inr (False, jo_run_id j, columns))
      else Inl (Journal_columns line (length columns)))"

definition parse_row :: "int \<Rightarrow> string \<Rightarrow> nat \<Rightarrow> string \<Rightarrow> journal \<Rightarrow> (phase_error, journal) result" where
  "parse_row trial wanted line raw j =
     bind_r (check_binding trial wanted line (split_on (CHR 0x09) (drop_cr raw)) j) (\<lambda>(bound, run, columns).
       if jo_format j \<noteq> None \<and> jo_format j \<noteq> Some bound then Inl (Journal_mixed line)
       else
         case canonical_positive (columns ! 0) of
           None \<Rightarrow> Inl (Journal_sequence line (columns ! 0))
         | Some sequence \<Rightarrow>
           if list_ex (\<lambda>c. c = CHR 0x0D \<or> c = CHR 0x0A \<or> c = CHR 0x09) (columns ! 5)
           then Inl (Journal_reason line)
           else Inr \<lparr>jo_format = Some bound, jo_run_id = run,
                  jo_events = jo_events j @
                    [\<lparr>pe_sequence = sequence, pe_name = columns ! 1, pe_status = columns ! 2,
                      pe_started_at = columns ! 3, pe_finished_at = columns ! 4,
                      pe_duration_ns = 0, pe_duration_ms = 0, pe_reason = columns ! 5\<rparr>]\<rparr>)"

fun parse_rows :: "int \<Rightarrow> string \<Rightarrow> nat \<Rightarrow> journal \<Rightarrow> string list \<Rightarrow> (phase_error, journal) result" where
  "parse_rows trial wanted line j [] = Inr j"
| "parse_rows trial wanted line j (raw # rest) =
     bind_r (parse_row trial wanted line raw j) (\<lambda>j'. parse_rows trial wanted (Suc line) j' rest)"

definition journal_line_limit :: nat where
  "journal_line_limit = 1048576"

text \<open>\<open>expected\<close> is the optional argument: the run the journal must be bound to.\<close>

definition parse_journal ::
  "clock \<Rightarrow> int \<Rightarrow> string option \<Rightarrow> string \<Rightarrow> (phase_error, timeline) result" where
  "parse_journal ck trial expected content =
     (if (case expected of None \<Rightarrow> False | Some r \<Rightarrow> \<not> valid_run_id r) then Inl Invalid_run_id
      else
        case scan_lines journal_line_limit content of
          (short, too_long) \<Rightarrow>
            bind_r (parse_rows trial (case expected of None \<Rightarrow> [] | Some r \<Rightarrow> r) 1
                     \<lparr>jo_format = None, jo_run_id = [], jo_events = []\<rparr> short) (\<lambda>j.
              if too_long then Inl Journal_read
              else if jo_format j = Some True then
                (if length (jo_events j) = length legacy_ordered_names
                 then build_timeline ck phase_schema_v2 (jo_run_id j) trial (jo_events j) legacy_ordered_names
                 else build_for_run ck (jo_run_id j) trial (jo_events j))
              else build_legacy ck trial (jo_events j)))"

subsection \<open>What an accepted lifecycle looks like\<close>

lemma time_phase_Inr:
  "time_phase ck previous e = Inr (r, f) \<longleftrightarrow>
     (\<exists>s. ck_parse ck (pe_started_at e) = Some s \<and> ck_parse ck (pe_finished_at e) = Some f \<and> s \<le> f \<and>
        (\<forall>p. previous = Some p \<longrightarrow> p \<le> s) \<and>
        \<not> (pe_name e = ''measure'' \<and> pe_status e = ''passed'' \<and> time_sub f s \<le> 0) \<and>
        r = e\<lparr>pe_started_at := ck_format ck s, pe_finished_at := ck_format ck f,
              pe_duration_ns := time_sub f s, pe_duration_ms := time_sub f s div 1000000\<rparr>)"
  by (cases previous) (auto simp: time_phase_def result_simps Let_def not_less)

lemma build_events_Inr:
  assumes "length es = length names"
  shows "build_events ck k previous failed names es = Inr rs \<longleftrightarrow>
    length rs = length names \<and>
    (\<forall>j < length names.
       check_phase (k + j) (names ! j) (failed \<or> (\<exists>i < j. pe_status (es ! i) = ''failed'')) (es ! j) = Inr () \<and>
       (\<exists>f. time_phase ck (if j = 0 then previous else ck_parse ck (pe_finished_at (es ! (j - 1)))) (es ! j) =
          Inr (rs ! j, f)))"
  using assms
proof (induction names arbitrary: es rs k previous failed)
  case Nil
  then show ?case by auto
next
  case (Cons name names)
  then obtain e es' where es: "es = e # es'" and len: "length es' = length names" by (cases es) auto
  have step: "build_events ck k previous failed (name # names) es = Inr rs \<longleftrightarrow>
    (\<exists>r f rest. rs = r # rest \<and> check_phase k name failed e = Inr () \<and> time_phase ck previous e = Inr (r, f) \<and>
       build_events ck (Suc k) (Some f) (failed \<or> pe_status e = ''failed'') names es' = Inr rest)"
    by (auto simp: es result_simps)
  have previous: "time_phase ck previous e = Inr (r, f) \<Longrightarrow> ck_parse ck (pe_finished_at e) = Some f" for r f
    by (auto simp: time_phase_Inr)
  have shift: "(if j = 0 then Some f else ck_parse ck (pe_finished_at (es' ! (j - 1)))) =
      ck_parse ck (pe_finished_at ((e # es') ! j))" if "ck_parse ck (pe_finished_at e) = Some f" for f j
    using that by (cases j) auto
  note IH = Cons.IH[OF len]
  show ?case
  proof (cases rs)
    case Nil
    then show ?thesis unfolding step by simp
  next
    case (Cons r rest)
    have "build_events ck k previous failed (name # names) es = Inr rs \<longleftrightarrow>
      check_phase k name failed e = Inr () \<and>
      (\<exists>f. time_phase ck previous e = Inr (r, f) \<and>
         build_events ck (Suc k) (Some f) (failed \<or> pe_status e = ''failed'') names es' = Inr rest)"
      unfolding step unfolding Cons by blast
    also have "\<dots> \<longleftrightarrow> check_phase k name failed e = Inr () \<and> (\<exists>f. time_phase ck previous e = Inr (r, f)) \<and>
      length rest = length names \<and>
      (\<forall>j < length names.
         check_phase (Suc k + j) (names ! j)
           ((failed \<or> pe_status e = ''failed'') \<or> (\<exists>i < j. pe_status (es' ! i) = ''failed'')) (es' ! j) = Inr () \<and>
         (\<exists>f. time_phase ck (ck_parse ck (pe_finished_at ((e # es') ! j))) (es' ! j) = Inr (rest ! j, f)))"
      unfolding IH using previous shift by fastforce
    finally show ?thesis
      unfolding Cons es by (auto simp: All_less_Suc2 Ex_less_Suc2)
  qed
qed

lemma build_timeline_Inr:
  "build_timeline ck schema run_id trial events names = Inr t \<longleftrightarrow>
     0 < trial \<and> length events = length names \<and>
     (\<exists>timed. build_events ck 0 None False names events = Inr timed \<and>
        (let started = time_or_zero ck (pe_started_at (hd timed));
             finished = time_or_zero ck (pe_finished_at (last timed));
             duration = time_sub finished started;
             u = \<lparr>tl_schema_version = schema, tl_artifact_type = phase_artifact_type, tl_run_id = run_id,
                  tl_trial = trial, tl_started_at = ck_format ck started, tl_finished_at = ck_format ck finished,
                  tl_duration_ns = duration, tl_duration_ms = truncated_div duration 1000000,
                  tl_status = (if list_ex (\<lambda>e. pe_status e = ''failed'') timed then ''failed'' else ''passed''),
                  tl_events = timed, tl_digest = []\<rparr>
         in t = u\<lparr>tl_digest := digest_timeline u\<rparr>))"
  by (auto simp: build_timeline_def result_simps Let_def)

lemma build_timeline_events:
  assumes "build_timeline ck schema run_id trial events names = Inr t"
  shows "build_events ck 0 None False names events = Inr (tl_events t)" and "length events = length names"
    and "tl_status t = (if list_ex (\<lambda>e. pe_status e = ''failed'') (tl_events t) then ''failed'' else ''passed'')"
  using assms by (auto simp: build_timeline_Inr Let_def)

text \<open>The events of an accepted lifecycle, one by one.\<close>

lemma build_timeline_event:
  assumes "build_timeline ck schema run_id trial events names = Inr t" and "j < length names"
  shows "check_phase j (names ! j) (\<exists>i < j. pe_status (events ! i) = ''failed'') (events ! j) = Inr ()"
    and "\<exists>f. time_phase ck (if j = 0 then None else ck_parse ck (pe_finished_at (events ! (j - 1)))) (events ! j) =
          Inr (tl_events t ! j, f)"
    and "length (tl_events t) = length names"
  using build_timeline_events[OF assms(1)] assms(2) by (auto simp: build_events_Inr)

lemma time_phase_keeps:
  assumes "time_phase ck previous e = Inr (r, f)"
  shows "pe_name r = pe_name e" and "pe_sequence r = pe_sequence e" and "pe_status r = pe_status e"
    and "pe_reason r = pe_reason e"
  using assms by (auto simp: time_phase_Inr)

lemma built_event_keeps:
  assumes "build_timeline ck schema run_id trial events names = Inr t" and "j < length names"
  shows "pe_name (tl_events t ! j) = pe_name (events ! j)"
    and "pe_sequence (tl_events t ! j) = pe_sequence (events ! j)"
    and "pe_status (tl_events t ! j) = pe_status (events ! j)"
    and "pe_reason (tl_events t ! j) = pe_reason (events ! j)"
  using build_timeline_event(2)[OF assms] by (auto dest: time_phase_keeps)

lemma check_phase_Inr:
  "check_phase index name failed e = Inr u \<longleftrightarrow>
     pe_sequence e = int index + 1 \<and> pe_name e = name \<and>
     pe_status e \<in> {''passed'', ''failed'', ''skipped''} \<and>
     (pe_status e = ''passed'' \<or> pe_reason e \<noteq> []) \<and>
     (name = ''cleanup'' \<longrightarrow> pe_status e \<noteq> ''skipped'') \<and>
     (name \<noteq> ''cleanup'' \<longrightarrow> failed \<longrightarrow> pe_status e = ''skipped'') \<and>
     (name \<noteq> ''cleanup'' \<longrightarrow> \<not> failed \<longrightarrow> phase_required name \<longrightarrow> pe_status e \<noteq> ''skipped'')"
  by (auto simp: check_phase_def result_simps)

text \<open>The lifecycle of the built events.\<close>

lemma built_check:
  assumes "build_timeline ck schema run_id trial events names = Inr t" and "j < length names"
  shows "check_phase j (names ! j) (\<exists>i < j. pe_status (tl_events t ! i) = ''failed'') (tl_events t ! j) = Inr ()"
proof -
  have "pe_status (tl_events t ! i) = pe_status (events ! i)" if "i < j" for i
    using built_event_keeps(3)[OF assms(1)] that assms(2) by simp
  then have same: "(\<exists>i < j. pe_status (tl_events t ! i) = ''failed'') = (\<exists>i < j. pe_status (events ! i) = ''failed'')"
    by auto
  show ?thesis
    using build_timeline_event(1)[OF assms] built_event_keeps[OF assms]
    unfolding check_phase_Inr same by simp
qed

text \<open>C25: A timeline that is built follows the lifecycle: the phases are the expected ones in the
  expected order and numbered from one, every phase that did not pass gives a reason, the cleanup always ran, after
  a failed phase everything else was skipped, a required phase was only skipped because an earlier one failed, and
  the timeline passed exactly when no phase failed.\<close>

theorem built_timeline_follows_lifecycle:
  assumes "build_timeline ck schema run_id trial events names = Inr t"
  shows "0 < trial \<and> map pe_name (tl_events t) = names \<and>
    map pe_sequence (tl_events t) = map (\<lambda>j. int j + 1) [0..<length names] \<and>
    (\<forall>e \<in> set (tl_events t). pe_status e \<in> {''passed'', ''failed'', ''skipped''} \<and>
       (pe_status e \<noteq> ''passed'' \<longrightarrow> pe_reason e \<noteq> []) \<and>
       (pe_name e = ''cleanup'' \<longrightarrow> pe_status e \<noteq> ''skipped'')) \<and>
    (\<forall>j < length names. \<forall>i < j. pe_status (tl_events t ! i) = ''failed'' \<longrightarrow> names ! j \<noteq> ''cleanup'' \<longrightarrow>
       pe_status (tl_events t ! j) = ''skipped'') \<and>
    (\<forall>j < length names. phase_required (names ! j) \<longrightarrow> pe_status (tl_events t ! j) = ''skipped'' \<longrightarrow>
       (\<exists>i < j. pe_status (tl_events t ! i) = ''failed'')) \<and>
    (tl_status t = ''passed'' \<longleftrightarrow> (\<forall>e \<in> set (tl_events t). pe_status e \<noteq> ''failed'')) \<and>
    tl_status t \<in> {''passed'', ''failed''}"
proof -
  have len: "length (tl_events t) = length names"
    using build_timeline_events[OF assms] by (simp add: build_events_Inr)
  have check: "check_phase j (names ! j) (\<exists>i < j. pe_status (tl_events t ! i) = ''failed'') (tl_events t ! j) = Inr ()"
    if "j < length names" for j
    using built_check[OF assms that] .
  have trial: "0 < trial" using assms by (simp add: build_timeline_Inr)
  have name_list: "map pe_name (tl_events t) = names"
    using check len by (intro nth_equalityI) (auto simp: check_phase_Inr)
  have sequence_list: "map pe_sequence (tl_events t) = map (\<lambda>j. int j + 1) [0..<length names]"
    using check len by (intro nth_equalityI) (auto simp: check_phase_Inr)
  have each: "pe_status e \<in> {''passed'', ''failed'', ''skipped''} \<and> (pe_status e \<noteq> ''passed'' \<longrightarrow> pe_reason e \<noteq> []) \<and>
       (pe_name e = ''cleanup'' \<longrightarrow> pe_status e \<noteq> ''skipped'')" if "e \<in> set (tl_events t)" for e
  proof -
    obtain j where "j < length names" and "e = tl_events t ! j" using \<open>e \<in> set _\<close> len by (auto simp: in_set_conv_nth)
    then show ?thesis using check[of j] unfolding check_phase_Inr by auto
  qed
  have after: "pe_status (tl_events t ! j) = ''skipped''"
    if "j < length names" "i < j" "pe_status (tl_events t ! i) = ''failed''" "names ! j \<noteq> ''cleanup''" for i j
    using check[of j] that unfolding check_phase_Inr by blast
  have excused: "\<exists>i < j. pe_status (tl_events t ! i) = ''failed''"
    if "j < length names" "phase_required (names ! j)" "pe_status (tl_events t ! j) = ''skipped''" for j
    using check[of j] that unfolding check_phase_Inr by blast
  have status: "(tl_status t = ''passed'' \<longleftrightarrow> (\<forall>e \<in> set (tl_events t). pe_status e \<noteq> ''failed'')) \<and>
    tl_status t \<in> {''passed'', ''failed''}"
    using build_timeline_events(3)[OF assms] by (auto simp: list_ex_iff)
  show ?thesis using trial name_list sequence_list each after excused status by blast
qed


text \<open>The times of the built events.\<close>

definition phase_in_order :: "clock \<Rightarrow> int option \<Rightarrow> phase_event \<Rightarrow> bool" where
  "phase_in_order ck previous e =
     (case (ck_parse ck (pe_started_at e), ck_parse ck (pe_finished_at e)) of
        (Some s, Some f) \<Rightarrow> s \<le> f \<and> (case previous of None \<Rightarrow> True | Some p \<Rightarrow> p \<le> s)
      | _ \<Rightarrow> False)"

definition phases_disjoint :: "clock \<Rightarrow> phase_event list \<Rightarrow> bool" where
  "phases_disjoint ck es =
     list_all (\<lambda>j. phase_in_order ck (if j = 0 then None else ck_parse ck (pe_finished_at (es ! (j - 1)))) (es ! j))
       [0..<length es]"

lemma timed_phase_in_order: "time_phase ck previous e = Inr (r, f) \<Longrightarrow> phase_in_order ck previous e"
  by (auto simp: time_phase_Inr phase_in_order_def split: option.splits)

lemma built_from_disjoint_phases:
  assumes "build_timeline ck schema run_id trial events names = Inr t"
  shows "phases_disjoint ck events"
proof -
  have "length events = length names" using build_timeline_events(2)[OF assms] .
  then show ?thesis
    unfolding phases_disjoint_def list_all_iff
    using build_timeline_event(2)[OF assms] timed_phase_in_order by fastforce
qed

text \<open>The instants an event names, where they can be read, are in the range of the clock.\<close>

definition phase_readable :: "clock \<Rightarrow> (int \<Rightarrow> bool) \<Rightarrow> phase_event \<Rightarrow> bool" where
  "phase_readable ck valid e =
     ((case ck_parse ck (pe_started_at e) of None \<Rightarrow> True | Some s \<Rightarrow> valid s) \<and>
      (case ck_parse ck (pe_finished_at e) of None \<Rightarrow> True | Some f \<Rightarrow> valid f))"

locale clock_interface =
  fixes ck :: clock and valid :: "int \<Rightarrow> bool"
  assumes parse_written: "valid t \<Longrightarrow> ck_parse ck (ck_format ck t) = Some t"
begin

abbreviation readable :: "phase_event \<Rightarrow> bool" where
  "readable \<equiv> phase_readable ck valid"

lemma time_phase_again:
  assumes "time_phase ck previous e = Inr (r, f)" and "readable e"
  shows "time_phase ck previous r = Inr (r, f)" and "ck_parse ck (pe_finished_at r) = Some f"
  using assms by (auto simp: time_phase_Inr phase_readable_def parse_written split: option.splits)

lemma build_events_again:
  assumes len: "length es = length names" and "list_all readable es"
    and built: "build_events ck k previous failed names es = Inr rs"
  shows "build_events ck k previous failed names rs = Inr rs"
proof -
  note event = built[unfolded build_events_Inr[OF len]]
  have readable: "readable (es ! j)" if "j < length names" for j
    using assms(2) that len by (simp add: list_all_length)
  have keeps: "pe_status (rs ! j) = pe_status (es ! j) \<and> pe_name (rs ! j) = pe_name (es ! j) \<and>
      pe_sequence (rs ! j) = pe_sequence (es ! j) \<and> pe_reason (rs ! j) = pe_reason (es ! j) \<and>
      ck_parse ck (pe_finished_at (rs ! j)) = ck_parse ck (pe_finished_at (es ! j))" if j: "j < length names" for j
  proof -
    obtain p f where t: "time_phase ck p (es ! j) = Inr (rs ! j, f)" using event j by blast
    then have "ck_parse ck (pe_finished_at (es ! j)) = Some f" by (auto simp: time_phase_Inr)
    then show ?thesis using time_phase_keeps[OF t] time_phase_again(2)[OF t readable[OF j]] by simp
  qed
  have "check_phase (k + j) (names ! j) (failed \<or> (\<exists>i < j. pe_status (rs ! i) = ''failed'')) (rs ! j) = Inr () \<and>
      (\<exists>f. time_phase ck (if j = 0 then previous else ck_parse ck (pe_finished_at (rs ! (j - 1)))) (rs ! j) =
        Inr (rs ! j, f))" if j: "j < length names" for j
  proof
    have "(\<exists>i < j. pe_status (rs ! i) = ''failed'') = (\<exists>i < j. pe_status (es ! i) = ''failed'')"
      using keeps j by auto
    moreover have "check_phase (k + j) (names ! j) (failed \<or> (\<exists>i < j. pe_status (es ! i) = ''failed'')) (es ! j) = Inr ()"
      using event j by blast
    ultimately show "check_phase (k + j) (names ! j) (failed \<or> (\<exists>i < j. pe_status (rs ! i) = ''failed'')) (rs ! j) = Inr ()"
      using keeps[OF j] unfolding check_phase_Inr by simp
    have same: "(if j = 0 then previous else ck_parse ck (pe_finished_at (rs ! (j - 1)))) =
        (if j = 0 then previous else ck_parse ck (pe_finished_at (es ! (j - 1))))"
      using keeps j by (cases j) simp_all
    obtain f where t: "time_phase ck (if j = 0 then previous else ck_parse ck (pe_finished_at (es ! (j - 1)))) (es ! j) =
        Inr (rs ! j, f)"
      using event j by blast
    show "\<exists>f. time_phase ck (if j = 0 then previous else ck_parse ck (pe_finished_at (rs ! (j - 1)))) (rs ! j) =
        Inr (rs ! j, f)"
      unfolding same using time_phase_again(1)[OF t readable[OF j]] by blast
  qed
  moreover have "length rs = length names" using event by simp
  ultimately show ?thesis using build_events_Inr[of rs names ck k previous failed rs] by simp
qed

text \<open>Building again from the built events gives the same timeline.\<close>

lemma build_timeline_again:
  assumes "build_timeline ck schema run_id trial events names = Inr t" and "list_all readable events"
  shows "build_timeline ck schema run_id trial (tl_events t) names = Inr t"
proof -
  have len: "length events = length names" and built: "build_events ck 0 None False names events = Inr (tl_events t)"
    using build_timeline_events[OF assms(1)] by simp_all
  have "length (tl_events t) = length names" using built by (simp add: build_events_Inr[OF len])
  with build_events_again[OF len assms(2) built] built show ?thesis
    using assms(1) unfolding build_timeline_Inr by simp
qed

lemma built_verifies:
  assumes "build_for_run ck run_id trial events = Inr t" and "list_all readable events"
  shows "verify_timeline ck t = Inr ()"
proof -
  have valid_id: "valid_run_id run_id"
    and built: "build_timeline ck phase_schema_v3 run_id trial events ordered_names = Inr t"
    using assms(1) by (auto simp: build_for_run_def split: if_splits)
  have fields: "tl_schema_version t = phase_schema_v3" "tl_artifact_type t = phase_artifact_type"
    "tl_run_id t = run_id" "tl_trial t = trial"
    using built by (auto simp: build_timeline_Inr Let_def)
  have "rebuild_timeline ck t = Inr t"
    using build_timeline_again[OF built assms(2)] valid_id by (simp add: rebuild_timeline_def fields build_for_run_def)
  then show ?thesis by (simp add: verify_timeline_def fields require_def)
qed

end

definition in_calendar :: "int \<Rightarrow> bool" where
  "in_calendar t = (0 \<le> t \<and> t < days_before_year 10000 * nanos_per_day)"

interpretation program_clock: clock_interface go_clock in_calendar
  by unfold_locales (simp add: go_clock_def in_calendar_def parse_format)


text \<open>C26: A timeline built for a run from instants of the calendar (years 0 to 9999) verifies: verification
  rebuilds it from its own events and finds the same aggregate and the same digest.\<close>

theorem built_timeline_verifies:
  assumes "build_for_run go_clock run_id trial events = Inr t"
    and "list_all (phase_readable go_clock in_calendar) events"
  shows "verify_timeline go_clock t = Inr ()"
  using assms by (rule program_clock.built_verifies)

subsection \<open>What verification reads\<close>

abbreviation redate :: "(phase_event \<Rightarrow> int \<times> int) \<Rightarrow> phase_event \<Rightarrow> phase_event" where
  "redate d e \<equiv> e\<lparr>pe_duration_ns := fst (d e), pe_duration_ms := snd (d e)\<rparr>"

lemma check_phase_redate: "check_phase k name failed (redate d e) = check_phase k name failed e"
  by (simp add: check_phase_def)

lemma time_phase_redate: "time_phase ck previous (redate d e) = time_phase ck previous e"
  by (simp add: time_phase_def Let_def cong: if_cong)

lemma build_events_redate:
  "build_events ck k previous failed names (map (redate d) es) = build_events ck k previous failed names es"
proof (induction names arbitrary: es k previous failed)
  case (Cons name names)
  show ?case
  proof (cases es)
    case (Cons e es')
    then show ?thesis by (simp add: Cons.IH check_phase_redate time_phase_redate)
  qed simp
qed simp

lemma build_timeline_redate:
  "build_timeline ck schema run_id trial (map (redate d) es) names = build_timeline ck schema run_id trial es names"
  by (simp add: build_timeline_def build_events_redate)

text \<open>C39: Verification does not read the recorded durations of the phases: a timeline whose events carry
  any other durations, in nanoseconds or in milliseconds, verifies exactly when the original does.\<close>

theorem verification_ignores_phase_durations:
  "verify_timeline ck (t\<lparr>tl_events :=
      map (\<lambda>e. e\<lparr>pe_duration_ns := fst (d e), pe_duration_ms := snd (d e)\<rparr>) (tl_events t)\<rparr>) = verify_timeline ck t"
proof -
  have "rebuild_timeline ck (t\<lparr>tl_events := map (redate d) (tl_events t)\<rparr>) = rebuild_timeline ck t"
    by (simp add: rebuild_timeline_def build_for_run_def build_legacy_def build_timeline_redate cong: if_cong)
  then show ?thesis by (simp add: verify_timeline_def cong: if_cong)
qed

subsection \<open>Journals bound to a run\<close>

lemma canonical_positive_Some: "canonical_positive s = Some n \<longleftrightarrow> parse_int64 s = Some n \<and> 0 < n \<and> show_int n = s"
  by (auto simp: canonical_positive_def split: option.splits)

definition bound_row :: "string \<Rightarrow> int \<Rightarrow> string \<Rightarrow> bool" where
  "bound_row run trial line =
     (case split_on (CHR 0x09) (drop_cr line) of
        a # b # rest \<Rightarrow> a = run \<and> b = show_int trial \<and> length rest = 6
      | _ \<Rightarrow> False)"

lemma bound_row_iff:
  "bound_row run trial line \<longleftrightarrow>
     (let columns = split_on (CHR 0x09) (drop_cr line)
      in length columns = 8 \<and> columns ! 0 = run \<and> columns ! 1 = show_int trial)"
  by (auto simp: bound_row_def Let_def split: list.splits)

lemma parse_row_bound:
  assumes "parse_row trial run line raw j = Inr j'" and "run \<noteq> []"
  shows "bound_row run trial raw" and "jo_run_id j' = run" and "jo_format j' = Some True"
    and "length (jo_events j') = Suc (length (jo_events j))"
proof -
  obtain b r columns where binding:
      "check_binding trial run line (split_on (CHR 0x09) (drop_cr raw)) j = Inr (b, r, columns)"
    and j': "jo_run_id j' = r" "jo_format j' = Some b" "length (jo_events j') = Suc (length (jo_events j))"
    using assms(1) by (auto simp: parse_row_def bind_r_Inr split: if_splits option.splits)
  from binding assms(2) have "b" "r = run" "bound_row run trial raw"
    by (auto simp: check_binding_def bound_row_iff Let_def canonical_positive_Some split: if_splits option.splits)
  then show "bound_row run trial raw" "jo_run_id j' = run" "jo_format j' = Some True"
    "length (jo_events j') = Suc (length (jo_events j))"
    using j' by simp_all
qed

lemma parse_rows_bound:
  assumes "parse_rows trial run line j ls = Inr j'" and "run \<noteq> []"
  shows "list_all (bound_row run trial) ls \<and> length (jo_events j') = length (jo_events j) + length ls \<and>
    (ls \<noteq> [] \<longrightarrow> jo_run_id j' = run \<and> jo_format j' = Some True)"
  using assms
proof (induction ls arbitrary: j line)
  case (Cons raw ls)
  then obtain j1 where row: "parse_row trial run line raw j = Inr j1"
    and rest: "parse_rows trial run (Suc line) j1 ls = Inr j'" by (auto simp: result_simps)
  show ?case using parse_row_bound[OF row Cons.prems(2)] Cons.IH[OF rest Cons.prems(2)] rest by (cases ls) auto
qed simp

lemma valid_run_id_nonempty: "valid_run_id run \<Longrightarrow> run \<noteq> []"
  by (simp add: valid_run_id_def)

lemma build_timeline_fields:
  assumes "build_timeline ck schema run_id trial events names = Inr t"
  shows "tl_run_id t = run_id" "tl_trial t = trial" "tl_schema_version t = schema"
    "length (tl_events t) = length names" "length events = length names"
proof -
  show "tl_run_id t = run_id" "tl_trial t = trial" "tl_schema_version t = schema"
    using assms by (auto simp: build_timeline_def result_simps Let_def split: if_splits)
  show "length (tl_events t) = length names" "length events = length names"
    using build_timeline_events[OF assms] by (simp_all add: build_events_Inr)
qed

text \<open>C27: A journal that is accepted for an expected run is bound to it: the run and the trial of the
  timeline are the expected ones, every row of the journal names them, and there are as many rows as phases.\<close>

theorem journal_is_bound_to_run:
  assumes "parse_journal ck trial (Some run) content = Inr t"
  shows "valid_run_id run \<and> tl_run_id t = run \<and> tl_trial t = trial \<and>
    tl_schema_version t \<in> {phase_schema_v2, phase_schema_v3} \<and>
    length (raw_lines content) = length (tl_events t) \<and>
    list_all (bound_row run trial) (map drop_cr (raw_lines content))"
proof -
  obtain short late where scan: "scan_lines journal_line_limit content = (short, late)" by fastforce
  obtain j where valid: "valid_run_id run"
    and rows: "parse_rows trial run 1 \<lparr>jo_format = None, jo_run_id = [], jo_events = []\<rparr> short = Inr j"
    and "\<not> late"
    and built: "(if jo_format j = Some True
        then if length (jo_events j) = length legacy_ordered_names
             then build_timeline ck phase_schema_v2 (jo_run_id j) trial (jo_events j) legacy_ordered_names
             else build_for_run ck (jo_run_id j) trial (jo_events j)
        else build_legacy ck trial (jo_events j)) = Inr t"
    using assms scan by (auto simp: parse_journal_def result_simps split: if_splits)
  have lines: "short = map drop_cr (raw_lines content)"
  proof -
    have "\<not> length (takeWhile (\<lambda>l. length l < journal_line_limit) (raw_lines content)) < length (raw_lines content)"
      using scan \<open>\<not> late\<close> by (simp add: scan_lines_def Let_def)
    then have "takeWhile (\<lambda>l. length l < journal_line_limit) (raw_lines content) = raw_lines content"
      by (subst takeWhile_eq_take) simp
    moreover have "short = map drop_cr (takeWhile (\<lambda>l. length l < journal_line_limit) (raw_lines content))"
      using scan unfolding scan_lines_def Let_def by blast
    ultimately show ?thesis by (simp only:)
  qed
  note bound = parse_rows_bound[OF rows valid_run_id_nonempty[OF valid]]
  have "short \<noteq> []"
  proof
    assume "short = []"
    then have "j = \<lparr>jo_format = None, jo_run_id = [], jo_events = []\<rparr>" using rows by simp
    then show False using built by (simp add: build_legacy_def build_timeline_def legacy_ordered_names_def split: if_splits)
  qed
  then have j: "jo_run_id j = run" "jo_format j = Some True" "length (jo_events j) = length short"
    using bound by simp_all
  have "\<exists>schema names. build_timeline ck schema run trial (jo_events j) names = Inr t \<and>
      schema \<in> {phase_schema_v2, phase_schema_v3}"
    using built j by (auto simp: build_for_run_def split: if_splits)
  then show ?thesis using build_timeline_fields valid bound lines j(3) by fastforce
qed




subsection \<open>A lifecycle on the program's clock\<close>

text \<open>Acceptance without the written times: only the instants that the events name matter.\<close>

fun accepts_phases :: "clock \<Rightarrow> nat \<Rightarrow> int option \<Rightarrow> bool \<Rightarrow> string list \<Rightarrow> phase_event list \<Rightarrow> bool" where
  "accepts_phases ck k previous failed (name # names) (e # es) =
     (ok (check_phase k name failed e) \<and> phase_in_order ck previous e \<and>
      (case (ck_parse ck (pe_started_at e), ck_parse ck (pe_finished_at e)) of
         (Some s, Some f) \<Rightarrow> pe_name e = ''measure'' \<longrightarrow> pe_status e = ''passed'' \<longrightarrow> 0 < time_sub f s
       | _ \<Rightarrow> False) \<and>
      accepts_phases ck (Suc k) (ck_parse ck (pe_finished_at e)) (failed \<or> pe_status e = ''failed'') names es)"
| "accepts_phases ck k previous failed names es = True"

lemma time_phase_accepts:
  assumes "phase_in_order ck previous e" and "ck_parse ck (pe_started_at e) = Some s"
    and "ck_parse ck (pe_finished_at e) = Some f"
    and "pe_name e = ''measure'' \<longrightarrow> pe_status e = ''passed'' \<longrightarrow> 0 < time_sub f s"
  shows "\<exists>r. time_phase ck previous e = Inr (r, f)"
  using assms by (auto simp: time_phase_Inr phase_in_order_def not_le split: option.splits)

lemma build_events_accepts:
  "accepts_phases ck k previous failed names es \<Longrightarrow> ok (build_events ck k previous failed names es)"
proof (induction ck k previous failed names es rule: accepts_phases.induct)
  case (1 ck k previous failed name names e es)
  then obtain s f where times: "ck_parse ck (pe_started_at e) = Some s" "ck_parse ck (pe_finished_at e) = Some f"
    by (auto split: option.splits)
  then obtain r where "time_phase ck previous e = Inr (r, f)"
    using time_phase_accepts[of ck previous e s f] "1.prems" by auto
  moreover have "ok (build_events ck (Suc k) (Some f) (failed \<or> pe_status e = ''failed'') names es)"
    using 1 times by simp
  ultimately show ?case using "1.prems" by (auto simp: ok_iff)
qed simp_all

lemma build_for_run_accepts:
  assumes "accepts_phases ck 0 None False ordered_names events" and "length events = length ordered_names"
    and "0 < trial" and "valid_run_id run_id"
  shows "\<exists>t. build_for_run ck run_id trial events = Inr t"
proof -
  obtain timed where "build_events ck 0 None False ordered_names events = Inr timed"
    using build_events_accepts[OF assms(1)] by (auto simp: ok_iff)
  then show ?thesis using assms by (simp add: build_for_run_def build_timeline_def Let_def)
qed

text \<open>A run that fails in its second phase.\<close>

definition sample_times :: "(string \<times> string) list" where
  "sample_times =
     [(''2024-02-29T10:00:00Z'', ''2024-02-29T10:00:01Z''), (''2024-02-29T10:00:01Z'', ''2024-02-29T12:00:02+02:00''),
      (''2024-02-29T10:00:02Z'', ''2024-02-29T10:00:03Z''), (''2024-02-29T10:00:03Z'', ''2024-02-29T10:00:04Z''),
      (''2024-02-29T10:00:04Z'', ''2024-02-29T10:00:05Z''), (''2024-02-29T10:00:05Z'', ''2024-02-29T10:00:06Z''),
      (''2024-02-29T10:00:06Z'', ''2024-02-29T10:00:07Z''), (''2024-02-29T10:00:07Z'', ''2024-02-29T10:00:08Z''),
      (''2024-02-29T10:00:08Z'', ''2024-02-29T10:00:09Z''), (''2024-02-29T10:00:09Z'', ''2024-02-29T10:00:10Z''),
      (''2024-02-29T10:00:10Z'', ''2024-02-29T10:00:10Z'')]"

definition sample_events :: "phase_event list" where
  "sample_events =
     map (\<lambda>n. \<lparr>pe_sequence = int n + 1, pe_name = ordered_names ! n,
               pe_status = (if n = 1 then ''failed'' else if n = 0 \<or> n = 10 then ''passed'' else ''skipped''),
               pe_started_at = fst (sample_times ! n), pe_finished_at = snd (sample_times ! n),
               pe_duration_ns = 0, pe_duration_ms = 0, pe_reason = ''setup failed''\<rparr>) [0..<11]"

lemma sample_instants:
  shows "parse_rfc3339 ''2024-02-29T10:00:00Z'' = Some 63876420000000000000"
    "parse_rfc3339 ''2024-02-29T10:00:01Z'' = Some 63876420001000000000"
    "parse_rfc3339 ''2024-02-29T10:00:02Z'' = Some 63876420002000000000"
    "parse_rfc3339 ''2024-02-29T10:00:03Z'' = Some 63876420003000000000"
    "parse_rfc3339 ''2024-02-29T10:00:04Z'' = Some 63876420004000000000"
    "parse_rfc3339 ''2024-02-29T10:00:05Z'' = Some 63876420005000000000"
    "parse_rfc3339 ''2024-02-29T10:00:06Z'' = Some 63876420006000000000"
    "parse_rfc3339 ''2024-02-29T10:00:07Z'' = Some 63876420007000000000"
    "parse_rfc3339 ''2024-02-29T10:00:08Z'' = Some 63876420008000000000"
    "parse_rfc3339 ''2024-02-29T10:00:09Z'' = Some 63876420009000000000"
    "parse_rfc3339 ''2024-02-29T10:00:10Z'' = Some 63876420010000000000"
    "parse_rfc3339 ''2024-02-29T12:00:02+02:00'' = Some 63876420002000000000"
  by code_simp+

lemmas sample_event_simps = sample_instants go_clock_def sample_events_def sample_times_def ordered_names_def upt_rec

lemma sample_events_accepted: "accepts_phases go_clock 0 None False ordered_names sample_events"
  by (simp add: sample_event_simps check_phase_def phase_in_order_def require_def phase_required_def)

lemma sample_events_readable: "list_all (phase_readable go_clock in_calendar) sample_events"
  by (simp add: sample_event_simps phase_readable_def in_calendar_def days_before_year_def nanos_per_day_def
      nanos_per_second_def)

lemma sample_events_built: "\<exists>t. build_for_run go_clock ''run-1'' 1 sample_events = Inr t"
proof (rule build_for_run_accepts[OF sample_events_accepted])
  show "length sample_events = length ordered_names" by code_simp
  show "valid_run_id ''run-1''" by code_simp
qed simp

subsection \<open>The journal round trip\<close>

text \<open>The row of a phase as the runners append it: run, trial and the six columns of the event.\<close>

definition journal_columns :: "string \<Rightarrow> int \<Rightarrow> phase_event \<Rightarrow> string list" where
  "journal_columns run trial e =
     [run, show_int trial, show_int (pe_sequence e), pe_name e, pe_status e, pe_started_at e, pe_finished_at e,
      pe_reason e]"

definition journal_row :: "string \<Rightarrow> int \<Rightarrow> phase_event \<Rightarrow> string" where
  "journal_row run trial e = join [CHR 0x09] (journal_columns run trial e)"

definition journal_text :: "string \<Rightarrow> int \<Rightarrow> phase_event list \<Rightarrow> string" where
  "journal_text run trial es = concat (map (\<lambda>e. journal_row run trial e @ [newline]) es)"

definition one_column :: "string \<Rightarrow> bool" where
  "one_column s = list_all (\<lambda>c. c \<noteq> CHR 0x09 \<and> c \<noteq> CHR 0x0A \<and> c \<noteq> CHR 0x0D) s"

definition journal_event :: "phase_event \<Rightarrow> bool" where
  "journal_event e =
     (0 < pe_sequence e \<and> int64 (pe_sequence e) \<and> one_column (pe_name e) \<and> one_column (pe_status e) \<and>
      one_column (pe_started_at e) \<and> one_column (pe_finished_at e) \<and> one_column (pe_reason e) \<and>
      pe_duration_ns e = 0 \<and> pe_duration_ms e = 0)"

lemma one_column_digits: "all_digits s \<Longrightarrow> one_column s"
  by (auto simp: all_digits_def one_column_def list_all_iff is_digit_def code_def)

lemma one_column_show_int: "0 < n \<Longrightarrow> one_column (show_int n)"
  by (simp add: show_int_def one_column_digits)

lemma one_column_run_id: "valid_run_id run \<Longrightarrow> one_column run"
  by (cases run) (auto simp: valid_run_id_def one_column_def list_all_iff is_alnum_def is_lower_def is_upper_def is_digit_def
      code_def)

lemma journal_columns_clean:
  assumes "valid_run_id run" and "0 < trial" and "journal_event e"
  shows "list_all one_column (journal_columns run trial e)"
  using assms by (simp add: journal_columns_def journal_event_def one_column_show_int one_column_run_id)

lemma one_column_notin: "one_column s \<Longrightarrow> CHR 0x09 \<notin> set s \<and> newline \<notin> set s \<and> CHR 0x0D \<notin> set s"
  by (auto simp: one_column_def list_all_iff newline_def)

lemma journal_row_clean:
  assumes "valid_run_id run" and "0 < trial" and "journal_event e"
  shows "newline \<notin> set (journal_row run trial e)" and "drop_cr (journal_row run trial e) = journal_row run trial e"
    and "split_on (CHR 0x09) (journal_row run trial e) = journal_columns run trial e"
proof -
  have clean: "c \<notin> set s" if "s \<in> set (journal_columns run trial e)" "c \<in> {CHR 0x09, newline, CHR 0x0D}" for s c
    using journal_columns_clean[OF assms] one_column_notin that by (auto simp: list_all_iff)
  have "c \<notin> set (journal_row run trial e)" if "c \<in> {newline, CHR 0x0D}" for c
  proof
    assume "c \<in> set (journal_row run trial e)"
    then have "c = CHR 0x09 \<or> (\<exists>s \<in> set (journal_columns run trial e). c \<in> set s)"
      unfolding journal_row_def by (auto dest: join_in_set)
    moreover have "c \<noteq> CHR 0x09" using that by (auto simp: newline_def)
    ultimately show False using clean that by auto
  qed
  then have "newline \<notin> set (journal_row run trial e)" and cr: "CHR 0x0D \<notin> set (journal_row run trial e)" by auto
  then show "newline \<notin> set (journal_row run trial e)" by simp
  show "drop_cr (journal_row run trial e) = journal_row run trial e"
    using cr by (metis drop_cr_def last_in_set)
  show "split_on (CHR 0x09) (journal_row run trial e) = journal_columns run trial e"
    unfolding journal_row_def using clean by (intro split_on_join) (auto simp: journal_columns_def)
qed

lemma parse_journal_row:
  assumes "valid_run_id run" and "0 < trial" and "int64 trial" and "journal_event e"
    and "jo_run_id j = run \<and> jo_format j = Some True \<or> jo_run_id j = [] \<and> jo_format j = None"
  shows "parse_row trial run line (journal_row run trial e) j =
    Inr \<lparr>jo_format = Some True, jo_run_id = run, jo_events = jo_events j @ [e]\<rparr>"
proof -
  note row = journal_row_clean[OF assms(1,2,4)]
  have trial: "canonical_positive (show_int trial) = Some trial"
    using assms(2,3) by (simp add: canonical_positive_Some)
  have binding: "check_binding trial run line (journal_columns run trial e) j =
      Inr (True, run, drop 2 (journal_columns run trial e))"
    using assms(1,5) trial by (auto simp: check_binding_def journal_columns_def Let_def)
  have sequence: "canonical_positive (show_int (pe_sequence e)) = Some (pe_sequence e)"
    using assms(4) by (simp add: canonical_positive_Some journal_event_def)
  have reason: "\<not> list_ex (\<lambda>c. c = CHR 0x0D \<or> c = CHR 0x0A \<or> c = CHR 0x09) (pe_reason e)"
    using assms(4) by (auto simp: journal_event_def one_column_def list_all_iff list_ex_iff)
  have event: "\<lparr>pe_sequence = pe_sequence e, pe_name = pe_name e, pe_status = pe_status e,
      pe_started_at = pe_started_at e, pe_finished_at = pe_finished_at e, pe_duration_ns = 0, pe_duration_ms = 0,
      pe_reason = pe_reason e\<rparr> = e"
    using assms(4) by (cases e) (simp add: journal_event_def)
  have columns: "drop 2 (journal_columns run trial e) =
      [show_int (pe_sequence e), pe_name e, pe_status e, pe_started_at e, pe_finished_at e, pe_reason e]"
    by (simp add: journal_columns_def)
  have "\<not> (jo_format j \<noteq> None \<and> jo_format j \<noteq> Some True)" using assms(5) by auto
  then show ?thesis
    using reason sequence by (simp add: parse_row_def row binding columns event)
qed

lemma parse_journal_rows:
  assumes "valid_run_id run" and "0 < trial" and "int64 trial" and "list_all journal_event es"
    and "jo_run_id j = run \<and> jo_format j = Some True \<or> jo_run_id j = [] \<and> jo_format j = None"
  shows "parse_rows trial run line j (map (journal_row run trial) es) =
    (if es = [] then Inr j
     else Inr \<lparr>jo_format = Some True, jo_run_id = run, jo_events = jo_events j @ es\<rparr>)"
  using assms(4,5)
proof (induction es arbitrary: j line)
  case (Cons e es)
  then show ?case by (simp add: parse_journal_row[OF assms(1-3)])
qed simp

lemma raw_lines_text:
  assumes "list_all (\<lambda>l. newline \<notin> set l) ls"
  shows "raw_lines (concat (map (\<lambda>l. l @ [newline]) ls)) = ls"
proof -
  have "split_on newline (concat (map (\<lambda>l. l @ [newline]) ls)) = ls @ [[]]"
    using assms by (induction ls) (auto simp: split_on_append split_on_notin)
  then show ?thesis by (simp add: raw_lines_def)
qed

lemma journal_text_read:
  assumes "valid_run_id run" and "0 < trial" and "int64 trial" and "list_all journal_event es"
    and "list_all (\<lambda>e. length (journal_row run trial e) < journal_line_limit) es"
    and "length es = length ordered_names"
  shows "parse_journal ck trial (Some run) (journal_text run trial es) = build_for_run ck run trial es"
proof -
  define ls where "ls = map (journal_row run trial) es"
  have event: "journal_event e" if "e \<in> set es" for e using assms(4) that by (simp add: list_all_iff)
  have "list_all (\<lambda>l. newline \<notin> set l) ls"
    using journal_row_clean(1)[OF assms(1,2)] event by (auto simp: ls_def list_all_iff)
  moreover have "journal_text run trial es = concat (map (\<lambda>l. l @ [newline]) ls)"
    by (simp add: journal_text_def ls_def comp_def)
  ultimately have raw: "raw_lines (journal_text run trial es) = ls" by (simp add: raw_lines_text)
  have short: "takeWhile (\<lambda>l. length l < journal_line_limit) ls = ls"
    using assms(5) by (simp add: takeWhile_eq_all_conv list_all_iff ls_def)
  have "map drop_cr ls = ls"
    using journal_row_clean(2)[OF assms(1,2)] event by (simp add: ls_def map_idI)
  then have scan: "scan_lines journal_line_limit (journal_text run trial es) = (ls, False)"
    by (simp add: scan_lines_def raw short Let_def)
  have "es \<noteq> []" using assms(6) by (auto simp: ordered_names_def)
  then have rows: "parse_rows trial run 1 \<lparr>jo_format = None, jo_run_id = [], jo_events = []\<rparr> ls =
      Inr \<lparr>jo_format = Some True, jo_run_id = run, jo_events = es\<rparr>"
    unfolding ls_def by (subst parse_journal_rows[OF assms(1-4)]) simp_all
  have "length es \<noteq> length legacy_ordered_names"
    using assms(6) by (simp add: ordered_names_def legacy_ordered_names_def)
  then show ?thesis by (simp add: parse_journal_def scan rows[unfolded One_nat_def] assms(1))
qed


text \<open>C38: A written journal reads back: parsing the rows of the phases of a run gives the timeline that
  is built from those phases directly, with its errors.\<close>

theorem journal_reads_back:
  assumes "valid_run_id run" and "0 < trial" and "int64 trial" and "list_all journal_event es"
    and "list_all (\<lambda>e. length (journal_row run trial e) < journal_line_limit) es"
    and "length es = length ordered_names"
  shows "parse_journal ck trial (Some run) (journal_text run trial es) = build_for_run ck run trial es"
  using assms by (rule journal_text_read)

lemma sample_events_journal:
  "list_all journal_event sample_events"
  "list_all (\<lambda>e. length (journal_row ''run-1'' 1 e) < journal_line_limit) sample_events"
  "length sample_events = length ordered_names"
proof -
  show "list_all journal_event sample_events" by code_simp
  show "length sample_events = length ordered_names" by code_simp
  have "list_all (\<lambda>e. length (journal_row ''run-1'' 1 e) < 120) sample_events" by code_simp
  then show "list_all (\<lambda>e. length (journal_row ''run-1'' 1 e) < journal_line_limit) sample_events"
    by (rule list.pred_mono_strong) (simp add: journal_line_limit_def)
qed

theorem built_timeline_follows_lifecycle_witness:
  "\<exists>t. build_for_run go_clock ''run-1'' 1 sample_events = Inr t \<and> map pe_name (tl_events t) = ordered_names"
proof -
  obtain t where t: "build_for_run go_clock ''run-1'' 1 sample_events = Inr t" using sample_events_built by blast
  then have "build_timeline go_clock phase_schema_v3 ''run-1'' 1 sample_events ordered_names = Inr t"
    by (simp add: build_for_run_def split: if_splits)
  from built_timeline_follows_lifecycle[OF this] t show ?thesis by blast
qed

theorem built_timeline_verifies_witness:
  "\<exists>t. build_for_run go_clock ''run-1'' 1 sample_events = Inr t \<and> verify_timeline go_clock t = Inr ()"
  using sample_events_built built_timeline_verifies[OF _ sample_events_readable] by blast

theorem journal_reads_back_witness:
  "parse_journal go_clock 1 (Some ''run-1'') (journal_text ''run-1'' 1 sample_events) =
     build_for_run go_clock ''run-1'' 1 sample_events"
  by (rule journal_reads_back) (simp_all add: sample_events_journal valid_run_id_def is_alnum_def is_lower_def
      is_upper_def is_digit_def code_def int64_def min_int64_def max_int64_def)


theorem journal_is_bound_to_run_witness:
  "\<exists>t. parse_journal go_clock 1 (Some ''run-1'') (journal_text ''run-1'' 1 sample_events) = Inr t \<and>
     tl_run_id t = ''run-1''"
proof -
  have "valid_run_id ''run-1''" by code_simp
  then have "parse_journal go_clock 1 (Some ''run-1'') (journal_text ''run-1'' 1 sample_events) =
      build_for_run go_clock ''run-1'' 1 sample_events"
    by (intro journal_text_read) (simp_all add: sample_events_journal int64_def min_int64_def max_int64_def)
  then show ?thesis using sample_events_built journal_is_bound_to_run by metis
qed

end
