(* ===== verification/ABProtocol.thy ===== *)
theory ABProtocol
  imports Compare HostInspect BenchmarkSettings BenchmarkPhase
begin

section \<open>The protocol of a counterbalanced benchmark\<close>

text \<open>
  \<^verbatim>\<open>internal/benchmarkab/protocol.go\<close> and \<^verbatim>\<open>types.go\<close>: building the immutable protocol of an A/B benchmark
  from a pair of plans, and verifying a protocol that was read back; with the part of
  \<^verbatim>\<open>internal/nativetoolchain/toolchain.go\<close> that compares two toolchains. Inspecting a directory of executables
  is an argument: it yields the manifest or fails.
\<close>

subsection \<open>Identifiers\<close>

definition sanitize_id :: "string \<Rightarrow> string" where
  "sanitize_id v =
     filter (\<lambda>c. is_alnum c \<or> c = CHR ''_'' \<or> c = CHR ''.'' \<or> c = CHR ''-'')
       (map (\<lambda>c. if c = CHR ''/'' \<or> c = CHR '' '' then CHR ''_'' else c) v)"

definition valid_series_id :: "string \<Rightarrow> bool" where
  "valid_series_id v =
     (if v = [] \<or> length v > 180 then False else if \<not> is_alnum (hd v) then False else sanitize_id v = v)"

subsection \<open>Native toolchains\<close>

record binary =
  bi_name :: string
  bi_path :: string
  bi_digest :: string
  bi_size :: int
  bi_version :: string

record manifest =
  mn_schema_version :: string
  mn_artifact_type :: string
  mn_source_commit :: string
  mn_build_provenance :: string
  mn_binaries :: "binary list"
  mn_digest :: string

definition unattested :: string where
  "unattested = ''unattested''"

definition manifest_name :: string where
  "manifest_name = ''manifest.json''"

definition required_executables :: "string list" where
  "required_executables = [''createdb'', ''initdb'', ''pg_ctl'', ''pg_isready'', ''pgbench'', ''postgres'', ''psql'']"

definition toolchain_version :: "manifest \<Rightarrow> string \<Rightarrow> string" where
  "toolchain_version m name = (case find (\<lambda>b. bi_name b = name) (mn_binaries m) of None \<Rightarrow> [] | Some b \<Rightarrow> bi_version b)"

text \<open>\<open>RequireComparableVersions\<close>: the first executable whose versions are missing or differ.\<close>

definition incomparable_executable :: "manifest \<Rightarrow> manifest \<Rightarrow> string option" where
  "incomparable_executable l r =
     find (\<lambda>name. toolchain_version l name = [] \<or> toolchain_version r name = [] \<or>
                   toolchain_version l name \<noteq> toolchain_version r name) required_executables"

definition binary_json :: "binary \<Rightarrow> string" where
  "binary_json b =
     json_object [(''name'', json_string (bi_name b)), (''path'', json_string (bi_path b)),
       (''digest'', json_string (bi_digest b)), (''size'', show_int (bi_size b)),
       (''version'', json_string (bi_version b))]"

definition manifest_json :: "manifest \<Rightarrow> string" where
  "manifest_json m =
     json_object [(''schema_version'', json_string (mn_schema_version m)),
       (''artifact_type'', json_string (mn_artifact_type m)), (''source_commit'', json_string (mn_source_commit m)),
       (''build_provenance'', json_string (mn_build_provenance m)),
       (''binaries'', json_array (map binary_json (mn_binaries m))), (''digest'', json_string (mn_digest m))]"

definition manifest_digest :: "manifest \<Rightarrow> string" where
  "manifest_digest m = digest_bytes (manifest_json (m\<lparr>mn_digest := []\<rparr>))"

datatype manifest_error =
    Manifest_unsupported
  | Manifest_attested
  | Manifest_count
  | Manifest_binary nat
  | Manifest_digest_mismatch

definition text_control :: "string \<Rightarrow> bool" where
  "text_control v = list_ex (\<lambda>c. c = CHR 0x0D \<or> c = CHR 0x0A \<or> c = CHR 0x00) v"

definition binary_ok :: "string \<Rightarrow> binary \<Rightarrow> bool" where
  "binary_ok name b =
     (bi_name b = name \<and> bi_path b = ''bin/'' @ bi_name b \<and> is_portable_path (bi_path b) \<and> is_digest (bi_digest b) \<and>
      0 < bi_size b \<and> bi_version b \<noteq> [] \<and> \<not> text_control (bi_version b))"

fun check_binaries :: "nat \<Rightarrow> string list \<Rightarrow> binary list \<Rightarrow> (manifest_error, unit) result" where
  "check_binaries n (name # names) (b # bs) =
     (if \<not> binary_ok name b then Inl (Manifest_binary (Suc n)) else check_binaries (Suc n) names bs)"
| "check_binaries n names bs = Inr ()"

definition verify_manifest :: "manifest \<Rightarrow> (manifest_error, unit) result" where
  "verify_manifest m =
     (if mn_schema_version m \<noteq> ''pgworkbench.native-toolchain/v1'' \<or>
         mn_artifact_type m \<noteq> ''pgworkbench.native-toolchain''
      then Inl Manifest_unsupported
      else if mn_source_commit m \<noteq> unattested \<or> mn_build_provenance m \<noteq> unattested then Inl Manifest_attested
      else if length (mn_binaries m) \<noteq> length required_executables then Inl Manifest_count
      else bind_r (check_binaries 0 (sort required_executables) (mn_binaries m)) (\<lambda>_.
        require (manifest_digest m = mn_digest m) Manifest_digest_mismatch))"

subsection \<open>Data\<close>

record toolchain_identity =
  ti_manifest_ref :: string
  ti_digest :: string
  ti_postgres_version :: string
  ti_pgbench_version :: string
  ti_psql_version :: string
  ti_source_commit :: string
  ti_build_provenance :: string

record subject =
  sb_role :: string
  sb_benchmark :: string
  sb_subject :: string
  sb_protocol_digest :: string
  sb_pg_config :: string
  sb_pg_config_digest :: string
  sb_native_toolchain :: "toolchain_identity option"

record analysis_protocol =
  an_bootstrap_method :: string
  an_bootstrap_resamples :: int
  an_confidence_level :: f64
  an_seed :: "64 word"

record qualification_protocol =
  qp_policy :: policy
  qp_policy_digest :: string
  qp_storage_label :: string
  qp_client_placement :: string

record settings_protocol =
  sg_parser_version :: string
  sg_source_path :: string
  sg_names :: "string list"
  sg_require_difference :: bool

record protocol =
  pt_schema_version :: string
  pt_artifact_type :: string
  pt_scheduler_version :: string
  pt_run_id :: string
  pt_runtime :: string
  pt_subject_dimension :: string
  pt_baseline :: subject
  pt_candidate :: subject
  pt_comparison_key_digest :: string
  pt_blocks_planned :: int
  pt_min_valid_units :: int
  pt_orders :: "string list"
  pt_primary_metric :: string
  pt_direction :: string
  pt_regression_threshold_pct :: f64
  pt_analysis :: analysis_protocol
  pt_qualification :: qualification_protocol
  pt_effective_settings :: settings_protocol
  pt_max_bookend_gap_seconds :: int
  pt_digest :: string

text \<open>The fields of \<open>benchmarkplan.Plan\<close> that the protocol reads.\<close>

record ab_plan =
  ap_class :: string
  ap_spec :: string
  ap_comparison_key_digest :: string
  ap_protocol_digest :: string
  ap_pg_config :: string
  ap_pg_config_path :: string
  ap_pg_config_digest :: string
  ap_allowed_differences :: "string list"
  ap_trials :: int
  ap_min_valid_trials :: int
  ap_regression_threshold_pct :: "f64 option"
  ap_client_placement :: string
  ap_primary_metric :: string
  ap_direction :: string

record ab_options =
  ao_runtime :: string
  ao_subject_dimension :: string
  ao_baseline_bindir :: string
  ao_candidate_bindir :: string
  ao_baseline_subject :: string
  ao_candidate_subject :: string
  ao_bootstrap_resamples :: int
  ao_confidence_level :: f64
  ao_seed :: "64 word"
  ao_qualification :: inspect_options
  ao_max_bookend_gap_seconds :: int
  ao_series_runtime :: string

definition protocol_schema :: string where
  "protocol_schema = ''pgworkbench.benchmark-ab-protocol/v3''"

definition protocol_artifact :: string where
  "protocol_artifact = ''pgworkbench.benchmark-ab-protocol''"

definition scheduler_version :: string where
  "scheduler_version = ''3.0.0''"

definition subject_pg_config :: string where
  "subject_pg_config = ''pg_config''"

definition subject_native_toolchain :: string where
  "subject_native_toolchain = ''native_toolchain''"

definition bootstrap_method :: string where
  "bootstrap_method = ''percentile-cluster-bootstrap-of-block-median''"

datatype protocol_error =
    Plans_not_measurement
  | Plans_keys_differ
  | Plans_config_same
  | Plans_config_differ
  | Plans_dimension_not_permitted
  | Dimension_unsupported string
  | Plans_trials
  | Plans_min_valid
  | Plans_threshold
  | Profile_incomplete
  | Placement_not_explicit
  | Placement_not_declared
  | Storage_label_missing
  | Run_id_invalid
  | Subjects_not_distinct
  | Runtime_unsupported
  | Toolchain_needs_native
  | Toolchain_unreadable string
  | Toolchains_same
  | Toolchains_incomparable string
  | Bindir_without_dimension
  | Bookend_gap
  | Policy_undigestible
  | Settings_underivable settings_error
  | Protocol_unsupported
  | Protocol_roles
  | Protocol_subject
  | Protocol_toolchain_unexpected
  | Protocol_toolchain_invalid string
  | Protocol_key
  | Protocol_no_difference
  | Protocol_versions_differ
  | Protocol_blocks
  | Protocol_order nat
  | Protocol_min_units
  | Protocol_metric
  | Protocol_bootstrap
  | Protocol_analysis "string list"
  | Protocol_policy_digest
  | Protocol_qualification
  | Protocol_settings
  | Protocol_settings_gate
  | Protocol_names settings_error
  | Protocol_digest_mismatch

subsection \<open>The digest\<close>

definition toolchain_json :: "toolchain_identity \<Rightarrow> string" where
  "toolchain_json t =
     json_object [(''manifest_ref'', json_string (ti_manifest_ref t)), (''digest'', json_string (ti_digest t)),
       (''postgres_version'', json_string (ti_postgres_version t)),
       (''pgbench_version'', json_string (ti_pgbench_version t)), (''psql_version'', json_string (ti_psql_version t)),
       (''source_commit'', json_string (ti_source_commit t)),
       (''build_provenance'', json_string (ti_build_provenance t))]"

definition subject_json :: "subject \<Rightarrow> string" where
  "subject_json s =
     json_object
       ([(''role'', json_string (sb_role s)), (''benchmark'', json_string (sb_benchmark s)),
         (''subject'', json_string (sb_subject s)), (''protocol_digest'', json_string (sb_protocol_digest s)),
         (''pg_config'', json_string (sb_pg_config s)), (''pg_config_digest'', json_string (sb_pg_config_digest s))] @
        (case sb_native_toolchain s of None \<Rightarrow> [] | Some t \<Rightarrow> [(''native_toolchain'', toolchain_json t)]))"

definition analysis_json :: "analysis_protocol \<Rightarrow> string option" where
  "analysis_json a =
     json_object_opt
       [member_string ''bootstrap_method'' (an_bootstrap_method a),
        (''bootstrap_resamples'', Some (show_int (an_bootstrap_resamples a))),
        (''confidence_level'', json_float (an_confidence_level a)),
        (''seed'', Some (show_nat (unat (an_seed a))))]"

definition qualification_json :: "qualification_protocol \<Rightarrow> string option" where
  "qualification_json q =
     json_object_opt
       [(''policy'', policy_json (qp_policy q)), member_string ''policy_digest'' (qp_policy_digest q),
        member_string ''storage_label'' (qp_storage_label q), member_string ''client_placement'' (qp_client_placement q)]"

definition settings_protocol_json :: "settings_protocol \<Rightarrow> string" where
  "settings_protocol_json s =
     json_object
       [(''parser_version'', json_string (sg_parser_version s)), (''source_path'', json_string (sg_source_path s)),
        (''names'', json_strings (sg_names s)),
        (''require_cross_arm_difference'', json_bool (sg_require_difference s))]"

definition protocol_json :: "protocol \<Rightarrow> string option" where
  "protocol_json p =
     json_object_opt
       [member_string ''schema_version'' (pt_schema_version p), member_string ''artifact_type'' (pt_artifact_type p),
        member_string ''scheduler_version'' (pt_scheduler_version p), member_string ''run_id'' (pt_run_id p),
        member_string ''runtime'' (pt_runtime p), member_string ''subject_dimension'' (pt_subject_dimension p),
        (''baseline'', Some (subject_json (pt_baseline p))), (''candidate'', Some (subject_json (pt_candidate p))),
        member_string ''comparison_key_digest'' (pt_comparison_key_digest p),
        (''blocks_planned'', Some (show_int (pt_blocks_planned p))),
        (''min_valid_units'', Some (show_int (pt_min_valid_units p))),
        (''orders'', Some (json_strings (pt_orders p))),
        member_string ''primary_metric'' (pt_primary_metric p), member_string ''direction'' (pt_direction p),
        (''regression_threshold_pct'', json_float (pt_regression_threshold_pct p)),
        (''analysis'', analysis_json (pt_analysis p)),
        (''qualification'', qualification_json (pt_qualification p)),
        (''effective_settings'', Some (settings_protocol_json (pt_effective_settings p))),
        (''max_bookend_gap_seconds'', Some (show_int (pt_max_bookend_gap_seconds p))),
        member_string ''digest'' (pt_digest p)]"

definition protocol_digest :: "protocol \<Rightarrow> string option" where
  "protocol_digest p = digest_json (protocol_json (p\<lparr>pt_digest := []\<rparr>))"

subsection \<open>Verifying a protocol\<close>

definition toolchain_manifest_ref :: "string \<Rightarrow> string" where
  "toolchain_manifest_ref role = ''toolchains/'' @ role @ ''/'' @ manifest_name"

definition valid_toolchain_version :: "string \<Rightarrow> bool" where
  "valid_toolchain_version v = (v \<noteq> [] \<and> length v \<le> 1024 \<and> \<not> text_control v)"

definition valid_toolchain_identity :: "string \<Rightarrow> toolchain_identity option \<Rightarrow> bool" where
  "valid_toolchain_identity role m =
     (case m of
        None \<Rightarrow> False
      | Some t \<Rightarrow>
        ti_manifest_ref t = toolchain_manifest_ref role \<and> is_portable_path (ti_manifest_ref t) \<and>
        is_digest (ti_digest t) \<and> valid_toolchain_version (ti_postgres_version t) \<and>
        valid_toolchain_version (ti_pgbench_version t) \<and> valid_toolchain_version (ti_psql_version t) \<and>
        ti_source_commit t = unattested \<and> ti_build_provenance t = unattested)"

definition check_subject :: "string \<Rightarrow> subject \<Rightarrow> (protocol_error, unit) result" where
  "check_subject dimension s =
     (if sb_benchmark s = [] \<or> sb_subject s = [] \<or> \<not> is_portable_path (sb_benchmark s) \<or>
         \<not> is_portable_path (sb_pg_config s) \<or> \<not> is_digest (sb_protocol_digest s) \<or>
         \<not> is_digest (sb_pg_config_digest s)
      then Inl Protocol_subject
      else if dimension = subject_pg_config
      then require (sb_native_toolchain s = None) Protocol_toolchain_unexpected
      else require (valid_toolchain_identity (sb_role s) (sb_native_toolchain s)) (Protocol_toolchain_invalid (sb_role s)))"

definition toolchain_versions :: "subject \<Rightarrow> (string \<times> string \<times> string) option" where
  "toolchain_versions s =
     map_option (\<lambda>t. (ti_postgres_version t, ti_pgbench_version t, ti_psql_version t)) (sb_native_toolchain s)"

definition check_difference :: "string \<Rightarrow> subject \<Rightarrow> subject \<Rightarrow> (protocol_error, unit) result" where
  "check_difference dimension b c =
     (if dimension = subject_pg_config
      then require (\<not> (sb_pg_config b = sb_pg_config c \<or> sb_pg_config_digest b = sb_pg_config_digest c \<or>
                       sb_protocol_digest b = sb_protocol_digest c)) Protocol_no_difference
      else if sb_pg_config b \<noteq> sb_pg_config c \<or> sb_pg_config_digest b \<noteq> sb_pg_config_digest c \<or>
              sb_protocol_digest b \<noteq> sb_protocol_digest c \<or>
              map_option ti_digest (sb_native_toolchain b) = map_option ti_digest (sb_native_toolchain c)
      then Inl Protocol_no_difference
      else require (toolchain_versions b = toolchain_versions c) Protocol_versions_differ)"

definition planned_order :: "nat \<Rightarrow> string" where
  "planned_order i = (if i mod 2 = 1 then ''BA'' else ''AB'')"

fun check_orders :: "nat \<Rightarrow> string list \<Rightarrow> (protocol_error, unit) result" where
  "check_orders i [] = Inr ()"
| "check_orders i (v # vs) = (if v \<noteq> planned_order i then Inl (Protocol_order (Suc i)) else check_orders (Suc i) vs)"

definition paired_options_of :: "protocol \<Rightarrow> paired_options" where
  "paired_options_of p =
     \<lparr>po_direction = pt_direction p, po_regression_threshold_pct = Some (pt_regression_threshold_pct p),
      po_min_units = pt_min_valid_units p, po_bootstrap_resamples = an_bootstrap_resamples (pt_analysis p),
      po_confidence_level = an_confidence_level (pt_analysis p), po_seed = an_seed (pt_analysis p)\<rparr>"

definition check_schedule :: "protocol \<Rightarrow> (protocol_error, unit) result" where
  "check_schedule p =
     (if pt_blocks_planned p < 2 * minimum_paired_units \<or> pt_blocks_planned p mod 2 \<noteq> 0 \<or>
         int (length (pt_orders p)) \<noteq> pt_blocks_planned p
      then Inl Protocol_blocks
      else bind_r (check_orders 0 (pt_orders p)) (\<lambda>_.
        require (\<not> (pt_min_valid_units p < minimum_paired_units \<or> pt_min_valid_units p > pt_blocks_planned p div 2))
          Protocol_min_units))"

definition check_analysis :: "protocol \<Rightarrow> (protocol_error, unit) result" where
  "check_analysis p =
     (if (pt_direction p \<noteq> ''higher'' \<and> pt_direction p \<noteq> ''lower'') \<or>
         (pt_primary_metric p \<noteq> ''pgbench.tps'' \<and> pt_primary_metric p \<noteq> ''pgbench.latency_mean_us'') \<or>
         f_less (pt_regression_threshold_pct p) (Fin 0)
      then Inl Protocol_metric
      else if an_bootstrap_method (pt_analysis p) \<noteq> bootstrap_method then Inl Protocol_bootstrap
      else
        let paired = analyze_paired [] (paired_options_of p)
        in require (\<not> (pa_status paired = ''invalid'' \<and> pa_reasons paired \<noteq> [])) (Protocol_analysis (pa_reasons paired)))"

definition check_qualification :: "protocol \<Rightarrow> (protocol_error, unit) result" where
  "check_qualification p =
     (let q = pt_qualification p
      in if \<not> decision_profile_complete (qp_policy q) then Inl Profile_incomplete
         else if policy_digest (qp_policy q) \<noteq> Some (qp_policy_digest q) then Inl Protocol_policy_digest
         else require
           (\<not> (qp_client_placement q = [] \<or> qp_client_placement q \<noteq> po_required_client_placement (qp_policy q) \<or>
              qp_storage_label q = [] \<or> pt_max_bookend_gap_seconds p \<le> 0)) Protocol_qualification)"

definition check_settings_protocol :: "string \<Rightarrow> settings_protocol \<Rightarrow> (protocol_error, unit) result" where
  "check_settings_protocol dimension s =
     (if sg_parser_version s \<noteq> settings_parser_version \<or> sg_source_path s \<noteq> settings_source_path
      then Inl Protocol_settings
      else if sg_require_difference s \<noteq> (dimension = subject_pg_config) then Inl Protocol_settings_gate
      else case validate_names (sg_names s) of Inl e \<Rightarrow> Inl (Protocol_names e) | Inr _ \<Rightarrow> Inr ())"

definition verify_protocol :: "protocol \<Rightarrow> (protocol_error, unit) result" where
  "verify_protocol p =
     (if pt_schema_version p \<noteq> protocol_schema \<or> pt_artifact_type p \<noteq> protocol_artifact \<or>
         pt_scheduler_version p \<noteq> scheduler_version
      then Inl Protocol_unsupported
      else if pt_run_id p = [] \<or> \<not> valid_series_id (pt_run_id p) then Inl Run_id_invalid
      else if pt_runtime p \<noteq> ''docker'' \<and> pt_runtime p \<noteq> ''native'' then Inl Runtime_unsupported
      else if pt_subject_dimension p \<noteq> subject_pg_config \<and> pt_subject_dimension p \<noteq> subject_native_toolchain
      then Inl (Dimension_unsupported (pt_subject_dimension p))
      else if pt_subject_dimension p = subject_native_toolchain \<and> pt_runtime p \<noteq> ''native'' then Inl Toolchain_needs_native
      else if sb_role (pt_baseline p) \<noteq> ''baseline'' \<or> sb_role (pt_candidate p) \<noteq> ''candidate'' \<or>
              sb_subject (pt_baseline p) = sb_subject (pt_candidate p)
      then Inl Protocol_roles
      else
        bind_r (check_subject (pt_subject_dimension p) (pt_baseline p)) (\<lambda>_.
        bind_r (check_subject (pt_subject_dimension p) (pt_candidate p)) (\<lambda>_.
        if \<not> is_digest (pt_comparison_key_digest p) then Inl Protocol_key
        else
          bind_r (check_difference (pt_subject_dimension p) (pt_baseline p) (pt_candidate p)) (\<lambda>_.
          bind_r (check_schedule p) (\<lambda>_.
          bind_r (check_analysis p) (\<lambda>_.
          bind_r (check_qualification p) (\<lambda>_.
          bind_r (check_settings_protocol (pt_subject_dimension p) (pt_effective_settings p)) (\<lambda>_.
            require (protocol_digest p = Some (pt_digest p)) Protocol_digest_mismatch))))))))"

subsection \<open>Building a protocol\<close>

definition validate_plan_pair :: "ab_plan \<Rightarrow> ab_plan \<Rightarrow> string \<Rightarrow> (protocol_error, unit) result" where
  "validate_plan_pair b c dimension =
     (if ap_class b \<noteq> ''measurement'' \<or> ap_class c \<noteq> ''measurement'' then Inl Plans_not_measurement
      else if ap_comparison_key_digest b = [] \<or> ap_comparison_key_digest b \<noteq> ap_comparison_key_digest c
      then Inl Plans_keys_differ
      else
        bind_r
          (if dimension = subject_pg_config then
             (if ap_protocol_digest b = ap_protocol_digest c \<or> ap_pg_config_digest b = ap_pg_config_digest c \<or>
                 ap_pg_config b = ap_pg_config c
              then Inl Plans_config_same
              else require (ap_allowed_differences b = [subject_pg_config] \<and> ap_allowed_differences c = [subject_pg_config])
                Plans_dimension_not_permitted)
           else if dimension = subject_native_toolchain then
             (if ap_protocol_digest b \<noteq> ap_protocol_digest c \<or> ap_pg_config_digest b \<noteq> ap_pg_config_digest c \<or>
                 ap_pg_config b \<noteq> ap_pg_config c
              then Inl Plans_config_differ
              else require
                (ap_allowed_differences b = [subject_native_toolchain] \<and>
                 ap_allowed_differences c = [subject_native_toolchain]) Plans_dimension_not_permitted)
           else Inl (Dimension_unsupported dimension)) (\<lambda>_.
        if ap_trials b \<noteq> ap_trials c \<or> ap_trials b < 2 * minimum_paired_units \<or> ap_trials b mod 2 \<noteq> 0
        then Inl Plans_trials
        else if ap_min_valid_trials b \<noteq> ap_min_valid_trials c then Inl Plans_min_valid
        else case (ap_regression_threshold_pct b, ap_regression_threshold_pct c) of
               (Some x, Some y) \<Rightarrow> require (f_eq x y) Plans_threshold
             | _ \<Rightarrow> Inl Plans_threshold))"

definition toolchain_identity_of :: "string \<Rightarrow> manifest \<Rightarrow> toolchain_identity" where
  "toolchain_identity_of role m =
     \<lparr>ti_manifest_ref = toolchain_manifest_ref role, ti_digest = mn_digest m,
      ti_postgres_version = toolchain_version m ''postgres'', ti_pgbench_version = toolchain_version m ''pgbench'',
      ti_psql_version = toolchain_version m ''psql'', ti_source_commit = mn_source_commit m,
      ti_build_provenance = mn_build_provenance m\<rparr>"

definition subject_of :: "string \<Rightarrow> string \<Rightarrow> ab_plan \<Rightarrow> toolchain_identity option \<Rightarrow> subject" where
  "subject_of role label plan toolchain =
     \<lparr>sb_role = role, sb_benchmark = ap_spec plan, sb_subject = label, sb_protocol_digest = ap_protocol_digest plan,
      sb_pg_config = ap_pg_config plan, sb_pg_config_digest = ap_pg_config_digest plan,
      sb_native_toolchain = toolchain\<rparr>"

text \<open>\<open>inspect\<close> is the inspection of a directory of executables.\<close>

definition arm_toolchains ::
  "(string \<Rightarrow> manifest option) \<Rightarrow> string \<Rightarrow> string \<Rightarrow> ab_options \<Rightarrow>
     (protocol_error, toolchain_identity option \<times> toolchain_identity option) result" where
  "arm_toolchains inspect runtime dimension ops =
     (if dimension = subject_native_toolchain then
        (if runtime \<noteq> ''native'' then Inl Toolchain_needs_native
         else
           bind_r (of_option (Toolchain_unreadable ''baseline'') (inspect (ao_baseline_bindir ops))) (\<lambda>b.
           bind_r (of_option (Toolchain_unreadable ''candidate'') (inspect (ao_candidate_bindir ops))) (\<lambda>c.
             if mn_digest b = mn_digest c then Inl Toolchains_same
             else case incomparable_executable b c of
                    Some name \<Rightarrow> Inl (Toolchains_incomparable name)
                  | None \<Rightarrow> Inr (Some (toolchain_identity_of ''baseline'' b), Some (toolchain_identity_of ''candidate'' c)))))
      else if ao_baseline_bindir ops \<noteq> [] \<or> ao_candidate_bindir ops \<noteq> [] then Inl Bindir_without_dimension
      else Inr (None, None))"

definition minimum_units :: "int \<Rightarrow> int" where
  "minimum_units min_valid = max (truncated_div (add64 min_valid 1) 2) minimum_paired_units"

definition assemble_protocol ::
  "string \<Rightarrow> string \<Rightarrow> string \<Rightarrow> subject \<Rightarrow> subject \<Rightarrow> ab_plan \<Rightarrow> ab_options \<Rightarrow> string \<Rightarrow> string list \<Rightarrow> f64 \<Rightarrow> protocol" where
  "assemble_protocol run_id runtime dimension baseline candidate plan ops pdigest names threshold =
     \<lparr>pt_schema_version = protocol_schema, pt_artifact_type = protocol_artifact,
      pt_scheduler_version = scheduler_version, pt_run_id = run_id, pt_runtime = runtime,
      pt_subject_dimension = dimension, pt_baseline = baseline, pt_candidate = candidate,
      pt_comparison_key_digest = ap_comparison_key_digest plan, pt_blocks_planned = ap_trials plan,
      pt_min_valid_units = minimum_units (ap_min_valid_trials plan),
      pt_orders = map planned_order [0..<nat (ap_trials plan)], pt_primary_metric = ap_primary_metric plan,
      pt_direction = ap_direction plan, pt_regression_threshold_pct = threshold,
      pt_analysis = \<lparr>an_bootstrap_method = bootstrap_method, an_bootstrap_resamples = ao_bootstrap_resamples ops,
        an_confidence_level = ao_confidence_level ops, an_seed = ao_seed ops\<rparr>,
      pt_qualification = \<lparr>qp_policy = io_policy (ao_qualification ops), qp_policy_digest = pdigest,
        qp_storage_label = io_storage_label (ao_qualification ops),
        qp_client_placement = io_client_placement (ao_qualification ops)\<rparr>,
      pt_effective_settings = \<lparr>sg_parser_version = settings_parser_version, sg_source_path = settings_source_path,
        sg_names = names, sg_require_difference = (dimension = subject_pg_config)\<rparr>,
      pt_max_bookend_gap_seconds = ao_max_bookend_gap_seconds ops, pt_digest = []\<rparr>"

definition check_options ::
  "string \<Rightarrow> string \<Rightarrow> string \<Rightarrow> string \<Rightarrow> ab_plan \<Rightarrow> ab_plan \<Rightarrow> ab_options \<Rightarrow> (protocol_error, unit) result" where
  "check_options run_id runtime b_label c_label b c ops =
     (let q = ao_qualification ops
      in if \<not> decision_profile_complete (io_policy q) then Inl Profile_incomplete
         else if io_client_placement q = [] \<or> io_client_placement q \<noteq> po_required_client_placement (io_policy q)
         then Inl Placement_not_explicit
         else if ap_client_placement b \<noteq> io_client_placement q \<or> ap_client_placement c \<noteq> io_client_placement q
         then Inl Placement_not_declared
         else if io_storage_label q = [] then Inl Storage_label_missing
         else if run_id = [] \<or> \<not> valid_series_id run_id then Inl Run_id_invalid
         else if b_label = [] \<or> c_label = [] \<or> b_label = c_label then Inl Subjects_not_distinct
         else require (runtime = ''docker'' \<or> runtime = ''native'') Runtime_unsupported)"

definition build_protocol ::
  "(string \<Rightarrow> manifest option) \<Rightarrow> files \<Rightarrow> string \<Rightarrow> string \<Rightarrow> string \<Rightarrow> string \<Rightarrow> ab_plan \<Rightarrow> ab_plan \<Rightarrow> ab_options \<Rightarrow>
     (protocol_error, protocol) result" where
  "build_protocol inspect fs run_id runtime b_label c_label b c ops =
     (let dimension = or_default (ao_subject_dimension ops) subject_pg_config
      in bind_r (validate_plan_pair b c dimension) (\<lambda>_.
         bind_r (check_options run_id runtime b_label c_label b c ops) (\<lambda>_.
         bind_r (arm_toolchains inspect runtime dimension ops) (\<lambda>(b_tools, c_tools).
           if ao_max_bookend_gap_seconds ops \<le> 0 then Inl Bookend_gap
           else
             bind_r (of_option Policy_undigestible (policy_digest (io_policy (ao_qualification ops)))) (\<lambda>pdigest.
             case union_config_setting_names fs [ap_pg_config_path b, ap_pg_config_path c] of
               Inl e \<Rightarrow> Inl (Settings_underivable e)
             | Inr names \<Rightarrow>
               let p = assemble_protocol run_id runtime dimension (subject_of ''baseline'' b_label b b_tools)
                         (subject_of ''candidate'' c_label c c_tools) b ops pdigest names
                         (the (ap_regression_threshold_pct b))
               in bind_r (of_option Protocol_digest_mismatch (protocol_digest p)) (\<lambda>digest.
                    let sealed = p\<lparr>pt_digest := digest\<rparr>
                    in bind_r (verify_protocol sealed) (\<lambda>_. Inr sealed)))))))"

text \<open>\<open>withDefaults\<close>, without the functions and streams it fills in.\<close>

definition default_bookend_gap :: int where
  "default_bookend_gap = 14400"

definition with_ab_defaults :: "ab_options \<Rightarrow> ab_options" where
  "with_ab_defaults ops =
     ops\<lparr>ao_runtime := or_default (or_default (ao_runtime ops) (ao_series_runtime ops)) ''docker'',
         ao_subject_dimension := or_default (ao_subject_dimension ops) subject_pg_config,
         ao_baseline_subject := or_default (ao_baseline_subject ops) ''baseline'',
         ao_candidate_subject := or_default (ao_candidate_subject ops) ''candidate'',
         ao_bootstrap_resamples := (if ao_bootstrap_resamples ops = 0 then 10000 else ao_bootstrap_resamples ops),
         ao_confidence_level := (if f_eq (ao_confidence_level ops) (Fin 0) then rnd (95 / 100)
                                 else ao_confidence_level ops),
         ao_max_bookend_gap_seconds :=
           (if ao_max_bookend_gap_seconds ops = 0 then default_bookend_gap else ao_max_bookend_gap_seconds ops)\<rparr>"

subsection \<open>Reasons are never blank\<close>

lemma space_encodings_not_solid: "p \<in> set space_encodings \<Longrightarrow> c \<in> set p \<Longrightarrow> \<not> solid c"
proof -
  assume p: "p \<in> set space_encodings" "c \<in> set p"
  have "list_all (list_all (\<lambda>c. \<not> solid c)) space_encodings"
    by (simp add: space_encodings_def solid_def code_def)
  with p show ?thesis by (auto simp: list_all_iff)
qed

lemma strip_all_keeps:
  "(\<And>p c. p \<in> set encs \<Longrightarrow> c \<in> set p \<Longrightarrow> \<not> solid c) \<Longrightarrow> solid c \<Longrightarrow> c \<in> set s \<Longrightarrow> c \<in> set (strip_all encs s)"
proof (induction encs s rule: strip_all.induct)
  case (1 encs s)
  show ?case
  proof (cases "strip1 encs s")
    case None
    then show ?thesis using 1 by (simp add: strip_all.simps[of encs s])
  next
    case (Some t)
    then obtain p where p: "p \<in> set encs" "take (length p) s = p" "t = drop (length p) s"
      unfolding strip1_def by (auto simp: find_Some_iff split: option.splits intro: nth_mem)
    have "c \<in> set p \<or> c \<in> set t" using 1(4) p by (metis UnE append_take_drop_id set_append)
    then have "c \<in> set t" using 1(2)[OF p(1)] 1(3) by blast
    then show ?thesis using 1(1)[OF Some] 1(2,3) Some by (simp add: strip_all.simps[of encs s])
  qed
qed

definition printable :: "string \<Rightarrow> bool" where
  "printable s = (\<exists>c\<in>set s. solid c)"

lemma printable_trim: "printable s \<Longrightarrow> trim_space s \<noteq> []"
proof -
  assume "printable s"
  then obtain c where c: "c \<in> set s" "solid c" by (auto simp: printable_def)
  have "c \<in> set (trim_left s)"
    unfolding trim_left_def using c by (intro strip_all_keeps) (auto dest: space_encodings_not_solid)
  then have "c \<in> set (strip_all (map rev space_encodings) (rev (trim_left s)))"
    using c by (intro strip_all_keeps) (auto dest: space_encodings_not_solid)
  then show ?thesis by (auto simp: trim_space_def trim_right_def)
qed

lemma unique_sorted_printable: "r \<in> set rs \<Longrightarrow> printable r \<Longrightarrow> unique_sorted rs \<noteq> []"
  using printable_trim by (auto simp: unique_sorted_eq_Nil)

lemma printable_append [simp]: "printable (a @ b) \<longleftrightarrow> printable a \<or> printable b"
  by (auto simp: printable_def)

lemma printable_Cons [simp]: "printable (c # s) \<longleftrightarrow> solid c \<or> printable s"
  by (auto simp: printable_def)

lemma printable_Nil [simp]: "\<not> printable []"
  by (simp add: printable_def)

lemma paired_problems_printable: "list_all printable (validate_paired_options ops)"
  by (simp add: validate_paired_options_def solid_def code_def split: option.splits)

lemma analyze_paired_invalid_options:
  assumes "validate_paired_options ops \<noteq> []"
  shows "pa_status (analyze_paired units ops) = ''invalid'' \<and> pa_reasons (analyze_paired units ops) \<noteq> []"
proof -
  obtain r where "r \<in> set (validate_paired_options ops)" using assms by (cases "validate_paired_options ops") auto
  then have "unique_sorted (validate_paired_options ops) \<noteq> []"
    using unique_sorted_printable paired_problems_printable by (metis list_all_iff)
  then show ?thesis using assms by (simp add: analyze_paired_def Let_def finish_paired_def)
qed

lemma check_analysis_ok:
  "check_analysis p = Inr u \<Longrightarrow>
     validate_paired_options (paired_options_of p) = [] \<and> an_bootstrap_method (pt_analysis p) = bootstrap_method \<and>
     (pt_primary_metric p = ''pgbench.tps'' \<or> pt_primary_metric p = ''pgbench.latency_mean_us'')"
  using analyze_paired_invalid_options[of "paired_options_of p" "[]"]
  by (auto simp: check_analysis_def Let_def result_simps split: if_splits)

lemma check_orders_ok: "check_orders i vs = Inr u \<longleftrightarrow> vs = map planned_order [i..<i + length vs]"
  by (induction i vs rule: check_orders.induct) (auto simp: upt_conv_Cons simp del: upt_Suc)

subsection \<open>What a verified protocol is\<close>

text \<open>
  The abstract notion: two arms that differ in exactly one respect, a schedule in which every unit runs once in each
  order, and gates that are all in place.
\<close>

definition one_difference :: "string \<Rightarrow> subject \<Rightarrow> subject \<Rightarrow> bool" where
  "one_difference dimension b c =
     (if dimension = subject_pg_config
      then sb_pg_config_digest b \<noteq> sb_pg_config_digest c \<and> sb_native_toolchain b = None \<and> sb_native_toolchain c = None
      else sb_pg_config b = sb_pg_config c \<and> sb_pg_config_digest b = sb_pg_config_digest c \<and>
        sb_protocol_digest b = sb_protocol_digest c \<and>
        (\<exists>s t. sb_native_toolchain b = Some s \<and> sb_native_toolchain c = Some t \<and> ti_digest s \<noteq> ti_digest t \<and>
               ti_postgres_version s = ti_postgres_version t \<and> ti_pgbench_version s = ti_pgbench_version t \<and>
               ti_psql_version s = ti_psql_version t))"

definition well_formed_protocol :: "protocol \<Rightarrow> bool" where
  "well_formed_protocol p =
     (valid_series_id (pt_run_id p) \<and>
      sb_subject (pt_baseline p) \<noteq> sb_subject (pt_candidate p) \<and>
      one_difference (pt_subject_dimension p) (pt_baseline p) (pt_candidate p) \<and>
      (\<exists>units. minimum_paired_units \<le> pt_min_valid_units p \<and> pt_min_valid_units p \<le> int units \<and>
         pt_blocks_planned p = 2 * int units \<and> pt_orders p = map planned_order [0..<2 * units]) \<and>
      validate_paired_options (paired_options_of p) = [] \<and>
      decision_profile_complete (qp_policy (pt_qualification p)) \<and>
      policy_digest (qp_policy (pt_qualification p)) = Some (qp_policy_digest (pt_qualification p)) \<and>
      0 < pt_max_bookend_gap_seconds p \<and>
      names_ready (sg_names (pt_effective_settings p)) \<and>
      sg_require_difference (pt_effective_settings p) = (pt_subject_dimension p = subject_pg_config) \<and>
      protocol_digest p = Some (pt_digest p))"

lemma check_schedule_ok:
  assumes "check_schedule p = Inr u"
  shows "\<exists>units. minimum_paired_units \<le> pt_min_valid_units p \<and> pt_min_valid_units p \<le> int units \<and>
    pt_blocks_planned p = 2 * int units \<and> pt_orders p = map planned_order [0..<2 * units]"
proof -
  have c: "2 * minimum_paired_units \<le> pt_blocks_planned p" "pt_blocks_planned p mod 2 = 0"
    "int (length (pt_orders p)) = pt_blocks_planned p" "pt_orders p = map planned_order [0..<length (pt_orders p)]"
    "minimum_paired_units \<le> pt_min_valid_units p" "pt_min_valid_units p \<le> pt_blocks_planned p div 2"
    using assms by (auto simp: check_schedule_def result_simps check_orders_ok split: if_splits)
  define units where "units = nat (pt_blocks_planned p div 2)"
  have "0 \<le> pt_blocks_planned p" using c(1) by (simp add: minimum_paired_units_def)
  then have u: "pt_blocks_planned p = 2 * int units" using c(2) by (simp add: units_def) presburger
  then have "length (pt_orders p) = 2 * units" using c(3) by simp
  then have "pt_orders p = map planned_order [0..<2 * units]" using c(4) by metis
  then show ?thesis using c(5,6) u by (intro exI[of _ units]) simp
qed

lemma check_subject_toolchain:
  "check_subject dimension s = Inr u \<Longrightarrow>
     (if dimension = subject_pg_config then sb_native_toolchain s = None else \<exists>t. sb_native_toolchain s = Some t)"
  by (auto simp: check_subject_def valid_toolchain_identity_def result_simps split: if_splits option.splits)

lemma verified_protocol_well_formed:
  assumes "verify_protocol p = Inr u"
  shows "well_formed_protocol p"
proof -
  have d: "pt_subject_dimension p = subject_pg_config \<or> pt_subject_dimension p = subject_native_toolchain"
    and c: "valid_series_id (pt_run_id p)" "sb_subject (pt_baseline p) \<noteq> sb_subject (pt_candidate p)"
      "check_subject (pt_subject_dimension p) (pt_baseline p) = Inr ()"
      "check_subject (pt_subject_dimension p) (pt_candidate p) = Inr ()"
      "check_difference (pt_subject_dimension p) (pt_baseline p) (pt_candidate p) = Inr ()"
      "check_schedule p = Inr ()" "check_analysis p = Inr ()" "check_qualification p = Inr ()"
      "check_settings_protocol (pt_subject_dimension p) (pt_effective_settings p) = Inr ()"
      "protocol_digest p = Some (pt_digest p)"
    using assms by (auto simp: verify_protocol_def result_simps split: if_splits)
  have "one_difference (pt_subject_dimension p) (pt_baseline p) (pt_candidate p)"
    using c(5) check_subject_toolchain[OF c(3)] check_subject_toolchain[OF c(4)]
    by (auto simp: one_difference_def check_difference_def toolchain_versions_def result_simps split: if_splits)
  moreover have "decision_profile_complete (qp_policy (pt_qualification p))"
    "policy_digest (qp_policy (pt_qualification p)) = Some (qp_policy_digest (pt_qualification p))"
    "0 < pt_max_bookend_gap_seconds p"
    using c(8) by (auto simp: check_qualification_def Let_def result_simps split: if_splits)
  moreover have "names_ready (sg_names (pt_effective_settings p))"
    "sg_require_difference (pt_effective_settings p) = (pt_subject_dimension p = subject_pg_config)"
    using c(9) by (auto simp: check_settings_protocol_def result_simps split: if_splits sum.splits)
  ultimately show ?thesis
    using c(1,2,10) check_schedule_ok[OF c(6)] check_analysis_ok[OF c(7)] by (simp add: well_formed_protocol_def)
qed

lemma built_protocol:
  assumes "build_protocol inspect fs run_id runtime b_label c_label b c ops = Inr p"
  shows "verify_protocol p = Inr () \<and>
    union_config_setting_names fs [ap_pg_config_path b, ap_pg_config_path c] = Inr (sg_names (pt_effective_settings p)) \<and>
    pt_run_id p = run_id \<and> pt_blocks_planned p = ap_trials b \<and> ap_trials c = ap_trials b"
proof -
  have pair: "validate_plan_pair b c (or_default (ao_subject_dimension ops) subject_pg_config) = Inr ()"
    using assms by (auto simp: build_protocol_def Let_def result_simps)
  obtain dimension baseline candidate pdigest names threshold digest where
    p: "p = (assemble_protocol run_id runtime dimension baseline candidate b ops pdigest names threshold)\<lparr>pt_digest := digest\<rparr>"
    and v: "verify_protocol p = Inr ()"
    and names: "union_config_setting_names fs [ap_pg_config_path b, ap_pg_config_path c] = Inr names"
    using assms
    by (cases "union_config_setting_names fs [ap_pg_config_path b, ap_pg_config_path c]")
      (auto simp: build_protocol_def Let_def result_simps split: if_splits)
  have "ap_trials c = ap_trials b"
    using pair by (auto simp: validate_plan_pair_def result_simps split: if_splits)
  then show ?thesis using v names by (simp add: p assemble_protocol_def)
qed

subsection \<open>Acceptable plans have a protocol\<close>

definition protocol_plan :: "ab_plan \<Rightarrow> bool" where
  "protocol_plan plan =
     (ap_spec plan \<noteq> [] \<and> is_portable_path (ap_spec plan) \<and> is_portable_path (ap_pg_config plan) \<and>
      is_digest (ap_protocol_digest plan) \<and> is_digest (ap_pg_config_digest plan) \<and>
      is_digest (ap_comparison_key_digest plan) \<and>
      (ap_direction plan = ''higher'' \<or> ap_direction plan = ''lower'') \<and>
      (ap_primary_metric plan = ''pgbench.tps'' \<or> ap_primary_metric plan = ''pgbench.latency_mean_us'') \<and>
      (case ap_regression_threshold_pct plan of None \<Rightarrow> False | Some x \<Rightarrow> f_finite x \<and> \<not> f_less x (Fin 0)) \<and>
      ap_min_valid_trials plan \<le> ap_trials plan \<and> min_int64 \<le> ap_min_valid_trials plan \<and> ap_trials plan \<le> max_int64)"

definition analysis_options :: "ab_options \<Rightarrow> bool" where
  "analysis_options ops =
     (minimum_paired_bootstrap_resamples \<le> ao_bootstrap_resamples ops \<and>
      ao_bootstrap_resamples ops \<le> maximum_paired_bootstrap_resamples \<and>
      f_finite (ao_confidence_level ops) \<and> \<not> f_le (ao_confidence_level ops) half \<and>
      \<not> f_le (Fin 1) (ao_confidence_level ops))"

lemma validate_plan_pair_ok:
  assumes "validate_plan_pair b c subject_pg_config = Inr ()"
  shows "2 * minimum_paired_units \<le> ap_trials b \<and> even (ap_trials b) \<and> ap_protocol_digest b \<noteq> ap_protocol_digest c \<and>
    ap_pg_config_digest b \<noteq> ap_pg_config_digest c \<and> ap_pg_config b \<noteq> ap_pg_config c"
  using assms by (auto simp: validate_plan_pair_def result_simps split: if_splits)

lemma minimum_units_bounds:
  assumes "min_int64 \<le> v" and "v \<le> n" and "n \<le> max_int64" and "even n" and "2 * minimum_paired_units \<le> n"
  shows "minimum_paired_units \<le> minimum_units v \<and> minimum_units v \<le> n div 2"
proof -
  have "n \<noteq> max_int64" using assms(4) by (auto simp: max_int64_def)
  then have "v + 1 \<le> max_int64" using assms(2,3) by linarith
  then have "add64 v 1 = v + 1" using assms(1) by (intro add64_exact) (simp add: int64_def)
  moreover have "truncated_div (v + 1) 2 \<le> n div 2"
  proof (cases "v + 1 \<le> 0")
    case True
    then have "truncated_div (v + 1) 2 \<le> 0" by (simp add: truncated_div_def sgn_if)
    then show ?thesis using assms(5) by (simp add: minimum_paired_units_def)
  next
    case False
    then have "truncated_div (v + 1) 2 = (v + 1) div 2" by (simp add: truncated_div_def)
    then show ?thesis using assms(2,4) by presburger
  qed
  moreover have "minimum_paired_units \<le> n div 2" using assms(5) by (simp add: minimum_paired_units_def)
  ultimately show ?thesis by (simp add: minimum_units_def)
qed

lemma planned_protocol_builds:
  assumes dimension: "or_default (ao_subject_dimension ops) subject_pg_config = subject_pg_config"
    and bindirs: "ao_baseline_bindir ops = []" "ao_candidate_bindir ops = []"
    and pair: "validate_plan_pair b c subject_pg_config = Inr ()"
    and options: "check_options run_id runtime b_label c_label b c ops = Inr ()"
    and plans: "protocol_plan b" "protocol_plan c"
    and analysis: "analysis_options ops"
    and gap: "0 < ao_max_bookend_gap_seconds ops"
    and policy: "policy_problems (io_policy (ao_qualification ops)) = []"
    and names: "union_config_setting_names fs [ap_pg_config_path b, ap_pg_config_path c] = Inr names"
  shows "\<exists>p. build_protocol inspect fs run_id runtime b_label c_label b c ops = Inr p"
proof -
  obtain pdigest where pd: "policy_digest (io_policy (ao_qualification ops)) = Some pdigest"
    using policy_digest_Some[OF policy] by blast
  obtain x where x: "ap_regression_threshold_pct b = Some x" "f_finite x" "\<not> f_less x (Fin 0)"
    using plans(1) by (auto simp: protocol_plan_def split: option.splits)
  define p where "p = assemble_protocol run_id runtime subject_pg_config (subject_of ''baseline'' b_label b None)
    (subject_of ''candidate'' c_label c None) b ops pdigest names x"
  have p_fields: "pt_schema_version p = protocol_schema" "pt_artifact_type p = protocol_artifact"
    "pt_scheduler_version p = scheduler_version" "pt_run_id p = run_id" "pt_runtime p = runtime"
    "pt_subject_dimension p = subject_pg_config" "pt_baseline p = subject_of ''baseline'' b_label b None"
    "pt_candidate p = subject_of ''candidate'' c_label c None" "pt_comparison_key_digest p = ap_comparison_key_digest b"
    "pt_blocks_planned p = ap_trials b" "pt_min_valid_units p = minimum_units (ap_min_valid_trials b)"
    "pt_orders p = map planned_order [0..<nat (ap_trials b)]" "pt_primary_metric p = ap_primary_metric b"
    "pt_direction p = ap_direction b" "pt_regression_threshold_pct p = x"
    "an_bootstrap_method (pt_analysis p) = bootstrap_method"
    "an_bootstrap_resamples (pt_analysis p) = ao_bootstrap_resamples ops"
    "an_confidence_level (pt_analysis p) = ao_confidence_level ops"
    "qp_policy (pt_qualification p) = io_policy (ao_qualification ops)"
    "qp_policy_digest (pt_qualification p) = pdigest"
    "qp_storage_label (pt_qualification p) = io_storage_label (ao_qualification ops)"
    "qp_client_placement (pt_qualification p) = io_client_placement (ao_qualification ops)"
    "pt_effective_settings p = \<lparr>sg_parser_version = settings_parser_version, sg_source_path = settings_source_path,
        sg_names = names, sg_require_difference = True\<rparr>"
    "pt_max_bookend_gap_seconds p = ao_max_bookend_gap_seconds ops" "pt_digest p = []"
    by (simp_all add: p_def assemble_protocol_def)
  have "f_finite (ao_confidence_level ops)" using analysis by (simp add: analysis_options_def)
  then have "\<exists>t. analysis_json (pt_analysis p) = Some t"
    using json_float_Some by (simp add: analysis_json_def p_fields member_string_def)
  moreover have "\<exists>t. qualification_json (pt_qualification p) = Some t"
    using policy_json_Some[OF policy] by (simp add: qualification_json_def p_fields)
  ultimately have "\<exists>t. protocol_json p = Some t"
    using json_float_Some[OF x(2)] by (simp add: protocol_json_def p_fields(15))
  moreover have "p\<lparr>pt_digest := []\<rparr> = p" by (simp add: p_def assemble_protocol_def)
  ultimately obtain digest where digest: "protocol_digest p = Some digest"
    by (auto simp: protocol_digest_def digest_json_def)
  define q where "q = p\<lparr>pt_digest := digest\<rparr>"
  have same: "protocol_digest q = Some digest" using digest by (simp add: q_def protocol_digest_def)
  have q_fields: "pt_schema_version q = pt_schema_version p" "pt_artifact_type q = pt_artifact_type p"
    "pt_scheduler_version q = pt_scheduler_version p" "pt_run_id q = pt_run_id p" "pt_runtime q = pt_runtime p"
    "pt_subject_dimension q = pt_subject_dimension p" "pt_baseline q = pt_baseline p"
    "pt_candidate q = pt_candidate p" "pt_comparison_key_digest q = pt_comparison_key_digest p"
    "pt_blocks_planned q = pt_blocks_planned p" "pt_min_valid_units q = pt_min_valid_units p"
    "pt_orders q = pt_orders p" "pt_primary_metric q = pt_primary_metric p" "pt_direction q = pt_direction p"
    "pt_regression_threshold_pct q = pt_regression_threshold_pct p" "pt_analysis q = pt_analysis p"
    "pt_qualification q = pt_qualification p" "pt_effective_settings q = pt_effective_settings p"
    "pt_max_bookend_gap_seconds q = pt_max_bookend_gap_seconds p" "pt_digest q = digest"
    by (simp_all add: q_def)
  note f = q_fields p_fields
  have t: "2 * minimum_paired_units \<le> ap_trials b" "even (ap_trials b)"
    and different: "ap_protocol_digest b \<noteq> ap_protocol_digest c" "ap_pg_config_digest b \<noteq> ap_pg_config_digest c"
      "ap_pg_config b \<noteq> ap_pg_config c"
    using validate_plan_pair_ok[OF pair] by blast+
  have u: "minimum_paired_units \<le> minimum_units (ap_min_valid_trials b)"
    "minimum_units (ap_min_valid_trials b) \<le> ap_trials b div 2"
    using minimum_units_bounds[OF _ _ _ t(2,1)] plans(1) by (simp_all add: protocol_plan_def)
  have o: "valid_series_id run_id" "run_id \<noteq> []" "runtime = ''docker'' \<or> runtime = ''native''" "b_label \<noteq> []" "c_label \<noteq> []"
    "b_label \<noteq> c_label" "decision_profile_complete (io_policy (ao_qualification ops))"
    "io_client_placement (ao_qualification ops) \<noteq> []" "io_storage_label (ao_qualification ops) \<noteq> []"
    "io_client_placement (ao_qualification ops) = po_required_client_placement (io_policy (ao_qualification ops))"
    using options by (auto simp: check_options_def Let_def result_simps split: if_splits)
  have schedule: "check_schedule q = Inr ()"
  proof -
    have "0 \<le> ap_trials b" using t(1) by (simp add: minimum_paired_units_def)
    moreover have "check_orders 0 (map planned_order [0..<nat (ap_trials b)]) = Inr ()" by (simp add: check_orders_ok)
    ultimately show ?thesis using t u by (simp add: check_schedule_def f result_simps)
  qed
  have "validate_paired_options (paired_options_of q) = []"
    using u(1) x analysis plans(1)
    by (auto simp: validate_paired_options_def paired_options_of_def f protocol_plan_def analysis_options_def)
  then have "pa_status (analyze_paired [] (paired_options_of q)) \<noteq> ''invalid''"
    using u(1) by (simp add: analyze_paired_def Let_def finish_paired_def paired_options_of_def f minimum_paired_units_def)
  then have check: "check_analysis q = Inr ()"
    using x plans(1) by (auto simp: check_analysis_def f protocol_plan_def Let_def result_simps)
  have qualification: "check_qualification q = Inr ()"
    using o gap pd by (simp add: check_qualification_def f Let_def result_simps)
  have subjects: "check_subject subject_pg_config (subject_of role label plan None) = Inr ()"
    if "protocol_plan plan" "label \<noteq> []" for role label plan
    using that by (simp add: check_subject_def subject_of_def protocol_plan_def result_simps)
  have difference: "check_difference subject_pg_config (pt_baseline q) (pt_candidate q) = Inr ()"
    using different by (simp add: check_difference_def f subject_of_def result_simps)
  have settings: "check_settings_protocol subject_pg_config (pt_effective_settings q) = Inr ()"
  proof -
    have v: "validate_names names = Inr ()" using union_names[OF names] by (simp add: validate_names_ok)
    show ?thesis by (simp add: check_settings_protocol_def f v)
  qed
  have key: "is_digest (ap_comparison_key_digest b)" using plans(1) by (simp add: protocol_plan_def)
  have "sb_role (subject_of role label plan None) = role" "sb_subject (subject_of role label plan None) = label"
    for role label plan by (simp_all add: subject_of_def)
  then have verified: "verify_protocol q = Inr ()"
    unfolding verify_protocol_def
    using schedule check qualification difference settings key o(1-6) subjects[OF plans(1) o(4)]
      subjects[OF plans(2) o(5)] same
    by (simp add: f result_simps subject_pg_config_def subject_native_toolchain_def)
  have "build_protocol inspect fs run_id runtime b_label c_label b c ops = Inr q"
    using dimension pair options bindirs gap pd names digest verified x(1)
    by (simp add: build_protocol_def arm_toolchains_def of_option_def subject_pg_config_def
        subject_native_toolchain_def q_def p_def)
  then show ?thesis by blast
qed

definition ab_policy :: policy where
  "ab_policy =
     \<lparr>po_strict = True, po_min_logical_cpus = None, po_min_memory_available_pct = Some (Fin 10),
      po_min_storage_available_pct = Some (Fin 10), po_max_load1_per_cpu = Some (Fin 1),
      po_required_clocksource = ''tsc'', po_required_governor = ''performance'', po_max_temperature_celsius = None,
      po_required_client_placement = ''same-host''\<rparr>"

definition ab_sample_options :: ab_options where
  "ab_sample_options =
     \<lparr>ao_runtime = ''docker'', ao_subject_dimension = [], ao_baseline_bindir = [], ao_candidate_bindir = [],
      ao_baseline_subject = ''baseline'', ao_candidate_subject = ''candidate'', ao_bootstrap_resamples = 1000,
      ao_confidence_level = Fin (3 / 4), ao_seed = 7,
      ao_qualification = \<lparr>io_recorded_at = 0, io_storage_path = [], io_storage_label = ''disk'',
        io_client_placement = ''same-host'', io_policy = ab_policy\<rparr>,
      ao_max_bookend_gap_seconds = 14400, ao_series_runtime = []\<rparr>"

definition sample_plan :: "string \<Rightarrow> ab_plan" where
  "sample_plan config =
     \<lparr>ap_class = ''measurement'', ap_spec = ''spec'', ap_comparison_key_digest = digest_bytes ''key'',
      ap_protocol_digest = digest_prefix @ replicate 64 (hd config), ap_pg_config = config, ap_pg_config_path = config @ ''.conf'',
      ap_pg_config_digest = digest_prefix @ replicate 64 (hd config), ap_allowed_differences = [subject_pg_config], ap_trials = 10,
      ap_min_valid_trials = 10, ap_regression_threshold_pct = Some (Fin 5), ap_client_placement = ''same-host'',
      ap_primary_metric = ''pgbench.tps'', ap_direction = ''higher''\<rparr>"

lemma sample_conditions:
  shows "or_default (ao_subject_dimension ab_sample_options) subject_pg_config = subject_pg_config"
    and "ao_baseline_bindir ab_sample_options = []" and "ao_candidate_bindir ab_sample_options = []"
    and "validate_plan_pair (sample_plan ''a'') (sample_plan ''b'') subject_pg_config = Inr ()"
    and "check_options ''ab-1'' ''docker'' ''baseline'' ''candidate'' (sample_plan ''a'') (sample_plan ''b'') ab_sample_options = Inr ()"
    and "protocol_plan (sample_plan ''a'')" and "protocol_plan (sample_plan ''b'')" and "analysis_options ab_sample_options"
    and "0 < ao_max_bookend_gap_seconds ab_sample_options"
    and "policy_problems (io_policy (ao_qualification ab_sample_options)) = []"
    and "union_config_setting_names sample_files [ap_pg_config_path (sample_plan ''a''), ap_pg_config_path (sample_plan ''b'')] =
      Inr [''shared_buffers'', ''work_mem'']"
proof -
  show "validate_plan_pair (sample_plan ''a'') (sample_plan ''b'') subject_pg_config = Inr ()"
    by (simp add: validate_plan_pair_def sample_plan_def minimum_paired_units_def result_simps digest_bytes_def
        digest_prefix_def)
  have "valid_series_id ''ab-1''" by code_simp
  then show "check_options ''ab-1'' ''docker'' ''baseline'' ''candidate'' (sample_plan ''a'') (sample_plan ''b'') ab_sample_options = Inr ()"
    by (simp add: check_options_def ab_sample_options_def sample_plan_def ab_policy_def decision_profile_complete_def result_simps)
  have portable: "is_portable_path ''spec''" "is_portable_path ''a''" "is_portable_path ''b''" by code_simp+
  have digests: "is_digest (digest_prefix @ replicate 64 CHR ''a'')" "is_digest (digest_prefix @ replicate 64 CHR ''b'')"
    by (simp_all add: is_digest_def has_prefix_def trim_prefix_def is_hex_lower_def code_def list_all_iff)
  show "protocol_plan (sample_plan ''a'')" "protocol_plan (sample_plan ''b'')"
    using portable digests by (simp_all add: protocol_plan_def sample_plan_def min_int64_def max_int64_def)
  show "analysis_options ab_sample_options"
    by (simp add: analysis_options_def ab_sample_options_def minimum_paired_bootstrap_resamples_def
        maximum_paired_bootstrap_resamples_def)
  have tokens: "portable_token ''performance''" "portable_token ''tsc''" "valid_client_placement ''same-host''" by code_simp+
  show "policy_problems (io_policy (ao_qualification ab_sample_options)) = []"
    by (simp add: tokens policy_problems_def ab_sample_options_def ab_policy_def bad_number_def note_if_def out_of_percent_def)
  show "union_config_setting_names sample_files [ap_pg_config_path (sample_plan ''a''), ap_pg_config_path (sample_plan ''b'')] =
      Inr [''shared_buffers'', ''work_mem'']"
    using sample_union by (simp add: sample_plan_def)
qed (simp_all add: ab_sample_options_def or_default_def)

lemma sample_protocol:
  "\<exists>p. build_protocol (\<lambda>_. None) sample_files ''ab-1'' ''docker'' ''baseline'' ''candidate''
    (sample_plan ''a'') (sample_plan ''b'') ab_sample_options = Inr p"
  by (rule planned_protocol_builds[OF sample_conditions])

text \<open>The run identifiers of the two series are longer than that of the protocol, and may be too long.\<close>

lemma derived_series_id_too_long:
  "\<exists>run_id. valid_series_id run_id \<and> \<not> valid_series_id (run_id @ ''-a'')"
proof (intro exI conjI)
  show "valid_series_id (replicate 180 CHR ''a'')" "\<not> valid_series_id (replicate 180 CHR ''a'' @ ''-a'')"
    by (simp_all add: valid_series_id_def sanitize_id_def is_alnum_def is_lower_def code_def)
qed

text \<open>C13: A protocol that was built is well-formed: its arms differ in exactly one respect, its units run once in each
  order, its analysis options and gates are in place, its digest is the digest of its content, and it observes
  exactly the settings that the two configuration files assign.\<close>

theorem built_protocol_is_well_formed:
  assumes "build_protocol inspect fs run_id runtime b_label c_label b c ops = Inr p"
  shows "verify_protocol p = Inr () \<and> well_formed_protocol p \<and>
    set (sg_names (pt_effective_settings p)) =
      (\<Union>path\<in>{ap_pg_config_path b, ap_pg_config_path c}. set (assigned_names (fi_content (the (fs path)))))"
  using built_protocol[OF assms] verified_protocol_well_formed union_names by fastforce

theorem built_protocol_is_well_formed_witness:
  "\<exists>p. build_protocol (\<lambda>_. None) sample_files ''ab-1'' ''docker'' ''baseline'' ''candidate''
    (sample_plan ''a'') (sample_plan ''b'') ab_sample_options = Inr p \<and> well_formed_protocol p"
proof -
  obtain p where p: "build_protocol (\<lambda>_. None) sample_files ''ab-1'' ''docker'' ''baseline'' ''candidate''
    (sample_plan ''a'') (sample_plan ''b'') ab_sample_options = Inr p" using sample_protocol by blast
  from built_protocol_is_well_formed[OF p] p show ?thesis by blast
qed

text \<open>C14: Acceptable inputs always give a protocol: if the two plans are a valid pair that differ in their configuration,
  the options and the analysis parameters are within their bounds, the policy is valid, and the settings can be
  derived, then the protocol that is assembled passes its own verification, so that building it succeeds.\<close>

theorem acceptable_plans_have_a_protocol:
  assumes "or_default (ao_subject_dimension ops) subject_pg_config = subject_pg_config"
    and "ao_baseline_bindir ops = []" and "ao_candidate_bindir ops = []"
    and "validate_plan_pair b c subject_pg_config = Inr ()"
    and "check_options run_id runtime b_label c_label b c ops = Inr ()"
    and "protocol_plan b" and "protocol_plan c" and "analysis_options ops" and "0 < ao_max_bookend_gap_seconds ops"
    and "policy_problems (io_policy (ao_qualification ops)) = []"
    and "union_config_setting_names fs [ap_pg_config_path b, ap_pg_config_path c] = Inr names"
  shows "\<exists>p. build_protocol inspect fs run_id runtime b_label c_label b c ops = Inr p"
  by (rule planned_protocol_builds[OF assms])

theorem acceptable_plans_have_a_protocol_witness:
  "\<exists>p. build_protocol (\<lambda>_. None) sample_files ''ab-1'' ''docker'' ''baseline'' ''candidate''
    (sample_plan ''a'') (sample_plan ''b'') ab_sample_options = Inr p"
  by (rule acceptable_plans_have_a_protocol[OF sample_conditions])

end
