(* ===== verification/ABRun.thy ===== *)
theory ABRun
  imports ABProtocol SeriesRun
begin

section \<open>The verdict of a counterbalanced benchmark\<close>

text \<open>
  \<^verbatim>\<open>internal/benchmarkab/run.go\<close>: from the two series of an A/B run and its qualification bookends to blocks,
  paired analysis, assessments and the terminal status. An arm is a finished series of
  \<^verbatim>\<open>internal/benchmarkrun\<close> with the phase timeline and the effective settings that each of its trials carries.
\<close>

subsection \<open>Data\<close>

record arm =
  am_series :: series
  am_timeline :: "nat \<Rightarrow> timeline option"
  am_settings :: "nat \<Rightarrow> settings_evidence option"

abbreviation arm_trials :: "arm \<Rightarrow> trial list" where
  "arm_trials a \<equiv> se_trials (am_series a)"

record block_execution =
  be_position :: int
  be_role :: string
  be_series_run_id :: string
  be_trial :: int
  be_trial_run_id :: string
  be_status :: string
  be_phase_digest :: string

record block =
  bl_number :: int
  bl_unit :: int
  bl_planned_order :: string
  bl_executions :: "block_execution list"
  bl_status :: string
  bl_reasons :: "string list"
  bl_baseline_value :: "f64 option"
  bl_candidate_value :: "f64 option"
  bl_effect_pct :: "f64 option"

record settings_assessment =
  sa_status :: string
  sa_names :: "string list"
  sa_baseline_version :: string
  sa_candidate_version :: string
  sa_differences :: "string list"
  sa_reasons :: "string list"

subsection \<open>Blocks\<close>

definition normalized_effect :: "f64 \<Rightarrow> f64 \<Rightarrow> string \<Rightarrow> (string, f64) result" where
  "normalized_effect b c direction =
     (if \<not> f_finite b \<or> f_eq b (Fin 0) \<or> \<not> f_finite c \<or> f_eq c (Fin 0)
      then Inl ''block primary values must be finite and non-zero''
      else
        let value =
              (if direction = ''lower'' then f_mul (Fin 100) (f_sub (Fin 1) (f_div c b))
               else f_mul (Fin 100) (f_sub (f_div c b) (Fin 1)))
        in if \<not> f_finite value then Inl ''block effect is not finite'' else Inr value)"

definition block_roles :: "string \<Rightarrow> string list" where
  "block_roles order = (if order = ''BA'' then [''candidate'', ''baseline''] else [''baseline'', ''candidate''])"

definition arm_of :: "string \<Rightarrow> arm \<Rightarrow> arm \<Rightarrow> arm" where
  "arm_of role b c = (if role = ''baseline'' then b else c)"

definition block_execution_of :: "nat \<Rightarrow> nat \<Rightarrow> string \<Rightarrow> arm \<Rightarrow> block_execution list" where
  "block_execution_of index position role a =
     (if index < length (arm_trials a) then
        let t = arm_trials a ! index
        in [\<lparr>be_position = int position + 1, be_role = role, be_series_run_id = se_run_id (am_series a),
             be_trial = tr_trial t, be_trial_run_id = tr_run_id t, be_status = tr_status t,
             be_phase_digest = (case am_timeline a index of None \<Rightarrow> [] | Some journal \<Rightarrow> tl_digest journal)\<rparr>]
      else [])"

definition execution_reason :: "nat \<Rightarrow> string \<Rightarrow> arm \<Rightarrow> string list" where
  "execution_reason index role a =
     (if index < length (arm_trials a) then
        let t = arm_trials a ! index
        in if tr_status t \<noteq> ''passed'' then [role @ '' trial status is '' @ tr_status t] else []
      else [role @ '' trial was not executed''])"

definition empty_block :: "protocol \<Rightarrow> nat \<Rightarrow> block" where
  "empty_block p index =
     \<lparr>bl_number = int index + 1, bl_unit = int (index div 2) + 1, bl_planned_order = pt_orders p ! index,
      bl_executions = [], bl_status = ''invalid'', bl_reasons = [], bl_baseline_value = None,
      bl_candidate_value = None, bl_effect_pct = None\<rparr>"

definition with_effect :: "string \<Rightarrow> f64 \<Rightarrow> f64 \<Rightarrow> block \<Rightarrow> block" where
  "with_effect direction x y block =
     (let valued = block\<lparr>bl_baseline_value := Some x, bl_candidate_value := Some y\<rparr>
      in case normalized_effect x y direction of
           Inr effect \<Rightarrow> valued\<lparr>bl_effect_pct := Some effect, bl_status := ''passed''\<rparr>
         | Inl e \<Rightarrow> valued\<lparr>bl_reasons := bl_reasons valued @ [e]\<rparr>)"

definition settle_block :: "protocol \<Rightarrow> arm \<Rightarrow> arm \<Rightarrow> nat \<Rightarrow> block \<Rightarrow> block" where
  "settle_block p b c index block =
     (if index < length (arm_trials b) \<and> index < length (arm_trials c) then
        let l = arm_trials b ! index; r = arm_trials c ! index
        in if tr_status l = ''failed'' \<or> tr_status r = ''failed'' then block\<lparr>bl_status := ''failed''\<rparr>
           else if tr_status l = ''passed'' \<and> tr_status r = ''passed'' then
             (case (tr_primary_value l, tr_primary_value r) of
                (Some x, Some y) \<Rightarrow> with_effect (pt_direction p) x y block
              | _ \<Rightarrow> block)
           else block
      else if list_ex (\<lambda>e. be_status e = ''failed'') (bl_executions block) then block\<lparr>bl_status := ''failed''\<rparr>
      else block)"

definition derive_block :: "protocol \<Rightarrow> arm \<Rightarrow> arm \<Rightarrow> nat \<Rightarrow> block" where
  "derive_block p b c index =
     (let roles = block_roles (pt_orders p ! index);
          executed = (empty_block p index)
            \<lparr>bl_executions := concat (map (\<lambda>(n, role). block_execution_of index n role (arm_of role b c)) (enumerate 0 roles)),
             bl_reasons := concat (map (\<lambda>role. execution_reason index role (arm_of role b c)) roles)\<rparr>;
          settled = settle_block p b c index executed
      in settled\<lparr>bl_reasons := unique_sorted (bl_reasons settled)\<rparr>)"

text \<open>\<open>None\<close> is a panic: an impossible length, or an index outside the planned orders.\<close>

definition derive_blocks :: "protocol \<Rightarrow> arm \<Rightarrow> arm \<Rightarrow> block list option" where
  "derive_blocks p b c =
     (if pt_blocks_planned p < 0 \<or> int (length (pt_orders p)) < pt_blocks_planned p then None
      else Some (map (derive_block p b c) [0..<nat (pt_blocks_planned p)]))"

definition paired_block_of :: "block \<Rightarrow> paired_block" where
  "paired_block_of block =
     (case (bl_baseline_value block, bl_candidate_value block) of
        (Some x, Some y) \<Rightarrow>
          if bl_status block = ''passed'' then \<lparr>pb_valid = True, pb_baseline = x, pb_candidate = y\<rparr>
          else \<lparr>pb_valid = False, pb_baseline = Fin 0, pb_candidate = Fin 0\<rparr>
      | _ \<Rightarrow> \<lparr>pb_valid = False, pb_baseline = Fin 0, pb_candidate = Fin 0\<rparr>)"

fun paired_units :: "block list \<Rightarrow> counterbalance_unit list" where
  "paired_units (x # y # rest) = \<lparr>cu_ab = paired_block_of x, cu_ba = paired_block_of y\<rparr> # paired_units rest"
| "paired_units _ = []"

subsection \<open>Qualification\<close>

text \<open>The span of the timelines: the earliest start and the latest finish of those that can be read.\<close>

definition timeline_span :: "timeline option \<Rightarrow> (int \<times> int) option" where
  "timeline_span m =
     (case m of
        None \<Rightarrow> None
      | Some t \<Rightarrow>
        (case (parse_rfc3339 (tl_started_at t), parse_rfc3339 (tl_finished_at t)) of
           (Some s, Some f) \<Rightarrow> Some (s, f)
         | _ \<Rightarrow> None))"

definition widen :: "(int \<times> int) option \<Rightarrow> timeline option \<Rightarrow> (int \<times> int) option" where
  "widen acc m =
     (case timeline_span m of
        None \<Rightarrow> acc
      | Some (s, f) \<Rightarrow>
        (case acc of
           None \<Rightarrow> Some (s, f)
         | Some (first, final) \<Rightarrow> Some (if s < first then s else first, if final < f then f else final)))"

definition arm_timelines :: "arm \<Rightarrow> timeline option list" where
  "arm_timelines a = map (am_timeline a) [0..<length (arm_trials a)]"

definition trial_interval :: "arm list \<Rightarrow> (int \<times> int) option" where
  "trial_interval arms = foldl widen None (concat (map arm_timelines arms))"

definition bookend_gap :: "protocol \<Rightarrow> int" where
  "bookend_gap p = wrap64 (pt_max_bookend_gap_seconds p * 1000000000)"

definition placement_matches :: "protocol \<Rightarrow> artifact \<Rightarrow> bool" where
  "placement_matches p a =
     (so_availability (sn_placement (ar_snapshot a)) = observed \<and>
      so_value (sn_placement (ar_snapshot a)) = qp_client_placement (pt_qualification p))"

definition label_reasons :: "protocol \<Rightarrow> string \<Rightarrow> artifact \<Rightarrow> string list" where
  "label_reasons p label a =
     note_if (ss_label (sn_storage (ar_snapshot a)) \<noteq> qp_storage_label (pt_qualification p))
       (label @ '' storage label differs from protocol'') @
     note_if (\<not> placement_matches p a) (label @ '' client placement differs from protocol'')"

definition protocol_policy :: "protocol \<Rightarrow> artifact \<Rightarrow> bool" where
  "protocol_policy p a =
     (text_or_empty (policy_digest (ar_policy a)) = qp_policy_digest (pt_qualification p) \<and>
      same_policy (ar_policy a) (qp_policy (pt_qualification p)))"

definition protocol_reasons :: "protocol \<Rightarrow> artifact \<Rightarrow> artifact \<Rightarrow> arm \<Rightarrow> arm \<Rightarrow> string list" where
  "protocol_reasons p before after b c =
     (let before_time = parse_rfc3339 (ar_recorded_at before); after_time = parse_rfc3339 (ar_recorded_at after)
      in note_if (\<not> (protocol_policy p before \<and> protocol_policy p after))
           ''qualification bookends do not use the protocol policy'' @
         label_reasons p ''before'' before @ label_reasons p ''after'' after @
         note_if (case (before_time, after_time) of (Some s, Some f) \<Rightarrow> time_sub f s > bookend_gap p | _ \<Rightarrow> False)
           ''qualification bookend interval exceeds protocol maximum'' @
         (case trial_interval [b, c] of
            None \<Rightarrow> [''no complete trial timeline is available for temporal qualification'']
          | Some (first, final) \<Rightarrow>
            note_if (case before_time of None \<Rightarrow> True | Some s \<Rightarrow> first < s)
              ''before qualification does not precede all trial phases'' @
            note_if (case after_time of None \<Rightarrow> True | Some f \<Rightarrow> f < final)
              ''after qualification does not follow all trial phases''))"

definition assess_qualification :: "protocol \<Rightarrow> artifact \<Rightarrow> artifact \<Rightarrow> arm \<Rightarrow> arm \<Rightarrow> bookend_assessment" where
  "assess_qualification p before after b c =
     (let base = assess_bookends before after; added = protocol_reasons p before after b c
      in base\<lparr>ba_status := (if added = [] then ba_status base else ''unqualified''),
              ba_reasons := unique_sorted (ba_reasons base @ added)\<rparr>)"

subsection \<open>Effective settings\<close>

record arm_scan =
  sc_stable :: "settings_evidence option"
  sc_invalid :: "string list"
  sc_unqualified :: "string list"

definition pending_reasons :: "string \<Rightarrow> nat \<Rightarrow> settings_evidence \<Rightarrow> string list" where
  "pending_reasons role index v =
     map (\<lambda>s. role @ '' trial '' @ show_nat (index + 1) @ '' setting '' @ st_name s @ '' is pending restart'')
       (filter st_pending_restart (es_settings v))"

definition settings_bound :: "protocol \<Rightarrow> trial \<Rightarrow> settings_evidence \<Rightarrow> bool" where
  "settings_bound p t v =
     (es_run_id v = tr_run_id t \<and> es_trial v = tr_trial t \<and> es_protocol_digest v = pt_digest p \<and>
      es_names v = sg_names (pt_effective_settings p))"

definition scan_trial :: "protocol \<Rightarrow> string \<Rightarrow> arm \<Rightarrow> arm_scan \<Rightarrow> nat \<Rightarrow> arm_scan" where
  "scan_trial p role a s index =
     (let t = arm_trials a ! index;
          refuse = (\<lambda>what. s\<lparr>sc_invalid := sc_invalid s @ [role @ '' trial '' @ show_nat (index + 1) @ what]\<rparr>)
      in case am_settings a index of
           None \<Rightarrow> refuse '' has no passed effective pg_settings evidence''
         | Some v \<Rightarrow>
           if tr_status t \<noteq> ''passed'' then refuse '' has no passed effective pg_settings evidence''
           else if \<not> ok (verify_settings v) then refuse '' effective pg_settings evidence is invalid''
           else if \<not> settings_bound p t v then refuse '' effective pg_settings identity differs from protocol''
           else
             let s1 = s\<lparr>sc_unqualified := sc_unqualified s @ pending_reasons role index v\<rparr>
             in case sc_stable s1 of
                  None \<Rightarrow> s1\<lparr>sc_stable := Some v\<rparr>
                | Some reference \<Rightarrow>
                  if equivalent_settings reference v then s1
                  else s1\<lparr>sc_unqualified := sc_unqualified s1 @ [role @ '' effective pg_settings drifted between trials'']\<rparr>)"

definition scan_arm :: "protocol \<Rightarrow> string \<Rightarrow> arm \<Rightarrow> arm_scan" where
  "scan_arm p role a =
     foldl (scan_trial p role a)
       \<lparr>sc_stable = None,
        sc_invalid = note_if (int (length (arm_trials a)) \<noteq> pt_blocks_planned p)
          (role @ '' effective pg_settings population is incomplete''),
        sc_unqualified = []\<rparr> [0..<length (arm_trials a)]"

definition version_of :: "settings_evidence option \<Rightarrow> string" where
  "version_of m = (case m of None \<Rightarrow> [] | Some v \<Rightarrow> es_server_version_num v)"

definition assess_effective_settings :: "protocol \<Rightarrow> arm \<Rightarrow> arm \<Rightarrow> settings_assessment" where
  "assess_effective_settings p b c =
     (let bs = scan_arm p ''baseline'' b; cs = scan_arm p ''candidate'' c;
          invalid = sc_invalid bs @ sc_invalid cs; unqualified = sc_unqualified bs @ sc_unqualified cs;
          a = \<lparr>sa_status = ''invalid'', sa_names = sg_names (pt_effective_settings p),
               sa_baseline_version = version_of (sc_stable bs), sa_candidate_version = version_of (sc_stable cs),
               sa_differences = [], sa_reasons = []\<rparr>
      in if invalid \<noteq> [] then a\<lparr>sa_reasons := unique_sorted (invalid @ unqualified)\<rparr>
         else case (sc_stable bs, sc_stable cs) of
           (Some l, Some r) \<Rightarrow>
             let unqualified1 = unqualified @ note_if (es_server_version_num l \<noteq> es_server_version_num r)
                   ''effective pg_settings arms do not share one PostgreSQL server version'';
                 a1 = a\<lparr>sa_differences := effective_difference_names l r\<rparr>;
                 required = sg_require_difference (pt_effective_settings p)
             in if unqualified1 \<noteq> [] then a1\<lparr>sa_status := ''unstable'', sa_reasons := unique_sorted unqualified1\<rparr>
                else if required \<and> sa_differences a1 = [] then
                  a1\<lparr>sa_status := ''equivalent'',
                     sa_reasons := [''baseline and candidate have no effective value-and-unit pg_settings difference'']\<rparr>
                else if required then a1\<lparr>sa_status := ''verified-different''\<rparr>
                else a1\<lparr>sa_status := ''verified-stable''\<rparr>
         | _ \<Rightarrow> a\<lparr>sa_reasons := unique_sorted (invalid @ unqualified)\<rparr>)"

subsection \<open>The terminal status\<close>

definition series_invalid :: "protocol \<Rightarrow> string \<Rightarrow> series \<Rightarrow> string list" where
  "series_invalid p role s =
     note_if (se_run_id s = [] \<or> int (length (se_trials s)) \<noteq> pt_blocks_planned p)
       (role @ '' series did not complete the predeclared schedule'') @
     note_if (se_status s \<noteq> ''passed'' \<and> se_status s \<noteq> ''inconclusive'') (role @ '' series status is '' @ se_status s)"

definition series_inconclusive :: "string \<Rightarrow> series \<Rightarrow> string list" where
  "series_inconclusive role s =
     note_if (se_status s = ''inconclusive'') (role @ '' series is inconclusive'') @
     (if se_status s \<noteq> ''passed'' then map (\<lambda>r. role @ '' series: '' @ r) (se_reasons s) else [])"

definition required_settings_status :: "protocol \<Rightarrow> string" where
  "required_settings_status p =
     (if sg_require_difference (pt_effective_settings p) then ''verified-different'' else ''verified-stable'')"

definition derive_terminal ::
  "protocol \<Rightarrow> series \<Rightarrow> series \<Rightarrow> block list \<Rightarrow> bookend_assessment \<Rightarrow> settings_assessment \<Rightarrow> paired_analysis \<Rightarrow>
     string \<times> string \<times> string list" where
  "derive_terminal p b c blocks assessment settings analysis =
     (let invalid = series_invalid p ''baseline'' b @ series_invalid p ''candidate'' c @
            note_if (int (length blocks) \<noteq> pt_blocks_planned p) ''recorded block count differs from protocol'' @
            (if pa_status analysis = ''invalid'' then pa_reasons analysis else []) @
            (if sa_status settings = ''invalid'' then sa_reasons settings @ [''effective pg_settings evidence is invalid'']
             else []);
          inconclusive = series_inconclusive ''baseline'' b @ series_inconclusive ''candidate'' c
      in if invalid \<noteq> [] then (''invalid'', ''invalid'', unique_sorted (invalid @ inconclusive))
         else
           let inconclusive1 = inconclusive @
                 (if ba_status assessment \<noteq> ''recorded-policy-passed'' then ba_reasons assessment else []) @
                 (if pa_status analysis = ''inconclusive'' then pa_reasons analysis else []) @
                 (if sa_status settings \<noteq> required_settings_status p
                  then sa_reasons settings @ [''effective pg_settings stability/difference gate is not decision-qualified'']
                  else [])
           in if inconclusive1 \<noteq> [] then (''inconclusive'', ''inconclusive'', unique_sorted inconclusive1)
              else (pa_status analysis, pa_decision analysis, unique_sorted (pa_reasons analysis)))"

text \<open>What \<open>buildResult\<close> derives from the evidence.\<close>

record ab_result =
  ab_blocks :: "block list"
  ab_assessment :: bookend_assessment
  ab_settings :: settings_assessment
  ab_analysis :: paired_analysis
  ab_status :: string
  ab_decision :: string
  ab_reasons :: "string list"

definition build_ab_result :: "protocol \<Rightarrow> artifact \<Rightarrow> artifact \<Rightarrow> arm \<Rightarrow> arm \<Rightarrow> ab_result option" where
  "build_ab_result p before after b c =
     (case derive_blocks p b c of
        None \<Rightarrow> None
      | Some blocks \<Rightarrow>
        let analysis = analyze_paired (paired_units blocks) (paired_options_of p);
            assessment = assess_qualification p before after b c;
            settings = assess_effective_settings p b c
        in case derive_terminal p (am_series b) (am_series c) blocks assessment settings analysis of
             (status, decision, reasons) \<Rightarrow>
               Some \<lparr>ab_blocks = blocks, ab_assessment = assessment, ab_settings = settings, ab_analysis = analysis,
                     ab_status = status, ab_decision = decision, ab_reasons = reasons\<rparr>)"

definition optional_float :: "f64 option \<Rightarrow> string" where
  "optional_float m = (case m of None \<Rightarrow> [] | Some v \<Rightarrow> format_float v)"

definition block_row :: "block \<Rightarrow> string" where
  "block_row block =
     join [tab] [show_int (bl_number block), show_int (bl_unit block), bl_planned_order block, bl_status block,
       optional_float (bl_baseline_value block), optional_float (bl_candidate_value block),
       optional_float (bl_effect_pct block)] @ [newline]"

definition blocks_tsv :: "block list \<Rightarrow> string" where
  "blocks_tsv blocks =
     join [tab] [''block'', ''unit'', ''order'', ''status'', ''baseline_value'', ''candidate_value'', ''effect_pct''] @
     [newline] @ concat (map block_row blocks)"

end
