(* ===== verification/ABArtifact.thy ===== *)
theory ABArtifact
  imports ABRun
begin

section \<open>The stored artifact of a counterbalanced benchmark\<close>

text \<open>
  \<^verbatim>\<open>internal/benchmarkab/artifact.go\<close> and the writing half of \<^verbatim>\<open>run.go\<close>: the result record with its digest, the
  files a run leaves, and \<open>Verify\<close>, which treats the stored result as an assertion and derives it again. The
  directory is a map from relative paths to files; a path that leads through a symbolic link is not in it. JSON
  decoding and the verification of the two series (\<^verbatim>\<open>benchmarkartifact\<close>) are arguments.
\<close>

subsection \<open>Data\<close>

record file_ref =
  fr_path :: string
  fr_digest :: string
  fr_size :: int

record series_ref =
  sf_role :: string
  sf_run_id :: string
  sf_ref :: string
  sf_result_digest :: string

record qualification_result =
  qr_before :: file_ref
  qr_after :: file_ref
  qr_assessment :: bookend_assessment

text \<open>A stored array may be absent, which is \<open>None\<close>, wherever the verifier looks for that.\<close>

record settings_record =
  xr_status :: string
  xr_names :: "string list option"
  xr_baseline_version :: string
  xr_candidate_version :: string
  xr_differences :: "string list option"
  xr_reasons :: "string list option"

record ab_record =
  rc_schema_version :: string
  rc_artifact_type :: string
  rc_scheduler_version :: string
  rc_run_id :: string
  rc_run_dir :: string
  rc_protocol :: file_ref
  rc_started_at :: string
  rc_finished_at :: string
  rc_baseline :: series_ref
  rc_candidate :: series_ref
  rc_blocks :: "block list option"
  rc_qualification :: qualification_result
  rc_settings :: settings_record
  rc_analysis :: paired_analysis
  rc_status :: string
  rc_decision :: string
  rc_reasons :: "string list option"
  rc_digest :: string

definition run_schema :: string where
  "run_schema = ''pgworkbench.benchmark-ab-run/v3''"

definition run_artifact :: string where
  "run_artifact = ''pgworkbench.benchmark-ab-run''"

subsection \<open>The digest of a result\<close>

definition nullable :: "('a \<Rightarrow> string option) \<Rightarrow> 'a option \<Rightarrow> string option" where
  "nullable f m = (case m of None \<Rightarrow> Some ''null'' | Some x \<Rightarrow> f x)"

definition json_list :: "('a \<Rightarrow> string option) \<Rightarrow> 'a list \<Rightarrow> string option" where
  "json_list f xs = (if list_all (\<lambda>x. f x \<noteq> None) xs then Some (json_array (map (\<lambda>x. the (f x)) xs)) else None)"

text \<open>\<open>omitempty\<close> on a float leaves out both zeros.\<close>

definition member_nonzero :: "string \<Rightarrow> f64 \<Rightarrow> (string \<times> string option) list" where
  "member_nonzero key v = (if f_eq v (Fin 0) then [] else [(key, json_float v)])"

definition execution_json :: "block_execution \<Rightarrow> string option" where
  "execution_json e =
     json_object_opt
       ([member_int ''position'' (be_position e), member_string ''role'' (be_role e),
         member_string ''series_run_id'' (be_series_run_id e), member_int ''trial'' (be_trial e),
         member_string ''trial_run_id'' (be_trial_run_id e), member_string ''status'' (be_status e)] @
        member_set ''phase_digest'' (be_phase_digest e))"

definition block_json :: "block \<Rightarrow> string option" where
  "block_json b =
     json_object_opt
       ([member_int ''number'' (bl_number b), member_int ''unit'' (bl_unit b),
         member_string ''planned_order'' (bl_planned_order b), (''executions'', json_list execution_json (bl_executions b)),
         member_string ''status'' (bl_status b), (''reasons'', Some (json_strings (bl_reasons b)))] @
        member_float ''baseline_value'' (bl_baseline_value b) @ member_float ''candidate_value'' (bl_candidate_value b) @
        member_float ''effect_pct'' (bl_effect_pct b))"

definition file_ref_json :: "file_ref \<Rightarrow> string option" where
  "file_ref_json f =
     json_object_opt [member_string ''path'' (fr_path f), member_string ''digest'' (fr_digest f), member_int ''size'' (fr_size f)]"

definition series_ref_json :: "series_ref \<Rightarrow> string option" where
  "series_ref_json s =
     json_object_opt
       [member_string ''role'' (sf_role s), member_string ''run_id'' (sf_run_id s), member_string ''ref'' (sf_ref s),
        member_string ''result_digest'' (sf_result_digest s)]"

definition assessment_json :: "bookend_assessment \<Rightarrow> string option" where
  "assessment_json a =
     json_object_opt
       [member_string ''status'' (ba_status a), (''reasons'', Some (json_strings (ba_reasons a))),
        member_string ''before_artifact_digest'' (ba_before_artifact_digest a),
        member_string ''after_artifact_digest'' (ba_after_artifact_digest a),
        member_string ''before_policy_digest'' (ba_before_policy_digest a),
        member_string ''after_policy_digest'' (ba_after_policy_digest a),
        member_string ''before_stable_host_class_digest'' (ba_before_class_digest a),
        member_string ''after_stable_host_class_digest'' (ba_after_class_digest a)]"

definition qualification_result_json :: "qualification_result \<Rightarrow> string option" where
  "qualification_result_json q =
     json_object_opt
       [(''before'', file_ref_json (qr_before q)), (''after'', file_ref_json (qr_after q)),
        (''assessment'', assessment_json (qr_assessment q))]"

definition settings_record_json :: "settings_record \<Rightarrow> string option" where
  "settings_record_json x =
     json_object_opt
       ([member_string ''status'' (xr_status x), (''names'', nullable (Some \<circ> json_strings) (xr_names x))] @
        member_set ''baseline_server_version_num'' (xr_baseline_version x) @
        member_set ''candidate_server_version_num'' (xr_candidate_version x) @
        [(''effective_differences'', nullable (Some \<circ> json_strings) (xr_differences x)),
         (''reasons'', nullable (Some \<circ> json_strings) (xr_reasons x))])"

definition unit_effect_json :: "paired_unit_effect \<Rightarrow> string option" where
  "unit_effect_json u =
     json_object_opt
       ([member_int ''unit_index'' (int (pue_unit_index u)), (''eligible'', Some (json_bool (pue_eligible u)))] @
        member_float ''ab_effect_pct'' (pue_ab_effect_pct u) @ member_float ''ba_effect_pct'' (pue_ba_effect_pct u))"

definition paired_analysis_json :: "paired_analysis \<Rightarrow> string option" where
  "paired_analysis_json a =
     json_object_opt
       ([member_string ''design'' (pa_design a), member_string ''direction'' (pa_direction a),
         member_string ''bootstrap_method'' (pa_bootstrap_method a),
         member_int ''bootstrap_resamples'' (pa_bootstrap_resamples a),
         (''bootstrap_seed'', Some (show_nat (unat (pa_bootstrap_seed a)))),
         (''confidence_level'', json_float (pa_confidence_level a))] @
        member_float ''regression_threshold_pct'' (pa_regression_threshold_pct a) @
        [member_int ''min_units'' (pa_min_units a), member_int ''total_units'' (int (pa_total_units a)),
         member_int ''units_n'' (int (pa_units_n a)), member_int ''blocks_n'' (int (pa_blocks_n a)),
         (''unit_effects'', json_list unit_effect_json (pa_unit_effects a))] @
        member_nonzero ''median_effect_pct'' (pa_median_effect_pct a) @
        member_nonzero ''ci_low_pct'' (pa_ci_low_pct a) @ member_nonzero ''ci_high_pct'' (pa_ci_high_pct a) @
        [member_string ''status'' (pa_status a), member_string ''decision'' (pa_decision a),
         (''reasons'', Some (json_strings (pa_reasons a)))])"

definition result_json :: "ab_record \<Rightarrow> string option" where
  "result_json r =
     json_object_opt
       [member_string ''schema_version'' (rc_schema_version r), member_string ''artifact_type'' (rc_artifact_type r),
        member_string ''scheduler_version'' (rc_scheduler_version r), member_string ''run_id'' (rc_run_id r),
        member_string ''run_dir'' (rc_run_dir r), (''protocol'', file_ref_json (rc_protocol r)),
        member_string ''started_at'' (rc_started_at r), member_string ''finished_at'' (rc_finished_at r),
        (''baseline'', series_ref_json (rc_baseline r)), (''candidate'', series_ref_json (rc_candidate r)),
        (''blocks'', nullable (json_list block_json) (rc_blocks r)),
        (''qualification'', qualification_result_json (rc_qualification r)),
        (''effective_settings'', settings_record_json (rc_settings r)),
        (''analysis'', paired_analysis_json (rc_analysis r)), member_string ''status'' (rc_status r),
        member_string ''decision'' (rc_decision r), (''reasons'', nullable (Some \<circ> json_strings) (rc_reasons r)),
        member_string ''digest'' (rc_digest r)]"

definition result_digest :: "ab_record \<Rightarrow> string option" where
  "result_digest r = digest_json (result_json (r\<lparr>rc_digest := []\<rparr>))"

subsection \<open>The summary\<close>

definition summary_line :: "string \<Rightarrow> string \<Rightarrow> string" where
  "summary_line name v = ''- '' @ name @ '': '' @ [CHR 0x60] @ v @ [CHR 0x60, newline]"

definition summary_text :: "ab_record \<Rightarrow> string" where
  "summary_text r =
     (let a = rc_analysis r; differences = (case xr_differences (rc_settings r) of None \<Rightarrow> [] | Some ds \<Rightarrow> ds);
          reasons = (case rc_reasons r of None \<Rightarrow> [] | Some vs \<Rightarrow> vs)
      in ''# Counterbalanced PostgreSQL A/B Benchmark'' @ [newline, newline] @
         summary_line ''Run'' (rc_run_id r) @ summary_line ''Status'' (rc_status r) @
         summary_line ''Decision'' (rc_decision r) @ summary_line ''Baseline'' (sf_run_id (rc_baseline r)) @
         summary_line ''Candidate'' (sf_run_id (rc_candidate r)) @
         summary_line ''Complete valid units''
           (show_nat (pa_units_n a) @ [CHR 0x60] @ '' / '' @ [CHR 0x60] @ show_nat (pa_total_units a)) @
         summary_line ''Qualification'' (ba_status (qr_assessment (rc_qualification r))) @
         summary_line ''Effective pg_settings'' (xr_status (rc_settings r)) @
         (if differences \<noteq> [] then summary_line ''Effective setting differences'' (join '', '' differences) else []) @
         (if pa_units_n a > 0 then summary_line ''Normalized median effect'' (format_float (pa_median_effect_pct a) @ ''%'') else []) @
         (if pa_status a = ''passed'' \<or> pa_status a = ''failed''
          then summary_line ''Confidence interval''
            (''['' @ format_float (pa_ci_low_pct a) @ ''%, '' @ format_float (pa_ci_high_pct a) @ ''%]'')
          else []) @
         (if reasons \<noteq> []
          then newline # ''## Reasons'' @ [newline, newline] @ concat (map (\<lambda>v. ''- '' @ v @ [newline]) reasons)
          else []))"

subsection \<open>The directory and what surrounds it\<close>

record ab_directory =
  ad_base :: string
  ad_files :: files
  ad_directories :: "string \<Rightarrow> bool"
  ad_toolchains :: bool
  ad_block_entries :: "(string \<times> bool) list"

text \<open>The verification of a series: its issues, and what could be read of it.\<close>

record series_check =
  ck_issues :: "string list"
  ck_schema_version :: string
  ck_arm :: "arm option"
  ck_plan :: "ab_plan option"

text \<open>
  The decoders, the verification of a stored toolchain and of a series, and the files of the artifact root. Decoding
  the protocol leaves a value in the variable even when it fails, or when there is no file to decode.
\<close>

record ab_reader =
  rd_protocol :: "string option \<Rightarrow> protocol \<times> bool"
  rd_result :: "string \<Rightarrow> ab_record option"
  rd_block :: "string \<Rightarrow> block option"
  rd_qualification :: "string \<Rightarrow> artifact option"
  rd_snapshot :: "string \<Rightarrow> string \<Rightarrow> manifest option"
  rd_series :: "string \<Rightarrow> series_check option"
  rd_safe :: "string \<Rightarrow> bool"
  rd_root :: files

text \<open>
  Issues are the messages of the code, in the order of their discovery; the verifier sorts them and drops repetitions.
  The text of an error of another package, which the code appends, is left out.
\<close>

type_synonym issue = string

definition issue_if :: "bool \<Rightarrow> issue \<Rightarrow> issue list" where
  "issue_if b i = (if b then [i] else [])"

definition max_ab_json_bytes :: nat where
  "max_ab_json_bytes = 16 * 2 ^ 20"

definition read_limited :: "files \<Rightarrow> string \<Rightarrow> string option" where
  "read_limited fs path =
     (case fs path of
        None \<Rightarrow> None
      | Some f \<Rightarrow>
        if \<not> fi_regular f \<or> fi_content f = [] \<or> length (fi_content f) > max_ab_json_bytes then None
        else Some (fi_content f))"

definition digest_file :: "files \<Rightarrow> string \<Rightarrow> string option" where
  "digest_file fs path =
     (case fs path of None \<Rightarrow> None | Some f \<Rightarrow> if fi_regular f then Some (digest_bytes (fi_content f)) else None)"

definition canonical_utc_text :: "string \<Rightarrow> bool" where
  "canonical_utc_text v =
     (case parse_rfc3339 v of None \<Rightarrow> False | Some t \<Rightarrow> has_suffix v ''Z'' \<and> format_rfc3339 t = v)"

subsection \<open>Checks\<close>

definition regular_issues :: "ab_directory \<Rightarrow> string \<Rightarrow> issue list" where
  "regular_issues d name =
     issue_if (case ad_files d name of None \<Rightarrow> True | Some f \<Rightarrow> \<not> fi_regular f \<or> fi_content f = []) (name @ '' is missing, empty, or unsafe'')"

definition directory_issues :: "ab_directory \<Rightarrow> string \<Rightarrow> issue list" where
  "directory_issues d name = issue_if (\<not> ad_directories d name) (name @ '' directory is missing or unsafe'')"

definition file_ref_issues :: "ab_directory \<Rightarrow> file_ref \<Rightarrow> string \<Rightarrow> string \<Rightarrow> issue list" where
  "file_ref_issues d f want label =
     (if fr_path f \<noteq> want \<or> \<not> is_portable_path (fr_path f) \<or> \<not> is_digest (fr_digest f) \<or> fr_size f \<le> 0
      then [label @ '' file reference is invalid'']
      else case ad_files d (fr_path f) of
             None \<Rightarrow> [label @ '' file reference is unsafe'']
           | Some e \<Rightarrow>
             if \<not> fi_regular e \<or> int (length (fi_content e)) \<noteq> fr_size f then [label @ '' file reference size or type mismatch'']
             else issue_if (digest_bytes (fi_content e) \<noteq> fr_digest f) (label @ '' file reference digest mismatch''))"

definition toolchain_issues :: "ab_reader \<Rightarrow> string \<Rightarrow> toolchain_identity \<Rightarrow> issue list" where
  "toolchain_issues rd role t =
     (if ti_manifest_ref t \<noteq> toolchain_manifest_ref role then [role @ '' native toolchain manifest reference is invalid'']
      else case rd_snapshot rd role (ti_digest t) of
             None \<Rightarrow> [role @ '' native toolchain snapshot is invalid'']
           | Some m \<Rightarrow>
             issue_if (mn_source_commit m \<noteq> ti_source_commit t \<or> mn_build_provenance m \<noteq> ti_build_provenance t \<or>
                 toolchain_version m ''postgres'' \<noteq> ti_postgres_version t \<or>
                 toolchain_version m ''pgbench'' \<noteq> ti_pgbench_version t \<or>
                 toolchain_version m ''psql'' \<noteq> ti_psql_version t)
               (role @ '' native toolchain provenance differs from protocol''))"

definition snapshot_issues_of :: "ab_reader \<Rightarrow> ab_directory \<Rightarrow> protocol \<Rightarrow> issue list" where
  "snapshot_issues_of rd d p =
     (if pt_subject_dimension p \<noteq> subject_native_toolchain then issue_if (ad_toolchains d) ''pg_config protocol contains an unexpected native toolchain snapshot directory''
      else case (sb_native_toolchain (pt_baseline p), sb_native_toolchain (pt_candidate p)) of
             (Some b, Some c) \<Rightarrow>
               toolchain_issues rd ''baseline'' b @ toolchain_issues rd ''candidate'' c @
               (case (rd_snapshot rd ''baseline'' (ti_digest b), rd_snapshot rd ''candidate'' (ti_digest c)) of
                  (Some x, Some y) \<Rightarrow>
                    (case incomparable_executable x y of None \<Rightarrow> [] | Some name \<Rightarrow> [''native toolchain snapshots are version-incompatible: '' @ name])
                | _ \<Rightarrow> [])
           | (b, c) \<Rightarrow> issue_if (b = None) ''baseline native toolchain identity is missing'' @ issue_if (c = None) ''candidate native toolchain identity is missing'')"

definition interval_issues :: "ab_record \<Rightarrow> issue list" where
  "interval_issues r =
     (if \<not> canonical_utc_text (rc_started_at r) \<or> \<not> canonical_utc_text (rc_finished_at r) then [''result timestamps must be canonical UTC RFC3339Nano'']
      else issue_if (the_time (parse_rfc3339 (rc_finished_at r)) < the_time (parse_rfc3339 (rc_started_at r))) ''result finishes before it starts'')"

definition settings_statuses :: "string list" where
  "settings_statuses = [''verified-different'', ''verified-stable'', ''equivalent'', ''unstable'', ''invalid'']"

definition identity_issues :: "string \<Rightarrow> protocol \<Rightarrow> ab_record \<Rightarrow> issue list" where
  "identity_issues base p r =
     issue_if (rc_schema_version r \<noteq> run_schema \<or> rc_artifact_type r \<noteq> run_artifact \<or>
         rc_scheduler_version r \<noteq> scheduler_version) ''unsupported result schema, artifact type, or scheduler'' @
     issue_if (rc_run_id r = [] \<or> rc_run_id r \<noteq> pt_run_id p \<or> base \<noteq> rc_run_id r \<or> \<not> valid_series_id (rc_run_id r))
       ''result run identity mismatch'' @
     issue_if (rc_run_dir r \<noteq> ''.'') (''result run_dir must be portable '' @ [CHR 0x27, CHR ''.'', CHR 0x27]) @
     interval_issues r @
     issue_if (\<not> is_digest (rc_digest r)) ''result digest is not a lowercase sha256 digest'' @
     issue_if (rc_blocks r = None \<or> rc_reasons r = None) ''result blocks and reasons must be present arrays'' @
     issue_if (xr_names (rc_settings r) = None \<or> xr_differences (rc_settings r) = None \<or> xr_reasons (rc_settings r) = None)
       ''effective pg_settings assessment arrays must be present'' @
     issue_if (xr_names (rc_settings r) \<noteq> Some (sg_names (pt_effective_settings p))) ''effective pg_settings assessment names differ from protocol'' @
     issue_if (xr_status (rc_settings r) \<notin> set settings_statuses) ''effective pg_settings assessment status is invalid'' @
     issue_if (rc_reasons r \<noteq> map_option unique_sorted (rc_reasons r)) ''result reasons are not sorted and unique''"

text \<open>The recording, if it is valid, and the issues.\<close>

definition load_qualification :: "ab_reader \<Rightarrow> ab_directory \<Rightarrow> string \<Rightarrow> string \<Rightarrow> artifact option \<times> issue list" where
  "load_qualification rd d path label =
     (case read_limited (ad_files d) path of
        None \<Rightarrow> (None, [label @ '' qualification read failed''])
      | Some content \<Rightarrow>
        (case rd_qualification rd content of
           None \<Rightarrow> (None, [label @ '' qualification parse failed''])
         | Some a \<Rightarrow>
           let v = verify_artifact a
           in (if ve_valid v then Some a else None, map (\<lambda>m. label @ '' qualification invalid: '' @ m) (HostQualify.ve_issues v))))"

record loaded_series =
  ls_arm :: arm
  ls_plan :: ab_plan
  ls_schema_version :: string
  ls_config_path :: string

definition series_dir :: "string \<Rightarrow> string" where
  "series_dir run_id = ''runs/benchmarks/'' @ run_id"

definition load_series :: "ab_reader \<Rightarrow> series_ref \<Rightarrow> string \<Rightarrow> loaded_series option \<times> issue list" where
  "load_series rd f want =
     (if sf_role f \<noteq> want \<or> \<not> valid_series_id (sf_run_id f) then (None, [want @ '' series reference identity is invalid''])
      else if sf_ref f \<noteq> series_dir (sf_run_id f) \<or> \<not> is_portable_path (sf_ref f) then (None, [want @ '' series reference path is not canonical''])
      else if \<not> rd_safe rd (sf_ref f) then (None, [want @ '' series reference is unsafe''])
      else case rd_series rd (sf_ref f) of
             None \<Rightarrow> (None, [want @ '' series verification failed''])
           | Some k \<Rightarrow>
             let found = map (\<lambda>m. want @ '' series invalid: '' @ m) (ck_issues k)
             in case (ck_arm k, ck_plan k) of
                  (None, _) \<Rightarrow> (None, found @ [want @ '' series result is missing''])
                | (Some a, None) \<Rightarrow> (None, found @ [want @ '' series plan is missing''])
                | (Some a, Some plan) \<Rightarrow>
                  let same = (digest_file (rd_root rd) (sf_ref f @ ''/result.json'') = Some (sf_result_digest f))
                  in (if ck_issues k = [] \<and> same
                      then Some \<lparr>ls_arm = a, ls_plan = plan, ls_schema_version = ck_schema_version k,
                                 ls_config_path = sf_ref f @ ''/protocol/postgresql.conf''\<rparr>
                      else None,
                      found @ issue_if (\<not> same) (want @ '' series result digest mismatch'') @
                      issue_if (se_run_id (am_series a) \<noteq> sf_run_id f) (want @ '' series run id mismatch'')))"

subsection \<open>The series against the protocol\<close>

definition toolchain_series_ref :: string where
  "toolchain_series_ref = ''protocol/native-toolchain/manifest.json''"

text \<open>The toolchain of a series: \<open>None\<close> is the panic on a missing toolchain identity.\<close>

definition series_toolchain_issues :: "protocol \<Rightarrow> string \<Rightarrow> subject \<Rightarrow> series \<Rightarrow> environment \<Rightarrow> issue list option" where
  "series_toolchain_issues p role sub s e =
     (let wanted = series_dir (se_run_id s) @ ''/'' @ toolchain_series_ref;
          elsewhere = (env_native_toolchain_manifest_ref e \<noteq> wanted \<or> env_native_toolchain_provenance e \<noteq> unattested)
      in if pt_runtime p = ''native'' \<and> pt_subject_dimension p = subject_pg_config then
           Some (issue_if (\<not> is_digest (env_native_toolchain_digest e) \<or> elsewhere)
             (role @ '' series native toolchain identity is not the canonical series-local snapshot''))
         else if pt_subject_dimension p = subject_native_toolchain then
           (case sb_native_toolchain sub of
              None \<Rightarrow> None
            | Some t \<Rightarrow>
              Some (issue_if (env_native_toolchain_digest e \<noteq> ti_digest t \<or> elsewhere)
                (role @ '' series native toolchain identity differs from protocol or is not the canonical series-local snapshot'')))
         else Some [])"

definition series_subject_issues :: "protocol \<Rightarrow> string \<Rightarrow> subject \<Rightarrow> series \<Rightarrow> issue list" where
  "series_subject_issues p role sub s =
     issue_if (se_benchmark s \<noteq> sb_benchmark sub \<or> se_subject s \<noteq> sb_subject sub \<or> se_protocol_digest s \<noteq> sb_protocol_digest sub)
       (role @ '' series does not match protocol subject identity'') @
     issue_if (se_runtime s \<noteq> pt_runtime p \<or> se_class s \<noteq> ''measurement'' \<or> se_primary_metric s \<noteq> pt_primary_metric p \<or>
         se_direction s \<noteq> pt_direction p \<or> se_comparison_key_digest s \<noteq> pt_comparison_key_digest p \<or>
         se_trials_planned s \<noteq> pt_blocks_planned p)
       (role @ '' series does not match protocol comparison identity'') @
     issue_if ((case se_regression_threshold_pct s of None \<Rightarrow> True | Some v \<Rightarrow> \<not> f_eq v (pt_regression_threshold_pct p)) \<or>
         se_allowed_differences s \<noteq> [pt_subject_dimension p])
       (role @ '' series decision policy differs from protocol'') @
     (case se_environment s of
        None \<Rightarrow> [role @ '' series PostgreSQL configuration differs from protocol: environment is missing'']
      | Some e \<Rightarrow>
        issue_if (env_pg_config e \<noteq> sb_pg_config sub \<or> env_pg_config_digest e \<noteq> sb_pg_config_digest sub)
          (role @ '' series PostgreSQL configuration differs from protocol: got '' @ env_pg_config e @ ''/'' @
           env_pg_config_digest e @ '' want '' @ sb_pg_config sub @ ''/'' @ sb_pg_config_digest sub) @
        issue_if (env_subject_dimension e \<noteq> pt_subject_dimension p)
          (role @ '' series subject dimension differs from protocol''))"

definition arm_protocol_issues :: "protocol \<Rightarrow> string \<Rightarrow> subject \<Rightarrow> series \<Rightarrow> issue list option" where
  "arm_protocol_issues p role sub s =
     (case se_environment s of
        None \<Rightarrow> Some (series_subject_issues p role sub s)
      | Some e \<Rightarrow> map_option (\<lambda>more_issues. series_subject_issues p role sub s @ more_issues) (series_toolchain_issues p role sub s e))"

definition populations_overlap :: "series \<Rightarrow> series \<Rightarrow> bool" where
  "populations_overlap l r = list_ex (\<lambda>t. tr_run_id t \<in> set (map tr_run_id (se_trials l))) (se_trials r)"

text \<open>The environment without what the subject dimension lets differ.\<close>

definition shared_environment :: "protocol \<Rightarrow> environment \<Rightarrow> environment" where
  "shared_environment p e =
     (let bare = e\<lparr>env_pg_config := [], env_pg_config_digest := [], env_digest := [], env_native_toolchain_manifest_ref := []\<rparr>
      in if pt_subject_dimension p = subject_native_toolchain
         then bare\<lparr>env_native_toolchain_digest := [], env_native_toolchain_provenance := []\<rparr> else bare)"

definition settings_rederivation_issues :: "files \<Rightarrow> protocol \<Rightarrow> loaded_series \<Rightarrow> loaded_series \<Rightarrow> issue list" where
  "settings_rederivation_issues fs p b c =
     (case union_config_setting_names fs [ls_config_path b, ls_config_path c] of
        Inl e \<Rightarrow> [''effective pg_settings protocol cannot be re-derived from series snapshots'']
      | Inr names \<Rightarrow>
        issue_if (names \<noteq> sg_names (pt_effective_settings p))
          ''effective pg_settings names do not match series configuration snapshots'')"

definition pair_issues :: "protocol \<Rightarrow> loaded_series \<Rightarrow> loaded_series \<Rightarrow> issue list" where
  "pair_issues p b c =
     (let l = am_series (ls_arm b); r = am_series (ls_arm c) in
      issue_if (se_run_id l = se_run_id r \<or> populations_overlap l r)
        ''baseline and candidate series populations are not distinct'' @
      issue_if (se_reset_policy l \<noteq> se_reset_policy r) ''baseline and candidate reset policies differ'' @
      issue_if (se_engine_binary_digest l \<noteq> se_engine_binary_digest r)
        ''baseline and candidate benchmark engine binary digests differ'' @
      issue_if (ap_client_placement (ls_plan b) \<noteq> qp_client_placement (pt_qualification p) \<or>
          ap_client_placement (ls_plan c) \<noteq> qp_client_placement (pt_qualification p))
        ''series client-placement declarations differ from the qualified protocol gate'' @
      (case (se_environment l, se_environment r) of
         (Some x, Some y) \<Rightarrow>
           issue_if (shared_environment p x \<noteq> shared_environment p y)
             ''baseline and candidate runtime fingerprints differ outside the declared subject dimension''
       | _ \<Rightarrow> []))"

definition series_protocol_issues :: "files \<Rightarrow> protocol \<Rightarrow> loaded_series \<Rightarrow> loaded_series \<Rightarrow> issue list option" where
  "series_protocol_issues fs p b c =
     (case (arm_protocol_issues p ''baseline'' (pt_baseline p) (am_series (ls_arm b)),
            arm_protocol_issues p ''candidate'' (pt_candidate p) (am_series (ls_arm c))) of
        (Some x, Some y) \<Rightarrow>
          Some (issue_if (ls_schema_version b \<noteq> ls_schema_version c) ''baseline and candidate series schema versions differ'' @
                x @ y @ pair_issues p b c @ settings_rederivation_issues fs p b c)
      | _ \<Rightarrow> None)"

subsection \<open>Chronology\<close>

text \<open>The interval of an execution, as the check finds it, or the message that there is none.\<close>

definition execution_interval :: "arm \<Rightarrow> arm \<Rightarrow> int \<Rightarrow> block_execution \<Rightarrow> (issue, int \<times> int) result" where
  "execution_interval b c number e =
     (let a = arm_of (be_role e) b c; note_of = (\<lambda>what. ''block '' @ show_int number @ '' execution '' @ what)
      in if be_role e \<noteq> ''baseline'' \<and> be_role e \<noteq> ''candidate'' \<or> be_trial e \<le> 0 \<or> be_trial e > int (length (arm_trials a))
         then Inl (note_of ''references a missing trial'')
         else case am_timeline a (nat (be_trial e) - 1) of
                None \<Rightarrow> Inl (note_of ''has no phase timeline'')
              | Some t \<Rightarrow> of_option (note_of ''phase interval is invalid'') (timeline_span (Some t)))"

text \<open>The clock starts at the zero time, which stands for no execution yet.\<close>

fun schedule_issues :: "arm \<Rightarrow> arm \<Rightarrow> int \<Rightarrow> (int \<times> block_execution) list \<Rightarrow> issue list" where
  "schedule_issues b c previous [] = []"
| "schedule_issues b c previous ((number, e) # rest) =
     (case execution_interval b c number e of
        Inl i \<Rightarrow> i # schedule_issues b c previous rest
      | Inr (started, finished) \<Rightarrow>
        issue_if (previous \<noteq> zero_time \<and> started < previous)
          (''block '' @ show_int number @ '' execution overlaps or precedes the declared schedule'') @
        schedule_issues b c finished rest)"

definition scheduled_executions :: "block list \<Rightarrow> (int \<times> block_execution) list" where
  "scheduled_executions blocks = concat (map (\<lambda>b. map (Pair (bl_number b)) (bl_executions b)) blocks)"

definition chronology_issues :: "arm \<Rightarrow> arm \<Rightarrow> block list \<Rightarrow> issue list" where
  "chronology_issues b c blocks = schedule_issues b c zero_time (scheduled_executions blocks)"

subsection \<open>The written files\<close>

definition block_file_name :: "block \<Rightarrow> string" where
  "block_file_name b = pad_number 3 (bl_number b) @ ''-'' @ map to_lower_char (bl_planned_order b) @ ''.json''"

definition block_file_issues :: "ab_reader \<Rightarrow> ab_directory \<Rightarrow> block list \<Rightarrow> issue list" where
  "block_file_issues rd d blocks =
     (if \<not> ad_directories d ''blocks'' then [''blocks directory cannot be read'']
      else
        issue_if (length (ad_block_entries d) \<noteq> length blocks)
          (''blocks directory has '' @ show_nat (length (ad_block_entries d)) @ '' entries, want '' @ show_nat (length blocks)) @
        concat (map (\<lambda>b.
          let name = block_file_name b
          in case Option.bind (read_limited (ad_files d) (''blocks/'' @ name)) (rd_block rd) of
               None \<Rightarrow> [name @ '' parse failed'']
             | Some stored \<Rightarrow> issue_if (stored \<noteq> b) (name @ '' does not match independently reconstructed block'')) blocks) @
        concat (map (\<lambda>(name, regular). issue_if (\<not> regular) (''blocks directory contains an unsafe entry: '' @ name))
          (ad_block_entries d)))"

definition content_issues :: "ab_directory \<Rightarrow> string \<Rightarrow> string \<Rightarrow> issue list" where
  "content_issues d name want =
     (case read_limited (ad_files d) name of
        None \<Rightarrow> [name @ '' read failed'']
      | Some content \<Rightarrow> issue_if (content \<noteq> want) (name @ '' does not match independently rendered content''))"

subsection \<open>Verification\<close>

text \<open>What is stored for a derived assessment: the names are absent when the protocol has none.\<close>

definition store_settings :: "settings_assessment \<Rightarrow> settings_record" where
  "store_settings a =
     \<lparr>xr_status = sa_status a, xr_names = (if sa_names a = [] then None else Some (sa_names a)),
      xr_baseline_version = sa_baseline_version a, xr_candidate_version = sa_candidate_version a,
      xr_differences = Some (sa_differences a), xr_reasons = Some (sa_reasons a)\<rparr>"

definition terminal_issues ::
  "protocol \<Rightarrow> ab_record \<Rightarrow> artifact \<Rightarrow> artifact \<Rightarrow> arm \<Rightarrow> arm \<Rightarrow> block list \<Rightarrow> paired_analysis \<Rightarrow> issue list" where
  "terminal_issues p r before after b c blocks analysis =
     (let assessment = assess_qualification p before after b c; settings = assess_effective_settings p b c
      in issue_if (assessment \<noteq> qr_assessment (rc_qualification r))
           ''qualification assessment does not match independent recomputation'' @
         issue_if (store_settings settings \<noteq> rc_settings r)
           ''effective pg_settings assessment does not match independent recomputation'' @
         (case derive_terminal p (am_series b) (am_series c) blocks assessment settings analysis of
            (status, decision, reasons) \<Rightarrow>
              issue_if (rc_status r \<noteq> status \<or> rc_decision r \<noteq> decision \<or> rc_reasons r \<noteq> Some reasons)
                ''terminal status, decision, or reasons do not match independent derivation'') @
         issue_if (rc_started_at r \<noteq> ar_recorded_at before \<or> rc_finished_at r \<noteq> ar_recorded_at after)
           ''run interval does not match qualification bookends'')"

definition derivation_issues ::
  "ab_reader \<Rightarrow> ab_directory \<Rightarrow> protocol \<Rightarrow> ab_record \<Rightarrow> artifact option \<Rightarrow> artifact option \<Rightarrow>
     loaded_series \<Rightarrow> loaded_series \<Rightarrow> issue list option" where
  "derivation_issues rd d p r before after l c =
     (case (series_protocol_issues (rd_root rd) p l c, derive_blocks p (ls_arm l) (ls_arm c)) of
        (Some found, Some blocks) \<Rightarrow>
          let analysis = analyze_paired (paired_units blocks) (paired_options_of p)
          in Some (found @
               issue_if (rc_blocks r \<noteq> Some blocks) ''blocks do not match independently reconstructed series trials'' @
               chronology_issues (ls_arm l) (ls_arm c) (case rc_blocks r of None \<Rightarrow> [] | Some bs \<Rightarrow> bs) @
               block_file_issues rd d blocks @ content_issues d ''blocks.tsv'' (blocks_tsv blocks) @
               issue_if (analysis \<noteq> rc_analysis r) ''paired analysis does not match independent recomputation'' @
               (case (before, after) of
                  (Some x, Some y) \<Rightarrow> terminal_issues p r x y (ls_arm l) (ls_arm c) blocks analysis
                | _ \<Rightarrow> []))
      | _ \<Rightarrow> None)"

definition result_digest_issues :: "ab_record \<Rightarrow> issue list" where
  "result_digest_issues r =
     (case result_digest r of
        None \<Rightarrow> [''result digest cannot be recomputed'']
      | Some v \<Rightarrow> issue_if (v \<noteq> rc_digest r) ''result digest mismatch'')"

definition verify_result :: "ab_reader \<Rightarrow> ab_directory \<Rightarrow> protocol \<Rightarrow> ab_record \<Rightarrow> issue list option" where
  "verify_result rd d p r =
     (let q = rc_qualification r in
      case (load_qualification rd d ''qualification/before.json'' ''before'',
            load_qualification rd d ''qualification/after.json'' ''after'',
            load_series rd (rc_baseline r) ''baseline'', load_series rd (rc_candidate r) ''candidate'') of
        ((before, i1), (after, i2), (baseline, i3), (candidate, i4)) \<Rightarrow>
          let found = identity_issues (ad_base d) p r @ file_ref_issues d (rc_protocol r) ''protocol.json'' ''protocol'' @
                file_ref_issues d (qr_before q) ''qualification/before.json'' ''before qualification'' @
                file_ref_issues d (qr_after q) ''qualification/after.json'' ''after qualification'' @ i1 @ i2 @ i3 @ i4;
              rest = content_issues d ''summary.md'' (summary_text r) @ result_digest_issues r
          in case (baseline, candidate) of
               (Some l, Some c) \<Rightarrow> map_option (\<lambda>derived. found @ derived @ rest) (derivation_issues rd d p r before after l c)
             | _ \<Rightarrow> Some (found @ rest))"

definition protocol_issues :: "protocol \<times> bool \<Rightarrow> issue list" where
  "protocol_issues decoded =
     (if \<not> snd decoded then [''protocol.json parse failed'']
      else issue_if (\<not> ok (verify_protocol (fst decoded))) ''protocol verification failed'')"

text \<open>The issues of an artifact; \<open>None\<close> is a panic.\<close>

definition verify_ab :: "ab_reader \<Rightarrow> ab_directory \<Rightarrow> issue list option" where
  "verify_ab rd d =
     (let decoded = rd_protocol rd (read_limited (ad_files d) ''protocol.json''); p = fst decoded;
          found = concat (map (regular_issues d) [''protocol.json'', ''result.json'', ''blocks.tsv'', ''summary.md'']) @
            concat (map (directory_issues d) [''qualification'', ''blocks'']) @ protocol_issues decoded @ snapshot_issues_of rd d p
      in case Option.bind (read_limited (ad_files d) ''result.json'') (rd_result rd) of
           None \<Rightarrow> Some (found @ [''result.json parse failed''])
         | Some r \<Rightarrow> map_option (\<lambda>more_issues. found @ more_issues) (verify_result rd d p r))"

subsection \<open>Writing\<close>

definition local_file_ref :: "files \<Rightarrow> string \<Rightarrow> file_ref option" where
  "local_file_ref fs path =
     (case fs path of
        None \<Rightarrow> None
      | Some f \<Rightarrow>
        if \<not> fi_regular f \<or> fi_content f = [] \<or> \<not> is_portable_path path then None
        else Some \<lparr>fr_path = path, fr_digest = digest_bytes (fi_content f), fr_size = int (length (fi_content f))\<rparr>)"

text \<open>The series directory is relative to the root.\<close>

definition series_ref_of :: "files \<Rightarrow> string \<Rightarrow> series \<Rightarrow> string \<Rightarrow> series_ref option" where
  "series_ref_of base role s dir =
     (case digest_file base (dir @ ''/result.json'') of
        None \<Rightarrow> None
      | Some v \<Rightarrow>
        if is_portable_path dir then Some \<lparr>sf_role = role, sf_run_id = se_run_id s, sf_ref = dir, sf_result_digest = v\<rparr>
        else None)"

definition build_record ::
  "files \<Rightarrow> files \<Rightarrow> protocol \<Rightarrow> artifact \<Rightarrow> artifact \<Rightarrow> arm \<times> string \<Rightarrow> arm \<times> string \<Rightarrow> ab_record option" where
  "build_record base fs p before after b c =
     (case (local_file_ref fs ''protocol.json'', local_file_ref fs ''qualification/before.json'',
            local_file_ref fs ''qualification/after.json'', series_ref_of base ''baseline'' (am_series (fst b)) (snd b),
            series_ref_of base ''candidate'' (am_series (fst c)) (snd c), build_ab_result p before after (fst b) (fst c)) of
        (Some f, Some g, Some h, Some x, Some y, Some r) \<Rightarrow>
          let bare = \<lparr>rc_schema_version = run_schema, rc_artifact_type = run_artifact, rc_scheduler_version = scheduler_version,
                rc_run_id = pt_run_id p, rc_run_dir = ''.'', rc_protocol = f, rc_started_at = ar_recorded_at before,
                rc_finished_at = ar_recorded_at after, rc_baseline = x, rc_candidate = y, rc_blocks = Some (ab_blocks r),
                rc_qualification = \<lparr>qr_before = g, qr_after = h, qr_assessment = ab_assessment r\<rparr>,
                rc_settings = store_settings (ab_settings r), rc_analysis = ab_analysis r, rc_status = ab_status r,
                rc_decision = ab_decision r, rc_reasons = Some (ab_reasons r), rc_digest = []\<rparr>
          in map_option (\<lambda>v. bare\<lparr>rc_digest := v\<rparr>) (result_digest bare)
      | _ \<Rightarrow> None)"

text \<open>The JSON texts of a block and of a result as they are written.\<close>

record ab_writer =
  wr_block :: "block \<Rightarrow> string"
  wr_result :: "ab_record \<Rightarrow> string"

definition write_file :: "string \<Rightarrow> string \<Rightarrow> files \<Rightarrow> files" where
  "write_file path content fs = fs(path \<mapsto> \<lparr>fi_regular = True, fi_content = content\<rparr>)"

definition write_block :: "ab_writer \<Rightarrow> block \<Rightarrow> ab_directory \<Rightarrow> ab_directory" where
  "write_block w b d =
     (let name = block_file_name b
      in d\<lparr>ad_files := write_file (''blocks/'' @ name) (wr_block w b) (ad_files d),
           ad_block_entries := filter (\<lambda>e. fst e \<noteq> name) (ad_block_entries d) @ [(name, True)]\<rparr>)"

definition write_result_artifacts :: "ab_writer \<Rightarrow> ab_record \<Rightarrow> ab_directory \<Rightarrow> ab_directory" where
  "write_result_artifacts w r d =
     (let blocks = (case rc_blocks r of None \<Rightarrow> [] | Some bs \<Rightarrow> bs); d1 = fold (write_block w) blocks d
      in d1\<lparr>ad_files := write_file ''result.json'' (wr_result w r) (write_file ''summary.md'' (summary_text r)
           (write_file ''blocks.tsv'' (blocks_tsv blocks) (ad_files d1)))\<rparr>)"

end
