(* ===== verification/ABDecision.thy ===== *)
theory ABDecision
  imports ABRun
begin

section \<open>What the verdict of a counterbalanced benchmark shows\<close>

text \<open>
  Properties of the derivations of \<open>ABRun\<close>: the gates explain themselves, a run that passed or failed rests on
  complete evidence and follows the decision rule, complete evidence is decided, and a verified protocol always
  yields a result.
\<close>

subsection \<open>Gates explain themselves\<close>

text \<open>
  The terminal status only sees the reasons of a gate, not whether it passed. What makes this sound is an interface
  that every gate must keep: a gate that does not pass gives a reason.
\<close>

locale explained_gate =
  fixes produced :: "'g \<Rightarrow> bool" and passed :: "'g \<Rightarrow> bool" and explain :: "'g \<Rightarrow> string list"
  assumes explained: "produced g \<Longrightarrow> \<not> passed g \<Longrightarrow> explain g \<noteq> []"
begin

lemma silent_means_passed: "produced g \<Longrightarrow> (if \<not> passed g then explain g else []) = [] \<longleftrightarrow> passed g"
  using explained by auto

end

lemma list_all_note_if [simp]: "list_all P (note_if b m) \<longleftrightarrow> (b \<longrightarrow> P m)"
  by (simp add: note_if_def)

lemma printable_map: "printable a \<Longrightarrow> list_all printable (map (\<lambda>i. a @ i) is)"
  by (induction "is") simp_all

lemma bookend_reasons_printable: "list_all printable (bookend_reasons before after)"
  unfolding bookend_reasons_def Let_def list_all_append list_all_note_if
  by (intro conjI printable_map impI) (simp_all add: solid_def code_def)

lemma protocol_reasons_printable: "list_all printable (protocol_reasons p before after b c)"
  by (simp add: protocol_reasons_def label_reasons_def Let_def solid_def code_def split: option.splits prod.splits)

lemma unique_sorted_list_printable: "list_all printable rs \<Longrightarrow> unique_sorted rs = [] \<longleftrightarrow> rs = []"
  using unique_sorted_printable[of _ rs] by (cases rs) auto

lemma list_all_sorted_unique: "list_all P (sorted_unique vs) \<longleftrightarrow> list_all P vs"
  by (simp add: sorted_unique_def list_all_iff)

definition qualification_produced :: "bookend_assessment \<Rightarrow> bool" where
  "qualification_produced a = (\<exists>p before after b c. a = assess_qualification p before after b c)"

definition qualification_passed :: "bookend_assessment \<Rightarrow> bool" where
  "qualification_passed a = (ba_status a = ''recorded-policy-passed'')"

lemma assess_qualification_passed:
  "qualification_passed (assess_qualification p before after b c) \<longleftrightarrow>
     bookend_reasons before after = [] \<and> protocol_reasons p before after b c = []"
  using assess_bookends_status[of before after]
  by (simp add: qualification_passed_def assess_qualification_def Let_def)

lemma assess_qualification_reasons:
  "ba_reasons (assess_qualification p before after b c) = [] \<longleftrightarrow>
     bookend_reasons before after = [] \<and> protocol_reasons p before after b c = []"
proof -
  have "list_all printable (ba_reasons (assess_bookends before after) @ protocol_reasons p before after b c)"
    using bookend_reasons_printable protocol_reasons_printable
    by (simp add: assess_bookends_def Let_def list_all_sorted_unique)
  from unique_sorted_list_printable[OF this] show ?thesis
    by (simp add: assess_qualification_def assess_bookends_def Let_def)
qed

interpretation qualification_gate: explained_gate qualification_produced qualification_passed ba_reasons
  by unfold_locales (auto simp: qualification_produced_def assess_qualification_passed assess_qualification_reasons)

lemma assess_qualification_produced [simp]: "qualification_produced (assess_qualification p before after b c)"
  unfolding qualification_produced_def by blast

subsection \<open>Blocks and units\<close>

lemma block_fields [simp]:
  "bl_baseline_value (empty_block p i) = None" "bl_candidate_value (empty_block p i) = None"
  "bl_status (empty_block p i) = ''invalid''"
  by (simp_all add: empty_block_def)

text \<open>Both trials of a block passed with values that have a finite effect.\<close>

definition clean_block :: "protocol \<Rightarrow> arm \<Rightarrow> arm \<Rightarrow> nat \<Rightarrow> bool" where
  "clean_block p b c i =
     (i < length (arm_trials b) \<and> i < length (arm_trials c) \<and>
      tr_status (arm_trials b ! i) = ''passed'' \<and> tr_status (arm_trials c ! i) = ''passed'' \<and>
      (\<exists>x y. tr_primary_value (arm_trials b ! i) = Some x \<and> tr_primary_value (arm_trials c ! i) = Some y \<and>
             ok (normalized_effect x y (pt_direction p))))"

lemma derive_block_clean:
  "pb_valid (paired_block_of (derive_block p b c i)) \<longleftrightarrow> clean_block p b c i"
  by (auto simp: derive_block_def settle_block_def with_effect_def paired_block_of_def clean_block_def Let_def ok_iff
      split: option.splits sum.splits)

lemma derive_block_values:
  "clean_block p b c i \<Longrightarrow>
     Some (pb_baseline (paired_block_of (derive_block p b c i))) = tr_primary_value (arm_trials b ! i) \<and>
     Some (pb_candidate (paired_block_of (derive_block p b c i))) = tr_primary_value (arm_trials c ! i)"
  by (auto simp: derive_block_def settle_block_def with_effect_def paired_block_of_def clean_block_def Let_def ok_iff)

lemma paired_units_map:
  "paired_units (map f [0..<2 * n]) =
     map (\<lambda>k. \<lparr>cu_ab = paired_block_of (f (2 * k)), cu_ba = paired_block_of (f (2 * k + 1))\<rparr>) [0..<n]"
proof -
  have "paired_units (map g [0..<2 * n]) =
      map (\<lambda>k. \<lparr>cu_ab = paired_block_of (g (2 * k)), cu_ba = paired_block_of (g (2 * k + 1))\<rparr>) [0..<n]" for g :: "nat \<Rightarrow> block"
  proof (induction n arbitrary: g)
    case (Suc n)
    have "map (\<lambda>i. i + 2) [0..<2 * n] = [2..<2 * n + 2]" by (rule map_add_upt)
    moreover have "[0..<2 * n + 2] = 0 # 1 # [2..<2 * n + 2]"
      by (simp add: upt_conv_Cons numeral_2_eq_2 del: upt_Suc)
    ultimately have "[0..<2 * Suc n] = 0 # 1 # map (\<lambda>i. i + 2) [0..<2 * n]" by simp
    moreover have "[0..<Suc n] = 0 # map Suc [0..<n]" by (simp add: upt_conv_Cons map_Suc_upt del: upt_Suc)
    ultimately show ?case using Suc[of "\<lambda>i. g (i + 2)"] by (simp add: comp_def)
  qed simp
  then show ?thesis .
qed

subsection \<open>Settled arms\<close>

text \<open>Every planned trial of an arm passed and carries verified settings, all equivalent, none pending a restart.\<close>

definition settled_trial :: "protocol \<Rightarrow> arm \<Rightarrow> settings_evidence \<Rightarrow> nat \<Rightarrow> bool" where
  "settled_trial p a v0 i =
     (tr_status (arm_trials a ! i) = ''passed'' \<and>
      (\<exists>v. am_settings a i = Some v \<and> ok (verify_settings v) \<and> settings_bound p (arm_trials a ! i) v \<and>
           equivalent_settings v0 v \<and> \<not> list_ex st_pending_restart (es_settings v)))"

definition settled_arm :: "protocol \<Rightarrow> arm \<Rightarrow> settings_evidence \<Rightarrow> bool" where
  "settled_arm p a v0 =
     (int (length (arm_trials a)) = pt_blocks_planned p \<and> (\<forall>i<length (arm_trials a). settled_trial p a v0 i))"

definition clean_scan :: "arm_scan \<Rightarrow> bool" where
  "clean_scan s = (sc_invalid s = [] \<and> sc_unqualified s = [])"

lemma pending_reasons_Nil: "pending_reasons role i v = [] \<longleftrightarrow> \<not> list_ex st_pending_restart (es_settings v)"
  by (auto simp: pending_reasons_def filter_empty_conv list_ex_iff)

lemma equivalent_settings_equivalence:
  "equivalent_settings v v"
  "equivalent_settings v w \<Longrightarrow> equivalent_settings w v"
  "equivalent_settings u v \<Longrightarrow> equivalent_settings v w \<Longrightarrow> equivalent_settings u w"
  by (auto simp: equivalent_settings_iff)

lemma scan_trial_clean:
  assumes "clean_scan (scan_trial p role a s i)"
  shows "clean_scan s \<and> (\<exists>v0. sc_stable (scan_trial p role a s i) = Some v0 \<and> settled_trial p a v0 i \<and>
    (sc_stable s = None \<or> sc_stable s = Some v0))"
proof (cases "am_settings a i")
  case None
  then show ?thesis using assms by (simp add: scan_trial_def Let_def clean_scan_def)
next
  case (Some v)
  have checks: "tr_status (arm_trials a ! i) = ''passed''" "ok (verify_settings v)" "settings_bound p (arm_trials a ! i) v"
    using assms Some by (auto simp: scan_trial_def Let_def clean_scan_def split: if_splits)
  show ?thesis
  proof (cases "sc_stable s")
    case none: None
    then show ?thesis
      using assms Some checks
      by (auto simp: scan_trial_def Let_def clean_scan_def settled_trial_def pending_reasons_Nil
          equivalent_settings_equivalence(1))
  next
    case reference: (Some v0)
    have equal: "equivalent_settings v0 v"
    proof (rule ccontr)
      assume "\<not> equivalent_settings v0 v"
      then have "sc_unqualified (scan_trial p role a s i) \<noteq> []"
        using Some checks reference by (simp add: scan_trial_def Let_def)
      then show False using assms by (simp add: clean_scan_def)
    qed
    then have "scan_trial p role a s i = s\<lparr>sc_unqualified := sc_unqualified s @ pending_reasons role i v\<rparr>"
      using Some checks reference by (simp add: scan_trial_def Let_def)
    then have "clean_scan s" "pending_reasons role i v = []" "sc_stable (scan_trial p role a s i) = Some v0"
      using assms reference by (simp_all add: clean_scan_def)
    then show ?thesis using checks Some equal reference by (simp add: settled_trial_def pending_reasons_Nil)
  qed
qed

lemma scan_trials_clean:
  "clean_scan (foldl (scan_trial p role a) s is) \<Longrightarrow>
     clean_scan s \<and> (\<forall>v0. sc_stable s = Some v0 \<longrightarrow> sc_stable (foldl (scan_trial p role a) s is) = Some v0) \<and>
     (\<forall>i\<in>set is. \<exists>v0. sc_stable (foldl (scan_trial p role a) s is) = Some v0 \<and> settled_trial p a v0 i)"
proof (induction "is" arbitrary: s)
  case (Cons i "is")
  note IH = Cons.IH[of "scan_trial p role a s i"]
  have "clean_scan (foldl (scan_trial p role a) (scan_trial p role a s i) is)" using Cons.prems by simp
  note IH = IH[OF this]
  then obtain v0 where v0: "clean_scan s" "sc_stable (scan_trial p role a s i) = Some v0" "settled_trial p a v0 i"
      "sc_stable s = None \<or> sc_stable s = Some v0"
    using scan_trial_clean by blast
  then have "sc_stable (foldl (scan_trial p role a) s (i # is)) = Some v0" using IH by simp
  then show ?case using v0 IH by auto
qed simp

lemma scan_arm_clean:
  assumes "clean_scan (scan_arm p role a)" and "sc_stable (scan_arm p role a) = Some v0"
  shows "settled_arm p a v0"
proof -
  define s0 where "s0 = \<lparr>sc_stable = None,
    sc_invalid = note_if (int (length (arm_trials a)) \<noteq> pt_blocks_planned p)
      (role @ '' effective pg_settings population is incomplete''), sc_unqualified = []\<rparr>"
  have scan: "scan_arm p role a = foldl (scan_trial p role a) s0 [0..<length (arm_trials a)]"
    by (simp add: scan_arm_def s0_def)
  have c: "clean_scan s0" "\<forall>i\<in>{0..<length (arm_trials a)}. \<exists>v0. sc_stable (scan_arm p role a) = Some v0 \<and> settled_trial p a v0 i"
    using scan_trials_clean[of p role a s0 "[0..<length (arm_trials a)]"] assms(1) unfolding scan by auto
  have "int (length (arm_trials a)) = pt_blocks_planned p" using c(1) by (simp add: clean_scan_def s0_def)
  then show ?thesis using c(2) assms(2) by (auto simp: settled_arm_def)
qed

lemma verified_settings:
  assumes "sa_status (assess_effective_settings p b c) = required_settings_status p"
  shows "\<exists>l r. settled_arm p b l \<and> settled_arm p c r \<and> es_server_version_num l = es_server_version_num r \<and>
    (sg_require_difference (pt_effective_settings p) \<longrightarrow> effective_difference_names l r \<noteq> [])"
proof -
  define bs cs where "bs = scan_arm p ''baseline'' b" and "cs = scan_arm p ''candidate'' c"
  have required: "required_settings_status p \<in> {''verified-different'', ''verified-stable''}"
    by (simp add: required_settings_status_def)
  have valid: "sc_invalid bs = []" "sc_invalid cs = []"
    using assms required
    by (auto simp: assess_effective_settings_def bs_def[symmetric] cs_def[symmetric] Let_def split: if_splits)
  obtain l r where stable: "sc_stable bs = Some l" "sc_stable cs = Some r"
    using assms required valid
    by (cases "sc_stable bs"; cases "sc_stable cs")
      (auto simp: assess_effective_settings_def bs_def[symmetric] cs_def[symmetric] Let_def)
  have q: "sc_unqualified bs = []" "sc_unqualified cs = []" "es_server_version_num l = es_server_version_num r"
    using assms required valid stable
    by (auto simp: assess_effective_settings_def bs_def[symmetric] cs_def[symmetric] Let_def note_if_def split: if_splits)
  have "sg_require_difference (pt_effective_settings p) \<Longrightarrow> effective_difference_names l r \<noteq> []"
    using assms required valid stable q
    by (auto simp: assess_effective_settings_def bs_def[symmetric] cs_def[symmetric] Let_def note_if_def
        required_settings_status_def split: if_splits)
  moreover have "settled_arm p b l" "settled_arm p c r"
    using scan_arm_clean[of p "''baseline''" b l] scan_arm_clean[of p "''candidate''" c r] valid stable q
    by (simp_all add: clean_scan_def bs_def cs_def)
  ultimately show ?thesis using q(3) by blast
qed

subsection \<open>Decided runs\<close>

definition decided :: "string \<Rightarrow> bool" where
  "decided status = (status = ''passed'' \<or> status = ''failed'')"

lemma series_reasons_clean:
  "series_invalid p role s = [] \<and> series_inconclusive role s = [] \<longleftrightarrow>
     se_run_id s \<noteq> [] \<and> int (length (se_trials s)) = pt_blocks_planned p \<and> se_status s = ''passed''"
  by (auto simp: series_invalid_def series_inconclusive_def note_if_def)

lemma terminal_decided:
  assumes "derive_terminal p b c blocks assessment settings analysis = (status, decision, reasons)"
    and "decided status" and "qualification_produced assessment"
  shows "status = pa_status analysis \<and> decision = pa_decision analysis \<and>
    se_status b = ''passed'' \<and> se_status c = ''passed'' \<and>
    int (length (se_trials b)) = pt_blocks_planned p \<and> int (length (se_trials c)) = pt_blocks_planned p \<and>
    qualification_passed assessment \<and> sa_status settings = required_settings_status p"
proof -
  define invalid where "invalid = series_invalid p ''baseline'' b @ series_invalid p ''candidate'' c @
    note_if (int (length blocks) \<noteq> pt_blocks_planned p) ''recorded block count differs from protocol'' @
    (if pa_status analysis = ''invalid'' then pa_reasons analysis else []) @
    (if sa_status settings = ''invalid'' then sa_reasons settings @ [''effective pg_settings evidence is invalid''] else [])"
  define inconclusive where "inconclusive = (series_inconclusive ''baseline'' b @ series_inconclusive ''candidate'' c) @
    (if ba_status assessment \<noteq> ''recorded-policy-passed'' then ba_reasons assessment else []) @
    (if pa_status analysis = ''inconclusive'' then pa_reasons analysis else []) @
    (if sa_status settings \<noteq> required_settings_status p
     then sa_reasons settings @ [''effective pg_settings stability/difference gate is not decision-qualified''] else [])"
  have t: "derive_terminal p b c blocks assessment settings analysis =
      (if invalid \<noteq> [] then (''invalid'', ''invalid'',
         unique_sorted (invalid @ series_inconclusive ''baseline'' b @ series_inconclusive ''candidate'' c))
       else if inconclusive \<noteq> [] then (''inconclusive'', ''inconclusive'', unique_sorted inconclusive)
       else (pa_status analysis, pa_decision analysis, unique_sorted (pa_reasons analysis)))"
    unfolding derive_terminal_def Let_def invalid_def inconclusive_def by simp
  have clean: "invalid = []" "inconclusive = []" "status = pa_status analysis" "decision = pa_decision analysis"
    using assms(1,2) unfolding t by (auto simp: decided_def split: if_splits)
  have "(if \<not> qualification_passed assessment then ba_reasons assessment else []) = []"
    using clean(2) by (simp add: inconclusive_def qualification_passed_def)
  then have "qualification_passed assessment"
    using qualification_gate.silent_means_passed[OF assms(3)] by simp
  moreover have "sa_status settings = required_settings_status p"
    using clean(2) unfolding inconclusive_def by (auto split: if_splits)
  ultimately show ?thesis
    using clean series_reasons_clean[of p "''baseline''" b] series_reasons_clean[of p "''candidate''" c]
    by (simp add: invalid_def inconclusive_def)
qed

lemma foldl_widen_covers:
  "foldl widen acc ms = Some (x, y) \<Longrightarrow>
     (\<forall>a b. acc = Some (a, b) \<longrightarrow> x \<le> a \<and> b \<le> y) \<and>
     (\<forall>m\<in>set ms. \<forall>s f. timeline_span m = Some (s, f) \<longrightarrow> x \<le> s \<and> f \<le> y)"
proof (induction ms arbitrary: acc)
  case (Cons m ms)
  then have IH: "\<And>a b. widen acc m = Some (a, b) \<Longrightarrow> x \<le> a \<and> b \<le> y"
    "\<forall>m\<in>set ms. \<forall>s f. timeline_span m = Some (s, f) \<longrightarrow> x \<le> s \<and> f \<le> y" by auto
  show ?case
  proof (cases "timeline_span m")
    case None
    then show ?thesis using IH by (simp add: widen_def)
  next
    case (Some span)
    obtain s f where sf: "span = (s, f)" by (cases span)
    show ?thesis
    proof (cases acc)
      case None
      then show ?thesis using IH Some sf by (simp add: widen_def)
    next
      case acc: (Some ab)
      obtain a b where "ab = (a, b)" by (cases ab)
      then show ?thesis using IH(1)[of "if s < a then s else a" "if b < f then f else b"] IH(2) Some sf acc
        by (auto simp: widen_def split: if_splits)
    qed
  qed
qed simp

lemma trial_interval_covers:
  assumes "trial_interval arms = Some (x, y)" and "a \<in> set arms" and "i < length (arm_trials a)"
    and "timeline_span (am_timeline a i) = Some (s, f)"
  shows "x \<le> s \<and> f \<le> y"
proof -
  have "am_timeline a i \<in> set (concat (map arm_timelines arms))"
    using assms(2,3) by (auto simp: arm_timelines_def intro!: bexI[of _ a])
  then show ?thesis using foldl_widen_covers assms(1,4) unfolding trial_interval_def by blast
qed

lemma protocol_reasons_Nil:
  assumes "protocol_reasons p before after b c = []"
  shows "protocol_policy p before \<and> protocol_policy p after \<and> placement_matches p before \<and> placement_matches p after \<and>
    (\<exists>s f first final. parse_rfc3339 (ar_recorded_at before) = Some s \<and> parse_rfc3339 (ar_recorded_at after) = Some f \<and>
       time_sub f s \<le> bookend_gap p \<and> trial_interval [b, c] = Some (first, final) \<and> s \<le> first \<and> final \<le> f)"
proof -
  obtain first final where i: "trial_interval [b, c] = Some (first, final)"
    using assms by (cases "trial_interval [b, c]") (auto simp: protocol_reasons_def Let_def)
  obtain s where s: "parse_rfc3339 (ar_recorded_at before) = Some s" "s \<le> first"
    using assms i by (cases "parse_rfc3339 (ar_recorded_at before)") (auto simp: protocol_reasons_def Let_def)
  obtain f where f: "parse_rfc3339 (ar_recorded_at after) = Some f" "final \<le> f"
    using assms i by (cases "parse_rfc3339 (ar_recorded_at after)") (auto simp: protocol_reasons_def Let_def)
  show ?thesis using assms i s f by (auto simp: protocol_reasons_def label_reasons_def Let_def)
qed

lemma build_ab_result_parts:
  assumes "build_ab_result p before after b c = Some r"
  shows "derive_blocks p b c = Some (ab_blocks r) \<and>
    ab_analysis r = analyze_paired (paired_units (ab_blocks r)) (paired_options_of p) \<and>
    ab_assessment r = assess_qualification p before after b c \<and> ab_settings r = assess_effective_settings p b c \<and>
    derive_terminal p (am_series b) (am_series c) (ab_blocks r) (ab_assessment r) (ab_settings r) (ab_analysis r) =
      (ab_status r, ab_decision r, ab_reasons r)"
proof -
  obtain blocks where d: "derive_blocks p b c = Some blocks"
    using assms by (cases "derive_blocks p b c") (auto simp: build_ab_result_def)
  obtain status decision reasons where t: "derive_terminal p (am_series b) (am_series c) blocks
      (assess_qualification p before after b c) (assess_effective_settings p b c)
      (analyze_paired (paired_units blocks) (paired_options_of p)) = (status, decision, reasons)"
    by (metis prod_cases3)
  have "r = \<lparr>ab_blocks = blocks, ab_assessment = assess_qualification p before after b c,
      ab_settings = assess_effective_settings p b c,
      ab_analysis = analyze_paired (paired_units blocks) (paired_options_of p),
      ab_status = status, ab_decision = decision, ab_reasons = reasons\<rparr>"
    using assms by (simp add: build_ab_result_def d t Let_def)
  then show ?thesis using d t by simp
qed

lemma decided_run:
  assumes "build_ab_result p before after b c = Some r" and "decided (ab_status r)"
  shows "ab_status r = pa_status (ab_analysis r) \<and> ab_decision r = pa_decision (ab_analysis r) \<and>
    se_status (am_series b) = ''passed'' \<and> se_status (am_series c) = ''passed'' \<and>
    qualification_passed (assess_qualification p before after b c) \<and>
    sa_status (assess_effective_settings p b c) = required_settings_status p"
proof -
  note parts = build_ab_result_parts[OF assms(1)]
  have "derive_terminal p (am_series b) (am_series c) (ab_blocks r) (assess_qualification p before after b c)
      (assess_effective_settings p b c) (ab_analysis r) = (ab_status r, ab_decision r, ab_reasons r)"
    using parts by metis
  from terminal_decided[OF this assms(2) assess_qualification_produced] show ?thesis by simp
qed

definition brackets_trials :: "protocol \<Rightarrow> artifact \<Rightarrow> artifact \<Rightarrow> arm \<Rightarrow> arm \<Rightarrow> bool" where
  "brackets_trials p before after b c =
     (\<exists>s f. parse_rfc3339 (ar_recorded_at before) = Some s \<and> parse_rfc3339 (ar_recorded_at after) = Some f \<and>
        time_sub f s \<le> bookend_gap p \<and>
        (\<forall>a\<in>{b, c}. \<forall>i<length (arm_trials a). \<forall>x y. timeline_span (am_timeline a i) = Some (x, y) \<longrightarrow> s \<le> x \<and> y \<le> f))"

definition certified_host :: "protocol \<Rightarrow> artifact \<Rightarrow> bool" where
  "certified_host p a =
     (ve_valid (verify_artifact a) \<and> gates_met (ar_snapshot a) (ar_policy a) \<and> protocol_policy p a \<and>
      placement_matches p a)"

lemma decided_run_evidence:
  assumes "build_ab_result p before after b c = Some r" and "decided (ab_status r)"
  shows "se_status (am_series b) = ''passed'' \<and> se_status (am_series c) = ''passed'' \<and>
    certified_host p before \<and> certified_host p after \<and>
    project_stable_host_class (ar_snapshot before) = project_stable_host_class (ar_snapshot after) \<and>
    brackets_trials p before after b c \<and>
    (\<exists>l r. settled_arm p b l \<and> settled_arm p c r \<and> es_server_version_num l = es_server_version_num r \<and>
       (sg_require_difference (pt_effective_settings p) \<longrightarrow> effective_difference_names l r \<noteq> []))"
proof -
  note t = decided_run[OF assms]
  have q: "bookend_reasons before after = []" "protocol_reasons p before after b c = []"
    using t assess_qualification_passed by blast+
  obtain s f first final where i: "parse_rfc3339 (ar_recorded_at before) = Some s"
      "parse_rfc3339 (ar_recorded_at after) = Some f" "time_sub f s \<le> bookend_gap p"
      "trial_interval [b, c] = Some (first, final)" "s \<le> first" "final \<le> f"
    and m: "protocol_policy p before" "protocol_policy p after" "placement_matches p before" "placement_matches p after"
    using protocol_reasons_Nil[OF q(2)] by blast
  have "brackets_trials p before after b c"
    unfolding brackets_trials_def
  proof (intro exI conjI ballI allI impI)
    fix a k x y
    assume a: "a \<in> {b, c}" "k < length (arm_trials a)" "timeline_span (am_timeline a k) = Some (x, y)"
    then have "first \<le> x \<and> y \<le> final" using trial_interval_covers[OF i(4), of a k x y] by auto
    then show "s \<le> x" "y \<le> f" using i(5,6) by simp_all
  qed (use i in simp_all)
  moreover have "certified_host p before" "certified_host p after"
    using q(1) m verified_verdict_gates[of before] verified_verdict_gates[of after]
    unfolding bookend_reasons_Nil certified_host_def by blast+
  ultimately show ?thesis using t q(1) verified_settings[of p b c] unfolding bookend_reasons_Nil by blast
qed

text \<open>The complete units of a run: both of their blocks are clean.\<close>

definition clean_units :: "protocol \<Rightarrow> arm \<Rightarrow> arm \<Rightarrow> nat \<Rightarrow> nat list" where
  "clean_units p b c n = filter (\<lambda>k. clean_block p b c (2 * k) \<and> clean_block p b c (2 * k + 1)) [0..<n]"

lemma paired_units_append: "paired_units (map f [0..<Suc (2 * n)]) = paired_units (map f [0..<2 * n])"
  for f :: "nat \<Rightarrow> block"
proof -
  have "even (length xs) \<Longrightarrow> paired_units (xs @ [y]) = paired_units xs" for xs y
    by (induction xs rule: paired_units.induct) auto
  from this[of "map f [0..<2 * n]" "f (2 * n)"] show ?thesis by simp
qed

lemma paired_units_half: "paired_units (map f [0..<m]) = paired_units (map f [0..<2 * (m div 2)])"
  for f :: "nat \<Rightarrow> block"
proof (cases "even m")
  case False
  then have "m = Suc (2 * (m div 2))" by presburger
  then show ?thesis using paired_units_append[of f "m div 2"] by metis
qed simp

text \<open>The unit that two clean blocks make: the primary values of their trials, as the trials record them.\<close>

definition measured_block :: "arm \<Rightarrow> arm \<Rightarrow> nat \<Rightarrow> paired_block" where
  "measured_block b c i = \<lparr>pb_valid = True, pb_baseline = the (tr_primary_value (arm_trials b ! i)),
     pb_candidate = the (tr_primary_value (arm_trials c ! i))\<rparr>"

definition measured_unit :: "arm \<Rightarrow> arm \<Rightarrow> nat \<Rightarrow> counterbalance_unit" where
  "measured_unit b c k = \<lparr>cu_ab = measured_block b c (2 * k), cu_ba = measured_block b c (2 * k + 1)\<rparr>"

lemma clean_block_measured:
  "clean_block p b c i \<Longrightarrow> paired_block_of (derive_block p b c i) = measured_block b c i"
  using derive_block_values[of p b c i] derive_block_clean[of p b c i]
  by (cases "paired_block_of (derive_block p b c i)") (auto simp: measured_block_def dest: sym)

lemma clean_units_measured:
  "filter complete_unit (paired_units (map (derive_block p b c) [0..<2 * n])) =
     map (measured_unit b c) (clean_units p b c n)"
  by (auto simp: paired_units_map filter_map comp_def complete_unit_def derive_block_clean clean_units_def
      measured_unit_def clean_block_measured)

lemma decided_run_analysis:
  assumes "build_ab_result p before after b c = Some r" and "decided (ab_status r)"
  defines "n \<equiv> nat (pt_blocks_planned p) div 2"
  shows "5 \<le> length (clean_units p b c n) \<and> pt_min_valid_units p \<le> int (length (clean_units p b c n)) \<and>
    (\<exists>low high. bootstrap_paired_ci (map (unit_changes (pt_direction p)) (map (measured_unit b c) (clean_units p b c n)))
         (paired_options_of p) = Inr (low, high) \<and>
       pa_ci_low_pct (ab_analysis r) = low \<and> pa_ci_high_pct (ab_analysis r) = high \<and>
       ab_status r = fst (decide_interval low high (pt_regression_threshold_pct p)) \<and>
       ab_decision r = fst (snd (decide_interval low high (pt_regression_threshold_pct p))))"
proof -
  note parts = build_ab_result_parts[OF assms(1)]
  define units where "units = paired_units (ab_blocks r)"
  have status: "ab_status r = pa_status (ab_analysis r)" "ab_decision r = pa_decision (ab_analysis r)"
    using decided_run[OF assms(1,2)] by simp_all
  have a: "ab_analysis r = analyze_paired units (paired_options_of p)" using parts by (simp add: units_def)
  have "pa_status (analyze_paired units (paired_options_of p)) \<in> {''passed'', ''failed''}"
    using assms(2) status a by (simp add: decided_def)
  note decidedness = analyze_paired_decided[OF this]
  have "ab_blocks r = map (derive_block p b c) [0..<nat (pt_blocks_planned p)]"
    using parts by (auto simp: derive_blocks_def split: if_splits)
  then have "units = paired_units (map (derive_block p b c) [0..<2 * n])"
    unfolding units_def n_def by (metis paired_units_half)
  then have u: "filter complete_unit units = map (measured_unit b c) (clean_units p b c n)"
    by (simp only: clean_units_measured)
  have "5 \<le> po_min_units (paired_options_of p)"
    using decidedness unfolding validate_paired_options_ok by blast
  moreover have "po_direction (paired_options_of p) = pt_direction p" "po_min_units (paired_options_of p) = pt_min_valid_units p"
    "po_regression_threshold_pct (paired_options_of p) = Some (pt_regression_threshold_pct p)"
    by (simp_all add: paired_options_of_def)
  ultimately show ?thesis
    using decidedness unfolding status a u by auto
qed

subsection \<open>Settled arms are recognised\<close>

lemma scan_trial_settled:
  assumes "settled_trial p a v0 i" and "clean_scan s" and "pred_option (equivalent_settings v0) (sc_stable s)"
  shows "clean_scan (scan_trial p role a s i) \<and> sc_stable (scan_trial p role a s i) \<noteq> None \<and>
    pred_option (equivalent_settings v0) (sc_stable (scan_trial p role a s i))"
proof -
  obtain v where v: "am_settings a i = Some v" "tr_status (arm_trials a ! i) = ''passed''" "ok (verify_settings v)"
    "settings_bound p (arm_trials a ! i) v" "equivalent_settings v0 v" "pending_reasons role i v = []"
    using assms(1) by (auto simp: settled_trial_def pending_reasons_Nil)
  show ?thesis
  proof (cases "sc_stable s")
    case None
    then show ?thesis using assms(2) v by (simp add: scan_trial_def Let_def clean_scan_def)
  next
    case (Some w)
    then have "equivalent_settings v0 w" using assms(3) by simp
    then have "equivalent_settings w v"
      using v(5) equivalent_settings_equivalence(2)[of v0 w] equivalent_settings_equivalence(3)[of w v0 v] by blast
    then show ?thesis using assms(2,3) v Some by (simp add: scan_trial_def Let_def clean_scan_def)
  qed
qed

lemma scan_trials_settled:
  "(\<And>i. i \<in> set is \<Longrightarrow> settled_trial p a v0 i) \<Longrightarrow> clean_scan s \<Longrightarrow> pred_option (equivalent_settings v0) (sc_stable s) \<Longrightarrow>
     clean_scan (foldl (scan_trial p role a) s is) \<and>
     pred_option (equivalent_settings v0) (sc_stable (foldl (scan_trial p role a) s is)) \<and>
     (is \<noteq> [] \<or> sc_stable s \<noteq> None \<longrightarrow> sc_stable (foldl (scan_trial p role a) s is) \<noteq> None)"
proof (induction "is" arbitrary: s)
  case (Cons i "is")
  have "settled_trial p a v0 i" using Cons.prems(1) by simp
  from scan_trial_settled[OF this Cons.prems(2,3)] Cons.prems(1) show ?case
    using Cons.IH[of "scan_trial p role a s i"] by simp
qed simp

lemma scan_arm_settled:
  assumes "settled_arm p a v0" and "0 < pt_blocks_planned p"
  shows "clean_scan (scan_arm p role a) \<and> (\<exists>v. sc_stable (scan_arm p role a) = Some v \<and> equivalent_settings v0 v)"
proof -
  define s0 where "s0 = \<lparr>sc_stable = None,
    sc_invalid = note_if (int (length (arm_trials a)) \<noteq> pt_blocks_planned p)
      (role @ '' effective pg_settings population is incomplete''), sc_unqualified = []\<rparr>"
  have scan: "scan_arm p role a = foldl (scan_trial p role a) s0 [0..<length (arm_trials a)]"
    by (simp add: scan_arm_def s0_def)
  have "clean_scan s0" "pred_option (equivalent_settings v0) (sc_stable s0)" "[0..<length (arm_trials a)] \<noteq> []"
    using assms by (auto simp: s0_def clean_scan_def settled_arm_def note_if_def)
  then have "clean_scan (scan_arm p role a)" "pred_option (equivalent_settings v0) (sc_stable (scan_arm p role a))"
    "sc_stable (scan_arm p role a) \<noteq> None"
    using scan_trials_settled[of "[0..<length (arm_trials a)]" p a v0 s0 role] assms(1)
    unfolding scan settled_arm_def by auto
  then show ?thesis by auto
qed

lemma difference_of_equivalent:
  "equivalent_settings l l' \<Longrightarrow> equivalent_settings r r' \<Longrightarrow>
     effective_difference_names l r = effective_difference_names l' r' \<and> 
     (es_server_version_num l = es_server_version_num r \<longleftrightarrow> es_server_version_num l' = es_server_version_num r')"
  by (simp add: equivalent_settings_iff effective_difference_names_def)

lemma settled_arms_verify:
  assumes "settled_arm p b l" and "settled_arm p c r" and "0 < pt_blocks_planned p"
    and "es_server_version_num l = es_server_version_num r"
    and "sg_require_difference (pt_effective_settings p) \<longrightarrow> effective_difference_names l r \<noteq> []"
  shows "sa_status (assess_effective_settings p b c) = required_settings_status p"
proof -
  obtain l' r' where s: "sc_stable (scan_arm p ''baseline'' b) = Some l'" "sc_stable (scan_arm p ''candidate'' c) = Some r'"
    and e: "equivalent_settings l l'" "equivalent_settings r r'"
    and c: "clean_scan (scan_arm p ''baseline'' b)" "clean_scan (scan_arm p ''candidate'' c)"
    using scan_arm_settled assms(1-3) by metis
  have "es_server_version_num l' = es_server_version_num r'"
    "effective_difference_names l r = effective_difference_names l' r'"
    using difference_of_equivalent[OF e] assms(4) by auto
  then show ?thesis
    using s c assms(5)
    by (simp add: assess_effective_settings_def clean_scan_def Let_def note_if_def required_settings_status_def)
qed

text \<open>C11: The settings gate is exact: the assessment has the status the protocol requires if and only if every planned
  trial of both arms passed with verified settings bound to it, stable within each arm and not pending a restart,
  under one server version, and, where the protocol requires it, with an effective difference between the arms.\<close>

theorem settings_gate_is_exact:
  assumes "0 < pt_blocks_planned p"
  shows "sa_status (assess_effective_settings p b c) = required_settings_status p \<longleftrightarrow>
    (\<exists>l r. settled_arm p b l \<and> settled_arm p c r \<and> es_server_version_num l = es_server_version_num r \<and>
       (sg_require_difference (pt_effective_settings p) \<longrightarrow> effective_difference_names l r \<noteq> []))"
  using verified_settings[of p b c] settled_arms_verify[of p b _ c] assms by blast

text \<open>Evidence that is complete decides.\<close>

lemma terminal_of_evidence:
  assumes "se_run_id b \<noteq> []" "se_run_id c \<noteq> []" "se_status b = ''passed''" "se_status c = ''passed''"
    and "int (length (se_trials b)) = pt_blocks_planned p" "int (length (se_trials c)) = pt_blocks_planned p"
    and "int (length blocks) = pt_blocks_planned p"
    and "qualification_passed assessment" and "sa_status settings = required_settings_status p"
    and "decided (pa_status analysis)"
  shows "derive_terminal p b c blocks assessment settings analysis =
    (pa_status analysis, pa_decision analysis, unique_sorted (pa_reasons analysis))"
proof -
  have s: "series_invalid p ''baseline'' b = []" "series_invalid p ''candidate'' c = []"
    "series_inconclusive ''baseline'' b = []" "series_inconclusive ''candidate'' c = []"
    using series_reasons_clean[of p _ b] series_reasons_clean[of p _ c] assms(1-6) by blast+
  have a: "pa_status analysis \<noteq> ''invalid''" "pa_status analysis \<noteq> ''inconclusive''"
    using assms(10) by (auto simp: decided_def)
  have "sa_status settings \<noteq> ''invalid''" using assms(9) by (simp add: required_settings_status_def)
  then show ?thesis
    using s a assms(7-9) by (simp add: derive_terminal_def Let_def note_if_def qualification_passed_def)
qed

lemma complete_evidence_decides:
  assumes "derive_blocks p b c = Some blocks"
    and "se_run_id (am_series b) \<noteq> []" "se_run_id (am_series c) \<noteq> []"
    and "se_status (am_series b) = ''passed''" "se_status (am_series c) = ''passed''"
    and "settled_arm p b l" "settled_arm p c r" "0 < pt_blocks_planned p"
    and "es_server_version_num l = es_server_version_num r"
    and "sg_require_difference (pt_effective_settings p) \<longrightarrow> effective_difference_names l r \<noteq> []"
    and "bookend_reasons before after = []" "protocol_reasons p before after b c = []"
    and "decided (pa_status (analyze_paired (paired_units blocks) (paired_options_of p)))"
  shows "\<exists>result. build_ab_result p before after b c = Some result \<and>
    ab_status result = pa_status (analyze_paired (paired_units blocks) (paired_options_of p))"
proof -
  have len: "int (length blocks) = pt_blocks_planned p"
    using assms(1) by (auto simp: derive_blocks_def split: if_splits)
  have q: "qualification_passed (assess_qualification p before after b c)"
    using assms(11,12) assess_qualification_passed by blast
  have lengths: "int (length (arm_trials b)) = pt_blocks_planned p" "int (length (arm_trials c)) = pt_blocks_planned p"
    using assms(6,7) by (auto simp: settled_arm_def)
  note terminal_of_evidence[OF assms(2-5) lengths len q settled_arms_verify[OF assms(6-10)] assms(13)]
  then show ?thesis by (simp add: build_ab_result_def assms(1) Let_def)
qed

subsection \<open>A run of five doubling units\<close>

definition ab_trial :: "f64 \<Rightarrow> trial" where
  "ab_trial x = (rejected_attempt 1 [])\<lparr>tr_run_id := ''run-1'', tr_status := ''passed'', tr_reasons := [], tr_primary_value := Some x\<rparr>"

definition ab_timeline :: timeline where
  "ab_timeline =
     \<lparr>tl_schema_version = [], tl_artifact_type = [], tl_run_id = [], tl_trial = 1, tl_started_at = format_rfc3339 0,
      tl_finished_at = format_rfc3339 0, tl_duration_ns = 0, tl_duration_ms = 0, tl_status = ''passed'',
      tl_events = [], tl_digest = []\<rparr>"

definition ab_arm :: "settings_evidence \<Rightarrow> string \<Rightarrow> f64 \<Rightarrow> f64 \<Rightarrow> arm" where
  "ab_arm v run x y =
     \<lparr>am_series = blank_series\<lparr>se_run_id := run, se_status := ''passed'',
        se_trials := map (\<lambda>i. ab_trial (if even i then x else y)) [0..<10]\<rparr>,
      am_timeline = (\<lambda>_. Some ab_timeline), am_settings = (\<lambda>_. Some v)\<rparr>"

definition placed_options :: inspect_options where
  "placed_options = sample_options\<lparr>io_client_placement := ''same-host''\<rparr>"

definition placed_snapshot :: snapshot where
  "placed_snapshot = collect_snapshot ''target-filesystem'' ''same-host'' ''.'' sample_probes"

definition run_protocol :: "string \<Rightarrow> protocol" where
  "run_protocol pdigest =
     (assemble_protocol ''ab-1'' ''docker'' subject_native_toolchain (subject_of ''baseline'' ''baseline'' (sample_plan ''a'') None)
        (subject_of ''candidate'' ''candidate'' (sample_plan ''b'') None) (sample_plan ''a'')
        (ab_sample_options\<lparr>ao_qualification := placed_options\<lparr>io_storage_label := ''target-filesystem''\<rparr>\<rparr>)
        pdigest [''work_mem''] (Fin 5))\<lparr>pt_digest := digest_bytes ''protocol''\<rparr>"

lemma placed_snapshot_value:
  "placed_snapshot =
     (empty_snapshot ''linux'' ''amd64'' ''target-filesystem'')
       \<lparr>sn_cpu := \<lparr>cs_model = unavailable_string ''procfs'', cs_logical_cpus = observed_uint 4 ''runtime''\<rparr>,
        sn_placement := observed_string ''same-host'' ''operator''\<rparr>"
  by (simp add: placed_snapshot_def collect_snapshot_def sample_probes_def collect_storage_def collect_placement_def
      collect_processors_def collect_linux_def when_read_def derive_snapshot_def derive_load_def derive_memory_def
      empty_snapshot_def platform_source_def unavailable_capacity_def Let_def)

lemma placed_inspection:
  "\<exists>a. inspect_host 0 placed_options sample_probes = Inr a \<and> ar_snapshot a = placed_snapshot \<and> ar_verdict a = ''qualified''"
proof -
  obtain checks verdict reasons where e: "evaluate_policy placed_snapshot sample_policy = (checks, verdict, reasons)"
    by (cases "evaluate_policy placed_snapshot sample_policy") auto
  have verdict: "verdict = ''qualified''"
    using evaluate_policy_verdict[OF e]
    by (simp add: sample_policy_def has_gate_def gates_met_def if_set_def uint_holds_def placed_snapshot_value)
  have problems: "policy_problems sample_policy = []"
    by (simp add: policy_problems_def sample_policy_def bad_number_def note_if_def)
  have json: "\<exists>t. snapshot_json placed_snapshot = Some t"
    by (simp add: placed_snapshot_value empty_snapshot_def snapshot_json_def json_object_opt_def capacity_json_def
        storage_json_def string_observation_json_def uint_observation_json_def number_observation_json_def
        list_observation_json_def member_float_def unavailable_capacity_def unavailable_list_def)
  have label: "portable_label ''target-filesystem''" "valid_client_placement ''same-host''" by code_simp+
  have "placed_snapshot = collect_snapshot (or_default (io_storage_label placed_options) ''target-filesystem'')
      (io_client_placement placed_options) (or_default (io_storage_path placed_options) ''.'') sample_probes"
    by (simp add: placed_snapshot_def placed_options_def sample_options_def or_default_def)
  then have "\<exists>a. inspect_host 0 placed_options sample_probes = Inr a \<and> ar_snapshot a = placed_snapshot \<and>
      ar_verdict a = verdict"
    using json e problems label
    by (intro inspect_host_succeeds) (simp_all add: placed_options_def sample_options_def sample_probes_def or_default_def)
  then show ?thesis using verdict by simp
qed

lemma placed_bookends:
  assumes "inspect_host 0 placed_options sample_probes = Inr a" and "ar_snapshot a = placed_snapshot"
    and "ar_verdict a = ''qualified''"
  shows "bookend_reasons a a = [] \<and> parse_rfc3339 (ar_recorded_at a) = Some 0 \<and> ar_policy a = sample_policy"
proof -
  note fields = inspected_fields[OF assms(1)]
  have t: "inspect_recorded_at 0 placed_options = 0"
    by (simp add: inspect_recorded_at_def placed_options_def sample_options_def)
  have zero: "parse_rfc3339 (format_rfc3339 0) = Some 0"
    by (rule parse_format) (simp_all add: days_before_year_def nanos_per_day_def nanos_per_second_def)
  then have "canonical_utc (ar_recorded_at a) = Some 0"
    by (simp add: fields t canonical_utc_def format_rfc3339_def has_suffix_def Let_def has_prefix_def)
  moreover have "names_recordable placed_snapshot"
    by (simp add: names_recordable_def placed_snapshot_value empty_snapshot_def)
  then have "ve_valid (verify_artifact a)"
    by (intro inspected_valid[OF assms(1) sample_facts(1-3)])
      (use assms(2) t in \<open>simp_all add: days_before_year_def nanos_per_day_def nanos_per_second_def\<close>)
  ultimately show ?thesis
    using assms(3) fields same_policy_refl policy_digest_Some stable_class_digest_Some zero t
    unfolding bookend_reasons_Nil by (simp add: placed_options_def sample_options_def)
qed

lemma run_protocol_fields:
  "pt_blocks_planned (run_protocol d) = 10" "pt_orders (run_protocol d) = map planned_order [0..<10]"
  "pt_direction (run_protocol d) = ''higher''" "paired_options_of (run_protocol d) = sample_paired_options"
  "sg_names (pt_effective_settings (run_protocol d)) = [''work_mem'']"
  "\<not> sg_require_difference (pt_effective_settings (run_protocol d))"
  "pt_digest (run_protocol d) = digest_bytes ''protocol''"
  "qp_policy_digest (pt_qualification (run_protocol d)) = d"
  "qp_policy (pt_qualification (run_protocol d)) = sample_policy"
  "qp_storage_label (pt_qualification (run_protocol d)) = ''target-filesystem''"
  "qp_client_placement (pt_qualification (run_protocol d)) = ''same-host''"
  "bookend_gap (run_protocol d) = 14400000000000"
proof -
  have "minimum_units 10 = 5"
    by (simp add: minimum_units_def truncated_div_def minimum_paired_units_def add64_exact int64_def min_int64_def max_int64_def)
  then show "paired_options_of (run_protocol d) = sample_paired_options"
    by (simp add: run_protocol_def assemble_protocol_def paired_options_of_def sample_paired_options_def ab_sample_options_def
        sample_plan_def)
  show "bookend_gap (run_protocol d) = 14400000000000"
    by (simp add: bookend_gap_def run_protocol_def assemble_protocol_def ab_sample_options_def int64_def min_int64_def max_int64_def)
qed (simp_all add: run_protocol_def assemble_protocol_def ab_sample_options_def sample_plan_def placed_options_def
    sample_options_def subject_pg_config_def subject_native_toolchain_def)

lemma run_reasons:
  assumes "inspect_host 0 placed_options sample_probes = Inr a" and "ar_snapshot a = placed_snapshot"
    and "ar_verdict a = ''qualified''" and "policy_digest sample_policy = Some d"
  shows "protocol_reasons (run_protocol d) a a (ab_arm v run x y) (ab_arm w run' x' y') = []"
proof -
  note a = placed_bookends[OF assms(1-3)]
  have p: "policy_problems sample_policy = []"
    by (simp add: policy_problems_def sample_policy_def bad_number_def note_if_def)
  have zero: "parse_rfc3339 (format_rfc3339 0) = Some 0"
    by (rule parse_format) (simp_all add: days_before_year_def nanos_per_day_def nanos_per_second_def)
  then have span: "timeline_span (Some ab_timeline) = Some (0, 0)" by (simp add: timeline_span_def ab_timeline_def)
  have "foldl widen (Some (0, 0)) (replicate n (Some ab_timeline)) = Some (0, 0)" for n
    by (induction n) (simp_all add: widen_def span)
  moreover have "concat (map arm_timelines [ab_arm v run x y, ab_arm w run' x' y']) = replicate 20 (Some ab_timeline)"
    by (simp add: arm_timelines_def ab_arm_def upt_rec numeral_eq_Suc)
  moreover have "widen None (Some ab_timeline) = Some (0, 0)" by (simp add: widen_def span)
  moreover have "replicate 20 (Some ab_timeline) = Some ab_timeline # replicate 19 (Some ab_timeline)"
    by (simp add: numeral_eq_Suc)
  ultimately have i: "trial_interval [ab_arm v run x y, ab_arm w run' x' y'] = Some (0, 0)"
    unfolding trial_interval_def by simp
  have "protocol_policy (run_protocol d) a"
    using a assms(4) same_policy_refl[OF p] by (simp add: protocol_policy_def text_or_empty_def run_protocol_fields)
  moreover have "placement_matches (run_protocol d) a" "ss_label (sn_storage (ar_snapshot a)) = ''target-filesystem''"
    using assms(2) by (simp_all add: placement_matches_def run_protocol_fields placed_snapshot_value empty_snapshot_def)
  ultimately show ?thesis
    using a i by (simp add: protocol_reasons_def label_reasons_def run_protocol_fields time_sub_def max_int64_def min_int64_def)
qed

lemma sample_settings_value:
  "\<exists>v. verify_settings v = Inr () \<and> es_run_id v = ''run-1'' \<and> es_trial v = 1 \<and> es_protocol_digest v = digest_bytes ''protocol'' \<and>
     es_names v = [''work_mem''] \<and> es_settings v = [setting_of_row sample_row False]"
proof -
  obtain v where v: "parse_settings_file sample_settings_files ''t'' sample_expectation = Inr v"
    using sample_settings_parsed by (auto simp: ok_iff)
  obtain s where "parse_table sample_table sample_expectation = Inr s"
    "v = (evidence_of_table sample_expectation s)\<lparr>es_digest := settings_digest (evidence_of_table sample_expectation s)\<rparr>"
    using v sample_table_bounded by (auto simp: parse_settings_file_def Let_def bind_r_Inr split: if_splits)
  then have "v = (evidence_of_table sample_expectation sample_state)
      \<lparr>es_digest := settings_digest (evidence_of_table sample_expectation sample_state)\<rparr>"
    using sample_table_parsed by simp
  then have "es_run_id v = ''run-1'' \<and> es_trial v = 1 \<and> es_protocol_digest v = digest_bytes ''protocol'' \<and>
      es_names v = [''work_mem''] \<and> es_settings v = [setting_of_row sample_row False]"
    by (simp add: evidence_of_table_def sample_expectation_fields sample_state_def)
  then show ?thesis using parsed_settings_verify[OF v] by blast
qed

lemma ab_arm_fields:
  "length (arm_trials (ab_arm v run x y)) = 10" "se_run_id (am_series (ab_arm v run x y)) = run"
  "se_status (am_series (ab_arm v run x y)) = ''passed''"
  "i < 10 \<Longrightarrow> arm_trials (ab_arm v run x y) ! i = ab_trial (if even i then x else y)"
  "am_settings (ab_arm v run x y) i = Some v"
  by (simp_all add: ab_arm_def)

lemma ab_trial_fields [simp]:
  "tr_status (ab_trial x) = ''passed''" "tr_primary_value (ab_trial x) = Some x" "tr_run_id (ab_trial x) = ''run-1''"
  "tr_trial (ab_trial x) = 1"
  by (simp_all add: ab_trial_def rejected_attempt_def)

lemma ab_arm_settled:
  assumes "verify_settings v = Inr ()" "es_run_id v = ''run-1''" "es_trial v = 1"
    "es_protocol_digest v = digest_bytes ''protocol''" "es_names v = [''work_mem'']"
    "es_settings v = [setting_of_row sample_row False]"
  shows "settled_arm (run_protocol d) (ab_arm v run x y) v"
  using assms
  by (simp add: settled_arm_def settled_trial_def ab_arm_fields run_protocol_fields settings_bound_def
      equivalent_settings_equivalence(1) setting_of_row_def)

lemma doubling_effect:
  "ok (normalized_effect (Fin 1) (Fin 2) ''higher'')" "ok (normalized_effect (Fin 3) (Fin 6) ''higher'')"
  using doubling_unit_changes
  by (simp_all add: normalized_effect_def unit_changes_def block_change_def doubling_unit_def normalized_change_def)

lemma run_units:
  "derive_blocks (run_protocol d) (ab_arm v run (Fin 1) (Fin 3)) (ab_arm w run' (Fin 2) (Fin 6)) =
     Some (map (derive_block (run_protocol d) (ab_arm v run (Fin 1) (Fin 3)) (ab_arm w run' (Fin 2) (Fin 6))) [0..<2 * 5])"
  "paired_units (map (derive_block (run_protocol d) (ab_arm v run (Fin 1) (Fin 3)) (ab_arm w run' (Fin 2) (Fin 6))) [0..<2 * 5]) =
     replicate 5 doubling_unit"
proof -
  let ?b = "ab_arm v run (Fin 1) (Fin 3)" and ?c = "ab_arm w run' (Fin 2) (Fin 6)"
  let ?block = "\<lambda>i. paired_block_of (derive_block (run_protocol d) ?b ?c i)"
  show "derive_blocks (run_protocol d) ?b ?c = Some (map (derive_block (run_protocol d) ?b ?c) [0..<2 * 5])"
    by (simp add: derive_blocks_def run_protocol_fields)
  have clean: "clean_block (run_protocol d) ?b ?c i" if "i < 10" for i
    using that doubling_effect by (simp add: clean_block_def ab_arm_fields run_protocol_fields)
  have block: "?block i = \<lparr>pb_valid = True, pb_baseline = if even i then Fin 1 else Fin 3,
      pb_candidate = if even i then Fin 2 else Fin 6\<rparr>" if "i < 10" for i
    using derive_block_clean[of "run_protocol d" ?b ?c i] derive_block_values[OF clean[OF that]] clean[OF that] that
    by (cases "?block i") (simp add: ab_arm_fields)
  have "paired_units (map (derive_block (run_protocol d) ?b ?c) [0..<2 * 5]) = map (\<lambda>k. doubling_unit) [0..<5]"
    unfolding paired_units_map
    by (rule map_cong[OF refl]) (simp add: block doubling_unit_def)
  then show "paired_units (map (derive_block (run_protocol d) ?b ?c) [0..<2 * 5]) = replicate 5 doubling_unit"
    by (simp add: map_replicate_const)
qed

lemma sample_run:
  shows "\<exists>a v d. 
    derive_blocks (run_protocol d) (ab_arm v ''ab-1-a'' (Fin 1) (Fin 3)) (ab_arm v ''ab-1-b'' (Fin 2) (Fin 6)) =
      Some (map (derive_block (run_protocol d) (ab_arm v ''ab-1-a'' (Fin 1) (Fin 3)) (ab_arm v ''ab-1-b'' (Fin 2) (Fin 6))) [0..<2 * 5]) \<and>
    settled_arm (run_protocol d) (ab_arm v ''ab-1-a'' (Fin 1) (Fin 3)) v \<and>
    settled_arm (run_protocol d) (ab_arm v ''ab-1-b'' (Fin 2) (Fin 6)) v \<and>
    bookend_reasons a a = [] \<and>
    protocol_reasons (run_protocol d) a a (ab_arm v ''ab-1-a'' (Fin 1) (Fin 3)) (ab_arm v ''ab-1-b'' (Fin 2) (Fin 6)) = []"
proof -
  obtain a where a: "inspect_host 0 placed_options sample_probes = Inr a" "ar_snapshot a = placed_snapshot"
    "ar_verdict a = ''qualified''" using placed_inspection by blast
  obtain v where v: "verify_settings v = Inr ()" "es_run_id v = ''run-1''" "es_trial v = 1"
    "es_protocol_digest v = digest_bytes ''protocol''" "es_names v = [''work_mem'']"
    "es_settings v = [setting_of_row sample_row False]" using sample_settings_value by blast
  have "policy_problems sample_policy = []"
    by (simp add: policy_problems_def sample_policy_def bad_number_def note_if_def)
  then obtain d where d: "policy_digest sample_policy = Some d" using policy_digest_Some by blast
  show ?thesis
    using run_units(1) ab_arm_settled[OF v] placed_bookends[OF a] run_reasons[OF a d] by blast
qed

lemma run_analysis:
  "pa_status (analyze_paired (paired_units (map (derive_block (run_protocol d) (ab_arm v run (Fin 1) (Fin 3))
     (ab_arm w run' (Fin 2) (Fin 6))) [0..<2 * 5])) (paired_options_of (run_protocol d))) = ''passed''"
  unfolding run_units(2) run_protocol_fields(4) by (rule doubling_units_pass)

lemma sample_run_passes:
  "\<exists>d before after b c result. build_ab_result (run_protocol d) before after b c = Some result \<and> ab_status result = ''passed''"
proof -
  obtain a v d where s:
    "derive_blocks (run_protocol d) (ab_arm v ''ab-1-a'' (Fin 1) (Fin 3)) (ab_arm v ''ab-1-b'' (Fin 2) (Fin 6)) =
      Some (map (derive_block (run_protocol d) (ab_arm v ''ab-1-a'' (Fin 1) (Fin 3)) (ab_arm v ''ab-1-b'' (Fin 2) (Fin 6))) [0..<2 * 5])"
    "settled_arm (run_protocol d) (ab_arm v ''ab-1-a'' (Fin 1) (Fin 3)) v"
    "settled_arm (run_protocol d) (ab_arm v ''ab-1-b'' (Fin 2) (Fin 6)) v"
    "bookend_reasons a a = []"
    "protocol_reasons (run_protocol d) a a (ab_arm v ''ab-1-a'' (Fin 1) (Fin 3)) (ab_arm v ''ab-1-b'' (Fin 2) (Fin 6)) = []"
    using sample_run by blast
  have "\<exists>result. build_ab_result (run_protocol d) a a (ab_arm v ''ab-1-a'' (Fin 1) (Fin 3)) (ab_arm v ''ab-1-b'' (Fin 2) (Fin 6)) =
      Some result \<and> ab_status result = ''passed''"
    using complete_evidence_decides[OF s(1) _ _ _ _ s(2,3) _ _ _ s(4,5)] run_analysis[of d v "''ab-1-a''" v "''ab-1-b''"]
    by (auto simp: ab_arm_fields run_protocol_fields decided_def)
  then show ?thesis by blast
qed

subsection \<open>What a decided run shows\<close>

text \<open>C4: A counterbalanced run that passed or failed rests on complete evidence: both series passed; at least five
  units, and at least as many as the protocol demands, consist of two clean blocks (both trials passed, with primary
  values that give an effect); the recordings before and after certify the host under the policy of the protocol, agree
  on its class, and bracket within the permitted gap every trial whose phase timeline can be read; and every one of the
  planned trials of both arms carries verified effective settings that are bound to its run, do not drift within an arm,
  come from one server version, and differ between the arms where the protocol requires it.\<close>

theorem decided_run_rests_on_evidence:
  assumes "build_ab_result p before after b c = Some r" and "decided (ab_status r)"
  shows "se_status (am_series b) = ''passed'' \<and> se_status (am_series c) = ''passed'' \<and>
    5 \<le> length (clean_units p b c (nat (pt_blocks_planned p) div 2)) \<and>
    pt_min_valid_units p \<le> int (length (clean_units p b c (nat (pt_blocks_planned p) div 2))) \<and>
    certified_host p before \<and> certified_host p after \<and>
    project_stable_host_class (ar_snapshot before) = project_stable_host_class (ar_snapshot after) \<and>
    brackets_trials p before after b c \<and>
    (\<exists>l r. settled_arm p b l \<and> settled_arm p c r \<and> es_server_version_num l = es_server_version_num r \<and>
       (sg_require_difference (pt_effective_settings p) \<longrightarrow> effective_difference_names l r \<noteq> []))"
  using decided_run_evidence[OF assms] decided_run_analysis[OF assms] by blast

theorem decided_run_rests_on_evidence_witness:
  "\<exists>d before after b c r. build_ab_result (run_protocol d) before after b c = Some r \<and> certified_host (run_protocol d) before \<and>
     brackets_trials (run_protocol d) before after b c"
proof -
  obtain d before after b c r where r: "build_ab_result (run_protocol d) before after b c = Some r" "ab_status r = ''passed''"
    using sample_run_passes by blast
  then have "decided (ab_status r)" by (simp add: decided_def)
  from decided_run_rests_on_evidence[OF r(1) this] r(1) show ?thesis by blast
qed

text \<open>C40: The verdict of a decided run is the decision rule applied to the bootstrap interval over exactly the units of
  which both blocks are clean, with the primary values their trials recorded: a missing, failed or invalid execution
  never contributes to the verdict.\<close>

theorem decided_run_follows_the_rule:
  assumes "build_ab_result p before after b c = Some r" and "decided (ab_status r)"
  shows "\<exists>low high. bootstrap_paired_ci
        (map (unit_changes (pt_direction p)) (map (measured_unit b c) (clean_units p b c (nat (pt_blocks_planned p) div 2))))
        (paired_options_of p) = Inr (low, high) \<and>
      pa_ci_low_pct (ab_analysis r) = low \<and> pa_ci_high_pct (ab_analysis r) = high \<and>
      ab_status r = fst (decide_interval low high (pt_regression_threshold_pct p)) \<and>
      ab_decision r = fst (snd (decide_interval low high (pt_regression_threshold_pct p)))"
  using decided_run_analysis[OF assms] by blast

theorem decided_run_follows_the_rule_witness:
  "\<exists>d before after b c r low high. build_ab_result (run_protocol d) before after b c = Some r \<and>
     ab_status r = fst (decide_interval low high (pt_regression_threshold_pct (run_protocol d)))"
proof -
  obtain d before after b c r where r: "build_ab_result (run_protocol d) before after b c = Some r" "ab_status r = ''passed''"
    using sample_run_passes by blast
  then have "decided (ab_status r)" by (simp add: decided_def)
  from decided_run_follows_the_rule[OF r(1) this] r(1) show ?thesis by blast
qed

theorem settings_gate_is_exact_witness:
  "\<exists>d b c. sa_status (assess_effective_settings (run_protocol d) b c) = required_settings_status (run_protocol d)"
proof -
  obtain v d where "settled_arm (run_protocol d) (ab_arm v ''ab-1-a'' (Fin 1) (Fin 3)) v"
    "settled_arm (run_protocol d) (ab_arm v ''ab-1-b'' (Fin 2) (Fin 6)) v"
    using sample_run by blast
  moreover have "0 < pt_blocks_planned (run_protocol d)" by (simp add: run_protocol_fields)
  ultimately show ?thesis using settings_gate_is_exact run_protocol_fields(6) by blast
qed

text \<open>C5: Complete evidence decides: when both series passed all planned trials, the settings of both arms are settled,
  the bookends qualify the host under the protocol, and the paired analysis passes or fails, then the run ends with
  exactly the status of the analysis.\<close>

theorem complete_evidence_is_decided:
  assumes "derive_blocks p b c = Some blocks"
    and "se_run_id (am_series b) \<noteq> []" "se_run_id (am_series c) \<noteq> []"
    and "se_status (am_series b) = ''passed''" "se_status (am_series c) = ''passed''"
    and "settled_arm p b l" "settled_arm p c r" "0 < pt_blocks_planned p"
    and "es_server_version_num l = es_server_version_num r"
    and "sg_require_difference (pt_effective_settings p) \<longrightarrow> effective_difference_names l r \<noteq> []"
    and "bookend_reasons before after = []" "protocol_reasons p before after b c = []"
    and "decided (pa_status (analyze_paired (paired_units blocks) (paired_options_of p)))"
  shows "\<exists>result. build_ab_result p before after b c = Some result \<and>
    ab_status result = pa_status (analyze_paired (paired_units blocks) (paired_options_of p))"
  by (rule complete_evidence_decides[OF assms])

theorem complete_evidence_is_decided_witness:
  "\<exists>p before after b c result. build_ab_result p before after b c = Some result \<and> ab_status result = ''passed''"
proof -
  obtain a v d where s:
    "derive_blocks (run_protocol d) (ab_arm v ''ab-1-a'' (Fin 1) (Fin 3)) (ab_arm v ''ab-1-b'' (Fin 2) (Fin 6)) =
      Some (map (derive_block (run_protocol d) (ab_arm v ''ab-1-a'' (Fin 1) (Fin 3)) (ab_arm v ''ab-1-b'' (Fin 2) (Fin 6))) [0..<2 * 5])"
    "settled_arm (run_protocol d) (ab_arm v ''ab-1-a'' (Fin 1) (Fin 3)) v"
    "settled_arm (run_protocol d) (ab_arm v ''ab-1-b'' (Fin 2) (Fin 6)) v"
    "bookend_reasons a a = []"
    "protocol_reasons (run_protocol d) a a (ab_arm v ''ab-1-a'' (Fin 1) (Fin 3)) (ab_arm v ''ab-1-b'' (Fin 2) (Fin 6)) = []"
    using sample_run by blast
  have "\<exists>result. build_ab_result (run_protocol d) a a (ab_arm v ''ab-1-a'' (Fin 1) (Fin 3)) (ab_arm v ''ab-1-b'' (Fin 2) (Fin 6)) =
      Some result \<and> ab_status result = ''passed''"
    using complete_evidence_is_decided[OF s(1) _ _ _ _ s(2,3) _ _ _ s(4,5)] run_analysis[of d v "''ab-1-a''" v "''ab-1-b''"]
    by (auto simp: ab_arm_fields run_protocol_fields decided_def)
  then show ?thesis by blast
qed

subsection \<open>Totality\<close>

text \<open>C12: A verified protocol always yields a result: whatever the two series and the recordings hold, even when
  executions are missing, the blocks can be derived, one for every planned execution pair, in order.\<close>

theorem verified_protocol_yields_result:
  assumes "verify_protocol p = Inr ()"
  shows "\<exists>r. build_ab_result p before after b c = Some r \<and> int (length (ab_blocks r)) = pt_blocks_planned p \<and>
    map bl_planned_order (ab_blocks r) = pt_orders p"
proof -
  have w: "well_formed_protocol p" by (rule verified_protocol_well_formed[OF assms])
  then obtain units where u: "pt_blocks_planned p = 2 * int units" "pt_orders p = map planned_order [0..<2 * units]"
    by (auto simp: well_formed_protocol_def)
  have d: "derive_blocks p b c = Some (map (derive_block p b c) [0..<2 * units])"
    using u by (simp add: derive_blocks_def nat_mult_distrib)
  obtain status decision reasons where "derive_terminal p (am_series b) (am_series c) (map (derive_block p b c) [0..<2 * units])
      (assess_qualification p before after b c) (assess_effective_settings p b c)
      (analyze_paired (paired_units (map (derive_block p b c) [0..<2 * units])) (paired_options_of p)) =
      (status, decision, reasons)"
    by (metis prod_cases3)
  then obtain r where r: "build_ab_result p before after b c = Some r"
    unfolding build_ab_result_def d Let_def by simp
  have blocks: "ab_blocks r = map (derive_block p b c) [0..<2 * units]"
    using build_ab_result_parts[OF r] d by simp
  have "bl_planned_order (derive_block p b c i) = pt_orders p ! i" for i
    by (simp add: derive_block_def settle_block_def with_effect_def empty_block_def Let_def split: option.splits sum.splits)
  then have "map bl_planned_order (ab_blocks r) = pt_orders p"
    unfolding blocks u(2) by (intro nth_equalityI) simp_all
  then show ?thesis using r blocks u(1) by simp
qed

theorem verified_protocol_yields_result_witness:
  "\<exists>p (r :: ab_result). build_protocol (\<lambda>_. None) sample_files ''ab-1'' ''docker'' ''baseline'' ''candidate''
     (sample_plan ''a'') (sample_plan ''b'') ab_sample_options = Inr p \<and> pt_orders p = map bl_planned_order (ab_blocks r)"
proof -
  obtain p where p: "build_protocol (\<lambda>_. None) sample_files ''ab-1'' ''docker'' ''baseline'' ''candidate''
    (sample_plan ''a'') (sample_plan ''b'') ab_sample_options = Inr p" using sample_protocol by blast
  then have "verify_protocol p = Inr ()" using built_protocol by blast
  then obtain r :: ab_result where "map bl_planned_order (ab_blocks r) = pt_orders p"
    using verified_protocol_yields_result[of p undefined undefined undefined undefined] by blast
  then have "pt_orders p = map bl_planned_order (ab_blocks r)" by (rule sym)
  with p show ?thesis by blast
qed

text \<open>A protocol that does not verify can make the derivation of its blocks panic.\<close>

lemma unverified_orders_panic:
  "int (length (pt_orders p)) < pt_blocks_planned p \<Longrightarrow> \<not> ok (verify_protocol p) \<and> derive_blocks p b c = None"
proof -
  assume short: "int (length (pt_orders p)) < pt_blocks_planned p"
  have "\<not> ok (verify_protocol p)"
  proof
    assume "ok (verify_protocol p)"
    then obtain u where "verify_protocol p = Inr u" by (auto simp: ok_iff)
    then show False using verified_protocol_well_formed[of p u] short by (auto simp: well_formed_protocol_def)
  qed
  then show ?thesis using short by (simp add: derive_blocks_def)
qed

text \<open>A large gap overflows, and then no interval is short enough.\<close>

lemma bookend_gap_overflows: "pt_max_bookend_gap_seconds p = 9223372037 \<Longrightarrow> bookend_gap p < 0"
  by (simp add: bookend_gap_def wrap64_def)

end
