(* ===== verification/ABVerify.thy ===== *)
theory ABVerify
  imports ABArtifact ABDecision
begin

section \<open>What a valid artifact of a counterbalanced benchmark shows\<close>

text \<open>
  Properties of the verifier and the writer of \<open>ABArtifact\<close>: an artifact without issues is what its evidence gives and
  its executions are in order, and what a run writes has no issues. A run that was stopped after its first block
  serves as the example.
\<close>

lemma issue_if_Nil [simp]: "issue_if b i = [] \<longleftrightarrow> \<not> b"
  by (simp add: issue_if_def)

subsection \<open>A valid artifact is what its evidence gives\<close>

text \<open>The stored record says what the derivation gives.\<close>

definition records_result :: "ab_record \<Rightarrow> ab_result \<Rightarrow> bool" where
  "records_result rec r =
     (rc_blocks rec = Some (ab_blocks r) \<and> rc_analysis rec = ab_analysis r \<and>
      qr_assessment (rc_qualification rec) = ab_assessment r \<and> rc_settings rec = store_settings (ab_settings r) \<and>
      rc_status rec = ab_status r \<and> rc_decision rec = ab_decision r \<and> rc_reasons rec = Some (ab_reasons r))"

lemma load_qualification_valid:
  assumes "load_qualification rd d path label = (m, [])"
  shows "\<exists>a content. m = Some a \<and> ve_valid (verify_artifact a) \<and> read_limited (ad_files d) path = Some content \<and>
    rd_qualification rd content = Some a"
  using assms by (auto simp: load_qualification_def Let_def verify_artifact_def split: option.splits if_splits)

lemma load_series_valid:
  assumes "load_series rd f want = (m, [])"
  shows "\<exists>k a plan. m = Some \<lparr>ls_arm = a, ls_plan = plan, ls_schema_version = ck_schema_version k,
      ls_config_path = sf_ref f @ ''/protocol/postgresql.conf''\<rparr> \<and>
    rd_series rd (sf_ref f) = Some k \<and> ck_issues k = [] \<and> ck_arm k = Some a \<and> ck_plan k = Some plan \<and>
    digest_file (rd_root rd) (sf_ref f @ ''/result.json'') = Some (sf_result_digest f) \<and>
    se_run_id (am_series a) = sf_run_id f \<and> sf_role f = want \<and> sf_ref f = series_dir (sf_run_id f)"
  using assms by (auto simp: load_series_def Let_def split: option.splits if_splits)

lemma terminal_issues_Nil:
  assumes "terminal_issues p rec before after b c blocks (analyze_paired (paired_units blocks) (paired_options_of p)) = []"
    and "derive_blocks p b c = Some blocks" and "rc_blocks rec = Some blocks"
    and "rc_analysis rec = analyze_paired (paired_units blocks) (paired_options_of p)"
  shows "\<exists>r. build_ab_result p before after b c = Some r \<and> records_result rec r \<and>
    rc_started_at rec = ar_recorded_at before \<and> rc_finished_at rec = ar_recorded_at after"
  using assms by (auto simp: terminal_issues_def build_ab_result_def records_result_def Let_def split: prod.splits)

lemma derivation_issues_Nil:
  assumes "derivation_issues rd d p rec (Some before) (Some after) l c = Some []"
  shows "\<exists>r. build_ab_result p before after (ls_arm l) (ls_arm c) = Some r \<and> records_result rec r \<and>
    rc_started_at rec = ar_recorded_at before \<and> rc_finished_at rec = ar_recorded_at after \<and>
    series_protocol_issues (rd_root rd) p l c = Some [] \<and>
    chronology_issues (ls_arm l) (ls_arm c) (ab_blocks r) = [] \<and>
    block_file_issues rd d (ab_blocks r) = [] \<and> content_issues d ''blocks.tsv'' (blocks_tsv (ab_blocks r)) = []"
proof -
  obtain blocks where parts: "derive_blocks p (ls_arm l) (ls_arm c) = Some blocks"
    "series_protocol_issues (rd_root rd) p l c = Some []" "rc_blocks rec = Some blocks"
    "rc_analysis rec = analyze_paired (paired_units blocks) (paired_options_of p)"
    "terminal_issues p rec before after (ls_arm l) (ls_arm c) blocks
      (analyze_paired (paired_units blocks) (paired_options_of p)) = []"
    "chronology_issues (ls_arm l) (ls_arm c) blocks = []" "block_file_issues rd d blocks = []"
    "content_issues d ''blocks.tsv'' (blocks_tsv blocks) = []"
    using assms by (auto simp: derivation_issues_def Let_def split: option.splits)
  obtain r where r: "build_ab_result p before after (ls_arm l) (ls_arm c) = Some r" "records_result rec r"
    "rc_started_at rec = ar_recorded_at before" "rc_finished_at rec = ar_recorded_at after"
    using terminal_issues_Nil[OF parts(5,1,3,4)] by blast
  moreover from r(2) parts(3) have "blocks = ab_blocks r" by (simp add: records_result_def)
  ultimately show ?thesis using parts by blast
qed

definition stored_protocol :: "ab_reader \<Rightarrow> ab_directory \<Rightarrow> protocol" where
  "stored_protocol rd d = fst (rd_protocol rd (read_limited (ad_files d) ''protocol.json''))"

definition stored_record :: "ab_reader \<Rightarrow> ab_directory \<Rightarrow> ab_record option" where
  "stored_record rd d = Option.bind (read_limited (ad_files d) ''result.json'') (rd_result rd)"

lemma verify_ab_valid:
  assumes "verify_ab rd d = Some []"
  shows "\<exists>rec. stored_record rd d = Some rec \<and> verify_result rd d (stored_protocol rd d) rec = Some [] \<and>
    ok (verify_protocol (stored_protocol rd d)) \<and> snapshot_issues_of rd d (stored_protocol rd d) = []"
  using assms
  by (auto simp: verify_ab_def stored_record_def stored_protocol_def protocol_issues_def Let_def split: option.splits if_splits)

lemma verify_result_valid:
  assumes "verify_result rd d p rec = Some []"
  shows "\<exists>before after l c. load_qualification rd d ''qualification/before.json'' ''before'' = (Some before, []) \<and>
    load_qualification rd d ''qualification/after.json'' ''after'' = (Some after, []) \<and>
    load_series rd (rc_baseline rec) ''baseline'' = (Some l, []) \<and>
    load_series rd (rc_candidate rec) ''candidate'' = (Some c, []) \<and>
    derivation_issues rd d p rec (Some before) (Some after) l c = Some [] \<and>
    identity_issues (ad_base d) p rec = [] \<and> result_digest rec = Some (rc_digest rec) \<and>
    file_ref_issues d (rc_protocol rec) ''protocol.json'' ''protocol'' = [] \<and>
    file_ref_issues d (qr_before (rc_qualification rec)) ''qualification/before.json'' ''before qualification'' = [] \<and>
    file_ref_issues d (qr_after (rc_qualification rec)) ''qualification/after.json'' ''after qualification'' = [] \<and>
    content_issues d ''summary.md'' (summary_text rec) = []"
proof -
  obtain before i1 where 1: "load_qualification rd d ''qualification/before.json'' ''before'' = (before, i1)" by fastforce
  obtain after i2 where 2: "load_qualification rd d ''qualification/after.json'' ''after'' = (after, i2)" by fastforce
  obtain l i3 where 3: "load_series rd (rc_baseline rec) ''baseline'' = (l, i3)" by fastforce
  obtain c i4 where 4: "load_series rd (rc_candidate rec) ''candidate'' = (c, i4)" by fastforce
  note parts = 1 2 3 4
  have none: "i1 = [] \<and> i2 = [] \<and> i3 = [] \<and> i4 = []"
    using assms by (auto simp: verify_result_def parts Let_def split: option.splits)
  then obtain x y u v where "before = Some x" "after = Some y" "l = Some u" "c = Some v"
    using load_qualification_valid load_series_valid parts by metis
  then show ?thesis
    using assms none
    by (auto simp: verify_result_def parts Let_def result_digest_issues_def split: option.splits)
qed

subsection \<open>What a run writes\<close>

definition fits :: "string \<Rightarrow> bool" where
  "fits content = (content \<noteq> [] \<and> length content \<le> max_ab_json_bytes)"

lemma read_limited_written: "fs path = Some \<lparr>fi_regular = True, fi_content = content\<rparr> \<Longrightarrow> fits content \<Longrightarrow> read_limited fs path = Some content"
  by (auto simp: read_limited_def fits_def)

lemma read_written:
  "ad_files d path = Some \<lparr>fi_regular = True, fi_content = content\<rparr> \<Longrightarrow> fits content \<Longrightarrow>
     read_limited (ad_files d) path = Some content"
  by (rule read_limited_written)

lemma write_block_fields:
  "ad_files (write_block w b d) =
     (ad_files d)(''blocks/'' @ block_file_name b \<mapsto> \<lparr>fi_regular = True, fi_content = wr_block w b\<rparr>)"
  "ad_block_entries (write_block w b d) =
     filter (\<lambda>e. fst e \<noteq> block_file_name b) (ad_block_entries d) @ [(block_file_name b, True)]"
  "ad_base (write_block w b d) = ad_base d" "ad_directories (write_block w b d) = ad_directories d"
  "ad_toolchains (write_block w b d) = ad_toolchains d"
  by (simp_all add: write_block_def write_file_def Let_def)

lemma fold_write_block_fields:
  "ad_base (fold (write_block w) blocks d) = ad_base d"
  "ad_directories (fold (write_block w) blocks d) = ad_directories d"
  "ad_toolchains (fold (write_block w) blocks d) = ad_toolchains d"
  by (induction blocks rule: rev_induct) (simp_all add: write_block_fields)

lemma fold_write_block_other:
  "(\<And>b. b \<in> set blocks \<Longrightarrow> path \<noteq> ''blocks/'' @ block_file_name b) \<Longrightarrow>
     ad_files (fold (write_block w) blocks d) path = ad_files d path"
  by (induction blocks rule: rev_induct) (simp_all add: write_block_fields)

lemma fold_write_block_file:
  assumes "distinct (map block_file_name blocks)" and "b \<in> set blocks"
  shows "ad_files (fold (write_block w) blocks d) (''blocks/'' @ block_file_name b) =
    Some \<lparr>fi_regular = True, fi_content = wr_block w b\<rparr>"
  using assms by (induction blocks rule: rev_induct) (auto simp: write_block_fields image_iff)

lemma fold_write_block_entries:
  assumes "distinct (map block_file_name blocks)" and "ad_block_entries d = []"
  shows "ad_block_entries (fold (write_block w) blocks d) = map (\<lambda>b. (block_file_name b, True)) blocks"
  using assms
proof (induction blocks rule: rev_induct)
  case (snoc b blocks)
  then have "filter (\<lambda>e. fst e \<noteq> block_file_name b) (map (\<lambda>b. (block_file_name b, True)) blocks) =
      map (\<lambda>b. (block_file_name b, True)) blocks"
    by (intro filter_True) (force simp: image_iff)
  then show ?case using snoc by (simp add: write_block_fields)
qed simp

lemma block_number_of_name:
  assumes "1 \<le> bl_number b"
  shows "nat_of_digits (takeWhile is_digit (block_file_name b)) = nat (bl_number b)"
proof -
  have d: "list_all is_digit (pad_number 3 (bl_number b)) \<and> nat_of_digits (pad_number 3 (bl_number b)) = nat (bl_number b)"
    using assms all_digits_show_nat[of "nat (bl_number b)"]
    by (simp add: pad_number_def Let_def all_digits_def nat_of_digits_append)
  have "takeWhile is_digit (block_file_name b) = pad_number 3 (bl_number b)"
    using d by (auto simp: block_file_name_def takeWhile_append2 list_all_iff is_digit_def code_def)
  then show ?thesis using d by simp
qed

lemma derive_block_number: "bl_number (derive_block p b c i) = int i + 1"
  by (simp add: derive_block_def settle_block_def with_effect_def empty_block_def Let_def split: option.splits sum.splits)

lemma derived_blocks_named:
  assumes "derive_blocks p b c = Some blocks"
  shows "distinct (map block_file_name blocks)"
proof -
  have "blocks = map (derive_block p b c) [0..<nat (pt_blocks_planned p)]"
    using assms by (auto simp: derive_blocks_def split: if_splits)
  moreover have "inj_on (\<lambda>i. block_file_name (derive_block p b c i)) {0..<n}" for n
  proof (rule inj_onI)
    fix i j
    assume "block_file_name (derive_block p b c i) = block_file_name (derive_block p b c j)"
    then show "i = j"
      using block_number_of_name[of "derive_block p b c i"] block_number_of_name[of "derive_block p b c j"]
      by (simp add: derive_block_number)
  qed
  ultimately show ?thesis by (simp add: distinct_map comp_def)
qed

lemma settings_status_known:
  "sa_status (assess_effective_settings p b c) \<in> set settings_statuses \<and>
   sa_names (assess_effective_settings p b c) = sg_names (pt_effective_settings p)"
  by (simp add: assess_effective_settings_def settings_statuses_def Let_def split: option.splits)

lemma unique_sorted_idem: "unique_sorted (unique_sorted vs) = unique_sorted vs"
proof -
  have "set (unique_sorted (unique_sorted vs)) = set (unique_sorted vs)"
  proof -
    have "trim_space ` (trim_space ` set vs - {[]}) = trim_space ` set vs - {[]}"
      by (rule equalityI) (auto intro: image_eqI[where x = "trim_space x" for x])
    then show ?thesis by (simp add: set_unique_sorted)
  qed
  then show ?thesis using sorted_unique_sorted by (metis sorted_distinct_set_unique)
qed

lemma terminal_reasons_sorted:
  "derive_terminal p b c blocks assessment settings analysis = (status, decision, reasons) \<Longrightarrow> unique_sorted reasons = reasons"
  by (auto simp: derive_terminal_def Let_def unique_sorted_idem split: if_splits)

text \<open>
  What surrounds a run when it writes its result: the files written before, the two finished series as their verifier
  finds them, and encoders that the decoders invert.
\<close>

definition qualification_written :: "ab_reader \<Rightarrow> ab_directory \<Rightarrow> string \<Rightarrow> artifact \<Rightarrow> bool" where
  "qualification_written rd d path a =
     (ve_valid (verify_artifact a) \<and>
      (\<exists>content. ad_files d path = Some \<lparr>fi_regular = True, fi_content = content\<rparr> \<and> fits content \<and>
         rd_qualification rd content = Some a))"

definition initialized :: "ab_reader \<Rightarrow> ab_directory \<Rightarrow> protocol \<Rightarrow> artifact \<Rightarrow> artifact \<Rightarrow> bool" where
  "initialized rd d p before after =
     (ad_base d = pt_run_id p \<and> ad_directories d ''qualification'' \<and> ad_directories d ''blocks'' \<and>
      ad_block_entries d = [] \<and> snapshot_issues_of rd d p = [] \<and>
      (\<exists>content. ad_files d ''protocol.json'' = Some \<lparr>fi_regular = True, fi_content = content\<rparr> \<and> fits content \<and>
         rd_protocol rd (Some content) = (p, True)) \<and>
      qualification_written rd d ''qualification/before.json'' before \<and>
      qualification_written rd d ''qualification/after.json'' after)"

definition series_verified :: "ab_reader \<Rightarrow> loaded_series \<Rightarrow> bool" where
  "series_verified rd l =
     (let dir = series_dir (se_run_id (am_series (ls_arm l)))
      in valid_series_id (se_run_id (am_series (ls_arm l))) \<and> is_portable_path dir \<and> rd_safe rd dir \<and>
         ls_config_path l = dir @ ''/protocol/postgresql.conf'' \<and>
         rd_series rd dir = Some \<lparr>ck_issues = [], ck_schema_version = ls_schema_version l, ck_arm = Some (ls_arm l),
            ck_plan = Some (ls_plan l)\<rparr>)"

definition decodes_written :: "ab_reader \<Rightarrow> ab_writer \<Rightarrow> ab_record \<Rightarrow> block list \<Rightarrow> bool" where
  "decodes_written rd w r blocks =
     (fits (wr_result w r) \<and> rd_result rd (wr_result w r) = Some r \<and> fits (summary_text r) \<and> fits (blocks_tsv blocks) \<and>
      (\<forall>b\<in>set blocks. fits (wr_block w b) \<and> rd_block rd (wr_block w b) = Some b))"

lemma written_files:
  fixes w r d
  defines "e \<equiv> write_result_artifacts w r d" and "blocks \<equiv> (case rc_blocks r of None \<Rightarrow> [] | Some bs \<Rightarrow> bs)"
  assumes "distinct (map block_file_name blocks)" and "ad_block_entries d = []"
  shows "ad_files e ''result.json'' = Some \<lparr>fi_regular = True, fi_content = wr_result w r\<rparr>"
    "ad_files e ''summary.md'' = Some \<lparr>fi_regular = True, fi_content = summary_text r\<rparr>"
    "ad_files e ''blocks.tsv'' = Some \<lparr>fi_regular = True, fi_content = blocks_tsv blocks\<rparr>"
    "\<And>b. b \<in> set blocks \<Longrightarrow>
       ad_files e (''blocks/'' @ block_file_name b) = Some \<lparr>fi_regular = True, fi_content = wr_block w b\<rparr>"
    "ad_files e ''protocol.json'' = ad_files d ''protocol.json''"
    "ad_files e ''qualification/before.json'' = ad_files d ''qualification/before.json''"
    "ad_files e ''qualification/after.json'' = ad_files d ''qualification/after.json''"
    "ad_block_entries e = map (\<lambda>b. (block_file_name b, True)) blocks"
    "ad_base e = ad_base d" "ad_directories e = ad_directories d" "ad_toolchains e = ad_toolchains d"
  using assms(3,4)
  by (simp_all add: e_def write_result_artifacts_def Let_def blocks_def[symmetric] write_file_def fold_write_block_fields
      fold_write_block_file[simplified] fold_write_block_entries fold_write_block_other)

lemma local_file_ref_issues:
  assumes "local_file_ref (ad_files d) path = Some f" and "ad_files e path = ad_files d path"
  shows "file_ref_issues e f path label = []"
  using assms by (auto simp: local_file_ref_def file_ref_issues_def split: option.splits if_splits)

lemma load_written_qualification:
  assumes "qualification_written rd d path a" and "ad_files e path = ad_files d path"
  shows "load_qualification rd e path label = (Some a, [])"
proof -
  obtain content where c: "ve_valid (verify_artifact a)" "rd_qualification rd content = Some a"
    "read_limited (ad_files e) path = Some content"
    using assms read_limited_written by (auto simp: qualification_written_def)
  then show ?thesis by (simp add: load_qualification_def verify_artifact_def)
qed

lemma load_verified_series:
  assumes "series_verified rd l"
    and "series_ref_of (rd_root rd) role (am_series (ls_arm l)) (series_dir (se_run_id (am_series (ls_arm l)))) = Some f"
  shows "load_series rd f role = (Some l, [])"
  using assms
  by (auto simp: series_verified_def load_series_def series_ref_of_def Let_def split: option.splits if_splits)

lemma written_blocks_issues:
  assumes "\<And>b. b \<in> set blocks \<Longrightarrow> ad_files d (''blocks/'' @ block_file_name b) = Some \<lparr>fi_regular = True, fi_content = wr_block w b\<rparr>"
    and "\<And>b. b \<in> set blocks \<Longrightarrow> fits (wr_block w b) \<and> rd_block rd (wr_block w b) = Some b"
    and "ad_block_entries d = map (\<lambda>b. (block_file_name b, True)) blocks" and "ad_directories d ''blocks''"
  shows "block_file_issues rd d blocks = []"
proof -
  have "Option.bind (read_limited (ad_files d) (''blocks/'' @ block_file_name b)) (rd_block rd) = Some b" if "b \<in> set blocks" for b
    using read_written[OF assms(1)[OF that]] assms(2)[OF that] by simp
  then show ?thesis using assms(3,4) by (auto simp: block_file_issues_def Let_def)
qed

lemma build_record_parts:
  assumes "build_record base fs p before after (b, bdir) (c, cdir) = Some rec"
  shows "\<exists>r. build_ab_result p before after b c = Some r \<and> records_result rec r \<and>
    local_file_ref fs ''protocol.json'' = Some (rc_protocol rec) \<and>
    local_file_ref fs ''qualification/before.json'' = Some (qr_before (rc_qualification rec)) \<and>
    local_file_ref fs ''qualification/after.json'' = Some (qr_after (rc_qualification rec)) \<and>
    series_ref_of base ''baseline'' (am_series b) bdir = Some (rc_baseline rec) \<and>
    series_ref_of base ''candidate'' (am_series c) cdir = Some (rc_candidate rec) \<and>
    rc_schema_version rec = run_schema \<and> rc_artifact_type rec = run_artifact \<and>
    rc_scheduler_version rec = scheduler_version \<and> rc_run_id rec = pt_run_id p \<and> rc_run_dir rec = ''.'' \<and>
    rc_started_at rec = ar_recorded_at before \<and> rc_finished_at rec = ar_recorded_at after \<and>
    result_digest rec = Some (rc_digest rec)"
  using assms
  by (auto simp: build_record_def records_result_def result_digest_def Let_def split: option.splits)

lemma digest_json_is_digest: "digest_json m = Some v \<Longrightarrow> is_digest v"
  by (auto simp: digest_json_def split: option.splits)

lemma recorded_at_canonical: "ve_valid (verify_artifact a) \<Longrightarrow> canonical_utc_text (ar_recorded_at a)"
proof -
  assume "ve_valid (verify_artifact a)"
  then have "canonical_utc (ar_recorded_at a) \<noteq> None"
    by (auto simp: verify_artifact_def artifact_issues_def note_if_def split: prod.splits if_splits)
  then show ?thesis by (auto simp: canonical_utc_def canonical_utc_text_def split: option.splits if_splits)
qed

lemma written_identity:
  assumes "build_record base fs p before after (b, bdir) (c, cdir) = Some rec" and "well_formed_protocol p"
    and "ve_valid (verify_artifact before)" "ve_valid (verify_artifact after)"
    and "the_time (parse_rfc3339 (ar_recorded_at before)) \<le> the_time (parse_rfc3339 (ar_recorded_at after))"
  shows "identity_issues (pt_run_id p) p rec = []"
proof -
  obtain r where r: "build_ab_result p before after b c = Some r" "records_result rec r"
    and parts: "rc_schema_version rec = run_schema" "rc_artifact_type rec = run_artifact"
      "rc_scheduler_version rec = scheduler_version" "rc_run_id rec = pt_run_id p" "rc_run_dir rec = ''.''"
      "rc_started_at rec = ar_recorded_at before" "rc_finished_at rec = ar_recorded_at after"
      "result_digest rec = Some (rc_digest rec)"
    using build_record_parts[OF assms(1)] by blast
  have "is_digest (rc_digest rec)" using parts(8) digest_json_is_digest by (auto simp: result_digest_def)
  moreover have "interval_issues rec = []"
    using assms(5) recorded_at_canonical[OF assms(3)] recorded_at_canonical[OF assms(4)] by (simp add: interval_issues_def parts)
  moreover have v: "valid_series_id (pt_run_id p)" "names_ready (sg_names (pt_effective_settings p))"
    using assms(2) by (simp_all add: well_formed_protocol_def)
  moreover have "pt_run_id p \<noteq> []" using v(1) by (auto simp: valid_series_id_def)
  moreover have "ab_settings r = assess_effective_settings p b c" "unique_sorted (ab_reasons r) = ab_reasons r"
    using build_ab_result_parts[OF r(1)] terminal_reasons_sorted by metis+
  ultimately show ?thesis
    using r(2) settings_status_known[of p b c]
    by (auto simp: identity_issues_def parts records_result_def store_settings_def names_ready_def)
qed

lemma written_derivation:
  assumes "build_record base fs p before after (ls_arm l, bdir) (ls_arm c, cdir) = Some rec"
    and "series_protocol_issues (rd_root rd) p l c = Some []" and "derive_blocks p (ls_arm l) (ls_arm c) = Some blocks"
    and "chronology_issues (ls_arm l) (ls_arm c) blocks = []"
    and "block_file_issues rd e blocks = []" and "content_issues e ''blocks.tsv'' (blocks_tsv blocks) = []"
  shows "derivation_issues rd e p rec (Some before) (Some after) l c = Some []"
proof -
  obtain r where r: "build_ab_result p before after (ls_arm l) (ls_arm c) = Some r" "records_result rec r"
    and t: "rc_started_at rec = ar_recorded_at before" "rc_finished_at rec = ar_recorded_at after"
    using build_record_parts[OF assms(1)] by blast
  have d: "ab_blocks r = blocks" "ab_analysis r = analyze_paired (paired_units blocks) (paired_options_of p)"
    "derive_terminal p (am_series (ls_arm l)) (am_series (ls_arm c)) blocks (assess_qualification p before after (ls_arm l) (ls_arm c))
      (assess_effective_settings p (ls_arm l) (ls_arm c)) (analyze_paired (paired_units blocks) (paired_options_of p)) =
      (ab_status r, ab_decision r, ab_reasons r)"
    "ab_assessment r = assess_qualification p before after (ls_arm l) (ls_arm c)"
    "ab_settings r = assess_effective_settings p (ls_arm l) (ls_arm c)"
    using build_ab_result_parts[OF r(1)] assms(3) by auto
  have "terminal_issues p rec before after (ls_arm l) (ls_arm c) blocks (analyze_paired (paired_units blocks) (paired_options_of p)) = []"
    using r(2) d t by (simp add: terminal_issues_def records_result_def Let_def)
  moreover have "rc_blocks rec = Some blocks" "rc_analysis rec = analyze_paired (paired_units blocks) (paired_options_of p)"
    using r(2) d by (simp_all add: records_result_def)
  ultimately show ?thesis using assms by (simp add: derivation_issues_def Let_def)
qed

lemma written_artifact_verifies:
  assumes "verify_protocol p = Inr ()" and "initialized rd d p before after"
    and "series_verified rd l" "series_verified rd c" and "series_protocol_issues (rd_root rd) p l c = Some []"
    and "derive_blocks p (ls_arm l) (ls_arm c) = Some blocks" and "chronology_issues (ls_arm l) (ls_arm c) blocks = []"
    and "the_time (parse_rfc3339 (ar_recorded_at before)) \<le> the_time (parse_rfc3339 (ar_recorded_at after))"
    and "build_record (rd_root rd) (ad_files d) p before after
      (ls_arm l, series_dir (se_run_id (am_series (ls_arm l)))) (ls_arm c, series_dir (se_run_id (am_series (ls_arm c)))) = Some rec"
    and "decodes_written rd w rec blocks"
  shows "verify_ab rd (write_result_artifacts w rec d) = Some []"
proof -
  let ?e = "write_result_artifacts w rec d"
  have wf: "well_formed_protocol p" by (rule verified_protocol_well_formed[OF assms(1)])
  obtain r where r: "build_ab_result p before after (ls_arm l) (ls_arm c) = Some r" "records_result rec r"
    and refs: "local_file_ref (ad_files d) ''protocol.json'' = Some (rc_protocol rec)"
      "local_file_ref (ad_files d) ''qualification/before.json'' = Some (qr_before (rc_qualification rec))"
      "local_file_ref (ad_files d) ''qualification/after.json'' = Some (qr_after (rc_qualification rec))"
      "series_ref_of (rd_root rd) ''baseline'' (am_series (ls_arm l)) (series_dir (se_run_id (am_series (ls_arm l)))) = Some (rc_baseline rec)"
      "series_ref_of (rd_root rd) ''candidate'' (am_series (ls_arm c)) (series_dir (se_run_id (am_series (ls_arm c)))) = Some (rc_candidate rec)"
    and digest: "result_digest rec = Some (rc_digest rec)"
    using build_record_parts[OF assms(9)] by blast
  have blocks: "rc_blocks rec = Some blocks"
    using r assms(6) build_ab_result_parts[OF r(1)] by (simp add: records_result_def)
  have init: "ad_base d = pt_run_id p" "ad_directories d ''qualification''" "ad_directories d ''blocks''"
    "ad_block_entries d = []" "snapshot_issues_of rd d p = []"
    "qualification_written rd d ''qualification/before.json'' before" "qualification_written rd d ''qualification/after.json'' after"
    using assms(2) by (simp_all add: initialized_def)
  obtain content where p: "ad_files d ''protocol.json'' = Some \<lparr>fi_regular = True, fi_content = content\<rparr>" "fits content"
    "rd_protocol rd (Some content) = (p, True)"
    using assms(2) unfolding initialized_def by blast
  have named: "distinct (map block_file_name (case rc_blocks rec of None \<Rightarrow> [] | Some bs \<Rightarrow> bs))"
    using derived_blocks_named[OF assms(6)] blocks by simp
  note files = written_files[OF named init(4), where w = w, unfolded blocks option.case]
  have fit: "fits (wr_result w rec)" "rd_result rd (wr_result w rec) = Some rec" "fits (summary_text rec)"
    "fits (blocks_tsv blocks)" "\<And>b. b \<in> set blocks \<Longrightarrow> fits (wr_block w b) \<and> rd_block rd (wr_block w b) = Some b"
    using assms(10) by (simp_all add: decodes_written_def)
  have protocol: "rd_protocol rd (read_limited (ad_files ?e) ''protocol.json'') = (p, True)"
    using read_written[OF files(5)[unfolded p(1)] p(2)] p(3) by simp
  have valid: "ve_valid (verify_artifact before)" "ve_valid (verify_artifact after)"
    using init(6,7) by (simp_all add: qualification_written_def)
  have "content_issues ?e ''summary.md'' (summary_text rec) = []" "content_issues ?e ''blocks.tsv'' (blocks_tsv blocks) = []"
    using read_written[OF files(2) fit(3)] read_written[OF files(3) fit(4)] by (simp_all add: content_issues_def)
  moreover have "block_file_issues rd ?e blocks = []"
    by (rule written_blocks_issues[OF files(4) fit(5) files(8)]) (simp_all add: files(10) init(3))
  ultimately have "verify_result rd ?e p rec = Some []"
    using written_identity[OF assms(9) wf valid assms(8)] digest
      local_file_ref_issues[OF refs(1) files(5)] local_file_ref_issues[OF refs(2) files(6)] local_file_ref_issues[OF refs(3) files(7)]
      load_written_qualification[OF init(6) files(6)] load_written_qualification[OF init(7) files(7)]
      load_verified_series[OF assms(3) refs(4)] load_verified_series[OF assms(4) refs(5)]
      written_derivation[OF assms(9,5,6,7), where e = ?e]
    by (simp add: verify_result_def files(9) init(1) result_digest_issues_def Let_def)
  moreover have "snapshot_issues_of rd ?e p = []" using init(5) by (simp only: snapshot_issues_of_def files(11))
  moreover have "regular_issues ?e ''protocol.json'' = []" "regular_issues ?e ''result.json'' = []"
    "regular_issues ?e ''summary.md'' = []" "regular_issues ?e ''blocks.tsv'' = []"
    using files(1-3,5) p fit by (simp_all add: regular_issues_def fits_def)
  ultimately show ?thesis
    using read_written[OF files(1) fit(1)] fit(2) protocol assms(1) init(2,3)
    by (simp add: verify_ab_def protocol_issues_def directory_issues_def files(10) Let_def)
qed

subsection \<open>The order of the executions\<close>

text \<open>Timelines that end after they start, and not at the zero time, which the check takes for no execution yet.\<close>

definition proper_timelines :: "arm \<Rightarrow> bool" where
  "proper_timelines a =
     (\<forall>i s f. timeline_span (am_timeline a i) = Some (s, f) \<longrightarrow> s \<le> f \<and> f \<noteq> zero_time)"

lemma execution_interval_proper:
  assumes "execution_interval b c number e = Inr (s, f)" and "proper_timelines b" and "proper_timelines c"
  shows "s \<le> f \<and> f \<noteq> zero_time"
proof -
  have "timeline_span (am_timeline (arm_of (be_role e) b c) (nat (be_trial e) - 1)) = Some (s, f)"
    using assms(1) by (auto simp: execution_interval_def of_option_Inr Let_def split: if_splits option.splits)
  moreover have "proper_timelines (arm_of (be_role e) b c)" using assms(2,3) by (simp add: arm_of_def)
  ultimately show ?thesis by (auto simp: proper_timelines_def)
qed

text \<open>Every execution starts after the one before it finished, unless the record says that one finished at the zero time.\<close>

definition follows_in_turn :: "(int \<times> int) list \<Rightarrow> bool" where
  "follows_in_turn spans =
     (\<forall>i. Suc i < length spans \<longrightarrow> snd (spans ! i) = zero_time \<or> snd (spans ! i) \<le> fst (spans ! Suc i))"

lemma follows_in_turn_Cons:
  "follows_in_turn (x # spans) \<longleftrightarrow>
     (spans \<noteq> [] \<longrightarrow> snd x = zero_time \<or> snd x \<le> fst (hd spans)) \<and> follows_in_turn spans"
  by (cases spans) (auto simp: follows_in_turn_def nth_Cons split: nat.splits)

lemma schedule_issues_in_turn:
  assumes "schedule_issues b c previous xs = []"
  shows "\<exists>spans. map (\<lambda>(number, e). execution_interval b c number e) xs = map Inr spans \<and>
    (spans \<noteq> [] \<longrightarrow> previous = zero_time \<or> previous \<le> fst (hd spans)) \<and> follows_in_turn spans"
  using assms
proof (induction xs arbitrary: previous)
  case (Cons x xs)
  obtain number e where x: "x = (number, e)" by fastforce
  obtain s f where i: "execution_interval b c number e = Inr (s, f)" and rest: "schedule_issues b c f xs = []"
    and order: "previous = zero_time \<or> previous \<le> s"
    using Cons.prems(1) by (auto simp: x split: sum.splits)
  obtain spans where "map (\<lambda>(number, e). execution_interval b c number e) xs = map Inr spans"
    "spans \<noteq> [] \<longrightarrow> f = zero_time \<or> f \<le> fst (hd spans)" "follows_in_turn spans"
    using Cons.IH[OF rest] by blast
  then show ?case
    using i order by (intro exI[of _ "(s, f) # spans"]) (simp add: x follows_in_turn_Cons)
qed (simp add: follows_in_turn_def)

lemma in_turn_sorted:
  assumes "follows_in_turn spans" and "\<And>s f. (s, f) \<in> set spans \<Longrightarrow> s \<le> f \<and> f \<noteq> zero_time"
  shows "sorted_wrt (\<lambda>x y. snd x \<le> fst y) spans"
  using assms
proof (induction spans)
  case (Cons x spans)
  have s: "sorted_wrt (\<lambda>x y. snd x \<le> fst y) spans"
    by (rule Cons.IH) (use Cons.prems in \<open>auto simp: follows_in_turn_Cons\<close>)
  have "snd x \<le> fst y" if "y \<in> set spans" for y
  proof -
    have h: "spans \<noteq> []" using that by auto
    then have "snd x \<le> fst (hd spans)"
      using Cons.prems(1) Cons.prems(2)[of "fst x" "snd x"] by (auto simp: follows_in_turn_Cons)
    moreover have "fst (hd spans) \<le> fst y"
    proof (cases spans)
      case (Cons z zs)
      with that s Cons.prems(2)[of "fst z" "snd z"] show ?thesis by fastforce
    qed (use h in simp)
    ultimately show ?thesis by simp
  qed
  with s show ?case by simp
qed simp

lemma settle_block_executions: "bl_executions (settle_block p b c i block) = bl_executions block"
  by (simp add: settle_block_def with_effect_def Let_def split: option.splits sum.splits)

lemma derive_block_roles:
  "map be_role (bl_executions (derive_block p b c i)) =
     filter (\<lambda>role. i < length (arm_trials (arm_of role b c))) (block_roles (pt_orders p ! i))"
  by (simp add: derive_block_def settle_block_executions block_roles_def block_execution_of_def Let_def enumerate_eq_zip)

subsection \<open>Validity\<close>

text \<open>A stored series that its own verification accepts, and that the record names.\<close>

definition verified_arm :: "ab_reader \<Rightarrow> series_ref \<Rightarrow> arm \<Rightarrow> bool" where
  "verified_arm rd f a =
     (\<exists>k. rd_series rd (sf_ref f) = Some k \<and> ck_issues k = [] \<and> ck_arm k = Some a \<and>
        se_run_id (am_series a) = sf_run_id f \<and>
        digest_file (rd_root rd) (sf_ref f @ ''/result.json'') = Some (sf_result_digest f))"

definition stored_qualification :: "ab_reader \<Rightarrow> ab_directory \<Rightarrow> string \<Rightarrow> artifact \<Rightarrow> bool" where
  "stored_qualification rd d path a =
     (Option.bind (read_limited (ad_files d) path) (rd_qualification rd) = Some a \<and> ve_valid (verify_artifact a))"

definition rests_on :: "ab_reader \<Rightarrow> ab_directory \<Rightarrow> ab_record \<Rightarrow> artifact \<Rightarrow> artifact \<Rightarrow> arm \<Rightarrow> arm \<Rightarrow> bool" where
  "rests_on rd d rec before after b c =
     (stored_qualification rd d ''qualification/before.json'' before \<and>
      stored_qualification rd d ''qualification/after.json'' after \<and>
      verified_arm rd (rc_baseline rec) b \<and> verified_arm rd (rc_candidate rec) c)"

lemma valid_artifact:
  assumes "verify_ab rd d = Some []"
  shows "\<exists>rec before after b c r. stored_record rd d = Some rec \<and> rests_on rd d rec before after b c \<and>
    verify_protocol (stored_protocol rd d) = Inr () \<and> build_ab_result (stored_protocol rd d) before after b c = Some r \<and>
    records_result rec r \<and> result_digest rec = Some (rc_digest rec) \<and> chronology_issues b c (ab_blocks r) = []"
proof -
  let ?p = "stored_protocol rd d"
  obtain rec where rec: "stored_record rd d = Some rec" "verify_result rd d ?p rec = Some []" "ok (verify_protocol ?p)"
    using verify_ab_valid[OF assms] by blast
  obtain before after l c where q: "load_qualification rd d ''qualification/before.json'' ''before'' = (Some before, [])"
      "load_qualification rd d ''qualification/after.json'' ''after'' = (Some after, [])"
    and s: "load_series rd (rc_baseline rec) ''baseline'' = (Some l, [])" "load_series rd (rc_candidate rec) ''candidate'' = (Some c, [])"
    and der: "derivation_issues rd d ?p rec (Some before) (Some after) l c = Some []"
    and dig: "result_digest rec = Some (rc_digest rec)"
    using verify_result_valid[OF rec(2)] by blast
  obtain r where r: "build_ab_result ?p before after (ls_arm l) (ls_arm c) = Some r" "records_result rec r"
    "chronology_issues (ls_arm l) (ls_arm c) (ab_blocks r) = []"
    using derivation_issues_Nil[OF der] by blast
  have "stored_qualification rd d ''qualification/before.json'' before" "stored_qualification rd d ''qualification/after.json'' after"
    using load_qualification_valid[OF q(1)] load_qualification_valid[OF q(2)] by (auto simp: stored_qualification_def)
  moreover have "verified_arm rd (rc_baseline rec) (ls_arm l)" "verified_arm rd (rc_candidate rec) (ls_arm c)"
    using load_series_valid[OF s(1)] load_series_valid[OF s(2)] by (auto simp: verified_arm_def)
  moreover have "verify_protocol ?p = Inr ()" using rec(3) by (auto simp: ok_iff)
  ultimately show ?thesis using rec(1) r dig unfolding rests_on_def by blast
qed

lemma valid_artifact_order:
  assumes "verify_ab rd d = Some []"
  shows "\<exists>rec blocks b c spans. stored_record rd d = Some rec \<and> rc_blocks rec = Some blocks \<and>
    verified_arm rd (rc_baseline rec) b \<and> verified_arm rd (rc_candidate rec) c \<and>
    (\<forall>i<length blocks. map be_role (bl_executions (blocks ! i)) =
       filter (\<lambda>role. i < length (arm_trials (arm_of role b c))) (block_roles (planned_order i))) \<and>
    map (\<lambda>(number, e). execution_interval b c number e) (scheduled_executions blocks) = map Inr spans \<and>
    follows_in_turn spans"
proof -
  let ?p = "stored_protocol rd d"
  obtain rec before after b c r where v: "stored_record rd d = Some rec" "rests_on rd d rec before after b c"
    "verify_protocol ?p = Inr ()" "build_ab_result ?p before after b c = Some r" "records_result rec r"
    "chronology_issues b c (ab_blocks r) = []"
    using valid_artifact[OF assms(1)] by blast
  then have arms: "verified_arm rd (rc_baseline rec) b" "verified_arm rd (rc_candidate rec) c"
    by (simp_all add: rests_on_def)
  obtain spans where spans: "map (\<lambda>(number, e). execution_interval b c number e) (scheduled_executions (ab_blocks r)) = map Inr spans"
    "follows_in_turn spans"
    using schedule_issues_in_turn[OF v(6)[unfolded chronology_issues_def]] by blast
  obtain units where u: "pt_blocks_planned ?p = 2 * int units" "pt_orders ?p = map planned_order [0..<2 * units]"
    using verified_protocol_well_formed[OF v(3)] by (auto simp: well_formed_protocol_def)
  moreover have "nat (2 * int units) = 2 * units" by simp
  ultimately have "ab_blocks r = map (derive_block ?p b c) [0..<2 * units]"
    using build_ab_result_parts[OF v(4)] by (auto simp: derive_blocks_def split: if_splits)
  then have "map be_role (bl_executions (ab_blocks r ! i)) =
      filter (\<lambda>role. i < length (arm_trials (arm_of role b c))) (block_roles (planned_order i))" if "i < length (ab_blocks r)" for i
    using that u(2) by (simp add: derive_block_roles)
  then show ?thesis using v(1,5) arms spans by (auto simp: records_result_def)
qed

subsection \<open>A stored run with one block\<close>

text \<open>
  A run that was stopped after its first block: the baseline ran first and the candidate after it. Its
  artifact is written and verifies, with the status \<open>invalid\<close>.
\<close>

lemma built_protocol_shape:
  assumes "build_protocol inspect fs run_id runtime b_label c_label b c ops = Inr p"
    and "ao_subject_dimension ops = []" and "ap_regression_threshold_pct b = Some q"
  shows "pt_runtime p = runtime \<and> pt_subject_dimension p = subject_pg_config \<and> pt_regression_threshold_pct p = q"
  using assms
  by (cases "union_config_setting_names fs [ap_pg_config_path b, ap_pg_config_path c]")
    (auto simp: build_protocol_def assemble_protocol_def or_default_def Let_def result_simps split: if_splits)

definition stopped_timeline :: "int \<Rightarrow> timeline" where
  "stopped_timeline t = ab_timeline\<lparr>tl_started_at := format_rfc3339 (zero_time + t), tl_finished_at := format_rfc3339 (zero_time + t + 1)\<rparr>"

definition stopped_series :: "protocol \<Rightarrow> subject \<Rightarrow> string \<Rightarrow> series" where
  "stopped_series p sub run =
     blank_series
       \<lparr>se_benchmark := sb_benchmark sub, se_subject := sb_subject sub, se_protocol_digest := sb_protocol_digest sub,
        se_runtime := pt_runtime p, se_class := ''measurement'', se_primary_metric := pt_primary_metric p,
        se_direction := pt_direction p, se_comparison_key_digest := pt_comparison_key_digest p,
        se_trials_planned := pt_blocks_planned p, se_regression_threshold_pct := Some (pt_regression_threshold_pct p),
        se_allowed_differences := [pt_subject_dimension p], se_run_id := run, se_status := ''failed'',
        se_trials := [(rejected_attempt 1 [])\<lparr>tr_run_id := run @ ''-t001'', tr_status := ''passed'', tr_reasons := []\<rparr>],
        se_environment := Some (blank_environment\<lparr>env_pg_config := sb_pg_config sub,
          env_pg_config_digest := sb_pg_config_digest sub, env_subject_dimension := pt_subject_dimension p\<rparr>)\<rparr>"

definition stopped_arm :: "protocol \<Rightarrow> subject \<Rightarrow> string \<Rightarrow> int \<Rightarrow> loaded_series" where
  "stopped_arm p sub run t =
     \<lparr>ls_arm = \<lparr>am_series = stopped_series p sub run, am_timeline = (\<lambda>_. Some (stopped_timeline t)), am_settings = (\<lambda>_. None)\<rparr>,
      ls_plan = (sample_plan ''a'')\<lparr>ap_client_placement := qp_client_placement (pt_qualification p)\<rparr>,
      ls_schema_version = ''v1'', ls_config_path = series_dir run @ ''/protocol/postgresql.conf''\<rparr>"

abbreviation stopped_baseline :: "protocol \<Rightarrow> loaded_series" where
  "stopped_baseline p \<equiv> stopped_arm p (pt_baseline p) ''ab-1-a'' 0"

abbreviation stopped_candidate :: "protocol \<Rightarrow> loaded_series" where
  "stopped_candidate p \<equiv> stopped_arm p (pt_candidate p) ''ab-1-b'' 2"

definition stopped_root :: files where
  "stopped_root path =
     (if path = ''runs/benchmarks/ab-1-a/protocol/postgresql.conf'' then sample_files ''a.conf''
      else if path = ''runs/benchmarks/ab-1-b/protocol/postgresql.conf'' then sample_files ''b.conf''
      else if path = ''runs/benchmarks/ab-1-a/result.json'' \<or> path = ''runs/benchmarks/ab-1-b/result.json''
      then Some \<lparr>fi_regular = True, fi_content = ''{}''\<rparr> else None)"

lemma stopped_fields [simp]:
  "arm_trials (ls_arm (stopped_arm p sub run t)) =
     [(rejected_attempt 1 [])\<lparr>tr_run_id := run @ ''-t001'', tr_status := ''passed'', tr_reasons := []\<rparr>]"
  "se_run_id (am_series (ls_arm (stopped_arm p sub run t))) = run"
  "se_status (am_series (ls_arm (stopped_arm p sub run t))) = ''failed''"
  "se_reasons (am_series (ls_arm (stopped_arm p sub run t))) = []"
  "am_timeline (ls_arm (stopped_arm p sub run t)) i = Some (stopped_timeline t)"
  "am_settings (ls_arm (stopped_arm p sub run t)) i = None"
  by (simp_all add: stopped_arm_def stopped_series_def blank_series_def)

lemma stopped_span:
  assumes "0 \<le> t" and "t \<le> 10"
  shows "timeline_span (Some (stopped_timeline t)) = Some (zero_time + t, zero_time + t + 1)"
proof -
  have "parse_rfc3339 (format_rfc3339 (zero_time + t)) = Some (zero_time + t)"
    "parse_rfc3339 (format_rfc3339 (zero_time + t + 1)) = Some (zero_time + t + 1)"
    using assms
    by (intro parse_format; simp add: zero_time_def days_before_year_def nanos_per_day_def nanos_per_second_def)+
  then show ?thesis by (simp add: timeline_span_def stopped_timeline_def)
qed

lemma config_names_same_file:
  "config_setting_names_file gs q = Inr names \<Longrightarrow> fs p = gs q \<Longrightarrow> config_setting_names_file fs p = Inr names"
  by (auto simp: config_setting_names_file_def bounded_file_def result_simps split: if_splits)

lemma union_names_same_files:
  assumes "union_config_setting_names gs qs = Inr names" and "list_all2 (\<lambda>p q. fs p = gs q) ps qs"
  shows "union_config_setting_names fs ps = Inr names"
proof -
  obtain groups where g: "traverse (config_setting_names_file gs) qs = Inr groups"
    and names: "bind_r (validate_names (sort (remdups (concat groups)))) (\<lambda>_. Inr (sort (remdups (concat groups)))) = Inr names"
    using assms(1) by (auto simp: union_config_setting_names_def Let_def result_simps)
  have "list_all2 (\<lambda>p g. config_setting_names_file fs p = Inr g) ps groups"
  proof (rule list_all2_trans[OF _ assms(2)])
    show "list_all2 (\<lambda>q g. config_setting_names_file gs q = Inr g) qs groups" using g by (simp only: traverse_Inr)
  qed (rule config_names_same_file)
  then have "traverse (config_setting_names_file fs) ps = Inr groups" by (simp add: traverse_Inr)
  then show ?thesis using names by (simp add: union_config_setting_names_def Let_def)
qed

lemma stopped_protocol_issues:
  assumes "pt_runtime p = ''docker''" "pt_subject_dimension p = subject_pg_config" "pt_regression_threshold_pct p = Fin q"
    and "union_config_setting_names sample_files [''a.conf'', ''b.conf''] = Inr (sg_names (pt_effective_settings p))"
  shows "series_protocol_issues stopped_root p (stopped_baseline p) (stopped_candidate p) = Some []"
proof -
  have "arm_protocol_issues p role sub (am_series (ls_arm (stopped_arm p sub run t))) = Some []" for role sub run t
    using assms(1-3)
    by (simp add: arm_protocol_issues_def series_subject_issues_def series_toolchain_issues_def stopped_arm_def
        stopped_series_def blank_series_def subject_pg_config_def subject_native_toolchain_def  Let_def)
  moreover have "pair_issues p (stopped_baseline p) (stopped_candidate p) = []"
    using assms(2)
    by (simp add: pair_issues_def populations_overlap_def shared_environment_def stopped_arm_def stopped_series_def
        blank_series_def blank_environment_def subject_pg_config_def subject_native_toolchain_def Let_def)
  moreover have "settings_rederivation_issues stopped_root p (stopped_baseline p) (stopped_candidate p) = []"
    using union_names_same_files[OF assms(4), of stopped_root "[ls_config_path (stopped_baseline p), ls_config_path (stopped_candidate p)]"]
    by (simp add: settings_rederivation_issues_def stopped_arm_def series_dir_def stopped_root_def)
  ultimately show ?thesis by (simp add: series_protocol_issues_def stopped_arm_def)
qed

lemma stopped_settled:
  "settle_block p (ls_arm (stopped_baseline p)) (ls_arm (stopped_candidate p)) i
     (block\<lparr>bl_executions := executions, bl_reasons := reasons\<rparr>) =
   (if i \<noteq> 0 \<and> list_ex (\<lambda>e. be_status e = ''failed'') executions then block\<lparr>bl_executions := executions, bl_reasons := reasons, bl_status := ''failed''\<rparr>
    else block\<lparr>bl_executions := executions, bl_reasons := reasons\<rparr>)"
  by (auto simp: settle_block_def Let_def rejected_attempt_def)

lemma stopped_executions:
  "i \<noteq> 0 \<Longrightarrow> block_execution_of i n role (arm_of role (ls_arm (stopped_baseline p)) (ls_arm (stopped_candidate p))) = []"
  by (simp add: block_execution_of_def arm_of_def)

lemma stopped_block:
  assumes "i < 10" and "pt_orders p = map planned_order [0..<10]"
    and "b = derive_block p (ls_arm (stopped_baseline p)) (ls_arm (stopped_candidate p)) i"
  shows "bl_status b = ''invalid''" "bl_baseline_value b = None" "bl_candidate_value b = None" "bl_effect_pct b = None"
    "bl_number b = int i + 1" "bl_unit b = int (i div 2) + 1" "bl_planned_order b = planned_order i"
  unfolding assms(3) derive_block_def Let_def stopped_settled
  using assms(1,2)
  by (cases "i = 0"; simp add: stopped_executions empty_block_def block_roles_def)+

definition idle_unit :: counterbalance_unit where
  "idle_unit = \<lparr>cu_ab = \<lparr>pb_valid = False, pb_baseline = Fin 0, pb_candidate = Fin 0\<rparr>,
     cu_ba = \<lparr>pb_valid = False, pb_baseline = Fin 0, pb_candidate = Fin 0\<rparr>\<rparr>"

lemma stopped_units_invalid:
  assumes "pt_orders p = map planned_order [0..<10]"
  shows "paired_units (map (derive_block p (ls_arm (stopped_baseline p)) (ls_arm (stopped_candidate p))) [0..<2 * 5]) =
    replicate 5 idle_unit"
proof -
  let ?block = "\<lambda>i. paired_block_of (derive_block p (ls_arm (stopped_baseline p)) (ls_arm (stopped_candidate p)) i)"
  have "?block i = \<lparr>pb_valid = False, pb_baseline = Fin 0, pb_candidate = Fin 0\<rparr>" if "i < 10" for i
    using stopped_block(2,3)[OF that assms refl] by (simp add: paired_block_of_def)
  then show ?thesis
    unfolding paired_units_map map_replicate_const[symmetric]
    by (intro nth_equalityI) (simp_all add: idle_unit_def)
qed

lemma analyze_idle_units:
  assumes "validate_paired_options options = []" and "0 < po_min_units options"
    and "a = analyze_paired (replicate n idle_unit) options"
  shows "pa_status a = ''inconclusive'' \<and> pa_units_n a = 0 \<and> pa_total_units a = n \<and> pa_median_effect_pct a = Fin 0 \<and>
    pa_ci_low_pct a = Fin 0 \<and> pa_ci_high_pct a = Fin 0 \<and> pa_confidence_level a = po_confidence_level options \<and>
    pa_regression_threshold_pct a = po_regression_threshold_pct options \<and>
    (\<forall>u\<in>set (pa_unit_effects a). pue_ab_effect_pct u = None \<and> pue_ba_effect_pct u = None)"
proof -
  have "\<exists>effects. analyze_units d k (replicate n idle_unit) = ([], effects, []) \<and>
      (\<forall>u\<in>set effects. pue_ab_effect_pct u = None \<and> pue_ba_effect_pct u = None)" for d k
  proof (induction n arbitrary: k)
    case (Suc n)
    from Suc[of "Suc k"] show ?case by (auto simp: block_effect_def effect_reason_def idle_unit_def Let_def)
  qed simp
  from this[of "po_direction options" 0] obtain effects where
    e: "analyze_units (po_direction options) 0 (replicate n idle_unit) = ([], effects, [])"
      "\<forall>u\<in>set effects. pue_ab_effect_pct u = None \<and> pue_ba_effect_pct u = None" by blast
  show ?thesis
    unfolding assms(3) analyze_paired_def Let_def
    using assms(1,2) e by (simp add: initial_analysis_def finish_paired_def)
qed

lemma length_strip_all: "length (strip_all encs s) \<le> length s"
proof (induction encs s rule: strip_all.induct)
  case (1 encs s)
  show ?case
  proof (cases "strip1 encs s")
    case None
    then show ?thesis by (simp add: strip_all.simps[of encs s])
  next
    case (Some t)
    with 1[OF Some] strip1_length[OF Some] show ?thesis by (simp add: strip_all.simps[of encs s])
  qed
qed

lemma length_trim_space: "length (trim_space s) \<le> length s"
  unfolding trim_space_def trim_left_def trim_right_def
  using length_strip_all[of space_encodings s] length_strip_all[of "map rev space_encodings" "rev (strip_all space_encodings s)"]
  by simp

definition bounded_texts :: "nat \<Rightarrow> nat \<Rightarrow> string list \<Rightarrow> bool" where
  "bounded_texts n m vs = (length vs \<le> n \<and> list_all (\<lambda>v. length v \<le> m) vs)"

lemma bounded_unique_sorted: "bounded_texts n m vs \<Longrightarrow> bounded_texts n m (unique_sorted vs)"
proof -
  assume b: "bounded_texts n m vs"
  have "length (unique_sorted vs) \<le> length vs"
    unfolding unique_sorted_def length_sort
    by (rule order_trans[OF length_remdups_leq order_trans[OF length_filter_le]]) simp
  moreover have "length v \<le> m" if "v \<in> set (unique_sorted vs)" for v
    using that b length_trim_space by (force simp: set_unique_sorted bounded_texts_def list_all_iff intro: order_trans)
  ultimately show ?thesis using b by (auto simp: bounded_texts_def list_all_iff)
qed

lemma bounded_append: "bounded_texts n m vs \<Longrightarrow> bounded_texts k m ws \<Longrightarrow> bounded_texts (n + k) m (vs @ ws)"
  by (simp add: bounded_texts_def)

lemma bounded_lines: "bounded_texts n m vs \<Longrightarrow> length (concat (map (\<lambda>v. ''- '' @ v @ [newline]) vs)) \<le> n * (m + 3)"
proof (induction vs arbitrary: n)
  case (Cons v vs)
  then have "bounded_texts (n - 1) m vs" "length v \<le> m" "0 < n" by (auto simp: bounded_texts_def)
  with Cons.IH[of "n - 1"] show ?case by (cases n) auto
qed simp

lemma stopped_settings:
  assumes "pt_blocks_planned p = 10"
  shows "sa_status (assess_effective_settings p (ls_arm (stopped_baseline p)) (ls_arm (stopped_candidate p))) = ''invalid'' \<and>
    sa_differences (assess_effective_settings p (ls_arm (stopped_baseline p)) (ls_arm (stopped_candidate p))) = [] \<and>
    bounded_texts 4 100 (sa_reasons (assess_effective_settings p (ls_arm (stopped_baseline p)) (ls_arm (stopped_candidate p))))"
proof -
  have scan: "scan_arm p role (ls_arm (stopped_arm p sub run t)) =
      \<lparr>sc_stable = None, sc_invalid = [role @ '' effective pg_settings population is incomplete'',
         role @ '' trial 1 has no passed effective pg_settings evidence''], sc_unqualified = []\<rparr>" for role sub run t
    using assms by (simp add: scan_arm_def note_if_def scan_trial_def Let_def go_simps)
  then show ?thesis
    by (auto simp: assess_effective_settings_def Let_def intro!: bounded_unique_sorted) (simp_all add: bounded_texts_def)
qed

lemma stopped_terminal:
  assumes "pt_blocks_planned p = 10" and "length blocks = 10" and "pa_status analysis = ''inconclusive''"
  shows "\<exists>reasons. derive_terminal p (am_series (ls_arm (stopped_baseline p))) (am_series (ls_arm (stopped_candidate p))) blocks
      assessment (assess_effective_settings p (ls_arm (stopped_baseline p)) (ls_arm (stopped_candidate p))) analysis =
      (''invalid'', ''invalid'', reasons) \<and> bounded_texts 9 100 reasons"
proof -
  let ?settings = "assess_effective_settings p (ls_arm (stopped_baseline p)) (ls_arm (stopped_candidate p))"
  note s = stopped_settings[OF assms(1)]
  define reasons where "reasons = unique_sorted
     ([''baseline series did not complete the predeclared schedule'', ''baseline series status is failed'',
       ''candidate series did not complete the predeclared schedule'', ''candidate series status is failed''] @
      sa_reasons ?settings @ [''effective pg_settings evidence is invalid''])"
  have "derive_terminal p (am_series (ls_arm (stopped_baseline p))) (am_series (ls_arm (stopped_candidate p))) blocks
      assessment ?settings analysis = (''invalid'', ''invalid'', reasons)"
    using s assms by (simp add: derive_terminal_def series_invalid_def series_inconclusive_def note_if_def Let_def reasons_def)
  moreover have "bounded_texts (4 + (4 + 1)) 100
     ([''baseline series did not complete the predeclared schedule'', ''baseline series status is failed'',
       ''candidate series did not complete the predeclared schedule'', ''candidate series status is failed''] @
      (sa_reasons ?settings @ [''effective pg_settings evidence is invalid'']))"
    by (intro bounded_append) (use s in \<open>simp_all add: bounded_texts_def\<close>)
  ultimately show ?thesis
    using bounded_unique_sorted by (auto simp: reasons_def)
qed

lemma small_show_int: "0 \<le> n \<Longrightarrow> n < 100 \<Longrightarrow> length (show_int n) \<le> 2 \<and> show_int n \<noteq> []"
  using length_show_nat[of "nat n" 2] by (simp add: show_int_def)

lemma stopped_table_fits:
  assumes "pt_orders p = map planned_order [0..<10]"
  shows "fits (blocks_tsv (map (derive_block p (ls_arm (stopped_baseline p)) (ls_arm (stopped_candidate p))) [0..<10]))"
proof -
  let ?block = "derive_block p (ls_arm (stopped_baseline p)) (ls_arm (stopped_candidate p))"
  have row: "length (block_row (?block i)) \<le> 40" if i: "i < 10" for i
  proof -
    have "i div 2 < 99" using i by simp
    then have "length (show_int (int i + 1)) \<le> 2" "length (show_int (int (i div 2) + 1)) \<le> 2"
      using i small_show_int[of "int i + 1"] small_show_int[of "int (i div 2) + 1"] by simp_all
    moreover have "length (planned_order i) = 2" by (simp add: planned_order_def)
    ultimately show ?thesis using stopped_block[OF i assms refl] by (simp add: block_row_def optional_float_def)
  qed
  have "length (concat (map block_row (map ?block is))) \<le> 40 * length is" if "set is \<subseteq> {0..<10}" for "is"
    using that
  proof (induction "is")
    case (Cons i "is")
    then show ?case using row[of i] by simp
  qed simp
  from this[of "[0..<10]"] show ?thesis
    by (simp add: fits_def blocks_tsv_def max_ab_json_bytes_def del: upt_rec_numeral)
qed

lemma stopped_result_json:
  assumes "pa_confidence_level (rc_analysis r) = Fin x" and "pa_regression_threshold_pct (rc_analysis r) = Some (Fin y)"
    and "pa_median_effect_pct (rc_analysis r) = Fin 0" "pa_ci_low_pct (rc_analysis r) = Fin 0" "pa_ci_high_pct (rc_analysis r) = Fin 0"
    and "\<forall>u\<in>set (pa_unit_effects (rc_analysis r)). pue_ab_effect_pct u = None \<and> pue_ba_effect_pct u = None"
    and "rc_blocks r = Some blocks"
    and "\<forall>b\<in>set blocks. bl_baseline_value b = None \<and> bl_candidate_value b = None \<and> bl_effect_pct b = None"
  shows "result_json r \<noteq> None"
proof -
  have unit: "json_list unit_effect_json (pa_unit_effects (rc_analysis r)) \<noteq> None"
    using assms(6) by (auto simp: json_list_def list_all_iff unit_effect_json_def member_int_def member_float_def json_object_opt_def)
  have "json_list execution_json es \<noteq> None" for es
    by (auto simp: json_list_def list_all_iff execution_json_def json_object_opt_def member_int_def member_string_def member_set_def)
  then have "json_list block_json blocks \<noteq> None"
    using assms(8) by (auto simp: json_list_def list_all_iff block_json_def json_object_opt_def member_int_def member_string_def member_float_def)
  then have blocks: "nullable (json_list block_json) (rc_blocks r) \<noteq> None" using assms(7) by (simp add: nullable_def)
  have "json_float (Fin q) \<noteq> None" for q by (simp add: case_prod_beta Let_def)
  then have "paired_analysis_json (rc_analysis r) \<noteq> None"
    using unit assms(1-5)
    by (auto simp: paired_analysis_json_def json_object_opt_def member_int_def member_string_def member_float_def member_nonzero_def
        simp del: json_float.simps)
  moreover have "file_ref_json f \<noteq> None" "series_ref_json s \<noteq> None" for f s
    by (simp_all add: file_ref_json_def series_ref_json_def json_object_opt_def member_int_def member_string_def)
  moreover have "qualification_result_json q \<noteq> None" for q
    by (simp add: qualification_result_json_def file_ref_json_def assessment_json_def json_object_opt_def member_int_def member_string_def)
  moreover have "settings_record_json x \<noteq> None" for x
    by (simp add: settings_record_json_def nullable_def json_object_opt_def member_set_def member_string_def split: option.splits)
  moreover have "nullable (Some \<circ> json_strings) m \<noteq> None" for m by (simp add: nullable_def split: option.splits)
  ultimately show ?thesis
    using blocks unfolding result_json_def by (intro json_members_Some) (simp add: member_string_def)
qed

lemma stopped_summary_fits:
  assumes "rc_run_id r = ''ab-1''" "rc_status r = ''invalid''" "rc_decision r = ''invalid''"
    and "sf_run_id (rc_baseline r) = ''ab-1-a''" "sf_run_id (rc_candidate r) = ''ab-1-b''"
    and "pa_units_n (rc_analysis r) = 0" "pa_total_units (rc_analysis r) = 5" "pa_status (rc_analysis r) = ''inconclusive''"
    and "ba_status (qr_assessment (rc_qualification r)) \<in> {''unqualified'', ''recorded-policy-passed''}"
    and "xr_status (rc_settings r) = ''invalid''" "xr_differences (rc_settings r) = Some []"
    and "rc_reasons r = Some reasons" "bounded_texts 9 100 reasons"
  shows "fits (summary_text r)"
proof -
  have "length (concat (map (\<lambda>v. ''- '' @ v @ [newline]) reasons)) \<le> 9 * (100 + 3)" by (rule bounded_lines[OF assms(13)])
  then show ?thesis
    using assms by (auto simp: fits_def summary_text_def summary_line_def max_ab_json_bytes_def go_simps Let_def)
qed

text \<open>The surroundings of the stopped run: constant decoders, and the directory before the result is written.\<close>

definition stopped_blocks :: "protocol \<Rightarrow> block list" where
  "stopped_blocks p = map (derive_block p (ls_arm (stopped_baseline p)) (ls_arm (stopped_candidate p))) [0..<10]"

definition stopped_writer :: ab_writer where
  "stopped_writer = \<lparr>wr_block = (\<lambda>b. show_int (bl_number b)), wr_result = (\<lambda>_. ''{}'')\<rparr>"

definition stopped_reader :: "protocol \<Rightarrow> artifact \<Rightarrow> ab_record \<Rightarrow> ab_reader" where
  "stopped_reader p a rec =
     \<lparr>rd_protocol = (\<lambda>_. (p, True)), rd_result = (\<lambda>_. Some rec),
      rd_block = map_of (map (\<lambda>b. (show_int (bl_number b), b)) (stopped_blocks p)), rd_qualification = (\<lambda>_. Some a),
      rd_snapshot = (\<lambda>_ _. None),
      rd_series = (\<lambda>dir. if dir = series_dir ''ab-1-a'' then
           Some \<lparr>ck_issues = [], ck_schema_version = ''v1'', ck_arm = Some (ls_arm (stopped_baseline p)),
                 ck_plan = Some (ls_plan (stopped_baseline p))\<rparr>
         else if dir = series_dir ''ab-1-b'' then
           Some \<lparr>ck_issues = [], ck_schema_version = ''v1'', ck_arm = Some (ls_arm (stopped_candidate p)),
                 ck_plan = Some (ls_plan (stopped_candidate p))\<rparr>
         else None),
      rd_safe = (\<lambda>_. True), rd_root = stopped_root\<rparr>"

definition stopped_directory :: ab_directory where
  "stopped_directory =
     \<lparr>ad_base = ''ab-1'',
      ad_files = [''protocol.json'' \<mapsto> \<lparr>fi_regular = True, fi_content = ''{}''\<rparr>,
        ''qualification/before.json'' \<mapsto> \<lparr>fi_regular = True, fi_content = ''{}''\<rparr>,
        ''qualification/after.json'' \<mapsto> \<lparr>fi_regular = True, fi_content = ''{}''\<rparr>],
      ad_directories = (\<lambda>_. True), ad_toolchains = False, ad_block_entries = []\<rparr>"

definition stopped_protocol :: "protocol \<Rightarrow> bool" where
  "stopped_protocol p =
     (verify_protocol p = Inr () \<and> pt_run_id p = ''ab-1'' \<and> pt_runtime p = ''docker'' \<and>
      pt_subject_dimension p = subject_pg_config \<and> pt_regression_threshold_pct p = Fin 5 \<and> pt_blocks_planned p = 10 \<and>
      pt_orders p = map planned_order [0..<10] \<and>
      union_config_setting_names sample_files [''a.conf'', ''b.conf''] = Inr (sg_names (pt_effective_settings p)))"

lemma stopped_protocol_exists: "\<exists>p. stopped_protocol p"
proof -
  obtain p where p: "build_protocol (\<lambda>_. None) sample_files ''ab-1'' ''docker'' ''baseline'' ''candidate''
    (sample_plan ''a'') (sample_plan ''b'') ab_sample_options = Inr p" using sample_protocol by blast
  have shape: "pt_runtime p = ''docker'' \<and> pt_subject_dimension p = subject_pg_config \<and> pt_regression_threshold_pct p = Fin 5"
    by (rule built_protocol_shape[OF p]) (simp_all add: ab_sample_options_def sample_plan_def)
  have b: "verify_protocol p = Inr ()" "pt_run_id p = ''ab-1''" "pt_blocks_planned p = 10"
    "union_config_setting_names sample_files [''a.conf'', ''b.conf''] = Inr (sg_names (pt_effective_settings p))"
    using built_protocol[OF p] by (simp_all add: sample_plan_def)
  obtain units where "pt_blocks_planned p = 2 * int units" "pt_orders p = map planned_order [0..<2 * units]"
    using verified_protocol_well_formed[OF b(1)] by (auto simp: well_formed_protocol_def)
  moreover from this(1) b(3) have "2 * units = 10" by simp
  ultimately have "pt_orders p = map planned_order [0..<10]" by simp
  then show ?thesis using shape b unfolding stopped_protocol_def by blast
qed

lemma stopped_chronology:
  assumes "stopped_protocol p"
  shows "chronology_issues (ls_arm (stopped_baseline p)) (ls_arm (stopped_candidate p)) (stopped_blocks p) = []"
proof -
  let ?b = "ls_arm (stopped_baseline p)" and ?c = "ls_arm (stopped_candidate p)"
  have o: "pt_orders p ! 0 = ''AB''" using assms by (simp add: stopped_protocol_def planned_order_def)
  have none: "bl_executions (derive_block p ?b ?c i) = []" if "i \<noteq> 0" for i
    using that by (simp add: derive_block_def settle_block_executions stopped_executions block_roles_def Let_def)
  have first: "map be_role (bl_executions (derive_block p ?b ?c 0)) = [''baseline'', ''candidate'']"
    "map be_trial (bl_executions (derive_block p ?b ?c 0)) = [1, 1]"
    by (simp_all add: derive_block_def settle_block_executions block_execution_of_def block_roles_def o arm_of_def
        rejected_attempt_def Let_def)
  obtain x y where x: "bl_executions (derive_block p ?b ?c 0) = [x, y]" "be_role x = ''baseline''" "be_role y = ''candidate''"
    "be_trial x = 1" "be_trial y = 1"
    using first by (auto simp: map_eq_Cons_conv)
  have "concat (map (\<lambda>i. map (Pair (bl_number (derive_block p ?b ?c i))) (bl_executions (derive_block p ?b ?c i))) [1..<10]) = []"
    using none by (auto simp: concat_eq_Nil_conv)
  moreover have "[0..<10] = 0 # [1..<10]" by (simp add: upt_conv_Cons)
  ultimately have "scheduled_executions (stopped_blocks p) = [(1, x), (1, y)]"
    using x(1) derive_block_number[of p ?b ?c 0]
    by (simp only: scheduled_executions_def stopped_blocks_def map_map comp_def list.map concat.simps append_Nil2) simp
  moreover have "execution_interval ?b ?c 1 x = Inr (zero_time, zero_time + 1)" "execution_interval ?b ?c 1 y = Inr (zero_time + 2, zero_time + 3)"
    using x stopped_span[of 0] stopped_span[of 2] by (simp_all add: execution_interval_def arm_of_def of_option_def)
  ultimately show ?thesis by (simp add: chronology_issues_def)
qed

lemma stopped_proper: "0 \<le> t \<Longrightarrow> t \<le> 10 \<Longrightarrow> proper_timelines (ls_arm (stopped_arm p sub run t))"
  using stopped_span[of t] by (simp add: proper_timelines_def)

lemma valid_recording: "\<exists>a. ve_valid (verify_artifact a)"
proof -
  obtain a where "inspect_host 0 placed_options sample_probes = Inr a" "ar_snapshot a = placed_snapshot" "ar_verdict a = ''qualified''"
    using placed_inspection by blast
  then have "bookend_reasons a a = []" using placed_bookends by blast
  then show ?thesis unfolding bookend_reasons_Nil by blast
qed

lemma stopped_initialized:
  assumes "stopped_protocol p" and "ve_valid (verify_artifact a)"
  shows "initialized (stopped_reader p a rec) stopped_directory p a a"
  using assms
  by (simp add: initialized_def qualification_written_def stopped_protocol_def stopped_directory_def stopped_reader_def
      snapshot_issues_of_def subject_pg_config_def subject_native_toolchain_def fits_def max_ab_json_bytes_def)

lemma stopped_series_verified:
  "series_verified (stopped_reader p a rec) (stopped_baseline p)" "series_verified (stopped_reader p a rec) (stopped_candidate p)"
proof -
  have "valid_series_id ''ab-1-a''" "valid_series_id ''ab-1-b''" "is_portable_path ''runs/benchmarks/ab-1-a''"
    "is_portable_path ''runs/benchmarks/ab-1-b''" by code_simp+
  then show "series_verified (stopped_reader p a rec) (stopped_baseline p)" "series_verified (stopped_reader p a rec) (stopped_candidate p)"
    by (simp_all add: series_verified_def stopped_reader_def series_dir_def Let_def stopped_arm_def stopped_series_def)
qed

lemma stopped_derivation:
  assumes "stopped_protocol p"
  shows "derive_blocks p (ls_arm (stopped_baseline p)) (ls_arm (stopped_candidate p)) = Some (stopped_blocks p)"
  using assms by (simp add: stopped_protocol_def derive_blocks_def stopped_blocks_def)

lemma series_ref_run_id: "series_ref_of base role s dir = Some f \<Longrightarrow> sf_run_id f = se_run_id s"
  by (auto simp: series_ref_of_def split: option.splits if_splits)

lemma stopped_record:
  assumes "stopped_protocol p" and "ve_valid (verify_artifact a)"
  shows "\<exists>rec. build_record stopped_root (ad_files stopped_directory) p a a
      (ls_arm (stopped_baseline p), series_dir ''ab-1-a'') (ls_arm (stopped_candidate p), series_dir ''ab-1-b'') = Some rec \<and>
    fits (summary_text rec)"
proof -
  let ?b = "ls_arm (stopped_baseline p)" and ?c = "ls_arm (stopped_candidate p)"
  let ?build = "build_record stopped_root (ad_files stopped_directory) p a a (?b, series_dir ''ab-1-a'') (?c, series_dir ''ab-1-b'')"
  have p: "pt_orders p = map planned_order [0..<10]" "pt_blocks_planned p = 10" "pt_run_id p = ''ab-1''" "verify_protocol p = Inr ()"
    using assms(1) by (simp_all add: stopped_protocol_def)
  define analysis where "analysis = analyze_paired (paired_units (stopped_blocks p)) (paired_options_of p)"
  have wf: "well_formed_protocol p" by (rule verified_protocol_well_formed[OF p(4)])
  then have options: "validate_paired_options (paired_options_of p) = []" "0 < po_min_units (paired_options_of p)"
    by (auto simp: well_formed_protocol_def paired_options_of_def minimum_paired_units_def)
  have "paired_units (stopped_blocks p) = replicate 5 idle_unit"
    using stopped_units_invalid[OF p(1)] by (simp add: stopped_blocks_def del: upt_rec_numeral)
  then have an: "pa_status analysis = ''inconclusive'' \<and> pa_units_n analysis = 0 \<and> pa_total_units analysis = 5 \<and>
      pa_median_effect_pct analysis = Fin 0 \<and> pa_ci_low_pct analysis = Fin 0 \<and> pa_ci_high_pct analysis = Fin 0 \<and>
      pa_confidence_level analysis = po_confidence_level (paired_options_of p) \<and>
      pa_regression_threshold_pct analysis = po_regression_threshold_pct (paired_options_of p) \<and>
      (\<forall>u\<in>set (pa_unit_effects analysis). pue_ab_effect_pct u = None \<and> pue_ba_effect_pct u = None)"
    by (intro analyze_idle_units[OF options]) (simp add: analysis_def)
  obtain x where x: "po_confidence_level (paired_options_of p) = Fin x"
    using options(1) by (cases "po_confidence_level (paired_options_of p)") (auto simp: validate_paired_options_def)
  have y: "po_regression_threshold_pct (paired_options_of p) = Some (Fin 5)"
    using assms(1) by (simp add: paired_options_of_def stopped_protocol_def)
  obtain reasons where t: "derive_terminal p (am_series ?b) (am_series ?c) (stopped_blocks p) (assess_qualification p a a ?b ?c)
      (assess_effective_settings p ?b ?c) analysis = (''invalid'', ''invalid'', reasons)" "bounded_texts 9 100 reasons"
    using stopped_terminal[OF p(2), of "stopped_blocks p" analysis] an by (auto simp: stopped_blocks_def)
  have run: "build_ab_result p a a ?b ?c =
      Some \<lparr>ab_blocks = stopped_blocks p, ab_assessment = assess_qualification p a a ?b ?c,
        ab_settings = assess_effective_settings p ?b ?c, ab_analysis = analysis, ab_status = ''invalid'',
        ab_decision = ''invalid'', ab_reasons = reasons\<rparr>"
    using t(1) unfolding build_ab_result_def stopped_derivation[OF assms(1)] by (simp add: Let_def analysis_def)
  have portable: "is_portable_path ''protocol.json''" "is_portable_path ''qualification/before.json''"
    "is_portable_path ''qualification/after.json''" "is_portable_path ''runs/benchmarks/ab-1-a''"
    "is_portable_path ''runs/benchmarks/ab-1-b''" by code_simp+
  have none: "bl_baseline_value b = None \<and> bl_candidate_value b = None \<and> bl_effect_pct b = None" if "b \<in> set (stopped_blocks p)" for b
    using that stopped_block[OF _ p(1) refl] by (auto simp: stopped_blocks_def simp del: upt_rec_numeral)
  have digest: "\<exists>v. result_digest r = Some v" if "rc_analysis r = analysis" "rc_blocks r = Some (stopped_blocks p)" for r
  proof -
    have "result_json (r\<lparr>rc_digest := []\<rparr>) \<noteq> None"
      using that an x y none by (intro stopped_result_json[where blocks = "stopped_blocks p"]) auto
    then show ?thesis by (auto simp: result_digest_def digest_json_def)
  qed
  have "\<exists>rec. ?build = Some rec"
    by (simp add: build_record_def run local_file_ref_def series_ref_of_def digest_file_def stopped_directory_def
        stopped_root_def series_dir_def portable Let_def) (rule digest; simp)
  then obtain rec where rec: "?build = Some rec" by blast
  obtain r where r: "build_ab_result p a a ?b ?c = Some r" "records_result rec r" and ids: "rc_run_id rec = ''ab-1''"
      "series_ref_of stopped_root ''baseline'' (am_series ?b) (series_dir ''ab-1-a'') = Some (rc_baseline rec)"
      "series_ref_of stopped_root ''candidate'' (am_series ?c) (series_dir ''ab-1-b'') = Some (rc_candidate rec)"
    using build_record_parts[OF rec] p(3) by auto
  have refs: "sf_run_id (rc_baseline rec) = ''ab-1-a''" "sf_run_id (rc_candidate rec) = ''ab-1-b''"
    using series_ref_run_id[OF ids(2)] series_ref_run_id[OF ids(3)] by simp_all
  have "ba_status (assess_qualification p a a ?b ?c) \<in> {''unqualified'', ''recorded-policy-passed''}"
    by (auto simp: assess_qualification_def assess_bookends_def Let_def)
  moreover have "rc_analysis rec = analysis" "rc_status rec = ''invalid''" "rc_decision rec = ''invalid''"
    "rc_reasons rec = Some reasons" "qr_assessment (rc_qualification rec) = assess_qualification p a a ?b ?c"
    "rc_settings rec = store_settings (assess_effective_settings p ?b ?c)"
    using r(2) r(1)[unfolded run, symmetric] by (simp_all add: records_result_def)
  ultimately have "fits (summary_text rec)"
    using refs ids(1) an t(2) stopped_settings[OF p(2)]
    by (intro stopped_summary_fits[where reasons = reasons]) (simp_all add: store_settings_def)
  then show ?thesis using rec by blast
qed

lemma in_stopped_blocks:
  "b \<in> set (stopped_blocks p) \<longleftrightarrow>
     (\<exists>i<10. b = derive_block p (ls_arm (stopped_baseline p)) (ls_arm (stopped_candidate p)) i)"
  by (simp only: stopped_blocks_def set_map set_upt image_iff Bex_def atLeastLessThan_iff) blast

lemma stopped_decodes:
  assumes "stopped_protocol p" and "fits (summary_text rec)"
  shows "decodes_written (stopped_reader p a rec) stopped_writer rec (stopped_blocks p)"
proof -
  have p: "pt_orders p = map planned_order [0..<10]" using assms(1) by (simp add: stopped_protocol_def)
  have number: "1 \<le> bl_number b \<and> bl_number b \<le> 10" if "b \<in> set (stopped_blocks p)" for b
    using that by (auto simp: in_stopped_blocks derive_block_number)
  have inj: "inj_on (\<lambda>b. show_int (bl_number b)) (set (stopped_blocks p))"
  proof (rule inj_onI)
    fix x y
    assume x: "x \<in> set (stopped_blocks p)" and y: "y \<in> set (stopped_blocks p)" and "show_int (bl_number x) = show_int (bl_number y)"
    then have "bl_number x = bl_number y" using number[OF x] number[OF y] by (simp add: show_int_def nat_eq_iff2)
    then show "x = y" using x y by (auto simp: in_stopped_blocks derive_block_number)
  qed
  have "distinct (stopped_blocks p)"
  proof -
    have "inj_on (derive_block p (ls_arm (stopped_baseline p)) (ls_arm (stopped_candidate p))) {0..<10}"
      by (rule inj_onI) (metis derive_block_number add_right_cancel of_nat_eq_iff)
    then show ?thesis by (simp add: stopped_blocks_def distinct_map del: upt_rec_numeral)
  qed
  then have keys: "distinct (map fst (map (\<lambda>b. (show_int (bl_number b), b)) (stopped_blocks p)))"
    using inj by (simp add: distinct_map comp_def)
  have "fits (show_int (bl_number b)) \<and> rd_block (stopped_reader p a rec) (show_int (bl_number b)) = Some b"
    if b: "b \<in> set (stopped_blocks p)" for b
    using map_of_is_SomeI[OF keys] b number[OF b] small_show_int[of "bl_number b"]
    by (auto simp: stopped_reader_def fits_def max_ab_json_bytes_def)
  then show ?thesis
    using assms(2) stopped_table_fits[OF p]
    by (simp add: decodes_written_def stopped_writer_def stopped_reader_def stopped_blocks_def[symmetric] fits_def[of "''{}''"]
        max_ab_json_bytes_def del: upt_rec_numeral)
qed

lemma stopped_run:
  "\<exists>p a rec. stopped_protocol p \<and> ve_valid (verify_artifact a) \<and>
     build_record (rd_root (stopped_reader p a rec)) (ad_files stopped_directory) p a a
       (ls_arm (stopped_baseline p), series_dir (se_run_id (am_series (ls_arm (stopped_baseline p)))))
       (ls_arm (stopped_candidate p), series_dir (se_run_id (am_series (ls_arm (stopped_candidate p))))) = Some rec \<and>
     decodes_written (stopped_reader p a rec) stopped_writer rec (stopped_blocks p) \<and>
     series_protocol_issues (rd_root (stopped_reader p a rec)) p (stopped_baseline p) (stopped_candidate p) = Some []"
proof -
  obtain p where p: "stopped_protocol p" using stopped_protocol_exists by blast
  obtain a where a: "ve_valid (verify_artifact a)" using valid_recording by blast
  obtain rec where rec: "build_record stopped_root (ad_files stopped_directory) p a a
      (ls_arm (stopped_baseline p), series_dir ''ab-1-a'') (ls_arm (stopped_candidate p), series_dir ''ab-1-b'') = Some rec"
    "fits (summary_text rec)" using stopped_record[OF p a] by blast
  have top: "rd_root (stopped_reader p a rec) = stopped_root" by (simp add: stopped_reader_def)
  have "series_protocol_issues stopped_root p (stopped_baseline p) (stopped_candidate p) = Some []"
    by (rule stopped_protocol_issues) (use p in \<open>simp_all add: stopped_protocol_def\<close>)
  then show ?thesis
    using p a rec stopped_decodes[OF p rec(2)]
    by (intro exI[of _ p] exI[of _ a] exI[of _ rec] conjI) (simp_all only: top stopped_fields(2))
qed

subsection \<open>Properties\<close>

text \<open>A valid artifact that reports a verdict rests on complete evidence.\<close>

lemma valid_decided_artifact:
  assumes "verify_ab rd d = Some []" and "stored_record rd d = Some rec" and "decided (rc_status rec)"
  shows "\<exists>before after b c. rests_on rd d rec before after b c \<and>
    se_status (am_series b) = ''passed'' \<and> se_status (am_series c) = ''passed'' \<and>
    certified_host (stored_protocol rd d) before \<and> certified_host (stored_protocol rd d) after \<and>
    brackets_trials (stored_protocol rd d) before after b c \<and>
    (\<exists>l r. settled_arm (stored_protocol rd d) b l \<and> settled_arm (stored_protocol rd d) c r)"
proof -
  obtain before after b c r where v: "rests_on rd d rec before after b c"
    "build_ab_result (stored_protocol rd d) before after b c = Some r" "records_result rec r"
    using valid_artifact[OF assms(1)] assms(2) by auto
  then have "decided (ab_status r)" using assms(3) by (simp add: records_result_def)
  from decided_run_evidence[OF v(2) this] v(1) show ?thesis by blast
qed

text \<open>C7: What a run writes is accepted: when the protocol verifies, both series verify and match it, the executions
  are in the planned order, and the files written before are in place, then the result that is derived, together with
  its block files, table and summary, gives an artifact in which the verifier finds no issue.\<close>

theorem produced_artifact_verifies:
  assumes "verify_protocol p = Inr ()" and "initialized rd d p before after"
    and "series_verified rd l" "series_verified rd c" and "series_protocol_issues (rd_root rd) p l c = Some []"
    and "derive_blocks p (ls_arm l) (ls_arm c) = Some blocks" and "chronology_issues (ls_arm l) (ls_arm c) blocks = []"
    and "the_time (parse_rfc3339 (ar_recorded_at before)) \<le> the_time (parse_rfc3339 (ar_recorded_at after))"
    and "build_record (rd_root rd) (ad_files d) p before after
      (ls_arm l, series_dir (se_run_id (am_series (ls_arm l)))) (ls_arm c, series_dir (se_run_id (am_series (ls_arm c)))) = Some rec"
    and "decodes_written rd w rec blocks"
  shows "verify_ab rd (write_result_artifacts w rec d) = Some []"
  by (rule written_artifact_verifies[OF assms])

lemma stopped_artifact_valid:
  assumes "stopped_protocol p" "ve_valid (verify_artifact a)"
    and "build_record (rd_root (stopped_reader p a rec)) (ad_files stopped_directory) p a a
       (ls_arm (stopped_baseline p), series_dir (se_run_id (am_series (ls_arm (stopped_baseline p)))))
       (ls_arm (stopped_candidate p), series_dir (se_run_id (am_series (ls_arm (stopped_candidate p))))) = Some rec"
    and "decodes_written (stopped_reader p a rec) stopped_writer rec (stopped_blocks p)"
    and "series_protocol_issues (rd_root (stopped_reader p a rec)) p (stopped_baseline p) (stopped_candidate p) = Some []"
  shows "verify_ab (stopped_reader p a rec) (write_result_artifacts stopped_writer rec stopped_directory) = Some []"
  using assms
  by (intro written_artifact_verifies[OF _ stopped_initialized[OF assms(1,2)] stopped_series_verified assms(5)
      stopped_derivation[OF assms(1)] stopped_chronology[OF assms(1)] _ assms(3,4)])
    (simp_all add: stopped_protocol_def)

theorem produced_artifact_verifies_witness:
  "\<exists>rd d p a rec. rc_protocol rec = \<lparr>fr_path = ''protocol.json'', fr_digest = digest_bytes ''{}'', fr_size = 2\<rparr> \<and>
     pt_run_id p = ''ab-1'' \<and> initialized rd d p a a \<and> verify_ab rd (write_result_artifacts stopped_writer rec d) = Some []"
proof -
  obtain p a rec where s: "stopped_protocol p" "ve_valid (verify_artifact a)"
    "build_record (rd_root (stopped_reader p a rec)) (ad_files stopped_directory) p a a
       (ls_arm (stopped_baseline p), series_dir (se_run_id (am_series (ls_arm (stopped_baseline p)))))
       (ls_arm (stopped_candidate p), series_dir (se_run_id (am_series (ls_arm (stopped_candidate p))))) = Some rec"
    "decodes_written (stopped_reader p a rec) stopped_writer rec (stopped_blocks p)"
    "series_protocol_issues (rd_root (stopped_reader p a rec)) p (stopped_baseline p) (stopped_candidate p) = Some []"
    using stopped_run by blast
  have p: "verify_protocol p = Inr ()" "pt_run_id p = ''ab-1''" using s(1) by (simp_all add: stopped_protocol_def)
  have "rc_protocol rec = \<lparr>fr_path = ''protocol.json'', fr_digest = digest_bytes ''{}'', fr_size = 2\<rparr>"
    using build_record_parts[OF s(3)] by (auto simp: local_file_ref_def stopped_directory_def split: if_splits)
  moreover have "verify_ab (stopped_reader p a rec) (write_result_artifacts stopped_writer rec stopped_directory) = Some []"
    by (rule produced_artifact_verifies[OF p(1) stopped_initialized[OF s(1,2)] stopped_series_verified s(5)
        stopped_derivation[OF s(1)] stopped_chronology[OF s(1)] order_refl s(3,4)])
  ultimately show ?thesis using p(2) stopped_initialized[OF s(1,2)] by blast
qed

text \<open>C6: A valid artifact is what its evidence gives: an artifact without issues names two verified series and two
  verified recordings from which, under its verified protocol, exactly the stored blocks, analysis, assessments,
  status, decision and reasons are derived again, and its digest is the digest of its content.\<close>

theorem valid_artifact_is_rederived:
  assumes "verify_ab rd d = Some []"
  shows "\<exists>rec before after b c r. stored_record rd d = Some rec \<and> rests_on rd d rec before after b c \<and>
    verify_protocol (stored_protocol rd d) = Inr () \<and> build_ab_result (stored_protocol rd d) before after b c = Some r \<and>
    records_result rec r \<and> result_digest rec = Some (rc_digest rec)"
  using valid_artifact[OF assms] by blast

theorem valid_artifact_is_rederived_witness:
  "\<exists>rd d rec before after b c r. stored_record rd d = Some rec \<and> rests_on rd d rec before after b c \<and>
    build_ab_result (stored_protocol rd d) before after b c = Some r \<and> records_result rec r"
proof -
  obtain p a rec where "verify_ab (stopped_reader p a rec) (write_result_artifacts stopped_writer rec stopped_directory) = Some []"
    using stopped_run stopped_artifact_valid by blast
  from valid_artifact_is_rederived[OF this] show ?thesis by blast
qed

text \<open>C8: The executions of a valid artifact happened in the planned order: in block after block the arms take turns,
  one leading and then the other, every execution has an interval that can be read, and none started before the one
  scheduled just before it had finished, unless that one is recorded as finished exactly at the zero time, which the
  check takes for no execution yet. So wherever no interval ends at the zero time or before its own start, each
  execution finished before any that is scheduled later began.\<close>

theorem valid_artifact_is_chronological:
  assumes "verify_ab rd d = Some []"
  shows "\<exists>rec blocks b c spans. stored_record rd d = Some rec \<and> rc_blocks rec = Some blocks \<and>
    verified_arm rd (rc_baseline rec) b \<and> verified_arm rd (rc_candidate rec) c \<and>
    (\<forall>i<length blocks. map be_role (bl_executions (blocks ! i)) =
       filter (\<lambda>role. i < length (arm_trials (arm_of role b c))) (block_roles (planned_order i))) \<and>
    map (\<lambda>(number, e). execution_interval b c number e) (scheduled_executions blocks) = map Inr spans \<and>
    (\<forall>i. Suc i < length spans \<longrightarrow> snd (spans ! i) = zero_time \<or> snd (spans ! i) \<le> fst (spans ! Suc i)) \<and>
    ((\<forall>(s, f)\<in>set spans. s \<le> f \<and> f \<noteq> zero_time) \<longrightarrow> sorted_wrt (\<lambda>x y. snd x \<le> fst y) spans)"
proof -
  obtain rec blocks b c spans where v: "stored_record rd d = Some rec \<and> rc_blocks rec = Some blocks \<and>
    verified_arm rd (rc_baseline rec) b \<and> verified_arm rd (rc_candidate rec) c \<and>
    (\<forall>i<length blocks. map be_role (bl_executions (blocks ! i)) =
       filter (\<lambda>role. i < length (arm_trials (arm_of role b c))) (block_roles (planned_order i))) \<and>
    map (\<lambda>(number, e). execution_interval b c number e) (scheduled_executions blocks) = map Inr spans"
    and turn: "follows_in_turn spans"
    using valid_artifact_order[OF assms] by meson
  have "(\<forall>(s, f)\<in>set spans. s \<le> f \<and> f \<noteq> zero_time) \<longrightarrow> sorted_wrt (\<lambda>x y. snd x \<le> fst y) spans"
    using in_turn_sorted[OF turn] by blast
  with v turn[unfolded follows_in_turn_def] show ?thesis
    by - (rule exI[of _ rec], rule exI[of _ blocks], rule exI[of _ b], rule exI[of _ c], rule exI[of _ spans], (intro conjI | elim conjE | assumption)+)
qed

theorem valid_artifact_is_chronological_witness:
  "\<exists>rd d rec blocks. stored_record rd d = Some rec \<and> rc_blocks rec = Some blocks \<and>
     (\<exists>b c spans. length (scheduled_executions blocks) = length (spans :: (int \<times> int) list) \<and>
        verified_arm rd (rc_baseline rec) b \<and> verified_arm rd (rc_candidate rec) c \<and>
        sorted_wrt (\<lambda>x y. snd x \<le> fst y) spans)"
proof -
  obtain p a rec where v: "verify_ab (stopped_reader p a rec) (write_result_artifacts stopped_writer rec stopped_directory) = Some []"
    using stopped_run stopped_artifact_valid by blast
  have proper: "proper_timelines x" if "verified_arm (stopped_reader p a rec) f x" for f x
    using that stopped_proper by (auto simp: verified_arm_def stopped_reader_def split: if_splits)
  from valid_artifact_is_chronological[OF v] obtain rec' blocks b c spans where
    r: "stored_record (stopped_reader p a rec) (write_result_artifacts stopped_writer rec stopped_directory) = Some rec'"
      "rc_blocks rec' = Some blocks" "verified_arm (stopped_reader p a rec) (rc_baseline rec') b"
      "verified_arm (stopped_reader p a rec) (rc_candidate rec') c"
      "map (\<lambda>(number, e). execution_interval b c number e) (scheduled_executions blocks) = map Inr spans"
      "(\<forall>(s, f)\<in>set spans. s \<le> f \<and> f \<noteq> zero_time) \<longrightarrow> sorted_wrt (\<lambda>x y. snd x \<le> fst y) spans"
    by blast
  have "s \<le> f \<and> f \<noteq> zero_time" if "(s, f) \<in> set spans" for s f
  proof -
    have "Inr (s, f) \<in> set (map (\<lambda>(number, e). execution_interval b c number e) (scheduled_executions blocks))"
      using that unfolding r(5) by simp
    then obtain number e where "execution_interval b c number e = Inr (s, f)" by auto
    from execution_interval_proper[OF this proper[OF r(3)] proper[OF r(4)]] show ?thesis .
  qed
  then have "sorted_wrt (\<lambda>x y. snd x \<le> fst y) spans" using r(6) by blast
  moreover have "length (scheduled_executions blocks) = length spans" using r(5) by (metis length_map)
  ultimately show ?thesis using r by blast
qed

end
