(* ===== verification/GoPath.thy ===== *)
theory GoPath
  imports Evidence
begin

section \<open>File paths\<close>

text \<open>
  \<^verbatim>\<open>path/filepath\<close> on the platforms the program supports: joining, the last element, absolute paths and
  the path from one directory to another. On these platforms \<open>ToSlash\<close> and \<open>FromSlash\<close> change nothing.
\<close>

definition is_abs :: "string \<Rightarrow> bool" where
  "is_abs p = has_prefix p ''/''"

definition path_join :: "string list \<Rightarrow> string" where
  "path_join ps =
     (case dropWhile (\<lambda>p. p = []) ps of [] \<Rightarrow> [] | q # qs \<Rightarrow> path_clean (join [slash] (q # qs)))"

definition path_base :: "string \<Rightarrow> string" where
  "path_base p =
     (if p = [] then ''.''
      else let b = last (split_on slash (rev (dropWhile (\<lambda>c. c = slash) (rev p))))
           in if b = [] then ''/'' else b)"

text \<open>\<open>Abs\<close>; the working directory may not be known.\<close>

definition path_abs :: "string option \<Rightarrow> string \<Rightarrow> string option" where
  "path_abs cwd p = (if is_abs p then Some (path_clean p) else map_option (\<lambda>wd. path_join [wd, p]) cwd)"

text \<open>The elements of a cleaned path.\<close>

definition path_parts :: "string \<Rightarrow> string list" where
  "path_parts p = (let q = (if is_abs p then drop 1 p else p) in if q = [] then [] else split_on slash q)"

fun strip_common :: "string list \<Rightarrow> string list \<Rightarrow> string list \<times> string list" where
  "strip_common (x # xs) (y # ys) = (if x = y then strip_common xs ys else (x # xs, y # ys))"
| "strip_common xs ys = (xs, ys)"

text \<open>\<open>Rel\<close>: up from the first element that differs, then down.\<close>

definition path_rel :: "string \<Rightarrow> string \<Rightarrow> string option" where
  "path_rel base target =
     (let b = path_clean base; t = path_clean target
      in if t = b then Some ''.''
         else
           let b' = (if b = ''.'' then [] else b)
           in if is_abs b' \<noteq> is_abs t then None
              else
                case strip_common (path_parts b') (path_parts t) of
                  (bs, ts) \<Rightarrow>
                    if bs \<noteq> [] \<and> ts \<noteq> [] \<and> hd bs = ''..'' then None
                    else Some (join [slash] (map (\<lambda>_. ''..'') bs @ ts)))"

subsection \<open>Cleaned absolute paths\<close>

text \<open>A cleaned absolute path is a slash before names.\<close>

definition plain_names :: "string list \<Rightarrow> bool" where
  "plain_names ps = list_all (\<lambda>p. plain_component p \<and> slash \<notin> set p) ps"

lemma names_push: "plain_names out \<Longrightarrow> slash \<notin> set c \<Longrightarrow> plain_names (push_component True out c)"
  by (auto simp: plain_names_def push_component_def plain_component_def list_all_iff dest: in_set_butlastD)

lemma names_foldl:
  "plain_names out \<Longrightarrow> list_all (\<lambda>c. slash \<notin> set c) cs \<Longrightarrow> plain_names (foldl (push_component True) out cs)"
  by (induction cs arbitrary: out) (simp_all add: names_push)

lemma split_on_clean: "list_all (\<lambda>c. x \<notin> set c) (split_on x p)"
  using split_on_parts by (auto simp: list_all_iff)

lemma path_clean_abs: "is_abs p \<Longrightarrow> \<exists>ps. plain_names ps \<and> path_clean p = slash # join [slash] ps"
proof -
  assume "is_abs p"
  then have p: "p \<noteq> []" "hd p = slash" by (auto simp: is_abs_def has_prefix_iff slash_def)
  have "plain_names (foldl (push_component True) [] (split_on slash p))"
    by (rule names_foldl) (simp_all add: plain_names_def split_on_clean)
  then show ?thesis using p by (auto simp: path_clean_def Let_def)
qed

lemma names_not_slash: "plain_names ps \<Longrightarrow> hd (join [slash] ps) = slash \<Longrightarrow> ps = []"
proof (rule ccontr)
  assume h: "plain_names ps" "hd (join [slash] ps) = slash" "ps \<noteq> []"
  then obtain p qs where ps: "ps = p # qs" by (cases ps) auto
  then have p: "p \<noteq> []" "slash \<notin> set p" using h(1) by (auto simp: plain_names_def plain_component_def)
  have "hd (join [slash] ps) = hd p" using p ps by (cases qs) auto
  then show False using h(2) p by (metis hd_in_set)
qed

lemma split_on_names: "plain_names ps \<Longrightarrow> ps \<noteq> [] \<Longrightarrow> split_on slash (join [slash] ps) = ps"
  by (rule split_on_join) (auto simp: plain_names_def list_all_iff)

lemma join_names_Nil: "plain_names ps \<Longrightarrow> join [slash] ps = [] \<longleftrightarrow> ps = []"
  by (induction "[slash]" ps rule: join.induct) (auto simp: plain_names_def plain_component_def)

lemma path_parts_names: "plain_names ps \<Longrightarrow> path_parts (slash # join [slash] ps) = ps"
  using split_on_names[of ps] join_names_Nil[of ps]
  by (auto simp: path_parts_def is_abs_def has_prefix_def slash_def Let_def)

lemma path_clean_names: "plain_names ps \<Longrightarrow> path_clean (slash # join [slash] ps) = slash # join [slash] ps"
proof -
  assume n: "plain_names ps"
  have "split_on slash (slash # join [slash] ps) = [] # (if ps = [] then [[]] else ps)"
    using split_on_names[OF n] by simp
  moreover have "foldl (push_component True) [] ps = ps"
    using n foldl_plain[of ps True "[]"] by (auto simp: plain_names_def list_all_iff)
  ultimately have "foldl (push_component True) [] (split_on slash (slash # join [slash] ps)) = ps"
    by (auto simp: push_component_def)
  then show ?thesis by (simp add: path_clean_def Let_def)
qed

lemma strip_common_parts: "strip_common xs ys = (us, vs) \<Longrightarrow> \<exists>zs. xs = zs @ us \<and> ys = zs @ vs"
proof (induction xs ys arbitrary: us vs rule: strip_common.induct)
  case (1 x xs y ys)
  show ?case
  proof (cases "x = y")
    case True
    then obtain zs where "xs = zs @ us" "ys = zs @ vs" using 1 by auto
    then have "x # xs = (x # zs) @ us \<and> y # ys = (x # zs) @ vs" using True by simp
    then show ?thesis by blast
  next
    case False
    then show ?thesis using 1(2) by simp
  qed
qed simp_all

text \<open>A relative path between absolute ones that does not lead up is the rest below the base.\<close>

lemma path_rel_below:
  assumes "is_abs base" and "is_abs target" and "path_rel base target = Some rel"
    and "rel \<noteq> ''..''" and "\<not> has_prefix rel ''../''"
  shows "\<exists>bs ts. plain_names bs \<and> plain_names ts \<and> path_clean base = slash # join [slash] bs \<and>
           path_clean target = slash # join [slash] (bs @ ts) \<and> rel = (if ts = [] then ''.'' else join [slash] ts)"
proof -
  obtain bs where bs: "plain_names bs" "path_clean base = slash # join [slash] bs" using path_clean_abs[OF assms(1)] by blast
  obtain cs where cs: "plain_names cs" "path_clean target = slash # join [slash] cs" using path_clean_abs[OF assms(2)] by blast
  show ?thesis
  proof (cases "path_clean target = path_clean base")
    case True
    then have "rel = ''.''" using assms(3) by (simp add: path_rel_def Let_def)
    then show ?thesis using bs cs True by (intro exI[of _ bs] exI[of _ "[]"]) (auto simp: plain_names_def)
  next
    case False
    obtain us vs where uv: "strip_common bs cs = (us, vs)" by fastforce
    obtain zs where zs: "bs = zs @ us" "cs = zs @ vs" using strip_common_parts[OF uv] by blast
    have nd: "slash # join [slash] bs \<noteq> ''.''" by (simp add: slash_def)
    have abs: "is_abs (slash # join [slash] bs)" "is_abs (slash # join [slash] cs)"
      by (simp_all add: is_abs_def has_prefix_def slash_def)
    have "us \<noteq> [] \<Longrightarrow> hd us \<noteq> ''..''"
      using bs(1) zs(1) by (cases us) (auto simp: plain_names_def plain_component_def)
    then have rel: "rel = join [slash] (map (\<lambda>_. ''..'') us @ vs)"
      using assms(3) False nd abs uv
      by (auto simp: path_rel_def Let_def bs(2) cs(2) path_parts_names[OF bs(1)] path_parts_names[OF cs(1)] split: if_splits)
    have "us = []"
    proof (rule ccontr)
      assume "us \<noteq> []"
      then obtain u us' where u: "us = u # us'" by (cases us) auto
      then have "map (\<lambda>_. ''..'') us @ vs = ''..'' # (map (\<lambda>_. ''..'') us' @ vs)" by simp
      then have "rel = ''..'' \<or> has_prefix rel ''../''"
        using rel by (cases "map (\<lambda>_. ''..'') us' @ vs") (auto simp: has_prefix_def slash_def)
      then show False using assms(4,5) by blast
    qed
    moreover have "vs \<noteq> []" using False bs cs zs \<open>us = []\<close> by auto
    ultimately show ?thesis using bs cs zs rel
      by (intro exI[of _ bs] exI[of _ vs]) (auto simp: plain_names_def list_all_iff)
  qed
qed

subsection \<open>The last element\<close>

text \<open>Paths that end in a name keep it through cleaning, joining and making absolute.\<close>

definition ends_in :: "string \<Rightarrow> string \<Rightarrow> bool" where
  "ends_in n p = (p = n \<or> has_suffix p (slash # n))"

lemma ends_in_split:
  assumes "ends_in n p" and "slash \<notin> set n"
  shows "\<exists>cs. split_on slash p = cs @ [n]"
proof (cases "p = n")
  case True
  then show ?thesis using split_on_notin[OF assms(2)] by (intro exI[of _ "[]"]) simp
next
  case False
  then obtain a where a: "p = a @ slash # n" using assms(1) by (auto simp: ends_in_def has_suffix_iff)
  have "split_on slash p = split_on slash a @ [n]" unfolding a
  proof (induction a)
    case Nil
    then show ?case using split_on_notin[OF assms(2)] by simp
  next
    case (Cons c a)
    then show ?case by (cases "split_on slash a") auto
  qed
  then show ?thesis by blast
qed

lemma ends_in_join: "ends_in n (join [slash] (ps @ [n]))"
proof (cases "ps = []")
  case False
  then show ?thesis by (auto simp: ends_in_def has_suffix_iff join_snoc)
qed (simp add: ends_in_def)

lemma ends_in_append: "ends_in n p \<Longrightarrow> ends_in n (a @ slash # p)"
  by (auto simp: ends_in_def has_suffix_iff)

lemma ends_in_clean:
  assumes "ends_in n p" and "slash \<notin> set n" and "plain_component n"
  shows "ends_in n (path_clean p)"
proof -
  obtain cs where cs: "split_on slash p = cs @ [n]" using ends_in_split[OF assms(1,2)] by blast
  have ne: "p \<noteq> []" using assms(1,3) by (auto simp: ends_in_def has_suffix_iff plain_component_def)
  define out where "out = foldl (push_component (hd p = slash)) [] cs"
  have "foldl (push_component (hd p = slash)) [] (split_on slash p) = out @ [n]"
    using assms(3) by (simp add: cs out_def push_plain)
  moreover have "ends_in n (join [slash] (out @ [n]))" by (rule ends_in_join)
  moreover have "join [slash] (out @ [n]) \<noteq> []"
    using assms(3) by (cases out) (auto simp: plain_component_def join_snoc simp flip: append_Cons)
  ultimately show ?thesis
    using ne ends_in_append[of n "join [slash] (out @ [n])" "[]"] by (auto simp: path_clean_def Let_def)
qed

lemma ends_in_path_join:
  assumes "slash \<notin> set n" and "plain_component n"
  shows "ends_in n p \<Longrightarrow> ends_in n (path_join [a, p])" and "ends_in n (path_join [a, b, n])"
proof -
  have two: "ends_in n (path_join [a, p])" if "ends_in n p" for a p
  proof -
    have "p \<noteq> []" using that assms(2) by (auto simp: ends_in_def has_suffix_iff plain_component_def)
    then have "path_join [a, p] = path_clean (if a = [] then p else a @ slash # p)" by (simp add: path_join_def)
    moreover have "ends_in n (if a = [] then p else a @ slash # p)" using that ends_in_append by simp
    ultimately show ?thesis using ends_in_clean assms by simp
  qed
  then show "ends_in n p \<Longrightarrow> ends_in n (path_join [a, p])" .
  have n: "n \<noteq> []" "ends_in n n" using assms(2) by (simp_all add: plain_component_def ends_in_def)
  have "path_join [a, b, n] = path_clean (if a = [] then (if b = [] then n else b @ slash # n) else a @ slash # b @ slash # n)"
    using n by (simp add: path_join_def)
  moreover have "ends_in n (if a = [] then (if b = [] then n else b @ slash # n) else a @ slash # b @ slash # n)"
    using n ends_in_append[of n n b] ends_in_append[of n "b @ slash # n" a] by simp
  ultimately show "ends_in n (path_join [a, b, n])" using ends_in_clean assms by simp
qed

lemma ends_in_abs:
  "slash \<notin> set n \<Longrightarrow> plain_component n \<Longrightarrow> ends_in n p \<Longrightarrow> path_abs cwd p = Some q \<Longrightarrow> ends_in n q"
  by (auto simp: path_abs_def ends_in_clean ends_in_path_join split: if_splits)

lemma joined_absolute: "is_abs base \<Longrightarrow> is_abs (path_join [base, name])"
proof -
  assume "is_abs base"
  then have "base \<noteq> []" "is_abs (base @ slash # name)" by (auto simp: is_abs_def has_prefix_iff)
  moreover from this(2) obtain ps where "path_clean (base @ slash # name) = slash # join [slash] ps" using path_clean_abs by blast
  ultimately show ?thesis by (simp add: path_join_def is_abs_def has_prefix_def slash_def)
qed

lemma path_abs_is_abs: "path_abs cwd p = Some q \<Longrightarrow> pred_option is_abs cwd \<Longrightarrow> is_abs q"
proof -
  assume a: "path_abs cwd p = Some q" "pred_option is_abs cwd"
  show "is_abs q"
  proof (cases "is_abs p")
    case True
    then show ?thesis using a(1) path_clean_abs[OF True] by (auto simp: path_abs_def is_abs_def has_prefix_def slash_def)
  next
    case False
    then obtain wd where "cwd = Some wd" "q = path_join [wd, p]" using a(1) by (auto simp: path_abs_def)
    then show ?thesis using a(2) joined_absolute by simp
  qed
qed

lemma path_base_ends_in:
  assumes "ends_in n p" and "slash \<notin> set n" and "n \<noteq> []"
  shows "path_base p = n"
proof -
  obtain cs where cs: "split_on slash p = cs @ [n]" using ends_in_split[OF assms(1,2)] by blast
  have "p \<noteq> []" "last p = last n" using assms(1,3) by (auto simp: ends_in_def has_suffix_iff)
  then have "hd (rev p) \<noteq> slash" using assms(2,3) by (metis hd_rev last_in_set)
  then have "dropWhile (\<lambda>c. c = slash) (rev p) = rev p" using \<open>p \<noteq> []\<close> by (cases "rev p") auto
  then show ?thesis using cs assms(3) \<open>p \<noteq> []\<close> by (simp add: path_base_def Let_def)
qed

end
