(* ===== verification/GoDuration.thy ===== *)
theory GoDuration
  imports Float64 GoNumbers
begin

section \<open>Durations as text\<close>

text \<open>
  \<open>time.ParseDuration\<close>: a sum of decimal numbers with units, accumulated in an unsigned 64-bit integer of
  nanoseconds. Fractions are added in floating point, as the library does it.
\<close>

definition unit_nanoseconds :: "string \<Rightarrow> nat option" where
  "unit_nanoseconds u =
     (if u = ''ns'' then Some 1
      else if u = ''us'' \<or> map code u = [0xC2, 0xB5, 0x73] \<or> map code u = [0xCE, 0xBC, 0x73] then Some 1000
      else if u = ''ms'' then Some 1000000
      else if u = ''s'' then Some 1000000000
      else if u = ''m'' then Some 60000000000
      else if u = ''h'' then Some 3600000000000
      else None)"

fun leading_int :: "nat \<Rightarrow> string \<Rightarrow> (nat \<times> string) option" where
  "leading_int x [] = Some (x, [])"
| "leading_int x (c # cs) =
     (if \<not> is_digit c then Some (x, c # cs)
      else if x > 2 ^ 63 div 10 then None
      else if 10 * x + digit_val c > 2 ^ 63 then None
      else leading_int (10 * x + digit_val c) cs)"

fun leading_fraction :: "nat \<Rightarrow> f64 \<Rightarrow> bool \<Rightarrow> string \<Rightarrow> nat \<times> f64 \<times> string" where
  "leading_fraction x scale overflow [] = (x, scale, [])"
| "leading_fraction x scale overflow (c # cs) =
     (if \<not> is_digit c then (x, scale, c # cs)
      else if overflow \<or> x > (2 ^ 63 - 1) div 10 \<or> 10 * x + digit_val c > 2 ^ 63
      then leading_fraction x scale True cs
      else leading_fraction (10 * x + digit_val c) (f_mul scale (Fin 10)) False cs)"

text \<open>A number: the integers before and after the point, the scale of the latter, and the rest of the text.\<close>

definition duration_number :: "string \<Rightarrow> (nat \<times> nat \<times> f64 \<times> string) option" where
  "duration_number s =
     (if s = [] \<or> \<not> (hd s = CHR ''.'' \<or> is_digit (hd s)) then None
      else
        case leading_int 0 s of
          None \<Rightarrow> None
        | Some (v, s1) \<Rightarrow>
            if s1 = [] \<or> hd s1 \<noteq> CHR ''.'' then (if length s1 \<noteq> length s then Some (v, 0, Fin 1, s1) else None)
            else
              case leading_fraction 0 (Fin 1) False (drop 1 s1) of
                (f, scale, s2) \<Rightarrow>
                  if length s1 \<noteq> length s \<or> length s2 \<noteq> length (drop 1 s1) then Some (v, f, scale, s2) else None)"

text \<open>A number with its unit: its nanoseconds and the rest of the text.\<close>

definition duration_nanoseconds :: "nat \<Rightarrow> nat \<Rightarrow> f64 \<Rightarrow> nat \<Rightarrow> nat option" where
  "duration_nanoseconds v f scale n =
     (if v > 2 ^ 63 div n then None
      else if f = 0 then Some (v * n)
      else
        let w = v * n + nat (f_floor (f_mul (f_of_int (int f)) (f_div (f_of_int (int n)) scale)))
        in if w > 2 ^ 63 then None else Some w)"

definition duration_term :: "string \<Rightarrow> (nat \<times> string) option" where
  "duration_term s =
     (case duration_number s of
        None \<Rightarrow> None
      | Some (v, f, scale, rest) \<Rightarrow>
          let u = takeWhile (\<lambda>c. \<not> (c = CHR ''.'' \<or> is_digit c)) rest
          in if u = [] then None
             else case unit_nanoseconds u of
                    None \<Rightarrow> None
                  | Some n \<Rightarrow> map_option (\<lambda>w. (w, drop (length u) rest)) (duration_nanoseconds v f scale n))"

lemma leading_int_length: "leading_int x s = Some (v, t) \<Longrightarrow> length t \<le> length s"
  by (induction x s rule: leading_int.induct) (auto split: if_splits)

lemma leading_fraction_length: "leading_fraction x sc ov s = (f, sc', t) \<Longrightarrow> length t \<le> length s"
  by (induction x sc ov s rule: leading_fraction.induct) (auto split: if_splits)

lemma duration_number_length: "duration_number s = Some (v, f, sc, t) \<Longrightarrow> length t \<le> length s"
  by (auto simp: duration_number_def split: if_splits option.splits prod.splits
      dest!: leading_int_length leading_fraction_length)

lemma duration_term_length: "duration_term s = Some (v, t) \<Longrightarrow> length t < length s"
proof -
  assume "duration_term s = Some (v, t)"
  then obtain v1 f sc rest u where n: "duration_number s = Some (v1, f, sc, rest)"
    and u: "u = takeWhile (\<lambda>c. \<not> (c = CHR ''.'' \<or> is_digit c)) rest" "u \<noteq> []" "t = drop (length u) rest"
    by (auto simp: duration_term_def Let_def split: option.splits if_splits)
  have "length u \<le> length rest" unfolding u(1) by (rule length_takeWhile_le)
  then show "length t < length s" using duration_number_length[OF n] u(2,3) by (cases u) auto
qed

function duration_sum :: "nat \<Rightarrow> string \<Rightarrow> nat option" where
  "duration_sum d s =
     (if s = [] then Some d
      else
        case duration_term s of
          None \<Rightarrow> None
        | Some (v, t) \<Rightarrow>
            let d' = (d + v) mod 2 ^ 64
            in if d' > 2 ^ 63 then None else duration_sum d' t)"
  by pat_completeness auto
termination
  by (relation "measure (\<lambda>(d, s). length s)") (auto dest: duration_term_length)

declare duration_sum.simps [simp del]

definition parse_duration :: "string \<Rightarrow> int option" where
  "parse_duration s =
     (let neg = has_prefix s ''-'';
          body = (if neg \<or> has_prefix s ''+'' then drop 1 s else s)
      in if body = ''0'' then Some 0
         else if body = [] then None
         else
           case duration_sum 0 body of
             None \<Rightarrow> None
           | Some d \<Rightarrow>
               if neg then Some (- int d) else if d > 2 ^ 63 - 1 then None else Some (int d))"

end
