(* ===== verification/SpecCatalog.thy ===== *)
theory SpecCatalog
  imports GoPath GoDuration GoFloatText EnvFile
begin

section \<open>The catalogue of specifications\<close>

text \<open>
  \<^verbatim>\<open>internal/speccatalog/catalog.go\<close>: the specifications of a scenario pack, how a reference to one is resolved
  to a file and an id, and the validation of each kind. What the file system answers (\<open>os.Stat\<close>, the content
  of a file, a directory walk, the resolution of symbolic links, the working directory) is the record \<open>pack\<close>.
  Findings are texts, as in the code.
\<close>

subsection \<open>Packs and specifications\<close>

datatype walk = Walk_missing | Walk_failed | Walk_files "string list"

record pack =
  pk_root :: string
  pk_cwd :: "string option"
  pk_stat :: "string \<Rightarrow> bool option"  \<comment> \<open>whether an existing path is a directory\<close>
  pk_real :: "string \<Rightarrow> string option"
  pk_read :: "string \<Rightarrow> string option"
  pk_walk :: "string \<Rightarrow> walk"

record spec =
  spec_kind :: string
  spec_id :: string
  spec_path :: string
  spec_values :: "string \<Rightarrow> string option"

definition blank_spec :: spec where
  "blank_spec = \<lparr>spec_kind = [], spec_id = [], spec_path = [], spec_values = Map.empty\<rparr>"

text \<open>Reading a missing key of a Go map gives the empty string.\<close>

definition val_of :: "(string \<Rightarrow> string option) \<Rightarrow> string \<Rightarrow> string" where
  "val_of m k = (case m k of None \<Rightarrow> [] | Some v \<Rightarrow> v)"

abbreviation spec_val :: "spec \<Rightarrow> string \<Rightarrow> string" where
  "spec_val s k \<equiv> val_of (spec_values s) k"

definition spec_kinds :: "(string \<times> string) list" where
  "spec_kinds =
     [(''workload'', ''workloads''), (''experiment'', ''experiments''), (''benchmark'', ''benchmarks''),
      (''matrix'', ''matrices''), (''topology'', ''topologies''), (''dataset'', ''datasets''),
      (''utility-test'', ''utility-tests''), (''utility-suite'', ''utility-suites'')]"

datatype catalog_error =
    Kind_unsupported string
  | Parent_traversal string
  | Walk_unreadable string
  | Pack_unresolved
  | Candidate_unresolved string
  | Outside_experiments string
  | Not_relative string
  | Ambiguous_spec string string "string list"
  | Spec_not_found string string
  | Spec_unreadable string
  | Spec_unparsable env_error

definition kind_root :: "pack \<Rightarrow> string \<Rightarrow> (catalog_error, string) result" where
  "kind_root pk kind =
     (case map_of spec_kinds kind of
        None \<Rightarrow> Inl (Kind_unsupported kind) | Some d \<Rightarrow> Inr (path_join [pk_root pk, d]))"

subsection \<open>Listing and resolving\<close>

definition env_files :: "pack \<Rightarrow> string \<Rightarrow> (catalog_error, string list) result" where
  "env_files pk dir =
     (case pk_walk pk dir of
        Walk_missing \<Rightarrow> Inr []
      | Walk_failed \<Rightarrow> Inl (Walk_unreadable dir)
      | Walk_files rels \<Rightarrow> Inr (filter (\<lambda>r. has_suffix r ''.env'') rels))"

definition list_specs :: "pack \<Rightarrow> string \<Rightarrow> (catalog_error, string list) result" where
  "list_specs pk kind =
     bind_r (kind_root pk kind) (\<lambda>dir.
     bind_r (env_files pk dir) (\<lambda>rels. Inr (sort (map (\<lambda>r. trim_suffix r ''.env'') rels))))"

text \<open>\<open>ListRaw\<close> sorts the file names before it cuts the extension.\<close>

definition list_specs_raw :: "pack \<Rightarrow> string \<Rightarrow> (catalog_error, string list) result" where
  "list_specs_raw pk kind =
     bind_r (kind_root pk kind) (\<lambda>dir.
     bind_r (env_files pk dir) (\<lambda>rels. Inr (map (\<lambda>r. trim_suffix r ''.env'') (sort rels))))"

definition has_parent_component :: "string \<Rightarrow> bool" where
  "has_parent_component p = (''..'' \<in> set (split_on slash p))"

definition spec_id_below :: "string \<Rightarrow> string \<Rightarrow> (catalog_error, string) result" where
  "spec_id_below dir path =
     (case path_rel dir path of
        None \<Rightarrow> Inl (Not_relative path) | Some rel \<Rightarrow> Inr (trim_suffix rel ''.env''))"

definition resolve_experiment_path :: "pack \<Rightarrow> string \<Rightarrow> (catalog_error, string \<times> string) result" where
  "resolve_experiment_path pk candidate =
     bind_r (of_option Pack_unresolved (Option.bind (path_abs (pk_cwd pk) (pk_root pk)) (pk_real pk))) (\<lambda>pack_root.
       let dir = path_join [pack_root, ''experiments'']
       in bind_r (of_option (Candidate_unresolved candidate)
             (Option.bind (path_abs (pk_cwd pk) candidate) (pk_real pk))) (\<lambda>real.
          bind_r (of_option (Not_relative real) (path_rel dir real)) (\<lambda>rel.
            if rel = ''..'' \<or> is_abs rel \<or> has_prefix rel ''../'' then Inl (Outside_experiments real)
            else Inr (dir, real))))"

text \<open>The path and the id of a file that was found.\<close>

definition located_spec :: "pack \<Rightarrow> string \<Rightarrow> string \<Rightarrow> string \<Rightarrow> (catalog_error, string \<times> string) result" where
  "located_spec pk kind dir path =
     bind_r (if kind = ''experiment'' then resolve_experiment_path pk path else Inr (dir, path)) (\<lambda>(dir', path').
     bind_r (spec_id_below dir' path') (\<lambda>sid. Inr (path', sid)))"

definition spec_candidates :: "pack \<Rightarrow> string \<Rightarrow> string \<Rightarrow> string list" where
  "spec_candidates pk dir input =
     input # (if is_abs input then []
              else [path_join [pk_root pk, input], path_join [dir, input], path_join [dir, input @ ''.env'']])"

definition resolve_spec :: "pack \<Rightarrow> string \<Rightarrow> string \<Rightarrow> (catalog_error, string \<times> string) result" where
  "resolve_spec pk kind input =
     bind_r (kind_root pk kind) (\<lambda>dir.
       if kind = ''experiment'' \<and> has_parent_component input then Inl (Parent_traversal input)
       else
         case find (\<lambda>c. pk_stat pk c = Some False) (spec_candidates pk dir input) of
           Some c \<Rightarrow> located_spec pk kind dir c
         | None \<Rightarrow>
             bind_r (list_specs pk kind) (\<lambda>ids.
               case filter (\<lambda>sid. sid = input \<or> path_base sid = input) ids of
                 [] \<Rightarrow> Inl (Spec_not_found kind input)
               | [sid] \<Rightarrow>
                   (let path = path_join [dir, sid] @ ''.env''
                    in if kind = ''experiment'' then located_spec pk kind dir path else Inr (path, sid))
               | matches \<Rightarrow> Inl (Ambiguous_spec kind input matches)))"

definition show_spec :: "pack \<Rightarrow> string \<Rightarrow> string \<Rightarrow> (catalog_error, spec) result" where
  "show_spec pk kind input =
     bind_r (resolve_spec pk kind input) (\<lambda>(path, sid).
     bind_r (of_option (Spec_unreadable path) (pk_read pk path)) (\<lambda>content.
       case parse_env content of
         Inl e \<Rightarrow> Inl (Spec_unparsable e)
       | Inr vs \<Rightarrow> Inr \<lparr>spec_kind = kind, spec_id = sid, spec_path = path, spec_values = vs\<rparr>))"

definition show_spec_raw :: "pack \<Rightarrow> string \<Rightarrow> string \<Rightarrow> (catalog_error, string) result" where
  "show_spec_raw pk kind input =
     bind_r (resolve_spec pk kind input) (\<lambda>(path, sid). of_option (Spec_unreadable path) (pk_read pk path))"

subsection \<open>Tests on values\<close>

definition one_of :: "string \<Rightarrow> string list \<Rightarrow> bool" where
  "one_of v allowed = (v \<in> set allowed)"

definition is_dynamic :: "string \<Rightarrow> bool" where
  "is_dynamic v = (CHR ''$'' \<in> set v)"

definition first_value :: "(string \<Rightarrow> string option) \<Rightarrow> string list \<Rightarrow> string" where
  "first_value m keys = (case find (\<lambda>k. val_of m k \<noteq> []) keys of None \<Rightarrow> [] | Some k \<Rightarrow> val_of m k)"

definition split_words :: "string \<Rightarrow> string list" where
  "split_words v = (if v = [] \<or> is_dynamic v then [] else str_fields v)"

definition positive_int :: "string \<Rightarrow> bool" where
  "positive_int v = (v \<noteq> [] \<and> list_all is_digit v \<and> hd v \<noteq> CHR ''0'')"

definition nonnegative_int :: "string \<Rightarrow> bool" where
  "nonnegative_int v = (v \<noteq> [] \<and> list_all is_digit v \<and> \<not> (hd v = CHR ''0'' \<and> length v > 1))"

definition bench_positive_int :: "string \<Rightarrow> bool" where
  "bench_positive_int v = (positive_int v \<and> parse_int64 v \<noteq> None)"

definition bench_positive_int_at_most :: "string \<Rightarrow> int \<Rightarrow> bool" where
  "bench_positive_int_at_most v maximum =
     (positive_int v \<and> (case parse_int64 v of None \<Rightarrow> False | Some n \<Rightarrow> n \<le> maximum))"

definition bench_nonnegative_int :: "string \<Rightarrow> bool" where
  "bench_nonnegative_int v = (nonnegative_int v \<and> parse_int64 v \<noteq> None)"

definition bench_nonnegative_uint64 :: "string \<Rightarrow> bool" where
  "bench_nonnegative_uint64 v = (nonnegative_int v \<and> parse_uint64 v \<noteq> None)"

text \<open>Digits with at most one point that is neither first nor last, and no leading zero before another digit.\<close>

definition decimal_shape :: "string \<Rightarrow> bool" where
  "decimal_shape v =
     (case cut (CHR ''.'') v of
        (whole, part, point) \<Rightarrow>
          list_all is_digit whole \<and> (point \<longrightarrow> whole \<noteq> [] \<and> part \<noteq> [] \<and> list_all is_digit part) \<and>
          \<not> (length whole > 1 \<and> hd whole = CHR ''0''))"

definition nonnegative_decimal :: "string \<Rightarrow> bool" where
  "nonnegative_decimal v =
     (v \<noteq> [] \<and> decimal_shape v \<and> (case parse_float v of None \<Rightarrow> False | Some x \<Rightarrow> f_le (Fin 0) x))"

definition positive_decimal :: "string \<Rightarrow> bool" where
  "positive_decimal v =
     (nonnegative_decimal v \<and> (case parse_float v of None \<Rightarrow> False | Some x \<Rightarrow> f_less (Fin 0) x))"

definition percentage_above_zero :: "string \<Rightarrow> bool" where
  "percentage_above_zero v =
     (case parse_float v of None \<Rightarrow> False | Some x \<Rightarrow> positive_decimal v \<and> f_le x (Fin 100))"

definition ident_start :: "char \<Rightarrow> bool" where
  "ident_start c = (is_lower c \<or> is_upper c \<or> c = CHR ''_'')"

definition simple_identifier :: "string \<Rightarrow> bool" where
  "simple_identifier v =
     (case v of [] \<Rightarrow> False | c # cs \<Rightarrow> ident_start c \<and> list_all (\<lambda>d. ident_start d \<or> is_digit d) cs)"

definition qualified_identifier :: "string \<Rightarrow> bool" where
  "qualified_identifier v =
     (let parts = split_on (CHR ''.'') v in length parts = 2 \<and> list_all simple_identifier parts)"

definition output_char :: "char \<Rightarrow> bool" where
  "output_char c = (is_alnum c \<or> c = CHR ''.'' \<or> c = CHR ''_'' \<or> c = CHR ''-'')"

definition portable_output_path :: "string \<Rightarrow> bool" where
  "portable_output_path v =
     (\<not> (v = [] \<or> is_abs v \<or> CHR 0x5C \<in> set v) \<and>
      list_all (\<lambda>c. c \<noteq> [] \<and> c \<noteq> ''.'' \<and> c \<noteq> ''..'' \<and> list_all output_char c) (split_on slash v))"

definition dir_exists :: "pack \<Rightarrow> string list \<Rightarrow> bool" where
  "dir_exists pk parts = (pk_stat pk (path_join (pk_root pk # parts)) = Some True)"

definition file_exists :: "pack \<Rightarrow> string list \<Rightarrow> bool" where
  "file_exists pk parts = (pk_stat pk (path_join (pk_root pk # parts)) = Some False)"

definition path_exists :: "pack \<Rightarrow> string \<Rightarrow> bool" where
  "path_exists pk p = (pk_stat pk (if is_abs p then p else path_join [pk_root pk, p]) = Some False)"

definition spec_exists :: "pack \<Rightarrow> string \<Rightarrow> string \<Rightarrow> bool" where
  "spec_exists pk kind input = ok (resolve_spec pk kind input)"

subsection \<open>Findings\<close>

definition spec_error :: "spec \<Rightarrow> string \<Rightarrow> string" where
  "spec_error s message = spec_kind s @ '':'' @ spec_id s @ '': '' @ message"

definition spec_issue_if :: "spec \<Rightarrow> bool \<Rightarrow> string \<Rightarrow> string list" where
  "spec_issue_if s b message = note_if b (spec_error s message)"

lemma spec_issue_if_Nil [simp]: "spec_issue_if s b message = [] \<longleftrightarrow> \<not> b"
  by (simp add: spec_issue_if_def note_if_def)

definition require_value :: "spec \<Rightarrow> string \<Rightarrow> string list" where
  "require_value s key = spec_issue_if s (spec_val s key = []) (key @ '' is required'')"

text \<open>A static value: what the reader returns, and what it reports.\<close>

definition static_value :: "spec \<Rightarrow> string \<Rightarrow> string" where
  "static_value s key = (let v = spec_val s key in if v \<noteq> [] \<and> is_dynamic v then [] else v)"

definition static_issue :: "spec \<Rightarrow> string \<Rightarrow> string list" where
  "static_issue s key =
     spec_issue_if s (spec_val s key \<noteq> [] \<and> is_dynamic (spec_val s key))
       (key @ '' must be a static value so the benchmark protocol can be digested'')"

definition required_static_issue :: "spec \<Rightarrow> string \<Rightarrow> string list" where
  "required_static_issue s key = require_value s key @ static_issue s key"

definition static_or :: "spec \<Rightarrow> string \<Rightarrow> string \<Rightarrow> string" where
  "static_or s key fallback = value_or (static_value s key) fallback"

definition utility_output_issue :: "spec \<Rightarrow> string \<Rightarrow> string list" where
  "utility_output_issue s key =
     (let v = spec_val s key
      in require_value s key @
         spec_issue_if s (v \<noteq> [] \<and> \<not> is_dynamic v \<and> \<not> portable_output_path v)
           (key @ '' must be a portable repository-relative file path: '' @ v))"

subsection \<open>Workloads and experiments\<close>

definition identifier_issue :: "spec \<Rightarrow> string \<Rightarrow> string list" where
  "identifier_issue s key =
     (let v = spec_val s key
      in spec_issue_if s (v \<noteq> [] \<and> \<not> is_dynamic v \<and> \<not> simple_identifier v)
           (key @ '' must be a simple PostgreSQL identifier: '' @ v))"

definition profile_sql_issues :: "pack \<Rightarrow> spec \<Rightarrow> string list" where
  "profile_sql_issues pk s =
     (let profile = spec_val s ''PROFILE'';
          sql = value_or (spec_val s ''WORKLOAD_SQL'') ''10_run.sql''
      in require_value s ''PROFILE'' @
         (if profile = [] then []
          else
            spec_issue_if s (\<not> dir_exists pk [''profiles'', profile]) (''PROFILE not found: '' @ profile) @
            spec_issue_if s (\<not> is_dynamic sql \<and> \<not> file_exists pk [''profiles'', profile, ''sql'', sql])
              (''profile SQL not found: profiles/'' @ profile @ ''/sql/'' @ sql)))"

definition sql_issues :: "pack \<Rightarrow> spec \<Rightarrow> string list" where
  "sql_issues pk s =
     (let path = first_value (spec_values s) [''SQL'', ''WORKLOAD_SQL'']
      in if path = [] then spec_issue_if s True ''SQL or WORKLOAD_SQL is required for WORKLOAD_KIND=sql''
         else spec_issue_if s (\<not> is_dynamic path \<and> \<not> path_exists pk path) (''SQL file not found: '' @ path))"

definition pgbench_issues :: "pack \<Rightarrow> spec \<Rightarrow> string list" where
  "pgbench_issues pk s =
     (let script = spec_val s ''PGBENCH_SCRIPT''
      in spec_issue_if s (script \<noteq> [] \<and> \<not> is_dynamic script \<and> \<not> path_exists pk script)
           (''PGBENCH_SCRIPT not found: '' @ script))"

definition dump_issues :: "spec \<Rightarrow> string list" where
  "dump_issues s = utility_output_issue s ''UTILITY_OUTPUT_FILE'' @ identifier_issue s ''UTILITY_SOURCE_SCHEMA''"

definition static_and_equal :: "string \<Rightarrow> string \<Rightarrow> bool" where
  "static_and_equal a b = (a \<noteq> [] \<and> b \<noteq> [] \<and> \<not> is_dynamic a \<and> \<not> is_dynamic b \<and> a = b)"

definition restore_issues :: "spec \<Rightarrow> string list" where
  "restore_issues s =
     utility_output_issue s ''UTILITY_OUTPUT_FILE'' @ utility_output_issue s ''UTILITY_ARCHIVE_FILE'' @
     require_value s ''UTILITY_SOURCE_SCHEMA'' @ require_value s ''UTILITY_TARGET_SCHEMA'' @
     identifier_issue s ''UTILITY_SOURCE_SCHEMA'' @ identifier_issue s ''UTILITY_TARGET_SCHEMA'' @
     spec_issue_if s (static_and_equal (spec_val s ''UTILITY_OUTPUT_FILE'') (spec_val s ''UTILITY_ARCHIVE_FILE''))
       ''UTILITY_OUTPUT_FILE and UTILITY_ARCHIVE_FILE must differ'' @
     spec_issue_if s (static_and_equal (spec_val s ''UTILITY_SOURCE_SCHEMA'') (spec_val s ''UTILITY_TARGET_SCHEMA''))
       ''UTILITY_SOURCE_SCHEMA and UTILITY_TARGET_SCHEMA must differ''"

definition source_check_issues :: "pack \<Rightarrow> spec \<Rightarrow> string list" where
  "source_check_issues pk s =
     (let action = value_or (spec_val s ''PG_SOURCE_ACTION'') ''run'';
          patchset = spec_val s ''PG_PATCHSET''; dir = spec_val s ''PG_PATCH_DIR''
      in spec_issue_if s (\<not> is_dynamic action \<and> \<not> one_of action [''plan'', ''run'', ''scan''])
           (''unsupported PG_SOURCE_ACTION: '' @ action) @
         spec_issue_if s (patchset \<noteq> [] \<and> \<not> is_dynamic patchset \<and>
                     \<not> file_exists pk [''patchsets'', patchset, ''patchset.env''])
           (''PG_PATCHSET not found: '' @ patchset) @
         spec_issue_if s (dir \<noteq> [] \<and> \<not> is_dynamic dir \<and> \<not> path_exists pk dir) (''PG_PATCH_DIR not found: '' @ dir))"

definition noisia_issues :: "spec \<Rightarrow> string list" where
  "noisia_issues s =
     (let w = spec_val s ''NOISIA_WORKLOAD''
      in require_value s ''NOISIA_WORKLOAD'' @
         spec_issue_if s (w \<noteq> [] \<and> \<not> one_of w [''wait-xacts'', ''temp-files'']) (''unsupported NOISIA_WORKLOAD: '' @ w))"

definition workload_kinds :: "string list" where
  "workload_kinds =
     [''profile-sql'', ''sql'', ''pgbench'', ''pg-dump'', ''pg-dumpall'', ''pg-restore'', ''pg-source-check'',
      ''noisia'', ''shell'', ''compose-run'']"

definition validate_workload :: "pack \<Rightarrow> spec \<Rightarrow> string list" where
  "validate_workload pk s =
     (let kind = spec_val s ''WORKLOAD_KIND''
      in require_value s ''WORKLOAD_NAME'' @ require_value s ''WORKLOAD_KIND'' @
         spec_issue_if s (kind \<noteq> [] \<and> \<not> one_of kind workload_kinds) (''unsupported WORKLOAD_KIND: '' @ kind) @
         (if kind = ''profile-sql'' then profile_sql_issues pk s
          else if kind = ''sql'' then sql_issues pk s
          else if kind = ''pgbench'' then pgbench_issues pk s
          else if kind = ''pg-dump'' \<or> kind = ''pg-dumpall'' then dump_issues s
          else if kind = ''pg-restore'' then restore_issues s
          else if kind = ''pg-source-check'' then source_check_issues pk s
          else if kind = ''noisia'' then noisia_issues s
          else if kind = ''shell'' then require_value s ''WORKLOAD_CMD''
          else if kind = ''compose-run'' then require_value s ''WORKLOAD_IMAGE'' @ require_value s ''WORKLOAD_COMMAND''
          else []))"

definition topology_names :: "string list" where
  "topology_names = [''single'', ''primary-replica'', ''logical-replication'', ''pgbouncer'', ''multi-version-upgrade'']"

text \<open>A reference to another specification that is static must resolve.\<close>

definition reference_issue :: "pack \<Rightarrow> spec \<Rightarrow> string \<Rightarrow> string \<Rightarrow> string \<Rightarrow> string list" where
  "reference_issue pk s kind what ref =
     spec_issue_if s (ref \<noteq> [] \<and> \<not> is_dynamic ref \<and> \<not> spec_exists pk kind ref) (what @ '' not found: '' @ ref)"

definition word_issues :: "spec \<Rightarrow> (string \<Rightarrow> bool) \<Rightarrow> string \<Rightarrow> string list \<Rightarrow> string list" where
  "word_issues s good what ws = concat (map (\<lambda>w. spec_issue_if s (\<not> is_dynamic w \<and> \<not> good w) (what @ w)) ws)"

text \<open>Shell hooks of a specification that does not declare them trusted.\<close>

definition trusted_shell_issues :: "spec \<Rightarrow> string \<Rightarrow> string list \<Rightarrow> string list" where
  "trusted_shell_issues s key hooks =
     (let trusted = value_or (spec_val s key) ''0'';
          present = filter (\<lambda>k. spec_val s k \<noteq> []) hooks
      in spec_issue_if s (\<not> is_dynamic trusted \<and> \<not> one_of trusted [''0'', ''1'']) (key @ '' must be 0 or 1: '' @ trusted) @
         spec_issue_if s (present \<noteq> [] \<and> \<not> is_dynamic trusted \<and> trusted \<noteq> ''1'')
           (join '', '' present @ '' require '' @ key @ ''=1''))"

definition second :: int where
  "second = 1000000000"

definition timeout_issue :: "spec \<Rightarrow> string list" where
  "timeout_issue s =
     (let timeout = spec_val s ''EXPERIMENT_TIMEOUT''
      in spec_issue_if s (timeout \<noteq> [] \<and> \<not> is_dynamic timeout \<and>
                     (case parse_duration timeout of None \<Rightarrow> True | Some d \<Rightarrow> d < second))
           (''EXPERIMENT_TIMEOUT must be a Go duration of at least 1s: '' @ timeout))"

definition validate_experiment :: "pack \<Rightarrow> spec \<Rightarrow> string list" where
  "validate_experiment pk s =
     (let topology = value_or (spec_val s ''EXPERIMENT_TOPOLOGY'') ''single'';
          config = value_or (spec_val s ''EXPERIMENT_PG_CONFIG'') ''default'';
          writer = value_or (spec_val s ''EXPERIMENT_STATE_WRITER'') ''go'';
          profile = spec_val s ''EXPERIMENT_PROFILE''
      in require_value s ''EXPERIMENT_NAME'' @
         spec_issue_if s (\<not> is_dynamic topology \<and> \<not> one_of topology (topology_names @ [''source-tree'']))
           (''unsupported EXPERIMENT_TOPOLOGY: '' @ topology) @
         spec_issue_if s (topology \<noteq> ''source-tree'' \<and> \<not> is_dynamic topology \<and> \<not> spec_exists pk ''topology'' topology)
           (''topology spec not found: '' @ topology) @
         spec_issue_if s (\<not> is_dynamic config \<and> \<not> file_exists pk [''configs'', config, ''postgresql.conf''])
           (''PostgreSQL config not found: '' @ config) @
         spec_issue_if s (\<not> is_dynamic writer \<and> \<not> one_of writer [''auto'', ''go''])
           (''unsupported EXPERIMENT_STATE_WRITER: '' @ writer) @
         timeout_issue s @
         spec_issue_if s (profile \<noteq> [] \<and> \<not> is_dynamic profile \<and> \<not> dir_exists pk [''profiles'', profile])
           (''profile not found: '' @ profile) @
         reference_issue pk s ''dataset'' ''dataset spec'' (spec_val s ''EXPERIMENT_DATASET_SPEC'') @
         reference_issue pk s ''workload'' ''workload spec'' (spec_val s ''EXPERIMENT_WORKLOAD_SPEC'') @
         word_issues s (spec_exists pk ''workload'') ''background workload spec not found: ''
           (split_words (spec_val s ''EXPERIMENT_BACKGROUND_SPECS'')) @
         word_issues s (path_exists pk) ''assert SQL file not found: ''
           (split_words (spec_val s ''EXPERIMENT_ASSERT_SQL_FILES'')) @
         trusted_shell_issues s ''EXPERIMENT_TRUSTED_SHELL''
           [''EXPERIMENT_BEFORE_SHELL'', ''EXPERIMENT_AFTER_SHELL'', ''EXPERIMENT_ASSERT_SHELL''])"

subsection \<open>Matrices, topologies, datasets and utilities\<close>

definition config_exists :: "pack \<Rightarrow> string \<Rightarrow> bool" where
  "config_exists pk config = file_exists pk [''configs'', config, ''postgresql.conf'']"

definition size_names :: "string list" where
  "size_names = [''small'', ''medium'', ''large'']"

definition repeats_issue :: "spec \<Rightarrow> string \<Rightarrow> string list" where
  "repeats_issue s key =
     (let repeats = value_or (spec_val s key) ''1''
      in spec_issue_if s (\<not> is_dynamic repeats \<and> \<not> positive_int repeats) (key @ '' must be a positive integer: '' @ repeats))"

definition flag_issue :: "spec \<Rightarrow> string \<Rightarrow> string list" where
  "flag_issue s key =
     (let v = spec_val s key
      in spec_issue_if s (v \<noteq> [] \<and> \<not> is_dynamic v \<and> \<not> one_of v [''0'', ''1'']) (key @ '' must be 0 or 1: '' @ v))"

definition size_issue :: "spec \<Rightarrow> string \<Rightarrow> string list" where
  "size_issue s key =
     (let v = value_or (spec_val s key) ''small''
      in spec_issue_if s (\<not> is_dynamic v \<and> \<not> one_of v size_names) (''unsupported '' @ key @ '': '' @ v))"

definition validate_matrix :: "pack \<Rightarrow> spec \<Rightarrow> string list" where
  "validate_matrix pk s =
     require_value s ''MATRIX_NAME'' @
     word_issues s (spec_exists pk ''experiment'') ''experiment spec not found: ''
       (split_words (value_or (spec_val s ''MATRIX_EXPERIMENTS'') ''smoke'')) @
     word_issues s (config_exists pk) ''PostgreSQL config not found: ''
       (split_words (value_or (spec_val s ''MATRIX_PG_CONFIGS'') ''default'')) @
     word_issues s (\<lambda>w. one_of w size_names) ''unsupported MATRIX_PROFILE_SIZE: ''
       (split_words (value_or (spec_val s ''MATRIX_PROFILE_SIZES'') ''small'')) @
     repeats_issue s ''MATRIX_REPEATS''"

definition validate_topology :: "spec \<Rightarrow> string list" where
  "validate_topology s =
     (let name = spec_val s ''TOPOLOGY_NAME''
      in require_value s ''TOPOLOGY_NAME'' @ require_value s ''TOPOLOGY_DESCRIPTION'' @
         spec_issue_if s (name \<noteq> [] \<and> name \<noteq> spec_id s)
           (''TOPOLOGY_NAME must match spec id '' @ go_quote (spec_id s) @ '', got '' @ go_quote name) @
         spec_issue_if s (name \<noteq> [] \<and> \<not> one_of name topology_names) (''unsupported TOPOLOGY_NAME: '' @ name))"

definition validate_dataset :: "pack \<Rightarrow> spec \<Rightarrow> string list" where
  "validate_dataset pk s =
     (let kind = spec_val s ''DATASET_KIND''; sql = spec_val s ''DATASET_SQL''; profile = spec_val s ''DATASET_PROFILE''
      in require_value s ''DATASET_NAME'' @ require_value s ''DATASET_KIND'' @
         spec_issue_if s (kind \<noteq> [] \<and> \<not> one_of kind [''sql'', ''profile'', ''pgbench'']) (''unsupported DATASET_KIND: '' @ kind) @
         (if kind = ''sql'' then
            require_value s ''DATASET_SQL'' @
            spec_issue_if s (sql \<noteq> [] \<and> \<not> is_dynamic sql \<and> \<not> path_exists pk sql) (''DATASET_SQL not found: '' @ sql)
          else if kind = ''profile'' then
            require_value s ''DATASET_PROFILE'' @
            spec_issue_if s (profile \<noteq> [] \<and> \<not> is_dynamic profile \<and> \<not> dir_exists pk [''profiles'', profile])
              (''DATASET_PROFILE not found: '' @ profile)
          else []))"

definition validate_utility_test :: "pack \<Rightarrow> spec \<Rightarrow> string list" where
  "validate_utility_test pk s =
     (let profile = spec_val s ''UTILITY_TEST_PROFILE''
      in require_value s ''UTILITY_TEST_NAME'' @ require_value s ''UTILITY_TEST_WORKLOAD_SPEC'' @
         reference_issue pk s ''workload'' ''workload spec'' (spec_val s ''UTILITY_TEST_WORKLOAD_SPEC'') @
         spec_issue_if s (profile \<noteq> [] \<and> \<not> is_dynamic profile \<and> \<not> dir_exists pk [''profiles'', profile])
           (''profile not found: '' @ profile) @
         size_issue s ''UTILITY_TEST_PROFILE_SIZE'' @
         reference_issue pk s ''dataset'' ''dataset spec'' (spec_val s ''UTILITY_TEST_DATASET_SPEC'') @
         size_issue s ''UTILITY_TEST_DATASET_SIZE'' @
         word_issues s (spec_exists pk ''workload'') ''background workload spec not found: ''
           (split_words (spec_val s ''UTILITY_TEST_BACKGROUND_SPECS'')) @
         word_issues s (path_exists pk) ''assert SQL file not found: ''
           (split_words (spec_val s ''UTILITY_TEST_ASSERT_SQL_FILES'')) @
         flag_issue s ''UTILITY_TEST_BACKGROUND_WAIT'' @ flag_issue s ''UTILITY_TEST_METRICS'' @
         trusted_shell_issues s ''UTILITY_TEST_TRUSTED_SHELL'' [''UTILITY_TEST_EXPECT_FILES'', ''UTILITY_TEST_ASSERT_SHELL''])"

definition validate_utility_suite :: "pack \<Rightarrow> spec \<Rightarrow> string list" where
  "validate_utility_suite pk s =
     require_value s ''UTILITY_SUITE_NAME'' @ require_value s ''UTILITY_SUITE_TESTS'' @
     word_issues s (spec_exists pk ''utility-test'') ''utility-test spec not found: ''
       (split_words (spec_val s ''UTILITY_SUITE_TESTS'')) @
     word_issues s (\<lambda>w. one_of w size_names) ''unsupported UTILITY_SUITE_PROFILE_SIZE: ''
       (split_words (value_or (spec_val s ''UTILITY_SUITE_PROFILE_SIZES'') ''small'')) @
     repeats_issue s ''UTILITY_SUITE_REPEATS'' @
     flag_issue s ''UTILITY_SUITE_STOP_ON_FAIL'' @ flag_issue s ''UTILITY_SUITE_SNAPSHOT''"

end
