(* ===== verification/SpecBenchmark.thy ===== *)
theory SpecBenchmark
  imports SpecCatalog
begin

section \<open>Validation of benchmark specifications\<close>

text \<open>
  The rest of \<^verbatim>\<open>internal/speccatalog/catalog.go\<close>: \<open>validateBenchmark\<close> with the controls of both contract versions,
  in the order of the source, and the dispatch over the kinds. Every declaration of a benchmark is static, so
  that the protocol planned from it can be digested.
\<close>

subsection \<open>Heading and references\<close>

definition contract_version :: "spec \<Rightarrow> string" where
  "contract_version s = static_or s ''BENCHMARK_CONTRACT_VERSION'' ''1''"

definition target_topology :: "string \<Rightarrow> string" where
  "target_topology target =
     (if target = ''direct-postgres'' then ''single'' else if target = ''pgbouncer'' then ''pgbouncer'' else [])"

definition choice_issue :: "spec \<Rightarrow> string \<Rightarrow> string list \<Rightarrow> string \<Rightarrow> string list" where
  "choice_issue s v allowed message = spec_issue_if s (v \<noteq> [] \<and> \<not> one_of v allowed) (message @ '': '' @ v)"

definition bench_heading_issues :: "spec \<Rightarrow> string list" where
  "bench_heading_issues s =
     (let class = static_or s ''BENCHMARK_CLASS'' ''measurement'';
          driver = static_or s ''BENCHMARK_DRIVER'' ''pgbench'';
          target = static_or s ''BENCHMARK_TARGET'' ''direct-postgres''
      in require_value s ''BENCHMARK_NAME'' @
         static_issue s ''BENCHMARK_CONTRACT_VERSION'' @
         choice_issue s (contract_version s) [''1'', ''2''] ''BENCHMARK_CONTRACT_VERSION must be 1 or 2'' @
         static_issue s ''BENCHMARK_CLASS'' @
         choice_issue s class [''smoke'', ''measurement''] ''BENCHMARK_CLASS must be smoke or measurement'' @
         static_issue s ''BENCHMARK_DRIVER'' @
         choice_issue s driver [''pgbench''] ''BENCHMARK_DRIVER must be pgbench'' @
         static_issue s ''BENCHMARK_TARGET'' @
         choice_issue s target [''direct-postgres'', ''pgbouncer'']
           ''BENCHMARK_TARGET must be direct-postgres or pgbouncer'')"

text \<open>The specification that a static reference shows; the zero value where there is none.\<close>

definition shown :: "pack \<Rightarrow> string \<Rightarrow> string \<Rightarrow> spec" where
  "shown pk kind ref =
     (if ref \<noteq> [] \<and> \<not> is_dynamic ref then
        (case show_spec pk kind ref of Inl _ \<Rightarrow> blank_spec | Inr found \<Rightarrow> found)
      else blank_spec)"

definition unshown :: "pack \<Rightarrow> string \<Rightarrow> string \<Rightarrow> bool" where
  "unshown pk kind ref = (ref \<noteq> [] \<and> \<not> is_dynamic ref \<and> \<not> ok (show_spec pk kind ref))"

definition bench_workload_issues :: "pack \<Rightarrow> spec \<Rightarrow> string list" where
  "bench_workload_issues pk s =
     (let ref = static_value s ''BENCHMARK_WORKLOAD_SPEC''
      in required_static_issue s ''BENCHMARK_WORKLOAD_SPEC'' @
         (if ref = [] \<or> is_dynamic ref then []
          else
            case show_spec pk ''workload'' ref of
              Inl _ \<Rightarrow> spec_issue_if s True (''workload spec not found: '' @ ref)
            | Inr w \<Rightarrow>
                spec_issue_if s (spec_val w ''WORKLOAD_KIND'' \<noteq> ''pgbench'')
                  (''BENCHMARK_WORKLOAD_SPEC must use WORKLOAD_KIND=pgbench: '' @ ref @ '' uses '' @
                   spec_val w ''WORKLOAD_KIND'') @
                concat (map (\<lambda>key.
                  spec_issue_if s (is_dynamic (spec_val w key))
                    (key @ '' in benchmark workload '' @ ref @
                     '' must be static so the benchmark protocol can be digested''))
                  [''PGBENCH_MODE'', ''PGBENCH_SCRIPT''])))"

definition bench_experiment_issues :: "pack \<Rightarrow> spec \<Rightarrow> string list" where
  "bench_experiment_issues pk s =
     (let target = static_or s ''BENCHMARK_TARGET'' ''direct-postgres'';
          ref = static_value s ''BENCHMARK_EXPERIMENT_SPEC'';
          workload_ref = static_value s ''BENCHMARK_WORKLOAD_SPEC'';
          config = static_or s ''BENCHMARK_PG_CONFIG'' ''default'';
          e = shown pk ''experiment'' ref;
          declared = value_or (spec_val e ''EXPERIMENT_TOPOLOGY'') ''single'';
          fixed_workload = spec_val e ''EXPERIMENT_WORKLOAD_SPEC'';
          fixed_config = spec_val e ''EXPERIMENT_PG_CONFIG''
      in if spec_id e = [] then []
         else
           (if is_dynamic declared
            then spec_issue_if s True (''EXPERIMENT_TOPOLOGY in benchmark experiment '' @ ref @
                   '' must be static so the target contract can be digested'')
            else spec_issue_if s (target_topology target \<noteq> [] \<and> declared \<noteq> target_topology target)
                   (''benchmark target '' @ target @ '' requires experiment topology '' @ target_topology target @
                    ''; '' @ ref @ '' declares '' @ declared)) @
           spec_issue_if s (fixed_workload \<noteq> [] \<and> \<not> is_dynamic fixed_workload \<and> workload_ref \<noteq> [] \<and> fixed_workload \<noteq> workload_ref)
             (''experiment '' @ ref @ '' fixes EXPERIMENT_WORKLOAD_SPEC='' @ fixed_workload @ ''; benchmark requests '' @ workload_ref) @
           spec_issue_if s (fixed_config \<noteq> [] \<and> \<not> is_dynamic fixed_config \<and> config \<noteq> [] \<and> fixed_config \<noteq> config)
             (''experiment '' @ ref @ '' fixes EXPERIMENT_PG_CONFIG='' @ fixed_config @ ''; benchmark requests '' @ config))"

definition bench_reference_issues :: "pack \<Rightarrow> spec \<Rightarrow> string list" where
  "bench_reference_issues pk s =
     (let ref = static_value s ''BENCHMARK_EXPERIMENT_SPEC''; config = static_or s ''BENCHMARK_PG_CONFIG'' ''default''
      in required_static_issue s ''BENCHMARK_EXPERIMENT_SPEC'' @
         spec_issue_if s (unshown pk ''experiment'' ref) (''experiment spec not found: '' @ ref) @
         bench_workload_issues pk s @
         static_issue s ''BENCHMARK_PG_CONFIG'' @
         spec_issue_if s (config \<noteq> [] \<and> \<not> config_exists pk config) (''PostgreSQL config not found: '' @ config) @
         bench_experiment_issues pk s)"

subsection \<open>Load and trials\<close>

definition bench_load_issues :: "spec \<Rightarrow> string list" where
  "bench_load_issues s =
     (let warmup = static_or s ''BENCHMARK_WARMUP_SECONDS'' ''0''
      in concat (map (\<lambda>key.
           let v = static_value s key
           in required_static_issue s key @
              spec_issue_if s (v \<noteq> [] \<and> \<not> bench_positive_int v) (key @ '' must be a positive integer: '' @ v))
           [''BENCHMARK_SCALE'', ''BENCHMARK_CLIENTS'', ''BENCHMARK_THREADS'']) @
         static_issue s ''BENCHMARK_WARMUP_SECONDS'' @
         spec_issue_if s (warmup \<noteq> [] \<and> \<not> bench_nonnegative_int warmup)
           (''BENCHMARK_WARMUP_SECONDS must be a non-negative integer: '' @ warmup))"

definition bench_mode :: "spec \<Rightarrow> string" where
  "bench_mode s = static_or s ''BENCHMARK_MODE'' ''fixed-time''"

definition length_issues :: "spec \<Rightarrow> string \<Rightarrow> string \<Rightarrow> string \<Rightarrow> string list" where
  "length_issues s mode needed other =
     (let v = static_value s needed
      in (if v = [] then spec_issue_if s True (needed @ '' is required for BENCHMARK_MODE='' @ mode)
          else spec_issue_if s (\<not> bench_positive_int v) (needed @ '' must be a positive integer: '' @ v)) @
         spec_issue_if s (static_value s other \<noteq> []) (other @ '' is incompatible with BENCHMARK_MODE='' @ mode))"

definition bench_mode_issues :: "spec \<Rightarrow> string list" where
  "bench_mode_issues s =
     static_issue s ''BENCHMARK_MODE'' @
     choice_issue s (bench_mode s) [''fixed-time'', ''fixed-transactions'']
       ''BENCHMARK_MODE must be fixed-time or fixed-transactions'' @
     static_issue s ''BENCHMARK_MEASURE_SECONDS'' @ static_issue s ''BENCHMARK_TRANSACTIONS_PER_CLIENT'' @
     (if bench_mode s = ''fixed-time''
      then length_issues s ''fixed-time'' ''BENCHMARK_MEASURE_SECONDS'' ''BENCHMARK_TRANSACTIONS_PER_CLIENT''
      else if bench_mode s = ''fixed-transactions''
      then length_issues s ''fixed-transactions'' ''BENCHMARK_TRANSACTIONS_PER_CLIENT'' ''BENCHMARK_MEASURE_SECONDS''
      else [])"

definition bench_trials :: "spec \<Rightarrow> string" where
  "bench_trials s =
     static_or s ''BENCHMARK_TRIALS''
       (if static_or s ''BENCHMARK_CLASS'' ''measurement'' = ''smoke'' then ''1'' else ''10'')"

definition bench_trial_issues :: "spec \<Rightarrow> string list" where
  "bench_trial_issues s =
     (let trials = bench_trials s; minimum = static_or s ''BENCHMARK_MIN_VALID_TRIALS'' trials
      in static_issue s ''BENCHMARK_TRIALS'' @
         spec_issue_if s (trials \<noteq> [] \<and> \<not> bench_positive_int trials) (''BENCHMARK_TRIALS must be a positive integer: '' @ trials) @
         static_issue s ''BENCHMARK_MIN_VALID_TRIALS'' @
         (if minimum \<noteq> [] \<and> \<not> bench_positive_int minimum
          then spec_issue_if s True (''BENCHMARK_MIN_VALID_TRIALS must be a positive integer: '' @ minimum)
          else spec_issue_if s (bench_positive_int trials \<and> bench_positive_int minimum \<and>
                           atoi_value minimum > atoi_value trials)
                 (''BENCHMARK_MIN_VALID_TRIALS must not exceed BENCHMARK_TRIALS: '' @ show_int (atoi_value minimum) @
                  '' > '' @ show_int (atoi_value trials))))"

definition bench_reset_issues :: "pack \<Rightarrow> spec \<Rightarrow> string list" where
  "bench_reset_issues pk s =
     (let policy = static_or s ''BENCHMARK_RESET_POLICY'' ''rebuild-per-trial'';
          w = shown pk ''workload'' (static_value s ''BENCHMARK_WORKLOAD_SPEC'')
      in static_issue s ''BENCHMARK_RESET_POLICY'' @
         choice_issue s policy [''rebuild-per-trial'', ''reuse-readonly'']
           ''BENCHMARK_RESET_POLICY must be rebuild-per-trial or reuse-readonly'' @
         spec_issue_if s (policy = ''reuse-readonly'' \<and> spec_id w \<noteq> [] \<and>
                     (spec_val w ''PGBENCH_MODE'' \<noteq> ''select-only'' \<or> spec_val w ''PGBENCH_SCRIPT'' \<noteq> []))
           ''BENCHMARK_RESET_POLICY=reuse-readonly requires a pgbench select-only workload'')"

subsection \<open>Controls\<close>

definition boundary_issues :: "spec \<Rightarrow> string \<Rightarrow> string \<Rightarrow> string \<Rightarrow> string list" where
  "boundary_issues s policy boundary managed =
     choice_issue s boundary [''none'', ''before-trial'', ''before-warmup'', ''before-measure'']
       ''unsupported BENCHMARK_STATISTICS_RESET_BOUNDARY'' @
     spec_issue_if s (policy = ''none'' \<and> boundary \<noteq> [] \<and> boundary \<noteq> ''none'' \<or> policy = managed \<and> boundary = ''none'')
       (''BENCHMARK_STATISTICS_RESET_POLICY='' @ policy @
        '' is inconsistent with BENCHMARK_STATISTICS_RESET_BOUNDARY='' @ boundary)"

definition collector_issues :: "spec \<Rightarrow> string list \<Rightarrow> string \<Rightarrow> string list" where
  "collector_issues s required version =
     (let v = static_value s ''BENCHMARK_COLLECTORS''
      in required_static_issue s ''BENCHMARK_COLLECTORS'' @
         spec_issue_if s (v \<noteq> [] \<and> sort (str_fields v) \<noteq> sort required)
           (''BENCHMARK_COLLECTORS must contain exactly '' @ join '' '' (sort required) @
            '' in benchmark protocol '' @ version))"

definition bench_interval_issues :: "spec \<Rightarrow> string list" where
  "bench_interval_issues s =
     (let v = static_value s ''BENCHMARK_COLLECTOR_INTERVAL_SECONDS''
      in required_static_issue s ''BENCHMARK_COLLECTOR_INTERVAL_SECONDS'' @
         spec_issue_if s (v \<noteq> [] \<and> \<not> bench_positive_int v)
           (''BENCHMARK_COLLECTOR_INTERVAL_SECONDS must be a positive integer: '' @ v))"

definition v2_only_keys :: "string list" where
  "v2_only_keys =
     [''BENCHMARK_CACHE_TARGET_RELATIONS'', ''BENCHMARK_CACHE_MIN_RESIDENT_PCT'', ''BENCHMARK_COLLECTOR_OVERHEAD_SAMPLES'',
      ''BENCHMARK_COLLECTOR_MAX_DUTY_CYCLE_PCT'', ''BENCHMARK_CPU_BUDGET_MILLICORES'', ''BENCHMARK_RESOURCE_BUDGET_SCOPE'',
      ''BENCHMARK_RESOURCE_ENFORCEMENT_PROVIDER'']"

definition v1_budget_issues :: "spec \<Rightarrow> string list" where
  "v1_budget_issues s =
     (let mode = static_value s ''BENCHMARK_RESOURCE_BUDGET_MODE'';
          cpu = static_value s ''BENCHMARK_CPU_BUDGET_CORES''; memory = static_value s ''BENCHMARK_MEMORY_BUDGET_MIB''
      in required_static_issue s ''BENCHMARK_RESOURCE_BUDGET_MODE'' @
         choice_issue s mode [''unbounded'', ''operator-declared'']
           ''BENCHMARK_RESOURCE_BUDGET_MODE must be unbounded or operator-declared in benchmark contract v1'' @
         static_issue s ''BENCHMARK_CPU_BUDGET_CORES'' @ static_issue s ''BENCHMARK_MEMORY_BUDGET_MIB'' @
         spec_issue_if s (mode = ''unbounded'' \<and> (cpu \<noteq> [] \<or> memory \<noteq> []))
           ''BENCHMARK_RESOURCE_BUDGET_MODE=unbounded is incompatible with CPU or memory budget values'' @
         spec_issue_if s (mode = ''operator-declared'' \<and> (cpu = [] \<or> \<not> positive_decimal cpu))
           ''BENCHMARK_RESOURCE_BUDGET_MODE=operator-declared requires positive BENCHMARK_CPU_BUDGET_CORES'' @
         spec_issue_if s (mode = ''operator-declared'' \<and> (memory = [] \<or> \<not> bench_positive_int memory))
           ''BENCHMARK_RESOURCE_BUDGET_MODE=operator-declared requires positive BENCHMARK_MEMORY_BUDGET_MIB'')"

definition controls_v1_issues :: "spec \<Rightarrow> string list" where
  "controls_v1_issues s =
     (let policy = static_value s ''BENCHMARK_STATISTICS_RESET_POLICY'';
          boundary = static_value s ''BENCHMARK_STATISTICS_RESET_BOUNDARY''
      in required_static_issue s ''BENCHMARK_CACHE_REGIME'' @
         choice_issue s (static_value s ''BENCHMARK_CACHE_REGIME'') [''uncontrolled'', ''cold'', ''warm'', ''steady'']
           ''BENCHMARK_CACHE_REGIME must be uncontrolled, cold, warm, or steady in benchmark contract v1'' @
         concat (map (\<lambda>key. static_issue s key @
           spec_issue_if s (static_value s key \<noteq> []) (key @ '' requires BENCHMARK_CONTRACT_VERSION=2'')) v2_only_keys) @
         required_static_issue s ''BENCHMARK_STATISTICS_RESET_POLICY'' @
         choice_issue s policy [''none'', ''operator-managed'']
           ''BENCHMARK_STATISTICS_RESET_POLICY must be none or operator-managed in benchmark contract v1'' @
         required_static_issue s ''BENCHMARK_STATISTICS_RESET_BOUNDARY'' @
         boundary_issues s policy boundary ''operator-managed'' @
         collector_issues s [''pgbench-driver'', ''postgresql-sampler-v1''] ''v1'' @ bench_interval_issues s @
         required_static_issue s ''BENCHMARK_COLLECTOR_OVERHEAD_MODE'' @
         choice_issue s (static_value s ''BENCHMARK_COLLECTOR_OVERHEAD_MODE'') [''included-unquantified'', ''operator-calibrated'']
           ''BENCHMARK_COLLECTOR_OVERHEAD_MODE must be included-unquantified or operator-calibrated in benchmark contract v1'' @
         v1_budget_issues s)"

text \<open>The loop over the cache targets: invalid and repeated relations.\<close>

fun relation_issues :: "spec \<Rightarrow> string list \<Rightarrow> string list \<Rightarrow> string list" where
  "relation_issues s seen [] = []"
| "relation_issues s seen (r # rs) =
     spec_issue_if s (\<not> qualified_identifier r) (''BENCHMARK_CACHE_TARGET_RELATIONS contains invalid relation: '' @ r) @
     spec_issue_if s (r \<in> set seen) (''BENCHMARK_CACHE_TARGET_RELATIONS contains duplicate relation: '' @ r) @
     relation_issues s (r # seen) rs"

definition v2_cache_issues :: "spec \<Rightarrow> string list" where
  "v2_cache_issues s =
     (let regime = static_value s ''BENCHMARK_CACHE_REGIME'';
          targets = static_value s ''BENCHMARK_CACHE_TARGET_RELATIONS'';
          minimum = static_value s ''BENCHMARK_CACHE_MIN_RESIDENT_PCT''
      in required_static_issue s ''BENCHMARK_CACHE_REGIME'' @
         choice_issue s regime [''uncontrolled'', ''postgres-shared-buffer-warm'']
           ''BENCHMARK_CACHE_REGIME must be uncontrolled or postgres-shared-buffer-warm in benchmark contract v2'' @
         static_issue s ''BENCHMARK_CACHE_TARGET_RELATIONS'' @ static_issue s ''BENCHMARK_CACHE_MIN_RESIDENT_PCT'' @
         spec_issue_if s (regime = ''uncontrolled'' \<and> (targets \<noteq> [] \<or> minimum \<noteq> []))
           ''BENCHMARK_CACHE_REGIME=uncontrolled must omit cache target relations and resident threshold'' @
         (if regime = ''postgres-shared-buffer-warm'' then
            (if str_fields targets = []
             then spec_issue_if s True ''BENCHMARK_CACHE_REGIME=postgres-shared-buffer-warm requires BENCHMARK_CACHE_TARGET_RELATIONS''
             else relation_issues s [] (str_fields targets)) @
            spec_issue_if s (\<not> percentage_above_zero minimum)
              ''BENCHMARK_CACHE_REGIME=postgres-shared-buffer-warm requires BENCHMARK_CACHE_MIN_RESIDENT_PCT in (0,100]''
          else []))"

definition v2_collector_issues :: "spec \<Rightarrow> string list" where
  "v2_collector_issues s =
     (let interval = static_value s ''BENCHMARK_COLLECTOR_INTERVAL_SECONDS'';
          overhead = static_value s ''BENCHMARK_COLLECTOR_OVERHEAD_MODE'';
          samples = static_value s ''BENCHMARK_COLLECTOR_OVERHEAD_SAMPLES'';
          duty = static_value s ''BENCHMARK_COLLECTOR_MAX_DUTY_CYCLE_PCT''
      in collector_issues s [''pgbench-driver'', ''postgresql-sampler-v2''] ''v2'' @ bench_interval_issues s @
         static_issue s ''BENCHMARK_COLLECTOR_INTERVAL_SECONDS'' @
         spec_issue_if s (interval \<noteq> [] \<and> \<not> bench_positive_int_at_most interval 3600)
           ''BENCHMARK_COLLECTOR_INTERVAL_SECONDS must be in [1,3600] for benchmark contract v2'' @
         required_static_issue s ''BENCHMARK_COLLECTOR_OVERHEAD_MODE'' @
         static_issue s ''BENCHMARK_COLLECTOR_OVERHEAD_SAMPLES'' @ static_issue s ''BENCHMARK_COLLECTOR_MAX_DUTY_CYCLE_PCT'' @
         (if overhead \<noteq> [] \<and> \<not> one_of overhead [''included-unquantified'', ''runner-calibrated-duty-cycle'']
          then spec_issue_if s True (''BENCHMARK_COLLECTOR_OVERHEAD_MODE must be included-unquantified or runner-calibrated-duty-cycle in benchmark contract v2: '' @ overhead)
          else if overhead = ''included-unquantified'' \<and> (samples \<noteq> [] \<or> duty \<noteq> [])
          then spec_issue_if s True ''included-unquantified collector overhead must omit calibration sample and duty-cycle thresholds''
          else spec_issue_if s (overhead = ''runner-calibrated-duty-cycle'' \<and>
                           (\<not> bench_positive_int_at_most samples 10000 \<or> \<not> percentage_above_zero duty))
                 ''runner-calibrated-duty-cycle requires BENCHMARK_COLLECTOR_OVERHEAD_SAMPLES in [1,10000] and BENCHMARK_COLLECTOR_MAX_DUTY_CYCLE_PCT in (0,100]''))"

definition v2_budget_issues :: "spec \<Rightarrow> string list" where
  "v2_budget_issues s =
     (let mode = static_value s ''BENCHMARK_RESOURCE_BUDGET_MODE'';
          cpu = static_value s ''BENCHMARK_CPU_BUDGET_MILLICORES''; memory = static_value s ''BENCHMARK_MEMORY_BUDGET_MIB'';
          scope = static_value s ''BENCHMARK_RESOURCE_BUDGET_SCOPE'';
          provider = static_value s ''BENCHMARK_RESOURCE_ENFORCEMENT_PROVIDER''
      in static_issue s ''BENCHMARK_CPU_BUDGET_CORES'' @
         spec_issue_if s (static_value s ''BENCHMARK_CPU_BUDGET_CORES'' \<noteq> [])
           ''BENCHMARK_CPU_BUDGET_CORES is declaration-only v1 syntax; v2 uses BENCHMARK_CPU_BUDGET_MILLICORES'' @
         required_static_issue s ''BENCHMARK_RESOURCE_BUDGET_MODE'' @
         choice_issue s mode [''unbounded'', ''runner-enforced'']
           ''BENCHMARK_RESOURCE_BUDGET_MODE must be unbounded or runner-enforced in benchmark contract v2'' @
         static_issue s ''BENCHMARK_CPU_BUDGET_MILLICORES'' @ static_issue s ''BENCHMARK_MEMORY_BUDGET_MIB'' @
         static_issue s ''BENCHMARK_RESOURCE_BUDGET_SCOPE'' @ static_issue s ''BENCHMARK_RESOURCE_ENFORCEMENT_PROVIDER'' @
         spec_issue_if s (mode = ''unbounded'' \<and> (cpu \<noteq> [] \<or> memory \<noteq> [] \<or> scope \<noteq> [] \<or> provider \<noteq> []))
           ''BENCHMARK_RESOURCE_BUDGET_MODE=unbounded must omit limits, scope, and enforcement provider'' @
         (if mode = ''runner-enforced'' then
            spec_issue_if s (\<not> bench_positive_int_at_most cpu 9223372036854 \<or> \<not> bench_positive_int_at_most memory 8796093022207)
              ''runner-enforced resource budget requires positive integer CPU millicores and memory MiB'' @
            spec_issue_if s (scope \<noteq> ''postgres-server-and-pgbench-driver'')
              ''runner-enforced BENCHMARK_RESOURCE_BUDGET_SCOPE must be postgres-server-and-pgbench-driver'' @
            spec_issue_if s (provider \<noteq> ''docker-single-container-linux-cgroup-v2'')
              ''runner-enforced BENCHMARK_RESOURCE_ENFORCEMENT_PROVIDER must be docker-single-container-linux-cgroup-v2''
          else []))"

definition controls_v2_issues :: "spec \<Rightarrow> string list" where
  "controls_v2_issues s =
     (let policy = static_value s ''BENCHMARK_STATISTICS_RESET_POLICY'';
          boundary = static_value s ''BENCHMARK_STATISTICS_RESET_BOUNDARY''
      in v2_cache_issues s @
         required_static_issue s ''BENCHMARK_STATISTICS_RESET_POLICY'' @
         choice_issue s policy [''none'', ''runner-managed'']
           ''BENCHMARK_STATISTICS_RESET_POLICY must be none or runner-managed in benchmark contract v2'' @
         required_static_issue s ''BENCHMARK_STATISTICS_RESET_BOUNDARY'' @
         boundary_issues s policy boundary ''runner-managed'' @
         v2_collector_issues s @ v2_budget_issues s)"

definition bench_control_issues :: "spec \<Rightarrow> string list" where
  "bench_control_issues s =
     (let placement = static_value s ''BENCHMARK_CLIENT_PLACEMENT''
      in (if contract_version s = ''2'' then controls_v2_issues s
          else if contract_version s = ''1'' then controls_v1_issues s else []) @
         required_static_issue s ''BENCHMARK_CLIENT_PLACEMENT'' @
         choice_issue s placement [''same-host'', ''separate-host'', ''remote-host'']
           ''BENCHMARK_CLIENT_PLACEMENT must be same-host, separate-host, or remote-host'' @
         spec_issue_if s (contract_version s = ''2'' \<and> spec_val s ''BENCHMARK_RESOURCE_BUDGET_MODE'' = ''runner-enforced'' \<and>
                     placement \<noteq> [] \<and> placement \<noteq> ''same-host'')
           ''runner-enforced Docker single-container resources require BENCHMARK_CLIENT_PLACEMENT=same-host'')"

subsection \<open>Metric, thresholds and options\<close>

definition bench_metric :: "spec \<Rightarrow> string" where
  "bench_metric s = static_or s ''BENCHMARK_PRIMARY_METRIC'' ''pgbench.tps''"

definition expected_direction :: "string \<Rightarrow> string" where
  "expected_direction metric = (if metric = ''pgbench.latency_mean_us'' then ''lower'' else ''higher'')"

definition bench_metric_issues :: "spec \<Rightarrow> string list" where
  "bench_metric_issues s =
     (let connect = static_or s ''BENCHMARK_CONNECT_PER_TRANSACTION'' ''0''; metric = bench_metric s;
          expected = expected_direction metric; direction = static_or s ''BENCHMARK_DIRECTION'' expected
      in static_issue s ''BENCHMARK_CONNECT_PER_TRANSACTION'' @
         choice_issue s connect [''0'', ''1''] ''BENCHMARK_CONNECT_PER_TRANSACTION must be 0 or 1'' @
         static_issue s ''BENCHMARK_PRIMARY_METRIC'' @
         choice_issue s metric [''pgbench.tps'', ''pgbench.latency_mean_us''] ''unsupported BENCHMARK_PRIMARY_METRIC'' @
         spec_issue_if s (connect = ''1'' \<and> metric = ''pgbench.tps'')
           ''BENCHMARK_CONNECT_PER_TRANSACTION=1 requires BENCHMARK_PRIMARY_METRIC=pgbench.latency_mean_us because reconnect TPS includes connection setup'' @
         static_issue s ''BENCHMARK_DIRECTION'' @
         (if direction \<noteq> [] \<and> \<not> one_of direction [''higher'', ''lower'']
          then spec_issue_if s True (''BENCHMARK_DIRECTION must be higher or lower: '' @ direction)
          else spec_issue_if s (direction \<noteq> [] \<and> metric \<noteq> [] \<and> direction \<noteq> expected)
                 (''BENCHMARK_DIRECTION='' @ direction @ '' is inconsistent with '' @ metric @ ''; expected '' @ expected)))"

definition decimal_issue :: "spec \<Rightarrow> string \<Rightarrow> (string \<Rightarrow> bool) \<Rightarrow> string \<Rightarrow> string list" where
  "decimal_issue s key good what =
     (let v = static_value s key
      in static_issue s key @ spec_issue_if s (v \<noteq> [] \<and> \<not> good v) (key @ '' must be a '' @ what @ '' decimal: '' @ v))"

definition bench_threshold_issues :: "spec \<Rightarrow> string list" where
  "bench_threshold_issues s =
     (let cv = static_or s ''BENCHMARK_MAX_CV_PCT'' ''10'';
          limit = static_value s ''BENCHMARK_LATENCY_LIMIT_MS'';
          budget = static_value s ''BENCHMARK_MAX_LATENCY_LIMIT_EXCEEDED_PCT''
      in static_issue s ''BENCHMARK_MAX_CV_PCT'' @
         spec_issue_if s (cv \<noteq> [] \<and> \<not> positive_decimal cv) (''BENCHMARK_MAX_CV_PCT must be a positive decimal: '' @ cv) @
         decimal_issue s ''BENCHMARK_REGRESSION_THRESHOLD_PCT'' nonnegative_decimal ''non-negative'' @
         decimal_issue s ''BENCHMARK_RATE'' positive_decimal ''positive'' @
         decimal_issue s ''BENCHMARK_LATENCY_LIMIT_MS'' positive_decimal ''positive'' @
         static_issue s ''BENCHMARK_MAX_LATENCY_LIMIT_EXCEEDED_PCT'' @
         (if budget = [] then []
          else if (case parse_float budget of None \<Rightarrow> True | Some x \<Rightarrow> \<not> nonnegative_decimal budget \<or> f_less (Fin 100) x)
          then spec_issue_if s True (''BENCHMARK_MAX_LATENCY_LIMIT_EXCEEDED_PCT must be a decimal in [0,100]: '' @ budget)
          else spec_issue_if s (limit = [])
                 ''BENCHMARK_MAX_LATENCY_LIMIT_EXCEEDED_PCT requires BENCHMARK_LATENCY_LIMIT_MS''))"

text \<open>The loop over the permitted differences; an unsupported value is not recorded as seen.\<close>

fun difference_issues :: "spec \<Rightarrow> string list \<Rightarrow> string list \<Rightarrow> string list" where
  "difference_issues s seen [] = []"
| "difference_issues s seen (d # ds) =
     (if d \<noteq> ''pg_config'' \<and> d \<noteq> ''native_toolchain''
      then spec_issue_if s True (''BENCHMARK_ALLOWED_SUBJECT_DIFFERENCES supports pg_config or native_toolchain only: '' @ d) @
           difference_issues s seen ds
      else spec_issue_if s (d \<in> set seen) (''BENCHMARK_ALLOWED_SUBJECT_DIFFERENCES contains duplicate value: '' @ d) @
           difference_issues s (d # seen) ds)"

definition bench_option_issues :: "spec \<Rightarrow> string list" where
  "bench_option_issues s =
     (let seed = static_value s ''BENCHMARK_RANDOM_SEED''; tries = static_value s ''BENCHMARK_MAX_TRIES'';
          limit = static_value s ''BENCHMARK_LATENCY_LIMIT_MS''; log = static_value s ''BENCHMARK_LOG_TRANSACTIONS'';
          rate = static_or s ''BENCHMARK_LOG_SAMPLE_RATE'' ''1''
      in static_issue s ''BENCHMARK_PROTOCOL'' @
         choice_issue s (static_or s ''BENCHMARK_PROTOCOL'' ''simple'') [''simple'', ''extended'', ''prepared'']
           ''BENCHMARK_PROTOCOL must be simple, extended, or prepared'' @
         static_issue s ''BENCHMARK_RANDOM_SEED'' @
         spec_issue_if s (seed \<noteq> [] \<and> \<not> bench_nonnegative_uint64 seed)
           (''BENCHMARK_RANDOM_SEED must be a non-negative integer: '' @ seed) @
         static_issue s ''BENCHMARK_MAX_TRIES'' @
         (if tries = [] then []
          else if \<not> bench_nonnegative_int tries
          then spec_issue_if s True (''BENCHMARK_MAX_TRIES must be a non-negative integer: '' @ tries)
          else spec_issue_if s (tries = ''0'' \<and> bench_mode s \<noteq> ''fixed-time'' \<and> limit = [])
                 ''BENCHMARK_MAX_TRIES=0 requires BENCHMARK_MODE=fixed-time or BENCHMARK_LATENCY_LIMIT_MS'') @
         static_issue s ''BENCHMARK_LOG_TRANSACTIONS'' @
         choice_issue s log [''0'', ''1''] ''BENCHMARK_LOG_TRANSACTIONS must be 0 or 1'' @
         static_issue s ''BENCHMARK_LOG_SAMPLE_RATE'' @
         spec_issue_if s (rate \<noteq> [] \<and>
             (case parse_float rate of None \<Rightarrow> True | Some x \<Rightarrow> \<not> positive_decimal rate \<or> f_less (Fin 1) x))
           (''BENCHMARK_LOG_SAMPLE_RATE must be a decimal greater than 0 and at most 1: '' @ rate) @
         static_issue s ''BENCHMARK_ALLOWED_SUBJECT_DIFFERENCES'' @
         difference_issues s [] (str_fields (static_or s ''BENCHMARK_ALLOWED_SUBJECT_DIFFERENCES'' ''pg_config'')))"

definition validate_benchmark :: "pack \<Rightarrow> spec \<Rightarrow> string list" where
  "validate_benchmark pk s =
     bench_heading_issues s @ bench_reference_issues pk s @ bench_load_issues s @ bench_mode_issues s @
     bench_trial_issues s @ bench_reset_issues pk s @ bench_control_issues s @ bench_metric_issues s @
     bench_threshold_issues s @ bench_option_issues s"

subsection \<open>All kinds\<close>

definition validate_spec :: "pack \<Rightarrow> spec \<Rightarrow> string list" where
  "validate_spec pk s =
     (let kind = spec_kind s
      in if kind = ''workload'' then validate_workload pk s
         else if kind = ''experiment'' then validate_experiment pk s
         else if kind = ''benchmark'' then validate_benchmark pk s
         else if kind = ''matrix'' then validate_matrix pk s
         else if kind = ''topology'' then validate_topology s
         else if kind = ''dataset'' then validate_dataset pk s
         else if kind = ''utility-test'' then validate_utility_test pk s
         else if kind = ''utility-suite'' then validate_utility_suite pk s
         else [''unsupported spec kind: '' @ kind])"

datatype finding = Unresolved catalog_error | Issue string

definition validate_kind :: "pack \<Rightarrow> string \<Rightarrow> string list \<Rightarrow> finding list" where
  "validate_kind pk kind ids =
     (case bind_r (if ids = [] then list_specs pk kind else Inr ids) (traverse (show_spec pk kind)) of
        Inl e \<Rightarrow> [Unresolved e]
      | Inr specs \<Rightarrow> concat (map (\<lambda>s. map Issue (validate_spec pk s)) specs))"

definition validate_catalog :: "pack \<Rightarrow> string \<Rightarrow> string list \<Rightarrow> finding list" where
  "validate_catalog pk kind ids =
     (if kind = ''all'' \<or> kind = [] then concat (map (\<lambda>(k, _). validate_kind pk k []) spec_kinds)
      else validate_kind pk kind ids)"

end
