(* ===== verification/BenchmarkPlan.thy ===== *)
theory BenchmarkPlan
  imports SpecBenchmark
begin

section \<open>Benchmark plans\<close>

text \<open>
  \<^verbatim>\<open>internal/benchmarkplan/plan.go\<close>: the plan built from a benchmark specification of the catalogue, the digests of
  its protocol, and the checks that bind a recorded plan to its digests and to the specifications it was built
  from. The fields that make up the protocol identity are the record \<open>protocol_identity\<close>; a plan extends it with
  the names, paths and digests that do not take part in the identity.
\<close>

subsection \<open>Plans\<close>

record protocol_identity =
  pi_schema_version :: string
  pi_contract_version :: string
  pi_class :: string
  pi_driver :: string
  pi_target :: string
  pi_target_endpoint_contract :: string
  pi_target_topology :: string
  pi_target_topology_digest :: string
  pi_experiment_spec :: string
  pi_experiment_digest :: string
  pi_workload_spec :: string
  pi_workload_digest :: string
  pi_workload_mode :: string
  pi_workload_script :: string
  pi_workload_script_digest :: string
  pi_pg_config :: string
  pi_pg_config_digest :: string
  pi_mode :: string
  pi_scale :: int
  pi_clients :: int
  pi_threads :: int
  pi_warmup_seconds :: int
  pi_measure_seconds :: int
  pi_transactions_per_client :: int
  pi_trials :: int
  pi_min_valid_trials :: int
  pi_reset_policy :: string
  pi_runtime_reset :: bool
  pi_cache_regime :: string
  pi_cache_target_relations :: "string list"
  pi_cache_min_resident_pct :: "f64 option"
  pi_statistics_reset_policy :: string
  pi_statistics_reset_boundary :: string
  pi_collectors :: "string list"
  pi_collector_interval_seconds :: int
  pi_collector_overhead_mode :: string
  pi_collector_overhead_samples :: "int option"
  pi_collector_max_duty_cycle_pct :: "f64 option"
  pi_client_placement :: string
  pi_resource_budget_mode :: string
  pi_cpu_budget_cores :: "f64 option"
  pi_cpu_budget_millicores :: "int option"
  pi_memory_budget_mib :: "int option"
  pi_resource_budget_scope :: string
  pi_resource_enforcement_provider :: string
  pi_resource_provider_constraints :: "string list"
  pi_primary_metric :: string
  pi_direction :: string
  pi_max_cv_pct :: f64
  pi_regression_threshold_pct :: "f64 option"
  pi_rate :: "f64 option"
  pi_latency_limit_ms :: "f64 option"
  pi_max_latency_limit_exceeded_pct :: "f64 option"
  pi_connect_per_transaction :: bool
  pi_query_protocol :: string
  pi_random_seed :: "64 word option"
  pi_random_seed_semantics :: string
  pi_warmup_random_seed :: "64 word option"
  pi_measure_random_seed :: "64 word option"
  pi_max_tries :: "int option"
  pi_log_transactions :: bool
  pi_log_sample_rate :: f64
  pi_allowed_subject_differences :: "string list"

record bench_plan = protocol_identity +
  bp_spec :: string
  bp_spec_path :: string
  bp_spec_digest :: string
  bp_name :: string
  bp_target_topology_path :: string
  bp_experiment_path :: string
  bp_workload_path :: string
  bp_pg_config_path :: string
  bp_protocol_digest :: string
  bp_comparison_key_digest :: string
definition protocol_v1 :: string where
  "protocol_v1 = ''pgworkbench.benchmark-protocol/v1''"

definition protocol_v2 :: string where
  "protocol_v2 = ''pgworkbench.benchmark-protocol/v2''"

definition target_direct :: string where
  "target_direct = ''direct-postgres''"

definition target_pgbouncer :: string where
  "target_pgbouncer = ''pgbouncer''"

definition endpoint_direct :: string where
  "endpoint_direct = ''pgworkbench.pgbench-target/direct-postgres/v1''"

definition endpoint_pgbouncer :: string where
  "endpoint_pgbouncer = ''pgworkbench.pgbench-target/pgbouncer/v1''"

definition max_collector_interval :: int where
  "max_collector_interval = 3600"

definition max_overhead_samples :: int where
  "max_overhead_samples = 10000"

definition max_cpu_millicores :: int where
  "max_cpu_millicores = max_int64 div 1000000"

definition max_memory_mib :: int where
  "max_memory_mib = max_int64 div (1024 * 1024)"

datatype plan_error =
    Catalog_error catalog_error
  | Spec_invalid "finding list"
  | Target_unsupported string
  | Path_unresolved
  | Digest_unreadable string
  | Seed_too_large
  | Target_mismatch string
  | Topology_identity
  | V1_contract_version
  | V2_contract_version
  | Schema_unsupported string
  | Placement_invalid string
  | Reconnect_throughput
  | Latency_budget
  | Unseeded_derivation
  | Seeded_derivation
  | Phase_seeds
  | Cache_regime string
  | Cache_thresholds
  | Statistics_policy string
  | Statistics_boundary string
  | Statistics_inconsistent string string
  | Collectors_unexpected "string list"
  | Collector_interval
  | Overhead_mode string
  | Overhead_thresholds
  | Budget_mode string
  | Budget_limits
  | Budget_scope
  | Budget_provider
  | Budget_placement
  | Identity_text
  | Protocol_digest_mismatched string string
  | Comparison_digest_mismatched string string
  | Declaration_mismatch string
  | Length_retained
  | Runtime_reset_mismatch
  | Workload_kind_mismatch
  | Script_digest_unexpected
  | Script_digest_missing

definition target_contract :: "string \<Rightarrow> (plan_error, string \<times> string) result" where
  "target_contract target =
     (if target = target_direct then Inr (''single'', endpoint_direct)
      else if target = target_pgbouncer then Inr (''pgbouncer'', endpoint_pgbouncer)
      else Inl (Target_unsupported target))"

subsection \<open>The identity and its digests\<close>

definition member_bool :: "string \<Rightarrow> bool \<Rightarrow> string \<times> string option" where
  "member_bool key b = (key, Some (json_bool b))"

text \<open>\<open>omitempty\<close> on an integer, on a pointer to one and on a slice.\<close>

definition member_int_set :: "string \<Rightarrow> int \<Rightarrow> (string \<times> string option) list" where
  "member_int_set key v = (if v = 0 then [] else [member_int key v])"

definition member_int_opt :: "string \<Rightarrow> int option \<Rightarrow> (string \<times> string option) list" where
  "member_int_opt key m = (case m of None \<Rightarrow> [] | Some v \<Rightarrow> [member_int key v])"

definition member_strings_set :: "string \<Rightarrow> string list \<Rightarrow> (string \<times> string option) list" where
  "member_strings_set key vs = (if vs = [] then [] else [(key, Some (json_strings vs))])"

text \<open>A slice copied by appending to a nil slice is nil again when it is empty.\<close>

definition member_strings_copy :: "string \<Rightarrow> string list \<Rightarrow> string \<times> string option" where
  "member_strings_copy key vs = (key, Some (if vs = [] then ''null'' else json_strings vs))"

definition identity_of :: "bench_plan \<Rightarrow> protocol_identity" where
  "identity_of p = protocol_identity.truncate p"

definition subject_members :: "protocol_identity \<Rightarrow> (string \<times> string option) list" where
  "subject_members i =
     [member_string ''schema_version'' (pi_schema_version i)] @
     member_set ''contract_version'' (pi_contract_version i) @
     [member_string ''class'' (pi_class i), member_string ''driver'' (pi_driver i), member_string ''target'' (pi_target i),
      member_string ''target_endpoint_contract'' (pi_target_endpoint_contract i),
      member_string ''target_topology'' (pi_target_topology i),
      member_string ''target_topology_digest'' (pi_target_topology_digest i),
      member_string ''experiment_spec'' (pi_experiment_spec i),
      member_string ''experiment_digest'' (pi_experiment_digest i),
      member_string ''workload_spec'' (pi_workload_spec i), member_string ''workload_digest'' (pi_workload_digest i),
      member_string ''workload_mode'' (pi_workload_mode i)] @
     member_set ''workload_script'' (pi_workload_script i) @
     member_set ''workload_script_digest'' (pi_workload_script_digest i) @
     [member_string ''pg_config'' (pi_pg_config i), member_string ''pg_config_digest'' (pi_pg_config_digest i)]"

definition load_members :: "protocol_identity \<Rightarrow> (string \<times> string option) list" where
  "load_members i =
     [member_string ''mode'' (pi_mode i), member_int ''scale'' (pi_scale i), member_int ''clients'' (pi_clients i),
      member_int ''threads'' (pi_threads i), member_int ''warmup_seconds'' (pi_warmup_seconds i)] @
     member_int_set ''measure_seconds'' (pi_measure_seconds i) @
     member_int_set ''transactions_per_client'' (pi_transactions_per_client i) @
     [member_int ''trials'' (pi_trials i), member_int ''min_valid_trials'' (pi_min_valid_trials i),
      member_string ''reset_policy'' (pi_reset_policy i), member_bool ''runtime_reset'' (pi_runtime_reset i)]"

definition control_members :: "protocol_identity \<Rightarrow> (string \<times> string option) list" where
  "control_members i =
     [member_string ''cache_regime'' (pi_cache_regime i)] @
     member_strings_set ''cache_target_relations'' (pi_cache_target_relations i) @
     member_float ''cache_min_resident_pct'' (pi_cache_min_resident_pct i) @
     [member_string ''statistics_reset_policy'' (pi_statistics_reset_policy i),
      member_string ''statistics_reset_boundary'' (pi_statistics_reset_boundary i),
      member_strings_copy ''collectors'' (pi_collectors i),
      member_int ''collector_interval_seconds'' (pi_collector_interval_seconds i),
      member_string ''collector_overhead_mode'' (pi_collector_overhead_mode i)] @
     member_int_opt ''collector_overhead_samples'' (pi_collector_overhead_samples i) @
     member_float ''collector_max_duty_cycle_pct'' (pi_collector_max_duty_cycle_pct i) @
     [member_string ''client_placement'' (pi_client_placement i),
      member_string ''resource_budget_mode'' (pi_resource_budget_mode i)] @
     member_float ''cpu_budget_cores'' (pi_cpu_budget_cores i) @
     member_int_opt ''cpu_budget_millicores'' (pi_cpu_budget_millicores i) @
     member_int_opt ''memory_budget_mib'' (pi_memory_budget_mib i) @
     member_set ''resource_budget_scope'' (pi_resource_budget_scope i) @
     member_set ''resource_enforcement_provider'' (pi_resource_enforcement_provider i) @
     member_strings_set ''resource_provider_constraints'' (pi_resource_provider_constraints i)"

definition measure_members :: "protocol_identity \<Rightarrow> (string \<times> string option) list" where
  "measure_members i =
     [member_string ''primary_metric'' (pi_primary_metric i), member_string ''direction'' (pi_direction i),
      (''max_cv_pct'', json_float (pi_max_cv_pct i))] @
     member_float ''regression_threshold_pct'' (pi_regression_threshold_pct i) @
     member_float ''rate'' (pi_rate i) @ member_float ''latency_limit_ms'' (pi_latency_limit_ms i) @
     member_float ''max_latency_limit_exceeded_pct'' (pi_max_latency_limit_exceeded_pct i) @
     [member_bool ''connect_per_transaction'' (pi_connect_per_transaction i),
      member_string ''query_protocol'' (pi_query_protocol i)] @
     member_uint ''random_seed'' (pi_random_seed i) @
     [member_string ''random_seed_semantics'' (pi_random_seed_semantics i)] @
     member_uint ''warmup_random_seed'' (pi_warmup_random_seed i) @
     member_uint ''measure_random_seed'' (pi_measure_random_seed i) @
     member_int_opt ''max_tries'' (pi_max_tries i) @
     [member_bool ''log_transactions'' (pi_log_transactions i), (''log_sample_rate'', json_float (pi_log_sample_rate i)),
      member_strings_copy ''allowed_subject_differences'' (pi_allowed_subject_differences i)]"

definition identity_members :: "protocol_identity \<Rightarrow> (string \<times> string option) list" where
  "identity_members i = subject_members i @ load_members i @ control_members i @ measure_members i"

definition identity_json :: "protocol_identity \<Rightarrow> string option" where
  "identity_json i = json_object_opt (identity_members i)"

definition without_config :: "protocol_identity \<Rightarrow> protocol_identity" where
  "without_config i = i\<lparr>pi_pg_config := [], pi_pg_config_digest := []\<rparr>"

definition plan_digest_json :: "string option \<Rightarrow> (plan_error, string) result" where
  "plan_digest_json m = (case m of None \<Rightarrow> Inl Identity_text | Some t \<Rightarrow> Inr (digest_bytes t))"

definition identity_digests :: "bench_plan \<Rightarrow> (plan_error, string \<times> string) result" where
  "identity_digests p =
     bind_r (plan_digest_json (identity_json (identity_of p))) (\<lambda>protocol.
     bind_r (plan_digest_json (identity_json (without_config (identity_of p)))) (\<lambda>comparison.
       Inr (protocol, comparison)))"

subsection \<open>Declarations\<close>

definition qualified_relation :: "string \<Rightarrow> bool" where
  "qualified_relation v =
     (let parts = split_on (CHR ''.'') v
      in length parts = 2 \<and>
         list_all (\<lambda>p. p \<noteq> [] \<and>
           list_all (\<lambda>(i, c). is_lower c \<or> is_upper c \<or> c = CHR ''_'' \<or> i > 0 \<and> is_digit c) (enumerate 0 p)) parts)"

fun sorted_unique_nonempty :: "string list \<Rightarrow> bool" where
  "sorted_unique_nonempty [] = True"
| "sorted_unique_nonempty [v] = qualified_relation v"
| "sorted_unique_nonempty (v # w # vs) = (qualified_relation v \<and> v < w \<and> sorted_unique_nonempty (w # vs))"

text \<open>A finite number in \<open>(0, 100]\<close>.\<close>

definition above_zero_pct :: "f64 \<Rightarrow> bool" where
  "above_zero_pct x = (\<not> (\<not> f_finite x \<or> f_le x (Fin 0) \<or> f_less (Fin 100) x))"

definition check_statistics :: "bench_plan \<Rightarrow> string \<Rightarrow> (plan_error, unit) result" where
  "check_statistics p managed =
     (let policy = pi_statistics_reset_policy p; boundary = pi_statistics_reset_boundary p
      in if \<not> one_of policy [''none'', managed] then Inl (Statistics_policy policy)
         else if \<not> one_of boundary [''none'', ''before-trial'', ''before-warmup'', ''before-measure'']
         then Inl (Statistics_boundary boundary)
         else require (\<not> (policy = ''none'' \<and> boundary \<noteq> ''none'' \<or> policy = managed \<and> boundary = ''none''))
           (Statistics_inconsistent policy boundary))"

definition check_v1_budget :: "bench_plan \<Rightarrow> (plan_error, unit) result" where
  "check_v1_budget p =
     (if \<not> one_of (pi_resource_budget_mode p) [''unbounded'', ''operator-declared'']
      then Inl (Budget_mode (pi_resource_budget_mode p))
      else if pi_resource_budget_mode p = ''unbounded'' then
        require (\<not> (pi_cpu_budget_cores p \<noteq> None \<or> pi_cpu_budget_millicores p \<noteq> None \<or> pi_memory_budget_mib p \<noteq> None \<or>
            pi_resource_budget_scope p \<noteq> [] \<or> pi_resource_enforcement_provider p \<noteq> [] \<or>
            pi_resource_provider_constraints p \<noteq> [])) Budget_limits
      else if pi_cpu_budget_millicores p \<noteq> None \<or> pi_resource_budget_scope p \<noteq> [] \<or>
              pi_resource_enforcement_provider p \<noteq> [] \<or> pi_resource_provider_constraints p \<noteq> []
      then Inl Budget_scope
      else if (case pi_cpu_budget_cores p of None \<Rightarrow> True | Some x \<Rightarrow> \<not> f_finite x \<or> f_le x (Fin 0)) then Inl Budget_limits
      else require (\<not> (case pi_memory_budget_mib p of None \<Rightarrow> True | Some n \<Rightarrow> n \<le> 0)) Budget_limits)"

definition validate_v1_controls :: "bench_plan \<Rightarrow> (plan_error, unit) result" where
  "validate_v1_controls p =
     (if \<not> one_of (pi_cache_regime p) [''uncontrolled'', ''cold'', ''warm'', ''steady'']
      then Inl (Cache_regime (pi_cache_regime p))
      else if pi_cache_target_relations p \<noteq> [] \<or> pi_cache_min_resident_pct p \<noteq> None then Inl Cache_thresholds
      else
        bind_r (check_statistics p ''operator-managed'') (\<lambda>_.
        if pi_collectors p \<noteq> [''pgbench-driver'', ''postgresql-sampler-v1'']
        then Inl (Collectors_unexpected (pi_collectors p))
        else if pi_collector_interval_seconds p \<le> 0 then Inl Collector_interval
        else if \<not> one_of (pi_collector_overhead_mode p) [''included-unquantified'', ''operator-calibrated'']
        then Inl (Overhead_mode (pi_collector_overhead_mode p))
        else if pi_collector_overhead_samples p \<noteq> None \<or> pi_collector_max_duty_cycle_pct p \<noteq> None
        then Inl Overhead_thresholds
        else check_v1_budget p))"

definition provider_constraints :: "string list" where
  "provider_constraints =
     [''cgroup-v2-required'', ''docker-engine-required'', ''linux-only'', ''postgres-and-driver-share-one-container'']"

definition docker_provider :: string where
  "docker_provider = ''docker-single-container-linux-cgroup-v2''"

definition check_cache_v2 :: "bench_plan \<Rightarrow> (plan_error, unit) result" where
  "check_cache_v2 p =
     (if \<not> one_of (pi_cache_regime p) [''uncontrolled'', ''postgres-shared-buffer-warm'']
      then Inl (Cache_regime (pi_cache_regime p))
      else if pi_cache_regime p = ''uncontrolled''
      then require (\<not> (pi_cache_target_relations p \<noteq> [] \<or> pi_cache_min_resident_pct p \<noteq> None)) Cache_thresholds
      else if pi_cache_target_relations p = [] \<or> \<not> sorted_unique_nonempty (pi_cache_target_relations p)
      then Inl Cache_thresholds
      else require (case pi_cache_min_resident_pct p of None \<Rightarrow> False | Some x \<Rightarrow> above_zero_pct x) Cache_thresholds)"

definition check_overhead_v2 :: "bench_plan \<Rightarrow> (plan_error, unit) result" where
  "check_overhead_v2 p =
     (if \<not> one_of (pi_collector_overhead_mode p) [''included-unquantified'', ''runner-calibrated-duty-cycle'']
      then Inl (Overhead_mode (pi_collector_overhead_mode p))
      else if pi_collector_overhead_mode p = ''included-unquantified''
      then require (\<not> (pi_collector_overhead_samples p \<noteq> None \<or> pi_collector_max_duty_cycle_pct p \<noteq> None)) Overhead_thresholds
      else require
        ((case pi_collector_overhead_samples p of None \<Rightarrow> False | Some n \<Rightarrow> 0 < n \<and> n \<le> max_overhead_samples) \<and>
         (case pi_collector_max_duty_cycle_pct p of None \<Rightarrow> False | Some x \<Rightarrow> above_zero_pct x)) Overhead_thresholds)"

definition check_budget_v2 :: "bench_plan \<Rightarrow> (plan_error, unit) result" where
  "check_budget_v2 p =
     (if \<not> one_of (pi_resource_budget_mode p) [''unbounded'', ''runner-enforced'']
      then Inl (Budget_mode (pi_resource_budget_mode p))
      else if pi_resource_budget_mode p = ''unbounded'' then
        require (\<not> (pi_cpu_budget_millicores p \<noteq> None \<or> pi_memory_budget_mib p \<noteq> None \<or> pi_resource_budget_scope p \<noteq> [] \<or>
            pi_resource_enforcement_provider p \<noteq> [] \<or> pi_resource_provider_constraints p \<noteq> [])) Budget_limits
      else if \<not> (case pi_cpu_budget_millicores p of None \<Rightarrow> False | Some n \<Rightarrow> 0 < n \<and> n \<le> max_cpu_millicores) \<or>
              \<not> (case pi_memory_budget_mib p of None \<Rightarrow> False | Some n \<Rightarrow> 0 < n \<and> n \<le> max_memory_mib)
      then Inl Budget_limits
      else if pi_resource_budget_scope p \<noteq> ''postgres-server-and-pgbench-driver'' then Inl Budget_scope
      else if pi_resource_enforcement_provider p \<noteq> docker_provider \<or> pi_resource_provider_constraints p \<noteq> provider_constraints
      then Inl Budget_provider
      else require (pi_client_placement p = ''same-host'') Budget_placement)"

definition validate_v2_controls :: "bench_plan \<Rightarrow> (plan_error, unit) result" where
  "validate_v2_controls p =
     bind_r (check_cache_v2 p) (\<lambda>_.
     bind_r (check_statistics p ''runner-managed'') (\<lambda>_.
       if pi_collectors p \<noteq> [''pgbench-driver'', ''postgresql-sampler-v2'']
       then Inl (Collectors_unexpected (pi_collectors p))
       else if pi_collector_interval_seconds p \<le> 0 \<or> pi_collector_interval_seconds p > max_collector_interval
       then Inl Collector_interval
       else
         bind_r (check_overhead_v2 p) (\<lambda>_.
           if pi_cpu_budget_cores p \<noteq> None then Inl Budget_limits else check_budget_v2 p)))"

text \<open>The seeds of the two phases, in unsigned 64-bit arithmetic.\<close>

definition max_seed :: "64 word" where
  "max_seed = word_of_int max_int64"

definition warmup_seed :: "64 word \<Rightarrow> 64 word" where
  "warmup_seed seed = (if seed = max_seed then 0 else seed + 1)"

definition check_seeds :: "bench_plan \<Rightarrow> (plan_error, unit) result" where
  "check_seeds p =
     (case pi_random_seed p of
        None \<Rightarrow>
          require (\<not> (pi_random_seed_semantics p \<noteq> ''client-random-default'' \<or> pi_warmup_random_seed p \<noteq> None \<or>
              pi_measure_random_seed p \<noteq> None)) Unseeded_derivation
      | Some seed \<Rightarrow>
          (case (pi_warmup_random_seed p, pi_measure_random_seed p) of
             (Some w, Some m) \<Rightarrow>
               if seed > max_seed \<or> pi_random_seed_semantics p \<noteq> ''phase-split-offset-v1'' then Inl Seeded_derivation
               else require (\<not> (m \<noteq> seed \<or> w \<noteq> warmup_seed seed)) Phase_seeds
           | _ \<Rightarrow> Inl Seeded_derivation))"

definition check_target :: "bench_plan \<Rightarrow> (plan_error, unit) result" where
  "check_target p =
     bind_r (target_contract (pi_target p)) (\<lambda>(topology, endpoint).
       if pi_target_topology p \<noteq> topology \<or> pi_target_endpoint_contract p \<noteq> endpoint then Inl (Target_mismatch (pi_target p))
       else
         let want = path_join [''topologies'', topology @ ''.env''];
             actual = (if is_abs (bp_target_topology_path p)
                       then path_join [''topologies'', path_base (bp_target_topology_path p)]
                       else bp_target_topology_path p)
         in require (\<not> (actual \<noteq> want \<or> \<not> is_digest (pi_target_topology_digest p))) Topology_identity)"

definition check_contract :: "bench_plan \<Rightarrow> (plan_error, unit) result" where
  "check_contract p =
     (if pi_schema_version p = protocol_v1 then
        (if pi_contract_version p \<noteq> [] then Inl V1_contract_version else validate_v1_controls p)
      else if pi_schema_version p = protocol_v2 then
        (if pi_contract_version p \<noteq> ''2'' then Inl V2_contract_version else validate_v2_controls p)
      else Inl (Schema_unsupported (pi_schema_version p)))"

definition validate_declarations :: "bench_plan \<Rightarrow> (plan_error, unit) result" where
  "validate_declarations p =
     bind_r (check_target p) (\<lambda>_.
     bind_r (check_contract p) (\<lambda>_.
       if \<not> one_of (pi_client_placement p) [''same-host'', ''separate-host'', ''remote-host'']
       then Inl (Placement_invalid (pi_client_placement p))
       else if pi_connect_per_transaction p \<and> pi_primary_metric p = ''pgbench.tps'' then Inl Reconnect_throughput
       else if (case pi_max_latency_limit_exceeded_pct p of
                  None \<Rightarrow> False
                | Some x \<Rightarrow> pi_latency_limit_ms p = None \<or> \<not> f_finite x \<or> f_less x (Fin 0) \<or> f_less (Fin 100) x)
       then Inl Latency_budget
       else check_seeds p))"

definition verify_digests :: "bench_plan \<Rightarrow> (plan_error, unit) result" where
  "verify_digests p =
     bind_r (validate_declarations p) (\<lambda>_.
     bind_r (identity_digests p) (\<lambda>(protocol, comparison).
       if protocol \<noteq> bp_protocol_digest p then Inl (Protocol_digest_mismatched (bp_protocol_digest p) protocol)
       else require (comparison = bp_comparison_key_digest p)
         (Comparison_digest_mismatched (bp_comparison_key_digest p) comparison)))"

subsection \<open>Building a plan\<close>

definition int_or :: "string \<Rightarrow> int \<Rightarrow> int" where
  "int_or v fallback = (if v = [] then fallback else atoi_value v)"

definition float_or :: "string \<Rightarrow> f64 \<Rightarrow> f64" where
  "float_or v fallback = (if v = [] then fallback else float_value v)"

definition optional_float :: "string \<Rightarrow> f64 option" where
  "optional_float v = (if v = [] then None else Some (float_value v))"

definition optional_int :: "string \<Rightarrow> int option" where
  "optional_int v = (if v = [] then None else Some (atoi_value v))"

definition optional_uint64 :: "string \<Rightarrow> 64 word option" where
  "optional_uint64 v = (if v = [] then None else Some (uint_value v))"

definition bool_or :: "string \<Rightarrow> bool \<Rightarrow> bool" where
  "bool_or v fallback = (if v = [] then fallback else v = ''1'')"

definition digest_of :: "pack \<Rightarrow> string \<Rightarrow> (plan_error, string) result" where
  "digest_of pk path =
     (case pk_read pk path of None \<Rightarrow> Inl (Digest_unreadable path) | Some content \<Rightarrow> Inr (digest_bytes content))"

definition resolve_path :: "string \<Rightarrow> string \<Rightarrow> string" where
  "resolve_path root_dir v = (if is_abs v then v else path_join [root_dir, v])"

text \<open>The two phase seeds and the name of their derivation.\<close>

definition split_seed :: "64 word option \<Rightarrow> (plan_error, 64 word option \<times> 64 word option \<times> string) result" where
  "split_seed m =
     (case m of
        None \<Rightarrow> Inr (None, None, ''client-random-default'')
      | Some seed \<Rightarrow>
          if seed > max_seed then Inl Seed_too_large
          else Inr (Some (warmup_seed seed), Some seed, ''phase-split-offset-v1''))"

definition show_for_plan :: "pack \<Rightarrow> string \<Rightarrow> string \<Rightarrow> (plan_error, spec) result" where
  "show_for_plan pk kind ref =
     (case show_spec pk kind ref of Inl e \<Rightarrow> Inl (Catalog_error e) | Inr s \<Rightarrow> Inr s)"

text \<open>The fields that the declarations determine; digests are filled in later.\<close>

definition default_trials :: "string \<Rightarrow> int" where
  "default_trials class = (if class = ''smoke'' then 1 else 10)"

definition planned_fields ::
  "pack \<Rightarrow> spec \<Rightarrow> string \<times> string \<Rightarrow> string \<Rightarrow> spec \<Rightarrow> spec \<Rightarrow> string \<Rightarrow>
     64 word option \<times> 64 word option \<times> string \<Rightarrow> bench_plan" where
  "planned_fields pk s contract topology_path e w script_digest seeds =
     (let vs = val_of (spec_values s);
          version2 = (value_or (vs ''BENCHMARK_CONTRACT_VERSION'') ''1'' = ''2'');
          class = value_or (vs ''BENCHMARK_CLASS'') ''measurement'';
          config = value_or (vs ''BENCHMARK_PG_CONFIG'') ''default'';
          mode = value_or (vs ''BENCHMARK_MODE'') ''fixed-time'';
          trials = int_or (vs ''BENCHMARK_TRIALS'') (default_trials class);
          metric = value_or (vs ''BENCHMARK_PRIMARY_METRIC'') ''pgbench.tps'';
          policy = value_or (vs ''BENCHMARK_RESET_POLICY'') ''rebuild-per-trial''
      in \<lparr>pi_schema_version = (if version2 then protocol_v2 else protocol_v1),
          pi_contract_version = (if version2 then ''2'' else []),
          pi_class = class,
          pi_driver = value_or (vs ''BENCHMARK_DRIVER'') ''pgbench'',
          pi_target = value_or (vs ''BENCHMARK_TARGET'') target_direct,
          pi_target_endpoint_contract = snd contract,
          pi_target_topology = fst contract,
          pi_target_topology_digest = [],
          pi_experiment_spec = spec_id e,
          pi_experiment_digest = [],
          pi_workload_spec = spec_id w,
          pi_workload_digest = [],
          pi_workload_mode = value_or (spec_val w ''PGBENCH_MODE'') ''builtin'',
          pi_workload_script = spec_val w ''PGBENCH_SCRIPT'',
          pi_workload_script_digest = script_digest,
          pi_pg_config = config,
          pi_pg_config_digest = [],
          pi_mode = mode,
          pi_scale = int_or (vs ''BENCHMARK_SCALE'') 0,
          pi_clients = int_or (vs ''BENCHMARK_CLIENTS'') 0,
          pi_threads = int_or (vs ''BENCHMARK_THREADS'') 0,
          pi_warmup_seconds = int_or (vs ''BENCHMARK_WARMUP_SECONDS'') 0,
          pi_measure_seconds = (if mode = ''fixed-time'' then int_or (vs ''BENCHMARK_MEASURE_SECONDS'') 0 else 0),
          pi_transactions_per_client =
            (if mode = ''fixed-time'' then 0 else int_or (vs ''BENCHMARK_TRANSACTIONS_PER_CLIENT'') 0),
          pi_trials = trials,
          pi_min_valid_trials = int_or (vs ''BENCHMARK_MIN_VALID_TRIALS'') trials,
          pi_reset_policy = policy,
          pi_runtime_reset = (policy = ''rebuild-per-trial''),
          pi_cache_regime = vs ''BENCHMARK_CACHE_REGIME'',
          pi_cache_target_relations = sort (str_fields (vs ''BENCHMARK_CACHE_TARGET_RELATIONS'')),
          pi_cache_min_resident_pct = optional_float (vs ''BENCHMARK_CACHE_MIN_RESIDENT_PCT''),
          pi_statistics_reset_policy = vs ''BENCHMARK_STATISTICS_RESET_POLICY'',
          pi_statistics_reset_boundary = vs ''BENCHMARK_STATISTICS_RESET_BOUNDARY'',
          pi_collectors = sort (str_fields (vs ''BENCHMARK_COLLECTORS'')),
          pi_collector_interval_seconds = int_or (vs ''BENCHMARK_COLLECTOR_INTERVAL_SECONDS'') 0,
          pi_collector_overhead_mode = vs ''BENCHMARK_COLLECTOR_OVERHEAD_MODE'',
          pi_collector_overhead_samples = optional_int (vs ''BENCHMARK_COLLECTOR_OVERHEAD_SAMPLES''),
          pi_collector_max_duty_cycle_pct = optional_float (vs ''BENCHMARK_COLLECTOR_MAX_DUTY_CYCLE_PCT''),
          pi_client_placement = vs ''BENCHMARK_CLIENT_PLACEMENT'',
          pi_resource_budget_mode = vs ''BENCHMARK_RESOURCE_BUDGET_MODE'',
          pi_cpu_budget_cores = optional_float (vs ''BENCHMARK_CPU_BUDGET_CORES''),
          pi_cpu_budget_millicores = optional_int (vs ''BENCHMARK_CPU_BUDGET_MILLICORES''),
          pi_memory_budget_mib = optional_int (vs ''BENCHMARK_MEMORY_BUDGET_MIB''),
          pi_resource_budget_scope = vs ''BENCHMARK_RESOURCE_BUDGET_SCOPE'',
          pi_resource_enforcement_provider = vs ''BENCHMARK_RESOURCE_ENFORCEMENT_PROVIDER'',
          pi_resource_provider_constraints =
            (if vs ''BENCHMARK_RESOURCE_ENFORCEMENT_PROVIDER'' = docker_provider then provider_constraints else []),
          pi_primary_metric = metric,
          pi_direction = value_or (vs ''BENCHMARK_DIRECTION'')
            (if metric = ''pgbench.latency_mean_us'' then ''lower'' else ''higher''),
          pi_max_cv_pct = float_or (vs ''BENCHMARK_MAX_CV_PCT'') (Fin 10),
          pi_regression_threshold_pct = optional_float (vs ''BENCHMARK_REGRESSION_THRESHOLD_PCT''),
          pi_rate = optional_float (vs ''BENCHMARK_RATE''),
          pi_latency_limit_ms = optional_float (vs ''BENCHMARK_LATENCY_LIMIT_MS''),
          pi_max_latency_limit_exceeded_pct = optional_float (vs ''BENCHMARK_MAX_LATENCY_LIMIT_EXCEEDED_PCT''),
          pi_connect_per_transaction = bool_or (vs ''BENCHMARK_CONNECT_PER_TRANSACTION'') False,
          pi_query_protocol = value_or (vs ''BENCHMARK_PROTOCOL'') ''simple'',
          pi_random_seed = optional_uint64 (vs ''BENCHMARK_RANDOM_SEED''),
          pi_random_seed_semantics = snd (snd seeds),
          pi_warmup_random_seed = fst seeds,
          pi_measure_random_seed = fst (snd seeds),
          pi_max_tries = optional_int (vs ''BENCHMARK_MAX_TRIES''),
          pi_log_transactions = bool_or (vs ''BENCHMARK_LOG_TRANSACTIONS'') (class = ''measurement''),
          pi_log_sample_rate = float_or (vs ''BENCHMARK_LOG_SAMPLE_RATE'') (Fin 1),
          pi_allowed_subject_differences =
            sort (str_fields (value_or (vs ''BENCHMARK_ALLOWED_SUBJECT_DIFFERENCES'') ''pg_config'')),
          bp_spec = spec_id s,
          bp_spec_path = spec_path s,
          bp_spec_digest = [],
          bp_name = vs ''BENCHMARK_NAME'',
          bp_target_topology_path = topology_path,
          bp_experiment_path = spec_path e,
          bp_workload_path = spec_path w,
          bp_pg_config_path = path_join [pk_root pk, ''configs'', config, ''postgresql.conf''],
          bp_protocol_digest = [],
          bp_comparison_key_digest = []\<rparr>)"

text \<open>The digests of the five files a plan depends on.\<close>

definition digest_files :: "pack \<Rightarrow> bench_plan \<Rightarrow> (plan_error, bench_plan) result" where
  "digest_files pk p =
     bind_r (digest_of pk (bp_spec_path p)) (\<lambda>spec_digest.
     bind_r (digest_of pk (bp_experiment_path p)) (\<lambda>experiment_digest.
     bind_r (digest_of pk (bp_workload_path p)) (\<lambda>workload_digest.
     bind_r (digest_of pk (bp_pg_config_path p)) (\<lambda>config_digest.
     bind_r (digest_of pk (bp_target_topology_path p)) (\<lambda>topology_digest.
       Inr (p\<lparr>bp_spec_digest := spec_digest, pi_experiment_digest := experiment_digest,
             pi_workload_digest := workload_digest, pi_pg_config_digest := config_digest,
             pi_target_topology_digest := topology_digest\<rparr>))))))"

definition seal_plan :: "bench_plan \<Rightarrow> (plan_error, bench_plan) result" where
  "seal_plan p =
     bind_r (validate_declarations p) (\<lambda>_.
     bind_r (identity_digests p) (\<lambda>(protocol, comparison).
       Inr (p\<lparr>bp_protocol_digest := protocol, bp_comparison_key_digest := comparison\<rparr>)))"

definition plan_of_spec :: "pack \<Rightarrow> spec \<Rightarrow> (plan_error, bench_plan) result" where
  "plan_of_spec pk s =
     bind_r (target_contract (value_or (spec_val s ''BENCHMARK_TARGET'') target_direct)) (\<lambda>contract.
     bind_r (of_option Path_unresolved
        (path_abs (pk_cwd pk) (path_join [pk_root pk, ''topologies'', fst contract @ ''.env'']))) (\<lambda>topology_path.
     bind_r (show_for_plan pk ''experiment'' (spec_val s ''BENCHMARK_EXPERIMENT_SPEC'')) (\<lambda>e.
     bind_r (show_for_plan pk ''workload'' (spec_val s ''BENCHMARK_WORKLOAD_SPEC'')) (\<lambda>w.
     bind_r (if spec_val w ''PGBENCH_SCRIPT'' = [] then Inr []
             else digest_of pk (resolve_path (pk_root pk) (spec_val w ''PGBENCH_SCRIPT''))) (\<lambda>script_digest.
     bind_r (split_seed (optional_uint64 (spec_val s ''BENCHMARK_RANDOM_SEED''))) (\<lambda>seeds.
     bind_r (digest_files pk (planned_fields pk s contract topology_path e w script_digest seeds)) seal_plan))))))"

text \<open>\<open>Build\<close>. The specification is validated by its id, which the catalogue resolves once more.\<close>

definition build_plan :: "pack \<Rightarrow> string \<Rightarrow> (plan_error, bench_plan) result" where
  "build_plan pk input =
     bind_r (show_for_plan pk ''benchmark'' input) (\<lambda>s.
       let findings = validate_catalog pk ''benchmark'' [spec_id s]
       in if findings \<noteq> [] then Inl (Spec_invalid findings) else plan_of_spec pk s)"

subsection \<open>Binding a plan to its specifications\<close>

definition declaration_value :: "(string \<Rightarrow> string) \<Rightarrow> string \<Rightarrow> string \<Rightarrow> string" where
  "declaration_value vs key fallback = (if vs key = [] then fallback else vs key)"

definition string_default :: "string \<Rightarrow> bench_plan \<Rightarrow> string" where
  "string_default key p =
     (if key = ''BENCHMARK_CLASS'' then ''measurement''
      else if key = ''BENCHMARK_DRIVER'' then ''pgbench''
      else if key = ''BENCHMARK_TARGET'' then target_direct
      else if key = ''BENCHMARK_PG_CONFIG'' then ''default''
      else if key = ''BENCHMARK_MODE'' then ''fixed-time''
      else if key = ''BENCHMARK_RESET_POLICY'' then ''rebuild-per-trial''
      else if key = ''BENCHMARK_PRIMARY_METRIC'' then ''pgbench.tps''
      else if key = ''BENCHMARK_DIRECTION''
      then (if pi_primary_metric p = ''pgbench.latency_mean_us'' then ''lower'' else ''higher'')
      else if key = ''BENCHMARK_PROTOCOL'' then ''simple''
      else [])"

definition int_default :: "string \<Rightarrow> bench_plan \<Rightarrow> string" where
  "int_default key p =
     (if key = ''BENCHMARK_WARMUP_SECONDS'' then ''0''
      else if key = ''BENCHMARK_TRIALS'' then (if pi_class p = ''smoke'' then ''1'' else ''10'')
      else if key = ''BENCHMARK_MIN_VALID_TRIALS'' then show_int (pi_trials p)
      else [])"

definition declared_strings :: "bench_plan \<Rightarrow> (string \<times> string) list" where
  "declared_strings p =
     [(''BENCHMARK_NAME'', bp_name p), (''BENCHMARK_CLASS'', pi_class p), (''BENCHMARK_DRIVER'', pi_driver p),
      (''BENCHMARK_TARGET'', pi_target p), (''BENCHMARK_EXPERIMENT_SPEC'', pi_experiment_spec p),
      (''BENCHMARK_WORKLOAD_SPEC'', pi_workload_spec p), (''BENCHMARK_PG_CONFIG'', pi_pg_config p),
      (''BENCHMARK_MODE'', pi_mode p), (''BENCHMARK_RESET_POLICY'', pi_reset_policy p),
      (''BENCHMARK_CACHE_REGIME'', pi_cache_regime p),
      (''BENCHMARK_STATISTICS_RESET_POLICY'', pi_statistics_reset_policy p),
      (''BENCHMARK_STATISTICS_RESET_BOUNDARY'', pi_statistics_reset_boundary p),
      (''BENCHMARK_COLLECTOR_OVERHEAD_MODE'', pi_collector_overhead_mode p),
      (''BENCHMARK_CLIENT_PLACEMENT'', pi_client_placement p),
      (''BENCHMARK_RESOURCE_BUDGET_MODE'', pi_resource_budget_mode p),
      (''BENCHMARK_RESOURCE_BUDGET_SCOPE'', pi_resource_budget_scope p),
      (''BENCHMARK_RESOURCE_ENFORCEMENT_PROVIDER'', pi_resource_enforcement_provider p),
      (''BENCHMARK_PRIMARY_METRIC'', pi_primary_metric p), (''BENCHMARK_DIRECTION'', pi_direction p),
      (''BENCHMARK_PROTOCOL'', pi_query_protocol p)]"

text \<open>A loop over declarations that stops at the first one that differs.\<close>

definition mismatch_unless :: "bool \<Rightarrow> string \<Rightarrow> (plan_error, unit) result" where
  "mismatch_unless b key = require b (Declaration_mismatch key)"

fun each_matches :: "(string \<Rightarrow> 'a \<Rightarrow> bool) \<Rightarrow> (string \<times> 'a) list \<Rightarrow> (plan_error, unit) result" where
  "each_matches good [] = Inr ()"
| "each_matches good ((key, v) # items) = bind_r (mismatch_unless (good key v) key) (\<lambda>_. each_matches good items)"

definition declared_ints :: "bench_plan \<Rightarrow> (string \<times> int) list" where
  "declared_ints p =
     [(''BENCHMARK_SCALE'', pi_scale p), (''BENCHMARK_CLIENTS'', pi_clients p), (''BENCHMARK_THREADS'', pi_threads p),
      (''BENCHMARK_WARMUP_SECONDS'', pi_warmup_seconds p), (''BENCHMARK_TRIALS'', pi_trials p),
      (''BENCHMARK_MIN_VALID_TRIALS'', pi_min_valid_trials p)]"

text \<open>The declarations of the measured length: the integers to compare, for the mode of the plan.\<close>

definition declared_lengths :: "(string \<Rightarrow> string) \<Rightarrow> bench_plan \<Rightarrow> (plan_error, (string \<times> int) list) result" where
  "declared_lengths vs p =
     (if pi_mode p = ''fixed-time'' then
        (if pi_transactions_per_client p \<noteq> 0 then Inl Length_retained
         else bind_r (mismatch_unless (vs ''BENCHMARK_TRANSACTIONS_PER_CLIENT'' = []) ''BENCHMARK_TRANSACTIONS_PER_CLIENT'')
                (\<lambda>_. Inr (declared_ints p @ [(''BENCHMARK_MEASURE_SECONDS'', pi_measure_seconds p)])))
      else
        (if pi_measure_seconds p \<noteq> 0 then Inl Length_retained
         else bind_r (mismatch_unless (vs ''BENCHMARK_MEASURE_SECONDS'' = []) ''BENCHMARK_MEASURE_SECONDS'')
                (\<lambda>_. Inr (declared_ints p @ [(''BENCHMARK_TRANSACTIONS_PER_CLIENT'', pi_transactions_per_client p)]))))"

definition same_float :: "(string \<Rightarrow> string) \<Rightarrow> string \<Rightarrow> f64 option \<Rightarrow> bool" where
  "same_float vs key m =
     (if vs key = [] then m = None
      else case (parse_float (vs key), m) of (Some x, Some y) \<Rightarrow> f_eq x y | _ \<Rightarrow> False)"

definition same_int :: "(string \<Rightarrow> string) \<Rightarrow> string \<Rightarrow> int option \<Rightarrow> bool" where
  "same_int vs key m =
     (if vs key = [] then m = None
      else case (parse_int64 (vs key), m) of (Some x, Some y) \<Rightarrow> x = y | _ \<Rightarrow> False)"

definition same_uint :: "(string \<Rightarrow> string) \<Rightarrow> string \<Rightarrow> 64 word option \<Rightarrow> bool" where
  "same_uint vs key m =
     (if vs key = [] then m = None
      else case (parse_uint64 (vs key), m) of (Some x, Some y) \<Rightarrow> x = y | _ \<Rightarrow> False)"

definition check_flags :: "(string \<Rightarrow> string) \<Rightarrow> bench_plan \<Rightarrow> (plan_error, unit) result" where
  "check_flags vs p =
     (if pi_runtime_reset p \<noteq> (pi_reset_policy p = ''rebuild-per-trial'') then Inl Runtime_reset_mismatch
      else
        bind_r (mismatch_unless ((vs ''BENCHMARK_CONNECT_PER_TRANSACTION'' = ''1'') = pi_connect_per_transaction p)
          ''BENCHMARK_CONNECT_PER_TRANSACTION'') (\<lambda>_.
          mismatch_unless (bool_or (vs ''BENCHMARK_LOG_TRANSACTIONS'') (pi_class p = ''measurement'') = pi_log_transactions p)
            ''BENCHMARK_LOG_TRANSACTIONS''))"

definition check_measures :: "(string \<Rightarrow> string) \<Rightarrow> bench_plan \<Rightarrow> (plan_error, unit) result" where
  "check_measures vs p =
     bind_r (each_matches (same_float vs)
       [(''BENCHMARK_MAX_LATENCY_LIMIT_EXCEEDED_PCT'', pi_max_latency_limit_exceeded_pct p),
        (''BENCHMARK_REGRESSION_THRESHOLD_PCT'', pi_regression_threshold_pct p), (''BENCHMARK_RATE'', pi_rate p),
        (''BENCHMARK_LATENCY_LIMIT_MS'', pi_latency_limit_ms p)]) (\<lambda>_.
     bind_r (mismatch_unless (same_int vs ''BENCHMARK_MAX_TRIES'' (pi_max_tries p)) ''BENCHMARK_MAX_TRIES'') (\<lambda>_.
       each_matches
         (\<lambda>key (v, fallback). case parse_float (declaration_value vs key (format_plain fallback)) of
            None \<Rightarrow> False | Some x \<Rightarrow> f_eq x v)
         [(''BENCHMARK_MAX_CV_PCT'', (pi_max_cv_pct p, Fin 10)),
          (''BENCHMARK_LOG_SAMPLE_RATE'', (pi_log_sample_rate p, Fin 1))]))"

definition check_control_declarations :: "(string \<Rightarrow> string) \<Rightarrow> bench_plan \<Rightarrow> (plan_error, unit) result" where
  "check_control_declarations vs p =
     bind_r (each_matches (\<lambda>key v. sort (str_fields (vs key)) = v)
       [(''BENCHMARK_COLLECTORS'', pi_collectors p), (''BENCHMARK_CACHE_TARGET_RELATIONS'', pi_cache_target_relations p)]) (\<lambda>_.
     bind_r (mismatch_unless (parse_int64 (vs ''BENCHMARK_COLLECTOR_INTERVAL_SECONDS'') = Some (pi_collector_interval_seconds p))
       ''BENCHMARK_COLLECTOR_INTERVAL_SECONDS'') (\<lambda>_.
     bind_r (mismatch_unless (same_float vs ''BENCHMARK_CPU_BUDGET_CORES'' (pi_cpu_budget_cores p)) ''BENCHMARK_CPU_BUDGET_CORES'') (\<lambda>_.
     bind_r (each_matches (same_int vs)
       [(''BENCHMARK_CPU_BUDGET_MILLICORES'', pi_cpu_budget_millicores p), (''BENCHMARK_MEMORY_BUDGET_MIB'', pi_memory_budget_mib p)]) (\<lambda>_.
     bind_r (each_matches (same_float vs)
       [(''BENCHMARK_CACHE_MIN_RESIDENT_PCT'', pi_cache_min_resident_pct p),
        (''BENCHMARK_COLLECTOR_MAX_DUTY_CYCLE_PCT'', pi_collector_max_duty_cycle_pct p)]) (\<lambda>_.
     bind_r (mismatch_unless (same_int vs ''BENCHMARK_COLLECTOR_OVERHEAD_SAMPLES'' (pi_collector_overhead_samples p))
       ''BENCHMARK_COLLECTOR_OVERHEAD_SAMPLES'') (\<lambda>_.
     bind_r (mismatch_unless (same_uint vs ''BENCHMARK_RANDOM_SEED'' (pi_random_seed p)) ''BENCHMARK_RANDOM_SEED'') (\<lambda>_.
       mismatch_unless
         (sort (str_fields (value_or (vs ''BENCHMARK_ALLOWED_SUBJECT_DIFFERENCES'') ''pg_config'')) = pi_allowed_subject_differences p)
         ''BENCHMARK_ALLOWED_SUBJECT_DIFFERENCES'')))))))"

definition verify_spec_declarations :: "bench_plan \<Rightarrow> (string \<Rightarrow> string option) \<Rightarrow> (plan_error, unit) result" where
  "verify_spec_declarations p values =
     (let vs = val_of values
      in bind_r (validate_declarations p) (\<lambda>_.
         bind_r (mismatch_unless (value_or (vs ''BENCHMARK_CONTRACT_VERSION'') ''1'' = value_or (pi_contract_version p) ''1'')
           ''BENCHMARK_CONTRACT_VERSION'') (\<lambda>_.
         bind_r (each_matches (\<lambda>key v. declaration_value vs key (string_default key p) = v) (declared_strings p)) (\<lambda>_.
         bind_r (declared_lengths vs p) (\<lambda>ints.
         bind_r (each_matches (\<lambda>key v. parse_int64 (declaration_value vs key (int_default key p)) = Some v) ints) (\<lambda>_.
         bind_r (check_flags vs p) (\<lambda>_.
         bind_r (check_measures vs p) (\<lambda>_.
           check_control_declarations vs p))))))))"

definition verify_workload_declarations :: "bench_plan \<Rightarrow> (string \<Rightarrow> string option) \<Rightarrow> (plan_error, unit) result" where
  "verify_workload_declarations p values =
     (let vs = val_of values; script = vs ''PGBENCH_SCRIPT''
      in if vs ''WORKLOAD_KIND'' \<noteq> ''pgbench'' then Inl Workload_kind_mismatch
         else if value_or (vs ''PGBENCH_MODE'') ''builtin'' \<noteq> pi_workload_mode p then Inl (Declaration_mismatch ''PGBENCH_MODE'')
         else if script \<noteq> pi_workload_script p then Inl (Declaration_mismatch ''PGBENCH_SCRIPT'')
         else if script = [] \<and> pi_workload_script_digest p \<noteq> [] then Inl Script_digest_unexpected
         else require (\<not> (script \<noteq> [] \<and> \<not> is_digest (pi_workload_script_digest p))) Script_digest_missing)"

end
