(* ===== verification/PlanVerify.thy ===== *)
theory PlanVerify
  imports BenchmarkPlan
begin

section \<open>Accepted specifications have verifiable plans\<close>

text \<open>
  The catalogue against the planner: what the validation of a benchmark specification establishes, that a plan
  built from an accepted specification is verified against its digests and against the specifications it was
  built from, when such a plan exists, and what its numbers can be.
\<close>

subsection \<open>Typed readings of declarations\<close>

text \<open>
  The planner reads a declaration with a function that ignores errors, the verifier parses it strictly. The
  interface is what both sides rely on: on a text that parses, both read the same value.
\<close>

locale declaration_reader =
  fixes parse :: "string \<Rightarrow> 'a option"
    and read :: "string \<Rightarrow> 'a"
  assumes read_parsed: "parse v = Some x \<Longrightarrow> read v = x"
begin

lemma read_agrees: "parse v \<noteq> None \<Longrightarrow> parse v = Some (read v)"
  using read_parsed by fastforce

lemma default_agrees:
  assumes "parse d = Some x" and "v \<noteq> [] \<Longrightarrow> parse v \<noteq> None"
  shows "parse (if v = [] then d else v) = Some (if v = [] then x else read v)"
  using assms read_agrees by simp

end

interpretation int_reader: declaration_reader parse_int64 atoi_value
  by unfold_locales (rule atoi_value_parsed)

interpretation uint_reader: declaration_reader parse_uint64 uint_value
  by unfold_locales (rule uint_value_parsed)

interpretation float_reader: declaration_reader parse_float float_value
  by unfold_locales (rule float_value_parsed)

lemma optional_int_same: "(vs key \<noteq> [] \<Longrightarrow> parse_int64 (vs key) \<noteq> None) \<Longrightarrow> same_int vs key (optional_int (vs key))"
  using int_reader.read_agrees by (auto simp: same_int_def optional_int_def)

lemma optional_uint_same: "(vs key \<noteq> [] \<Longrightarrow> parse_uint64 (vs key) \<noteq> None) \<Longrightarrow> same_uint vs key (optional_uint64 (vs key))"
  using uint_reader.read_agrees by (auto simp: same_uint_def optional_uint64_def)

text \<open>A number is a finite value that its text denotes.\<close>

definition number_text :: "string \<Rightarrow> bool" where
  "number_text v = (case parse_float v of None \<Rightarrow> False | Some x \<Rightarrow> f_finite x)"

lemma number_text_value: "number_text v \<Longrightarrow> parse_float v = Some (float_value v) \<and> f_finite (float_value v)"
  using float_value_parsed by (auto simp: number_text_def split: option.splits)

lemma f_eq_refl: "f_finite x \<Longrightarrow> f_eq x x"
  by (cases x) auto

lemma optional_float_same: "(vs key \<noteq> [] \<Longrightarrow> number_text (vs key)) \<Longrightarrow> same_float vs key (optional_float (vs key))"
  using number_text_value f_eq_refl by (auto simp: same_float_def optional_float_def)

subsection \<open>Texts of accepted numbers\<close>

lemma positive_int_digits: "positive_int v \<Longrightarrow> all_digits v \<and> 0 < nat_of_digits v"
proof -
  assume p: "positive_int v"
  then have d: "all_digits v" "canonical_nat v" "hd v \<noteq> CHR ''0''"
    by (auto simp: positive_int_def all_digits_def canonical_nat_def)
  then obtain n where n: "v = show_nat n" by (auto simp: canonical_nat_iff)
  then have "n \<noteq> 0" using d(3) by (intro notI) simp
  then show ?thesis using d(1) n by simp
qed

lemma bench_positive_value:
  "bench_positive_int v \<Longrightarrow> parse_int64 v = Some (atoi_value v) \<and> 0 < atoi_value v \<and> atoi_value v \<le> max_int64"
proof -
  assume b: "bench_positive_int v"
  then have d: "all_digits v" "0 < nat_of_digits v" using positive_int_digits by (auto simp: bench_positive_int_def)
  have "parse_int64 v = Some (atoi_value v)"
    using b int_reader.read_agrees by (auto simp: bench_positive_int_def)
  then show ?thesis using d parse_int64_digits[OF d(1)] by (auto split: if_splits)
qed

lemma bench_positive_at_most:
  assumes "bench_positive_int_at_most v k"
  shows "bench_positive_int v \<and> atoi_value v \<le> k"
proof -
  obtain n where n: "parse_int64 v = Some n" "n \<le> k" and p: "positive_int v"
    using assms by (auto simp: bench_positive_int_at_most_def split: option.splits)
  then show ?thesis using atoi_value_parsed[OF n(1)] by (simp add: bench_positive_int_def)
qed

lemma bench_nonnegative_value:
  "bench_nonnegative_int v \<Longrightarrow> parse_int64 v = Some (atoi_value v) \<and> 0 \<le> atoi_value v \<and> atoi_value v \<le> max_int64"
proof -
  assume b: "bench_nonnegative_int v"
  then have d: "all_digits v" by (auto simp: bench_nonnegative_int_def nonnegative_int_def all_digits_def)
  have "parse_int64 v = Some (atoi_value v)"
    using b int_reader.read_agrees by (auto simp: bench_nonnegative_int_def)
  then show ?thesis using parse_int64_digits[OF d] by (auto split: if_splits)
qed

lemma lower_digit: "is_digit c \<Longrightarrow> lower_char c = c"
  by (auto simp: lower_char_def is_upper_def is_digit_def)

lemma decimal_finish_finite:
  "parse_decimal_float finite_or_none neg s = Some x \<Longrightarrow> f_finite x"
  "parse_hex_float finite_or_none neg s = Some x \<Longrightarrow> f_finite x"
proof -
  have f: "finite_or_none v = Some x \<Longrightarrow> f_finite x" for v by (auto simp: finite_or_none_def split: if_splits)
  show "parse_decimal_float finite_or_none neg s = Some x \<Longrightarrow> f_finite x"
    unfolding parse_decimal_float_def
    by (rule prod_cases3[of "mantissa is_digit False [] 0 s"]) (auto simp: bind_eq_Some_conv dest!: f split: if_splits)
  show "parse_hex_float finite_or_none neg s = Some x \<Longrightarrow> f_finite x"
    unfolding parse_hex_float_def
    by (rule prod_cases3[of "mantissa is_hex False [] 0 s"]) (auto simp: bind_eq_Some_conv dest!: f split: if_splits)
qed

lemma parse_float_digit:
  assumes "v \<noteq> []" and "is_digit (hd v)" and "parse_float v = Some x"
  shows "f_finite x"
proof -
  obtain c cs where v: "v = c # cs" "is_digit c" using assms(1,2) by (cases v) auto
  have ne: "c \<noteq> CHR ''-''" "c \<noteq> CHR ''+''" "c \<noteq> CHR ''i''" "c \<noteq> CHR ''n''"
    using v(2) by (auto simp: is_digit_def code_def)
  have sign: "\<not> has_prefix v ''-''" "\<not> has_prefix v ''+''" using ne v by (simp_all add: has_prefix_def)
  have words: "lower_ascii v \<noteq> ''inf''" "lower_ascii v \<noteq> ''infinity''" "lower_ascii v \<noteq> ''nan''"
    using ne v by (simp_all add: lower_ascii_def lower_digit)
  have "parse_hex_float finite_or_none False (drop 2 v) = Some x \<or> parse_decimal_float finite_or_none False v = Some x"
    using assms(3) sign words by (simp add: parse_float_def parse_float_with_def Let_def split: if_splits)
  then show ?thesis using decimal_finish_finite by blast
qed

lemma nonnegative_decimal_number: "nonnegative_decimal v \<Longrightarrow> number_text v \<and> v \<noteq> [] \<and> f_le (Fin 0) (float_value v)"
proof -
  assume n: "nonnegative_decimal v"
  then obtain x where x: "v \<noteq> []" "decimal_shape v" "parse_float v = Some x" "f_le (Fin 0) x"
    by (auto simp: nonnegative_decimal_def split: option.splits)
  have "is_digit (hd v)"
  proof (rule cut_cases[of v "CHR ''.''"])
    fix a b
    assume a: "v = a @ CHR ''.'' # b" "cut (CHR ''.'') v = (a, b, True)"
    then show ?thesis using x(2) by (cases a) (auto simp: decimal_shape_def)
  next
    assume "cut (CHR ''.'') v = (v, [], False)"
    then show ?thesis using x(1,2) by (cases v) (auto simp: decimal_shape_def)
  qed
  then have "f_finite x" using parse_float_digit x(1,3) by blast
  then show ?thesis using x float_value_parsed by (auto simp: number_text_def)
qed

lemma positive_decimal_number: "positive_decimal v \<Longrightarrow> number_text v \<and> v \<noteq> [] \<and> f_less (Fin 0) (float_value v)"
  using nonnegative_decimal_number float_value_parsed by (auto simp: positive_decimal_def split: option.splits)

lemma f_less_le_zero: "f_less (Fin 0) x \<Longrightarrow> \<not> f_le x (Fin 0)"
  by (cases x) (auto simp: f_le_def)

lemma f_le_not_less: "f_le x (Fin r) \<Longrightarrow> \<not> f_less (Fin r) x"
  by (cases x) (auto simp: f_le_def)

lemma percentage_above_zero_number:
  "percentage_above_zero v \<Longrightarrow> number_text v \<and> v \<noteq> [] \<and> above_zero_pct (float_value v)"
proof -
  assume p: "percentage_above_zero v"
  then obtain x where x: "parse_float v = Some x" "positive_decimal v" "f_le x (Fin 100)"
    by (auto simp: percentage_above_zero_def split: option.splits)
  have "float_value v = x" using float_value_parsed[OF x(1)] .
  then show ?thesis
    using positive_decimal_number[OF x(2)] number_text_value[of v] x(3)
    by (auto simp: above_zero_pct_def dest: f_less_le_zero f_le_not_less)
qed

subsection \<open>What the validation establishes\<close>

lemma static_issue_Nil [simp]: "static_issue s k = [] \<longleftrightarrow> \<not> is_dynamic (spec_val s k)"
  by (auto simp: static_issue_def is_dynamic_def)

lemma static_value_plain [simp]: "\<not> is_dynamic (spec_val s k) \<Longrightarrow> static_value s k = spec_val s k"
  by (simp add: static_value_def Let_def)

lemma require_value_Nil [simp]: "require_value s k = [] \<longleftrightarrow> spec_val s k \<noteq> []"
  by (simp add: require_value_def)

lemma required_static_Nil [simp]:
  "required_static_issue s k = [] \<longleftrightarrow> spec_val s k \<noteq> [] \<and> \<not> is_dynamic (spec_val s k)"
  by (simp add: required_static_issue_def)

lemma choice_issue_Nil [simp]: "choice_issue s v allowed m = [] \<longleftrightarrow> v = [] \<or> one_of v allowed"
  by (auto simp: choice_issue_def)

lemma static_or_plain [simp]: "\<not> is_dynamic (spec_val s k) \<Longrightarrow> static_or s k d = value_or (spec_val s k) d"
  by (simp add: static_or_def)

lemma value_or_both_Nil [simp]: "value_or v d = [] \<longleftrightarrow> v = [] \<and> d = []"
  by (simp add: value_or_def)

lemma accepted_heading:
  assumes "bench_heading_issues s = []"
  shows "spec_val s ''BENCHMARK_NAME'' \<noteq> []"
    and "contract_version s = value_or (spec_val s ''BENCHMARK_CONTRACT_VERSION'') ''1''"
    and "one_of (value_or (spec_val s ''BENCHMARK_CONTRACT_VERSION'') ''1'') [''1'', ''2'']"
    and "static_or s ''BENCHMARK_CLASS'' ''measurement'' = value_or (spec_val s ''BENCHMARK_CLASS'') ''measurement''"
    and "one_of (value_or (spec_val s ''BENCHMARK_TARGET'') ''direct-postgres'') [''direct-postgres'', ''pgbouncer'']"
    and "static_or s ''BENCHMARK_TARGET'' ''direct-postgres'' = value_or (spec_val s ''BENCHMARK_TARGET'') ''direct-postgres''"
  using assms by (auto simp: bench_heading_issues_def contract_version_def Let_def)

lemma accepted_references:
  assumes "bench_reference_issues pk s = []"
  shows "\<exists>e. show_spec pk ''experiment'' (spec_val s ''BENCHMARK_EXPERIMENT_SPEC'') = Inr e"
    and "\<exists>w. show_spec pk ''workload'' (spec_val s ''BENCHMARK_WORKLOAD_SPEC'') = Inr w \<and>
            spec_val w ''WORKLOAD_KIND'' = ''pgbench''"
    and "config_exists pk (value_or (spec_val s ''BENCHMARK_PG_CONFIG'') ''default'')"
proof -
  note d = assms[unfolded bench_reference_issues_def bench_workload_issues_def Let_def append_is_Nil_conv]
  show "\<exists>e. show_spec pk ''experiment'' (spec_val s ''BENCHMARK_EXPERIMENT_SPEC'') = Inr e"
    using d by (auto simp: unshown_def ok_iff)
  show "\<exists>w. show_spec pk ''workload'' (spec_val s ''BENCHMARK_WORKLOAD_SPEC'') = Inr w \<and>
            spec_val w ''WORKLOAD_KIND'' = ''pgbench''"
    using d by (auto split: sum.splits)
  show "config_exists pk (value_or (spec_val s ''BENCHMARK_PG_CONFIG'') ''default'')"
    using d by auto
qed

lemma accepted_load:
  assumes "bench_load_issues s = []"
  shows "bench_positive_int (spec_val s ''BENCHMARK_SCALE'')" "bench_positive_int (spec_val s ''BENCHMARK_CLIENTS'')"
    "bench_positive_int (spec_val s ''BENCHMARK_THREADS'')"
    "bench_nonnegative_int (value_or (spec_val s ''BENCHMARK_WARMUP_SECONDS'') ''0'')"
  using assms by (auto simp: bench_load_issues_def Let_def)

lemma accepted_mode:
  assumes "bench_mode_issues s = []"
  shows "bench_mode s = value_or (spec_val s ''BENCHMARK_MODE'') ''fixed-time''"
    and "bench_mode s = ''fixed-time'' \<and> bench_positive_int (spec_val s ''BENCHMARK_MEASURE_SECONDS'') \<and>
           spec_val s ''BENCHMARK_TRANSACTIONS_PER_CLIENT'' = [] \<or>
         bench_mode s = ''fixed-transactions'' \<and> bench_positive_int (spec_val s ''BENCHMARK_TRANSACTIONS_PER_CLIENT'') \<and>
           spec_val s ''BENCHMARK_MEASURE_SECONDS'' = []"
  using assms by (auto simp: bench_mode_issues_def bench_mode_def length_issues_def one_of_def Let_def split: if_splits)

lemma accepted_trials:
  assumes "bench_trial_issues s = []"
  shows "bench_positive_int (bench_trials s)"
    and "bench_positive_int (value_or (spec_val s ''BENCHMARK_MIN_VALID_TRIALS'') (bench_trials s))"
    and "atoi_value (value_or (spec_val s ''BENCHMARK_MIN_VALID_TRIALS'') (bench_trials s)) \<le> atoi_value (bench_trials s)"
proof -
  have ne: "bench_trials s \<noteq> []" by (simp add: bench_trials_def static_or_def)
  show "bench_positive_int (bench_trials s)"
    and "bench_positive_int (value_or (spec_val s ''BENCHMARK_MIN_VALID_TRIALS'') (bench_trials s))"
    and "atoi_value (value_or (spec_val s ''BENCHMARK_MIN_VALID_TRIALS'') (bench_trials s)) \<le> atoi_value (bench_trials s)"
    using assms ne by (auto simp: bench_trial_issues_def Let_def split: if_splits)
qed

lemma str_fields_Nil [simp]: "str_fields [] = []"
  by (simp add: str_fields_def fields_from_Nil emit_def)

lemma optional_Nil [simp]: "optional_float [] = None" "optional_int [] = None" "optional_uint64 [] = None"
  by (simp_all add: optional_float_def optional_int_def optional_uint64_def)

subsection \<open>Controls of the first contract\<close>

lemma accepted_v1:
  assumes "controls_v1_issues s = []"
  shows "one_of (spec_val s ''BENCHMARK_CACHE_REGIME'') [''uncontrolled'', ''cold'', ''warm'', ''steady'']"
    and "list_all (\<lambda>k. spec_val s k = []) v2_only_keys"
    and "sort (str_fields (spec_val s ''BENCHMARK_COLLECTORS'')) = [''pgbench-driver'', ''postgresql-sampler-v1'']"
    and "bench_positive_int (spec_val s ''BENCHMARK_COLLECTOR_INTERVAL_SECONDS'')"
    and "one_of (spec_val s ''BENCHMARK_COLLECTOR_OVERHEAD_MODE'') [''included-unquantified'', ''operator-calibrated'']"
    and "v1_budget_issues s = []"
    and "one_of (spec_val s ''BENCHMARK_STATISTICS_RESET_POLICY'') [''none'', ''operator-managed'']"
    and "spec_val s ''BENCHMARK_STATISTICS_RESET_BOUNDARY'' \<noteq> []"
    and "boundary_issues s (spec_val s ''BENCHMARK_STATISTICS_RESET_POLICY'') (spec_val s ''BENCHMARK_STATISTICS_RESET_BOUNDARY'')
           ''operator-managed'' = []"
proof -
  note d = assms[unfolded controls_v1_issues_def Let_def append_is_Nil_conv concat_eq_Nil_conv]
  have keys: "spec_val s k = []" if "k \<in> set v2_only_keys" for k
    using d that by (auto simp: static_value_def Let_def)
  then show "list_all (\<lambda>k. spec_val s k = []) v2_only_keys" by (simp add: list_all_iff)
  have sorted: "sort [''pgbench-driver'', ''postgresql-sampler-v1''] = [''pgbench-driver'', ''postgresql-sampler-v1'']"
    by (intro sorted_sort_id) (simp add: less_eq_char_def)
  have "collector_issues s [''pgbench-driver'', ''postgresql-sampler-v1''] ''v1'' = []" "bench_interval_issues s = []" using d by blast+
  then show "sort (str_fields (spec_val s ''BENCHMARK_COLLECTORS'')) = [''pgbench-driver'', ''postgresql-sampler-v1'']"
    "bench_positive_int (spec_val s ''BENCHMARK_COLLECTOR_INTERVAL_SECONDS'')"
    unfolding collector_issues_def bench_interval_issues_def Let_def sorted by auto
  show "one_of (spec_val s ''BENCHMARK_CACHE_REGIME'') [''uncontrolled'', ''cold'', ''warm'', ''steady'']"
   "one_of (spec_val s ''BENCHMARK_COLLECTOR_OVERHEAD_MODE'') [''included-unquantified'', ''operator-calibrated'']"
   "v1_budget_issues s = []"
   "one_of (spec_val s ''BENCHMARK_STATISTICS_RESET_POLICY'') [''none'', ''operator-managed'']"
   "spec_val s ''BENCHMARK_STATISTICS_RESET_BOUNDARY'' \<noteq> []"
   "boundary_issues s (spec_val s ''BENCHMARK_STATISTICS_RESET_POLICY'') (spec_val s ''BENCHMARK_STATISTICS_RESET_BOUNDARY'')
           ''operator-managed'' = []"
    using d by auto
qed

lemma planned_statistics:
  assumes "boundary_issues s (pi_statistics_reset_policy p) (pi_statistics_reset_boundary p) managed = []"
    and "one_of (pi_statistics_reset_policy p) [''none'', managed]" and "pi_statistics_reset_boundary p \<noteq> []"
  shows "check_statistics p managed = Inr ()"
  using assms by (auto simp: check_statistics_def boundary_issues_def Let_def require_def)

lemma v1_budget_cases:
  assumes "v1_budget_issues s = []"
  obtains "spec_val s ''BENCHMARK_RESOURCE_BUDGET_MODE'' = ''unbounded''" "spec_val s ''BENCHMARK_CPU_BUDGET_CORES'' = []"
      "spec_val s ''BENCHMARK_MEMORY_BUDGET_MIB'' = []"
    | "spec_val s ''BENCHMARK_RESOURCE_BUDGET_MODE'' = ''operator-declared''"
      "positive_decimal (spec_val s ''BENCHMARK_CPU_BUDGET_CORES'')" "bench_positive_int (spec_val s ''BENCHMARK_MEMORY_BUDGET_MIB'')"
  using assms[unfolded v1_budget_issues_def Let_def append_is_Nil_conv] by (auto simp: one_of_def)

lemma planned_v1_budget:
  assumes "v1_budget_issues s = []" and "list_all (\<lambda>k. spec_val s k = []) v2_only_keys"
  shows "check_v1_budget (planned_fields pk s c tp e w sd seeds) = Inr ()"
proof -
  have empty: "spec_val s ''BENCHMARK_CPU_BUDGET_MILLICORES'' = []" "spec_val s ''BENCHMARK_RESOURCE_BUDGET_SCOPE'' = []"
    "spec_val s ''BENCHMARK_RESOURCE_ENFORCEMENT_PROVIDER'' = []"
    using assms(2) by (simp_all add: v2_only_keys_def)
  have prov: "docker_provider \<noteq> []" by (simp add: docker_provider_def)
  from assms(1) show ?thesis
  proof (cases rule: v1_budget_cases)
    case 1
    then show ?thesis
      using empty prov unfolding check_v1_budget_def planned_fields_def Let_def by (simp add: one_of_def require_def)
  next
    case 2
    have "f_finite (float_value (spec_val s ''BENCHMARK_CPU_BUDGET_CORES''))"
      "\<not> f_le (float_value (spec_val s ''BENCHMARK_CPU_BUDGET_CORES'')) (Fin 0)"
      "spec_val s ''BENCHMARK_CPU_BUDGET_CORES'' \<noteq> []"
      using positive_decimal_number[OF 2(2)] number_text_value by (auto dest: f_less_le_zero)
    moreover have "0 < atoi_value (spec_val s ''BENCHMARK_MEMORY_BUDGET_MIB'')" "spec_val s ''BENCHMARK_MEMORY_BUDGET_MIB'' \<noteq> []"
      using bench_positive_value[OF 2(3)] 2(3) by (auto simp: bench_positive_int_def positive_int_def)
    ultimately show ?thesis
      using empty prov 2(1) unfolding check_v1_budget_def planned_fields_def Let_def
      by (simp add: one_of_def require_def optional_float_def optional_int_def)
  qed
qed

lemma planned_v1:
  assumes "controls_v1_issues s = []" and "value_or (spec_val s ''BENCHMARK_CONTRACT_VERSION'') ''1'' = ''1''"
  shows "check_contract (planned_fields pk s c tp e w sd seeds) = Inr ()"
proof -
  let ?p = "planned_fields pk s c tp e w sd seeds"
  note f = accepted_v1[OF assms(1)]
  have stat: "check_statistics ?p ''operator-managed'' = Inr ()"
    using f(7-9) by (intro planned_statistics[where s = s]) (simp_all add: planned_fields_def Let_def)
  have budget: "check_v1_budget ?p = Inr ()" using f(2,6) by (rule planned_v1_budget[rotated])
  have "0 < atoi_value (spec_val s ''BENCHMARK_COLLECTOR_INTERVAL_SECONDS'')" "spec_val s ''BENCHMARK_COLLECTOR_INTERVAL_SECONDS'' \<noteq> []"
    using bench_positive_value[OF f(4)] f(4) by (auto simp: bench_positive_int_def positive_int_def)
  then have "pi_collector_interval_seconds ?p > 0" by (simp add: planned_fields_def Let_def int_or_def)
  moreover have "pi_cache_target_relations ?p = []" "pi_cache_min_resident_pct ?p = None" "pi_collector_overhead_samples ?p = None"
    "pi_collector_max_duty_cycle_pct ?p = None"
    using f(2) by (simp_all add: v2_only_keys_def planned_fields_def Let_def)
  moreover have "one_of (pi_cache_regime ?p) [''uncontrolled'', ''cold'', ''warm'', ''steady'']"
    "pi_collectors ?p = [''pgbench-driver'', ''postgresql-sampler-v1'']"
    "one_of (pi_collector_overhead_mode ?p) [''included-unquantified'', ''operator-calibrated'']"
    using f(1,3,5) by (simp_all add: planned_fields_def Let_def)
  ultimately have "validate_v1_controls ?p = Inr ()"
    using stat budget unfolding validate_v1_controls_def by simp
  moreover have "pi_schema_version ?p = protocol_v1" "pi_contract_version ?p = []"
    using assms(2) by (simp_all add: planned_fields_def Let_def)
  ultimately show ?thesis by (simp add: check_contract_def)
qed

lemma static_checked: "static_issue s k = [] \<Longrightarrow> static_value s k = spec_val s k"
  by simp

lemma required_checked:
  "required_static_issue s k = [] \<Longrightarrow> static_value s k = spec_val s k"
  "required_static_issue s k = [] \<Longrightarrow> spec_val s k \<noteq> []"
  by simp_all

subsection \<open>Controls of the second contract\<close>

text \<open>The planner and the catalogue have the same notion of a qualified relation.\<close>

lemma simple_identifier_enumerate:
  "simple_identifier p \<longleftrightarrow>
     p \<noteq> [] \<and> list_all (\<lambda>(i, c). is_lower c \<or> is_upper c \<or> c = CHR ''_'' \<or> i > 0 \<and> is_digit c) (enumerate 0 p)"
proof -
  have later: "list_all (\<lambda>(i, c). is_lower c \<or> is_upper c \<or> c = CHR ''_'' \<or> i > 0 \<and> is_digit c) (enumerate (Suc n) cs) =
      list_all (\<lambda>d. ident_start d \<or> is_digit d) cs" for n cs
    by (induction cs arbitrary: n) (auto simp: ident_start_def)
  show ?thesis
    using later[of 0] by (cases p) (auto simp: simple_identifier_def ident_start_def)
qed

lemma qualified_relation_identifier: "qualified_relation v = qualified_identifier v"
  unfolding qualified_relation_def qualified_identifier_def Let_def simple_identifier_enumerate[abs_def] ..

lemma relation_issues_Nil:
  "relation_issues s seen rs = [] \<longleftrightarrow> list_all qualified_identifier rs \<and> distinct rs \<and> set rs \<inter> set seen = {}"
  by (induction rs arbitrary: seen) auto

lemma sorted_unique_iff:
  "sorted_unique_nonempty vs \<longleftrightarrow> sorted vs \<and> distinct vs \<and> list_all qualified_relation vs"
proof (induction vs rule: sorted_unique_nonempty.induct)
  case (3 v w vs)
  then show ?case by (auto simp: less_le dest: order.trans)
qed simp_all

lemma v2_cache_cases:
  assumes "v2_cache_issues s = []"
  obtains "spec_val s ''BENCHMARK_CACHE_REGIME'' = ''uncontrolled''" "spec_val s ''BENCHMARK_CACHE_TARGET_RELATIONS'' = []"
      "spec_val s ''BENCHMARK_CACHE_MIN_RESIDENT_PCT'' = []"
    | "spec_val s ''BENCHMARK_CACHE_REGIME'' = ''postgres-shared-buffer-warm''"
      "str_fields (spec_val s ''BENCHMARK_CACHE_TARGET_RELATIONS'') \<noteq> []"
      "relation_issues s [] (str_fields (spec_val s ''BENCHMARK_CACHE_TARGET_RELATIONS'')) = []"
      "percentage_above_zero (spec_val s ''BENCHMARK_CACHE_MIN_RESIDENT_PCT'')"
proof -
  let ?r = "spec_val s ''BENCHMARK_CACHE_REGIME''" and ?t = "spec_val s ''BENCHMARK_CACHE_TARGET_RELATIONS''"
    and ?m = "spec_val s ''BENCHMARK_CACHE_MIN_RESIDENT_PCT''"
  note d = assms[unfolded v2_cache_issues_def Let_def append_is_Nil_conv]
  have static: "static_value s ''BENCHMARK_CACHE_REGIME'' = ?r" "static_value s ''BENCHMARK_CACHE_TARGET_RELATIONS'' = ?t"
    "static_value s ''BENCHMARK_CACHE_MIN_RESIDENT_PCT'' = ?m"
    using d by (blast intro: static_checked required_checked(1))+
  have set: "?r \<noteq> []" using d required_checked(2) by blast
  note e = d[unfolded static spec_issue_if_Nil choice_issue_Nil]
  have "?r = ''uncontrolled'' \<or> ?r = ''postgres-shared-buffer-warm''"
    using e set by (simp add: one_of_def)
  then show thesis
  proof (elim disjE)
    assume r: "?r = ''uncontrolled''"
    show thesis using e r by (intro that(1)) (simp_all add: r)
  next
    assume r: "?r = ''postgres-shared-buffer-warm''"
    show thesis using e r by (intro that(2)) (simp_all add: r split: if_splits)
  qed
qed

lemma accepted_v2_cache:
  assumes "v2_cache_issues s = []"
  shows "check_cache_v2 (planned_fields pk s c tp e w sd seeds) = Inr ()"
proof -
  let ?p = "planned_fields pk s c tp e w sd seeds"
  let ?r = "spec_val s ''BENCHMARK_CACHE_REGIME''" and ?t = "spec_val s ''BENCHMARK_CACHE_TARGET_RELATIONS''"
    and ?m = "spec_val s ''BENCHMARK_CACHE_MIN_RESIDENT_PCT''"
  have fields: "pi_cache_regime ?p = ?r" "pi_cache_target_relations ?p = sort (str_fields ?t)"
    "pi_cache_min_resident_pct ?p = optional_float ?m"
    by (simp_all add: planned_fields_def Let_def)
  from assms show ?thesis
  proof (cases rule: v2_cache_cases)
    case 1
    then show ?thesis by (simp add: check_cache_v2_def fields one_of_def require_def)
  next
    case 2
    have "sorted_unique_nonempty (sort (str_fields ?t))"
      using 2(3) by (simp add: sorted_unique_iff relation_issues_Nil qualified_relation_identifier list_all_iff)
    moreover have "sort (str_fields ?t) \<noteq> []" using 2(2) by (simp add: set_empty[symmetric] del: set_empty)
    moreover have "optional_float ?m = Some (float_value ?m)" "above_zero_pct (float_value ?m)"
      using percentage_above_zero_number[OF 2(4)] by (simp_all add: optional_float_def)
    ultimately show ?thesis using 2(1) by (simp add: check_cache_v2_def fields one_of_def require_def)
  qed
qed

lemma v2_overhead_cases:
  assumes "v2_collector_issues s = []"
  obtains "spec_val s ''BENCHMARK_COLLECTOR_OVERHEAD_MODE'' = ''included-unquantified''"
      "spec_val s ''BENCHMARK_COLLECTOR_OVERHEAD_SAMPLES'' = []" "spec_val s ''BENCHMARK_COLLECTOR_MAX_DUTY_CYCLE_PCT'' = []"
    | "spec_val s ''BENCHMARK_COLLECTOR_OVERHEAD_MODE'' = ''runner-calibrated-duty-cycle''"
      "bench_positive_int_at_most (spec_val s ''BENCHMARK_COLLECTOR_OVERHEAD_SAMPLES'') 10000"
      "percentage_above_zero (spec_val s ''BENCHMARK_COLLECTOR_MAX_DUTY_CYCLE_PCT'')"
  using assms[unfolded v2_collector_issues_def Let_def append_is_Nil_conv] by (auto simp: one_of_def split: if_splits)

lemma accepted_v2_collectors:
  assumes "v2_collector_issues s = []"
  shows "sort (str_fields (spec_val s ''BENCHMARK_COLLECTORS'')) = [''pgbench-driver'', ''postgresql-sampler-v2'']"
    and "bench_positive_int (spec_val s ''BENCHMARK_COLLECTOR_INTERVAL_SECONDS'')"
    and "atoi_value (spec_val s ''BENCHMARK_COLLECTOR_INTERVAL_SECONDS'') \<le> 3600"
    and "check_overhead_v2 (planned_fields pk s c tp e w sd seeds) = Inr ()"
proof -
  note d = assms[unfolded v2_collector_issues_def Let_def append_is_Nil_conv]
  have sorted: "sort [''pgbench-driver'', ''postgresql-sampler-v2''] = [''pgbench-driver'', ''postgresql-sampler-v2'']"
    by (intro sorted_sort_id) (simp add: less_eq_char_def)
  have "collector_issues s [''pgbench-driver'', ''postgresql-sampler-v2''] ''v2'' = []" "bench_interval_issues s = []" using d by blast+
  then show "sort (str_fields (spec_val s ''BENCHMARK_COLLECTORS'')) = [''pgbench-driver'', ''postgresql-sampler-v2'']"
    and i: "bench_positive_int (spec_val s ''BENCHMARK_COLLECTOR_INTERVAL_SECONDS'')"
    unfolding collector_issues_def bench_interval_issues_def Let_def sorted by auto
  have "spec_val s ''BENCHMARK_COLLECTOR_INTERVAL_SECONDS'' \<noteq> []" using i by (auto simp: bench_positive_int_def positive_int_def)
  then have "bench_positive_int_at_most (spec_val s ''BENCHMARK_COLLECTOR_INTERVAL_SECONDS'') 3600" using d by auto
  then show "atoi_value (spec_val s ''BENCHMARK_COLLECTOR_INTERVAL_SECONDS'') \<le> 3600" using bench_positive_at_most by blast
  let ?p = "planned_fields pk s c tp e w sd seeds"
  let ?o = "spec_val s ''BENCHMARK_COLLECTOR_OVERHEAD_MODE''" and ?n = "spec_val s ''BENCHMARK_COLLECTOR_OVERHEAD_SAMPLES''"
    and ?d = "spec_val s ''BENCHMARK_COLLECTOR_MAX_DUTY_CYCLE_PCT''"
  have fields: "pi_collector_overhead_mode ?p = ?o" "pi_collector_overhead_samples ?p = optional_int ?n"
    "pi_collector_max_duty_cycle_pct ?p = optional_float ?d"
    by (simp_all add: planned_fields_def Let_def)
  from assms show "check_overhead_v2 ?p = Inr ()"
  proof (cases rule: v2_overhead_cases)
    case 1
    then show ?thesis by (simp add: check_overhead_v2_def fields one_of_def require_def)
  next
    case 2
    have "?n \<noteq> []" using 2(2) by (auto simp: bench_positive_int_at_most_def positive_int_def)
    then have "optional_int ?n = Some (atoi_value ?n)" "0 < atoi_value ?n" "atoi_value ?n \<le> 10000"
      using bench_positive_at_most[OF 2(2)] bench_positive_value by (auto simp: optional_int_def)
    moreover have "optional_float ?d = Some (float_value ?d)" "above_zero_pct (float_value ?d)"
      using percentage_above_zero_number[OF 2(3)] by (simp_all add: optional_float_def)
    ultimately show ?thesis
      using 2(1) by (simp add: check_overhead_v2_def fields one_of_def require_def max_overhead_samples_def)
  qed
qed

lemma v2_budget_cases:
  assumes "v2_budget_issues s = []"
  obtains "spec_val s ''BENCHMARK_RESOURCE_BUDGET_MODE'' = ''unbounded''" "spec_val s ''BENCHMARK_CPU_BUDGET_MILLICORES'' = []"
      "spec_val s ''BENCHMARK_MEMORY_BUDGET_MIB'' = []" "spec_val s ''BENCHMARK_RESOURCE_BUDGET_SCOPE'' = []"
      "spec_val s ''BENCHMARK_RESOURCE_ENFORCEMENT_PROVIDER'' = []"
    | "spec_val s ''BENCHMARK_RESOURCE_BUDGET_MODE'' = ''runner-enforced''"
      "bench_positive_int_at_most (spec_val s ''BENCHMARK_CPU_BUDGET_MILLICORES'') 9223372036854"
      "bench_positive_int_at_most (spec_val s ''BENCHMARK_MEMORY_BUDGET_MIB'') 8796093022207"
      "spec_val s ''BENCHMARK_RESOURCE_BUDGET_SCOPE'' = ''postgres-server-and-pgbench-driver''"
      "spec_val s ''BENCHMARK_RESOURCE_ENFORCEMENT_PROVIDER'' = docker_provider"
  using assms[unfolded v2_budget_issues_def Let_def append_is_Nil_conv]
  by (auto simp: one_of_def docker_provider_def split: if_splits)

lemma accepted_v2_budget:
  assumes "v2_budget_issues s = []"
    and "spec_val s ''BENCHMARK_RESOURCE_BUDGET_MODE'' = ''runner-enforced'' \<longrightarrow> spec_val s ''BENCHMARK_CLIENT_PLACEMENT'' = ''same-host''"
  shows "check_budget_v2 (planned_fields pk s c tp e w sd seeds) = Inr ()" (is "check_budget_v2 ?p = _")
    and "spec_val s ''BENCHMARK_CPU_BUDGET_CORES'' = []"
proof -
  note d = assms(1)[unfolded v2_budget_issues_def Let_def append_is_Nil_conv]
  show "spec_val s ''BENCHMARK_CPU_BUDGET_CORES'' = []" using d by auto
  let ?o = "spec_val s ''BENCHMARK_RESOURCE_BUDGET_MODE''" and ?c = "spec_val s ''BENCHMARK_CPU_BUDGET_MILLICORES''"
    and ?m = "spec_val s ''BENCHMARK_MEMORY_BUDGET_MIB''" and ?s = "spec_val s ''BENCHMARK_RESOURCE_BUDGET_SCOPE''"
    and ?v = "spec_val s ''BENCHMARK_RESOURCE_ENFORCEMENT_PROVIDER''"
  have fields: "pi_resource_budget_mode ?p = ?o" "pi_cpu_budget_millicores ?p = optional_int ?c"
    "pi_memory_budget_mib ?p = optional_int ?m" "pi_resource_budget_scope ?p = ?s"
    "pi_resource_enforcement_provider ?p = ?v" "pi_client_placement ?p = spec_val s ''BENCHMARK_CLIENT_PLACEMENT''"
    "pi_resource_provider_constraints ?p = (if ?v = docker_provider then provider_constraints else [])"
    by (simp_all add: planned_fields_def Let_def)
  have prov: "docker_provider \<noteq> []" by (simp add: docker_provider_def)
  from assms(1) show "check_budget_v2 ?p = Inr ()"
  proof (cases rule: v2_budget_cases)
    case 1
    then show ?thesis using prov by (simp add: check_budget_v2_def fields one_of_def require_def)
  next
    case 2
    have ne: "?c \<noteq> []" "?m \<noteq> []" using 2(2,3) by (auto simp: bench_positive_int_at_most_def positive_int_def)
    have "optional_int ?c = Some (atoi_value ?c)" "0 < atoi_value ?c" "atoi_value ?c \<le> max_cpu_millicores"
      using ne bench_positive_at_most[OF 2(2)] bench_positive_value
      by (auto simp: optional_int_def max_cpu_millicores_def max_int64_def)
    moreover have "optional_int ?m = Some (atoi_value ?m)" "0 < atoi_value ?m" "atoi_value ?m \<le> max_memory_mib"
      using ne bench_positive_at_most[OF 2(3)] bench_positive_value
      by (auto simp: optional_int_def max_memory_mib_def max_int64_def)
    ultimately show ?thesis
      using 2(1,4,5) assms(2) by (simp add: check_budget_v2_def fields one_of_def require_def)
  qed
qed

lemma planned_v2:
  assumes "controls_v2_issues s = []" and "value_or (spec_val s ''BENCHMARK_CONTRACT_VERSION'') ''1'' = ''2''"
    and "spec_val s ''BENCHMARK_RESOURCE_BUDGET_MODE'' = ''runner-enforced'' \<longrightarrow> spec_val s ''BENCHMARK_CLIENT_PLACEMENT'' = ''same-host''"
  shows "check_contract (planned_fields pk s c tp e w sd seeds) = Inr ()"
proof -
  let ?p = "planned_fields pk s c tp e w sd seeds"
  note d = assms(1)[unfolded controls_v2_issues_def Let_def append_is_Nil_conv]
  have parts: "v2_cache_issues s = []" "v2_collector_issues s = []" "v2_budget_issues s = []" using d by blast+
  note col = accepted_v2_collectors[OF parts(2)] and budget = accepted_v2_budget[OF parts(3) assms(3)]
  have stat: "check_statistics ?p ''runner-managed'' = Inr ()"
    using d by (intro planned_statistics[where s = s]) (auto simp: planned_fields_def Let_def)
  have "0 < atoi_value (spec_val s ''BENCHMARK_COLLECTOR_INTERVAL_SECONDS'')" "spec_val s ''BENCHMARK_COLLECTOR_INTERVAL_SECONDS'' \<noteq> []"
    using bench_positive_value[OF col(2)] col(2) by (auto simp: bench_positive_int_def positive_int_def)
  then have "pi_collector_interval_seconds ?p > 0" "pi_collector_interval_seconds ?p \<le> max_collector_interval"
    using col(3) by (simp_all add: planned_fields_def Let_def int_or_def max_collector_interval_def)
  moreover have "pi_collectors ?p = [''pgbench-driver'', ''postgresql-sampler-v2'']" "pi_cpu_budget_cores ?p = None"
    using col(1) budget(2) by (simp_all add: planned_fields_def Let_def)
  ultimately have "validate_v2_controls ?p = Inr ()"
    using stat col(4) budget(1) accepted_v2_cache[OF parts(1)] unfolding validate_v2_controls_def by simp
  moreover have "pi_schema_version ?p = protocol_v2" "pi_contract_version ?p = ''2''"
    using assms(2) by (simp_all add: planned_fields_def Let_def)
  ultimately show ?thesis by (simp add: check_contract_def protocol_v1_def protocol_v2_def)
qed

subsection \<open>Target, seeds and measures\<close>

text \<open>The working directory is absolute, as \<open>os.Getwd\<close> returns it.\<close>

definition absolute_cwd :: "pack \<Rightarrow> bool" where
  "absolute_cwd pk = pred_option is_abs (pk_cwd pk)"

lemma planned_target:
  assumes "target_contract (pi_target p) = Inr (pi_target_topology p, pi_target_endpoint_contract p)"
    and "path_abs (pk_cwd pk) (path_join [pk_root pk, ''topologies'', pi_target_topology p @ ''.env'']) = Some (bp_target_topology_path p)"
    and "absolute_cwd pk" and "is_digest (pi_target_topology_digest p)"
  shows "check_target p = Inr ()"
proof -
  let ?n = "pi_target_topology p @ ''.env''"
  have "pi_target_topology p \<in> {''single'', ''pgbouncer''}"
    using assms(1) by (auto simp: target_contract_def split: if_splits)
  then have n: "slash \<notin> set ?n" "plain_component ?n" "?n \<noteq> []"
    by (auto simp: slash_def plain_component_def)
  have e: "ends_in ?n (path_join [pk_root pk, ''topologies'', ?n])" using ends_in_path_join(2)[OF n(1,2)] .
  have "path_base (bp_target_topology_path p) = ?n"
    using path_base_ends_in[OF ends_in_abs[OF n(1,2) e assms(2)] n(1,3)] .
  moreover have "is_abs (bp_target_topology_path p)"
    using path_abs_is_abs[OF assms(2)] assms(3) by (simp add: absolute_cwd_def)
  ultimately show ?thesis using assms(1,4) by (simp add: check_target_def require_def Let_def)
qed

lemma planned_seeds:
  assumes "split_seed (pi_random_seed p) = Inr (pi_warmup_random_seed p, pi_measure_random_seed p, pi_random_seed_semantics p)"
  shows "check_seeds p = Inr ()"
  using assms by (auto simp: split_seed_def check_seeds_def require_def split: option.splits if_splits)

lemma accepted_metric:
  assumes "bench_metric_issues s = []"
  shows "\<not> (bool_or (spec_val s ''BENCHMARK_CONNECT_PER_TRANSACTION'') False \<and>
            value_or (spec_val s ''BENCHMARK_PRIMARY_METRIC'') ''pgbench.tps'' = ''pgbench.tps'')"
  using assms by (auto simp: bench_metric_issues_def bench_metric_def Let_def bool_or_def value_or_def split: if_splits)

text \<open>An optional number of a specification: absent, or a finite number with a property.\<close>

definition optional_number :: "(f64 \<Rightarrow> bool) \<Rightarrow> string \<Rightarrow> bool" where
  "optional_number good v = (v = [] \<or> number_text v \<and> good (float_value v))"

lemma accepted_thresholds:
  assumes "bench_threshold_issues s = []"
  shows "number_text (value_or (spec_val s ''BENCHMARK_MAX_CV_PCT'') ''10'')"
    "f_less (Fin 0) (float_value (value_or (spec_val s ''BENCHMARK_MAX_CV_PCT'') ''10''))"
    "optional_number (f_le (Fin 0)) (spec_val s ''BENCHMARK_REGRESSION_THRESHOLD_PCT'')"
    "optional_number (f_less (Fin 0)) (spec_val s ''BENCHMARK_RATE'')"
    "optional_number (f_less (Fin 0)) (spec_val s ''BENCHMARK_LATENCY_LIMIT_MS'')"
    "optional_number (\<lambda>x. f_le (Fin 0) x \<and> \<not> f_less (Fin 100) x) (spec_val s ''BENCHMARK_MAX_LATENCY_LIMIT_EXCEEDED_PCT'')"
    "spec_val s ''BENCHMARK_MAX_LATENCY_LIMIT_EXCEEDED_PCT'' \<noteq> [] \<Longrightarrow> spec_val s ''BENCHMARK_LATENCY_LIMIT_MS'' \<noteq> []"
proof -
  note d = assms[unfolded bench_threshold_issues_def decimal_issue_def Let_def append_is_Nil_conv]
  have static: "static_value s k = spec_val s k"
    if "k \<in> {''BENCHMARK_MAX_CV_PCT'', ''BENCHMARK_REGRESSION_THRESHOLD_PCT'', ''BENCHMARK_RATE'', ''BENCHMARK_LATENCY_LIMIT_MS'',
      ''BENCHMARK_MAX_LATENCY_LIMIT_EXCEEDED_PCT''}" for k
    using d that by (blast intro: static_checked)
  have or: "static_or s ''BENCHMARK_MAX_CV_PCT'' ''10'' = value_or (spec_val s ''BENCHMARK_MAX_CV_PCT'') ''10''"
    by (simp add: static_or_def static)
  have s: "static_value s ''BENCHMARK_REGRESSION_THRESHOLD_PCT'' = spec_val s ''BENCHMARK_REGRESSION_THRESHOLD_PCT''"
    "static_value s ''BENCHMARK_RATE'' = spec_val s ''BENCHMARK_RATE''"
    "static_value s ''BENCHMARK_LATENCY_LIMIT_MS'' = spec_val s ''BENCHMARK_LATENCY_LIMIT_MS''"
    "static_value s ''BENCHMARK_MAX_LATENCY_LIMIT_EXCEEDED_PCT'' = spec_val s ''BENCHMARK_MAX_LATENCY_LIMIT_EXCEEDED_PCT''"
    using static by blast+
  note e = d[unfolded s or spec_issue_if_Nil]
  have "value_or (spec_val s ''BENCHMARK_MAX_CV_PCT'') ''10'' \<noteq> []" by simp
  then have "positive_decimal (value_or (spec_val s ''BENCHMARK_MAX_CV_PCT'') ''10'')" using e by blast
  then show "number_text (value_or (spec_val s ''BENCHMARK_MAX_CV_PCT'') ''10'')"
    "f_less (Fin 0) (float_value (value_or (spec_val s ''BENCHMARK_MAX_CV_PCT'') ''10''))"
    using positive_decimal_number by blast+
  show "optional_number (f_le (Fin 0)) (spec_val s ''BENCHMARK_REGRESSION_THRESHOLD_PCT'')"
    "optional_number (f_less (Fin 0)) (spec_val s ''BENCHMARK_RATE'')"
    "optional_number (f_less (Fin 0)) (spec_val s ''BENCHMARK_LATENCY_LIMIT_MS'')"
    unfolding optional_number_def using e nonnegative_decimal_number positive_decimal_number by blast+
  let ?b = "spec_val s ''BENCHMARK_MAX_LATENCY_LIMIT_EXCEEDED_PCT''"
  have budget: "?b = [] \<or> ((\<exists>x. parse_float ?b = Some x \<and> nonnegative_decimal ?b \<and> \<not> f_less (Fin 100) x) \<and>
      spec_val s ''BENCHMARK_LATENCY_LIMIT_MS'' \<noteq> [])"
    using e by (auto split: if_splits option.splits)
  then show "optional_number (\<lambda>x. f_le (Fin 0) x \<and> \<not> f_less (Fin 100) x) ?b"
    unfolding optional_number_def using nonnegative_decimal_number float_value_parsed by metis
  show "?b \<noteq> [] \<Longrightarrow> spec_val s ''BENCHMARK_LATENCY_LIMIT_MS'' \<noteq> []" using budget by blast
qed

lemma bench_nonnegative_uint64_value:
  "bench_nonnegative_uint64 v \<Longrightarrow> parse_uint64 v = Some (uint_value v)"
  using uint_reader.read_agrees by (auto simp: bench_nonnegative_uint64_def)

lemma accepted_options:
  assumes "bench_option_issues s = []"
  shows "spec_val s ''BENCHMARK_RANDOM_SEED'' \<noteq> [] \<Longrightarrow> bench_nonnegative_uint64 (spec_val s ''BENCHMARK_RANDOM_SEED'')"
    and "spec_val s ''BENCHMARK_MAX_TRIES'' \<noteq> [] \<Longrightarrow> bench_nonnegative_int (spec_val s ''BENCHMARK_MAX_TRIES'')"
    and "number_text (value_or (spec_val s ''BENCHMARK_LOG_SAMPLE_RATE'') ''1'')"
    and "f_less (Fin 0) (float_value (value_or (spec_val s ''BENCHMARK_LOG_SAMPLE_RATE'') ''1''))"
    and "\<not> f_less (Fin 1) (float_value (value_or (spec_val s ''BENCHMARK_LOG_SAMPLE_RATE'') ''1''))"
proof -
  note d = assms[unfolded bench_option_issues_def Let_def append_is_Nil_conv]
  have s: "static_value s ''BENCHMARK_RANDOM_SEED'' = spec_val s ''BENCHMARK_RANDOM_SEED''"
    "static_value s ''BENCHMARK_MAX_TRIES'' = spec_val s ''BENCHMARK_MAX_TRIES''"
    and rate: "static_issue s ''BENCHMARK_LOG_SAMPLE_RATE'' = []"
    using d by (blast intro: static_checked)+
  have or: "static_or s ''BENCHMARK_LOG_SAMPLE_RATE'' ''1'' = value_or (spec_val s ''BENCHMARK_LOG_SAMPLE_RATE'') ''1''"
    using rate by simp
  note e = d[unfolded s or spec_issue_if_Nil]
  show "spec_val s ''BENCHMARK_RANDOM_SEED'' \<noteq> [] \<Longrightarrow> bench_nonnegative_uint64 (spec_val s ''BENCHMARK_RANDOM_SEED'')"
    using e by blast
  show "spec_val s ''BENCHMARK_MAX_TRIES'' \<noteq> [] \<Longrightarrow> bench_nonnegative_int (spec_val s ''BENCHMARK_MAX_TRIES'')"
    using e by (auto split: if_splits)
  let ?r = "value_or (spec_val s ''BENCHMARK_LOG_SAMPLE_RATE'') ''1''"
  have "?r \<noteq> []" by simp
  then have "\<not> (case parse_float ?r of None \<Rightarrow> True | Some x \<Rightarrow> \<not> positive_decimal ?r \<or> f_less (Fin 1) x)" using e by blast
  then obtain x where x: "parse_float ?r = Some x" "positive_decimal ?r" "\<not> f_less (Fin 1) x" by (auto split: option.splits)
  show "number_text ?r" "f_less (Fin 0) (float_value ?r)" using positive_decimal_number[OF x(2)] by blast+
  show "\<not> f_less (Fin 1) (float_value ?r)" using x(3) float_value_parsed[OF x(1)] by simp
qed

lemma accepted_controls:
  assumes "bench_control_issues s = []" and "contract_version s = value_or (spec_val s ''BENCHMARK_CONTRACT_VERSION'') ''1''"
    and "one_of (value_or (spec_val s ''BENCHMARK_CONTRACT_VERSION'') ''1'') [''1'', ''2'']"
  shows "one_of (spec_val s ''BENCHMARK_CLIENT_PLACEMENT'') [''same-host'', ''separate-host'', ''remote-host'']"
    and "value_or (spec_val s ''BENCHMARK_CONTRACT_VERSION'') ''1'' = ''1'' \<and> controls_v1_issues s = [] \<or>
         value_or (spec_val s ''BENCHMARK_CONTRACT_VERSION'') ''1'' = ''2'' \<and> controls_v2_issues s = [] \<and>
         (spec_val s ''BENCHMARK_RESOURCE_BUDGET_MODE'' = ''runner-enforced'' \<longrightarrow> spec_val s ''BENCHMARK_CLIENT_PLACEMENT'' = ''same-host'')"
proof -
  note d = assms(1)[unfolded bench_control_issues_def Let_def append_is_Nil_conv assms(2)]
  have p: "static_value s ''BENCHMARK_CLIENT_PLACEMENT'' = spec_val s ''BENCHMARK_CLIENT_PLACEMENT''"
    "spec_val s ''BENCHMARK_CLIENT_PLACEMENT'' \<noteq> []"
    using d required_checked by blast+
  note e = d[unfolded p(1) spec_issue_if_Nil choice_issue_Nil]
  show "one_of (spec_val s ''BENCHMARK_CLIENT_PLACEMENT'') [''same-host'', ''separate-host'', ''remote-host'']"
    using e p(2) by blast
  show "value_or (spec_val s ''BENCHMARK_CONTRACT_VERSION'') ''1'' = ''1'' \<and> controls_v1_issues s = [] \<or>
         value_or (spec_val s ''BENCHMARK_CONTRACT_VERSION'') ''1'' = ''2'' \<and> controls_v2_issues s = [] \<and>
         (spec_val s ''BENCHMARK_RESOURCE_BUDGET_MODE'' = ''runner-enforced'' \<longrightarrow> spec_val s ''BENCHMARK_CLIENT_PLACEMENT'' = ''same-host'')"
  proof (cases "value_or (spec_val s ''BENCHMARK_CONTRACT_VERSION'') ''1'' = ''2''")
    case True
    then show ?thesis using e p(2) by auto
  next
    case False
    then have "value_or (spec_val s ''BENCHMARK_CONTRACT_VERSION'') ''1'' = ''1''" using assms(3) by (simp add: one_of_def)
    then show ?thesis using e by simp
  qed
qed

text \<open>The optional numbers of the controls, in both contract versions.\<close>

lemma accepted_control_numbers:
  assumes "controls_v1_issues s = [] \<or> controls_v2_issues s = []"
  shows "list_all (\<lambda>k. optional_number (\<lambda>_. True) (spec_val s k))
           [''BENCHMARK_CACHE_MIN_RESIDENT_PCT'', ''BENCHMARK_COLLECTOR_MAX_DUTY_CYCLE_PCT'', ''BENCHMARK_CPU_BUDGET_CORES'']"
    and "list_all (\<lambda>k. spec_val s k \<noteq> [] \<longrightarrow> bench_positive_int (spec_val s k))
           [''BENCHMARK_COLLECTOR_OVERHEAD_SAMPLES'', ''BENCHMARK_CPU_BUDGET_MILLICORES'', ''BENCHMARK_MEMORY_BUDGET_MIB'']"
    and "bench_positive_int (spec_val s ''BENCHMARK_COLLECTOR_INTERVAL_SECONDS'')"
proof -
  show "list_all (\<lambda>k. optional_number (\<lambda>_. True) (spec_val s k))
           [''BENCHMARK_CACHE_MIN_RESIDENT_PCT'', ''BENCHMARK_COLLECTOR_MAX_DUTY_CYCLE_PCT'', ''BENCHMARK_CPU_BUDGET_CORES'']"
    (is "list_all ?F _")
    and "list_all (\<lambda>k. spec_val s k \<noteq> [] \<longrightarrow> bench_positive_int (spec_val s k))
           [''BENCHMARK_COLLECTOR_OVERHEAD_SAMPLES'', ''BENCHMARK_CPU_BUDGET_MILLICORES'', ''BENCHMARK_MEMORY_BUDGET_MIB'']"
    (is "list_all ?I _")
    and "bench_positive_int (spec_val s ''BENCHMARK_COLLECTOR_INTERVAL_SECONDS'')"
    using assms
  proof (atomize(full), elim disjE)
    assume 1: "controls_v1_issues s = []"
    note f = accepted_v1[OF 1]
    have "?F ''BENCHMARK_CPU_BUDGET_CORES'' \<and> ?I ''BENCHMARK_MEMORY_BUDGET_MIB''"
      using f(6) positive_decimal_number by (cases rule: v1_budget_cases) (auto simp: optional_number_def)
    then show "list_all ?F [''BENCHMARK_CACHE_MIN_RESIDENT_PCT'', ''BENCHMARK_COLLECTOR_MAX_DUTY_CYCLE_PCT'', ''BENCHMARK_CPU_BUDGET_CORES''] \<and>
      list_all ?I [''BENCHMARK_COLLECTOR_OVERHEAD_SAMPLES'', ''BENCHMARK_CPU_BUDGET_MILLICORES'', ''BENCHMARK_MEMORY_BUDGET_MIB''] \<and>
      bench_positive_int (spec_val s ''BENCHMARK_COLLECTOR_INTERVAL_SECONDS'')"
      using f(2,4) by (simp add: v2_only_keys_def optional_number_def)
  next
    assume "controls_v2_issues s = []"
    then have parts: "v2_cache_issues s = []" "v2_collector_issues s = []" "v2_budget_issues s = []"
      unfolding controls_v2_issues_def Let_def by simp_all
    have "?F ''BENCHMARK_CACHE_MIN_RESIDENT_PCT''"
      using parts(1) percentage_above_zero_number by (cases rule: v2_cache_cases) (auto simp: optional_number_def)
    moreover have "?F ''BENCHMARK_COLLECTOR_MAX_DUTY_CYCLE_PCT'' \<and> ?I ''BENCHMARK_COLLECTOR_OVERHEAD_SAMPLES''"
      using parts(2) percentage_above_zero_number bench_positive_at_most
      by (cases rule: v2_overhead_cases) (auto simp: optional_number_def)
    moreover have "?I ''BENCHMARK_CPU_BUDGET_MILLICORES'' \<and> ?I ''BENCHMARK_MEMORY_BUDGET_MIB''"
      using parts(3) bench_positive_at_most by (cases rule: v2_budget_cases) auto
    moreover have "spec_val s ''BENCHMARK_CPU_BUDGET_CORES'' = []"
      using parts(3) unfolding v2_budget_issues_def Let_def by auto
    ultimately show "list_all ?F [''BENCHMARK_CACHE_MIN_RESIDENT_PCT'', ''BENCHMARK_COLLECTOR_MAX_DUTY_CYCLE_PCT'', ''BENCHMARK_CPU_BUDGET_CORES''] \<and>
      list_all ?I [''BENCHMARK_COLLECTOR_OVERHEAD_SAMPLES'', ''BENCHMARK_CPU_BUDGET_MILLICORES'', ''BENCHMARK_MEMORY_BUDGET_MIB''] \<and>
      bench_positive_int (spec_val s ''BENCHMARK_COLLECTOR_INTERVAL_SECONDS'')"
      using accepted_v2_collectors(2)[OF parts(2)] by (simp add: optional_number_def)
  qed
qed

end
