(* ===== verification/PlanRoundTrip.thy ===== *)
theory PlanRoundTrip
  imports PlanVerify
begin

section \<open>From specification to plan and back\<close>

text \<open>
  The theorems about \<^verbatim>\<open>internal/benchmarkplan/plan.go\<close>: a benchmark specification that the catalogue accepts has
  a plan unless its seed is too large, the plan's digests and declarations verify against the specification,
  and its numbers are in range.
\<close>

subsection \<open>A planned specification has valid declarations\<close>

named_theorems planned_sel \<open>the fields of a planned specification\<close>

text \<open>The fields of a planned specification one by one, so that no proof unfolds the whole record.\<close>

lemma planned_subject [planned_sel]:
  "pi_schema_version (planned_fields pk s c tp e w sd seeds) =
     (if ((value_or (spec_val s ''BENCHMARK_CONTRACT_VERSION'') ''1'' = ''2'')) then protocol_v2 else protocol_v1)"
  "pi_contract_version (planned_fields pk s c tp e w sd seeds) =
     (if ((value_or (spec_val s ''BENCHMARK_CONTRACT_VERSION'') ''1'' = ''2'')) then ''2'' else [])"
  "pi_class (planned_fields pk s c tp e w sd seeds) = value_or (spec_val s ''BENCHMARK_CLASS'') ''measurement''"
  "pi_driver (planned_fields pk s c tp e w sd seeds) = value_or (spec_val s ''BENCHMARK_DRIVER'') ''pgbench''"
  "pi_target (planned_fields pk s c tp e w sd seeds) = value_or (spec_val s ''BENCHMARK_TARGET'') target_direct"
  "pi_target_endpoint_contract (planned_fields pk s c tp e w sd seeds) = snd c"
  "pi_target_topology (planned_fields pk s c tp e w sd seeds) = fst c"
  "pi_target_topology_digest (planned_fields pk s c tp e w sd seeds) = []"
  "pi_experiment_spec (planned_fields pk s c tp e w sd seeds) = spec_id e"
  "pi_experiment_digest (planned_fields pk s c tp e w sd seeds) = []"
  "pi_workload_spec (planned_fields pk s c tp e w sd seeds) = spec_id w"
  "pi_workload_digest (planned_fields pk s c tp e w sd seeds) = []"
  "pi_workload_mode (planned_fields pk s c tp e w sd seeds) = value_or (spec_val w ''PGBENCH_MODE'') ''builtin''"
  "pi_workload_script (planned_fields pk s c tp e w sd seeds) = spec_val w ''PGBENCH_SCRIPT''"
  "pi_workload_script_digest (planned_fields pk s c tp e w sd seeds) = sd"
  "pi_pg_config (planned_fields pk s c tp e w sd seeds) = value_or (spec_val s ''BENCHMARK_PG_CONFIG'') ''default''"
  "pi_pg_config_digest (planned_fields pk s c tp e w sd seeds) = []"
  "pi_mode (planned_fields pk s c tp e w sd seeds) = value_or (spec_val s ''BENCHMARK_MODE'') ''fixed-time''"
  by (simp_all only: planned_fields_def Let_def protocol_identity.select_convs bench_plan.select_convs)

lemma planned_load [planned_sel]:
  "pi_scale (planned_fields pk s c tp e w sd seeds) = int_or (spec_val s ''BENCHMARK_SCALE'') 0"
  "pi_clients (planned_fields pk s c tp e w sd seeds) = int_or (spec_val s ''BENCHMARK_CLIENTS'') 0"
  "pi_threads (planned_fields pk s c tp e w sd seeds) = int_or (spec_val s ''BENCHMARK_THREADS'') 0"
  "pi_warmup_seconds (planned_fields pk s c tp e w sd seeds) = int_or (spec_val s ''BENCHMARK_WARMUP_SECONDS'') 0"
  "pi_measure_seconds (planned_fields pk s c tp e w sd seeds) =
     (if (value_or (spec_val s ''BENCHMARK_MODE'') ''fixed-time'') = ''fixed-time'' then int_or (spec_val s ''BENCHMARK_MEASURE_SECONDS'') 0 else 0)"
  "pi_transactions_per_client (planned_fields pk s c tp e w sd seeds) =
     (if (value_or (spec_val s ''BENCHMARK_MODE'') ''fixed-time'') = ''fixed-time'' then 0 else int_or (spec_val s ''BENCHMARK_TRANSACTIONS_PER_CLIENT'') 0)"
  "pi_trials (planned_fields pk s c tp e w sd seeds) =
     int_or (spec_val s ''BENCHMARK_TRIALS'') (default_trials (value_or (spec_val s ''BENCHMARK_CLASS'') ''measurement''))"
  "pi_min_valid_trials (planned_fields pk s c tp e w sd seeds) =
     int_or (spec_val s ''BENCHMARK_MIN_VALID_TRIALS'') (int_or (spec_val s ''BENCHMARK_TRIALS'') (default_trials (value_or (spec_val s ''BENCHMARK_CLASS'') ''measurement'')))"
  "pi_reset_policy (planned_fields pk s c tp e w sd seeds) =
     value_or (spec_val s ''BENCHMARK_RESET_POLICY'') ''rebuild-per-trial''"
  "pi_runtime_reset (planned_fields pk s c tp e w sd seeds) =
     ((value_or (spec_val s ''BENCHMARK_RESET_POLICY'') ''rebuild-per-trial'') = ''rebuild-per-trial'')"
  by (simp_all only: planned_fields_def Let_def protocol_identity.select_convs bench_plan.select_convs)

lemma planned_controls [planned_sel]:
  "pi_cache_regime (planned_fields pk s c tp e w sd seeds) = spec_val s ''BENCHMARK_CACHE_REGIME''"
  "pi_cache_target_relations (planned_fields pk s c tp e w sd seeds) =
     sort (str_fields (spec_val s ''BENCHMARK_CACHE_TARGET_RELATIONS''))"
  "pi_cache_min_resident_pct (planned_fields pk s c tp e w sd seeds) =
     optional_float (spec_val s ''BENCHMARK_CACHE_MIN_RESIDENT_PCT'')"
  "pi_statistics_reset_policy (planned_fields pk s c tp e w sd seeds) =
     spec_val s ''BENCHMARK_STATISTICS_RESET_POLICY''"
  "pi_statistics_reset_boundary (planned_fields pk s c tp e w sd seeds) =
     spec_val s ''BENCHMARK_STATISTICS_RESET_BOUNDARY''"
  "pi_collectors (planned_fields pk s c tp e w sd seeds) = sort (str_fields (spec_val s ''BENCHMARK_COLLECTORS''))"
  "pi_collector_interval_seconds (planned_fields pk s c tp e w sd seeds) =
     int_or (spec_val s ''BENCHMARK_COLLECTOR_INTERVAL_SECONDS'') 0"
  "pi_collector_overhead_mode (planned_fields pk s c tp e w sd seeds) =
     spec_val s ''BENCHMARK_COLLECTOR_OVERHEAD_MODE''"
  "pi_collector_overhead_samples (planned_fields pk s c tp e w sd seeds) =
     optional_int (spec_val s ''BENCHMARK_COLLECTOR_OVERHEAD_SAMPLES'')"
  "pi_collector_max_duty_cycle_pct (planned_fields pk s c tp e w sd seeds) =
     optional_float (spec_val s ''BENCHMARK_COLLECTOR_MAX_DUTY_CYCLE_PCT'')"
  "pi_client_placement (planned_fields pk s c tp e w sd seeds) = spec_val s ''BENCHMARK_CLIENT_PLACEMENT''"
  "pi_resource_budget_mode (planned_fields pk s c tp e w sd seeds) = spec_val s ''BENCHMARK_RESOURCE_BUDGET_MODE''"
  "pi_cpu_budget_cores (planned_fields pk s c tp e w sd seeds) =
     optional_float (spec_val s ''BENCHMARK_CPU_BUDGET_CORES'')"
  "pi_cpu_budget_millicores (planned_fields pk s c tp e w sd seeds) =
     optional_int (spec_val s ''BENCHMARK_CPU_BUDGET_MILLICORES'')"
  "pi_memory_budget_mib (planned_fields pk s c tp e w sd seeds) =
     optional_int (spec_val s ''BENCHMARK_MEMORY_BUDGET_MIB'')"
  "pi_resource_budget_scope (planned_fields pk s c tp e w sd seeds) = spec_val s ''BENCHMARK_RESOURCE_BUDGET_SCOPE''"
  "pi_resource_enforcement_provider (planned_fields pk s c tp e w sd seeds) =
     spec_val s ''BENCHMARK_RESOURCE_ENFORCEMENT_PROVIDER''"
  "pi_resource_provider_constraints (planned_fields pk s c tp e w sd seeds) =
     (if spec_val s ''BENCHMARK_RESOURCE_ENFORCEMENT_PROVIDER'' = docker_provider then provider_constraints else [])"
  by (simp_all only: planned_fields_def Let_def protocol_identity.select_convs bench_plan.select_convs)

lemma planned_measures [planned_sel]:
  "pi_primary_metric (planned_fields pk s c tp e w sd seeds) =
     value_or (spec_val s ''BENCHMARK_PRIMARY_METRIC'') ''pgbench.tps''"
  "pi_direction (planned_fields pk s c tp e w sd seeds) =
     (value_or (spec_val s ''BENCHMARK_DIRECTION'') (if (value_or (spec_val s ''BENCHMARK_PRIMARY_METRIC'') ''pgbench.tps'') = ''pgbench.latency_mean_us'' then ''lower'' else ''higher''))"
  "pi_max_cv_pct (planned_fields pk s c tp e w sd seeds) = float_or (spec_val s ''BENCHMARK_MAX_CV_PCT'') (Fin 10)"
  "pi_regression_threshold_pct (planned_fields pk s c tp e w sd seeds) =
     optional_float (spec_val s ''BENCHMARK_REGRESSION_THRESHOLD_PCT'')"
  "pi_rate (planned_fields pk s c tp e w sd seeds) = optional_float (spec_val s ''BENCHMARK_RATE'')"
  "pi_latency_limit_ms (planned_fields pk s c tp e w sd seeds) =
     optional_float (spec_val s ''BENCHMARK_LATENCY_LIMIT_MS'')"
  "pi_max_latency_limit_exceeded_pct (planned_fields pk s c tp e w sd seeds) =
     optional_float (spec_val s ''BENCHMARK_MAX_LATENCY_LIMIT_EXCEEDED_PCT'')"
  "pi_connect_per_transaction (planned_fields pk s c tp e w sd seeds) =
     bool_or (spec_val s ''BENCHMARK_CONNECT_PER_TRANSACTION'') False"
  "pi_query_protocol (planned_fields pk s c tp e w sd seeds) =
     value_or (spec_val s ''BENCHMARK_PROTOCOL'') ''simple''"
  "pi_random_seed (planned_fields pk s c tp e w sd seeds) = optional_uint64 (spec_val s ''BENCHMARK_RANDOM_SEED'')"
  "pi_random_seed_semantics (planned_fields pk s c tp e w sd seeds) = snd (snd seeds)"
  "pi_warmup_random_seed (planned_fields pk s c tp e w sd seeds) = fst seeds"
  "pi_measure_random_seed (planned_fields pk s c tp e w sd seeds) = fst (snd seeds)"
  "pi_max_tries (planned_fields pk s c tp e w sd seeds) = optional_int (spec_val s ''BENCHMARK_MAX_TRIES'')"
  "pi_log_transactions (planned_fields pk s c tp e w sd seeds) =
     (bool_or (spec_val s ''BENCHMARK_LOG_TRANSACTIONS'') ((value_or (spec_val s ''BENCHMARK_CLASS'') ''measurement'') = ''measurement''))"
  "pi_log_sample_rate (planned_fields pk s c tp e w sd seeds) =
     float_or (spec_val s ''BENCHMARK_LOG_SAMPLE_RATE'') (Fin 1)"
  "pi_allowed_subject_differences (planned_fields pk s c tp e w sd seeds) =
     sort (str_fields (value_or (spec_val s ''BENCHMARK_ALLOWED_SUBJECT_DIFFERENCES'') ''pg_config''))"
  by (simp_all only: planned_fields_def Let_def protocol_identity.select_convs bench_plan.select_convs)

lemma planned_paths [planned_sel]:
  "bp_spec (planned_fields pk s c tp e w sd seeds) = spec_id s"
  "bp_spec_path (planned_fields pk s c tp e w sd seeds) = spec_path s"
  "bp_spec_digest (planned_fields pk s c tp e w sd seeds) = []"
  "bp_name (planned_fields pk s c tp e w sd seeds) = spec_val s ''BENCHMARK_NAME''"
  "bp_target_topology_path (planned_fields pk s c tp e w sd seeds) = tp"
  "bp_experiment_path (planned_fields pk s c tp e w sd seeds) = spec_path e"
  "bp_workload_path (planned_fields pk s c tp e w sd seeds) = spec_path w"
  "bp_pg_config_path (planned_fields pk s c tp e w sd seeds) =
     path_join [pk_root pk, ''configs'', (value_or (spec_val s ''BENCHMARK_PG_CONFIG'') ''default''), ''postgresql.conf'']"
  "bp_protocol_digest (planned_fields pk s c tp e w sd seeds) = []"
  "bp_comparison_key_digest (planned_fields pk s c tp e w sd seeds) = []"
  by (simp_all only: planned_fields_def Let_def protocol_identity.select_convs bench_plan.select_convs)

lemma digest_of_Inr: "digest_of pk path = Inr d \<longleftrightarrow> (\<exists>content. pk_read pk path = Some content \<and> d = digest_bytes content)"
  by (auto simp: digest_of_def split: option.splits)

lemma digest_files_Inr:
  "digest_files pk q = Inr r \<longleftrightarrow>
     (\<exists>a b c d t. pk_read pk (bp_spec_path q) = Some a \<and> pk_read pk (bp_experiment_path q) = Some b \<and>
        pk_read pk (bp_workload_path q) = Some c \<and> pk_read pk (bp_pg_config_path q) = Some d \<and>
        pk_read pk (bp_target_topology_path q) = Some t \<and>
        r = q\<lparr>bp_spec_digest := digest_bytes a, pi_experiment_digest := digest_bytes b, pi_workload_digest := digest_bytes c,
              pi_pg_config_digest := digest_bytes d, pi_target_topology_digest := digest_bytes t\<rparr>)"
  by (auto simp: digest_files_def result_simps digest_of_Inr)

text \<open>The digests of the files and of the protocol take no part in the checks of the declarations.\<close>

lemma checks_with_file_digests [simp]:
  "check_statistics (q\<lparr>bp_spec_digest := a, pi_experiment_digest := b, pi_workload_digest := c, pi_pg_config_digest := d,
     pi_target_topology_digest := t\<rparr>) = check_statistics q"
  "check_v1_budget (q\<lparr>bp_spec_digest := a, pi_experiment_digest := b, pi_workload_digest := c, pi_pg_config_digest := d,
     pi_target_topology_digest := t\<rparr>) = check_v1_budget q"
  "check_cache_v2 (q\<lparr>bp_spec_digest := a, pi_experiment_digest := b, pi_workload_digest := c, pi_pg_config_digest := d,
     pi_target_topology_digest := t\<rparr>) = check_cache_v2 q"
  "check_overhead_v2 (q\<lparr>bp_spec_digest := a, pi_experiment_digest := b, pi_workload_digest := c, pi_pg_config_digest := d,
     pi_target_topology_digest := t\<rparr>) = check_overhead_v2 q"
  "check_budget_v2 (q\<lparr>bp_spec_digest := a, pi_experiment_digest := b, pi_workload_digest := c, pi_pg_config_digest := d,
     pi_target_topology_digest := t\<rparr>) = check_budget_v2 q"
  by (simp_all add: fun_eq_iff check_statistics_def check_v1_budget_def check_cache_v2_def check_overhead_v2_def check_budget_v2_def)

lemma controls_with_file_digests [simp]:
  "validate_v1_controls (q\<lparr>bp_spec_digest := a, pi_experiment_digest := b, pi_workload_digest := c, pi_pg_config_digest := d,
     pi_target_topology_digest := t\<rparr>) = validate_v1_controls q"
  "validate_v2_controls (q\<lparr>bp_spec_digest := a, pi_experiment_digest := b, pi_workload_digest := c, pi_pg_config_digest := d,
     pi_target_topology_digest := t\<rparr>) = validate_v2_controls q"
  by (simp_all add: validate_v1_controls_def validate_v2_controls_def)

lemma check_contract_digests [simp]:
  "check_contract (q\<lparr>bp_spec_digest := a, pi_experiment_digest := b, pi_workload_digest := c, pi_pg_config_digest := d,
     pi_target_topology_digest := t\<rparr>) = check_contract q"
  by (simp add: check_contract_def)

lemma checks_sealed [simp]:
  "check_statistics (q\<lparr>bp_protocol_digest := a, bp_comparison_key_digest := b\<rparr>) = check_statistics q"
  "check_v1_budget (q\<lparr>bp_protocol_digest := a, bp_comparison_key_digest := b\<rparr>) = check_v1_budget q"
  "check_cache_v2 (q\<lparr>bp_protocol_digest := a, bp_comparison_key_digest := b\<rparr>) = check_cache_v2 q"
  "check_overhead_v2 (q\<lparr>bp_protocol_digest := a, bp_comparison_key_digest := b\<rparr>) = check_overhead_v2 q"
  "check_budget_v2 (q\<lparr>bp_protocol_digest := a, bp_comparison_key_digest := b\<rparr>) = check_budget_v2 q"
  by (simp_all add: fun_eq_iff check_statistics_def check_v1_budget_def check_cache_v2_def check_overhead_v2_def check_budget_v2_def)

lemma controls_sealed [simp]:
  "validate_v1_controls (q\<lparr>bp_protocol_digest := a, bp_comparison_key_digest := b\<rparr>) = validate_v1_controls q"
  "validate_v2_controls (q\<lparr>bp_protocol_digest := a, bp_comparison_key_digest := b\<rparr>) = validate_v2_controls q"
  by (simp_all add: validate_v1_controls_def validate_v2_controls_def)

lemma declarations_sealed [simp]:
  "check_target (q\<lparr>bp_protocol_digest := a, bp_comparison_key_digest := b\<rparr>) = check_target q" "check_contract (q\<lparr>bp_protocol_digest := a, bp_comparison_key_digest := b\<rparr>) = check_contract q"
  "check_seeds (q\<lparr>bp_protocol_digest := a, bp_comparison_key_digest := b\<rparr>) = check_seeds q"
proof -
  show "check_target (q\<lparr>bp_protocol_digest := a, bp_comparison_key_digest := b\<rparr>) = check_target q"
    by (simp add: check_target_def cong: if_cong)
  show "check_contract (q\<lparr>bp_protocol_digest := a, bp_comparison_key_digest := b\<rparr>) = check_contract q"
    by (simp add: check_contract_def)
  show "check_seeds (q\<lparr>bp_protocol_digest := a, bp_comparison_key_digest := b\<rparr>) = check_seeds q"
    by (cases "pi_random_seed q"; cases "pi_warmup_random_seed q"; cases "pi_measure_random_seed q"; simp add: check_seeds_def)
qed

lemma validate_declarations_sealed [simp]:
  "validate_declarations (q\<lparr>bp_protocol_digest := a, bp_comparison_key_digest := b\<rparr>) = validate_declarations q"
  unfolding validate_declarations_def declarations_sealed
  by (cases "pi_max_latency_limit_exceeded_pct q") simp_all

lemma identity_digests_sealed [simp]:
  "identity_digests (q\<lparr>bp_protocol_digest := a, bp_comparison_key_digest := b\<rparr>) = identity_digests q"
  by (simp add: identity_digests_def identity_of_def protocol_identity.truncate_def)

lemma validate_benchmark_Nil:
  "validate_benchmark pk s = [] \<longleftrightarrow>
     bench_heading_issues s = [] \<and> bench_reference_issues pk s = [] \<and> bench_load_issues s = [] \<and>
     bench_mode_issues s = [] \<and> bench_trial_issues s = [] \<and> bench_reset_issues pk s = [] \<and> bench_control_issues s = [] \<and>
     bench_metric_issues s = [] \<and> bench_threshold_issues s = [] \<and> bench_option_issues s = []"
  by (simp add: validate_benchmark_def)

text \<open>The controls of an accepted specification, under either contract.\<close>

lemma accepted_contract:
  assumes "validate_benchmark pk s = []"
  shows "one_of (spec_val s ''BENCHMARK_CLIENT_PLACEMENT'') [''same-host'', ''separate-host'', ''remote-host'']"
    and "controls_v1_issues s = [] \<or> controls_v2_issues s = []"
    and "check_contract (planned_fields pk s c tp e w sd seeds) = Inr ()"
    and "value_or (spec_val s ''BENCHMARK_CONTRACT_VERSION'') ''1'' \<in> {''1'', ''2''}"
proof -
  have h: "bench_heading_issues s = []" "bench_control_issues s = []" using assms validate_benchmark_Nil by blast+
  note c = accepted_controls[OF h(2) accepted_heading(2,3)[OF h(1)]]
  show "one_of (spec_val s ''BENCHMARK_CLIENT_PLACEMENT'') [''same-host'', ''separate-host'', ''remote-host'']" by (rule c(1))
  show "controls_v1_issues s = [] \<or> controls_v2_issues s = []" using c(2) by blast
  show "check_contract (planned_fields pk s c tp e w sd seeds) = Inr ()" using c(2) planned_v1 planned_v2 by blast
  show "value_or (spec_val s ''BENCHMARK_CONTRACT_VERSION'') ''1'' \<in> {''1'', ''2''}"
    using accepted_heading(3)[OF h(1)] by (simp add: one_of_def)
qed

lemma accepted_declarations:
  assumes acc: "validate_benchmark pk s = []" and cwd: "absolute_cwd pk"
    and contract: "target_contract (value_or (spec_val s ''BENCHMARK_TARGET'') target_direct) = Inr contract"
    and path: "path_abs (pk_cwd pk) (path_join [pk_root pk, ''topologies'', fst contract @ ''.env'']) = Some tp"
    and seeds: "split_seed (optional_uint64 (spec_val s ''BENCHMARK_RANDOM_SEED'')) = Inr seeds"
    and dig: "digest_files pk (planned_fields pk s contract tp e w sd seeds) = Inr r"
  shows "validate_declarations r = Inr ()"
proof -
  let ?q = "planned_fields pk s contract tp e w sd seeds"
  obtain a b c d t where r: "r = ?q\<lparr>bp_spec_digest := digest_bytes a, pi_experiment_digest := digest_bytes b,
      pi_workload_digest := digest_bytes c, pi_pg_config_digest := digest_bytes d, pi_target_topology_digest := digest_bytes t\<rparr>"
    using dig unfolding digest_files_Inr by blast
  have parts: "bench_metric_issues s = []" "bench_threshold_issues s = []" using acc validate_benchmark_Nil by blast+
  have "check_target r = Inr ()"
    using cwd contract path unfolding r
    by (intro planned_target[where pk = pk]) (simp_all add: planned_sel)
  moreover have "check_contract r = Inr ()" using accepted_contract(3)[OF acc] unfolding r by simp
  moreover have "one_of (pi_client_placement r) [''same-host'', ''separate-host'', ''remote-host'']"
    using accepted_contract(1)[OF acc] unfolding r by (simp add: planned_sel)
  moreover have "\<not> (pi_connect_per_transaction r \<and> pi_primary_metric r = ''pgbench.tps'')"
    using accepted_metric[OF parts(1)] unfolding r by (simp add: planned_sel)
  moreover have "\<not> (case pi_max_latency_limit_exceeded_pct r of
                  None \<Rightarrow> False
                | Some x \<Rightarrow> pi_latency_limit_ms r = None \<or> \<not> f_finite x \<or> f_less x (Fin 0) \<or> f_less (Fin 100) x)"
  proof -
    let ?b = "spec_val s ''BENCHMARK_MAX_LATENCY_LIMIT_EXCEEDED_PCT''" and ?l = "spec_val s ''BENCHMARK_LATENCY_LIMIT_MS''"
    have "pi_max_latency_limit_exceeded_pct r = optional_float ?b" "pi_latency_limit_ms r = optional_float ?l"
      unfolding r by (simp_all add: planned_sel)
    moreover have "f_less x (Fin 0) \<Longrightarrow> \<not> f_le (Fin 0) x" for x using f_less_not_le by blast
    ultimately show ?thesis
      using accepted_thresholds(6,7)[OF parts(2)] number_text_value[of ?b]
      by (auto simp: optional_number_def optional_float_def)
  qed
  moreover have "check_seeds r = Inr ()"
    using seeds unfolding r by (intro planned_seeds) (simp add: planned_sel)
  ultimately show ?thesis by (simp add: validate_declarations_def)
qed

subsection \<open>The identity has a text\<close>

lemma members_Some_more [simp]:
  "\<exists>y. snd (member_int k i) = Some y" "\<exists>y. snd (member_bool k b) = Some y" "\<exists>y. snd (member_strings_copy k vs) = Some y"
  "list_all (\<lambda>m. \<exists>y. snd m = Some y) (member_int_set k i)" "list_all (\<lambda>m. \<exists>y. snd m = Some y) (member_int_opt k n)"
  "list_all (\<lambda>m. \<exists>y. snd m = Some y) (member_strings_set k vs)"
  by (simp_all add: member_int_def member_bool_def member_strings_copy_def member_int_set_def member_int_opt_def
      member_strings_set_def split: option.splits)

definition finite_identity :: "protocol_identity \<Rightarrow> bool" where
  "finite_identity i =
     (list_all (pred_option f_finite)
        [pi_cache_min_resident_pct i, pi_collector_max_duty_cycle_pct i, pi_cpu_budget_cores i, pi_regression_threshold_pct i,
         pi_rate i, pi_latency_limit_ms i, pi_max_latency_limit_exceeded_pct i] \<and>
      f_finite (pi_max_cv_pct i) \<and> f_finite (pi_log_sample_rate i))"

lemma identity_text: "finite_identity i \<Longrightarrow> \<exists>t. identity_json i = Some t"
  using json_float_Some
  by (simp add: finite_identity_def identity_json_def identity_members_def subject_members_def load_members_def
      control_members_def measure_members_def)

lemma finite_without_config [simp]: "finite_identity (without_config i) = finite_identity i"
  by (simp add: finite_identity_def without_config_def)

lemma identity_digests_Some: "finite_identity (identity_of p) \<Longrightarrow> \<exists>d. identity_digests p = Inr d"
  using identity_text[of "identity_of p"] identity_text[of "without_config (identity_of p)"]
  by (auto simp: identity_digests_def plan_digest_json_def)

subsection \<open>The steps of a build\<close>

text \<open>What a plan is made of: the specifications shown, the target, the seeds and the files digested.\<close>

definition planned_from :: "pack \<Rightarrow> spec \<Rightarrow> spec \<Rightarrow> spec \<Rightarrow> bench_plan \<Rightarrow> bool" where
  "planned_from pk s e w r =
     (\<exists>contract tp sd seeds.
        target_contract (value_or (spec_val s ''BENCHMARK_TARGET'') target_direct) = Inr contract \<and>
        path_abs (pk_cwd pk) (path_join [pk_root pk, ''topologies'', fst contract @ ''.env'']) = Some tp \<and>
        show_spec pk ''experiment'' (spec_val s ''BENCHMARK_EXPERIMENT_SPEC'') = Inr e \<and>
        show_spec pk ''workload'' (spec_val s ''BENCHMARK_WORKLOAD_SPEC'') = Inr w \<and>
        (if spec_val w ''PGBENCH_SCRIPT'' = [] then sd = []
         else digest_of pk (resolve_path (pk_root pk) (spec_val w ''PGBENCH_SCRIPT'')) = Inr sd) \<and>
        split_seed (optional_uint64 (spec_val s ''BENCHMARK_RANDOM_SEED'')) = Inr seeds \<and>
        digest_files pk (planned_fields pk s contract tp e w sd seeds) = Inr r)"

lemma show_for_plan_Inr [result_simps]: "show_for_plan pk kind ref = Inr s \<longleftrightarrow> show_spec pk kind ref = Inr s"
  by (auto simp: show_for_plan_def split: sum.splits)

lemma plan_of_spec_Inr:
  "plan_of_spec pk s = Inr p \<longleftrightarrow> (\<exists>e w r. planned_from pk s e w r \<and> seal_plan r = Inr p)"
proof -
  have script: "(if b then Inr [] else m) = Inr sd \<longleftrightarrow> (if b then sd = [] else m = Inr sd)" for b m and sd :: string
    by auto
  show ?thesis unfolding plan_of_spec_def planned_from_def result_simps script by blast
qed

lemma seal_plan_Inr:
  "seal_plan r = Inr p \<longleftrightarrow>
     validate_declarations r = Inr () \<and>
     (\<exists>a b. identity_digests r = Inr (a, b) \<and> p = r\<lparr>bp_protocol_digest := a, bp_comparison_key_digest := b\<rparr>)"
  by (auto simp: seal_plan_def result_simps)

lemma sealed_plan_verifies: "seal_plan r = Inr p \<Longrightarrow> verify_digests p = Inr ()"
  unfolding seal_plan_Inr verify_digests_def by (auto simp: require_def)

lemma shown_kind: "show_spec pk kind ref = Inr s \<Longrightarrow> spec_kind s = kind \<and> (\<exists>c. pk_read pk (spec_path s) = Some c)"
proof -
  assume "show_spec pk kind ref = Inr s"
  then obtain path ident content where c: "pk_read pk path = Some content"
    and p: "(case parse_env content of Inl e \<Rightarrow> Inl (Spec_unparsable e)
       | Inr vs \<Rightarrow> Inr \<lparr>spec_kind = kind, spec_id = ident, spec_path = path, spec_values = vs\<rparr>) = Inr s"
    by (auto simp: show_spec_def result_simps)
  then show ?thesis by (cases "parse_env content") auto
qed

lemma validated_spec:
  "show_spec pk ''benchmark'' ident = Inr s \<Longrightarrow> validate_catalog pk ''benchmark'' [ident] = map Issue (validate_benchmark pk s)"
  using shown_kind[of pk "''benchmark''" ident s] by (simp add: validate_catalog_def validate_kind_def validate_spec_def)

text \<open>What \<open>Build\<close> plans is the specification that the input shows; what it validates is the one that the id of that shows.\<close>

lemma build_plan_shown:
  assumes "show_spec pk ''benchmark'' input = Inr s"
  shows "build_plan pk input =
    (if validate_catalog pk ''benchmark'' [spec_id s] \<noteq> [] then Inl (Spec_invalid (validate_catalog pk ''benchmark'' [spec_id s]))
     else plan_of_spec pk s)"
  using assms by (simp add: build_plan_def show_for_plan_def Let_def)

lemma build_plan_Inr:
  assumes "show_spec pk ''benchmark'' input = Inr s"
  shows "build_plan pk input = Inr p \<longleftrightarrow> validate_catalog pk ''benchmark'' [spec_id s] = [] \<and> plan_of_spec pk s = Inr p"
  using build_plan_shown[OF assms] by simp

lemma unshown_spec: "show_spec pk ''benchmark'' ident = Inl e \<Longrightarrow> validate_catalog pk ''benchmark'' [ident] = [Unresolved e]"
  by (simp add: validate_catalog_def validate_kind_def)

subsection \<open>Existence\<close>

lemma accepted_finite:
  assumes "validate_benchmark pk s = []" and "planned_from pk s e w r"
  shows "finite_identity (identity_of r)"
proof -
  have parts: "bench_threshold_issues s = []" "bench_option_issues s = []" using assms(1) validate_benchmark_Nil by blast+
  have number: "pred_option f_finite (optional_float v)" if "optional_number good v" for good v
    using that number_text_value by (auto simp: optional_number_def optional_float_def)
  have "f_finite (float_or (spec_val s ''BENCHMARK_MAX_CV_PCT'') (Fin 10))"
    "f_finite (float_or (spec_val s ''BENCHMARK_LOG_SAMPLE_RATE'') (Fin 1))"
    using accepted_thresholds(1)[OF parts(1)] accepted_options(3)[OF parts(2)] number_text_value
    by (auto simp: float_or_def value_or_def split: if_splits)
  moreover have "list_all (\<lambda>k. pred_option f_finite (optional_float (spec_val s k)))
      [''BENCHMARK_CACHE_MIN_RESIDENT_PCT'', ''BENCHMARK_COLLECTOR_MAX_DUTY_CYCLE_PCT'', ''BENCHMARK_CPU_BUDGET_CORES'']"
    using accepted_control_numbers(1)[OF accepted_contract(2)[OF assms(1)]] by (auto intro: number)
  moreover have "pred_option f_finite (optional_float (spec_val s ''BENCHMARK_REGRESSION_THRESHOLD_PCT''))"
    "pred_option f_finite (optional_float (spec_val s ''BENCHMARK_RATE''))"
    "pred_option f_finite (optional_float (spec_val s ''BENCHMARK_LATENCY_LIMIT_MS''))"
    "pred_option f_finite (optional_float (spec_val s ''BENCHMARK_MAX_LATENCY_LIMIT_EXCEEDED_PCT''))"
    using accepted_thresholds(3-6)[OF parts(1)] number by blast+
  moreover obtain c tp sd seeds where "digest_files pk (planned_fields pk s c tp e w sd seeds) = Inr r"
    using assms(2) unfolding planned_from_def by blast
  then obtain a b d f g where "r = (planned_fields pk s c tp e w sd seeds)\<lparr>bp_spec_digest := a, pi_experiment_digest := b,
      pi_workload_digest := d, pi_pg_config_digest := f, pi_target_topology_digest := g\<rparr>"
    unfolding digest_files_Inr by blast
  ultimately show ?thesis
    by (simp add: finite_identity_def identity_of_def protocol_identity.truncate_def planned_sel)
qed

lemma accepted_seal:
  assumes "validate_benchmark pk s = []" and "planned_from pk s e w r" and "absolute_cwd pk"
  shows "\<exists>p. seal_plan r = Inr p"
proof -
  have "validate_declarations r = Inr ()"
    using assms(2) accepted_declarations[OF assms(1,3)] unfolding planned_from_def by blast
  moreover obtain a b where "identity_digests r = Inr (a, b)"
    using identity_digests_Some[OF accepted_finite[OF assms(1,2)]] by auto
  ultimately show ?thesis unfolding seal_plan_Inr by blast
qed

text \<open>The files that a plan digests besides the specifications.\<close>

definition plan_files_readable :: "pack \<Rightarrow> spec \<Rightarrow> bool" where
  "plan_files_readable pk s =
     (let w = shown pk ''workload'' (spec_val s ''BENCHMARK_WORKLOAD_SPEC''); script = spec_val w ''PGBENCH_SCRIPT'';
          topology = target_topology (value_or (spec_val s ''BENCHMARK_TARGET'') target_direct)
      in pk_read pk (path_join [pk_root pk, ''configs'', value_or (spec_val s ''BENCHMARK_PG_CONFIG'') ''default'', ''postgresql.conf'']) \<noteq> None \<and>
         Option.bind (path_abs (pk_cwd pk) (path_join [pk_root pk, ''topologies'', topology @ ''.env''])) (pk_read pk) \<noteq> None \<and>
         (script = [] \<or> pk_read pk (resolve_path (pk_root pk) script) \<noteq> None))"

definition seed_fits :: "spec \<Rightarrow> bool" where
  "seed_fits s = (spec_val s ''BENCHMARK_RANDOM_SEED'' = [] \<or> uint_value (spec_val s ''BENCHMARK_RANDOM_SEED'') \<le> max_seed)"

lemma split_seed_fits:
  "if seed_fits s then \<exists>seeds. split_seed (optional_uint64 (spec_val s ''BENCHMARK_RANDOM_SEED'')) = Inr seeds
   else split_seed (optional_uint64 (spec_val s ''BENCHMARK_RANDOM_SEED'')) = Inl Seed_too_large"
  by (auto simp: seed_fits_def split_seed_def optional_uint64_def not_le)

lemma accepted_spec_planned:
  assumes shown: "show_spec pk ''benchmark'' input = Inr s"
    and acc: "validate_benchmark pk s = []" and cwd: "absolute_cwd pk" and files: "plan_files_readable pk s"
  shows "if seed_fits s then \<exists>p. plan_of_spec pk s = Inr p else plan_of_spec pk s = Inl Seed_too_large"
proof -
  have h: "bench_heading_issues s = []" "bench_reference_issues pk s = []" using acc validate_benchmark_Nil by blast+
  obtain e where e: "show_spec pk ''experiment'' (spec_val s ''BENCHMARK_EXPERIMENT_SPEC'') = Inr e"
    using accepted_references(1)[OF h(2)] by blast
  obtain w where w: "show_spec pk ''workload'' (spec_val s ''BENCHMARK_WORKLOAD_SPEC'') = Inr w"
    using accepted_references(2)[OF h(2)] by blast
  have ref: "spec_val s ''BENCHMARK_WORKLOAD_SPEC'' \<noteq> [] \<and> \<not> is_dynamic (spec_val s ''BENCHMARK_WORKLOAD_SPEC'')"
    using h(2) unfolding bench_reference_issues_def bench_workload_issues_def Let_def by simp
  have sw: "shown pk ''workload'' (spec_val s ''BENCHMARK_WORKLOAD_SPEC'') = w" using w ref by (simp add: shown_def)
  let ?t = "value_or (spec_val s ''BENCHMARK_TARGET'') target_direct"
  obtain contract where c: "target_contract ?t = Inr contract" "fst contract = target_topology ?t"
    using accepted_heading(5)[OF h(1)]
    by (auto simp: one_of_def target_contract_def target_topology_def target_direct_def target_pgbouncer_def)
  obtain tp t where tp: "path_abs (pk_cwd pk) (path_join [pk_root pk, ''topologies'', fst contract @ ''.env'']) = Some tp"
    "pk_read pk tp = Some t"
    using files c(2) by (auto simp: plan_files_readable_def Let_def bind_eq_Some_conv)
  obtain cf where cf: "pk_read pk (path_join [pk_root pk, ''configs'', value_or (spec_val s ''BENCHMARK_PG_CONFIG'') ''default'', ''postgresql.conf'']) = Some cf"
    using files by (auto simp: plan_files_readable_def Let_def)
  have "spec_val w ''PGBENCH_SCRIPT'' = [] \<or> pk_read pk (resolve_path (pk_root pk) (spec_val w ''PGBENCH_SCRIPT'')) \<noteq> None"
    using files unfolding plan_files_readable_def Let_def sw by blast
  then have "\<exists>sd. if spec_val w ''PGBENCH_SCRIPT'' = [] then sd = []
      else digest_of pk (resolve_path (pk_root pk) (spec_val w ''PGBENCH_SCRIPT'')) = Inr sd"
    by (auto simp: digest_of_Inr)
  then obtain sd where sd: "if spec_val w ''PGBENCH_SCRIPT'' = [] then sd = []
      else digest_of pk (resolve_path (pk_root pk) (spec_val w ''PGBENCH_SCRIPT'')) = Inr sd"
    by blast
  have steps: "plan_of_spec pk s =
      bind_r (split_seed (optional_uint64 (spec_val s ''BENCHMARK_RANDOM_SEED''))) (\<lambda>seeds.
      bind_r (digest_files pk (planned_fields pk s contract tp e w sd seeds)) seal_plan)"
    using c(1) tp(1) e w sd by (simp add: plan_of_spec_def show_for_plan_def of_option_def split: if_splits)
  show ?thesis
  proof (cases "seed_fits s")
    case True
    then obtain seeds where seeds: "split_seed (optional_uint64 (spec_val s ''BENCHMARK_RANDOM_SEED'')) = Inr seeds"
      using split_seed_fits[of s] by auto
    obtain sc ec wc where "pk_read pk (spec_path s) = Some sc" "pk_read pk (spec_path e) = Some ec" "pk_read pk (spec_path w) = Some wc"
      using shown_kind[OF shown] shown_kind[OF e] shown_kind[OF w] by blast
    then have "\<exists>r. digest_files pk (planned_fields pk s contract tp e w sd seeds) = Inr r"
      unfolding digest_files_Inr using tp(2) cf by (simp add: planned_sel)
    then obtain r where r: "digest_files pk (planned_fields pk s contract tp e w sd seeds) = Inr r" by blast
    then have "planned_from pk s e w r" unfolding planned_from_def using c(1) tp(1) e w sd seeds by blast
    then obtain p where "seal_plan r = Inr p" using accepted_seal[OF acc _ cwd] by blast
    then show ?thesis using True steps seeds r by simp
  next
    case False
    then show ?thesis using split_seed_fits[of s] steps by simp
  qed
qed

subsection \<open>Round trip of the declarations\<close>

lemma each_matches_Inr: "each_matches good items = Inr () \<longleftrightarrow> list_all (\<lambda>(k, v). good k v) items"
  by (induction good items rule: each_matches.induct) (auto simp: mismatch_unless_def result_simps)

lemma declaration_value_or: "declaration_value vs k d = value_or (vs k) d"
  by (simp add: declaration_value_def value_or_def)

text \<open>A planned record with its digests filled in.\<close>

definition sealed_from :: "pack \<Rightarrow> spec \<Rightarrow> spec \<Rightarrow> spec \<Rightarrow> bench_plan \<Rightarrow> bool" where
  "sealed_from pk s e w p =
     (\<exists>contract tp sd seeds a b c d t m n.
        p = (planned_fields pk s contract tp e w sd seeds)\<lparr>bp_spec_digest := a, pi_experiment_digest := b, pi_workload_digest := c,
              pi_pg_config_digest := d, pi_target_topology_digest := t, bp_protocol_digest := m, bp_comparison_key_digest := n\<rparr>)"

lemma declared_strings_match:
  assumes "sealed_from pk s e w p" and "spec_val s ''BENCHMARK_EXPERIMENT_SPEC'' = spec_id e"
    and "spec_val s ''BENCHMARK_WORKLOAD_SPEC'' = spec_id w"
  shows "each_matches (\<lambda>key v. declaration_value (val_of (spec_values s)) key (string_default key p) = v) (declared_strings p) = Inr ()"
proof -
  obtain contract tp sd seeds a b c d t m n where
    p: "p = (planned_fields pk s contract tp e w sd seeds)\<lparr>bp_spec_digest := a, pi_experiment_digest := b, pi_workload_digest := c,
              pi_pg_config_digest := d, pi_target_topology_digest := t, bp_protocol_digest := m, bp_comparison_key_digest := n\<rparr>"
    using assms(1) unfolding sealed_from_def by blast
  have metric: "pi_primary_metric p = value_or (spec_val s ''BENCHMARK_PRIMARY_METRIC'') ''pgbench.tps''"
    unfolding p by (simp add: planned_sel)
  show ?thesis
    unfolding each_matches_Inr declared_strings_def declaration_value_or string_default_def metric
    unfolding p by (simp add: planned_sel value_or_def assms(2,3))
qed

lemma default_numerals: "parse_int64 ''0'' = Some 0" "parse_int64 ''1'' = Some 1" "parse_int64 ''10'' = Some 10"
  by (simp_all add: parse_int64_digits all_digits_def is_digit_def code_def nat_of_digits_def digit_val_def max_int64_def)

lemma default_int_read:
  "parse_int64 d = Some x \<Longrightarrow> (v \<noteq> [] \<Longrightarrow> parse_int64 v \<noteq> None) \<Longrightarrow> parse_int64 (value_or v d) = Some (int_or v x)"
  using int_reader.default_agrees[of d x v] by (simp add: value_or_def int_or_def)

lemma set_int_read: "bench_positive_int v \<Longrightarrow> v \<noteq> [] \<and> parse_int64 v = Some (int_or v x) \<and> 0 < int_or v x \<and> int_or v x \<le> max_int64"
  using bench_positive_value[of v] by (auto simp: int_or_def bench_positive_int_def positive_int_def)

text \<open>The numbers of trials, whose defaults depend on the class and on each other.\<close>

lemma planned_trials:
  assumes "sealed_from pk s e w p" and "validate_benchmark pk s = []"
  shows "parse_int64 (value_or (spec_val s ''BENCHMARK_TRIALS'') (int_default ''BENCHMARK_TRIALS'' p)) = Some (pi_trials p)"
    and "parse_int64 (value_or (spec_val s ''BENCHMARK_MIN_VALID_TRIALS'') (show_int (pi_trials p))) = Some (pi_min_valid_trials p)"
    and "0 < pi_min_valid_trials p" "pi_min_valid_trials p \<le> pi_trials p" "pi_trials p \<le> max_int64"
proof -
  let ?t = "spec_val s ''BENCHMARK_TRIALS''" and ?m = "spec_val s ''BENCHMARK_MIN_VALID_TRIALS''"
  have parts: "bench_heading_issues s = []" "bench_trial_issues s = []" using assms(2) validate_benchmark_Nil by blast+
  obtain contract tp sd seeds a b c d t m n where
    p: "p = (planned_fields pk s contract tp e w sd seeds)\<lparr>bp_spec_digest := a, pi_experiment_digest := b, pi_workload_digest := c,
              pi_pg_config_digest := d, pi_target_topology_digest := t, bp_protocol_digest := m, bp_comparison_key_digest := n\<rparr>"
    using assms(1) unfolding sealed_from_def by blast
  have fields: "pi_class p = value_or (spec_val s ''BENCHMARK_CLASS'') ''measurement''"
    "pi_trials p = int_or ?t (default_trials (pi_class p))" "pi_min_valid_trials p = int_or ?m (pi_trials p)"
    unfolding p by (simp_all add: planned_sel)
  have static: "\<not> is_dynamic ?t" "static_issue s ''BENCHMARK_MIN_VALID_TRIALS'' = []"
    using parts(2) unfolding bench_trial_issues_def Let_def by simp_all
  have written: "bench_trials s = value_or ?t (int_default ''BENCHMARK_TRIALS'' p)"
    using static(1) accepted_heading(4)[OF parts(1)] unfolding fields(1) int_default_def bench_trials_def by simp
  note b = bench_positive_value[OF accepted_trials(1)[OF parts(2)]] bench_positive_value[OF accepted_trials(2)[OF parts(2)]]
    accepted_trials(3)[OF parts(2)]
  have dflt: "parse_int64 (int_default ''BENCHMARK_TRIALS'' p) = Some (default_trials (pi_class p))"
    by (simp add: int_default_def default_trials_def default_numerals)
  have "?t \<noteq> [] \<Longrightarrow> parse_int64 ?t \<noteq> None" using b(1) written by (simp add: value_or_def)
  then show t: "parse_int64 (value_or ?t (int_default ''BENCHMARK_TRIALS'' p)) = Some (pi_trials p)"
    using default_int_read[OF dflt] fields(2) by simp
  then have trials: "atoi_value (bench_trials s) = pi_trials p" "int64 (pi_trials p)"
    using atoi_value_parsed parse_int64_int64 unfolding written by blast+
  have "?m \<noteq> [] \<Longrightarrow> parse_int64 ?m \<noteq> None" using b(2) by (simp add: value_or_def)
  then show "parse_int64 (value_or ?m (show_int (pi_trials p))) = Some (pi_min_valid_trials p)"
    using default_int_read[of "show_int (pi_trials p)" "pi_trials p" ?m] trials(2) fields(3) by simp
  have "atoi_value (value_or ?m (bench_trials s)) = pi_min_valid_trials p"
    using trials(1) fields(3) by (simp add: value_or_def int_or_def)
  then show "0 < pi_min_valid_trials p" "pi_min_valid_trials p \<le> pi_trials p" "pi_trials p \<le> max_int64"
    using b trials(1) by auto
qed

lemma planned_numbers:
  assumes "sealed_from pk s e w p" and "validate_benchmark pk s = []"
  shows "parse_int64 (spec_val s ''BENCHMARK_SCALE'') = Some (pi_scale p)" "spec_val s ''BENCHMARK_SCALE'' \<noteq> []" "0 < pi_scale p"
    and "parse_int64 (spec_val s ''BENCHMARK_CLIENTS'') = Some (pi_clients p)" "spec_val s ''BENCHMARK_CLIENTS'' \<noteq> []" "0 < pi_clients p"
    and "parse_int64 (spec_val s ''BENCHMARK_THREADS'') = Some (pi_threads p)" "spec_val s ''BENCHMARK_THREADS'' \<noteq> []" "0 < pi_threads p"
    and "parse_int64 (value_or (spec_val s ''BENCHMARK_WARMUP_SECONDS'') ''0'') = Some (pi_warmup_seconds p)" "0 \<le> pi_warmup_seconds p"
    and "parse_int64 (spec_val s ''BENCHMARK_COLLECTOR_INTERVAL_SECONDS'') = Some (pi_collector_interval_seconds p)"
      "0 < pi_collector_interval_seconds p"
proof -
  obtain contract tp sd seeds a b c d t m n where
    p: "p = (planned_fields pk s contract tp e w sd seeds)\<lparr>bp_spec_digest := a, pi_experiment_digest := b, pi_workload_digest := c,
              pi_pg_config_digest := d, pi_target_topology_digest := t, bp_protocol_digest := m, bp_comparison_key_digest := n\<rparr>"
    using assms(1) unfolding sealed_from_def by blast
  have fields: "pi_scale p = int_or (spec_val s ''BENCHMARK_SCALE'') 0" "pi_clients p = int_or (spec_val s ''BENCHMARK_CLIENTS'') 0"
    "pi_threads p = int_or (spec_val s ''BENCHMARK_THREADS'') 0" "pi_warmup_seconds p = int_or (spec_val s ''BENCHMARK_WARMUP_SECONDS'') 0"
    "pi_collector_interval_seconds p = int_or (spec_val s ''BENCHMARK_COLLECTOR_INTERVAL_SECONDS'') 0"
    unfolding p by (simp_all add: planned_sel)
  have load: "bench_load_issues s = []" using assms(2) validate_benchmark_Nil by blast
  note l = accepted_load(1-3)[OF load, THEN set_int_read[where x = 0]]
    accepted_control_numbers(3)[OF accepted_contract(2)[OF assms(2)], THEN set_int_read[where x = 0]]
  show "parse_int64 (spec_val s ''BENCHMARK_SCALE'') = Some (pi_scale p)" "spec_val s ''BENCHMARK_SCALE'' \<noteq> []" "0 < pi_scale p"
    "parse_int64 (spec_val s ''BENCHMARK_CLIENTS'') = Some (pi_clients p)" "spec_val s ''BENCHMARK_CLIENTS'' \<noteq> []" "0 < pi_clients p"
    "parse_int64 (spec_val s ''BENCHMARK_THREADS'') = Some (pi_threads p)" "spec_val s ''BENCHMARK_THREADS'' \<noteq> []" "0 < pi_threads p"
    "parse_int64 (spec_val s ''BENCHMARK_COLLECTOR_INTERVAL_SECONDS'') = Some (pi_collector_interval_seconds p)"
    "0 < pi_collector_interval_seconds p"
    using l unfolding fields by blast+
  let ?w = "spec_val s ''BENCHMARK_WARMUP_SECONDS''"
  note w = bench_nonnegative_value[OF accepted_load(4)[OF load]]
  have "?w \<noteq> [] \<Longrightarrow> parse_int64 ?w \<noteq> None" using w by (simp add: value_or_def)
  then show r: "parse_int64 (value_or ?w ''0'') = Some (pi_warmup_seconds p)"
    using default_int_read[OF default_numerals(1)] fields(4) by simp
  then show "0 \<le> pi_warmup_seconds p" using w by simp
qed

text \<open>The measured length: exactly one of its two forms.\<close>

lemma planned_length:
  assumes "sealed_from pk s e w p" and "validate_benchmark pk s = []"
  shows "pi_mode p = ''fixed-time'' \<and> parse_int64 (spec_val s ''BENCHMARK_MEASURE_SECONDS'') = Some (pi_measure_seconds p) \<and>
        spec_val s ''BENCHMARK_MEASURE_SECONDS'' \<noteq> [] \<and> 0 < pi_measure_seconds p \<and>
        spec_val s ''BENCHMARK_TRANSACTIONS_PER_CLIENT'' = [] \<and> pi_transactions_per_client p = 0 \<or>
      pi_mode p = ''fixed-transactions'' \<and>
        parse_int64 (spec_val s ''BENCHMARK_TRANSACTIONS_PER_CLIENT'') = Some (pi_transactions_per_client p) \<and>
        spec_val s ''BENCHMARK_TRANSACTIONS_PER_CLIENT'' \<noteq> [] \<and> 0 < pi_transactions_per_client p \<and>
        spec_val s ''BENCHMARK_MEASURE_SECONDS'' = [] \<and> pi_measure_seconds p = 0"
proof -
  obtain contract tp sd seeds a b c d t m n where
    p: "p = (planned_fields pk s contract tp e w sd seeds)\<lparr>bp_spec_digest := a, pi_experiment_digest := b, pi_workload_digest := c,
              pi_pg_config_digest := d, pi_target_topology_digest := t, bp_protocol_digest := m, bp_comparison_key_digest := n\<rparr>"
    using assms(1) unfolding sealed_from_def by blast
  have fields: "pi_mode p = value_or (spec_val s ''BENCHMARK_MODE'') ''fixed-time''"
    "pi_measure_seconds p = (if pi_mode p = ''fixed-time'' then int_or (spec_val s ''BENCHMARK_MEASURE_SECONDS'') 0 else 0)"
    "pi_transactions_per_client p = (if pi_mode p = ''fixed-time'' then 0 else int_or (spec_val s ''BENCHMARK_TRANSACTIONS_PER_CLIENT'') 0)"
    unfolding p by (simp_all add: planned_sel)
  have mode: "bench_mode_issues s = []" using assms(2) validate_benchmark_Nil by blast
  from accepted_mode[OF mode] consider
      (time) "pi_mode p = ''fixed-time''" "bench_positive_int (spec_val s ''BENCHMARK_MEASURE_SECONDS'')"
        "spec_val s ''BENCHMARK_TRANSACTIONS_PER_CLIENT'' = []"
    | (count) "pi_mode p = ''fixed-transactions''" "bench_positive_int (spec_val s ''BENCHMARK_TRANSACTIONS_PER_CLIENT'')"
        "spec_val s ''BENCHMARK_MEASURE_SECONDS'' = []"
    unfolding fields(1) by presburger
  then show ?thesis
  proof cases
    case time
    then show ?thesis using set_int_read[OF time(2), of 0] fields(2,3) by simp
  next
    case count
    then show ?thesis using set_int_read[OF count(2), of 0] fields(2,3) by simp
  qed
qed

lemma declared_ints_match:
  assumes "sealed_from pk s e w p" and "validate_benchmark pk s = []"
  shows "\<exists>ints. declared_lengths (val_of (spec_values s)) p = Inr ints \<and>
     each_matches (\<lambda>key v. parse_int64 (declaration_value (val_of (spec_values s)) key (int_default key p)) = Some v) ints = Inr ()"
proof -
  let ?vs = "val_of (spec_values s)"
  define P where "P = (\<lambda>key v. parse_int64 (value_or (?vs key) (int_default key p)) = Some v)"
  note load = planned_numbers[OF assms]
  have set: "P k v" if "parse_int64 (?vs k) = Some v" "?vs k \<noteq> []" for k v using that by (simp add: P_def value_or_def)
  have "P ''BENCHMARK_WARMUP_SECONDS'' (pi_warmup_seconds p)" "P ''BENCHMARK_MIN_VALID_TRIALS'' (pi_min_valid_trials p)"
    "P ''BENCHMARK_TRIALS'' (pi_trials p)"
    using load(10) planned_trials(1,2)[OF assms] by (simp_all add: P_def int_default_def)
  then have ints: "list_all (\<lambda>(k, v). P k v) (declared_ints p)"
    using set[OF load(1,2)] set[OF load(4,5)] set[OF load(7,8)] by (simp add: declared_ints_def)
  have lengths: "pi_mode p = ''fixed-time'' \<and> P ''BENCHMARK_MEASURE_SECONDS'' (pi_measure_seconds p) \<and>
        ?vs ''BENCHMARK_TRANSACTIONS_PER_CLIENT'' = [] \<and> pi_transactions_per_client p = 0 \<or>
      pi_mode p \<noteq> ''fixed-time'' \<and> P ''BENCHMARK_TRANSACTIONS_PER_CLIENT'' (pi_transactions_per_client p) \<and>
        ?vs ''BENCHMARK_MEASURE_SECONDS'' = [] \<and> pi_measure_seconds p = 0"
    using planned_length[OF assms] set by auto
  show ?thesis
    unfolding each_matches_Inr declaration_value_or P_def[symmetric]
    using lengths ints by (auto simp: declared_lengths_def mismatch_unless_def require_def)
qed

text \<open>The texts of the two numbers with a default.\<close>

lemma default_points: "decimal_point 10 = 2" "decimal_point 1 = 1"
proof -
  have "floor_log2 10 = 3" "floor_log2 1 = 0" by code_simp+
  then show "decimal_point 10 = 2" "decimal_point 1 = 1" by (simp_all add: decimal_point_def)
qed

lemma default_digits: "shortest_decimal 10 = (''1'', 2)" "shortest_decimal 1 = (''1'', 1)"
proof -
  have "decimal_candidate 10 2 1 = Some 1" "decimal_candidate 1 1 1 = Some 1"
    by (simp_all add: decimal_candidate_def)
  then have first: "first_candidate 10 2 [Suc 0..<18] = (1, 1)" "first_candidate 1 1 [Suc 0..<18] = (1, 1)"
    by (simp_all add: upt_rec[of "Suc 0" 18])
  have "show_nat 1 = ''1''" "strip_zeros ''1'' = ''1''" by code_simp+
  then show "shortest_decimal 10 = (''1'', 2)" "shortest_decimal 1 = (''1'', 1)"
    by (simp_all add: shortest_decimal_def first default_points)
qed

lemma default_texts: "format_plain (Fin 10) = ''10''" "format_plain (Fin 1) = ''1''"
  by (simp_all add: default_digits format_f_def)

lemma short_decimal_read:
  assumes "mantissa is_digit False [] 0 v = (v, 0, [])" and "v \<noteq> []" and "underscores_ok False v" and "is_digit (hd v)"
    and "lower_ascii v = v" and "\<not> has_prefix v ''0x''"
  shows "parse_float_with finish v = finish (rnd (of_nat (nat_of_digits v)))"
proof -
  have "\<not> has_prefix v ''-''" "\<not> has_prefix v ''+''" "v \<noteq> ''inf''" "v \<noteq> ''infinity''" "v \<noteq> ''nan''"
    using assms(2,4) by (cases v; auto simp: has_prefix_def is_digit_def code_def)+
  then show ?thesis
    using assms by (simp add: parse_float_with_def parse_decimal_float_def Let_def)
qed

lemma default_reads: "parse_float_with finish ''10'' = finish (Fin 10)" "parse_float_with finish ''1'' = finish (Fin 1)"
proof -
  have "parse_float_with finish ''10'' = finish (rnd (of_nat (nat_of_digits ''10'')))"
    "parse_float_with finish ''1'' = finish (rnd (of_nat (nat_of_digits ''1'')))"
    by (rule short_decimal_read; code_simp)+
  moreover have "nat_of_digits ''10'' = 10" "nat_of_digits ''1'' = 1" by code_simp+
  moreover have "rnd 10 = Fin 10" "rnd 1 = Fin 1"
    using rnd_exact[OF f_valid_small_int[of 10]] rnd_exact[OF f_valid_small_int[of 1]] by simp_all
  ultimately show "parse_float_with finish ''10'' = finish (Fin 10)" "parse_float_with finish ''1'' = finish (Fin 1)"
    by (metis of_nat_numeral, metis of_nat_1)
qed

lemma default_values: "float_value ''10'' = Fin 10" "float_value ''1'' = Fin 1"
  "parse_float ''10'' = Some (Fin 10)" "parse_float ''1'' = Some (Fin 1)"
  by (simp_all add: float_value_def parse_float_def default_reads finite_or_none_def)

lemma number_or_read:
  assumes "number_text (value_or v (format_plain d))" and "float_value (format_plain d) = d"
  shows "case parse_float (value_or v (format_plain d)) of None \<Rightarrow> False | Some x \<Rightarrow> f_eq x (float_or v d)"
  using number_text_value[OF assms(1)] f_eq_refl assms(2) by (auto simp: float_or_def value_or_def)

lemma optional_number_same: "optional_number good (vs k) \<Longrightarrow> same_float vs k (optional_float (vs k))"
  by (rule optional_float_same) (auto simp: optional_number_def)

lemma declared_measures_match:
  assumes "sealed_from pk s e w p" and "validate_benchmark pk s = []"
  shows "check_flags (val_of (spec_values s)) p = Inr ()" and "check_measures (val_of (spec_values s)) p = Inr ()"
proof -
  obtain contract tp sd seeds a b c d t m n where
    p: "p = (planned_fields pk s contract tp e w sd seeds)\<lparr>bp_spec_digest := a, pi_experiment_digest := b, pi_workload_digest := c,
              pi_pg_config_digest := d, pi_target_topology_digest := t, bp_protocol_digest := m, bp_comparison_key_digest := n\<rparr>"
    using assms(1) unfolding sealed_from_def by blast
  let ?vs = "val_of (spec_values s)"
  have flags: "pi_runtime_reset p = (pi_reset_policy p = ''rebuild-per-trial'')"
    "pi_connect_per_transaction p = bool_or (?vs ''BENCHMARK_CONNECT_PER_TRANSACTION'') False"
    "pi_log_transactions p = bool_or (?vs ''BENCHMARK_LOG_TRANSACTIONS'') (pi_class p = ''measurement'')"
    unfolding p by (simp_all add: planned_sel)
  have connect: "(?vs ''BENCHMARK_CONNECT_PER_TRANSACTION'' = ''1'') = bool_or (?vs ''BENCHMARK_CONNECT_PER_TRANSACTION'') False"
    by (simp add: bool_or_def)
  show "check_flags ?vs p = Inr ()"
    unfolding check_flags_def flags connect by (simp add: mismatch_unless_def require_def)
  have fields: "pi_max_latency_limit_exceeded_pct p = optional_float (?vs ''BENCHMARK_MAX_LATENCY_LIMIT_EXCEEDED_PCT'')"
    "pi_regression_threshold_pct p = optional_float (?vs ''BENCHMARK_REGRESSION_THRESHOLD_PCT'')"
    "pi_rate p = optional_float (?vs ''BENCHMARK_RATE'')" "pi_latency_limit_ms p = optional_float (?vs ''BENCHMARK_LATENCY_LIMIT_MS'')"
    "pi_max_tries p = optional_int (?vs ''BENCHMARK_MAX_TRIES'')" "pi_max_cv_pct p = float_or (?vs ''BENCHMARK_MAX_CV_PCT'') (Fin 10)"
    "pi_log_sample_rate p = float_or (?vs ''BENCHMARK_LOG_SAMPLE_RATE'') (Fin 1)"
    unfolding p by (simp_all add: planned_sel)
  have parts: "bench_threshold_issues s = []" "bench_option_issues s = []" using assms(2) validate_benchmark_Nil by blast+
  note th = accepted_thresholds[OF parts(1)]
  have tries: "same_int ?vs ''BENCHMARK_MAX_TRIES'' (pi_max_tries p)"
    unfolding fields using accepted_options(2)[OF parts(2)] bench_nonnegative_value by (intro optional_int_same) fastforce
  have cv: "case parse_float (value_or (?vs ''BENCHMARK_MAX_CV_PCT'') (format_plain (Fin 10))) of None \<Rightarrow> False
      | Some x \<Rightarrow> f_eq x (pi_max_cv_pct p)"
    and rate: "case parse_float (value_or (?vs ''BENCHMARK_LOG_SAMPLE_RATE'') (format_plain (Fin 1))) of None \<Rightarrow> False
      | Some x \<Rightarrow> f_eq x (pi_log_sample_rate p)"
    unfolding fields using number_or_read[of _ "Fin 10"] number_or_read[of _ "Fin 1"] th(1) accepted_options(3)[OF parts(2)]
    by (simp_all only: default_texts default_values)
  show "check_measures ?vs p = Inr ()"
    unfolding check_measures_def each_matches_Inr declaration_value_or
    using tries cv rate th(3-6)[THEN optional_number_same[where vs = ?vs]] 
    by (simp add: fields(1-4) result_simps each_matches_Inr mismatch_unless_def declaration_value_or)
qed

lemma declared_controls_match:
  assumes "sealed_from pk s e w p" and "validate_benchmark pk s = []"
  shows "check_control_declarations (val_of (spec_values s)) p = Inr ()"
proof -
  obtain contract tp sd seeds a b c d t m n where
    p: "p = (planned_fields pk s contract tp e w sd seeds)\<lparr>bp_spec_digest := a, pi_experiment_digest := b, pi_workload_digest := c,
              pi_pg_config_digest := d, pi_target_topology_digest := t, bp_protocol_digest := m, bp_comparison_key_digest := n\<rparr>"
    using assms(1) unfolding sealed_from_def by blast
  let ?vs = "val_of (spec_values s)"
  have fields: "pi_collectors p = sort (str_fields (?vs ''BENCHMARK_COLLECTORS''))"
    "pi_cache_target_relations p = sort (str_fields (?vs ''BENCHMARK_CACHE_TARGET_RELATIONS''))"
    "pi_cpu_budget_cores p = optional_float (?vs ''BENCHMARK_CPU_BUDGET_CORES'')"
    "pi_cpu_budget_millicores p = optional_int (?vs ''BENCHMARK_CPU_BUDGET_MILLICORES'')"
    "pi_memory_budget_mib p = optional_int (?vs ''BENCHMARK_MEMORY_BUDGET_MIB'')"
    "pi_cache_min_resident_pct p = optional_float (?vs ''BENCHMARK_CACHE_MIN_RESIDENT_PCT'')"
    "pi_collector_max_duty_cycle_pct p = optional_float (?vs ''BENCHMARK_COLLECTOR_MAX_DUTY_CYCLE_PCT'')"
    "pi_collector_overhead_samples p = optional_int (?vs ''BENCHMARK_COLLECTOR_OVERHEAD_SAMPLES'')"
    "pi_random_seed p = optional_uint64 (?vs ''BENCHMARK_RANDOM_SEED'')"
    "pi_allowed_subject_differences p = sort (str_fields (value_or (?vs ''BENCHMARK_ALLOWED_SUBJECT_DIFFERENCES'') ''pg_config''))"
    unfolding p by (simp_all add: planned_sel)
  have parts: "bench_option_issues s = []" using assms(2) validate_benchmark_Nil by blast
  note numbers = accepted_control_numbers[OF accepted_contract(2)[OF assms(2)]]
  have float: "same_float ?vs k (optional_float (?vs k))"
    if "k \<in> {''BENCHMARK_CACHE_MIN_RESIDENT_PCT'', ''BENCHMARK_COLLECTOR_MAX_DUTY_CYCLE_PCT'', ''BENCHMARK_CPU_BUDGET_CORES''}" for k
    using numbers(1) that by (intro optional_number_same[where good = "\<lambda>_. True"]) (auto simp: list_all_iff)
  have int: "same_int ?vs k (optional_int (?vs k))"
    if "k \<in> {''BENCHMARK_COLLECTOR_OVERHEAD_SAMPLES'', ''BENCHMARK_CPU_BUDGET_MILLICORES'', ''BENCHMARK_MEMORY_BUDGET_MIB''}" for k
    using numbers(2) that bench_positive_value by (intro optional_int_same) (auto simp: list_all_iff)
  have seed: "same_uint ?vs ''BENCHMARK_RANDOM_SEED'' (optional_uint64 (?vs ''BENCHMARK_RANDOM_SEED''))"
    using accepted_options(1)[OF parts] bench_nonnegative_uint64_value by (intro optional_uint_same) fastforce
  have f: "same_float ?vs ''BENCHMARK_CACHE_MIN_RESIDENT_PCT'' (optional_float (?vs ''BENCHMARK_CACHE_MIN_RESIDENT_PCT''))"
    "same_float ?vs ''BENCHMARK_COLLECTOR_MAX_DUTY_CYCLE_PCT'' (optional_float (?vs ''BENCHMARK_COLLECTOR_MAX_DUTY_CYCLE_PCT''))"
    "same_float ?vs ''BENCHMARK_CPU_BUDGET_CORES'' (optional_float (?vs ''BENCHMARK_CPU_BUDGET_CORES''))"
    "same_int ?vs ''BENCHMARK_COLLECTOR_OVERHEAD_SAMPLES'' (optional_int (?vs ''BENCHMARK_COLLECTOR_OVERHEAD_SAMPLES''))"
    "same_int ?vs ''BENCHMARK_CPU_BUDGET_MILLICORES'' (optional_int (?vs ''BENCHMARK_CPU_BUDGET_MILLICORES''))"
    "same_int ?vs ''BENCHMARK_MEMORY_BUDGET_MIB'' (optional_int (?vs ''BENCHMARK_MEMORY_BUDGET_MIB''))"
    by (intro float int; simp)+
  show ?thesis
    using f seed planned_numbers(12)[OF assms] unfolding check_control_declarations_def fields
    by (simp add: each_matches_Inr mismatch_unless_def require_def)
qed

subsection \<open>A built plan verifies\<close>

lemma planned_from_sealed:
  assumes "planned_from pk s e w r" and "seal_plan r = Inr p"
  shows "sealed_from pk s e w p"
proof -
  obtain contract tp sd seeds where "digest_files pk (planned_fields pk s contract tp e w sd seeds) = Inr r"
    using assms(1) unfolding planned_from_def by blast
  then obtain a b c d t where r: "r = (planned_fields pk s contract tp e w sd seeds)\<lparr>bp_spec_digest := a, pi_experiment_digest := b,
      pi_workload_digest := c, pi_pg_config_digest := d, pi_target_topology_digest := t\<rparr>"
    unfolding digest_files_Inr by blast
  obtain m n where "p = r\<lparr>bp_protocol_digest := m, bp_comparison_key_digest := n\<rparr>" using assms(2) unfolding seal_plan_Inr by blast
  then show ?thesis unfolding sealed_from_def r by blast
qed

lemma each_matches_member: "each_matches good items = Inr () \<Longrightarrow> (k, v) \<in> set items \<Longrightarrow> good k v"
  by (auto simp: each_matches_Inr list_all_iff)

lemma sealed_declarations: "seal_plan r = Inr p \<Longrightarrow> validate_declarations p = Inr ()"
  unfolding seal_plan_Inr by auto

lemma contract_declared:
  assumes "sealed_from pk s e w p" and "validate_benchmark pk s = []"
  shows "value_or (spec_val s ''BENCHMARK_CONTRACT_VERSION'') ''1'' = value_or (pi_contract_version p) ''1''"
proof -
  have "pi_contract_version p = (if value_or (spec_val s ''BENCHMARK_CONTRACT_VERSION'') ''1'' = ''2'' then ''2'' else [])"
    using assms(1) unfolding sealed_from_def by (auto simp: planned_sel)
  then show ?thesis using accepted_contract(4)[OF assms(2)] by (auto simp: value_or_def)
qed

text \<open>A reference that names the specification by its id, as the plan records it.\<close>

definition canonical_references :: "spec \<Rightarrow> spec \<Rightarrow> spec \<Rightarrow> bool" where
  "canonical_references s e w =
     (spec_val s ''BENCHMARK_EXPERIMENT_SPEC'' = spec_id e \<and> spec_val s ''BENCHMARK_WORKLOAD_SPEC'' = spec_id w)"

lemma planned_spec_verifies:
  assumes "planned_from pk s e w r" and "seal_plan r = Inr p" and "validate_benchmark pk s = []" and "canonical_references s e w"
  shows "verify_spec_declarations p (spec_values s) = Inr ()"
proof -
  note sealed = planned_from_sealed[OF assms(1,2)]
  obtain ints where ints: "declared_lengths (val_of (spec_values s)) p = Inr ints"
    "each_matches (\<lambda>key v. parse_int64 (declaration_value (val_of (spec_values s)) key (int_default key p)) = Some v) ints = Inr ()"
    using declared_ints_match[OF sealed assms(3)] by blast
  show ?thesis
    using sealed_declarations[OF assms(2)] contract_declared[OF sealed assms(3)]
      declared_strings_match[OF sealed] assms(4) ints declared_measures_match[OF sealed assms(3)] declared_controls_match[OF sealed assms(3)]
    by (simp add: verify_spec_declarations_def Let_def mismatch_unless_def require_def canonical_references_def)
qed

lemma planned_workload_verifies:
  assumes "planned_from pk s e w r" and "seal_plan r = Inr p" and "spec_val w ''WORKLOAD_KIND'' = ''pgbench''"
  shows "verify_workload_declarations p (spec_values w) = Inr ()"
proof -
  obtain contract tp sd seeds where d: "digest_files pk (planned_fields pk s contract tp e w sd seeds) = Inr r"
    and sd: "if spec_val w ''PGBENCH_SCRIPT'' = [] then sd = []
             else digest_of pk (resolve_path (pk_root pk) (spec_val w ''PGBENCH_SCRIPT'')) = Inr sd"
    using assms(1) unfolding planned_from_def by blast
  have "spec_val w ''PGBENCH_SCRIPT'' \<noteq> [] \<longrightarrow> is_digest sd" using sd by (auto simp: digest_of_Inr split: if_splits)
  moreover have "pi_workload_mode p = value_or (spec_val w ''PGBENCH_MODE'') ''builtin''"
    "pi_workload_script p = spec_val w ''PGBENCH_SCRIPT''" "pi_workload_script_digest p = sd"
    using d assms(2) unfolding digest_files_Inr seal_plan_Inr by (auto simp: planned_sel)
  ultimately show ?thesis
    using sd assms(3)
    by (cases "spec_val w ''PGBENCH_SCRIPT'' = []") (simp_all add: verify_workload_declarations_def Let_def require_def)
qed

text \<open>The specifications of a plan that was built.\<close>

lemma build_plan_parts:
  assumes "show_spec pk ''benchmark'' input = Inr s" and "build_plan pk input = Inr p"
  obtains e w r where "planned_from pk s e w r" "seal_plan r = Inr p"
  using assms(2) unfolding build_plan_Inr[OF assms(1)] plan_of_spec_Inr by blast

text \<open>The declarations verify only when the references are ids: this needs no validation.\<close>

lemma verified_spec_canonical:
  assumes "planned_from pk s e w r" and "seal_plan r = Inr p" and "verify_spec_declarations p (spec_values s) = Inr ()"
  shows "canonical_references s e w"
proof -
  have "pi_experiment_spec p = spec_id e" "pi_workload_spec p = spec_id w"
    using planned_from_sealed[OF assms(1,2)] unfolding sealed_from_def by (auto simp: planned_sel)
  then have members: "(''BENCHMARK_EXPERIMENT_SPEC'', spec_id e) \<in> set (declared_strings p)"
    "(''BENCHMARK_WORKLOAD_SPEC'', spec_id w) \<in> set (declared_strings p)"
    by (simp_all add: declared_strings_def)
  have m: "each_matches (\<lambda>key v. declaration_value (val_of (spec_values s)) key (string_default key p) = v) (declared_strings p) = Inr ()"
    using assms(3) by (auto simp: verify_spec_declarations_def Let_def result_simps)
  have "value_or (spec_val s k) (string_default k p) = v" if "(k, v) \<in> set (declared_strings p)" for k v
    by (rule each_matches_member[OF m that, unfolded declaration_value_or])
  moreover have "string_default ''BENCHMARK_EXPERIMENT_SPEC'' p = []" "string_default ''BENCHMARK_WORKLOAD_SPEC'' p = []"
    by (simp_all add: string_default_def)
  ultimately have "value_or (spec_val s ''BENCHMARK_EXPERIMENT_SPEC'') [] = spec_id e"
    "value_or (spec_val s ''BENCHMARK_WORKLOAD_SPEC'') [] = spec_id w"
    using members by metis+
  then show ?thesis by (simp add: canonical_references_def value_or_def split: if_splits)
qed

lemma built_plan_verified:
  assumes "show_spec pk ''benchmark'' input = Inr s" and "build_plan pk input = Inr p"
  shows "verify_digests p = Inr () \<and>
    (\<exists>e w. show_spec pk ''experiment'' (spec_val s ''BENCHMARK_EXPERIMENT_SPEC'') = Inr e \<and>
       show_spec pk ''workload'' (spec_val s ''BENCHMARK_WORKLOAD_SPEC'') = Inr w \<and>
       (verify_spec_declarations p (spec_values s) = Inr () \<longrightarrow> canonical_references s e w) \<and>
       (validate_benchmark pk s = [] \<longrightarrow>
          verify_workload_declarations p (spec_values w) = Inr () \<and>
          (canonical_references s e w \<longrightarrow> verify_spec_declarations p (spec_values s) = Inr ())))"
proof (rule build_plan_parts[OF assms])
  fix e w r
  assume r: "planned_from pk s e w r" "seal_plan r = Inr p"
  then have shown: "show_spec pk ''experiment'' (spec_val s ''BENCHMARK_EXPERIMENT_SPEC'') = Inr e"
    "show_spec pk ''workload'' (spec_val s ''BENCHMARK_WORKLOAD_SPEC'') = Inr w"
    unfolding planned_from_def by blast+
  have "spec_val w ''WORKLOAD_KIND'' = ''pgbench''" if "validate_benchmark pk s = []"
    using accepted_references(2)[of pk s] that shown(2) validate_benchmark_Nil[of pk s] by auto
  then show ?thesis
    using shown sealed_plan_verifies[OF r(2)] verified_spec_canonical[OF r] planned_workload_verifies[OF r] planned_spec_verifies[OF r]
    by blast
qed

subsection \<open>The numbers of a plan\<close>

definition plan_in_range :: "bench_plan \<Rightarrow> bool" where
  "plan_in_range p =
     (0 < pi_scale p \<and> 0 < pi_clients p \<and> 0 < pi_threads p \<and> 0 \<le> pi_warmup_seconds p \<and>
      0 < pi_min_valid_trials p \<and> pi_min_valid_trials p \<le> pi_trials p \<and> pi_trials p \<le> max_int64 \<and>
      0 < pi_collector_interval_seconds p \<and>
      (pi_mode p = ''fixed-time'' \<and> 0 < pi_measure_seconds p \<and> pi_transactions_per_client p = 0 \<or>
       pi_mode p = ''fixed-transactions'' \<and> 0 < pi_transactions_per_client p \<and> pi_measure_seconds p = 0))"

lemma built_in_range:
  assumes "show_spec pk ''benchmark'' input = Inr s" and "build_plan pk input = Inr p" and acc: "validate_benchmark pk s = []"
  shows "plan_in_range p"
proof (rule build_plan_parts[OF assms(1,2)])
  fix e w r
  assume "planned_from pk s e w r" "seal_plan r = Inr p"
  then have sealed: "sealed_from pk s e w p" by (rule planned_from_sealed)
  show ?thesis
    using planned_numbers(3,6,9,11,13)[OF sealed acc] planned_trials(3-5)[OF sealed acc] planned_length[OF sealed acc]
    by (auto simp: plan_in_range_def)
qed

end
