(* ===== verification/PlanTheorems.thy ===== *)
theory PlanTheorems
  imports PlanRoundTrip RunState
begin

section \<open>Plans and the catalogue: the properties\<close>

text \<open>
  Where resolved experiments lie, a sample pack on which the hypotheses of the theorems hold, and the properties
  of \<^verbatim>\<open>internal/speccatalog\<close> and \<^verbatim>\<open>internal/benchmarkplan\<close>.
\<close>

subsection \<open>Resolved experiments stay in the pack\<close>

text \<open>\<open>filepath.EvalSymlinks\<close> of an absolute path is absolute.\<close>

definition real_paths_absolute :: "pack \<Rightarrow> bool" where
  "real_paths_absolute pk = (\<forall>p q. is_abs p \<and> pk_real pk p = Some q \<longrightarrow> is_abs q)"

text \<open>A path below a directory, component by component after cleaning.\<close>

definition below_directory :: "string \<Rightarrow> string \<Rightarrow> bool" where
  "below_directory dir path =
     (\<exists>bs ts. plain_names bs \<and> plain_names ts \<and> path_clean dir = slash # join [slash] bs \<and>
        path_clean path = slash # join [slash] (bs @ ts))"

lemma real_absolute:
  "Option.bind (path_abs (pk_cwd pk) p) (pk_real pk) = Some q \<Longrightarrow> absolute_cwd pk \<Longrightarrow> real_paths_absolute pk \<Longrightarrow> is_abs q"
  unfolding bind_eq_Some_conv absolute_cwd_def real_paths_absolute_def using path_abs_is_abs by blast

lemma located_experiment:
  assumes "resolve_spec pk ''experiment'' input = Inr (path, ident)"
  shows "\<not> has_parent_component input \<and> (\<exists>dir c. located_spec pk ''experiment'' dir c = Inr (path, ident))"
proof -
  obtain dir where dir: "kind_root pk ''experiment'' = Inr dir"
    using assms by (cases "kind_root pk ''experiment''") (simp_all add: resolve_spec_def)
  have parent: "\<not> has_parent_component input" using assms dir by (auto simp: resolve_spec_def)
  show ?thesis
  proof (cases "find (\<lambda>c. pk_stat pk c = Some False) (spec_candidates pk dir input)")
    case None
    then obtain ids where ids: "list_specs pk ''experiment'' = Inr ids"
      using assms dir parent by (cases "list_specs pk ''experiment''") (simp_all add: resolve_spec_def)
    obtain sid where "filter (\<lambda>sid. sid = input \<or> path_base sid = input) ids = [sid]"
      using assms dir parent None ids
      by (cases "filter (\<lambda>sid. sid = input \<or> path_base sid = input) ids" rule: remdups_adj.cases) (simp_all add: resolve_spec_def)
    then show ?thesis using assms dir parent None ids by (auto simp: resolve_spec_def Let_def)
  next
    case (Some c)
    then show ?thesis using assms dir parent by (auto simp: resolve_spec_def)
  qed
qed

lemma resolved_experiment:
  assumes "resolve_spec pk ''experiment'' input = Inr (path, ident)" and "absolute_cwd pk" and "real_paths_absolute pk"
  shows "\<not> has_parent_component input \<and>
         (\<exists>root. Option.bind (path_abs (pk_cwd pk) (pk_root pk)) (pk_real pk) = Some root \<and>
            below_directory (path_join [root, ''experiments'']) path)"
proof -
  obtain dir c where parent: "\<not> has_parent_component input" and c: "located_spec pk ''experiment'' dir c = Inr (path, ident)"
    using located_experiment[OF assms(1)] by blast
  then obtain root rel where root: "Option.bind (path_abs (pk_cwd pk) (pk_root pk)) (pk_real pk) = Some root"
    and path: "Option.bind (path_abs (pk_cwd pk) c) (pk_real pk) = Some path"
    and rel: "path_rel (path_join [root, ''experiments'']) path = Some rel" "rel \<noteq> ''..''" "\<not> has_prefix rel ''../''"
    by (auto simp: located_spec_def resolve_experiment_path_def Let_def result_simps split: if_splits)
  have "is_abs root" "is_abs path"
    using root path real_absolute[OF _ assms(2,3)] by blast+
  then have "below_directory (path_join [root, ''experiments'']) path"
    unfolding below_directory_def using path_rel_below[OF joined_absolute _ rel] by blast
  then show ?thesis using parent root by blast
qed

subsection \<open>A sample pack\<close>

text \<open>The files of the pack are written as environment files, with the quoting of the manifest writer.\<close>

named_theorems sample

definition sample_values :: "(string \<times> string) list" where
  "sample_values =
     [(''BENCHMARK_NAME'', ''b''), (''BENCHMARK_EXPERIMENT_SPEC'', ''e''), (''BENCHMARK_WORKLOAD_SPEC'', ''w''), (''BENCHMARK_SCALE'', ''1''),
      (''BENCHMARK_CLIENTS'', ''1''), (''BENCHMARK_THREADS'', ''1''), (''BENCHMARK_MEASURE_SECONDS'', ''1''), (''BENCHMARK_CACHE_REGIME'', ''uncontrolled''),
      (''BENCHMARK_STATISTICS_RESET_POLICY'', ''none''), (''BENCHMARK_STATISTICS_RESET_BOUNDARY'', ''none''),
      (''BENCHMARK_COLLECTORS'', ''pgbench-driver postgresql-sampler-v1''), (''BENCHMARK_COLLECTOR_INTERVAL_SECONDS'', ''1''),
      (''BENCHMARK_COLLECTOR_OVERHEAD_MODE'', ''included-unquantified''), (''BENCHMARK_CLIENT_PLACEMENT'', ''same-host''),
      (''BENCHMARK_RESOURCE_BUDGET_MODE'', ''unbounded'')]"

text \<open>A specification out of range whose id, \<open>b.env\<close>, names the file of another one.\<close>

definition stray_values :: "(string \<times> string) list" where
  "stray_values = map (\<lambda>(k, v). (k, if k = ''BENCHMARK_SCALE'' then ''0'' else v)) sample_values"

definition sample_workload :: "(string \<times> string) list" where
  "sample_workload = [(''WORKLOAD_NAME'', ''w''), (''WORKLOAD_KIND'', ''pgbench'')]"

definition sample_experiment :: "(string \<times> string) list" where
  "sample_experiment = [(''EXPERIMENT_NAME'', ''e'')]"

definition sample_files :: "(string \<times> (string \<times> string) list) list" where
  "sample_files =
     [(''/p/benchmarks/b.env'', sample_values), (''/p/benchmarks/b.env.env'', stray_values), (''/p/experiments/e.env'', sample_experiment),
      (''/p/workloads/w.env'', sample_workload),
      (''/p/topologies/single.env'', [(''TOPOLOGY_NAME'', ''single'')]),
      (''/p/configs/default/postgresql.conf'', [(''fsync'', ''on'')])]"

definition sample_stat :: "string \<Rightarrow> bool option" where
  "sample_stat path = (if path \<in> set (map fst sample_files) then Some False else None)"

definition sample_read :: "string \<Rightarrow> string option" where
  "sample_read path = map_option (env_text quote_env_value) (map_of sample_files path)"

definition sample_walk :: "string \<Rightarrow> walk" where
  "sample_walk dir = Walk_missing"

definition sample_pack :: pack where
  "sample_pack = \<lparr>pk_root = ''/p'', pk_cwd = Some ''/p'', pk_stat = sample_stat, pk_real = Some, pk_read = sample_read, pk_walk = sample_walk\<rparr>"

lemma sample_resolved:
  "resolve_spec sample_pack ''benchmark'' ''b'' = Inr (''/p/benchmarks/b.env'', ''b'')"
  "resolve_spec sample_pack ''workload'' ''w'' = Inr (''/p/workloads/w.env'', ''w'')"
  by code_simp+
lemma sample_resolved_e:
  "resolve_spec sample_pack ''experiment'' ''e'' = Inr (''/p/experiments/e.env'', ''e'')"
  by code_simp
lemma sample_value [sample]:
  "val_of (map_of sample_values) ''BENCHMARK_ALLOWED_SUBJECT_DIFFERENCES'' = []"
  "val_of (map_of sample_values) ''BENCHMARK_CACHE_MIN_RESIDENT_PCT'' = []"
  "val_of (map_of sample_values) ''BENCHMARK_CACHE_REGIME'' = ''uncontrolled''"
  "val_of (map_of sample_values) ''BENCHMARK_CACHE_TARGET_RELATIONS'' = []"
  "val_of (map_of sample_values) ''BENCHMARK_CLASS'' = []" "val_of (map_of sample_values) ''BENCHMARK_CLIENTS'' = ''1''"
  "val_of (map_of sample_values) ''BENCHMARK_CLIENT_PLACEMENT'' = ''same-host''"
  "val_of (map_of sample_values) ''BENCHMARK_COLLECTORS'' = ''pgbench-driver postgresql-sampler-v1''"
  "val_of (map_of sample_values) ''BENCHMARK_COLLECTOR_INTERVAL_SECONDS'' = ''1''"
  "val_of (map_of sample_values) ''BENCHMARK_COLLECTOR_MAX_DUTY_CYCLE_PCT'' = []"
  "val_of (map_of sample_values) ''BENCHMARK_COLLECTOR_OVERHEAD_MODE'' = ''included-unquantified''"
  "val_of (map_of sample_values) ''BENCHMARK_COLLECTOR_OVERHEAD_SAMPLES'' = []"
  "val_of (map_of sample_values) ''BENCHMARK_CONNECT_PER_TRANSACTION'' = []"
  "val_of (map_of sample_values) ''BENCHMARK_CONTRACT_VERSION'' = []"
  "val_of (map_of sample_values) ''BENCHMARK_CPU_BUDGET_CORES'' = []"
  "val_of (map_of sample_values) ''BENCHMARK_CPU_BUDGET_MILLICORES'' = []"
  "val_of (map_of sample_values) ''BENCHMARK_DIRECTION'' = []" "val_of (map_of sample_values) ''BENCHMARK_DRIVER'' = []"
  "val_of (map_of sample_values) ''BENCHMARK_EXPERIMENT_SPEC'' = ''e''"
  "val_of (map_of sample_values) ''BENCHMARK_LATENCY_LIMIT_MS'' = []"
  "val_of (map_of sample_values) ''BENCHMARK_LOG_SAMPLE_RATE'' = []"
  "val_of (map_of sample_values) ''BENCHMARK_LOG_TRANSACTIONS'' = []"
  "val_of (map_of sample_values) ''BENCHMARK_MAX_CV_PCT'' = []"
  "val_of (map_of sample_values) ''BENCHMARK_MAX_LATENCY_LIMIT_EXCEEDED_PCT'' = []"
  "val_of (map_of sample_values) ''BENCHMARK_MAX_TRIES'' = []"
  "val_of (map_of sample_values) ''BENCHMARK_MEASURE_SECONDS'' = ''1''"
  "val_of (map_of sample_values) ''BENCHMARK_MEMORY_BUDGET_MIB'' = []"
  "val_of (map_of sample_values) ''BENCHMARK_MIN_VALID_TRIALS'' = []"
  "val_of (map_of sample_values) ''BENCHMARK_MODE'' = []" "val_of (map_of sample_values) ''BENCHMARK_NAME'' = ''b''"
  "val_of (map_of sample_values) ''BENCHMARK_PG_CONFIG'' = []"
  "val_of (map_of sample_values) ''BENCHMARK_PRIMARY_METRIC'' = []"
  "val_of (map_of sample_values) ''BENCHMARK_PROTOCOL'' = []"
  "val_of (map_of sample_values) ''BENCHMARK_RANDOM_SEED'' = []" "val_of (map_of sample_values) ''BENCHMARK_RATE'' = []"
  "val_of (map_of sample_values) ''BENCHMARK_REGRESSION_THRESHOLD_PCT'' = []"
  "val_of (map_of sample_values) ''BENCHMARK_RESET_POLICY'' = []"
  "val_of (map_of sample_values) ''BENCHMARK_RESOURCE_BUDGET_MODE'' = ''unbounded''"
  "val_of (map_of sample_values) ''BENCHMARK_RESOURCE_BUDGET_SCOPE'' = []"
  "val_of (map_of sample_values) ''BENCHMARK_RESOURCE_ENFORCEMENT_PROVIDER'' = []"
  "val_of (map_of sample_values) ''BENCHMARK_SCALE'' = ''1''"
  "val_of (map_of sample_values) ''BENCHMARK_STATISTICS_RESET_BOUNDARY'' = ''none''"
  "val_of (map_of sample_values) ''BENCHMARK_STATISTICS_RESET_POLICY'' = ''none''"
  "val_of (map_of sample_values) ''BENCHMARK_TARGET'' = []" "val_of (map_of sample_values) ''BENCHMARK_THREADS'' = ''1''"
  "val_of (map_of sample_values) ''BENCHMARK_TRANSACTIONS_PER_CLIENT'' = []"
  "val_of (map_of sample_values) ''BENCHMARK_TRIALS'' = []"
  "val_of (map_of sample_values) ''BENCHMARK_WARMUP_SECONDS'' = []"
  "val_of (map_of sample_values) ''BENCHMARK_WORKLOAD_SPEC'' = ''w''"
  by (code_simp)+

definition sample_spec :: "string \<Rightarrow> string \<Rightarrow> string \<Rightarrow> (string \<times> string) list \<Rightarrow> spec" where
  "sample_spec kind ident path vs = \<lparr>spec_kind = kind, spec_id = ident, spec_path = path, spec_values = map_of vs\<rparr>"

lemma sample_file_read:
  assumes "(path, vs) \<in> set sample_files"
  shows "sample_read path = Some (env_text quote_env_value vs) \<and> parse_env (env_text quote_env_value vs) = Inr (map_of vs)"
proof -
  have "list_all (\<lambda>(path, vs). map_of sample_files path = Some vs \<and> vs \<noteq> [] \<and> list_all (\<lambda>e. plain_key (fst e)) vs \<and>
      list_all (\<lambda>e. length (fst e) \<le> 40 \<and> length (snd e) \<le> 100) vs \<and> distinct (map fst vs)) sample_files"
    by code_simp
  then have v: "map_of sample_files path = Some vs" "vs \<noteq> []" "list_all (\<lambda>e. plain_key (fst e)) vs" "distinct (map fst vs)"
    "list_all (\<lambda>e. length (fst e) \<le> 40 \<and> length (snd e) \<le> 100) vs"
    using assms by (auto simp: list_all_iff)
  have "list_all (\<lambda>e. length (entry_line quote_env_value e) < env_line_limit) vs"
    using v(5) entry_line_short by (auto simp: list_all_iff)
  then show ?thesis using env_quote.env_text_read[OF v(2,3) _ v(4)] v(1) by (simp add: sample_read_def)
qed

lemma sample_shown_file:
  assumes "resolve_spec sample_pack kind input = Inr (path, ident)" and "(path, vs) \<in> set sample_files"
  shows "show_spec sample_pack kind input = Inr (sample_spec kind ident path vs)"
proof -
  have "pk_read sample_pack path = Some (env_text quote_env_value vs)"
    using sample_file_read[OF assms(2)] by (simp add: sample_pack_def)
  then show ?thesis
    using assms(1) sample_file_read[OF assms(2)] by (auto simp: show_spec_def result_simps sample_spec_def)
qed

lemma sample_shown [sample]:
  "show_spec sample_pack ''benchmark'' ''b'' = Inr (sample_spec ''benchmark'' ''b'' ''/p/benchmarks/b.env'' sample_values)"
  "show_spec sample_pack ''workload'' ''w'' =
     Inr (sample_spec ''workload'' ''w'' ''/p/workloads/w.env'' sample_workload)"
  "show_spec sample_pack ''experiment'' ''e'' = Inr (sample_spec ''experiment'' ''e'' ''/p/experiments/e.env'' sample_experiment)"
  by (rule sample_shown_file; simp add: sample_resolved sample_resolved_e sample_files_def)+

definition sample_benchmark :: spec where
  "sample_benchmark = sample_spec ''benchmark'' ''b'' ''/p/benchmarks/b.env'' sample_values"

lemma sample_val [sample]: "spec_val sample_benchmark k = val_of (map_of sample_values) k"
  by (simp add: sample_benchmark_def sample_spec_def)

lemma sample_static [sample]: "static_value sample_benchmark k = val_of (map_of sample_values) k" "static_issue sample_benchmark k = []"
proof -
  have "\<not> is_dynamic (val_of (map_of sample_values) k)"
  proof (cases "map_of sample_values k")
    case (Some v)
    have "list_all (\<lambda>e. \<not> is_dynamic (snd e)) sample_values" by code_simp
    then show ?thesis using map_of_SomeD[OF Some] Some by (auto simp: val_of_def list_all_iff)
  qed (simp add: val_of_def is_dynamic_def)
  then show "static_value sample_benchmark k = val_of (map_of sample_values) k" "static_issue sample_benchmark k = []"
    by (simp_all add: static_value_def static_issue_def sample_val)
qed

lemma sample_words:
  "str_fields ''pgbench-driver postgresql-sampler-v1'' = [''pgbench-driver'', ''postgresql-sampler-v1'']"
  "str_fields ''pg_config'' = [''pg_config'']"
proof -
  have "list_all (\<lambda>w. w \<noteq> [] \<and> list_all solid w) [''pgbench-driver'', ''postgresql-sampler-v1'']"
    "list_all (\<lambda>w. w \<noteq> [] \<and> list_all solid w) [''pg_config'']" by code_simp+
  then show "str_fields ''pgbench-driver postgresql-sampler-v1'' = [''pgbench-driver'', ''postgresql-sampler-v1'']"
    "str_fields ''pg_config'' = [''pg_config'']"
    using fields_join[of "[''pgbench-driver'', ''postgresql-sampler-v1'']"] fields_join[of "[''pg_config'']"] by simp_all
qed

lemma sample_shown_values [sample]:
  "val_of (map_of sample_workload) ''WORKLOAD_KIND'' = ''pgbench''" "val_of (map_of sample_workload) ''PGBENCH_MODE'' = []"
  "val_of (map_of sample_workload) ''PGBENCH_SCRIPT'' = []" "val_of (map_of sample_experiment) ''EXPERIMENT_TOPOLOGY'' = []"
  "val_of (map_of sample_experiment) ''EXPERIMENT_WORKLOAD_SPEC'' = []" "val_of (map_of sample_experiment) ''EXPERIMENT_PG_CONFIG'' = []"
  by code_simp+

lemma sample_spec_fields [sample]:
  "spec_kind (sample_spec kind ident path vs) = kind" "spec_id (sample_spec kind ident path vs) = ident"
  "spec_values (sample_spec kind ident path vs) = map_of vs"
  by (simp_all add: sample_spec_def)

lemma sample_pack_fields [sample]:
  "pk_root sample_pack = ''/p''" "pk_cwd sample_pack = Some ''/p''" "pk_read sample_pack = sample_read"
  by (simp_all add: sample_pack_def)

lemma sample_tests [sample]:
  "bench_positive_int ''1''" "bench_positive_int ''10''" "bench_nonnegative_int ''0''" "\<not> is_dynamic ''e''" "\<not> is_dynamic ''w''" "\<not> is_dynamic []" "\<not> is_dynamic ''single''"
  by code_simp+

lemma sample_lists [sample]:
  "sort (str_fields ''pgbench-driver postgresql-sampler-v1'') = [''pgbench-driver'', ''postgresql-sampler-v1'']"
  "sort [''pgbench-driver'', ''postgresql-sampler-v1''] = [''pgbench-driver'', ''postgresql-sampler-v1'']"
  "str_fields ''pg_config'' = [''pg_config'']"
  by (simp_all add: sample_words)

lemma sample_sections:
  "bench_heading_issues sample_benchmark = []" "bench_load_issues sample_benchmark = []" "bench_mode_issues sample_benchmark = []"
  "bench_trial_issues sample_benchmark = []" "bench_reset_issues sample_pack sample_benchmark = []" "bench_metric_issues sample_benchmark = []"
  by (simp_all add: bench_heading_issues_def bench_load_issues_def bench_mode_issues_def bench_trial_issues_def bench_reset_issues_def
      bench_metric_issues_def Let_def sample choice_issue_def one_of_def static_or_def value_or_def require_value_def required_static_issue_def
      contract_version_def length_issues_def bench_mode_def bench_trials_def bench_metric_def expected_direction_def)

lemma sample_controls: "bench_control_issues sample_benchmark = []"
  by (simp add: bench_control_issues_def controls_v1_issues_def v1_budget_issues_def v2_only_keys_def boundary_issues_def collector_issues_def
      bench_interval_issues_def Let_def sample choice_issue_def one_of_def static_or_def value_or_def require_value_def required_static_issue_def
      contract_version_def)

lemma sample_decimals [sample]:
  "parse_float ''10'' = Some (Fin 10)" "parse_float ''1'' = Some (Fin 1)" "positive_decimal ''10''" "positive_decimal ''1''"
proof -
  have "decimal_shape ''10''" "decimal_shape ''1''" by code_simp+
  then show "positive_decimal ''10''" "positive_decimal ''1''"
    by (simp_all add: positive_decimal_def nonnegative_decimal_def default_values)
qed (simp_all add: default_values)

lemma sample_numbers: "bench_threshold_issues sample_benchmark = []" "bench_option_issues sample_benchmark = []"
  by (simp_all add: bench_threshold_issues_def bench_option_issues_def decimal_issue_def Let_def sample choice_issue_def one_of_def
      static_or_def value_or_def)

lemma sample_references: "bench_reference_issues sample_pack sample_benchmark = []"
proof -
  have config: "config_exists sample_pack ''default''" by code_simp
  have "bench_workload_issues sample_pack sample_benchmark = []"
    by (simp add: bench_workload_issues_def Let_def sample required_static_issue_def require_value_def)
  moreover have "bench_experiment_issues sample_pack sample_benchmark = []"
    by (simp add: bench_experiment_issues_def Let_def sample shown_def static_or_def value_or_def
      target_topology_def)
  ultimately show ?thesis
    using config by (simp add: bench_reference_issues_def Let_def sample required_static_issue_def require_value_def unshown_def static_or_def value_or_def
      target_topology_def)
qed

lemma sample_accepted: "validate_benchmark sample_pack sample_benchmark = []"
  unfolding validate_benchmark_Nil by (intro conjI; rule sample_sections sample_controls sample_numbers sample_references)

lemma sample_ready:
  "show_spec sample_pack ''benchmark'' ''b'' = Inr sample_benchmark"
  "show_spec sample_pack ''benchmark'' (spec_id sample_benchmark) = Inr sample_benchmark"
  "absolute_cwd sample_pack" "plan_files_readable sample_pack sample_benchmark" "seed_fits sample_benchmark"
proof -
  show "show_spec sample_pack ''benchmark'' ''b'' = Inr sample_benchmark"
    "show_spec sample_pack ''benchmark'' (spec_id sample_benchmark) = Inr sample_benchmark"
    by (simp_all add: sample_benchmark_def sample)
  show "absolute_cwd sample_pack" by (simp add: absolute_cwd_def sample is_abs_def has_prefix_def)
  show "seed_fits sample_benchmark" by (simp add: seed_fits_def sample)
  have "map_of sample_files (path_join [''/p'', ''configs'', ''default'', ''postgresql.conf'']) \<noteq> None"
    "path_abs (Some ''/p'') (path_join [''/p'', ''topologies'', ''single.env'']) = Some ''/p/topologies/single.env''"
    "map_of sample_files ''/p/topologies/single.env'' \<noteq> None"
    by code_simp+
  then show "plan_files_readable sample_pack sample_benchmark"
    by (simp add: plan_files_readable_def Let_def sample shown_def value_or_def target_topology_def target_direct_def
        sample_read_def)
qed

lemma sample_planned: "\<exists>p. build_plan sample_pack ''b'' = Inr p"
  using accepted_spec_planned[OF sample_ready(1) sample_accepted sample_ready(3,4)] sample_ready(5)
    validated_spec[OF sample_ready(2)] sample_accepted build_plan_shown[OF sample_ready(1)] by simp

lemma sample_references_shown:
  "show_spec sample_pack ''experiment'' (spec_val sample_benchmark ''BENCHMARK_EXPERIMENT_SPEC'') =
     Inr (sample_spec ''experiment'' ''e'' ''/p/experiments/e.env'' sample_experiment)"
  "show_spec sample_pack ''workload'' (spec_val sample_benchmark ''BENCHMARK_WORKLOAD_SPEC'') =
     Inr (sample_spec ''workload'' ''w'' ''/p/workloads/w.env'' sample_workload)"
  by (simp_all add: sample)

text \<open>The catalogue also accepts a reference by path, which resolves to the same id.\<close>

lemma reference_by_path: "resolve_spec sample_pack ''workload'' ''workloads/w.env'' = Inr (''/p/workloads/w.env'', ''w'')"
  by code_simp

subsection \<open>A plan that was not validated\<close>

text \<open>The id of \<open>benchmarks/b.env.env\<close> is \<open>b.env\<close>, which names the file of \<open>b\<close>. So \<open>Build\<close> validates \<open>b\<close>, and plans the
  other file, whose scale is zero.\<close>

definition stray_spec :: spec where
  "stray_spec = sample_spec ''benchmark'' ''b.env'' ''/p/benchmarks/b.env.env'' stray_values"

lemma stray_val [sample]:
  "val_of (map_of stray_values) k = (if k = ''BENCHMARK_SCALE'' then ''0'' else val_of (map_of sample_values) k)"
proof -
  have "map_of (map (\<lambda>(k, v). (k, if k = a then w else v)) xs) k =
      map_option (\<lambda>v. if k = a then w else v) (map_of xs k)" for xs :: "(string \<times> string) list" and a w
    by (induction xs) auto
  moreover have "map_of sample_values ''BENCHMARK_SCALE'' = Some ''1''" by code_simp
  ultimately show ?thesis by (auto simp: stray_values_def val_of_def split: option.splits)
qed

lemma stray_shown:
  "show_spec sample_pack ''benchmark'' ''b.env.env'' = Inr stray_spec"
  "show_spec sample_pack ''benchmark'' ''b.env'' = Inr sample_benchmark"
proof -
  have "resolve_spec sample_pack ''benchmark'' ''b.env.env'' = Inr (''/p/benchmarks/b.env.env'', ''b.env'')"
    "resolve_spec sample_pack ''benchmark'' ''b.env'' = Inr (''/p/benchmarks/b.env'', ''b'')"
    by code_simp+
  then show "show_spec sample_pack ''benchmark'' ''b.env.env'' = Inr stray_spec"
    "show_spec sample_pack ''benchmark'' ''b.env'' = Inr sample_benchmark"
    using sample_shown_file[of "''benchmark''" "''b.env.env''" _ _ stray_values] sample_shown_file[of "''benchmark''" "''b.env''" _ _ sample_values]
    by (simp_all add: stray_spec_def sample_benchmark_def sample_files_def)
qed

lemma stray_spec_val: "spec_val stray_spec k = (if k = ''BENCHMARK_SCALE'' then ''0'' else spec_val sample_benchmark k)"
  by (simp add: stray_spec_def sample_spec_fields stray_val sample_val)

lemma stray_spec_fields: "spec_id stray_spec = ''b.env''" "spec_path stray_spec = ''/p/benchmarks/b.env.env''"
  by (simp_all add: stray_spec_def sample_spec_def)

lemma zero_scale: "atoi_value ''0'' = 0"
  by code_simp

lemma stray_fields:
  "planned_fields pk stray_spec c tp e w sd seeds =
     (planned_fields pk sample_benchmark c tp e w sd seeds)
       \<lparr>bp_spec := ''b.env'', bp_spec_path := ''/p/benchmarks/b.env.env'', pi_scale := 0\<rparr>"
  by (simp add: planned_fields_def Let_def stray_spec_val stray_spec_fields int_or_def zero_scale)


lemma scale_unchecked:
  "validate_declarations (q\<lparr>bp_spec := i, bp_spec_path := j, bp_spec_digest := k, pi_scale := n\<rparr>) = validate_declarations q"
proof -
  let ?r = "q\<lparr>bp_spec := i, bp_spec_path := j, bp_spec_digest := k, pi_scale := n\<rparr>"
  have "check_statistics ?r = check_statistics q" by (rule ext) (simp add: check_statistics_def)
  moreover have "check_v1_budget ?r = check_v1_budget q" by (simp add: check_v1_budget_def)
  moreover have "check_cache_v2 ?r = check_cache_v2 q" by (simp add: check_cache_v2_def)
  moreover have "check_overhead_v2 ?r = check_overhead_v2 q" by (simp add: check_overhead_v2_def)
  moreover have "check_budget_v2 ?r = check_budget_v2 q" by (simp add: check_budget_v2_def)
  ultimately have "validate_v1_controls ?r = validate_v1_controls q" "validate_v2_controls ?r = validate_v2_controls q"
    by (simp_all only: validate_v1_controls_def validate_v2_controls_def) simp_all
  moreover have "check_target ?r = check_target q" by (simp add: check_target_def Let_def cong: if_cong)
  moreover have "check_seeds ?r = check_seeds q" by (simp add: check_seeds_def cong: if_cong option.case_cong prod.case_cong)
  ultimately show ?thesis by (simp add: validate_declarations_def check_contract_def cong: if_cong option.case_cong)
qed

lemma scale_finite:
  "finite_identity (identity_of (q\<lparr>bp_spec := i, bp_spec_path := j, bp_spec_digest := k, pi_scale := n\<rparr>)) =
     finite_identity (identity_of q)"
  by (simp add: finite_identity_def identity_of_def protocol_identity.truncate_def)

lemma stray_seal:
  assumes "planned_from sample_pack stray_spec e w r"
  shows "\<exists>p. seal_plan r = Inr p \<and> pi_scale p = 0"
proof -
  let ?f = "\<lambda>s c tp sd seeds. planned_fields sample_pack s c tp e w sd seeds"
  obtain c tp sd seeds where c: "target_contract (value_or (spec_val sample_benchmark ''BENCHMARK_TARGET'') target_direct) = Inr c"
    "path_abs (pk_cwd sample_pack) (path_join [pk_root sample_pack, ''topologies'', fst c @ ''.env'']) = Some tp"
    "digest_files sample_pack (?f stray_spec c tp sd seeds) = Inr r"
    "split_seed (optional_uint64 (spec_val sample_benchmark ''BENCHMARK_RANDOM_SEED'')) = Inr seeds"
    and refs: "show_spec sample_pack ''experiment'' (spec_val sample_benchmark ''BENCHMARK_EXPERIMENT_SPEC'') = Inr e"
      "show_spec sample_pack ''workload'' (spec_val sample_benchmark ''BENCHMARK_WORKLOAD_SPEC'') = Inr w"
      "if spec_val w ''PGBENCH_SCRIPT'' = [] then sd = []
         else digest_of sample_pack (resolve_path (pk_root sample_pack) (spec_val w ''PGBENCH_SCRIPT'')) = Inr sd"
    using assms unfolding planned_from_def by (auto simp: stray_spec_val)
  let ?q = "?f sample_benchmark c tp sd seeds"
  obtain a b d g t where read: "pk_read sample_pack (bp_experiment_path ?q) = Some b" "pk_read sample_pack (bp_workload_path ?q) = Some d"
      "pk_read sample_pack (bp_pg_config_path ?q) = Some g" "pk_read sample_pack (bp_target_topology_path ?q) = Some t"
    and r: "r = ?q\<lparr>bp_spec := ''b.env'', bp_spec_path := ''/p/benchmarks/b.env.env'', pi_scale := 0, bp_spec_digest := digest_bytes a,
      pi_experiment_digest := digest_bytes b, pi_workload_digest := digest_bytes d, pi_pg_config_digest := digest_bytes g,
      pi_target_topology_digest := digest_bytes t\<rparr>"
    using c(3) unfolding digest_files_Inr stray_fields by auto
  obtain a0 where a0: "pk_read sample_pack (bp_spec_path ?q) = Some a0"
    using shown_kind[OF sample_ready(1)] by (auto simp: planned_sel)
  define r0 where "r0 = ?q\<lparr>bp_spec_digest := digest_bytes a0,
      pi_experiment_digest := digest_bytes b, pi_workload_digest := digest_bytes d, pi_pg_config_digest := digest_bytes g,
      pi_target_topology_digest := digest_bytes t\<rparr>"
  have dig: "digest_files sample_pack ?q = Inr r0" unfolding digest_files_Inr r0_def using read a0 by blast
  then have pf0: "planned_from sample_pack sample_benchmark e w r0" unfolding planned_from_def using c refs by blast
  have same: "r = r0\<lparr>bp_spec := ''b.env'', bp_spec_path := ''/p/benchmarks/b.env.env'', bp_spec_digest := digest_bytes a, pi_scale := 0\<rparr>"
    unfolding r r0_def by simp
  have "validate_declarations r = Inr ()"
    unfolding same scale_unchecked using accepted_declarations[OF sample_accepted sample_ready(3) c(1,2,4) dig] .
  moreover have "finite_identity (identity_of r)"
    unfolding same scale_finite using accepted_finite[OF sample_accepted pf0] .
  then obtain x y where "identity_digests r = Inr (x, y)" using identity_digests_Some by fastforce
  moreover have "pi_scale r = 0" unfolding r by simp
  ultimately show ?thesis unfolding seal_plan_Inr by auto
qed

lemma stray_planned: "\<exists>p. build_plan sample_pack ''b.env.env'' = Inr p \<and> \<not> plan_in_range p"
proof -
  obtain p where "plan_of_spec sample_pack sample_benchmark = Inr p"
    using accepted_spec_planned[OF sample_ready(1) sample_accepted sample_ready(3,4)] sample_ready(5) by auto
  then obtain e w r0 where pf0: "planned_from sample_pack sample_benchmark e w r0" unfolding plan_of_spec_Inr by blast
  obtain c tp sd seeds where c: "target_contract (value_or (spec_val sample_benchmark ''BENCHMARK_TARGET'') target_direct) = Inr c"
    "path_abs (pk_cwd sample_pack) (path_join [pk_root sample_pack, ''topologies'', fst c @ ''.env'']) = Some tp"
    "show_spec sample_pack ''experiment'' (spec_val sample_benchmark ''BENCHMARK_EXPERIMENT_SPEC'') = Inr e"
    "show_spec sample_pack ''workload'' (spec_val sample_benchmark ''BENCHMARK_WORKLOAD_SPEC'') = Inr w"
    "if spec_val w ''PGBENCH_SCRIPT'' = [] then sd = []
       else digest_of sample_pack (resolve_path (pk_root sample_pack) (spec_val w ''PGBENCH_SCRIPT'')) = Inr sd"
    "split_seed (optional_uint64 (spec_val sample_benchmark ''BENCHMARK_RANDOM_SEED'')) = Inr seeds"
    "digest_files sample_pack (planned_fields sample_pack sample_benchmark c tp e w sd seeds) = Inr r0"
    using pf0 unfolding planned_from_def by blast
  obtain a where "pk_read sample_pack ''/p/benchmarks/b.env.env'' = Some a"
    using shown_kind[OF stray_shown(1)] by (auto simp: stray_spec_fields)
  then have "\<exists>r. digest_files sample_pack (planned_fields sample_pack stray_spec c tp e w sd seeds) = Inr r"
    using c(7) unfolding digest_files_Inr stray_fields by auto
  then obtain r where pf: "planned_from sample_pack stray_spec e w r"
    unfolding planned_from_def using c(1-6) by (fastforce simp: stray_spec_val)
  then obtain p where p: "seal_plan r = Inr p" "pi_scale p = 0" using stray_seal by blast
  then have "plan_of_spec sample_pack stray_spec = Inr p" using pf unfolding plan_of_spec_Inr by blast
  moreover have "validate_catalog sample_pack ''benchmark'' [spec_id stray_spec] = []"
    using validated_spec[OF stray_shown(2)] sample_accepted by (simp add: stray_spec_fields)
  ultimately have "build_plan sample_pack ''b.env.env'' = Inr p" using build_plan_Inr[OF stray_shown(1)] by simp
  then show ?thesis using p(2) by (auto simp: plan_in_range_def)
qed

subsection \<open>Properties\<close>

text \<open>C9: What becomes of a specification that the catalogue accepts, given that the files the plan digests can be
  read: \<open>Build\<close> validates the specification that its id shows, which is another one when another file takes the
  id. If the id shows none, or one that is not accepted, the plan is refused with those findings; otherwise it exists
  unless the seed does not fit. Whatever passes the validation of the catalogue cannot fail any other check.\<close>

theorem accepted_spec_has_plan:
  assumes "show_spec pk ''benchmark'' input = Inr s" and "validate_benchmark pk s = []"
    and "absolute_cwd pk" and "plan_files_readable pk s"
  shows "case show_spec pk ''benchmark'' (spec_id s) of
       Inl e \<Rightarrow> build_plan pk input = Inl (Spec_invalid [Unresolved e])
     | Inr t \<Rightarrow>
         if validate_benchmark pk t \<noteq> [] then build_plan pk input = Inl (Spec_invalid (map Issue (validate_benchmark pk t)))
         else if seed_fits s then \<exists>p. build_plan pk input = Inr p
         else build_plan pk input = Inl Seed_too_large"
  using accepted_spec_planned[OF assms] build_plan_shown[OF assms(1)] validated_spec[of pk "spec_id s"]
    unshown_spec[of pk "spec_id s"]
  by (simp split: sum.splits)

theorem accepted_spec_has_plan_witness:
  "validate_benchmark sample_pack sample_benchmark = [] \<and> (\<exists>p. build_plan sample_pack ''b'' = Inr p)"
  using accepted_spec_has_plan[OF sample_ready(1) sample_accepted sample_ready(3,4)] sample_ready(2,5) sample_accepted by simp

text \<open>C10: A plan that was built verifies: its digests are those of its identity; its declarations are those of the
  specification the input shows only when that names its experiment and its workload by their ids; and if the catalogue
  accepts that specification (\<open>Build\<close> validates the one its id shows), the workload is the one declared, and naming
  both by id is enough.\<close>

theorem built_plan_verifies:
  assumes "show_spec pk ''benchmark'' input = Inr s" and "build_plan pk input = Inr p"
  shows "verify_digests p = Inr () \<and>
    (\<exists>e w. show_spec pk ''experiment'' (spec_val s ''BENCHMARK_EXPERIMENT_SPEC'') = Inr e \<and>
       show_spec pk ''workload'' (spec_val s ''BENCHMARK_WORKLOAD_SPEC'') = Inr w \<and>
       (verify_spec_declarations p (spec_values s) = Inr () \<longrightarrow> canonical_references s e w) \<and>
       (validate_benchmark pk s = [] \<longrightarrow>
          verify_workload_declarations p (spec_values w) = Inr () \<and>
          (canonical_references s e w \<longrightarrow> verify_spec_declarations p (spec_values s) = Inr ())))"
  using assms by (rule built_plan_verified)

theorem built_plan_verifies_witness:
  "\<exists>p. build_plan sample_pack ''b'' = Inr p \<and> verify_digests p = Inr () \<and>
       verify_spec_declarations p (spec_values sample_benchmark) = Inr ()"
proof -
  obtain p where p: "build_plan sample_pack ''b'' = Inr p" using sample_planned by blast
  moreover have "canonical_references sample_benchmark (sample_spec ''experiment'' ''e'' ''/p/experiments/e.env'' sample_experiment)
      (sample_spec ''workload'' ''w'' ''/p/workloads/w.env'' sample_workload)"
    by (simp add: canonical_references_def sample)
  ultimately show ?thesis
    using built_plan_verifies[OF sample_ready(1) p] sample_references_shown sample_accepted by auto
qed

text \<open>C18: The numbers of a plan that was built from a specification the catalogue accepts are in range: load and trials
  are positive, no more trials are required than run, and exactly one of the two measured lengths is set, as the mode
  says. Without that condition they need not be: \<open>Build\<close> validates the specification its id shows, which may be another.\<close>

theorem built_plan_is_in_range:
  assumes "show_spec pk ''benchmark'' input = Inr s" and "build_plan pk input = Inr p" and "validate_benchmark pk s = []"
  shows "plan_in_range p"
  using assms by (rule built_in_range)

theorem built_plan_is_in_range_witness:
  "\<exists>p. build_plan sample_pack ''b'' = Inr p \<and> plan_in_range p"
  using sample_planned built_plan_is_in_range[OF sample_ready(1) _ sample_accepted] by blast

text \<open>C19: An experiment never resolves to a file outside the pack: the reference has no parent component and the
  resolved file lies below the experiments of the resolved pack root, whatever symbolic links the pack holds.\<close>

theorem resolved_experiment_stays_in_pack:
  assumes "resolve_spec pk ''experiment'' input = Inr (path, ident)" and "absolute_cwd pk" and "real_paths_absolute pk"
  shows "\<not> has_parent_component input \<and>
         (\<exists>base. Option.bind (path_abs (pk_cwd pk) (pk_root pk)) (pk_real pk) = Some base \<and>
            below_directory (path_join [base, ''experiments'']) path)"
  using assms by (rule resolved_experiment)

theorem resolved_experiment_stays_in_pack_witness:
  "resolve_spec sample_pack ''experiment'' ''e'' = Inr (''/p/experiments/e.env'', ''e'') \<and> real_paths_absolute sample_pack \<and>
   \<not> has_parent_component ''e''"
proof -
  have "real_paths_absolute sample_pack" by (simp add: real_paths_absolute_def sample_pack_def)
  then show ?thesis
    using resolved_experiment_stays_in_pack[OF sample_resolved_e sample_ready(3)] sample_resolved_e by blast
qed

end
