(* ===== verification/Spec2Isabelle.thy ===== *)
theory Spec2Isabelle
  imports SeriesRun PgbenchLog PgbenchIntegrity RunState ABVerify PlanTheorems
begin

text \<open>
  Verification library of \<^emph>\<open>pgworkbench\<close>, a command line workbench for PostgreSQL experiments written
  in Go. The program runs benchmark series, records what it observed as evidence, and decides from the
  evidence. What it must never do is to report a verdict that its evidence does not carry; the theorems
  below are about that.

  \<^bold>\<open>The program.\<close> A plan is executed as a \<^emph>\<open>series\<close> of \<^emph>\<open>trials\<close>
  (\<^verbatim>\<open>internal/benchmarkrun\<close>). A trial runs \<^verbatim>\<open>pgbench\<close>; its summary (\<^verbatim>\<open>pgbenchresult/parser.go\<close>), its
  transaction log (\<^verbatim>\<open>pgbenchlog\<close>) and its phase journal (\<^verbatim>\<open>benchmarkphase\<close>) are parsed and checked
  against each other (\<^verbatim>\<open>pgbenchresult/integrity.go\<close>). The host is observed before and after
  (\<^verbatim>\<open>benchmarkqualify\<close>). The series is summarised (\<^verbatim>\<open>pgbenchresult/stats.go\<close>), written as a manifest and a
  verdict (\<^verbatim>\<open>runstate\<close>, \<^verbatim>\<open>envfile\<close>, \<^verbatim>\<open>evidence\<close>), and compared with others (\<^verbatim>\<open>benchmarkcompare\<close>). A
  \<^emph>\<open>counterbalanced\<close> run (\<^verbatim>\<open>benchmarkab\<close>) executes two series in alternating order under one protocol, observes the
  effective settings of every trial (\<^verbatim>\<open>benchmarksettings\<close>) and decides from blocks, host bookends and settings.
  Scenario packs declare which engine versions they accept (\<^verbatim>\<open>scenariopack/semver.go\<close>); their specifications are
  resolved and validated (\<^verbatim>\<open>speccatalog\<close>), and a plan is built from a benchmark specification (\<^verbatim>\<open>benchmarkplan\<close>).

  \<^bold>\<open>The theories.\<close> Each component has its theory; definitions keep the order and, in Isabelle's naming
  style, the names of the source, and a Go function returning \<open>(T, error)\<close> is a function into a sum whose
  left side is the error. Records have the fields of the structs, with a prefix for each struct.

  \<^item> \<open>Prelude\<close>: results, their binding and their loops; signed 64-bit arithmetic with wrap-around.
  \<^item> \<open>GoStrings\<close>, \<open>GoNumbers\<close>, \<open>GoScan\<close>, \<open>GoJson\<close>, \<open>GoTime\<close>, \<open>GoFloatText\<close>: what the program uses of the Go
    library. Strings are byte strings; white space is trimmed by its UTF-8 encodings; decimal integers;
    line scanning with the limit of the scanner's buffer; the JSON text of strings and objects, with a reader
    that shows it to be unambiguous; RFC 3339 timestamps over a proleptic Gregorian calendar, with the
    round trip for the years 0 to 9999; shortest decimal texts of floating point numbers.
  \<^item> \<open>Float64\<close>: binary64 by exact rational arithmetic and correct rounding. The two zeros are one value and
    no fused multiply-add is modelled; both are visible in no decision of the modelled code.
  \<^item> \<open>Semver\<close>: \<^verbatim>\<open>scenariopack/semver.go\<close>. The grammar of versions, the precedence of SemVer 2.0.0, engine
    constraints and the compatibility report.
  \<^item> \<open>Stats\<close>, \<open>BenchTypes\<close>, \<open>Compare\<close>: \<^verbatim>\<open>pgbenchresult/stats.go\<close>, the records of \<^verbatim>\<open>benchmarkrun/run.go\<close>,
    \<^verbatim>\<open>benchmarkcompare/compare.go\<close> and \<^verbatim>\<open>paired.go\<close>: summaries, outlier flags, the comparison of two series and
    the paired bootstrap with its generator and its decision rule.
  \<^item> \<open>SeriesRun\<close>: the execution state machine of \<^verbatim>\<open>benchmarkrun/run.go\<close> (\<open>Start\<close>, \<open>ExecuteTrial\<close>, \<open>Finish\<close>, \<open>Run\<close>,
    \<open>EvaluateSeries\<close>, the invalidation after a protocol identity drift). What a trial observes is an argument.
  \<^item> \<open>PgbenchLog\<close>, \<open>PgbenchSummary\<close>, \<open>PgbenchIntegrity\<close>: the parsers of the tool's output, their accumulators with
    overflow guards, and the checks that bind the two and the clock together.
  \<^item> \<open>BenchmarkPhase\<close>: \<^verbatim>\<open>benchmarkphase/phase.go\<close>. The journal parser, the lifecycle rules and \<open>Verify\<close>. The
    timestamps are an interface, the locale \<open>clock_interface\<close>, interpreted with the clock of \<open>GoTime\<close>.
  \<^item> \<open>HostSnapshot\<close>, \<open>HostQualify\<close>, \<open>HostInspect\<close>: \<^verbatim>\<open>internal/benchmarkqualify\<close>. The collection of a snapshot from probes, the
    gates of a policy, the artifact, its verification and the assessment of two artifacts. \<open>HostInspect\<close> proves
    the collector against the verifier.
  \<^item> \<open>GoCsv\<close>, \<open>BenchmarkSettings\<close>: the tab separated dialect of \<^verbatim>\<open>encoding/csv\<close> and \<^verbatim>\<open>benchmarksettings/settings.go\<close>: the
    setting names that a configuration assigns, the table of observed values with its bindings to run, protocol,
    trial and phase, the evidence with its digest, its verification, equivalence and difference.
  \<^item> \<open>ABProtocol\<close>, \<open>ABRun\<close>, \<open>ABDecision\<close>: \<^verbatim>\<open>benchmarkab/protocol.go\<close>, \<^verbatim>\<open>types.go\<close>, the derivations of \<^verbatim>\<open>run.go\<close> and the
    manifests of \<^verbatim>\<open>nativetoolchain/toolchain.go\<close>. \<open>ABProtocol\<close> builds and verifies a protocol; \<open>ABRun\<close> derives blocks,
    paired units, both assessments and the terminal status; \<open>ABDecision\<close> proves what a decided run rests on. A gate
    that explains why it is closed is an interface, the locale \<open>explained_gate\<close>, interpreted with the assessment of
    the bookends. The inspection of installed toolchains is an argument.
  \<^item> \<open>ABArtifact\<close>, \<open>ABVerify\<close>: \<^verbatim>\<open>benchmarkab/artifact.go\<close> and the writing half of \<^verbatim>\<open>run.go\<close>: the result record with its
    digest, the files of an artifact, and the verifier that derives the result again. A directory is a map from
    paths to contents; JSON decoding and the verification of the two series are arguments. \<open>ABVerify\<close> proves the
    verifier sound, and the writer against it.
  \<^item> \<open>GoPath\<close>, \<open>GoDuration\<close>, \<open>SpecCatalog\<close>, \<open>SpecBenchmark\<close>: slash separated paths and durations of the Go library, and
    \<^verbatim>\<open>speccatalog/catalog.go\<close>: listing, resolution and validation of the specifications of a pack. The file system
    is the record \<open>pack\<close> of functions; findings are texts.
  \<^item> \<open>BenchmarkPlan\<close>, \<open>PlanVerify\<close>, \<open>PlanRoundTrip\<close>, \<open>PlanTheorems\<close>: \<^verbatim>\<open>benchmarkplan/plan.go\<close>. A plan extends the record of its
    protocol identity; \<open>Build\<close> is composed of the fields that declarations determine, the digests of the files and
    the seal. A reader of declarations with a checked and a plain form is an interface, the locale
    \<open>declaration_reader\<close>, interpreted with the readers of integers, unsigned integers and floating point numbers.
    \<open>PlanVerify\<close> proves what the catalogue's validation establishes, \<open>PlanRoundTrip\<close> that it carries every check of
    the planner and of the verifier, \<open>PlanTheorems\<close> the properties on a sample pack.
  \<^item> \<open>Evidence\<close>, \<open>EnvFile\<close>, \<open>RunState\<close>: \<^verbatim>\<open>evidence/evidence.go\<close> (with SHA-256 as FIPS 180-4 defines it, its
    constants computed from the primes), \<^verbatim>\<open>envfile/envfile.go\<close> and \<^verbatim>\<open>runstate/state.go\<close>. Quoting of values is an
    interface, the locale \<open>env_quoting\<close>, interpreted with the writer of \<open>RunState\<close>.

  \<^bold>\<open>Groups of lemmas.\<close> For the parsers: an accepted text is exactly the rendering of a valid value (grammar and
  round trip), and an accepted document satisfies every relation the checks are meant to enforce. For the
  accumulators: exactness, no lost row and no overflow. For the state machine: invariants over all reachable
  executions, termination of the loop, and what a passed run rests on. For the decisions: when they are
  made, that they are exhaustive, and what they do not depend on. For plans: validation by the catalogue is a
  sound static check of the planner, and the plan of an accepted specification verifies against it. \<open>Build\<close> plans the
  specification its input shows and validates the one that the id of that shows; the two may differ, and the theorems
  name the one they are about. For the manifests: the round trip through the reader and the fixed point of the defaults.

  \<^bold>\<open>Bounds.\<close> Integers of 64 bits are \<^typ>\<open>int\<close> values with the wrap-around written out, or words. The scanner
  limits (65536 bytes for environment files, 1048576 bytes for logs and journals) are those of the code. All
  loops of the models are structural or have a measure; nothing runs on fuel.

  \<^bold>\<open>Texts.\<close> Errors are constructors that carry the values the Go message shows. Where the code keeps messages
  as data (reasons of trials, of assessments and of qualification) they are strings, and \<^verbatim>\<open>%q\<close> is the model of
  \<open>strconv.Quote\<close> in \<open>GoFloatText\<close>, which leaves printable and unprintable non-ASCII characters as they are.

  \<^bold>\<open>Not modelled.\<close> The command line, file system walks, process execution, the catalogues other than that of
  specifications, release tooling and rendering are input and output around the parts above; what they deliver
  (file contents, probe results, observations of a trial, the current time) is an argument of the model. JSON
  decoding is not modelled: the records are what the decoder returns. The manifest lists every part.
\<close>

end
